(* ===== verification/Prelude.thy ===== *)
theory Prelude
  imports Complex_Main "HOL-Library.List_Lexorder" "HOL-Library.Char_ord"
begin

text \<open>
  Shared material of the development: the error values the platform raises and the
  sequencing of fallible code, tables of rows with the handful of SQL statements the storage
  layer issues (select, insert, insert-or-ignore, upsert, guarded update, delete), the
  process environment (clock, hash functions, variables), Python's text helpers, and the two
  contracts that many operations share: an invariant kept by every operation, and a relation
  between the states before and after that every operation respects.
\<close>

named_theorems table_simps "evaluation of the SQL statements on tables of rows"
named_theorems pk_intros "primary keys stay unique under the SQL statements"

section \<open>Errors\<close>

text \<open>
  The exception classes of storage/errors.py and of the standard library that the code can
  raise. A fallible operation returns the error on the left.
\<close>

datatype err =
    TypeErr
  | AttributeErr
  | KeyErr
  | ValueErr string
  | DomainErr string
  | NotFound string
  | SecondPerson string
  | RuntimeErr string
  | AuthErr string

type_synonym 'a res = "err + 'a"

definition ebind :: "'a res \<Rightarrow> ('a \<Rightarrow> 'b res) \<Rightarrow> 'b res" where
  "ebind m f = (case m of Inl e \<Rightarrow> Inl e | Inr x \<Rightarrow> f x)"

lemma ebind_simps [simp]:
  "ebind (Inl e) f = Inl e" "ebind (Inr x) f = f x"
  by (simp_all add: ebind_def)

lemma ebind_eq_Inr: "ebind m f = Inr y \<longleftrightarrow> (\<exists>x. m = Inr x \<and> f x = Inr y)"
  by (cases m) auto

fun emap :: "('a \<Rightarrow> 'b res) \<Rightarrow> 'a list \<Rightarrow> 'b list res" where
  "emap f [] = Inr []"
| "emap f (x # xs) = ebind (f x) (\<lambda>y. ebind (emap f xs) (\<lambda>ys. Inr (y # ys)))"

lemma emap_Inr_all: "(\<And>x. x \<in> set xs \<Longrightarrow> \<exists>y. f x = Inr y) \<Longrightarrow> \<exists>ys. emap f xs = Inr ys"
  by (induction xs) (auto, metis ebind_simps(2))

lemma emap_pure [simp]: "emap (\<lambda>x. Inr (f x)) xs = Inr (map f xs)"
  by (induction xs) auto

lemma emap_Inr_length: "emap f xs = Inr ys \<Longrightarrow> length ys = length xs"
  by (induction xs arbitrary: ys) (auto simp: ebind_eq_Inr)

lemma emap_mem:
  assumes "emap f xs = Inr ys"
  shows "y \<in> set ys \<Longrightarrow> \<exists>x\<in>set xs. f x = Inr y" and "x \<in> set xs \<Longrightarrow> \<exists>y\<in>set ys. f x = Inr y"
proof -
  show "y \<in> set ys \<Longrightarrow> \<exists>x\<in>set xs. f x = Inr y" using assms by (induction xs arbitrary: ys) (fastforce simp: ebind_eq_Inr)+
  show "x \<in> set xs \<Longrightarrow> \<exists>y\<in>set ys. f x = Inr y" using assms by (induction xs arbitrary: ys) (fastforce simp: ebind_eq_Inr)+
qed

text \<open>
  A storage function runs inside \<open>with connect()\<close>: an exception rolls its statements back.
  \<open>committed\<close> is the state the database is left in.
\<close>

definition committed :: "('op \<Rightarrow> 's \<Rightarrow> ('s \<times> 'r) res) \<Rightarrow> 'op \<Rightarrow> 's \<Rightarrow> 's" where
  "committed f op s = (case f op s of Inl _ \<Rightarrow> s | Inr (s', _) \<Rightarrow> s')"

lemma committed_simps [simp]:
  "f op s = Inl e \<Longrightarrow> committed f op s = s"
  "f op s = Inr (s', r) \<Longrightarrow> committed f op s = s'"
  by (simp_all add: committed_def)

section \<open>The process environment\<close>

text \<open>
  \<open>env_now\<close> is \<open>datetime.now(UTC)\<close> in microseconds since the epoch; SQL's
  \<open>datetime('now')\<close> is the same clock cut to whole seconds. The hash functions and
  the printed form of a float are arguments of the model.
\<close>

record env =
  env_now :: int
  env_sha256 :: "string \<Rightarrow> string"
  env_hmac :: "string \<Rightarrow> string \<Rightarrow> string"
  env_getenv :: "string \<Rightarrow> string option"
  env_float_repr :: "rat \<Rightarrow> string"

abbreviation at_time :: "env \<Rightarrow> int \<Rightarrow> env" where
  "at_time e t \<equiv> e\<lparr>env_now := t\<rparr>"

abbreviation usec_per_sec :: int where "usec_per_sec \<equiv> 1000000"

definition db_now :: "env \<Rightarrow> int" where
  "db_now e = (env_now e div usec_per_sec) * usec_per_sec"

lemma db_now_le: "db_now e \<le> env_now e"
  unfolding db_now_def by (metis div_mult_mod_eq le_add_same_cancel1 pos_mod_sign zero_less_numeral)

definition add_days :: "int \<Rightarrow> int \<Rightarrow> int" where
  "add_days t days = t + days * 86400 * usec_per_sec"

section \<open>Python text helpers\<close>

definition sq :: string where "sq = [CHR 0x27]"

fun digit_char :: "nat \<Rightarrow> char" where
  "digit_char n = char_of (48 + n mod 10)"

fun str_nat :: "nat \<Rightarrow> string" where
  "str_nat n = (if n < 10 then [digit_char n] else str_nat (n div 10) @ [digit_char (n mod 10)])"

declare str_nat.simps [simp del]

definition str_int :: "int \<Rightarrow> string" where
  "str_int i = (if i < 0 then CHR ''-'' # str_nat (nat (- i)) else str_nat (nat i))"

fun join_with :: "string \<Rightarrow> string list \<Rightarrow> string" where
  "join_with sep [] = []"
| "join_with sep [x] = x"
| "join_with sep (x # y # ys) = x @ sep @ join_with sep (y # ys)"

abbreviation comma_join :: "string list \<Rightarrow> string" where
  "comma_join \<equiv> join_with '', ''"

definition py_space :: "char \<Rightarrow> bool" where
  "py_space c \<longleftrightarrow> of_char c \<in> {9, 10, 11, 12, 13, 28, 29, 30, 31, 32, 133, 160 :: nat}"

fun lstrip_by :: "(char \<Rightarrow> bool) \<Rightarrow> string \<Rightarrow> string" where
  "lstrip_by p [] = []"
| "lstrip_by p (c # cs) = (if p c then lstrip_by p cs else c # cs)"

definition rstrip_by :: "(char \<Rightarrow> bool) \<Rightarrow> string \<Rightarrow> string" where
  "rstrip_by p s = rev (lstrip_by p (rev s))"

definition py_strip :: "string \<Rightarrow> string" where
  "py_strip s = rstrip_by py_space (lstrip_by py_space s)"

definition lower_char :: "char \<Rightarrow> char" where
  "lower_char c = (let n = of_char c :: nat in
     if 65 \<le> n \<and> n \<le> 90 \<or> 192 \<le> n \<and> n \<le> 222 \<and> n \<noteq> 215 then char_of (n + 32) else c)"

definition py_lower :: "string \<Rightarrow> string" where
  "py_lower = map lower_char"

definition or_str :: "string option \<Rightarrow> string \<Rightarrow> string" where
  "or_str x d = (case x of None \<Rightarrow> d | Some s \<Rightarrow> if s = [] then d else s)"

definition nonempty :: "string option \<Rightarrow> bool" where
  "nonempty x = (case x of None \<Rightarrow> False | Some s \<Rightarrow> s \<noteq> [])"

lemma nonempty_simps [simp]: "nonempty None = False" "nonempty (Some s) = (s \<noteq> [])"
  by (simp_all add: nonempty_def)

definition sorted_set :: "string list \<Rightarrow> string list" where
  "sorted_set xs = sort (remdups xs)"

lemma set_sorted_set [simp]: "set (sorted_set xs) = set xs"
  by (simp add: sorted_set_def)

lemma sorted_set_canonical: "set xs = set ys \<Longrightarrow> sorted_set xs = sorted_set ys"
  unfolding sorted_set_def
  by (simp add: sorted_distinct_set_unique)

lemma sorted_set_idem [simp]: "sorted_set (sorted_set xs) = sorted_set xs"
  by (rule sorted_set_canonical) simp

section \<open>Decimal text is injective\<close>

definition decimal_value :: "string \<Rightarrow> nat" where
  "decimal_value s = foldl (\<lambda>n c. n * 10 + (of_char c - 48)) 0 s"

lemma of_char_digit_char [simp]: "(of_char (digit_char n) :: nat) = 48 + n mod 10"
proof -
  have "48 + n mod 10 < 256" by (simp add: add_strict_mono less_trans [of _ 10])
  then show ?thesis by (simp add: of_char_of)
qed

lemma decimal_value_str_nat [simp]: "decimal_value (str_nat n) = n"
proof (induction n rule: str_nat.induct)
  case (1 n)
  show ?case
  proof (cases "n < 10")
    case True
    then show ?thesis by (subst str_nat.simps) (simp add: decimal_value_def del: digit_char.simps)
  next
    case False
    then have "decimal_value (str_nat (n div 10)) = n div 10" by (rule 1)
    then show ?thesis using False by (subst str_nat.simps) (simp add: decimal_value_def del: digit_char.simps)
  qed
qed

lemma set_str_nat: "c \<in> set (str_nat n) \<Longrightarrow> 48 \<le> (of_char c :: nat) \<and> (of_char c :: nat) \<le> 57"
proof (induction n rule: str_nat.induct)
  case (1 n)
  have d: "(of_char (digit_char k) :: nat) \<le> 57" for k
    using of_char_digit_char [of k] by (simp del: of_char_digit_char digit_char.simps)
  show ?case
  proof (cases "n < 10")
    case True
    then show ?thesis using "1.prems" d by (subst (asm) str_nat.simps) (auto simp del: digit_char.simps)
  next
    case False
    then show ?thesis using "1.prems" "1.IH" d by (subst (asm) str_nat.simps) (auto simp del: digit_char.simps)
  qed
qed

lemma str_nat_inj: "str_nat m = str_nat n \<Longrightarrow> m = n"
  by (metis decimal_value_str_nat)

lemma minus_not_digit: "CHR ''-'' \<notin> set (str_nat n)"
  using set_str_nat [of "CHR ''-''" n] by auto

lemma str_int_inj: "str_int i = str_int j \<Longrightarrow> i = j"
  using str_nat_inj [of "nat i" "nat j"] str_nat_inj [of "nat (- i)" "nat (- j)"] minus_not_digit [of "nat i"] minus_not_digit [of "nat j"]
  unfolding str_int_def by (auto split: if_splits) (metis list.set_intros(1))+

lemma bar_not_in_str_int: "CHR ''|'' \<notin> set (str_int i)"
  using set_str_nat [of "CHR ''|''"] unfolding str_int_def by (auto split: if_splits)

lemma split_first_inj:
  assumes "c \<notin> set a" "c \<notin> set b" "a @ c # x = b @ c # y"
  shows "a = b \<and> x = y"
  using assms by (induction a arbitrary: b) (auto simp: Cons_eq_append_conv append_eq_Cons_conv)

lemma split_last_inj:
  assumes "c \<notin> set x" "c \<notin> set y" "a @ c # x = b @ c # y"
  shows "a = b \<and> x = y"
proof -
  have "rev x @ c # rev a = rev y @ c # rev b" using arg_cong [OF assms(3), of rev] by simp
  then have "rev x = rev y \<and> rev a = rev b" using assms(1,2) by (intro split_first_inj) simp_all
  then show ?thesis by simp
qed
section \<open>Tables\<close>

text \<open>
  A table is the list of its rows in insertion order. \<open>fetchone\<close> after a select by primary
  key is \<open>find\<close>; an \<open>UPDATE \<dots> WHERE\<close> reports as rowcount how many rows matched.
\<close>

definition exists_row :: "('r \<Rightarrow> bool) \<Rightarrow> 'r list \<Rightarrow> bool" where
  "exists_row p t = list_ex p t"

definition update_where :: "('r \<Rightarrow> bool) \<Rightarrow> ('r \<Rightarrow> 'r) \<Rightarrow> 'r list \<Rightarrow> 'r list" where
  "update_where p f t = map (\<lambda>r. if p r then f r else r) t"

definition insert_or_ignore :: "('r \<Rightarrow> 'k) \<Rightarrow> 'r \<Rightarrow> 'r list \<Rightarrow> 'r list" where
  "insert_or_ignore key r t = (if key r \<in> set (map key t) then t else t @ [r])"

definition upsert :: "('r \<Rightarrow> 'k) \<Rightarrow> ('r \<Rightarrow> 'r) \<Rightarrow> 'r \<Rightarrow> 'r list \<Rightarrow> 'r list" where
  "upsert key merge r t =
     (if key r \<in> set (map key t) then update_where (\<lambda>x. key x = key r) merge t else t @ [r])"

definition delete_where :: "('r \<Rightarrow> bool) \<Rightarrow> 'r list \<Rightarrow> 'r list" where
  "delete_where p t = filter (\<lambda>r. \<not> p r) t"

definition by_key :: "('r \<Rightarrow> 'k) \<Rightarrow> 'k \<Rightarrow> 'r list \<Rightarrow> 'r option" where
  "by_key key k t = find (\<lambda>r. key r = k) t"

definition pk :: "('r \<Rightarrow> 'k) \<Rightarrow> 'r list \<Rightarrow> bool" where
  "pk key t = distinct (map key t)"

lemma update_where_simps [simp, table_simps]:
  "update_where p f [] = []"
  "update_where p f (r # t) = (if p r then f r else r) # update_where p f t"
  by (simp_all add: update_where_def)

lemma length_update_where [simp]: "length (update_where p f t) = length t"
  by (simp add: update_where_def)

lemma set_update_where: "set (update_where p f t) = (\<lambda>r. if p r then f r else r) ` set t"
  by (simp add: update_where_def)

lemma update_where_keeps: "x \<in> set t \<Longrightarrow> \<not> p x \<Longrightarrow> x \<in> set (update_where p f t)"
  by (force simp: set_update_where)

lemma update_where_hits: "x \<in> set t \<Longrightarrow> p x \<Longrightarrow> f x \<in> set (update_where p f t)"
  by (force simp: set_update_where)

lemma update_whereE:
  assumes "x \<in> set (update_where p f t)"
  obtains (hit) y where "y \<in> set t" "p y" "x = f y" | (miss) "x \<in> set t" "\<not> p x"
proof -
  from assms obtain y where "y \<in> set t" "x = (if p y then f y else y)" unfolding set_update_where by blast
  then show thesis using hit [of y] miss by (cases "p y") simp_all
qed

lemma map_key_update_where:
  assumes "\<And>r. p r \<Longrightarrow> key (f r) = key r"
  shows "map key (update_where p f t) = map key t"
  using assms by (induction t) auto

lemma update_where_none: "(\<And>r. r \<in> set t \<Longrightarrow> \<not> p r) \<Longrightarrow> update_where p f t = t"
  by (induction t) auto

lemma find_map_preserved:
  assumes "\<And>r. q (g r) = q r"
  shows "find q (map g t) = map_option g (find q t)"
  using assms by (induction t) auto

lemma by_key_update_where:
  assumes "\<And>r. p r \<Longrightarrow> key (f r) = key r"
  shows "by_key key k (update_where p f t) = map_option (\<lambda>r. if p r then f r else r) (by_key key k t)"
  unfolding by_key_def update_where_def using assms by (intro find_map_preserved) auto

lemma by_key_Some: "by_key key k t = Some r \<Longrightarrow> r \<in> set t \<and> key r = k"
  unfolding by_key_def by (auto simp: find_Some_iff)

lemma by_key_None: "by_key key k t = None \<longleftrightarrow> k \<notin> key ` set t"
  unfolding by_key_def by (auto simp: find_None_iff)

lemma by_key_unique: "pk key t \<Longrightarrow> r \<in> set t \<Longrightarrow> by_key key (key r) t = Some r"
proof (induction t)
  case Nil
  then show ?case by simp
next
  case (Cons a t)
  show ?case
  proof (cases "key a = key r")
    case True
    with Cons.prems have "a = r" by (auto simp: pk_def)
    then show ?thesis by (simp add: by_key_def)
  next
    case False
    with Cons show ?thesis by (auto simp: by_key_def pk_def)
  qed
qed

lemma by_key_append:
  "by_key key k (t @ u) = (case by_key key k t of None \<Rightarrow> by_key key k u | Some r \<Rightarrow> Some r)"
  unfolding by_key_def by (induction t) auto

lemma by_key_insert_or_ignore:
  "by_key key k (insert_or_ignore key r t) =
     (case by_key key k t of Some x \<Rightarrow> Some x | None \<Rightarrow> if key r = k then Some r else None)"
proof (cases "key r \<in> set (map key t)")
  case True
  then show ?thesis
    by (auto simp: insert_or_ignore_def by_key_None split: option.splits)
next
  case False
  then show ?thesis
    by (auto simp: insert_or_ignore_def by_key_append split: option.splits) (simp_all add: by_key_def)
qed

lemma by_key_upsert:
  assumes "\<And>x. key (merge x) = key x"
  shows "by_key key k (upsert key merge r t) =
     (if k = key r then (case by_key key k t of None \<Rightarrow> Some r | Some x \<Rightarrow> Some (merge x)) else by_key key k t)"
proof (cases "key r \<in> set (map key t)")
  case True
  then obtain x where x: "by_key key (key r) t = Some x" using by_key_None [of key "key r" t] by auto
  have "by_key key k (upsert key merge r t) = map_option (\<lambda>x. if key x = key r then merge x else x) (by_key key k t)"
    using True assms by (simp add: upsert_def by_key_update_where)
  then show ?thesis using x by (auto simp: map_option_case dest: by_key_Some split: option.splits)
next
  case False
  then have "by_key key (key r) t = None" by (simp add: by_key_None)
  then show ?thesis using False by (auto simp: upsert_def by_key_append split: option.splits) (simp_all add: by_key_def)
qed

lemma insert_or_ignore_fresh: "key r \<notin> set (map key t) \<Longrightarrow> insert_or_ignore key r t = t @ [r]"
  by (simp add: insert_or_ignore_def)

lemma fold_insert_fresh:
  assumes "distinct (map key rows)" "set (map key rows) \<inter> set (map key t) = {}"
  shows "fold (insert_or_ignore key) rows t = t @ rows"
  using assms
proof (induction rows arbitrary: t)
  case (Cons r rows)
  have "insert_or_ignore key r t = t @ [r]" using Cons.prems by (intro insert_or_ignore_fresh) auto
  moreover have "set (map key rows) \<inter> set (map key (t @ [r])) = {}" using Cons.prems by auto
  ultimately show ?case using Cons by simp
qed simp

lemma find_mem: "find P xs = Some x \<Longrightarrow> x \<in> set xs \<and> P x"
  by (induction xs) (auto split: if_splits)

lemma find_sort_key_first:
  assumes "find P (sort_key k xs) = Some x"
  shows "x \<in> set xs" "P x" "\<And>y. y \<in> set xs \<Longrightarrow> k y < k x \<Longrightarrow> \<not> P y"
proof -
  obtain i where i: "i < length (sort_key k xs)" "P (sort_key k xs ! i)" "x = sort_key k xs ! i"
    "\<And>j. j < i \<Longrightarrow> \<not> P (sort_key k xs ! j)"
    using assms unfolding find_Some_iff by metis
  show "x \<in> set xs" "P x" using i(1-3) nth_mem [OF i(1)] by simp_all
  fix y
  assume y: "y \<in> set xs" "k y < k x"
  then obtain j where j: "j < length (sort_key k xs)" "y = sort_key k xs ! j" by (metis in_set_conv_nth set_sort)
  have "j < i"
  proof (rule ccontr)
    assume "\<not> j < i"
    then have "k (sort_key k xs ! i) \<le> k (sort_key k xs ! j)"
      using sorted_sort_key [of k xs] i(1) j(1) by (metis length_map not_le_imp_less nth_map sorted_nth_mono order_less_imp_le linorder_le_less_linear)
    then show False using y(2) i(3) j(2) by simp
  qed
  then show "\<not> P y" using i(4) j(2) by simp
qed

lemma upsertE:
  assumes "x \<in> set (upsert key merge r t)"
  obtains (new) "x = r" | (merged) y where "y \<in> set t" "key y = key r" "x = merge y" | (old) "x \<in> set t"
  using assms by (auto simp: upsert_def split: if_splits elim!: update_whereE)

lemma upsert_keeps: "y \<in> set t \<Longrightarrow> y \<in> set (upsert key merge r t) \<or> (key y = key r \<and> merge y \<in> set (upsert key merge r t))"
  by (auto simp: upsert_def intro: update_where_keeps update_where_hits)

lemma insert_or_ignore_keeps: "x \<in> set t \<Longrightarrow> x \<in> set (insert_or_ignore key r t)"
  by (simp add: insert_or_ignore_def)

lemma pk_Nil [simp, pk_intros]: "pk key []"
  by (simp add: pk_def)

lemma pk_update_where [pk_intros]:
  assumes "pk key t" and "\<And>r. p r \<Longrightarrow> key (f r) = key r"
  shows "pk key (update_where p f t)"
  using assms by (simp add: pk_def map_key_update_where)

lemma pk_insert_or_ignore [pk_intros]: "pk key t \<Longrightarrow> pk key (insert_or_ignore key r t)"
  by (simp add: pk_def insert_or_ignore_def)

lemma pk_upsert [pk_intros]:
  assumes "pk key t" and "\<And>x. key (merge x) = key x"
  shows "pk key (upsert key merge r t)"
  using assms by (auto simp: upsert_def intro!: pk_update_where) (auto simp: pk_def)

lemma pk_delete_where [pk_intros]: "pk key t \<Longrightarrow> pk key (delete_where p t)"
  unfolding pk_def delete_where_def by (induction t) auto

section \<open>A sample environment\<close>

text \<open>The environment of the concrete inputs that the properties are applied to: a clock and injective hashes.\<close>

definition sample_env :: "int \<Rightarrow> env" where
  "sample_env t = \<lparr>env_now = t, env_sha256 = (\<lambda>x. ''h:'' @ x), env_hmac = (\<lambda>k x. k @ x), env_getenv = (\<lambda>_. None),
     env_float_repr = (\<lambda>_. ''0.5'')\<rparr>"

section \<open>Contracts shared by many operations\<close>

text \<open>An invariant that every operation keeps holds after every sequence of operations.\<close>

locale invariant_ops =
  fixes step :: "'op \<Rightarrow> 's \<Rightarrow> 's" and inv :: "'s \<Rightarrow> bool"
  assumes step_inv: "inv s \<Longrightarrow> inv (step op s)"
begin

lemma run_inv: "inv s \<Longrightarrow> inv (fold step ops s)"
  by (induction ops arbitrary: s) (auto intro: step_inv)

end

text \<open>
  A preorder between states that every operation moves along (nothing is lost, nothing that
  was decided changes) relates the first and the last state of every run.
\<close>

locale monotone_ops = invariant_ops step inv
  for step :: "'op \<Rightarrow> 's \<Rightarrow> 's" and inv :: "'s \<Rightarrow> bool" +
  fixes rel :: "'s \<Rightarrow> 's \<Rightarrow> bool"
  assumes rel_refl: "rel s s"
    and rel_trans: "rel s t \<Longrightarrow> rel t u \<Longrightarrow> rel s u"
    and step_rel: "inv s \<Longrightarrow> rel s (step op s)"
begin

lemma run_rel: "inv s \<Longrightarrow> rel s (fold step ops s)"
proof (induction ops arbitrary: s)
  case Nil
  show ?case by (simp add: rel_refl)
next
  case (Cons op ops)
  from step_inv [OF Cons.prems] have "rel (step op s) (fold step ops (step op s))" by (rule Cons.IH)
  with step_rel [OF Cons.prems, of op] show ?case by (auto intro: rel_trans)
qed

end

end
