(* ===== verification/Json.thy ===== *)
theory Json
  imports Prelude
begin

text \<open>
  JSON values as Python holds them after \<open>json.loads\<close>, and what the code asks of them: the
  \<open>isinstance\<close> tests (a bool is an int to Python), \<open>dict.get\<close>, truth values, equality and the
  text \<open>encode_json\<close> writes. A TEXT column the code writes with \<open>encode_json\<close> and reads with
  \<open>decode_json\<close> holds the JSON value itself in the model. Floats are rationals, their printed
  form is an argument.
\<close>

datatype json =
    JNull
  | JBool bool
  | JInt int
  | JFloat rat
  | JStr string
  | JArr "json list"
  | JObj "(string \<times> json) list"

section \<open>isinstance, truth value\<close>

fun is_obj :: "json \<Rightarrow> bool" where "is_obj (JObj _) = True" | "is_obj _ = False"
fun is_arr :: "json \<Rightarrow> bool" where "is_arr (JArr _) = True" | "is_arr _ = False"
fun is_str :: "json \<Rightarrow> bool" where "is_str (JStr _) = True" | "is_str _ = False"
fun is_bool :: "json \<Rightarrow> bool" where "is_bool (JBool _) = True" | "is_bool _ = False"

text \<open>\<open>isinstance(v, int)\<close> holds of a bool too; the code excludes bools by hand.\<close>

fun is_int :: "json \<Rightarrow> bool" where
  "is_int (JInt _) = True" | "is_int (JBool _) = True" | "is_int _ = False"

fun is_number :: "json \<Rightarrow> bool" where
  "is_number (JFloat _) = True" | "is_number v = is_int v"

fun num_of :: "json \<Rightarrow> rat" where
  "num_of (JInt i) = of_int i"
| "num_of (JFloat r) = r"
| "num_of (JBool b) = (if b then 1 else 0)"
| "num_of _ = 0"

fun int_of :: "json \<Rightarrow> int" where
  "int_of (JInt i) = i" | "int_of (JBool b) = (if b then 1 else 0)" | "int_of (JFloat r) = (if r < 0 then - \<lfloor>- r\<rfloor> else \<lfloor>r\<rfloor>)" | "int_of _ = 0"

fun str_of :: "json \<Rightarrow> string" where
  "str_of (JStr s) = s" | "str_of _ = []"

fun truthy :: "json \<Rightarrow> bool" where
  "truthy JNull = False"
| "truthy (JBool b) = b"
| "truthy (JInt i) = (i \<noteq> 0)"
| "truthy (JFloat r) = (r \<noteq> 0)"
| "truthy (JStr s) = (s \<noteq> [])"
| "truthy (JArr xs) = (xs \<noteq> [])"
| "truthy (JObj d) = (d \<noteq> [])"

text \<open>Python's \<open>a or b\<close>.\<close>

definition py_or :: "json \<Rightarrow> json \<Rightarrow> json" where
  "py_or a b = (if truthy a then a else b)"

text \<open>A value can be looked up in a set only when it is hashable; a list or a dict is not.\<close>

fun hashable :: "json \<Rightarrow> bool" where
  "hashable (JArr _) = False" | "hashable (JObj _) = False" | "hashable _ = True"

section \<open>Dictionaries\<close>

type_synonym dict = "(string \<times> json) list"

definition dget :: "dict \<Rightarrow> string \<Rightarrow> json \<Rightarrow> json" where
  "dget d k v = (case map_of d k of None \<Rightarrow> v | Some x \<Rightarrow> x)"

definition has_key :: "dict \<Rightarrow> string \<Rightarrow> bool" where
  "has_key d k = (map_of d k \<noteq> None)"

definition unknown_keys :: "dict \<Rightarrow> string list \<Rightarrow> string list" where
  "unknown_keys d known = sort (filter (\<lambda>k. k \<notin> set known) (remdups (map fst d)))"

text \<open>\<open>v.get(k, default)\<close> on any value: an attribute error unless it is a dict.\<close>

fun jget :: "json \<Rightarrow> string \<Rightarrow> json \<Rightarrow> json res" where
  "jget (JObj d) k v = Inr (dget d k v)"
| "jget _ k v = Inl AttributeErr"

text \<open>\<open>for x in v\<close>: lists only; anything else the code iterates is an error of the caller.\<close>

fun jiter :: "json \<Rightarrow> json list res" where
  "jiter (JArr xs) = Inr xs"
| "jiter JNull = Inl TypeErr"
| "jiter (JBool _) = Inl TypeErr"
| "jiter (JInt _) = Inl TypeErr"
| "jiter (JFloat _) = Inl TypeErr"
| "jiter (JStr s) = Inr (map (\<lambda>c. JStr [c]) s)"
| "jiter (JObj d) = Inr (map (JStr \<circ> fst) d)"

section \<open>Equality\<close>

text \<open>Python compares numbers and bools by value and dicts without regard to order.\<close>

function py_eq :: "json \<Rightarrow> json \<Rightarrow> bool" where
  "py_eq a b =
     (if is_number a \<and> is_number b then num_of a = num_of b
      else case (a, b) of
        (JNull, JNull) \<Rightarrow> True
      | (JStr s, JStr t) \<Rightarrow> s = t
      | (JArr xs, JArr ys) \<Rightarrow> length xs = length ys \<and> list_all (\<lambda>(x, y). py_eq x y) (zip xs ys)
      | (JObj d, JObj f) \<Rightarrow>
          set (map fst d) = set (map fst f) \<and>
          list_all (\<lambda>(k, v). case map_of f k of None \<Rightarrow> False | Some w \<Rightarrow> py_eq v w) d
      | _ \<Rightarrow> False)"
  by pat_completeness auto

lemma size_json_mem_arr: "x \<in> set xs \<Longrightarrow> size x < Suc (size_list size xs)"
  using size_list_estimation' [of x xs "size x" size] by simp

lemma size_zip_left: "(x, y) \<in> set (zip xs ys) \<Longrightarrow> size (x :: json) < Suc (size_list size xs)"
  by (auto dest: set_zip_leftD intro: size_json_mem_arr)

lemma size_json_mem_obj: "(k, v) \<in> set d \<Longrightarrow> size v < Suc (size_list (size_prod (\<lambda>_. 0) size) d)"
  using size_list_estimation' [of "(k, v)" d "size v" "size_prod (\<lambda>_. 0) size"] by simp

termination py_eq
  by (relation "measure (size \<circ> fst)")
    (auto dest: size_zip_left size_json_mem_obj)

declare py_eq.simps [simp del]

section \<open>encode_json\<close>

definition hex_digit :: "nat \<Rightarrow> char" where
  "hex_digit n = (if n < 10 then char_of (48 + n) else char_of (87 + n))"

definition json_char :: "char \<Rightarrow> string" where
  "json_char c =
     (let n = of_char c :: nat in
      if n = 34 then [CHR 0x5C, CHR 0x22]
      else if n = 92 then [CHR 0x5C, CHR 0x5C]
      else if n = 10 then [CHR 0x5C, CHR ''n'']
      else if n = 13 then [CHR 0x5C, CHR ''r'']
      else if n = 9 then [CHR 0x5C, CHR ''t'']
      else if n = 12 then [CHR 0x5C, CHR ''f'']
      else if n = 8 then [CHR 0x5C, CHR ''b'']
      else if n < 32 \<or> 126 < n then [CHR 0x5C, CHR ''u'', CHR ''0'', CHR ''0'', hex_digit (n div 16), hex_digit (n mod 16)]
      else [c])"

definition json_string :: "string \<Rightarrow> string" where
  "json_string s = CHR 0x22 # concat (map json_char s) @ [CHR 0x22]"

function encode_json :: "(rat \<Rightarrow> string) \<Rightarrow> json \<Rightarrow> string" where
  "encode_json fr JNull = ''null''"
| "encode_json fr (JBool b) = (if b then ''true'' else ''false'')"
| "encode_json fr (JInt i) = str_int i"
| "encode_json fr (JFloat r) = fr r"
| "encode_json fr (JStr s) = json_string s"
| "encode_json fr (JArr xs) = ''['' @ comma_join (map (encode_json fr) xs) @ '']''"
| "encode_json fr (JObj d) =
     ''{'' @ comma_join (map (\<lambda>(k, v). json_string k @ '': '' @ encode_json fr v) (sort_key fst d)) @ ''}''"
  by pat_completeness auto
termination
  by (relation "measure (size \<circ> snd)") (auto dest: size_json_mem_arr size_json_mem_obj)

lemma jget_Inr: "is_obj v \<Longrightarrow> \<exists>x. jget v k d = Inr x"
  by (cases v) auto

lemma dget_simps [simp]:
  "dget [] k v = v"
  "dget ((a, x) # d) k v = (if k = a then x else dget d k v)"
  by (simp_all add: dget_def)

lemma dget_or: "dget d k v = v \<or> (k, dget d k v) \<in> set d"
  by (auto simp: dget_def dest: map_of_SomeD split: option.splits)

end
