(* ===== verification/Timestamps.thy ===== *)
theory Timestamps
  imports Prelude
begin

text \<open>
  Timestamps. A timestamp column holds an instant, in microseconds since the epoch; this
  theory holds the text forms Python's \<open>datetime\<close> writes (the proleptic Gregorian calendar of
  the standard library, \<open>strftime\<close> and \<open>isoformat\<close>) and the reading of calendar dates by
  \<open>date.fromisoformat\<close>. The theory Time_Text shows that a day read back from its text is the day.
\<close>

section \<open>The calendar\<close>

record civil =
  cv_year :: int
  cv_month :: int
  cv_day :: int
  cv_hour :: int
  cv_minute :: int
  cv_second :: int
  cv_micro :: int

definition is_leap :: "int \<Rightarrow> bool" where
  "is_leap y \<longleftrightarrow> y mod 4 = 0 \<and> (y mod 100 \<noteq> 0 \<or> y mod 400 = 0)"

definition month_lengths :: "bool \<Rightarrow> int list" where
  "month_lengths leap = [31, if leap then 29 else 28, 31, 30, 31, 30, 31, 31, 30, 31, 30, 31]"

fun month_day :: "int list \<Rightarrow> int \<Rightarrow> int \<Rightarrow> int \<times> int" where
  "month_day [] m n = (m, n + 1)"
| "month_day (l # ls) m n = (if n < l \<or> ls = [] then (m, n + 1) else month_day ls (m + 1) (n - l))"

text \<open>Days since 0001-01-01 (day 0) to year, month, day, by 400-, 100-, 4- and 1-year cycles.\<close>

definition ord2ymd :: "int \<Rightarrow> int \<times> int \<times> int" where
  "ord2ymd d =
     (let n400 = d div 146097; r = d mod 146097;
          n100 = min (r div 36524) 3; r1 = r - n100 * 36524;
          n4 = r1 div 1461; r2 = r1 mod 1461;
          n1 = min (r2 div 365) 3; r3 = r2 - n1 * 365;
          y = n400 * 400 + n100 * 100 + n4 * 4 + n1 + 1;
          (m, dd) = month_day (month_lengths (is_leap y)) 1 r3
      in (y, m, dd))"

definition epoch_day :: int where "epoch_day = 719162"

definition civil_of :: "int \<Rightarrow> civil" where
  "civil_of t =
     (let s = t div usec_per_sec; day = s div 86400; sod = s mod 86400;
          (y, m, d) = ord2ymd (day + epoch_day)
      in \<lparr>cv_year = y, cv_month = m, cv_day = d, cv_hour = sod div 3600,
          cv_minute = sod mod 3600 div 60, cv_second = sod mod 60, cv_micro = t mod usec_per_sec\<rparr>)"

section \<open>Text forms\<close>

fun pad_nat :: "nat \<Rightarrow> nat \<Rightarrow> string" where
  "pad_nat 0 n = []"
| "pad_nat (Suc w) n = pad_nat w (n div 10) @ [digit_char n]"

definition pad :: "nat \<Rightarrow> int \<Rightarrow> string" where
  "pad w i = pad_nat w (nat i)"

definition date_text :: "civil \<Rightarrow> string" where
  "date_text c = pad 4 (cv_year c) @ ''-'' @ pad 2 (cv_month c) @ ''-'' @ pad 2 (cv_day c)"

definition clock_text :: "civil \<Rightarrow> string" where
  "clock_text c = pad 2 (cv_hour c) @ '':'' @ pad 2 (cv_minute c) @ '':'' @ pad 2 (cv_second c)"

definition db_text :: "int \<Rightarrow> string" where
  "db_text t = (let c = civil_of t in date_text c @ '' '' @ clock_text c)"

definition zulu_text :: "int \<Rightarrow> string" where
  "zulu_text t = (let c = civil_of t in date_text c @ ''T'' @ clock_text c @ ''Z'')"

definition iso_civil :: "civil \<Rightarrow> string" where
  "iso_civil c = date_text c @ ''T'' @ clock_text c @
     (if cv_micro c = 0 then [] else CHR ''.'' # pad 6 (cv_micro c)) @ ''+00:00''"

definition isoformat :: "int \<Rightarrow> string" where
  "isoformat t = iso_civil (civil_of t)"

section \<open>Dates\<close>

text \<open>
  A \<open>date\<close> is its day number (0001-01-01 is day 0). \<open>date.fromisoformat\<close> reads the calendar and
  the week forms, with or without separators.
\<close>

definition days_before_year :: "int \<Rightarrow> int" where
  "days_before_year y = (let k = y - 1 in k * 365 + k div 4 - k div 100 + k div 400)"

definition days_before_month :: "int \<Rightarrow> int \<Rightarrow> int" where
  "days_before_month y m = sum_list (take (nat (m - 1)) (month_lengths (is_leap y)))"

definition make_date :: "int \<Rightarrow> int \<Rightarrow> int \<Rightarrow> int option" where
  "make_date y m d =
     (if 1 \<le> y \<and> y \<le> 9999 \<and> 1 \<le> m \<and> m \<le> 12 \<and> 1 \<le> d \<and> d \<le> month_lengths (is_leap y) ! nat (m - 1)
      then Some (days_before_year y + days_before_month y m + d - 1) else None)"

definition MAX_DAY :: int where "MAX_DAY = 3652058"

definition week_date :: "int \<Rightarrow> int \<Rightarrow> int \<Rightarrow> int option" where
  "week_date y w d =
     (let jan1 = days_before_year y; wd = jan1 mod 7;
          monday1 = (if wd > 3 then jan1 - wd + 7 else jan1 - wd);
          long = (wd = 3 \<or> wd = 2 \<and> is_leap y);
          day = monday1 + (w - 1) * 7 + (d - 1)
      in if 1 \<le> y \<and> (1 \<le> w \<and> w \<le> 52 \<or> w = 53 \<and> long) \<and> 1 \<le> d \<and> d \<le> 7 \<and> day \<le> MAX_DAY
         then Some day else None)"

definition is_digit :: "char \<Rightarrow> bool" where
  "is_digit c \<longleftrightarrow> 48 \<le> (of_char c :: nat) \<and> (of_char c :: nat) \<le> 57"

text \<open>The number written by a non-empty run of digits.\<close>

definition digits :: "string \<Rightarrow> int option" where
  "digits s = (if s \<noteq> [] \<and> list_all is_digit s
     then Some (foldl (\<lambda>n c. n * 10 + (int (of_char c) - 48)) 0 s) else None)"

definition substr :: "string \<Rightarrow> nat \<Rightarrow> nat \<Rightarrow> string" where
  "substr s i n = take n (drop i s)"

definition date_fromisoformat :: "string \<Rightarrow> int option" where
  "date_fromisoformat s =
     (if length s \<notin> {7, 8, 10} then None
      else case digits (substr s 0 4) of
        None \<Rightarrow> None
      | Some y \<Rightarrow>
          let sep = (substr s 4 1 = ''-''); pos = (if sep then 5 else 4)
          in if substr s pos 1 = ''W'' then
               (case digits (substr s (pos + 1) 2) of
                  None \<Rightarrow> None
                | Some w \<Rightarrow>
                    if length s = pos + 3 then week_date y w 1
                    else if (substr s (pos + 3) 1 = ''-'') \<noteq> sep then None
                    else let p = pos + 3 + (if sep then 1 else 0)
                         in if length s \<noteq> p + 1 then None
                            else (case digits (substr s p 1) of None \<Rightarrow> None | Some d \<Rightarrow> week_date y w d))
             else
               (case digits (substr s pos 2) of
                  None \<Rightarrow> None
                | Some m \<Rightarrow>
                    if (substr s (pos + 2) 1 = ''-'') \<noteq> sep then None
                    else let p = pos + 2 + (if sep then 1 else 0)
                         in if length s \<noteq> p + 2 then None
                            else (case digits (substr s p 2) of None \<Rightarrow> None | Some d \<Rightarrow> make_date y m d)))"

definition date_iso :: "int \<Rightarrow> string" where
  "date_iso day = (case ord2ymd day of (y, m, d) \<Rightarrow> pad 4 y @ ''-'' @ pad 2 m @ ''-'' @ pad 2 d)"

definition day_of :: "int \<Rightarrow> int" where
  "day_of t = t div (86400 * usec_per_sec) + epoch_day"

end
