(* ===== verification/Schema.thy ===== *)
theory Schema
  imports Json Timestamps
begin

text \<open>
  The tables of the platform database: one record per CREATE TABLE, one field per column (the
  prefix of a field names its table), and the record \<open>db\<close> of all tables. A nullable column is
  an option; a JSON column holds the JSON value; a timestamp column holds the instant
  and a date column the day number.
\<close>

section \<open>People and roles (storage/workflow.py)\<close>

record platform_user =
  pu_user_ref :: string
  pu_display_name :: string
  pu_status :: string
  pu_created_at :: int
  pu_updated_at :: int
  pu_email :: "string option"
  pu_password_hash :: "string option"
  pu_must_change_password :: bool
  pu_platform_role :: "string option"
  pu_tenant_id :: "string option"
  pu_mfa_secret :: "string option"
  pu_mfa_pending_secret :: "string option"
  pu_mfa_enabled_at :: "int option"
  pu_mfa_last_counter :: "int option"
  pu_external_id :: "string option"

record session =
  se_token :: string
  se_user_ref :: string
  se_created_at :: int
  se_expires_at :: int
  se_last_seen_at :: "int option"

record role_permission =
  rp_role :: string
  rp_permission :: string

record role_assignment =
  ra_id :: string
  ra_tenant_id :: "string option"
  ra_project :: "string option"
  ra_environment :: "string option"
  ra_user_ref :: string
  ra_role :: string
  ra_status :: string
  ra_created_at :: int
  ra_updated_at :: int

section \<open>Organizations, throttling, second factors and ingestion keys\<close>

record organization =
  og_tenant_id :: string
  og_name :: string
  og_status :: string
  og_created_by :: string
  og_created_at :: int
  og_updated_at :: int
  og_require_mfa :: bool
  og_retention_days :: "int option"

record throttle_row =
  lt_subject :: string
  lt_failed_count :: int
  lt_first_failed_at :: "int option"
  lt_locked_until :: "int option"

record recovery_code =
  mr_user_ref :: string
  mr_code_hash :: string
  mr_created_at :: int
  mr_used_at :: "int option"

record mfa_challenge =
  mc_token :: string
  mc_user_ref :: string
  mc_attempts :: int
  mc_created_at :: int
  mc_expires_at :: int

section \<open>Identity providers (storage/scim.py, storage/sso.py, storage/saml.py)\<close>

record scim_token =
  stk_token_id :: string
  stk_token_hash :: string
  stk_tenant_id :: string
  stk_name :: string
  stk_status :: string
  stk_created_by :: "string option"
  stk_created_at :: int
  stk_last_used_at :: "int option"

record sso_config =
  sg_tenant_id :: string
  sg_issuer :: string
  sg_client_id :: string
  sg_client_secret :: string
  sg_authorization_endpoint :: string
  sg_token_endpoint :: string
  sg_jwks_uri :: string
  sg_default_role :: string
  sg_allowed_email_domain :: "string option"
  sg_enabled :: bool
  sg_created_by :: "string option"
  sg_created_at :: int
  sg_updated_at :: int

record sso_state =
  sn_state :: string
  sn_tenant_id :: string
  sn_nonce :: string
  sn_code_verifier :: string
  sn_created_at :: int
  sn_expires_at :: int

record saml_config =
  sm_tenant_id :: string
  sm_idp_entity_id :: string
  sm_idp_sso_url :: string
  sm_idp_certificate :: string
  sm_default_role :: string
  sm_allowed_email_domain :: "string option"
  sm_enabled :: bool
  sm_created_by :: "string option"
  sm_created_at :: int
  sm_updated_at :: int

record saml_request =
  sr_request_id :: string
  sr_tenant_id :: string
  sr_created_at :: int
  sr_expires_at :: int

record ingestion_key =
  ik_key_id :: string
  ik_key_hash :: string
  ik_tenant_id :: string
  ik_name :: string
  ik_status :: string
  ik_created_by :: "string option"
  ik_created_at :: int
  ik_last_used_at :: "int option"

section \<open>Review routing and ownership (storage/workflow.py)\<close>

record queue_policy =
  qp_tenant_id :: string
  qp_policy_id :: string
  qp_task_type :: string
  qp_assigned_role :: string
  qp_due_days :: int
  qp_escalation_days :: int
  qp_source :: string
  qp_created_at :: int
  qp_updated_at :: int

record owner_policy =
  op_tenant_id :: string
  op_policy_id :: string
  op_subject_type :: string
  op_owner_role :: string
  op_applies_to_status :: "string option"
  op_source :: string
  op_created_at :: int
  op_updated_at :: int

record owner_assignment =
  oa_id :: string
  oa_tenant_id :: "string option"
  oa_project :: string
  oa_environment :: string
  oa_application_name :: string
  oa_subject_type :: string
  oa_subject_name :: string
  oa_owner_role :: string
  oa_owner_ref :: "string option"
  oa_status :: string
  oa_source :: string
  oa_created_at :: int
  oa_updated_at :: int

record governance_decision =
  gd_id :: string
  gd_tenant_id :: "string option"
  gd_project :: string
  gd_environment :: string
  gd_application_name :: string
  gd_target_type :: string
  gd_target_id :: string
  gd_decision :: string
  gd_rationale :: string
  gd_actor_ref :: string
  gd_created_at :: int

record governance_exception =
  ge_id :: string
  ge_tenant_id :: "string option"
  ge_project :: string
  ge_environment :: string
  ge_application_name :: string
  ge_target_type :: string
  ge_target_id :: string
  ge_reason :: string
  ge_compensating_control :: string
  ge_expires_at :: string
  ge_status :: string
  ge_actor_ref :: string
  ge_created_at :: int
  ge_updated_at :: int

section \<open>Lifecycle (storage/lifecycle.py) and the review queue\<close>

record lifecycle_fingerprint =
  lf_id :: string
  lf_tenant_id :: "string option"
  lf_project :: string
  lf_environment :: string
  lf_application_name :: string
  lf_subject_type :: string
  lf_subject_name :: string
  lf_hash :: string
  lf_payload :: "(string \<times> string list) list"
  lf_first_seen :: string
  lf_last_seen :: string

record change_event =
  ce_id :: string
  ce_tenant_id :: "string option"
  ce_project :: string
  ce_environment :: string
  ce_application_name :: string
  ce_subject_type :: string
  ce_subject_name :: string
  ce_change_type :: string
  ce_severity :: string
  ce_status :: string
  ce_previous_hash :: string
  ce_current_hash :: string
  ce_previous_payload :: "(string \<times> string list) list"
  ce_current_payload :: "(string \<times> string list) list"
  ce_changed_fields :: "string list"
  ce_evidence_trace_ids :: "string list"
  ce_rationale :: string
  ce_detected_at :: string

record review_task =
  rt_id :: string
  rt_change_id :: string
  rt_tenant_id :: "string option"
  rt_project :: string
  rt_environment :: string
  rt_application_name :: string
  rt_task_type :: string
  rt_status :: string
  rt_priority :: string
  rt_title :: string
  rt_rationale :: string
  rt_created_at :: int
  rt_updated_at :: int
  rt_assigned_role :: "string option"
  rt_assigned_to :: "string option"
  rt_due_at :: "int option"
  rt_escalation_status :: string
  rt_escalated_at :: "int option"

section \<open>Use cases (storage/intake.py), assessments and findings (storage/governance_policy.py)\<close>

record use_case =
  uc_intake_id :: string
  uc_tenant_id :: "string option"
  uc_project :: string
  uc_environment :: string
  uc_application_name :: string
  uc_use_case :: string
  uc_description :: string
  uc_intended_purpose :: string
  uc_data_sensitivity :: string
  uc_autonomy_level :: string
  uc_affects_individuals :: bool
  uc_risk_tier :: string
  uc_status :: string
  uc_submitted_by :: string
  uc_custom_fields :: "json option"
  uc_created_at :: int
  uc_updated_at :: int

record control_assessment =
  ca_id :: string
  ca_tenant_id :: "string option"
  ca_project :: string
  ca_environment :: string
  ca_application_name :: string
  ca_control_id :: string
  ca_control_name :: string
  ca_status :: string
  ca_framework_refs :: "string list"
  ca_evidence_event_types :: "string list"
  ca_required_fields :: "string list"
  ca_evidence_trace_ids :: "string list"
  ca_evidence_count :: int
  ca_rationale :: string
  ca_evaluated_at :: int

record risk_finding =
  rf_id :: string
  rf_tenant_id :: "string option"
  rf_project :: string
  rf_environment :: string
  rf_application_name :: string
  rf_rule_id :: string
  rf_risk :: string
  rf_severity :: string
  rf_status :: string
  rf_rationale :: string
  rf_framework_refs :: "string list"
  rf_evidence_trace_ids :: "string list"
  rf_evidence_summary :: string
  rf_evaluated_at :: int

section \<open>The policy engine (storage/policy_engine.py, storage/vendor_evidence.py)\<close>

record policy_row =
  gp_tenant_id :: string
  gp_version :: int
  gp_status :: string
  gp_body :: json
  gp_body_hash :: string
  gp_created_by :: string
  gp_created_at :: int
  gp_activated_at :: "int option"

record stage_row =
  st_id :: string
  st_tenant_id :: "string option"
  st_project :: string
  st_environment :: string
  st_application_name :: string
  st_subject_type :: string
  st_subject_id :: string
  st_review_round :: int
  st_policy_tenant :: string
  st_policy_version :: int
  st_index :: int
  st_required_role :: string
  st_label :: "string option"
  st_mode :: string
  st_status :: string
  st_decision_id :: "string option"
  st_decided_by :: "string option"
  st_created_at :: int
  st_decided_at :: "int option"

record vendor_row =
  vr_id :: string
  vr_tenant_id :: string
  vr_name :: string
  vr_providers :: "string list"
  vr_status :: string
  vr_approved_models :: "string list option"
  vr_notes_ref :: "string option"
  vr_review_round :: int
  vr_created_by :: string
  vr_submitted_by :: "string option"
  vr_created_at :: int
  vr_updated_at :: int
  vr_reviewed_at :: "int option"

record evidence_ref =
  ev_id :: string
  ev_tenant_id :: string
  ev_vendor_id :: string
  ev_kind :: string
  ev_name :: string
  ev_identifier :: "string option"
  ev_issued_at :: int
  ev_expires_at :: int
  ev_document_hash :: "string option"
  ev_status :: string
  ev_created_by :: string
  ev_created_at :: int
  ev_updated_at :: int
  ev_expired_at :: "int option"
  ev_expiry_notice_sent_at :: "int option"

section \<open>Notifications (storage/notifications.py)\<close>

record outbox_row =
  ob_id :: int
  ob_tenant_id :: "string option"
  ob_channel :: string
  ob_event_type :: string
  ob_target :: string
  ob_subject :: "string option"
  ob_payload :: json
  ob_status :: string
  ob_attempts :: int
  ob_last_error :: "string option"
  ob_created_at :: int
  ob_sent_at :: "int option"
  ob_next_attempt_at :: "int option"
  ob_claimed_by :: "string option"
  ob_claimed_at :: "int option"

record webhook_row =
  wh_id :: string
  wh_tenant_id :: string
  wh_name :: string
  wh_url :: string
  wh_secret :: string
  wh_events :: "string list"
  wh_format :: string
  wh_status :: string
  wh_created_by :: "string option"
  wh_created_at :: int
  wh_last_delivery_at :: "int option"
  wh_last_status :: "string option"

record invite_row =
  iv_token_hash :: string
  iv_user_ref :: string
  iv_tenant_id :: string
  iv_created_by :: "string option"
  iv_created_at :: int
  iv_expires_at :: int
  iv_used_at :: "int option"

section \<open>Telemetry (storage/raw_events.py, storage/entities.py, storage/prompts.py)\<close>

text \<open>
  Event times are the text the reporting client sent (the ingestion normalizes it); in \<open>sdk_events\<close>
  \<open>sk_raw_event\<close> is the whole event and the last four columns are the fold ledger.
\<close>

record sdk_event =
  sk_id :: int
  sk_event_type :: string
  sk_schema_version :: string
  sk_trace_id :: string
  sk_span_id :: string
  sk_parent_span_id :: "string option"
  sk_timestamp :: string
  sk_service :: string
  sk_environment :: string
  sk_project :: string
  sk_system :: "string option"
  sk_name :: "string option"
  sk_status :: string
  sk_duration_ms :: "rat option"
  sk_tenant_id :: "string option"
  sk_user_id :: "string option"
  sk_application_name :: "string option"
  sk_workflow_name :: "string option"
  sk_use_case :: "string option"
  sk_model_purpose :: "string option"
  sk_provider :: "string option"
  sk_model :: "string option"
  sk_operation :: "string option"
  sk_input_tokens :: int
  sk_output_tokens :: int
  sk_raw_event :: json
  sk_ingested_at :: "string option"
  sk_folded_at :: "string option"
  sk_counted_at :: "string option"
  sk_fold_attempts :: int
  sk_fold_error :: "string option"

record application =
  ga_entity_id :: string
  ga_tenant_id :: "string option"
  ga_project :: string
  ga_environment :: string
  ga_application_name :: string
  ga_use_cases :: "string list"
  ga_model_purposes :: "string list"
  ga_providers :: "string list"
  ga_models :: "string list"
  ga_model_calls :: int
  ga_errors :: int
  ga_input_tokens :: int
  ga_output_tokens :: int
  ga_first_seen :: string
  ga_last_seen :: string

record workflow_row =
  gw_entity_id :: string
  gw_tenant_id :: "string option"
  gw_project :: string
  gw_environment :: string
  gw_workflow_name :: string
  gw_applications :: "string list"
  gw_providers :: "string list"
  gw_models :: "string list"
  gw_model_calls :: int
  gw_errors :: int
  gw_input_tokens :: int
  gw_output_tokens :: int
  gw_first_seen :: string
  gw_last_seen :: string

record model_row =
  gm_entity_id :: string
  gm_tenant_id :: "string option"
  gm_project :: string
  gm_environment :: string
  gm_provider :: string
  gm_model :: string
  gm_operations :: "string list"
  gm_applications :: "string list"
  gm_model_calls :: int
  gm_errors :: int
  gm_input_tokens :: int
  gm_output_tokens :: int
  gm_first_seen :: string
  gm_last_seen :: string

record provider_row =
  gv_entity_id :: string
  gv_tenant_id :: "string option"
  gv_project :: string
  gv_environment :: string
  gv_provider :: string
  gv_models :: "string list"
  gv_applications :: "string list"
  gv_model_calls :: int
  gv_errors :: int
  gv_first_seen :: string
  gv_last_seen :: string

record observed_risk =
  gk_entity_id :: string
  gk_tenant_id :: "string option"
  gk_project :: string
  gk_environment :: string
  gk_application_name :: string
  gk_risk :: string
  gk_severity :: string
  gk_evidence :: string
  gk_evidence_trace_ids :: "string list"
  gk_status :: string
  gk_source :: string
  gk_first_seen :: string
  gk_last_seen :: string

record captured_control =
  gc_entity_id :: string
  gc_tenant_id :: "string option"
  gc_project :: string
  gc_environment :: string
  gc_control :: string
  gc_status :: string
  gc_evidence :: string
  gc_evidence_event_type :: string
  gc_evidence_count :: int
  gc_first_seen :: string
  gc_last_seen :: string

record observed_event =
  oe_entity_id :: string
  oe_entity_type :: string
  oe_tenant_id :: "string option"
  oe_project :: string
  oe_environment :: string
  oe_application_name :: "string option"
  oe_workflow_name :: "string option"
  oe_name :: string
  oe_status :: string
  oe_trace_id :: string
  oe_duration_ms :: "rat option"
  oe_attributes :: json
  oe_observed_at :: string

record prompt_template =
  pt_prompt_id :: string
  pt_tenant_id :: string
  pt_project :: string
  pt_environment :: string
  pt_application_name :: string
  pt_workflow_name :: string
  pt_current_version :: string
  pt_current_status :: string
  pt_owner_ref :: "string option"
  pt_artifact_ref :: string
  pt_first_seen :: string
  pt_last_seen :: string

record prompt_version =
  pv_id :: string
  pv_prompt_id :: string
  pv_tenant_id :: "string option"
  pv_project :: string
  pv_environment :: string
  pv_application_name :: string
  pv_workflow_name :: string
  pv_version :: string
  pv_status :: string
  pv_owner_ref :: "string option"
  pv_artifact_ref :: string
  pv_template_summary :: json
  pv_change_notes_summary :: json
  pv_trace_id :: string
  pv_observed_at :: string

section \<open>Controls (storage/governance_policy.py) and attestation (storage/attestation_keys.py)\<close>

record control_row =
  cl_tenant_id :: string
  cl_control_id :: string
  cl_name :: string
  cl_framework_refs :: "string list"
  cl_evidence_event_types :: "string list"
  cl_required_fields :: "string list"
  cl_rationale :: string
  cl_coverage_basis :: "string option"

record risk_rule =
  rr_tenant_id :: string
  rr_rule_id :: string
  rr_name :: string
  rr_signal :: string
  rr_severity :: string
  rr_framework_refs :: "string list"
  rr_rationale :: string
  rr_mode :: string

record agent_row =
  ag_agent_id :: string
  ag_tenant_id :: string
  ag_agent_name :: string
  ag_application_name :: "string option"
  ag_description :: "string option"
  ag_owner_ref :: string
  ag_autonomy_level :: int
  ag_allowed_tools :: "string list"
  ag_processes_untrusted_input :: bool
  ag_accesses_sensitive_data :: bool
  ag_can_act_externally :: bool
  ag_human_checkpoint :: bool
  ag_status :: string
  ag_created_by :: "string option"
  ag_created_at :: int
  ag_updated_at :: int

record evidence_trace =
  ct_tenant_id :: string
  ct_project :: string
  ct_environment :: string
  ct_application_name :: string
  ct_control_id :: string
  ct_trace_id :: string
  ct_last_seen :: string

record attestation_key =
  ak_key_id :: string
  ak_tenant_id :: string
  ak_name :: string
  ak_algorithm :: string
  ak_public_key_pem :: string
  ak_status :: string
  ak_created_by :: "string option"
  ak_created_at :: int
  ak_revoked_at :: "int option"
  ak_last_used_at :: "int option"

record attestation_requirement =
  at_tenant_id :: string
  at_enabled_at :: int
  at_enabled_by :: "string option"

section \<open>Releases (storage/deployments.py) and incidents (storage/incidents.py)\<close>

record deployment =
  dp_deployment_id :: string
  dp_tenant_id :: string
  dp_project :: string
  dp_environment :: string
  dp_application_name :: string
  dp_workflow_name :: string
  dp_current_version :: string
  dp_current_status :: string
  dp_provider :: "string option"
  dp_model :: "string option"
  dp_artifact_ref :: string
  dp_first_seen :: string
  dp_last_seen :: string

record deployment_version =
  dv_version_id :: string
  dv_deployment_id :: string
  dv_tenant_id :: "string option"
  dv_project :: string
  dv_environment :: string
  dv_application_name :: string
  dv_workflow_name :: string
  dv_version :: string
  dv_status :: string
  dv_provider :: "string option"
  dv_model :: "string option"
  dv_artifact_ref :: string
  dv_prompt_version :: "string option"
  dv_deployed_by :: "string option"
  dv_trace_id :: string
  dv_observed_at :: string

record gate_row =
  dg_id :: string
  dg_deployment_id :: string
  dg_version_id :: string
  dg_tenant_id :: "string option"
  dg_project :: string
  dg_environment :: string
  dg_application_name :: string
  dg_workflow_name :: string
  dg_status :: string
  dg_required_reason :: string
  dg_risk_count :: int
  dg_missing_control_count :: int
  dg_material_change_count :: int
  dg_prompt_version_id :: "string option"
  dg_prompt_evidence_status :: string
  dg_passing_eval_count :: int
  dg_policy_tenant :: "string option"
  dg_policy_version :: "int option"
  dg_undercovered_control_count :: int
  dg_actor_ref :: "string option"
  dg_rationale :: "string option"
  dg_submitted_at :: int
  dg_decided_at :: "int option"
  dg_updated_at :: int

record incident =
  ic_id :: string
  ic_tenant_id :: string
  ic_project :: string
  ic_environment :: string
  ic_application_name :: string
  ic_workflow_name :: string
  ic_title :: string
  ic_severity :: string
  ic_status :: string
  ic_description_summary :: json
  ic_detected_by :: "string option"
  ic_trace_id :: string
  ic_impacted_trace_id :: "string option"
  ic_provider :: "string option"
  ic_model :: "string option"
  ic_risk_count :: int
  ic_missing_control_count :: int
  ic_deployment_id :: "string option"
  ic_deployment_version_id :: "string option"
  ic_deployment_gate_id :: "string option"
  ic_actor_ref :: "string option"
  ic_resolution_rationale :: "string option"
  ic_first_seen :: string
  ic_last_seen :: string
  ic_closed_at :: "int option"

section \<open>The database\<close>

text \<open>
  \<open>outbox_seq\<close> and \<open>events_seq\<close> are the AUTOINCREMENT counters of \<open>notification_outbox\<close> and \<open>sdk_events\<close>: the
  largest id ever given out.
\<close>

record db =
  platform_users :: "platform_user list"
  sessions :: "session list"
  organizations :: "organization list"
  login_throttle :: "throttle_row list"
  mfa_recovery_codes :: "recovery_code list"
  mfa_challenges :: "mfa_challenge list"
  ingestion_keys :: "ingestion_key list"
  role_permissions :: "role_permission list"
  role_assignments :: "role_assignment list"
  review_queue_policies :: "queue_policy list"
  owner_assignment_policies :: "owner_policy list"
  owner_assignments :: "owner_assignment list"
  governance_decisions :: "governance_decision list"
  governance_exceptions :: "governance_exception list"
  lifecycle_fingerprints :: "lifecycle_fingerprint list"
  change_events :: "change_event list"
  review_tasks :: "review_task list"
  ai_use_cases :: "use_case list"
  control_assessments :: "control_assessment list"
  risk_findings :: "risk_finding list"
  governance_policies :: "policy_row list"
  approval_stages :: "stage_row list"
  vendor_registry :: "vendor_row list"
  vendor_evidence_references :: "evidence_ref list"
  sdk_events :: "sdk_event list"
  governance_applications :: "application list"
  governance_observed_events :: "observed_event list"
  prompt_versions :: "prompt_version list"
  control_library :: "control_row list"
  control_evidence_traces :: "evidence_trace list"
  attestation_keys :: "attestation_key list"
  attestation_requirements :: "attestation_requirement list"
  governance_deployments :: "deployment list"
  deployment_versions :: "deployment_version list"
  deployment_approval_gates :: "gate_row list"
  governance_incidents :: "incident list"
  notification_outbox :: "outbox_row list"
  outbox_seq :: int
  webhooks :: "webhook_row list"
  invites :: "invite_row list"
  events_seq :: int
  governance_workflows :: "workflow_row list"
  governance_models :: "model_row list"
  governance_providers :: "provider_row list"
  governance_risks :: "observed_risk list"
  governance_controls :: "captured_control list"
  prompt_templates :: "prompt_template list"
  risk_rules :: "risk_rule list"
  agent_registry :: "agent_row list"
  scim_tokens :: "scim_token list"
  sso_configurations :: "sso_config list"
  sso_login_states :: "sso_state list"
  saml_configurations :: "saml_config list"
  saml_requests :: "saml_request list"

definition empty_db :: db where
  "empty_db = \<lparr>platform_users = [], sessions = [], organizations = [],
     login_throttle = [], mfa_recovery_codes = [], mfa_challenges = [], ingestion_keys = [], role_permissions = [], role_assignments = [],
     review_queue_policies = [], owner_assignment_policies = [], owner_assignments = [],
     governance_decisions = [], governance_exceptions = [], lifecycle_fingerprints = [],
     change_events = [], review_tasks = [], ai_use_cases = [], control_assessments = [],
     risk_findings = [], governance_policies = [], approval_stages = [], vendor_registry = [],
     vendor_evidence_references = [], sdk_events = [], governance_applications = [],
     governance_observed_events = [], prompt_versions = [], control_library = [], control_evidence_traces = [],
     attestation_keys = [], attestation_requirements = [], governance_deployments = [], deployment_versions = [],
     deployment_approval_gates = [], governance_incidents = [], notification_outbox = [],
     outbox_seq = 0, webhooks = [], invites = [], events_seq = 0, governance_workflows = [], governance_models = [],
     governance_providers = [], governance_risks = [], governance_controls = [], prompt_templates = [], risk_rules = [], agent_registry = [],
     scim_tokens = [], sso_configurations = [], sso_login_states = [], saml_configurations = [], saml_requests = []\<rparr>"

section \<open>Audit requests\<close>

text \<open>What a caller hands to \<open>record_audit\<close> (storage/audit.py).\<close>

record audit_req =
  aq_actor_ref :: string
  aq_action :: string
  aq_tenant_id :: "string option"
  aq_target_type :: "string option"
  aq_target_id :: "string option"
  aq_detail :: "json option"

section \<open>Identifiers\<close>

text \<open>
  \<open>entity_id\<close>: the hash of the parts joined with a bar, a missing part being the empty text.
\<close>

definition entity_id :: "env \<Rightarrow> string option list \<Rightarrow> string" where
  "entity_id e parts = env_sha256 e (join_with ''|'' (map (\<lambda>p. case p of None \<Rightarrow> [] | Some s \<Rightarrow> s) parts))"

end
