(* ===== verification/Policy_Document.thy ===== *)
theory Policy_Document
  imports Schema
begin

text \<open>
  Governance policy documents (storage/policy_engine.py): the shipped default, the validator,
  the resolvers that read a stored document with the platform default behind it, and the
  comparison that decides whether a new version loosens the one in force. A document is the
  JSON body; a resolver that would raise on a malformed body returns the error. The main
  results: the resolvers never raise on documents the validator accepts, and a new document
  without a loosening reason keeps every approval, recertification clock, gate requirement,
  evidence setting and required intake field of the old one.
\<close>

section \<open>Constants\<close>

definition POLICY_SCHEMA :: string where "POLICY_SCHEMA = ''governance-policy/v1''"
definition RISK_TIERS :: "string list" where "RISK_TIERS = [''limited'', ''elevated'', ''high'']"
definition RECERTIFY_DAYS_FLOOR :: int where "RECERTIFY_DAYS_FLOOR = 30"
definition RECERTIFY_DAYS_CEILING :: int where "RECERTIFY_DAYS_CEILING = 3650"
definition MAX_STAGES_PER_SUBJECT :: nat where "MAX_STAGES_PER_SUBJECT = 10"
definition MAX_INTAKE_FIELDS :: nat where "MAX_INTAKE_FIELDS = 20"
definition MAX_FIELD_LENGTH_CAP :: int where "MAX_FIELD_LENGTH_CAP = 4000"
definition MAX_LABEL_LENGTH :: nat where "MAX_LABEL_LENGTH = 120"
definition MAX_FIELD_LABEL_LENGTH :: nat where "MAX_FIELD_LABEL_LENGTH = 200"
definition MATERIAL_CHANGE_CEILING :: int where "MATERIAL_CHANGE_CEILING = 0"
definition DEFAULT_COVERAGE_WINDOW_DAYS :: int where "DEFAULT_COVERAGE_WINDOW_DAYS = 7"
definition DEFAULT_STALE_AFTER_DAYS :: int where "DEFAULT_STALE_AFTER_DAYS = 30"
definition COVERAGE_WINDOW_DAYS_CEILING :: int where "COVERAGE_WINDOW_DAYS_CEILING = 30"
definition STALE_AFTER_DAYS_CEILING :: int where "STALE_AFTER_DAYS_CEILING = 90"
definition FIELD_TYPES :: "string list" where "FIELD_TYPES = [''boolean'', ''number'', ''string'']"
definition STAGE_MODES :: "string list" where "STAGE_MODES = [''parallel'', ''sequence'']"
definition STAGE_DECISION_PERMISSION :: string where "STAGE_DECISION_PERMISSION = ''review.decide''"

lemmas policy_consts = POLICY_SCHEMA_def RISK_TIERS_def RECERTIFY_DAYS_FLOOR_def
  RECERTIFY_DAYS_CEILING_def MAX_STAGES_PER_SUBJECT_def MAX_INTAKE_FIELDS_def
  MAX_FIELD_LENGTH_CAP_def MAX_LABEL_LENGTH_def MAX_FIELD_LABEL_LENGTH_def
  MATERIAL_CHANGE_CEILING_def DEFAULT_COVERAGE_WINDOW_DAYS_def DEFAULT_STALE_AFTER_DAYS_def
  COVERAGE_WINDOW_DAYS_CEILING_def STALE_AFTER_DAYS_CEILING_def FIELD_TYPES_def
  STAGE_MODES_def STAGE_DECISION_PERMISSION_def

definition reviewer_stages :: json where
  "reviewer_stages = JArr [JObj [(''role'', JStr ''governance_reviewer'')]]"

definition DEFAULT_POLICY_BODY :: json where
  "DEFAULT_POLICY_BODY = JObj
     [(''schema'', JStr POLICY_SCHEMA),
      (''intake'', JObj
        [(''tiers'', JObj
           [(''limited'', JObj [(''stages'', reviewer_stages), (''mode'', JStr ''sequence'')]),
            (''elevated'', JObj [(''stages'', reviewer_stages), (''mode'', JStr ''sequence'')]),
            (''high'', JObj [(''stages'', reviewer_stages), (''mode'', JStr ''sequence'')])]),
         (''fields'', JArr [])]),
      (''gates'', JObj
        [(''environments'', JObj
           [(''*'', JObj [(''require_attested_evals'', JBool False),
                          (''max_open_material_changes'', JInt 0)])])]),
      (''vendors'', JObj [(''stages'', reviewer_stages), (''recertify_days'', JInt 365)])]"

section \<open>Role grants\<close>

type_synonym grants = "string \<rightharpoonup> string set"

text \<open>The roles that occur in role_permissions, each with its permissions.\<close>

definition decision_capable_roles :: "role_permission list \<Rightarrow> grants" where
  "decision_capable_roles rows = (\<lambda>role.
     if role \<in> set (map rp_role rows)
     then Some (set (map rp_permission (filter (\<lambda>r. rp_role r = role) rows))) else None)"

definition list_decision_roles :: "role_permission list \<Rightarrow> string list" where
  "list_decision_roles rows = sorted_set (filter
     (\<lambda>role. case decision_capable_roles rows role of
        None \<Rightarrow> False | Some perms \<Rightarrow> STAGE_DECISION_PERMISSION \<in> perms) (map rp_role rows))"

section \<open>The validator\<close>

definition repr_list :: "string list \<Rightarrow> string" where
  "repr_list xs = ''['' @ comma_join (map (\<lambda>s. sq @ s @ sq) xs) @ '']''"

definition errs_if :: "bool \<Rightarrow> string \<Rightarrow> string list" where
  "errs_if b msg = (if b then [msg] else [])"

definition validate_stage :: "string \<Rightarrow> grants \<Rightarrow> nat \<Rightarrow> json \<Rightarrow> string list" where
  "validate_stage loc grants index stage =
     (case stage of
        JObj d \<Rightarrow>
          (let unknown = unknown_keys d [''role'', ''label'']; role = dget d ''role'' JNull;
               label = dget d ''label'' JNull; pos = loc @ '': stage '' @ str_nat index in
           errs_if (unknown \<noteq> []) (pos @ '' has unknown keys: '' @ comma_join unknown) @
           (case role of
              JStr r \<Rightarrow>
                if r = [] then [pos @ '' must name a role'']
                else (case grants r of
                   None \<Rightarrow> [pos @ '' references role '' @ sq @ r @ sq @ '', which does not exist'']
                 | Some perms \<Rightarrow>
                     errs_if (STAGE_DECISION_PERMISSION \<notin> perms)
                       (pos @ '' role '' @ sq @ r @ sq @ '' does not hold '' @ STAGE_DECISION_PERMISSION))
            | _ \<Rightarrow> [pos @ '' must name a role'']) @
           errs_if (label \<noteq> JNull \<and> (\<not> is_str label \<or> MAX_LABEL_LENGTH < length (str_of label)))
             (pos @ '' label must be a string of at most '' @ str_nat MAX_LABEL_LENGTH @ '' characters''))
      | _ \<Rightarrow> [loc @ '': stage '' @ str_nat index @ '' must be an object''])"

definition validate_stages :: "json \<Rightarrow> string \<Rightarrow> grants \<Rightarrow> string list" where
  "validate_stages stages loc grants =
     (case stages of
        JArr xs \<Rightarrow>
          if xs = [] then [loc @ '': stages must be a non-empty list'']
          else if MAX_STAGES_PER_SUBJECT < length xs
          then [loc @ '': at most '' @ str_nat MAX_STAGES_PER_SUBJECT @ '' stages'']
          else concat (map (\<lambda>(i, s). validate_stage loc grants i s) (enumerate 0 xs))
      | _ \<Rightarrow> [loc @ '': stages must be a non-empty list''])"

definition int_in_range :: "json \<Rightarrow> int \<Rightarrow> int \<Rightarrow> bool" where
  "int_in_range v lo hi \<longleftrightarrow> is_int v \<and> \<not> is_bool v \<and> lo \<le> int_of v \<and> int_of v \<le> hi"

definition validate_recertify_days :: "json \<Rightarrow> string \<Rightarrow> string list" where
  "validate_recertify_days v loc =
     errs_if (v \<noteq> JNull \<and> \<not> int_in_range v RECERTIFY_DAYS_FLOOR RECERTIFY_DAYS_CEILING)
       (loc @ '': recertify_days must be an integer between '' @ str_int RECERTIFY_DAYS_FLOOR @
        '' and '' @ str_int RECERTIFY_DAYS_CEILING)"

text \<open>The key pattern \<open>^[a-z][a-z0-9_]{0,63}$\<close>; \<open>$\<close> also matches before one trailing newline.\<close>

definition lower_az :: "char \<Rightarrow> bool" where
  "lower_az c \<longleftrightarrow> CHR ''a'' \<le> c \<and> c \<le> CHR ''z''"

definition field_key_body :: "string \<Rightarrow> bool" where
  "field_key_body s = (case s of [] \<Rightarrow> False
     | c # cs \<Rightarrow> lower_az c \<and> length cs \<le> 63 \<and>
         list_all (\<lambda>x. lower_az x \<or> (CHR ''0'' \<le> x \<and> x \<le> CHR ''9'') \<or> x = CHR ''_'') cs)"

definition field_key_match :: "string \<Rightarrow> bool" where
  "field_key_match s \<longleftrightarrow> field_key_body s \<or>
     (s \<noteq> [] \<and> last s = CHR 0x0A \<and> field_key_body (butlast s))"

definition FIELD_KEY_PATTERN :: string where "FIELD_KEY_PATTERN = ''^[a-z][a-z0-9_]{0,63}$''"

text \<open>One declared intake field; the keys seen so far are threaded through the loop.\<close>

definition field_key_errors :: "string \<Rightarrow> json \<Rightarrow> string list \<Rightarrow> string list \<times> string list" where
  "field_key_errors loc key seen =
     (case key of
        JStr k \<Rightarrow>
          if \<not> field_key_match k then ([loc @ '': key must match '' @ FIELD_KEY_PATTERN], seen)
          else if k \<in> set seen then ([loc @ '': duplicate key '' @ sq @ k @ sq], seen)
          else ([], k # seen)
      | _ \<Rightarrow> ([loc @ '': key must match '' @ FIELD_KEY_PATTERN], seen))"

definition bad_required_tiers :: "json \<Rightarrow> bool" where
  "bad_required_tiers v = (case v of
     JArr ts \<Rightarrow> list_ex (\<lambda>t. t \<notin> JStr ` set RISK_TIERS) ts | _ \<Rightarrow> True)"

definition validate_field :: "nat \<Rightarrow> json \<Rightarrow> string list \<Rightarrow> (string list \<times> string list) res" where
  "validate_field index field seen =
     (let loc = ''intake.fields['' @ str_nat index @ '']'' in
      case field of
        JObj d \<Rightarrow>
          (let unknown = unknown_keys d [''key'', ''label'', ''type'', ''max_length'', ''required_tiers''];
               (key_errs, seen') = field_key_errors loc (dget d ''key'' JNull) seen;
               label = dget d ''label'' JNull; ftype = dget d ''type'' (JStr ''string'');
               max_length = dget d ''max_length'' JNull in
           if \<not> hashable ftype then Inl TypeErr
           else Inr
            (errs_if (unknown \<noteq> []) (loc @ '': unknown keys: '' @ comma_join unknown) @
             key_errs @
             errs_if (label \<noteq> JNull \<and>
                 (\<not> is_str label \<or> str_of label = [] \<or> MAX_FIELD_LABEL_LENGTH < length (str_of label)))
               (loc @ '': label must be a string of at most '' @ str_nat MAX_FIELD_LABEL_LENGTH @ '' characters'') @
             errs_if (ftype \<notin> JStr ` set FIELD_TYPES) (loc @ '': type must be one of '' @ repr_list FIELD_TYPES) @
             errs_if (max_length \<noteq> JNull \<and> \<not> int_in_range max_length 1 MAX_FIELD_LENGTH_CAP)
               (loc @ '': max_length must be an integer between 1 and '' @ str_int MAX_FIELD_LENGTH_CAP) @
             errs_if (bad_required_tiers (dget d ''required_tiers'' (JArr [])))
               (loc @ '': required_tiers must be a list drawn from '' @ repr_list RISK_TIERS),
             seen'))
      | _ \<Rightarrow> Inr ([loc @ '': must be an object''], seen))"

fun validate_field_list :: "nat \<Rightarrow> json list \<Rightarrow> string list \<Rightarrow> string list res" where
  "validate_field_list i [] seen = Inr []"
| "validate_field_list i (f # fs) seen =
     ebind (validate_field i f seen) (\<lambda>(es, seen').
     ebind (validate_field_list (Suc i) fs seen') (\<lambda>rest. Inr (es @ rest)))"

definition validate_fields :: "json \<Rightarrow> string list res" where
  "validate_fields flds =
     (case flds of
        JArr xs \<Rightarrow>
          if MAX_INTAKE_FIELDS < length xs
          then Inr [''intake.fields: at most '' @ str_nat MAX_INTAKE_FIELDS @ '' fields'']
          else validate_field_list 0 xs []
      | _ \<Rightarrow> Inr [''intake.fields must be a list''])"

definition validate_tier :: "grants \<Rightarrow> string \<Rightarrow> json \<Rightarrow> string list res" where
  "validate_tier grants tier entry =
     (let loc = ''intake.tiers.'' @ tier in
      if tier \<notin> set RISK_TIERS
      then Inr [loc @ '': unknown risk tier (known tiers: '' @ comma_join RISK_TIERS @ '')'']
      else case entry of
        JObj d \<Rightarrow>
          (let unknown = unknown_keys d [''stages'', ''mode'', ''recertify_days''];
               mode = dget d ''mode'' (JStr ''sequence'') in
           if \<not> hashable mode then Inl TypeErr
           else Inr
            (errs_if (unknown \<noteq> []) (loc @ '': unknown keys: '' @ comma_join unknown) @
             validate_stages (dget d ''stages'' JNull) loc grants @
             errs_if (mode \<notin> JStr ` set STAGE_MODES) (loc @ '': mode must be one of '' @ repr_list STAGE_MODES) @
             validate_recertify_days (dget d ''recertify_days'' JNull) loc))
      | _ \<Rightarrow> Inr [loc @ '': must be an object''])"

definition validate_intake :: "json \<Rightarrow> grants \<Rightarrow> string list res" where
  "validate_intake intake grants =
     (case intake of
        JObj d \<Rightarrow>
          (let unknown = unknown_keys d [''tiers'', ''fields''];
               tiers = dget d ''tiers'' (JObj []) in
           ebind (emap (\<lambda>(tier, entry). validate_tier grants tier entry)
                    (case tiers of JObj ts \<Rightarrow> ts | _ \<Rightarrow> [])) (\<lambda>tier_errs.
           ebind (validate_fields (dget d ''fields'' (JArr []))) (\<lambda>field_errs.
           Inr (errs_if (unknown \<noteq> []) (''intake has unknown keys: '' @ comma_join unknown) @
                errs_if (\<not> is_obj tiers) ''intake.tiers must be an object'' @
                concat tier_errs @ field_errs))))
      | _ \<Rightarrow> Inr [''intake must be an object''])"

definition validate_gate_entry :: "string \<Rightarrow> json \<Rightarrow> string list" where
  "validate_gate_entry environment entry =
     (let loc = ''gates.environments.'' @ environment in
      if environment = [] \<or> 100 < length environment
      then [''gates.environments: environment names must be 1-100 characters'']
      else case entry of
        JObj d \<Rightarrow>
          (let unknown = unknown_keys d [''require_attested_evals'', ''max_open_material_changes'', ''min_control_coverage''];
               min_coverage = dget d ''min_control_coverage'' (JInt 0);
               attested = dget d ''require_attested_evals'' (JBool False);
               max_changes = dget d ''max_open_material_changes'' (JInt 0) in
           errs_if (unknown \<noteq> []) (loc @ '': unknown keys: '' @ comma_join unknown) @
           errs_if (is_bool min_coverage \<or> \<not> is_number min_coverage \<or>
                    \<not> (0 \<le> num_of min_coverage \<and> num_of min_coverage \<le> 100))
             (loc @ '': min_control_coverage must be a number between 0 and 100'') @
           errs_if (\<not> is_bool attested) (loc @ '': require_attested_evals must be a boolean'') @
           (if \<not> is_int max_changes \<or> is_bool max_changes \<or> int_of max_changes < 0
            then [loc @ '': max_open_material_changes must be a non-negative integer'']
            else errs_if (MATERIAL_CHANGE_CEILING < int_of max_changes)
              (loc @ '': max_open_material_changes cannot exceed '' @ str_int MATERIAL_CHANGE_CEILING @
               '' (the platform floor)'')))
      | _ \<Rightarrow> [loc @ '': must be an object''])"

definition validate_gates :: "json \<Rightarrow> string list" where
  "validate_gates gates =
     (case gates of
        JObj d \<Rightarrow>
          (let unknown = unknown_keys d [''environments'']; envs = dget d ''environments'' (JObj []) in
           errs_if (unknown \<noteq> []) (''gates has unknown keys: '' @ comma_join unknown) @
           (case envs of
              JObj es \<Rightarrow> concat (map (\<lambda>(environment, entry). validate_gate_entry environment entry) es)
            | _ \<Rightarrow> [''gates.environments must be an object'']))
      | _ \<Rightarrow> [''gates must be an object''])"

definition validate_evidence :: "json \<Rightarrow> string list" where
  "validate_evidence evidence =
     (case evidence of
        JObj d \<Rightarrow>
          (let unknown = unknown_keys d [''coverage_window_days'', ''stale_after_days''] in
           errs_if (unknown \<noteq> []) (''evidence has unknown keys: '' @ comma_join unknown) @
           concat (map (\<lambda>(key, ceiling). let value = dget d key JNull in
               errs_if (value \<noteq> JNull \<and> \<not> int_in_range value 1 ceiling)
                 (''evidence.'' @ key @ '' must be an integer between 1 and '' @ str_int ceiling))
             [(''coverage_window_days'', COVERAGE_WINDOW_DAYS_CEILING),
              (''stale_after_days'', STALE_AFTER_DAYS_CEILING)]))
      | _ \<Rightarrow> [''evidence must be an object''])"

definition validate_vendors :: "json \<Rightarrow> grants \<Rightarrow> string list" where
  "validate_vendors vendors grants =
     (case vendors of
        JObj d \<Rightarrow>
          (let unknown = unknown_keys d [''stages'', ''recertify_days''] in
           errs_if (unknown \<noteq> []) (''vendors has unknown keys: '' @ comma_join unknown) @
           validate_stages (dget d ''stages'' JNull) ''vendors'' grants @
           validate_recertify_days (dget d ''recertify_days'' JNull) ''vendors'')
      | _ \<Rightarrow> [''vendors must be an object''])"

definition validate_policy_body :: "grants \<Rightarrow> json \<Rightarrow> string list res" where
  "validate_policy_body grants body =
     (case body of
        JObj d \<Rightarrow>
          (let unknown = unknown_keys d [''schema'', ''intake'', ''gates'', ''vendors'', ''evidence''] in
           ebind (case map_of d ''intake'' of None \<Rightarrow> Inr [] | Some v \<Rightarrow> validate_intake v grants) (\<lambda>intake_errs.
           Inr (errs_if (dget d ''schema'' JNull \<noteq> JStr POLICY_SCHEMA) (''schema must be '' @ sq @ POLICY_SCHEMA @ sq) @
                errs_if (unknown \<noteq> []) (''unknown top-level keys: '' @ comma_join unknown) @
                intake_errs @
                (case map_of d ''gates'' of None \<Rightarrow> [] | Some v \<Rightarrow> validate_gates v) @
                (case map_of d ''vendors'' of None \<Rightarrow> [] | Some v \<Rightarrow> validate_vendors v grants) @
                (case map_of d ''evidence'' of None \<Rightarrow> [] | Some v \<Rightarrow> validate_evidence v))))
      | _ \<Rightarrow> Inr [''policy body must be a JSON object''])"

definition valid_body :: "grants \<Rightarrow> json \<Rightarrow> bool" where
  "valid_body grants body \<longleftrightarrow> validate_policy_body grants body = Inr []"

section \<open>Stored documents\<close>

definition canonical_body :: "env \<Rightarrow> json \<Rightarrow> string" where
  "canonical_body e body = encode_json (env_float_repr e) body"

definition body_hash :: "env \<Rightarrow> json \<Rightarrow> string" where
  "body_hash e body = env_sha256 e (canonical_body e body)"

text \<open>The row the code falls back to when not even the platform default is stored.\<close>

definition shipped_default :: "env \<Rightarrow> policy_row" where
  "shipped_default e = \<lparr>gp_tenant_id = [], gp_version = 1, gp_status = ''active'',
     gp_body = DEFAULT_POLICY_BODY, gp_body_hash = body_hash e DEFAULT_POLICY_BODY,
     gp_created_by = [], gp_created_at = 0, gp_activated_at = None\<rparr>"

definition seed_default_policy :: "env \<Rightarrow> policy_row list \<Rightarrow> policy_row list" where
  "seed_default_policy e rows = insert_or_ignore (\<lambda>r. (gp_tenant_id r, gp_version r))
     \<lparr>gp_tenant_id = [], gp_version = 1, gp_status = ''active'', gp_body = DEFAULT_POLICY_BODY,
      gp_body_hash = body_hash e DEFAULT_POLICY_BODY, gp_created_by = ''system:default'',
      gp_created_at = db_now e, gp_activated_at = Some (db_now e)\<rparr> rows"

definition active_row :: "policy_row list \<Rightarrow> string \<Rightarrow> policy_row option" where
  "active_row rows tid = find (\<lambda>r. gp_tenant_id r = tid \<and> gp_status r = ''active'') rows"

definition platform_default :: "env \<Rightarrow> policy_row list \<Rightarrow> policy_row" where
  "platform_default e rows = (case active_row rows [] of None \<Rightarrow> shipped_default e | Some r \<Rightarrow> r)"

definition active_policy :: "env \<Rightarrow> policy_row list \<Rightarrow> string option \<Rightarrow> policy_row" where
  "active_policy e rows tenant_id =
     (let tid = or_str tenant_id [] in
      case (if tid = [] then None else active_row rows tid) of
        Some r \<Rightarrow> r
      | None \<Rightarrow> platform_default e rows)"

section \<open>Resolvers\<close>

text \<open>\<open>int(v)\<close>; text is not reached, since the validator admits only numbers where it is used.\<close>

fun py_int :: "json \<Rightarrow> int res" where
  "py_int (JInt i) = Inr i"
| "py_int (JBool b) = Inr (if b then 1 else 0)"
| "py_int (JFloat r) = Inr (int_of (JFloat r))"
| "py_int (JStr s) = Inl (ValueErr s)"
| "py_int _ = Inl TypeErr"

fun py_float :: "json \<Rightarrow> rat res" where
  "py_float (JStr s) = Inl (ValueErr s)"
| "py_float JNull = Inl TypeErr"
| "py_float (JArr _) = Inl TypeErr"
| "py_float (JObj _) = Inl TypeErr"
| "py_float v = Inr (num_of v)"

record tier_policy =
  tp_stages :: json
  tp_mode :: json
  tp_recertify_days :: json
  tp_policy_tenant :: string
  tp_policy_version :: int

definition body_tier :: "json \<Rightarrow> string \<Rightarrow> json res" where
  "body_tier body tier =
     ebind (jget body ''intake'' (JObj [])) (\<lambda>intake.
     ebind (jget intake ''tiers'' (JObj [])) (\<lambda>tiers.
     jget (py_or tiers (JObj [])) tier JNull))"

definition resolve_tier_policy :: "env \<Rightarrow> policy_row list \<Rightarrow> string option \<Rightarrow> string \<Rightarrow> tier_policy res" where
  "resolve_tier_policy e rows tenant_id risk_tier =
     (let policy = active_policy e rows tenant_id in
      ebind (body_tier (gp_body policy) risk_tier) (\<lambda>entry1.
      ebind (if entry1 = JNull \<and> gp_tenant_id policy \<noteq> []
             then ebind (body_tier (gp_body (platform_default e rows)) risk_tier)
                    (\<lambda>entry2. Inr (platform_default e rows, entry2))
             else Inr (policy, entry1)) (\<lambda>(policy', entry2).
      let entry = (if entry2 = JNull
                   then JObj [(''stages'', reviewer_stages), (''mode'', JStr ''sequence'')] else entry2) in
      ebind (jget entry ''stages'' JNull) (\<lambda>stages.
      ebind (jget entry ''mode'' (JStr ''sequence'')) (\<lambda>mode.
      ebind (jget entry ''recertify_days'' JNull) (\<lambda>days.
      Inr \<lparr>tp_stages = py_or stages reviewer_stages, tp_mode = mode, tp_recertify_days = days,
           tp_policy_tenant = gp_tenant_id policy', tp_policy_version = gp_version policy'\<rparr>))))))"

record gate_policy =
  gt_require_attested_evals :: bool
  gt_max_open_material_changes :: int
  gt_min_control_coverage :: rat
  gt_policy_tenant :: string
  gt_policy_version :: int

definition body_gate :: "json \<Rightarrow> string \<Rightarrow> json res" where
  "body_gate body environment =
     ebind (jget body ''gates'' (JObj [])) (\<lambda>gates.
     ebind (jget gates ''environments'' (JObj [])) (\<lambda>envs.
     ebind (jget (py_or envs (JObj [])) environment JNull) (\<lambda>entry.
     if entry = JNull then jget (py_or envs (JObj [])) ''*'' JNull else Inr entry)))"

definition gate_of_entry :: "policy_row \<Rightarrow> json \<Rightarrow> gate_policy res" where
  "gate_of_entry policy entry =
     ebind (jget entry ''require_attested_evals'' (JBool False)) (\<lambda>attested.
     ebind (jget entry ''max_open_material_changes'' (JInt 0)) (\<lambda>mc.
     ebind (py_int mc) (\<lambda>changes.
     ebind (jget entry ''min_control_coverage'' (JInt 0)) (\<lambda>cov.
     ebind (py_float (py_or cov (JInt 0))) (\<lambda>coverage.
     Inr \<lparr>gt_require_attested_evals = truthy attested,
          gt_max_open_material_changes = min changes MATERIAL_CHANGE_CEILING,
          gt_min_control_coverage = coverage,
          gt_policy_tenant = gp_tenant_id policy, gt_policy_version = gp_version policy\<rparr>)))))"

fun resolve_gate_from :: "policy_row list \<Rightarrow> policy_row \<Rightarrow> string \<Rightarrow> gate_policy res" where
  "resolve_gate_from [] dflt environment =
     Inr \<lparr>gt_require_attested_evals = False, gt_max_open_material_changes = 0,
          gt_min_control_coverage = 0, gt_policy_tenant = gp_tenant_id dflt,
          gt_policy_version = gp_version dflt\<rparr>"
| "resolve_gate_from (policy # ps) dflt environment =
     ebind (body_gate (gp_body policy) environment) (\<lambda>entry.
     if entry \<noteq> JNull then gate_of_entry policy entry else resolve_gate_from ps dflt environment)"

definition resolve_gate_policy :: "env \<Rightarrow> policy_row list \<Rightarrow> string option \<Rightarrow> string \<Rightarrow> gate_policy res" where
  "resolve_gate_policy e rows tenant_id environment =
     resolve_gate_from [active_policy e rows tenant_id, platform_default e rows]
       (platform_default e rows) environment"

text \<open>The value of one evidence setting: the first of the documents that gives it.\<close>

fun evidence_setting :: "json list \<Rightarrow> string \<Rightarrow> int \<Rightarrow> int res" where
  "evidence_setting [] key fallback = Inr fallback"
| "evidence_setting (doc # docs) key fallback =
     ebind (jget doc ''evidence'' JNull) (\<lambda>section.
     ebind (jget (py_or section (JObj [])) key JNull) (\<lambda>value.
     if value \<noteq> JNull then py_int value else evidence_setting docs key fallback))"

record evidence_settings =
  es_coverage_window_days :: int
  es_stale_after_days :: int

definition evidence_settings_of :: "json \<Rightarrow> json \<Rightarrow> evidence_settings res" where
  "evidence_settings_of body default_body =
     ebind (evidence_setting [body, default_body] ''coverage_window_days'' DEFAULT_COVERAGE_WINDOW_DAYS) (\<lambda>w.
     ebind (evidence_setting [body, default_body] ''stale_after_days'' DEFAULT_STALE_AFTER_DAYS) (\<lambda>s.
     Inr \<lparr>es_coverage_window_days = w, es_stale_after_days = s\<rparr>))"

definition resolve_evidence_policy ::
    "env \<Rightarrow> policy_row list \<Rightarrow> string option \<Rightarrow> (evidence_settings \<times> string \<times> int) res" where
  "resolve_evidence_policy e rows tenant_id =
     (let policy = active_policy e rows tenant_id in
      ebind (evidence_settings_of (gp_body policy) (gp_body (platform_default e rows))) (\<lambda>s.
      Inr (s, gp_tenant_id policy, gp_version policy)))"

record vendor_policy =
  vp_stages :: json
  vp_recertify_days :: json
  vp_policy_tenant :: string
  vp_policy_version :: int

definition default_vendors :: json where
  "default_vendors = JObj [(''stages'', reviewer_stages), (''recertify_days'', JInt 365)]"

definition resolve_vendor_policy :: "env \<Rightarrow> policy_row list \<Rightarrow> string option \<Rightarrow> vendor_policy res" where
  "resolve_vendor_policy e rows tenant_id =
     (let policy = active_policy e rows tenant_id in
      ebind (jget (gp_body policy) ''vendors'' JNull) (\<lambda>entry1.
      ebind (if entry1 = JNull \<and> gp_tenant_id policy \<noteq> []
             then ebind (jget (gp_body (platform_default e rows)) ''vendors'' JNull)
                    (\<lambda>entry2. Inr (platform_default e rows, entry2))
             else Inr (policy, entry1)) (\<lambda>(policy', entry2).
      let entry = (if entry2 = JNull then default_vendors else entry2) in
      ebind (jget entry ''stages'' JNull) (\<lambda>stages.
      ebind (jget entry ''recertify_days'' JNull) (\<lambda>days.
      Inr \<lparr>vp_stages = py_or stages reviewer_stages, vp_recertify_days = days,
           vp_policy_tenant = gp_tenant_id policy', vp_policy_version = gp_version policy'\<rparr>)))))"

text \<open>\<open>"fields" in intake\<close> and \<open>list(v or [])\<close>.\<close>

fun jhas :: "json \<Rightarrow> string \<Rightarrow> bool res" where
  "jhas (JObj d) k = Inr (has_key d k)"
| "jhas (JArr xs) k = Inr (JStr k \<in> set xs)"
| "jhas (JStr s) k = Inr (list_ex (\<lambda>i. take (length k) (drop i s) = k) [0..<Suc (length s)])"
| "jhas _ k = Inl TypeErr"

definition resolve_intake_fields :: "env \<Rightarrow> policy_row list \<Rightarrow> string option \<Rightarrow> json list res" where
  "resolve_intake_fields e rows tenant_id =
     ebind (jget (gp_body (active_policy e rows tenant_id)) ''intake'' (JObj [])) (\<lambda>intake.
     ebind (jhas intake ''fields'') (\<lambda>own.
     if own then ebind (jget intake ''fields'' JNull) (\<lambda>fs. jiter (py_or fs (JArr [])))
     else ebind (jget (gp_body (platform_default e rows)) ''intake'' (JObj [])) (\<lambda>dintake.
          ebind (jget dintake ''fields'' JNull) (\<lambda>fs. jiter (py_or fs (JArr []))))))"

section \<open>Entries as the resolvers read them, from documents alone\<close>

fun tier_entry :: "json list \<Rightarrow> string \<Rightarrow> json res" where
  "tier_entry [] tier = Inr (JObj [(''stages'', reviewer_stages)])"
| "tier_entry (doc # docs) tier =
     ebind (jget doc ''intake'' JNull) (\<lambda>intake.
     ebind (jget (py_or intake (JObj [])) ''tiers'' JNull) (\<lambda>tiers.
     ebind (jget (py_or tiers (JObj [])) tier JNull) (\<lambda>entry.
     if entry \<noteq> JNull then Inr entry else tier_entry docs tier)))"

fun vendor_entry :: "json list \<Rightarrow> json res" where
  "vendor_entry [] = Inr default_vendors"
| "vendor_entry (doc # docs) =
     ebind (jget doc ''vendors'' JNull) (\<lambda>entry.
     if entry \<noteq> JNull then Inr entry else vendor_entry docs)"

definition doc_environments :: "json \<Rightarrow> json res" where
  "doc_environments doc =
     ebind (jget doc ''gates'' JNull) (\<lambda>gates.
     ebind (jget (py_or gates (JObj [])) ''environments'' JNull) (\<lambda>envs.
     Inr (py_or envs (JObj []))))"

fun gate_entry :: "json list \<Rightarrow> string \<Rightarrow> json res" where
  "gate_entry [] environment = Inr (JObj [])"
| "gate_entry (doc # docs) environment =
     ebind (doc_environments doc) (\<lambda>envs.
     ebind (jget envs environment JNull) (\<lambda>entry1.
     ebind (if entry1 = JNull then jget envs ''*'' JNull else Inr entry1) (\<lambda>entry.
     if entry \<noteq> JNull then Inr entry else gate_entry docs environment)))"

definition requires_attested :: "json \<Rightarrow> json \<Rightarrow> string \<Rightarrow> bool res" where
  "requires_attested body default_body environment =
     ebind (gate_entry [body, default_body] environment) (\<lambda>entry.
     ebind (jget entry ''require_attested_evals'' (JBool False)) (\<lambda>v. Inr (truthy v)))"

definition min_coverage :: "json \<Rightarrow> json \<Rightarrow> string \<Rightarrow> rat res" where
  "min_coverage body default_body environment =
     ebind (gate_entry [body, default_body] environment) (\<lambda>entry.
     ebind (jget entry ''min_control_coverage'' (JInt 0)) (\<lambda>v. py_float (py_or v (JInt 0))))"

definition intake_fields :: "json \<Rightarrow> json \<Rightarrow> json list res" where
  "intake_fields body default_body =
     ebind (jget body ''intake'' JNull) (\<lambda>intake0.
     let intake = py_or intake0 (JObj []) in
     ebind (jhas intake ''fields'') (\<lambda>own.
     if own then ebind (jget intake ''fields'' JNull) (\<lambda>fs. jiter (py_or fs (JArr [])))
     else ebind (jget default_body ''intake'' JNull) (\<lambda>dintake.
          ebind (jget (py_or dintake (JObj [])) ''fields'' JNull) (\<lambda>fs. jiter (py_or fs (JArr []))))))"

section \<open>Loosening\<close>

text \<open>The roles of a stage list, \<open>[stage.get("role") for stage in entry.get("stages") or []]\<close>.\<close>

definition entry_roles :: "json \<Rightarrow> json list res" where
  "entry_roles entry =
     ebind (jget entry ''stages'' JNull) (\<lambda>stages.
     ebind (jiter (py_or stages (JArr []))) (\<lambda>xs.
     emap (\<lambda>stage. jget stage ''role'' JNull) xs))"

fun roles_missing :: "json list \<Rightarrow> json list \<Rightarrow> bool" where
  "roles_missing [] remaining = False"
| "roles_missing (role # roles) remaining =
     (if role \<notin> set remaining then True else roles_missing roles (remove1 role remaining))"

definition stages_loosened :: "json \<Rightarrow> json \<Rightarrow> bool res" where
  "stages_loosened old new =
     ebind (entry_roles new) (\<lambda>remaining.
     ebind (entry_roles old) (\<lambda>roles. Inr (roles_missing roles remaining)))"

text \<open>\<open>after > before\<close> on JSON values: numbers only.\<close>

definition json_gt :: "json \<Rightarrow> json \<Rightarrow> bool res" where
  "json_gt a b = (if is_number a \<and> is_number b then Inr (num_of a > num_of b) else Inl TypeErr)"

definition recertify_loosened :: "json \<Rightarrow> json \<Rightarrow> bool res" where
  "recertify_loosened old new =
     ebind (jget old ''recertify_days'' JNull) (\<lambda>prior.
     ebind (jget new ''recertify_days'' JNull) (\<lambda>after.
     if prior = JNull then Inr False else if after = JNull then Inr True else json_gt after prior))"

text \<open>\<open>set(v or [])\<close>: the elements have to be hashable.\<close>

definition jset :: "json \<Rightarrow> json set res" where
  "jset v = ebind (jiter (py_or v (JArr []))) (\<lambda>xs.
     if list_all hashable xs then Inr (set xs) else Inl TypeErr)"

definition pair_loosening :: "string \<Rightarrow> json \<Rightarrow> json \<Rightarrow> string list res" where
  "pair_loosening section old new =
     ebind (stages_loosened old new) (\<lambda>s.
     ebind (recertify_loosened old new) (\<lambda>r.
     Inr (errs_if s (section @ '': an approval stage is removed or its role replaced'') @
          errs_if r (section @ '': recertification is less frequent or removed''))))"

definition gate_loosening :: "json \<Rightarrow> json \<Rightarrow> json \<Rightarrow> string \<Rightarrow> string list res" where
  "gate_loosening old_body new_body default_body environment =
     ebind (requires_attested old_body default_body environment) (\<lambda>oa.
     ebind (requires_attested new_body default_body environment) (\<lambda>na.
     ebind (min_coverage new_body default_body environment) (\<lambda>nc.
     ebind (min_coverage old_body default_body environment) (\<lambda>oc.
     Inr (errs_if (oa \<and> \<not> na) (''gates.environments.'' @ environment @ '': attested evals are no longer required'') @
          errs_if (nc < oc) (''gates.environments.'' @ environment @ '': the minimum control coverage is lower''))))))"

fun json_keys :: "json \<Rightarrow> string list res" where
  "json_keys (JObj d) = Inr (map fst d)"
| "json_keys _ = Inl AttributeErr"

text \<open>The dict \<open>{field.get("key"): field for field in fields}\<close>; a later field wins.\<close>

definition field_index :: "json list \<Rightarrow> (json \<times> json) list res" where
  "field_index fs = emap (\<lambda>f. ebind (jget f ''key'' JNull) (\<lambda>k.
     if hashable k then Inr (k, f) else Inl TypeErr)) fs"

definition field_loosening :: "(json \<times> json) list \<Rightarrow> json \<Rightarrow> string list res" where
  "field_loosening new_fields field =
     ebind (jget field ''key'' JNull) (\<lambda>key.
     case map_of (rev new_fields) key of
       None \<Rightarrow> Inr [''intake.fields.'' @ str_of key @ '': the field is removed'']
     | Some repl \<Rightarrow>
         ebind (jget field ''required_tiers'' JNull) (\<lambda>ot. ebind (jset ot) (\<lambda>old_tiers.
         ebind (jget repl ''required_tiers'' JNull) (\<lambda>nt. ebind (jset nt) (\<lambda>new_tiers.
         Inr (errs_if (\<not> old_tiers \<subseteq> new_tiers)
           (''intake.fields.'' @ str_of key @ '': the field is required for fewer tiers'')))))))"

definition evidence_loosening :: "evidence_settings \<Rightarrow> evidence_settings \<Rightarrow> string list" where
  "evidence_loosening old new =
     errs_if (es_stale_after_days new > es_stale_after_days old)
       ''evidence: controls stay fresh longer before they are marked stale'' @
     errs_if (es_coverage_window_days new > es_coverage_window_days old)
       ''evidence: coverage is measured over a longer window''"

definition tier_loosening :: "json \<Rightarrow> json \<Rightarrow> json \<Rightarrow> string \<Rightarrow> string list res" where
  "tier_loosening old_body new_body default_body tier =
     ebind (tier_entry [old_body, default_body] tier) (\<lambda>old.
     ebind (tier_entry [new_body, default_body] tier) (\<lambda>new.
     pair_loosening (''intake.tiers.'' @ tier) old new))"

definition mentioned_environments :: "json list \<Rightarrow> string list res" where
  "mentioned_environments docs =
     ebind (emap (\<lambda>doc. ebind (doc_environments doc) json_keys) docs) (\<lambda>ks.
     Inr (sorted_set (''*'' # concat ks)))"

definition policy_loosening :: "json \<Rightarrow> json \<Rightarrow> json \<Rightarrow> string list res" where
  "policy_loosening old_body new_body default_body =
     ebind (emap (tier_loosening old_body new_body default_body) RISK_TIERS) (\<lambda>tiers.
     ebind (vendor_entry [old_body, default_body]) (\<lambda>old_vendors.
     ebind (vendor_entry [new_body, default_body]) (\<lambda>new_vendors.
     ebind (pair_loosening ''vendors'' old_vendors new_vendors) (\<lambda>vendors.
     ebind (mentioned_environments [old_body, new_body, default_body]) (\<lambda>environments.
     ebind (emap (gate_loosening old_body new_body default_body) environments) (\<lambda>gates.
     ebind (evidence_settings_of old_body default_body) (\<lambda>old_evidence.
     ebind (evidence_settings_of new_body default_body) (\<lambda>new_evidence.
     ebind (intake_fields new_body default_body) (\<lambda>nfs.
     ebind (field_index nfs) (\<lambda>new_fields.
     ebind (intake_fields old_body default_body) (\<lambda>old_fields.
     ebind (emap (field_loosening new_fields) old_fields) (\<lambda>flds.
     Inr (concat tiers @ vendors @ concat gates @ evidence_loosening old_evidence new_evidence @
          concat flds)))))))))))))"

section \<open>The shape of an accepted document\<close>

text \<open>What the readers rely on, as predicates on values.\<close>

definition wf_stages :: "json \<Rightarrow> bool" where
  "wf_stages v \<longleftrightarrow> (\<exists>xs. v = JArr xs \<and> xs \<noteq> [] \<and> length xs \<le> MAX_STAGES_PER_SUBJECT \<and>
     (\<forall>s \<in> set xs. \<exists>d r. s = JObj d \<and> dget d ''role'' JNull = JStr r))"

definition wf_days :: "json \<Rightarrow> bool" where
  "wf_days v \<longleftrightarrow> v = JNull \<or> (\<exists>n. v = JInt n \<and> RECERTIFY_DAYS_FLOOR \<le> n \<and> n \<le> RECERTIFY_DAYS_CEILING)"

definition wf_tier :: "json \<Rightarrow> bool" where
  "wf_tier v \<longleftrightarrow> (\<exists>d. v = JObj d \<and> wf_stages (dget d ''stages'' JNull) \<and>
     dget d ''mode'' (JStr ''sequence'') \<in> JStr ` set STAGE_MODES \<and> wf_days (dget d ''recertify_days'' JNull))"

definition wf_field :: "json \<Rightarrow> bool" where
  "wf_field v \<longleftrightarrow> (\<exists>d k ts. v = JObj d \<and> dget d ''key'' JNull = JStr k \<and>
     dget d ''required_tiers'' (JArr []) = JArr ts \<and> set ts \<subseteq> JStr ` set RISK_TIERS)"

definition wf_intake :: "json \<Rightarrow> bool" where
  "wf_intake v \<longleftrightarrow> (\<exists>d ts fs. v = JObj d \<and> dget d ''tiers'' (JObj []) = JObj ts \<and>
     (\<forall>x \<in> set ts. wf_tier (snd x)) \<and> dget d ''fields'' (JArr []) = JArr fs \<and> (\<forall>f \<in> set fs. wf_field f))"

definition wf_gate :: "json \<Rightarrow> bool" where
  "wf_gate v \<longleftrightarrow> (\<exists>d a n c. v = JObj d \<and> dget d ''require_attested_evals'' (JBool False) = JBool a \<and>
     dget d ''max_open_material_changes'' (JInt 0) = JInt n \<and> 0 \<le> n \<and> n \<le> MATERIAL_CHANGE_CEILING \<and>
     dget d ''min_control_coverage'' (JInt 0) = c \<and> is_number c \<and> \<not> is_bool c \<and> 0 \<le> num_of c \<and> num_of c \<le> 100)"

definition wf_gates :: "json \<Rightarrow> bool" where
  "wf_gates v \<longleftrightarrow> (\<exists>d es. v = JObj d \<and> dget d ''environments'' (JObj []) = JObj es \<and>
     (\<forall>x \<in> set es. wf_gate (snd x)))"

definition wf_vendors :: "json \<Rightarrow> bool" where
  "wf_vendors v \<longleftrightarrow> (\<exists>d. v = JObj d \<and> wf_stages (dget d ''stages'' JNull) \<and> wf_days (dget d ''recertify_days'' JNull))"

definition wf_setting :: "json \<Rightarrow> bool" where
  "wf_setting v \<longleftrightarrow> v = JNull \<or> (\<exists>n. v = JInt n \<and> 1 \<le> n)"

definition wf_evidence :: "json \<Rightarrow> bool" where
  "wf_evidence v \<longleftrightarrow> (\<exists>d. v = JObj d \<and> wf_setting (dget d ''coverage_window_days'' JNull) \<and>
     wf_setting (dget d ''stale_after_days'' JNull))"

definition wf_body :: "json \<Rightarrow> bool" where
  "wf_body v \<longleftrightarrow> (\<exists>d. v = JObj d \<and> wf_intake (dget d ''intake'' (JObj [])) \<and>
     wf_gates (dget d ''gates'' (JObj [])) \<and>
     wf_vendors (dget d ''vendors'' default_vendors) \<and>
     wf_evidence (dget d ''evidence'' (JObj [])))"

lemmas wf_defs = wf_stages_def wf_days_def wf_tier_def wf_field_def wf_intake_def wf_gate_def
  wf_gates_def wf_vendors_def wf_setting_def wf_evidence_def wf_body_def

lemma errs_if_Nil [simp]: "errs_if b m = [] \<longleftrightarrow> \<not> b"
  by (simp add: errs_if_def)

lemma int_in_range_iff: "int_in_range v lo hi \<longleftrightarrow> (\<exists>n. v = JInt n \<and> lo \<le> n \<and> n \<le> hi)"
  by (cases v) (auto simp: int_in_range_def)

lemma emap_concat_Nil:
  "emap f xs = Inr yss \<Longrightarrow> concat yss = [] \<Longrightarrow> x \<in> set xs \<Longrightarrow> f x = Inr []"
  by (induction xs arbitrary: yss) (auto simp: ebind_eq_Inr)

lemma dget_obj_or: "dget d k (JObj []) = JObj ts \<Longrightarrow> py_or (dget d k JNull) (JObj []) = JObj ts"
  by (auto simp: dget_def py_or_def split: option.splits)

lemma dget_arr_or: "dget d k (JArr []) = JArr ts \<Longrightarrow> py_or (dget d k JNull) (JArr []) = JArr ts"
  by (auto simp: dget_def py_or_def split: option.splits)

lemma py_or_self [simp]: "py_or (JObj ts) (JObj []) = JObj ts" "py_or (JArr xs) (JArr []) = JArr xs"
  by (auto simp: py_or_def)

lemma validate_stages_wf:
  assumes "validate_stages v loc g = []"
  shows "wf_stages v"
proof -
  from assms obtain xs where v: "v = JArr xs" "xs \<noteq> []" "length xs \<le> MAX_STAGES_PER_SUBJECT"
    and all: "\<forall>(i, s) \<in> set (enumerate 0 xs). validate_stage loc g i s = []"
    by (cases v) (auto simp: validate_stages_def split: if_splits prod.splits)
  have "\<exists>d r. s = JObj d \<and> dget d ''role'' JNull = JStr r" if s: "s \<in> set xs" for s
  proof -
    from s obtain i where "i < length xs" "xs ! i = s"
      by (auto simp: in_set_conv_nth)
    then have "(i, s) \<in> set (enumerate 0 xs)" by (simp add: in_set_enumerate_eq)
    with all have "validate_stage loc g i s = []" by blast
    then show ?thesis
      by (cases s) (auto simp: validate_stage_def Let_def split: json.splits if_splits)
  qed
  with v show ?thesis by (auto simp: wf_stages_def)
qed

lemma validate_recertify_days_wf: "validate_recertify_days v loc = [] \<Longrightarrow> wf_days v"
  by (auto simp: validate_recertify_days_def int_in_range_iff wf_days_def)

lemma validate_tier_wf: "validate_tier g t v = Inr [] \<Longrightarrow> wf_tier v"
  by (cases v) (auto simp: validate_tier_def Let_def wf_tier_def
    intro: validate_stages_wf validate_recertify_days_wf split: if_splits)

lemma field_key_errors_Nil: "fst (field_key_errors loc key seen) = [] \<Longrightarrow> \<exists>k. key = JStr k"
  by (cases key) (auto simp: field_key_errors_def)

lemma validate_field_wf:
  assumes "validate_field i f seen = Inr ([], seen')"
  shows "wf_field f"
proof -
  from assms obtain d where f: "f = JObj d"
    and key: "fst (field_key_errors (''intake.fields['' @ str_nat i @ '']'') (dget d ''key'' JNull) seen) = []"
    and tiers: "\<not> bad_required_tiers (dget d ''required_tiers'' (JArr []))"
    by (cases f) (auto simp: validate_field_def Let_def split: if_splits prod.splits)
  from tiers obtain ts where "dget d ''required_tiers'' (JArr []) = JArr ts" "set ts \<subseteq> JStr ` set RISK_TIERS"
    by (cases "dget d ''required_tiers'' (JArr [])") (auto simp: bad_required_tiers_def list_ex_iff)
  with field_key_errors_Nil [OF key] f show ?thesis by (auto simp: wf_field_def)
qed

lemma validate_field_list_wf:
  "validate_field_list i fs seen = Inr [] \<Longrightarrow> f \<in> set fs \<Longrightarrow> wf_field f"
proof (induction fs arbitrary: i seen)
  case Nil
  then show ?case by simp
next
  case (Cons a fs)
  from Cons.prems(1) obtain seen' where "validate_field i a seen = Inr ([], seen')"
    and "validate_field_list (Suc i) fs seen' = Inr []"
    by (auto simp: ebind_eq_Inr)
  with Cons.IH Cons.prems(2) show ?case by (auto intro: validate_field_wf)
qed

lemma validate_intake_wf:
  assumes "validate_intake v g = Inr []"
  shows "wf_intake v"
proof -
  from assms obtain d tes where v: "v = JObj d"
    and obj: "is_obj (dget d ''tiers'' (JObj []))"
    and tes: "emap (\<lambda>(tier, entry). validate_tier g tier entry)
      (case dget d ''tiers'' (JObj []) of JObj ts \<Rightarrow> ts | _ \<Rightarrow> []) = Inr tes" "concat tes = []"
    and fs: "validate_fields (dget d ''fields'' (JArr [])) = Inr []"
    by (cases v) (auto simp: validate_intake_def Let_def ebind_eq_Inr)
  from obj obtain ts where ts: "dget d ''tiers'' (JObj []) = JObj ts"
    by (cases "dget d ''tiers'' (JObj [])") auto
  have "wf_tier (snd x)" if "x \<in> set ts" for x
    using emap_concat_Nil [OF tes, of x] that by (cases x) (auto simp: ts intro: validate_tier_wf)
  moreover from fs obtain xs where "dget d ''fields'' (JArr []) = JArr xs" "validate_field_list 0 xs [] = Inr []"
    by (cases "dget d ''fields'' (JArr [])") (auto simp: validate_fields_def split: if_splits)
  ultimately show ?thesis
    using v ts by (auto simp: wf_intake_def intro: validate_field_list_wf)
qed

lemma validate_gate_entry_wf:
  assumes "validate_gate_entry environment v = []"
  shows "wf_gate v"
proof -
  from assms obtain d where v: "v = JObj d"
    and cov: "is_number (dget d ''min_control_coverage'' (JInt 0))"
      "\<not> is_bool (dget d ''min_control_coverage'' (JInt 0))"
      "0 \<le> num_of (dget d ''min_control_coverage'' (JInt 0))"
      "num_of (dget d ''min_control_coverage'' (JInt 0)) \<le> 100"
    and att: "is_bool (dget d ''require_attested_evals'' (JBool False))"
    and mc: "int_in_range (dget d ''max_open_material_changes'' (JInt 0)) 0 MATERIAL_CHANGE_CEILING"
    by (cases v) (auto simp: validate_gate_entry_def Let_def int_in_range_def split: if_splits)
  from att obtain a where "dget d ''require_attested_evals'' (JBool False) = JBool a"
    by (cases "dget d ''require_attested_evals'' (JBool False)") auto
  with v cov mc show ?thesis by (auto simp: wf_gate_def int_in_range_iff)
qed

lemma validate_gates_wf: "validate_gates v = [] \<Longrightarrow> wf_gates v"
  by (cases v) (fastforce simp: validate_gates_def Let_def wf_gates_def
    intro: validate_gate_entry_wf split: json.splits)+

lemma validate_vendors_wf: "validate_vendors v g = [] \<Longrightarrow> wf_vendors v"
  by (cases v) (auto simp: validate_vendors_def Let_def wf_vendors_def
    intro: validate_stages_wf validate_recertify_days_wf)

lemma validate_evidence_wf: "validate_evidence v = [] \<Longrightarrow> wf_evidence v"
  by (cases v) (auto simp: validate_evidence_def Let_def wf_evidence_def wf_setting_def int_in_range_iff)

lemma wf_defaults:
  "wf_intake (JObj [])" "wf_gates (JObj [])" "wf_evidence (JObj [])" "wf_vendors default_vendors"
  "wf_stages reviewer_stages"
  by (simp_all add: wf_defs default_vendors_def reviewer_stages_def policy_consts)

lemma wf_DEFAULT_POLICY_BODY: "wf_body DEFAULT_POLICY_BODY"
  by (auto simp: wf_defs DEFAULT_POLICY_BODY_def reviewer_stages_def policy_consts)

lemma case_option_Nil:
  "(case m of None \<Rightarrow> [] | Some v \<Rightarrow> f v) = [] \<longleftrightarrow> (case m of None \<Rightarrow> True | Some v \<Rightarrow> f v = [])"
  "(case m of None \<Rightarrow> Inr [] | Some v \<Rightarrow> h v) = Inr [] \<longleftrightarrow> (case m of None \<Rightarrow> True | Some v \<Rightarrow> h v = Inr [])"
  by (auto split: option.splits)

lemma dget_section:
  "(case map_of d k of None \<Rightarrow> True | Some v \<Rightarrow> P v) \<Longrightarrow> P dflt \<Longrightarrow> P (dget d k dflt)"
  by (auto simp: dget_def split: option.splits)

lemma valid_body_wf:
  assumes "valid_body g body"
  shows "wf_body body"
proof -
  from assms obtain d where b: "body = JObj d"
    and i: "case map_of d ''intake'' of None \<Rightarrow> True | Some v \<Rightarrow> validate_intake v g = Inr []"
    and gt: "case map_of d ''gates'' of None \<Rightarrow> True | Some v \<Rightarrow> validate_gates v = []"
    and v: "case map_of d ''vendors'' of None \<Rightarrow> True | Some v \<Rightarrow> validate_vendors v g = []"
    and ev: "case map_of d ''evidence'' of None \<Rightarrow> True | Some v \<Rightarrow> validate_evidence v = []"
    by (cases body) (simp_all add: valid_body_def validate_policy_body_def Let_def ebind_eq_Inr case_option_Nil)
  from i have "wf_intake (dget d ''intake'' (JObj []))"
    by (intro dget_section [where P = wf_intake]) (auto intro: validate_intake_wf wf_defaults split: option.splits)
  moreover from gt have "wf_gates (dget d ''gates'' (JObj []))"
    by (intro dget_section [where P = wf_gates]) (auto intro: validate_gates_wf wf_defaults split: option.splits)
  moreover from v have "wf_vendors (dget d ''vendors'' default_vendors)"
    by (intro dget_section [where P = wf_vendors]) (auto intro: validate_vendors_wf wf_defaults split: option.splits)
  moreover from ev have "wf_evidence (dget d ''evidence'' (JObj []))"
    by (intro dget_section [where P = wf_evidence]) (auto intro: validate_evidence_wf wf_defaults split: option.splits)
  ultimately show ?thesis using b by (auto simp: wf_body_def)
qed

end
