(* ===== verification/Policy_Resolution.thy ===== *)
theory Policy_Resolution
  imports Policy_Document "HOL-Library.Multiset"
begin

text \<open>
  What the resolvers of storage/policy_engine.py return on stored policies. A policy table is
  well formed when every stored body has the shape the validator accepts; on such a table no
  resolver raises, what it returns is within the platform's floors and ceilings, and the
  document-level readers that \<open>policy_loosening\<close> compares agree with the resolvers.
\<close>

definition policies_wf :: "policy_row list \<Rightarrow> bool" where
  "policies_wf rows \<longleftrightarrow> (\<forall>r \<in> set rows. wf_body (gp_body r))"

lemma active_row_wf: "policies_wf rows \<Longrightarrow> active_row rows t = Some r \<Longrightarrow> wf_body (gp_body r)"
  by (auto simp: policies_wf_def active_row_def find_Some_iff)

lemma platform_default_wf: "policies_wf rows \<Longrightarrow> wf_body (gp_body (platform_default e rows))"
  by (auto simp: platform_default_def shipped_default_def wf_DEFAULT_POLICY_BODY
    intro: active_row_wf split: option.splits)

lemma active_policy_wf: "policies_wf rows \<Longrightarrow> wf_body (gp_body (active_policy e rows t))"
  by (auto simp: active_policy_def Let_def intro: active_row_wf platform_default_wf split: option.splits)

section \<open>Reading a well-formed body\<close>

lemma dget_member: "(\<forall>x \<in> set ts. P (snd x)) \<Longrightarrow> dget ts k JNull = JNull \<or> P (dget ts k JNull)"
  using dget_or [of ts k JNull] by fastforce

lemma wf_body_sections:
  assumes "wf_body b"
  obtains d di ts fs dg es where "b = JObj d"
    "dget d ''intake'' (JObj []) = JObj di" "dget di ''tiers'' (JObj []) = JObj ts"
    "\<forall>x \<in> set ts. wf_tier (snd x)" "dget di ''fields'' (JArr []) = JArr fs" "\<forall>f \<in> set fs. wf_field f"
    "dget d ''gates'' (JObj []) = JObj dg" "dget dg ''environments'' (JObj []) = JObj es"
    "\<forall>x \<in> set es. wf_gate (snd x)" "wf_vendors (dget d ''vendors'' default_vendors)"
    "wf_evidence (dget d ''evidence'' (JObj []))"
  using assms unfolding wf_body_def wf_intake_def wf_gates_def by blast

lemma body_tier_wf:
  assumes "wf_body b"
  shows "\<exists>x. body_tier b t = Inr x \<and> (x = JNull \<or> wf_tier x)"
  using assms by (rule wf_body_sections) (simp add: body_tier_def dget_member)

lemma body_gate_wf:
  assumes "wf_body b"
  shows "\<exists>x. body_gate b environment = Inr x \<and> (x = JNull \<or> wf_gate x)"
  using assms by (rule wf_body_sections) (auto simp: body_gate_def dest: dget_member)

lemma default_tier_wf:
  "wf_tier (JObj [(''stages'', reviewer_stages), (''mode'', JStr ''sequence'')])"
  "wf_tier (JObj [(''stages'', reviewer_stages)])"
  by (simp_all add: wf_tier_def wf_days_def wf_defaults STAGE_MODES_def)

lemma tier_entry_step:
  assumes "wf_body b"
  shows "tier_entry (b # docs) t =
    (case body_tier b t of Inr x \<Rightarrow> if x = JNull then tier_entry docs t else Inr x | Inl e \<Rightarrow> Inl e)"
  using assms by (rule wf_body_sections) (simp add: body_tier_def dget_obj_or)

lemma tier_entry_wf: "\<forall>b \<in> set docs. wf_body b \<Longrightarrow> \<exists>x. tier_entry docs t = Inr x \<and> wf_tier x"
proof (induction docs)
  case Nil
  show ?case by (simp add: default_tier_wf)
next
  case (Cons b docs)
  then have "wf_body b" by simp
  with body_tier_wf [OF this, of t] Cons show ?case by (auto simp: tier_entry_step simp del: tier_entry.simps)
qed

lemma gate_entry_step:
  assumes "wf_body b"
  shows "gate_entry (b # docs) environment =
    (case body_gate b environment of Inr x \<Rightarrow> if x = JNull then gate_entry docs environment else Inr x
       | Inl e \<Rightarrow> Inl e)"
  using assms by (rule wf_body_sections) (simp add: body_gate_def doc_environments_def dget_obj_or)

lemma empty_gate_wf: "wf_gate (JObj [])"
  by (auto simp: wf_gate_def MATERIAL_CHANGE_CEILING_def)

lemma gate_entry_wf: "\<forall>b \<in> set docs. wf_body b \<Longrightarrow> \<exists>x. gate_entry docs environment = Inr x \<and> wf_gate x"
proof (induction docs)
  case Nil
  show ?case by (simp add: empty_gate_wf)
next
  case (Cons b docs)
  then have "wf_body b" by simp
  with body_gate_wf [OF this, of environment] Cons show ?case
    by (auto simp: gate_entry_step simp del: gate_entry.simps)
qed

lemma vendor_get_wf: "wf_body b \<Longrightarrow> \<exists>x. jget b ''vendors'' JNull = Inr x \<and> (x = JNull \<or> wf_vendors x)"
  by (auto simp: wf_body_def dget_def split: option.splits)

lemma vendor_entry_wf: "\<forall>b \<in> set docs. wf_body b \<Longrightarrow> \<exists>x. vendor_entry docs = Inr x \<and> wf_vendors x"
proof (induction docs)
  case Nil
  show ?case by (simp add: wf_defaults)
next
  case (Cons b docs)
  then have "wf_body b" by simp
  with vendor_get_wf [OF this] Cons show ?case by auto
qed

lemma evidence_get_wf:
  assumes "wf_body b" and "k = ''coverage_window_days'' \<or> k = ''stale_after_days''"
  shows "\<exists>s v. jget b ''evidence'' JNull = Inr s \<and> jget (py_or s (JObj [])) k JNull = Inr v \<and> wf_setting v"
proof -
  from assms(1) obtain d where b: "b = JObj d" and ev: "wf_evidence (dget d ''evidence'' (JObj []))"
    by (auto simp: wf_body_def)
  from ev obtain de where de: "dget d ''evidence'' (JObj []) = JObj de"
    and w: "wf_setting (dget de ''coverage_window_days'' JNull)" "wf_setting (dget de ''stale_after_days'' JNull)"
    by (auto simp: wf_evidence_def)
  from dget_obj_or [OF de] b w assms(2) show ?thesis by auto
qed

lemma evidence_setting_pos:
  assumes "\<forall>b \<in> set docs. wf_body b" and k: "k = ''coverage_window_days'' \<or> k = ''stale_after_days''"
    and "1 \<le> dflt"
  shows "\<exists>n. evidence_setting docs k dflt = Inr n \<and> 1 \<le> n"
  using assms(1)
proof (induction docs)
  case Nil
  show ?case using assms(3) by simp
next
  case (Cons b docs)
  then have "wf_body b" by simp
  from evidence_get_wf [OF this k] Cons show ?case by (auto simp: wf_setting_def)
qed

lemma evidence_settings_total:
  assumes "wf_body b" "wf_body b'"
  shows "\<exists>s. evidence_settings_of b b' = Inr s \<and> 1 \<le> es_coverage_window_days s \<and> 1 \<le> es_stale_after_days s"
  using assms evidence_setting_pos [of "[b, b']" "''coverage_window_days''" DEFAULT_COVERAGE_WINDOW_DAYS]
    evidence_setting_pos [of "[b, b']" "''stale_after_days''" DEFAULT_STALE_AFTER_DAYS]
  by (auto simp: evidence_settings_of_def DEFAULT_COVERAGE_WINDOW_DAYS_def DEFAULT_STALE_AFTER_DAYS_def
    simp del: evidence_setting.simps)

lemma py_float_wf: "is_number c \<Longrightarrow> \<not> is_bool c \<Longrightarrow> py_float (py_or c (JInt 0)) = Inr (num_of c)"
  by (cases c) (auto simp: py_or_def)

lemma gate_of_entry_wf:
  assumes "wf_gate v"
  shows "\<exists>g. gate_of_entry p v = Inr g \<and> gt_max_open_material_changes g = 0 \<and>
    0 \<le> gt_min_control_coverage g \<and> gt_min_control_coverage g \<le> 100"
  using assms unfolding wf_gate_def
  by (auto simp: gate_of_entry_def py_float_wf MATERIAL_CHANGE_CEILING_def)

lemma intake_fields_wf:
  assumes "wf_body b" "wf_body b'"
  shows "\<exists>fs. intake_fields b b' = Inr fs \<and> (\<forall>f \<in> set fs. wf_field f)"
proof -
  from assms(1) obtain d di fs where b: "b = JObj d" and di: "dget d ''intake'' (JObj []) = JObj di"
    and fs: "dget di ''fields'' (JArr []) = JArr fs" "\<forall>f \<in> set fs. wf_field f"
    by (rule wf_body_sections)
  from assms(2) obtain d' di' fs' where b': "b' = JObj d'" and di': "dget d' ''intake'' (JObj []) = JObj di'"
    and fs': "dget di' ''fields'' (JArr []) = JArr fs'" "\<forall>f \<in> set fs'. wf_field f"
    by (rule wf_body_sections)
  show ?thesis
    using fs(2) fs'(2) by (auto simp: intake_fields_def b b' Let_def dget_obj_or [OF di] dget_obj_or [OF di']
      dget_arr_or [OF fs(1)] dget_arr_or [OF fs'(1)])
qed

section \<open>The resolvers\<close>

lemma resolve_tier_policy_wf:
  assumes "policies_wf rows"
  shows "\<exists>p. resolve_tier_policy e rows t tier = Inr p \<and> wf_stages (tp_stages p) \<and>
    tp_mode p \<in> JStr ` set STAGE_MODES \<and> wf_days (tp_recertify_days p)"
proof -
  obtain x where x: "body_tier (gp_body (active_policy e rows t)) tier = Inr x" "x = JNull \<or> wf_tier x"
    using body_tier_wf [OF active_policy_wf [OF assms]] by blast
  obtain y where y: "body_tier (gp_body (platform_default e rows)) tier = Inr y" "y = JNull \<or> wf_tier y"
    using body_tier_wf [OF platform_default_wf [OF assms]] by blast
  have stages: "wf_stages s \<Longrightarrow> py_or s reviewer_stages = s" for s
    by (auto simp: wf_stages_def py_or_def)
  have entry: "wf_tier w \<Longrightarrow> \<exists>s m n. jget w ''stages'' JNull = Inr s \<and>
      jget w ''mode'' (JStr ''sequence'') = Inr m \<and> jget w ''recertify_days'' JNull = Inr n \<and>
      wf_stages s \<and> m \<in> JStr ` set STAGE_MODES \<and> wf_days n" for w
    by (auto simp: wf_tier_def)
  show ?thesis
    using x(2) y(2) entry [of x] entry [of y] entry [OF default_tier_wf(1)]
    by (auto simp: resolve_tier_policy_def x(1) y(1) Let_def stages simp del: jget.simps)
qed

lemma resolve_gate_from_wf:
  assumes "\<forall>p \<in> set ps. wf_body (gp_body p)"
  shows "\<exists>g. resolve_gate_from ps dflt environment = Inr g \<and> gt_max_open_material_changes g = 0 \<and>
    0 \<le> gt_min_control_coverage g \<and> gt_min_control_coverage g \<le> 100"
  using assms
proof (induction ps)
  case Nil
  show ?case by simp
next
  case (Cons p ps)
  then have "wf_body (gp_body p)" by simp
  with body_gate_wf [OF this, of environment] gate_of_entry_wf Cons show ?case by fastforce
qed

lemma resolve_gate_policy_wf:
  assumes "policies_wf rows"
  shows "\<exists>g. resolve_gate_policy e rows t environment = Inr g \<and> gt_max_open_material_changes g = 0 \<and>
    0 \<le> gt_min_control_coverage g \<and> gt_min_control_coverage g \<le> 100"
  unfolding resolve_gate_policy_def
  using assms by (intro resolve_gate_from_wf) (auto intro: active_policy_wf platform_default_wf)

lemma resolve_vendor_policy_wf:
  assumes "policies_wf rows"
  shows "\<exists>p. resolve_vendor_policy e rows t = Inr p \<and> wf_stages (vp_stages p) \<and> wf_days (vp_recertify_days p)"
proof -
  obtain x where x: "jget (gp_body (active_policy e rows t)) ''vendors'' JNull = Inr x" "x = JNull \<or> wf_vendors x"
    using vendor_get_wf [OF active_policy_wf [OF assms]] by blast
  obtain y where y: "jget (gp_body (platform_default e rows)) ''vendors'' JNull = Inr y" "y = JNull \<or> wf_vendors y"
    using vendor_get_wf [OF platform_default_wf [OF assms]] by blast
  have stages: "wf_stages s \<Longrightarrow> py_or s reviewer_stages = s" for s
    by (auto simp: wf_stages_def py_or_def)
  have entry: "wf_vendors w \<Longrightarrow> \<exists>s n. jget w ''stages'' JNull = Inr s \<and>
      jget w ''recertify_days'' JNull = Inr n \<and> wf_stages s \<and> wf_days n" for w
    by (auto simp: wf_vendors_def)
  show ?thesis
    using x(2) y(2) entry [of x] entry [of y] entry [OF wf_defaults(4)]
    by (auto simp: resolve_vendor_policy_def x(1) y(1) Let_def stages simp del: jget.simps)
qed

section \<open>What the absence of a loosening reason guarantees\<close>

text \<open>The role names of a stage list and the day count of a clock, read from resolved values.\<close>

definition stage_role :: "json \<Rightarrow> string" where
  "stage_role s = (case s of JObj d \<Rightarrow> str_of (dget d ''role'' JNull) | _ \<Rightarrow> [])"

definition stage_roles_of :: "json \<Rightarrow> string list" where
  "stage_roles_of v = (case v of JArr xs \<Rightarrow> map stage_role xs | _ \<Rightarrow> [])"

definition opt_days :: "json \<Rightarrow> int option" where
  "opt_days v = (case v of JInt n \<Rightarrow> Some n | _ \<Rightarrow> None)"

text \<open>A recertification clock is kept when it still runs and not more slowly.\<close>

definition clock_kept :: "int option \<Rightarrow> int option \<Rightarrow> bool" where
  "clock_kept prior after = (case prior of None \<Rightarrow> True
     | Some n \<Rightarrow> (case after of None \<Rightarrow> False | Some m \<Rightarrow> m \<le> n))"

declare tier_entry.simps [simp del] gate_entry.simps [simp del] vendor_entry.simps [simp del]
  evidence_setting.simps [simp del]

lemma roles_missing_iff: "roles_missing rs qs \<longleftrightarrow> \<not> mset rs \<subseteq># mset qs"
proof (induction rs arbitrary: qs)
  case Nil
  show ?case by simp
next
  case (Cons r rs)
  show ?case
  proof (cases "r \<in> set qs")
    case True
    then show ?thesis using Cons.IH [of "remove1 r qs"] by (simp add: insert_subset_eq_iff)
  next
    case False
    then show ?thesis by (auto simp: insert_subset_eq_iff)
  qed
qed

lemma stage_role_wf: "wf_stages (JArr xs) \<Longrightarrow> emap (\<lambda>s. jget s ''role'' JNull) xs = Inr (map JStr (map stage_role xs))"
proof (induction xs)
  case Nil
  then show ?case by (simp add: wf_stages_def)
next
  case (Cons s xs)
  then obtain d r where s: "s = JObj d" "dget d ''role'' JNull = JStr r"
    by (auto simp: wf_stages_def)
  show ?case
  proof (cases "xs = []")
    case True
    with s show ?thesis by (simp add: stage_role_def)
  next
    case False
    with Cons.prems have "wf_stages (JArr xs)" by (auto simp: wf_stages_def)
    with Cons.IH s show ?thesis by (simp add: stage_role_def)
  qed
qed

lemma entry_roles_wf:
  assumes "jget w ''stages'' JNull = Inr st" and wf: "wf_stages st"
  shows "entry_roles w = Inr (map JStr (stage_roles_of st))"
proof -
  from wf obtain xs where st: "st = JArr xs" by (auto simp: wf_stages_def)
  with stage_role_wf wf assms(1) show ?thesis by (simp add: entry_roles_def stage_roles_of_def)
qed

lemma mset_map_JStr: "mset (map JStr a) \<subseteq># mset (map JStr b) \<longleftrightarrow> mset a \<subseteq># mset b"
proof
  assume "mset a \<subseteq># mset b"
  then show "mset (map JStr a) \<subseteq># mset (map JStr b)" by (simp add: image_mset_subseteq_mono)
next
  assume "mset (map JStr a) \<subseteq># mset (map JStr b)"
  then have "image_mset str_of (mset (map JStr a)) \<subseteq># image_mset str_of (mset (map JStr b))"
    by (rule image_mset_subseteq_mono)
  then show "mset a \<subseteq># mset b" by (simp add: multiset.map_comp comp_def)
qed

text \<open>Comparing two entries with stages and a clock: no reason means both are kept.\<close>

lemma pair_loosening_kept:
  assumes "pair_loosening sec old new = Inr []"
    and "jget old ''stages'' JNull = Inr so" "jget new ''stages'' JNull = Inr sn"
    and "jget old ''recertify_days'' JNull = Inr dold" "jget new ''recertify_days'' JNull = Inr dnew"
    and "wf_stages so" "wf_stages sn" "wf_days dold" "wf_days dnew"
  shows "mset (stage_roles_of so) \<subseteq># mset (stage_roles_of sn) \<and> clock_kept (opt_days dold) (opt_days dnew)"
proof
  from assms(1) have s: "stages_loosened old new = Inr False" and r: "recertify_loosened old new = Inr False"
    by (auto simp: pair_loosening_def ebind_eq_Inr)
  from s have "\<not> roles_missing (map JStr (stage_roles_of so)) (map JStr (stage_roles_of sn))"
    using entry_roles_wf [OF assms(2,6)] entry_roles_wf [OF assms(3,7)] by (simp add: stages_loosened_def)
  then show "mset (stage_roles_of so) \<subseteq># mset (stage_roles_of sn)"
    by (simp only: roles_missing_iff mset_map_JStr not_not)
  from r assms(4,5,8,9) show "clock_kept (opt_days dold) (opt_days dnew)"
    by (auto simp: recertify_loosened_def clock_kept_def opt_days_def wf_days_def json_gt_def
      simp del: jget.simps split: if_splits)
qed

text \<open>The resolvers and the document readers agree.\<close>

lemma active_row_tenant: "active_row rows t = Some r \<Longrightarrow> gp_tenant_id r = t \<and> gp_status r = ''active'' \<and> r \<in> set rows"
  by (auto simp: active_row_def find_Some_iff)

lemma active_policy_default: "gp_tenant_id (active_policy e rows t) = [] \<Longrightarrow> active_policy e rows t = platform_default e rows"
  by (auto simp: active_policy_def Let_def split: option.splits if_splits dest: active_row_tenant)

lemma resolve_tier_policy_entry:
  assumes "policies_wf rows"
  shows "\<exists>w st n p. tier_entry [gp_body (active_policy e rows t), gp_body (platform_default e rows)] tier = Inr w \<and>
    resolve_tier_policy e rows t tier = Inr p \<and> wf_tier w \<and>
    jget w ''stages'' JNull = Inr st \<and> jget w ''recertify_days'' JNull = Inr n \<and>
    wf_stages st \<and> wf_days n \<and> tp_stages p = st \<and> tp_recertify_days p = n"
proof -
  let ?A = "active_policy e rows t" and ?D = "platform_default e rows"
  have A: "wf_body (gp_body ?A)" and D: "wf_body (gp_body ?D)"
    using assms by (auto intro: active_policy_wf platform_default_wf)
  obtain x where x: "body_tier (gp_body ?A) tier = Inr x" "x = JNull \<or> wf_tier x"
    using body_tier_wf [OF A] by blast
  obtain y where y: "body_tier (gp_body ?D) tier = Inr y" "y = JNull \<or> wf_tier y"
    using body_tier_wf [OF D] by blast
  have te: "tier_entry [gp_body ?A, gp_body ?D] tier =
      Inr (if x \<noteq> JNull then x else if y \<noteq> JNull then y else JObj [(''stages'', reviewer_stages)])"
    using x(1) y(1) by (simp add: tier_entry_step [OF A] tier_entry_step [OF D] tier_entry.simps(1))
  have same: "gp_tenant_id ?A = [] \<Longrightarrow> y = x"
    using active_policy_default [of e rows t] x(1) y(1) by simp
  have stages: "wf_stages s \<Longrightarrow> py_or s reviewer_stages = s" for s
    by (auto simp: wf_stages_def py_or_def)
  have entry: "wf_tier w \<Longrightarrow> \<exists>s m n. jget w ''stages'' JNull = Inr s \<and>
      jget w ''mode'' (JStr ''sequence'') = Inr m \<and> jget w ''recertify_days'' JNull = Inr n \<and>
      wf_stages s \<and> wf_days n" for w
    by (auto simp: wf_tier_def)
  show ?thesis
  proof (cases "x = JNull \<and> y = JNull")
    case True
    then show ?thesis
      by (auto simp: te resolve_tier_policy_def x(1) y(1) Let_def default_tier_wf wf_defaults py_or_def
        reviewer_stages_def wf_days_def wf_tier_def wf_stages_def policy_consts)
  next
    case False
    define w where "w = (if x \<noteq> JNull then x else y)"
    have w: "wf_tier w" using False x(2) y(2) by (auto simp: w_def)
    then have w0: "w \<noteq> JNull" by (auto simp: wf_tier_def)
    obtain s m n where j: "jget w ''stages'' JNull = Inr s" "jget w ''mode'' (JStr ''sequence'') = Inr m"
      "jget w ''recertify_days'' JNull = Inr n" "wf_stages s" "wf_days n"
      using entry [OF w] by blast
    have "tier_entry [gp_body ?A, gp_body ?D] tier = Inr w"
      using te False by (auto simp: w_def)
    moreover have "\<exists>p. resolve_tier_policy e rows t tier = Inr p \<and> tp_stages p = s \<and> tp_recertify_days p = n"
    proof (cases "x = JNull")
      case True
      with False same have "gp_tenant_id ?A \<noteq> []" "w = y" by (auto simp: w_def)
      with True j w0 show ?thesis
        by (simp add: resolve_tier_policy_def Let_def x(1) y(1) stages del: jget.simps)
    next
      case xx: False
      then have "w = x" by (simp add: w_def)
      with xx j w0 show ?thesis
        by (simp add: resolve_tier_policy_def Let_def x(1) y(1) stages del: jget.simps)
    qed
    ultimately obtain p where "tier_entry [gp_body ?A, gp_body ?D] tier = Inr w"
      "resolve_tier_policy e rows t tier = Inr p" "tp_stages p = s" "tp_recertify_days p = n"
      by auto
    with w j show ?thesis by simp
  qed
qed

lemma emap_Inr_elem: "emap f xs = Inr yss \<Longrightarrow> concat yss = [] \<Longrightarrow> \<forall>x \<in> set xs. f x = Inr []"
  by (intro ballI) (rule emap_concat_Nil)

lemma policy_loosening_parts:
  assumes "policy_loosening old new dflt = Inr []"
  shows "(\<forall>tier \<in> set RISK_TIERS. tier_loosening old new dflt tier = Inr []) \<and>
    (\<exists>ov nv. vendor_entry [old, dflt] = Inr ov \<and> vendor_entry [new, dflt] = Inr nv \<and>
      pair_loosening ''vendors'' ov nv = Inr []) \<and>
    (\<exists>envs. mentioned_environments [old, new, dflt] = Inr envs \<and>
      (\<forall>environment \<in> set envs. gate_loosening old new dflt environment = Inr [])) \<and>
    (\<exists>oe ne. evidence_settings_of old dflt = Inr oe \<and> evidence_settings_of new dflt = Inr ne \<and>
      evidence_loosening oe ne = []) \<and>
    (\<exists>nfs idx ofs. intake_fields new dflt = Inr nfs \<and> field_index nfs = Inr idx \<and>
      intake_fields old dflt = Inr ofs \<and> (\<forall>f \<in> set ofs. field_loosening idx f = Inr []))"
proof -
  from assms obtain ts ov nv vs envs gs oe ne nfs idx ofs fls where
    parts: "emap (tier_loosening old new dflt) RISK_TIERS = Inr ts"
      "vendor_entry [old, dflt] = Inr ov" "vendor_entry [new, dflt] = Inr nv"
      "pair_loosening ''vendors'' ov nv = Inr vs"
      "mentioned_environments [old, new, dflt] = Inr envs"
      "emap (gate_loosening old new dflt) envs = Inr gs"
      "evidence_settings_of old dflt = Inr oe" "evidence_settings_of new dflt = Inr ne"
      "intake_fields new dflt = Inr nfs" "field_index nfs = Inr idx" "intake_fields old dflt = Inr ofs"
      "emap (field_loosening idx) ofs = Inr fls"
    and nil: "Inr (concat ts @ vs @ concat gs @ evidence_loosening oe ne @ concat fls) = (Inr [] :: string list res)"
    unfolding policy_loosening_def ebind_eq_Inr by blast
  from nil have "concat ts = []" "vs = []" "concat gs = []" "evidence_loosening oe ne = []" "concat fls = []"
    by simp_all
  with parts emap_Inr_elem [OF parts(1)] emap_Inr_elem [OF parts(6)] emap_Inr_elem [OF parts(12)]
  show ?thesis by simp
qed

text \<open>An environment no document mentions is governed by the entry for all environments.\<close>

lemma gate_entry_unmentioned:
  assumes "\<forall>b \<in> set docs. wf_body b"
    and "\<forall>b \<in> set docs. \<forall>ks. ebind (doc_environments b) json_keys = Inr ks \<longrightarrow> environment \<notin> set ks"
  shows "gate_entry docs environment = gate_entry docs ''*''"
  using assms
proof (induction docs)
  case Nil
  show ?case by (simp add: gate_entry.simps)
next
  case (Cons b docs)
  then have "wf_body b" by simp
  then obtain d dg es where b: "b = JObj d" "dget d ''gates'' (JObj []) = JObj dg"
    "dget dg ''environments'' (JObj []) = JObj es"
    by (rule wf_body_sections)
  have de: "doc_environments b = Inr (JObj es)"
    using b by (simp add: doc_environments_def dget_obj_or)
  with Cons.prems(2) have "environment \<notin> fst ` set es" by auto
  then have "dget es environment JNull = JNull"
    using map_of_eq_None_iff [of es environment] by (simp add: dget_def)
  with Cons de show ?case by (simp add: gate_entry.simps)
qed

lemma doc_environments_total: "wf_body b \<Longrightarrow> \<exists>ks. ebind (doc_environments b) json_keys = Inr ks"
  by (erule wf_body_sections) (simp add: doc_environments_def dget_obj_or)

lemma gate_loosening_all:
  assumes wf: "wf_body old" "wf_body new" "wf_body dflt"
    and "mentioned_environments [old, new, dflt] = Inr envs"
    and all: "\<forall>environment \<in> set envs. gate_loosening old new dflt environment = Inr []"
  shows "gate_loosening old new dflt environment = Inr [] \<or>
    (gate_entry [old, dflt] environment = gate_entry [old, dflt] ''*'' \<and>
     gate_entry [new, dflt] environment = gate_entry [new, dflt] ''*'' \<and>
     gate_loosening old new dflt ''*'' = Inr [])"
proof (cases "environment \<in> set envs")
  case True
  with all show ?thesis by blast
next
  case False
  obtain ko kn kd where k: "ebind (doc_environments old) json_keys = Inr ko"
    "ebind (doc_environments new) json_keys = Inr kn" "ebind (doc_environments dflt) json_keys = Inr kd"
    using wf doc_environments_total by metis
  with assms(4) have "set envs = insert ''*'' (set ko \<union> set kn \<union> set kd)"
    by (auto simp: mentioned_environments_def)
  with False all k wf show ?thesis
    by (intro disjI2 conjI gate_entry_unmentioned) auto
qed

lemma gate_entry_readings:
  assumes "wf_gate w" "gate_entry [b, dflt] environment = Inr w" "gate_of_entry p w = Inr g"
  shows "requires_attested b dflt environment = Inr (gt_require_attested_evals g) \<and>
    min_coverage b dflt environment = Inr (gt_min_control_coverage g)"
  using assms unfolding wf_gate_def
  by (auto simp: requires_attested_def min_coverage_def gate_of_entry_def py_float_wf)

lemma resolve_gate_policy_entry:
  assumes "policies_wf rows"
  shows "\<exists>w g p. gate_entry [gp_body (active_policy e rows t), gp_body (platform_default e rows)] environment = Inr w \<and>
    wf_gate w \<and> resolve_gate_policy e rows t environment = Inr g \<and>
    (\<exists>g'. gate_of_entry p w = Inr g' \<and> gt_require_attested_evals g' = gt_require_attested_evals g \<and>
      gt_min_control_coverage g' = gt_min_control_coverage g)"
proof -
  let ?A = "active_policy e rows t" and ?D = "platform_default e rows"
  have A: "wf_body (gp_body ?A)" and D: "wf_body (gp_body ?D)"
    using assms by (auto intro: active_policy_wf platform_default_wf)
  obtain x where x: "body_gate (gp_body ?A) environment = Inr x" "x = JNull \<or> wf_gate x"
    using body_gate_wf [OF A] by blast
  obtain y where y: "body_gate (gp_body ?D) environment = Inr y" "y = JNull \<or> wf_gate y"
    using body_gate_wf [OF D] by blast
  have ge: "gate_entry [gp_body ?A, gp_body ?D] environment =
      Inr (if x \<noteq> JNull then x else if y \<noteq> JNull then y else JObj [])"
    using x(1) y(1) by (simp add: gate_entry_step [OF A] gate_entry_step [OF D] gate_entry.simps(1))
  have empty: "\<exists>g'. gate_of_entry ?D (JObj []) = Inr g' \<and> \<not> gt_require_attested_evals g' \<and> gt_min_control_coverage g' = 0"
    by (simp add: gate_of_entry_def py_or_def)
  consider "x \<noteq> JNull" | "x = JNull" "y \<noteq> JNull" | "x = JNull" "y = JNull" by blast
  then show ?thesis
  proof cases
    case 1
    with x ge gate_of_entry_wf [of x ?A] show ?thesis
      by (auto simp: resolve_gate_policy_def)
  next
    case 2
    with x y ge gate_of_entry_wf [of y ?D] show ?thesis
      by (auto simp: resolve_gate_policy_def)
  next
    case 3
    with x y ge empty show ?thesis
      by (auto simp: resolve_gate_policy_def empty_gate_wf)
  qed
qed

lemma gate_kept:
  assumes "policies_wf rows" "policies_wf rows'"
    and d: "gp_body (platform_default e rows') = gp_body (platform_default e rows)"
    and "policy_loosening (gp_body (active_policy e rows t)) (gp_body (active_policy e rows' t))
      (gp_body (platform_default e rows)) = Inr []"
  shows "\<exists>g g'. resolve_gate_policy e rows t environment = Inr g \<and> resolve_gate_policy e rows' t environment = Inr g' \<and>
    (gt_require_attested_evals g \<longrightarrow> gt_require_attested_evals g') \<and>
    gt_min_control_coverage g \<le> gt_min_control_coverage g'"
proof -
  let ?o = "gp_body (active_policy e rows t)" and ?n = "gp_body (active_policy e rows' t)"
    and ?d = "gp_body (platform_default e rows)"
  have wf: "wf_body ?o" "wf_body ?n" "wf_body ?d"
    using assms(1,2) by (auto intro: active_policy_wf platform_default_wf)
  obtain wo g p go where og: "gate_entry [?o, ?d] environment = Inr wo" "wf_gate wo"
      "resolve_gate_policy e rows t environment = Inr g" "gate_of_entry p wo = Inr go"
      "gt_require_attested_evals go = gt_require_attested_evals g"
      "gt_min_control_coverage go = gt_min_control_coverage g"
    using resolve_gate_policy_entry [OF assms(1), of e t environment] by auto
  obtain wn g' q gn where ng: "gate_entry [?n, ?d] environment = Inr wn" "wf_gate wn"
      "resolve_gate_policy e rows' t environment = Inr g'" "gate_of_entry q wn = Inr gn"
      "gt_require_attested_evals gn = gt_require_attested_evals g'"
      "gt_min_control_coverage gn = gt_min_control_coverage g'"
    using resolve_gate_policy_entry [OF assms(2), of e t environment] d by auto
  obtain envs where envs: "mentioned_environments [?o, ?n, ?d] = Inr envs"
      "\<forall>environment \<in> set envs. gate_loosening ?o ?n ?d environment = Inr []"
    using policy_loosening_parts [OF assms(4)] by blast
  have tight: "\<exists>E. gate_entry [?o, ?d] E = Inr wo \<and> gate_entry [?n, ?d] E = Inr wn \<and> gate_loosening ?o ?n ?d E = Inr []"
    using gate_loosening_all [OF wf envs, of environment] og(1) ng(1) by auto
  then obtain E where E: "gate_entry [?o, ?d] E = Inr wo" "gate_entry [?n, ?d] E = Inr wn"
      "gate_loosening ?o ?n ?d E = Inr []" by blast
  from gate_entry_readings [OF og(2) E(1) og(4)] gate_entry_readings [OF ng(2) E(2) ng(4)] E(3) og(5,6) ng(5,6)
  have "(gt_require_attested_evals g \<longrightarrow> gt_require_attested_evals g') \<and>
      gt_min_control_coverage g \<le> gt_min_control_coverage g'"
    by (simp add: gate_loosening_def)
  with og(3) ng(3) show ?thesis by blast
qed

lemma tier_kept:
  assumes "policies_wf rows" "policies_wf rows'"
    and d: "gp_body (platform_default e rows') = gp_body (platform_default e rows)"
    and "policy_loosening (gp_body (active_policy e rows t)) (gp_body (active_policy e rows' t))
      (gp_body (platform_default e rows)) = Inr []"
    and tier: "tier \<in> set RISK_TIERS"
  shows "\<exists>p p'. resolve_tier_policy e rows t tier = Inr p \<and> resolve_tier_policy e rows' t tier = Inr p' \<and>
    mset (stage_roles_of (tp_stages p)) \<subseteq># mset (stage_roles_of (tp_stages p')) \<and>
    clock_kept (opt_days (tp_recertify_days p)) (opt_days (tp_recertify_days p'))"
proof -
  let ?o = "gp_body (active_policy e rows t)" and ?n = "gp_body (active_policy e rows' t)"
    and ?d = "gp_body (platform_default e rows)"
  obtain wo p where o: "tier_entry [?o, ?d] tier = Inr wo" "resolve_tier_policy e rows t tier = Inr p"
      "jget wo ''stages'' JNull = Inr (tp_stages p)" "jget wo ''recertify_days'' JNull = Inr (tp_recertify_days p)"
      "wf_stages (tp_stages p)" "wf_days (tp_recertify_days p)"
    using resolve_tier_policy_entry [OF assms(1), of e t tier] by auto
  obtain wn p' where n: "tier_entry [?n, ?d] tier = Inr wn" "resolve_tier_policy e rows' t tier = Inr p'"
      "jget wn ''stages'' JNull = Inr (tp_stages p')" "jget wn ''recertify_days'' JNull = Inr (tp_recertify_days p')"
      "wf_stages (tp_stages p')" "wf_days (tp_recertify_days p')"
    using resolve_tier_policy_entry [OF assms(2), of e t tier] d by auto
  from policy_loosening_parts [OF assms(4)] tier have "tier_loosening ?o ?n ?d tier = Inr []" by blast
  with o(1) n(1) have "pair_loosening (''intake.tiers.'' @ tier) wo wn = Inr []"
    by (simp add: tier_loosening_def)
  from pair_loosening_kept [OF this o(3) n(3) o(4) n(4) o(5) n(5) o(6) n(6)] o(2) n(2)
  show ?thesis by blast
qed

end
