(* ===== verification/Staffing.thy ===== *)
theory Staffing
  imports Policy_Resolution
begin

text \<open>
  Staffing of approval stages (storage/policy_engine.py: \<open>_eligible_deciders\<close>, \<open>_can_staff\<close>,
  \<open>_stage_sections\<close>, \<open>unstaffed_stage_changes\<close>). \<open>_can_staff\<close> matches stages to people by
  augmenting paths; its recursion is bounded by the number of people, which is the fuel given
  here. The main result is that it returns True exactly when the stages can be given to
  pairwise different eligible people.
\<close>

section \<open>The matching\<close>

type_synonym assignment = "string \<rightharpoonup> nat"

text \<open>
  \<open>place\<close> returns whether the stage found a person, the people seen and the assignment;
  \<open>scan\<close> is its loop over the stage's candidates. None is running out of fuel.
\<close>

fun place :: "nat \<Rightarrow> (nat \<Rightarrow> string list) \<Rightarrow> nat \<Rightarrow> string list \<Rightarrow> assignment \<Rightarrow> (bool \<times> string list \<times> assignment) option"
  and scan :: "nat \<Rightarrow> (nat \<Rightarrow> string list) \<Rightarrow> nat \<Rightarrow> string list \<Rightarrow> string list \<Rightarrow> assignment \<Rightarrow> (bool \<times> string list \<times> assignment) option"
where
  "place 0 el stage seen asg = None"
| "place (Suc f) el stage seen asg = scan f el stage (el stage) seen asg"
| "scan f el stage [] seen asg = Some (False, seen, asg)"
| "scan f el stage (p # ps) seen asg =
     (if p \<in> set seen then scan f el stage ps seen asg
      else case asg p of
        None \<Rightarrow> Some (True, p # seen, asg(p \<mapsto> stage))
      | Some t \<Rightarrow>
          (case place f el t (p # seen) asg of
             None \<Rightarrow> None
           | Some (True, seen', asg') \<Rightarrow> Some (True, seen', asg'(p \<mapsto> stage))
           | Some (False, seen', asg') \<Rightarrow> scan f el stage ps seen' asg'))"

fun staff_all :: "nat \<Rightarrow> (nat \<Rightarrow> string list) \<Rightarrow> nat list \<Rightarrow> assignment \<Rightarrow> bool option" where
  "staff_all f el [] asg = Some True"
| "staff_all f el (s # ss) asg =
     (case place f el s [] asg of
        None \<Rightarrow> None
      | Some (False, _, _) \<Rightarrow> Some False
      | Some (True, _, asg') \<Rightarrow> staff_all f el ss asg')"

definition stage_candidates :: "string list \<Rightarrow> (string \<Rightarrow> string list) \<Rightarrow> nat \<Rightarrow> string list" where
  "stage_candidates roles eligible i = (if i < length roles then sorted_set (eligible (roles ! i)) else [])"

definition staff_fuel :: "string list \<Rightarrow> (string \<Rightarrow> string list) \<Rightarrow> nat" where
  "staff_fuel roles eligible = Suc (length (remdups (concat (map eligible roles))))"

definition can_staff :: "string list \<Rightarrow> (string \<Rightarrow> string list) \<Rightarrow> bool" where
  "can_staff roles eligible \<longleftrightarrow>
     staff_all (staff_fuel roles eligible) (stage_candidates roles eligible) [0..<length roles] Map.empty
       = Some True"

section \<open>Facts about one search\<close>

lemma seen_grows:
  "place f el s seen asg = Some (b, seen', asg') \<Longrightarrow> set seen \<subseteq> set seen'"
  "scan f el s ps seen asg = Some (b, seen', asg') \<Longrightarrow> set seen \<subseteq> set seen'"
  by (induction f el s seen asg and f el s ps seen asg arbitrary: b seen' asg' and b seen' asg' rule: place_scan.induct)
    (fastforce split: if_splits option.splits bool.splits)+

lemma failure_keeps:
  "place f el s seen asg = Some (False, seen', asg') \<Longrightarrow> asg' = asg"
  "scan f el s ps seen asg = Some (False, seen', asg') \<Longrightarrow> asg' = asg"
proof (induction f el s seen asg and f el s ps seen asg arbitrary: seen' asg' and seen' asg' rule: place_scan.induct)
  case (4 f el s p ps seen asg)
  show ?case
  proof (cases "p \<in> set seen")
    case True
    with 4(1) 4(4) show ?thesis by simp
  next
    case False
    with 4(4) obtain t where t: "asg p = Some t" by (cases "asg p") auto
    with False 4(4) obtain b seen1 asg1 where r: "place f el t (p # seen) asg = Some (b, seen1, asg1)"
      by (auto split: option.splits)
    with False t 4(4) have b: "b = False" by (cases b) auto
    from 4(2) [OF False t] r b have "asg1 = asg" by simp
    with 4(3) [OF False t r] b False t r 4(4) show ?thesis by simp
  qed
qed auto

lemma enough_fuel:
  "finite P \<Longrightarrow> (\<forall>t. set (el t) \<subseteq> P) \<Longrightarrow> card (P - set seen) < f \<Longrightarrow> place f el s seen asg \<noteq> None"
  "finite P \<Longrightarrow> (\<forall>t. set (el t) \<subseteq> P) \<Longrightarrow> set ps \<subseteq> P \<Longrightarrow> card (P - set seen) \<le> f \<Longrightarrow> scan f el s ps seen asg \<noteq> None"
proof (induction f el s seen asg and f el s ps seen asg rule: place_scan.induct)
  case (4 f el s p ps seen asg)
  show ?case
  proof (cases "p \<in> set seen \<or> asg p = None")
    case True
    with 4 show ?thesis by auto
  next
    case False
    then obtain t where t: "p \<notin> set seen" "asg p = Some t" by auto
    have "card (P - set (p # seen)) < card (P - set seen)"
      using 4(4,6) t by (intro psubset_card_mono) auto
    with 4 t have "place f el t (p # seen) asg \<noteq> None" by auto
    then obtain b seen' asg' where r: "place f el t (p # seen) asg = Some (b, seen', asg')" by auto
    have "card (P - set seen') \<le> card (P - set seen)"
      using seen_grows(1) [OF r] 4(4) by (intro card_mono) auto
    with 4 t r show ?thesis by (cases b) auto
  qed
qed auto

text \<open>How many people hold a stage.\<close>

definition holders :: "assignment \<Rightarrow> nat \<Rightarrow> nat" where
  "holders asg s = card {q. asg q = Some s}"

lemma finite_holders: "finite (dom asg) \<Longrightarrow> finite {q. asg q = Some s}"
  by (rule finite_subset [of _ "dom asg"]) auto

lemma holders_new:
  assumes "finite (dom asg)" "asg p = None"
  shows "holders (asg(p \<mapsto> t)) s = holders asg s + (if s = t then 1 else 0)"
proof -
  have "{q. (asg(p \<mapsto> t)) q = Some s} = (if s = t then insert p {q. asg q = Some s} else {q. asg q = Some s})"
    using assms(2) by auto
  with assms finite_holders [OF assms(1)] show ?thesis by (auto simp: holders_def)
qed

lemma holders_move:
  assumes "finite (dom asg)" "asg p = Some t"
  shows "holders (asg(p \<mapsto> u)) s + (if s = t then 1 else 0) = holders asg s + (if s = u then 1 else 0)"
proof -
  let ?a = "asg(p := None)"
  have fin: "finite (dom ?a)" using assms(1) by simp
  have u: "?a(p \<mapsto> u) = asg(p \<mapsto> u)" by simp
  have t: "?a(p \<mapsto> t) = asg" using assms(2) by auto
  have "holders (asg(p \<mapsto> u)) s = holders ?a s + (if s = u then 1 else 0)"
    using holders_new [OF fin, of p u s] by (simp add: u)
  moreover have "holders asg s = holders ?a s + (if s = t then 1 else 0)"
    using holders_new [OF fin, of p t s] unfolding t by simp
  ultimately show ?thesis by simp
qed

lemma success_augments:
  "finite (dom asg) \<Longrightarrow> place f el s seen asg = Some (True, seen', asg') \<Longrightarrow>
    finite (dom asg') \<and> (\<forall>q \<in> set seen. asg' q = asg q) \<and>
    (\<forall>u. holders asg' u = holders asg u + (if u = s then 1 else 0))"
  "finite (dom asg) \<Longrightarrow> scan f el s ps seen asg = Some (True, seen', asg') \<Longrightarrow>
    finite (dom asg') \<and> (\<forall>q \<in> set seen. asg' q = asg q) \<and>
    (\<forall>u. holders asg' u = holders asg u + (if u = s then 1 else 0))"
proof (induction f el s seen asg and f el s ps seen asg arbitrary: seen' asg' and seen' asg' rule: place_scan.induct)
  case (4 f el s p ps seen asg)
  consider "p \<in> set seen" | "p \<notin> set seen" "asg p = None" | t where "p \<notin> set seen" "asg p = Some t" by auto
  then show ?case
  proof cases
    case 1
    with 4(5) have "scan f el s ps seen asg = Some (True, seen', asg')" by simp
    from 4(1) [OF 1 4(4) this] show ?thesis .
  next
    case 2
    with 4(5) have res: "asg' = asg(p \<mapsto> s)" by simp
    have "\<forall>q \<in> set seen. asg' q = asg q" using 2 by (auto simp: res)
    moreover have "finite (dom asg')" using 4(4) by (simp add: res)
    moreover have "\<forall>u. holders asg' u = holders asg u + (if u = s then 1 else 0)"
      using holders_new [OF 4(4) 2(2)] by (simp add: res)
    ultimately show ?thesis by blast
  next
    case (3 t)
    with 4(5) obtain b seen1 asg1 where r: "place f el t (p # seen) asg = Some (b, seen1, asg1)"
      by (auto split: option.splits)
    show ?thesis
    proof (cases b)
      case True
      with 3 r 4(5) have res: "asg' = asg1(p \<mapsto> s)" by simp
      from 4(2) [OF 3(1) 3(2) 4(4)] r True have ih: "finite (dom asg1)" "\<forall>q \<in> set (p # seen). asg1 q = asg q"
        "\<And>u. holders asg1 u = holders asg u + (if u = t then 1 else 0)" by auto
      have "asg1 p = Some t" using ih(2) 3(2) by simp
      then have mv: "holders asg' u + (if u = t then 1 else 0) = holders asg1 u + (if u = s then 1 else 0)" for u
        unfolding res by (rule holders_move [OF ih(1)])
      have "holders asg' u = holders asg u + (if u = s then 1 else 0)" for u
        using mv [of u] ih(3) [of u] by (auto split: if_splits)
      moreover have "\<forall>q \<in> set seen. asg' q = asg q" using ih(2) 3(1) by (auto simp: res)
      moreover have "finite (dom asg')" using ih(1) by (simp add: res)
      ultimately show ?thesis by blast
    next
      case False
      with r have a: "asg1 = asg" using failure_keeps(1) [of f el t "p # seen" asg seen1 asg1] by simp
      from False 3 r 4(5) a have s: "scan f el s ps seen1 asg = Some (True, seen', asg')" by simp
      have "set seen \<subseteq> set seen1" using seen_grows(1) [OF r] by auto
      with 4(3) [OF 3(1) 3(2) r] False a 4(4) s show ?thesis by (auto simp del: scan.simps)
    qed
  qed
qed auto

lemma success_eligible:
  "\<forall>q u. asg q = Some u \<longrightarrow> q \<in> set (el u) \<Longrightarrow> place f el s seen asg = Some (True, seen', asg') \<Longrightarrow>
    \<forall>q u. asg' q = Some u \<longrightarrow> q \<in> set (el u)"
  "\<forall>q u. asg q = Some u \<longrightarrow> q \<in> set (el u) \<Longrightarrow> set ps \<subseteq> set (el s) \<Longrightarrow>
    scan f el s ps seen asg = Some (True, seen', asg') \<Longrightarrow> \<forall>q u. asg' q = Some u \<longrightarrow> q \<in> set (el u)"
proof (induction f el s seen asg and f el s ps seen asg arbitrary: seen' asg' and seen' asg' rule: place_scan.induct)
  case (4 f el s p ps seen asg)
  consider "p \<in> set seen" | "p \<notin> set seen" "asg p = None" | t where "p \<notin> set seen" "asg p = Some t" by auto
  then show ?case
  proof cases
    case 1
    with 4(6) have "scan f el s ps seen asg = Some (True, seen', asg')" by simp
    with 4(1) [OF 1 4(4) _ this] 4(5) show ?thesis by simp
  next
    case 2
    with 4(6) have res: "asg' = asg(p \<mapsto> s)" by simp
    with 4(4,5) show ?thesis by (auto split: if_splits)
  next
    case (3 t)
    with 4(6) obtain b seen1 asg1 where r: "place f el t (p # seen) asg = Some (b, seen1, asg1)"
      by (auto split: option.splits)
    show ?thesis
    proof (cases b)
      case True
      with 3 r 4(6) have res: "asg' = asg1(p \<mapsto> s)" by simp
      from 4(2) [OF 3(1) 3(2) 4(4)] r True have "\<forall>q u. asg1 q = Some u \<longrightarrow> q \<in> set (el u)" by auto
      with 4(5) show ?thesis by (auto simp: res split: if_splits)
    next
      case False
      with r have a: "asg1 = asg" using failure_keeps(1) [of f el t "p # seen" asg seen1 asg1] by simp
      from False 3 r 4(6) a have s: "scan f el s ps seen1 asg = Some (True, seen', asg')" by simp
      from 4(3) [OF 3(1) 3(2) r] False a 4(4,5) s show ?thesis by simp
    qed
  qed
qed auto

text \<open>A failed search leaves a set of people, all assigned, that no involved stage can leave.\<close>

lemma failure_closed:
  "place f el s seen asg = Some (False, seen', asg') \<Longrightarrow> set (el s) \<subseteq> set seen' \<and>
    (\<forall>q \<in> set seen' - set seen. \<exists>u. asg q = Some u \<and> set (el u) \<subseteq> set seen')"
  "scan f el s ps seen asg = Some (False, seen', asg') \<Longrightarrow> set ps \<subseteq> set seen' \<and>
    (\<forall>q \<in> set seen' - set seen. \<exists>u. asg q = Some u \<and> set (el u) \<subseteq> set seen')"
proof (induction f el s seen asg and f el s ps seen asg arbitrary: seen' asg' and seen' asg' rule: place_scan.induct)
  case (4 f el s p ps seen asg)
  show ?case
  proof (cases "p \<in> set seen")
    case True
    with 4(4) have "scan f el s ps seen asg = Some (False, seen', asg')" by simp
    with 4(1) True seen_grows(2) [OF this] show ?thesis by auto
  next
    case False
    with 4(4) obtain t where t: "asg p = Some t" by (cases "asg p") auto
    with False 4(4) obtain b seen1 asg1 where r: "place f el t (p # seen) asg = Some (b, seen1, asg1)"
      by (auto split: option.splits)
    with False t 4(4) have b: "\<not> b" by (cases b) auto
    with r have a: "asg1 = asg" using failure_keeps(1) [of f el t "p # seen" asg seen1 asg1] by simp
    from b False t r 4(4) a have sc: "scan f el s ps seen1 asg = Some (False, seen', asg')" by simp
    from 4(2) [OF False t] r b have c1: "set (el t) \<subseteq> set seen1"
      "\<forall>q \<in> set seen1 - set (p # seen). \<exists>u. asg q = Some u \<and> set (el u) \<subseteq> set seen1" by auto
    from 4(3) [OF False t r] b a sc have c2: "set ps \<subseteq> set seen'"
      "\<forall>q \<in> set seen' - set seen1. \<exists>u. asg q = Some u \<and> set (el u) \<subseteq> set seen'" by auto
    have sub: "set seen1 \<subseteq> set seen'" and p: "p \<in> set seen1"
      using seen_grows(2) [OF sc] seen_grows(1) [OF r] by auto
    have "\<exists>u. asg q = Some u \<and> set (el u) \<subseteq> set seen'" if q: "q \<in> set seen' - set seen" for q
    proof (cases "q \<in> set seen1")
      case True
      then show ?thesis using c1 q sub t by (cases "q = p") (blast, force)
    next
      case False
      with c2 q show ?thesis by auto
    qed
    with c2(1) sub p show ?thesis by auto
  qed
qed auto

section \<open>Correctness of the matching\<close>

text \<open>Pairwise different eligible people for the stages below \<open>n\<close>.\<close>

definition distinct_people :: "(nat \<Rightarrow> string list) \<Rightarrow> nat \<Rightarrow> bool" where
  "distinct_people el n \<longleftrightarrow> (\<exists>g. inj_on g {..<n} \<and> (\<forall>i < n. g i \<in> set (el i)))"

definition placed :: "(nat \<Rightarrow> string list) \<Rightarrow> nat \<Rightarrow> assignment \<Rightarrow> bool" where
  "placed el k asg \<longleftrightarrow> finite (dom asg) \<and> (\<forall>q u. asg q = Some u \<longrightarrow> q \<in> set (el u)) \<and>
     (\<forall>u. holders asg u = (if u < k then 1 else 0))"

lemma placed_empty: "placed el 0 Map.empty"
  by (simp add: placed_def holders_def)

lemma placed_Suc:
  assumes "placed el k asg" and r: "place f el k seen asg = Some (True, seen', asg')"
  shows "placed el (Suc k) asg'"
proof -
  from assms(1) have fin: "finite (dom asg)" and el: "\<forall>q u. asg q = Some u \<longrightarrow> q \<in> set (el u)"
    and h: "\<And>u. holders asg u = (if u < k then 1 else 0)" by (simp_all add: placed_def)
  from success_augments(1) [OF fin r] have "finite (dom asg')"
    and "\<forall>u. holders asg' u = (if u < Suc k then 1 else 0)" by (auto simp: h)
  with success_eligible(1) [OF el r] show ?thesis by (simp add: placed_def)
qed

lemma placed_holders: "placed el k asg \<Longrightarrow> card {q. asg q = Some u} = (if u < k then 1 else 0)"
  by (simp add: placed_def holders_def)

lemma placed_bound:
  assumes "placed el k asg" "asg q = Some u"
  shows "u < k"
proof (rule ccontr)
  assume "\<not> u < k"
  with placed_holders [OF assms(1), of u] have "card {q. asg q = Some u} = 0" by simp
  moreover have "finite {q. asg q = Some u}" using assms(1) by (auto simp: placed_def intro: finite_holders)
  ultimately have "{q. asg q = Some u} = {}" by (simp only: card_0_eq)
  with assms(2) show False by blast
qed

lemma placed_inj:
  assumes "placed el k asg" "asg q = Some u" "asg q' = Some u"
  shows "q = q'"
proof -
  from placed_bound [OF assms(1,2)] placed_holders [OF assms(1), of u] have "card {q. asg q = Some u} = 1"
    by simp
  then obtain x where x: "{q. asg q = Some u} = {x}" by (rule card_1_singletonE)
  have "q \<in> {x}" "q' \<in> {x}" using assms(2,3) unfolding x [symmetric] by simp_all
  then show ?thesis by simp
qed

lemma placed_all:
  assumes "placed el n asg"
  shows "distinct_people el n"
proof -
  have "\<exists>q. asg q = Some u" if "u < n" for u
  proof -
    from placed_holders [OF assms, of u] that have "card {q. asg q = Some u} = 1" by simp
    then obtain x where x: "{q. asg q = Some u} = {x}" by (rule card_1_singletonE)
    have "x \<in> {q. asg q = Some u}" unfolding x by simp
    then show ?thesis by blast
  qed
  then obtain g where g: "\<And>u. u < n \<Longrightarrow> asg (g u) = Some u" by metis
  have "inj_on g {..<n}"
    by (rule inj_onI) (metis g lessThan_iff option.inject)
  with g assms show ?thesis by (auto simp: distinct_people_def placed_def)
qed

lemma failure_refutes:
  assumes pl: "placed el k asg" and "k < n"
    and f: "place f el k [] asg = Some (False, seen', asg')"
  shows "\<not> distinct_people el n"
proof
  assume "distinct_people el n"
  then obtain g where inj: "inj_on g {..<n}" and g: "\<And>i. i < n \<Longrightarrow> g i \<in> set (el i)"
    by (auto simp: distinct_people_def)
  let ?S = "set seen'" and ?T = "insert k ((the \<circ> asg) ` set seen')"
  from failure_closed(1) [OF f] have k: "set (el k) \<subseteq> ?S"
    and cl: "\<And>q. q \<in> ?S \<Longrightarrow> \<exists>u. asg q = Some u \<and> set (el u) \<subseteq> ?S" by auto
  have bound: "(the \<circ> asg) q < k" if "q \<in> ?S" for q
    using cl [OF that] placed_bound [OF pl] by auto
  have "inj_on (the \<circ> asg) ?S"
    by (rule inj_onI) (metis cl comp_apply option.sel placed_inj [OF pl])
  moreover have "k \<notin> (the \<circ> asg) ` ?S" using bound by auto
  ultimately have card: "card ?T = Suc (card ?S)" by (simp add: card_image del: comp_apply)
  have T: "?T \<subseteq> {..<n}" using bound \<open>k < n\<close> by fastforce
  have "g ` ?T \<subseteq> ?S"
  proof
    fix x assume "x \<in> g ` ?T"
    then obtain u where u: "u \<in> ?T" "x = g u" by blast
    then have "u < n" using T by auto
    moreover have "set (el u) \<subseteq> ?S" using u(1) k cl by fastforce
    ultimately show "x \<in> ?S" using g u(2) by auto
  qed
  then have "card (g ` ?T) \<le> card ?S" by (simp add: card_mono)
  moreover have "card (g ` ?T) = card ?T" using inj T by (intro card_image) (rule inj_on_subset)
  ultimately show False using card by simp
qed

lemma staff_all_decides:
  assumes fuel: "finite P" "\<forall>t. set (el t) \<subseteq> P" "card P < f"
    and "placed el k asg" "k \<le> n"
  shows "staff_all f el [k..<n] asg = Some (distinct_people el n)"
  using assms(4,5)
proof (induction "n - k" arbitrary: k asg)
  case 0
  then have "k = n" by simp
  with 0 placed_all show ?case by simp
next
  case (Suc m)
  then have "k < n" by simp
  then have up: "[k..<n] = k # [Suc k..<n]" by (rule upt_conv_Cons)
  have "place f el k [] asg \<noteq> None" using fuel by (intro enough_fuel(1)) auto
  then obtain b seen' asg' where r: "place f el k [] asg = Some (b, seen', asg')" by auto
  show ?case
  proof (cases b)
    case True
    with r Suc.prems(1) have "placed el (Suc k) asg'" by (auto intro: placed_Suc)
    with Suc.hyps \<open>k < n\<close> have "staff_all f el [Suc k..<n] asg' = Some (distinct_people el n)" by simp
    with r True up show ?thesis by simp
  next
    case False
    with r failure_refutes [OF Suc.prems(1) \<open>k < n\<close>, of f seen' asg'] up show ?thesis by simp
  qed
qed

lemma candidates_subset: "set (stage_candidates roles eligible t) \<subseteq> set (concat (map eligible roles))"
  by (auto simp: stage_candidates_def dest: nth_mem)

lemma can_staff_run:
  "staff_all (staff_fuel roles eligible) (stage_candidates roles eligible) [0..<length roles] Map.empty =
     Some (distinct_people (stage_candidates roles eligible) (length roles))"
proof (rule staff_all_decides [where P = "set (concat (map eligible roles))"])
  show "card (set (concat (map eligible roles))) < staff_fuel roles eligible"
    using length_remdups_card_conv [of "concat (map eligible roles)"] by (simp add: staff_fuel_def)
qed (use candidates_subset placed_empty in auto)

lemma can_staff_correct:
  "can_staff roles eligible \<longleftrightarrow>
     (\<exists>g. inj_on g {..<length roles} \<and> (\<forall>i < length roles. g i \<in> set (eligible (roles ! i))))"
  unfolding can_staff_def can_staff_run distinct_people_def stage_candidates_def by simp

section \<open>Who is eligible, and which changed stage lists cannot be staffed\<close>

text \<open>The roles a person holds in the organization, through active assignments of an active user.\<close>

definition held_roles :: "role_assignment list \<Rightarrow> platform_user list \<Rightarrow> string \<Rightarrow> string \<Rightarrow> string list" where
  "held_roles ras users tenant_id user =
     map ra_role (filter (\<lambda>ra. ra_user_ref ra = user \<and> ra_tenant_id ra = Some tenant_id \<and> ra_status ra = ''active'' \<and>
       list_ex (\<lambda>u. pu_user_ref u = user \<and> pu_status u = ''active'') users) ras)"

definition grant_set :: "grants \<Rightarrow> string \<Rightarrow> string set" where
  "grant_set g role = (case g role of None \<Rightarrow> {} | Some perms \<Rightarrow> perms)"

definition eligible_deciders ::
    "role_permission list \<Rightarrow> role_assignment list \<Rightarrow> platform_user list \<Rightarrow> string \<Rightarrow> string \<Rightarrow> string list" where
  "eligible_deciders rps ras users tenant_id required =
     (case decision_capable_roles rps required of
        None \<Rightarrow> []
      | Some required_grants \<Rightarrow>
          sorted_set (filter (\<lambda>user. let roles = held_roles ras users tenant_id user in
              required \<in> set roles \<or>
              list_ex (\<lambda>role. required_grants \<subseteq> grant_set (decision_capable_roles rps) role) roles)
            (map ra_user_ref ras)))"

definition stage_roles :: "json \<Rightarrow> string list res" where
  "stage_roles entry = ebind (entry_roles entry) (\<lambda>rs. Inr (map str_of rs))"

definition stage_sections :: "json \<Rightarrow> json \<Rightarrow> (string \<times> string list) list res" where
  "stage_sections body default_body =
     ebind (emap (\<lambda>tier. ebind (tier_entry [body, default_body] tier) (\<lambda>entry.
        ebind (stage_roles entry) (\<lambda>rs. Inr (''intake.tiers.'' @ tier, rs)))) RISK_TIERS) (\<lambda>tiers.
     ebind (vendor_entry [body, default_body]) (\<lambda>entry.
     ebind (stage_roles entry) (\<lambda>rs. Inr (tiers @ [(''vendors'', rs)]))))"

definition unstaffed_reason :: "string \<Rightarrow> string list \<Rightarrow> string" where
  "unstaffed_reason section roles =
     section @ '': '' @ str_nat (length roles) @ '' stage(s) ('' @ comma_join roles @ '') need '' @
     str_nat (length roles) @ '' different active people with that authority, and the organization does not have them''"

definition unstaffed_stage_changes ::
    "(string \<Rightarrow> string list) \<Rightarrow> json \<Rightarrow> json \<Rightarrow> json \<Rightarrow> string list res" where
  "unstaffed_stage_changes eligible old_body new_body default_body =
     ebind (stage_sections old_body default_body) (\<lambda>prior.
     ebind (stage_sections new_body default_body) (\<lambda>after.
     Inr (map (\<lambda>(section, roles). unstaffed_reason section roles)
       (filter (\<lambda>(section, roles). \<not> (map_of prior section = Some roles \<or> can_staff roles eligible)) after))))"

end
