(* ===== verification/Policy_Versions.thy ===== *)
theory Policy_Versions
  imports Staffing
begin

text \<open>
  Versions of a tenant's governance policy (storage/policy_engine.py): drafting the next
  version, activating one, reading the one in force, and the difference recorded in the audit
  log. The invariant \<open>versions_inv\<close> (versions are unique per tenant, at most one is active, every
  stored body has the validated shape) is kept by both operations; stored bodies never change
  and a superseded version never becomes active again.
\<close>

section \<open>Operations\<close>

definition version_key :: "policy_row \<Rightarrow> string \<times> int" where
  "version_key r = (gp_tenant_id r, gp_version r)"

definition list_policy_versions :: "policy_row list \<Rightarrow> string \<Rightarrow> policy_row list" where
  "list_policy_versions rows tenant_id =
     rev (sort_key gp_version (filter (\<lambda>r. gp_tenant_id r = tenant_id) rows))"

definition load_policy_version :: "policy_row list \<Rightarrow> string \<Rightarrow> int \<Rightarrow> policy_row option" where
  "load_policy_version rows tenant_id version = by_key version_key (tenant_id, version) rows"

definition latest_version :: "policy_row list \<Rightarrow> string \<Rightarrow> int" where
  "latest_version rows tenant_id =
     (case map gp_version (filter (\<lambda>r. gp_tenant_id r = tenant_id) rows) of
        [] \<Rightarrow> 0 | v # vs \<Rightarrow> foldl max v vs)"

definition semi_join :: "string list \<Rightarrow> string" where
  "semi_join = join_with ''; ''"

definition create_policy_draft :: "env \<Rightarrow> string \<Rightarrow> json \<Rightarrow> string \<Rightarrow> db \<Rightarrow> (db \<times> policy_row) res" where
  "create_policy_draft e tenant_id body actor_ref s =
     (if tenant_id = [] then Inl (ValueErr ''a tenant_id is required to author a governance policy'')
      else ebind (validate_policy_body (decision_capable_roles (role_permissions s)) body) (\<lambda>errors.
        if errors \<noteq> [] then Inl (ValueErr (''invalid policy document: '' @ semi_join errors))
        else
          (let version = latest_version (governance_policies s) tenant_id + 1;
               row = \<lparr>gp_tenant_id = tenant_id, gp_version = version, gp_status = ''draft'', gp_body = body,
                      gp_body_hash = body_hash e body, gp_created_by = actor_ref, gp_created_at = db_now e,
                      gp_activated_at = None\<rparr>
           in Inr (s\<lparr>governance_policies := governance_policies s @ [row]\<rparr>, row))))"

fun flatten :: "string \<Rightarrow> json \<Rightarrow> (string \<times> json) list" where
  "flatten prefix (JObj d) =
     concat (map (\<lambda>(k, v). flatten (if prefix = [] then k else prefix @ ''.'' @ k) v) (sort_key fst d))"
| "flatten prefix v = [(prefix, v)]"

definition diff_line :: "env \<Rightarrow> (string \<rightharpoonup> json) \<Rightarrow> (string \<rightharpoonup> json) \<Rightarrow> string \<Rightarrow> string list" where
  "diff_line e old new key =
     (case (old key, new key) of
        (None, Some n) \<Rightarrow> [''added '' @ key @ '' = '' @ encode_json (env_float_repr e) n]
      | (Some x, None) \<Rightarrow> [''removed '' @ key @ '' (was '' @ encode_json (env_float_repr e) x @ '')'']
      | (Some x, Some n) \<Rightarrow>
          errs_if (\<not> py_eq x n) (''changed '' @ key @ '': '' @ encode_json (env_float_repr e) x @ '' -> '' @
            encode_json (env_float_repr e) n)
      | (None, None) \<Rightarrow> [])"

definition policy_diff_summary :: "env \<Rightarrow> json \<Rightarrow> json \<Rightarrow> string list" where
  "policy_diff_summary e old_body new_body =
     (let old_flat = flatten [] (py_or old_body (JObj [])); new_flat = flatten [] (py_or new_body (JObj []));
          changes = concat (map (diff_line e (map_of (rev old_flat)) (map_of (rev new_flat)))
                     (sorted_set (map fst old_flat @ map fst new_flat)))
      in if changes = [] then [''no changes''] else changes)"

definition activation_audit ::
    "env \<Rightarrow> string \<Rightarrow> string \<Rightarrow> policy_row \<Rightarrow> policy_row option \<Rightarrow> json \<Rightarrow> string list \<Rightarrow> audit_req" where
  "activation_audit e actor_ref tenant_id activated previous previous_body loosening =
     \<lparr>aq_actor_ref = actor_ref, aq_action = ''policy.activate'', aq_tenant_id = Some tenant_id,
      aq_target_type = Some ''governance_policy'',
      aq_target_id = Some (tenant_id @ ''/v'' @ str_int (gp_version activated)),
      aq_detail = Some (JObj
        [(''version'', JInt (gp_version activated)),
         (''body_hash'', JStr (gp_body_hash activated)),
         (''superseded_version'', case previous of None \<Rightarrow> JNull | Some p \<Rightarrow> JInt (gp_version p)),
         (''diff'', JArr (map JStr (policy_diff_summary e previous_body (gp_body activated)))),
         (''loosens'', JArr (map JStr loosening)),
         (''author'', JStr (gp_created_by activated))])\<rparr>"

text \<open>The two UPDATE statements: supersede the version in force, activate the new one.\<close>

definition switch_active :: "env \<Rightarrow> string \<Rightarrow> policy_row option \<Rightarrow> int \<Rightarrow> policy_row list \<Rightarrow> policy_row list" where
  "switch_active e tenant_id previous version rows =
     update_where (\<lambda>r. gp_tenant_id r = tenant_id \<and> gp_version r = version)
       (\<lambda>r. r\<lparr>gp_status := ''active'', gp_activated_at := Some (db_now e)\<rparr>)
       (case previous of
          None \<Rightarrow> rows
        | Some p \<Rightarrow> update_where (\<lambda>r. gp_tenant_id r = tenant_id \<and> gp_version r = gp_version p)
            (\<lambda>r. r\<lparr>gp_status := ''superseded''\<rparr>) rows)"

definition activate_policy ::
    "env \<Rightarrow> string \<Rightarrow> int \<Rightarrow> string \<Rightarrow> db \<Rightarrow> (db \<times> policy_row \<times> audit_req list) res" where
  "activate_policy e tenant_id version actor_ref s =
     (if tenant_id = [] then Inl (ValueErr ''a tenant_id is required to activate a governance policy'')
      else case load_policy_version (governance_policies s) tenant_id version of
        None \<Rightarrow> Inl (NotFound ''policy version not found'')
      | Some target \<Rightarrow>
          if gp_status target = ''active'' then Inr (s, target, [])
          else if gp_status target = ''superseded''
          then Inl (ValueErr ''a superseded policy version cannot be re-activated; draft a new version'')
          else ebind (validate_policy_body (decision_capable_roles (role_permissions s)) (gp_body target)) (\<lambda>errors.
            if errors \<noteq> [] then Inl (ValueErr (''policy version is no longer valid: '' @ semi_join errors))
            else
              (let previous = active_row (governance_policies s) tenant_id;
                   default_body = gp_body (platform_default e (governance_policies s));
                   previous_body = (case previous of None \<Rightarrow> default_body | Some p \<Rightarrow> gp_body p) in
               ebind (policy_loosening previous_body (gp_body target) default_body) (\<lambda>loosening.
               if loosening \<noteq> [] \<and> gp_created_by target = actor_ref
               then Inl (SecondPerson (''this version loosens the policy in force, so someone other than its author must activate it: ''
                 @ semi_join loosening))
               else ebind (unstaffed_stage_changes
                   (eligible_deciders (role_permissions s) (role_assignments s) (platform_users s) tenant_id)
                   previous_body (gp_body target) default_body) (\<lambda>unstaffed.
               if unstaffed \<noteq> []
               then Inl (DomainErr (''this version has approval stages nobody in the organization can decide; assign the roles first: ''
                 @ semi_join unstaffed))
               else
                 (let rows = switch_active e tenant_id previous version (governance_policies s);
                      activated = target\<lparr>gp_status := ''active'', gp_activated_at := Some (db_now e)\<rparr>
                  in Inr (s\<lparr>governance_policies := rows\<rparr>, activated,
                       [activation_audit e actor_ref tenant_id activated previous previous_body loosening])))))))"

record effective =
  ef_tenant_id :: string
  ef_version :: int
  ef_body :: json
  ef_body_hash :: string
  ef_activated_at :: "int option"
  ef_source :: string

definition effective_policy :: "env \<Rightarrow> policy_row list \<Rightarrow> string option \<Rightarrow> effective" where
  "effective_policy e rows tenant_id =
     (let policy = active_policy e rows tenant_id in
      \<lparr>ef_tenant_id = gp_tenant_id policy, ef_version = gp_version policy, ef_body = gp_body policy,
       ef_body_hash = gp_body_hash policy, ef_activated_at = gp_activated_at policy,
       ef_source = (if gp_tenant_id policy \<noteq> [] then ''tenant'' else ''default'')\<rparr>)"

section \<open>The invariant\<close>

definition one_active :: "policy_row list \<Rightarrow> bool" where
  "one_active rows \<longleftrightarrow> (\<forall>r \<in> set rows. \<forall>q \<in> set rows. gp_status r = ''active'' \<longrightarrow> gp_status q = ''active'' \<longrightarrow>
     gp_tenant_id r = gp_tenant_id q \<longrightarrow> version_key r = version_key q)"

definition versions_inv :: "db \<Rightarrow> bool" where
  "versions_inv s \<longleftrightarrow> pk version_key (governance_policies s) \<and> one_active (governance_policies s) \<and>
     policies_wf (governance_policies s)"

lemma versions_invD:
  assumes "versions_inv s"
  shows "pk version_key (governance_policies s)" "one_active (governance_policies s)" "policies_wf (governance_policies s)"
  using assms by (simp_all add: versions_inv_def)

lemma foldl_max_ge: "x \<le> foldl max (x :: int) xs \<and> (\<forall>y \<in> set xs. y \<le> foldl max x xs)"
proof (induction xs arbitrary: x)
  case Nil
  show ?case by simp
next
  case (Cons a xs)
  from Cons.IH [of "max x a"] show ?case by auto
qed

lemma latest_version_ge:
  assumes "r \<in> set rows" "gp_tenant_id r = t"
  shows "gp_version r \<le> latest_version rows t"
proof -
  let ?vs = "map gp_version (filter (\<lambda>r. gp_tenant_id r = t) rows)"
  from assms have "gp_version r \<in> set ?vs" by auto
  then obtain v vs where vs: "?vs = v # vs" "gp_version r \<in> set (v # vs)"
    by (cases ?vs) auto
  with foldl_max_ge [of v vs] show ?thesis by (auto simp: latest_version_def)
qed

text \<open>One row through the two updates of an activation.\<close>

definition switch_row :: "env \<Rightarrow> string \<Rightarrow> policy_row option \<Rightarrow> int \<Rightarrow> policy_row \<Rightarrow> policy_row" where
  "switch_row e t previous version r =
     (if gp_tenant_id r = t \<and> gp_version r = version
      then r\<lparr>gp_status := ''active'', gp_activated_at := Some (db_now e)\<rparr>
      else if gp_tenant_id r = t \<and> (\<exists>p. previous = Some p \<and> gp_version r = gp_version p)
      then r\<lparr>gp_status := ''superseded''\<rparr> else r)"

lemma switch_active_rows:
  assumes "\<forall>p. previous = Some p \<longrightarrow> gp_version p \<noteq> version"
  shows "switch_active e t previous version rows = map (switch_row e t previous version) rows"
  using assms by (cases previous) (auto simp: switch_active_def switch_row_def update_where_def)

lemma switch_row_frame [simp]:
  "version_key (switch_row e t p v r) = version_key r"
  "gp_body (switch_row e t p v r) = gp_body r"
  "gp_body_hash (switch_row e t p v r) = gp_body_hash r"
  "gp_created_by (switch_row e t p v r) = gp_created_by r"
  "gp_tenant_id (switch_row e t p v r) = gp_tenant_id r"
  "gp_version (switch_row e t p v r) = gp_version r"
  by (simp_all add: switch_row_def version_key_def)

lemma switch_row_active:
  assumes oa: "one_active rows" and prev: "previous = active_row rows t"
    and "r \<in> set rows" "gp_status (switch_row e t previous v r) = ''active''"
  shows "(gp_tenant_id r = t \<and> gp_version r = v) \<or> (gp_tenant_id r \<noteq> t \<and> gp_status r = ''active'')"
proof (rule ccontr)
  assume "\<not> ?thesis"
  with assms(4) have r: "gp_tenant_id r = t" "gp_version r \<noteq> v" "gp_status r = ''active''"
    and none: "\<not> (\<exists>p. previous = Some p \<and> gp_version r = gp_version p)"
    by (auto simp: switch_row_def split: if_splits)
  from r assms(3) have "active_row rows t \<noteq> None"
    by (auto simp: active_row_def find_None_iff)
  then obtain p where p: "active_row rows t = Some p" by blast
  from active_row_tenant [OF p] r oa [unfolded one_active_def, rule_format, OF assms(3), of p]
  have "version_key r = version_key p" by simp
  with none p prev show False by (simp add: version_key_def)
qed

lemma one_active_switch:
  assumes "one_active rows" "previous = active_row rows t"
  shows "one_active (map (switch_row e t previous v) rows)"
  unfolding one_active_def
proof (intro ballI impI)
  fix x y assume xy: "x \<in> set (map (switch_row e t previous v) rows)" "y \<in> set (map (switch_row e t previous v) rows)"
    "gp_status x = ''active''" "gp_status y = ''active''" "gp_tenant_id x = gp_tenant_id y"
  then obtain r q where r: "r \<in> set rows" "x = switch_row e t previous v r"
    and q: "q \<in> set rows" "y = switch_row e t previous v q" by auto
  from switch_row_active [OF assms r(1), of e v] switch_row_active [OF assms q(1), of e v] xy(3-5) r(2) q(2)
  have "(gp_tenant_id r = t \<and> gp_version r = v \<and> gp_tenant_id q = t \<and> gp_version q = v) \<or>
      (gp_tenant_id r = gp_tenant_id q \<and> gp_status r = ''active'' \<and> gp_status q = ''active'')" by auto
  then show "version_key x = version_key y"
    using assms(1) r q by (auto simp: one_active_def version_key_def)
qed

lemma pk_switch: "pk version_key rows \<Longrightarrow> pk version_key (map (switch_row e t p v) rows)"
  by (simp add: pk_def comp_def)

lemma wf_switch: "policies_wf rows \<Longrightarrow> policies_wf (map (switch_row e t p v) rows)"
  by (simp add: policies_wf_def)

section \<open>What an operation does\<close>

text \<open>A successful draft appends one row with the next version number.\<close>

lemma create_policy_draft_success:
  assumes "create_policy_draft e t body actor s = Inr (s', row)"
  shows "t \<noteq> []" "valid_body (decision_capable_roles (role_permissions s)) body"
    "s' = s\<lparr>governance_policies := governance_policies s @ [row]\<rparr>"
    "gp_tenant_id row = t" "gp_version row = latest_version (governance_policies s) t + 1"
    "gp_status row = ''draft''" "gp_body row = body" "gp_created_by row = actor"
  using assms
  by (auto simp: create_policy_draft_def ebind_eq_Inr valid_body_def Let_def split: if_splits)

text \<open>An activation either finds the version already in force or switches to it.\<close>

lemma activate_policy_success:
  assumes "activate_policy e t version actor s = Inr (s', row, reqs)"
  obtains (same) target where "load_policy_version (governance_policies s) t version = Some target"
      "gp_status target = ''active''" "s' = s" "row = target" "reqs = []" "t \<noteq> []"
  | (switched) target loosening where "load_policy_version (governance_policies s) t version = Some target"
      "t \<noteq> []" "gp_status target \<noteq> ''active''" "gp_status target \<noteq> ''superseded''"
      "valid_body (decision_capable_roles (role_permissions s)) (gp_body target)"
      "policy_loosening (case active_row (governance_policies s) t of
          None \<Rightarrow> gp_body (platform_default e (governance_policies s)) | Some p \<Rightarrow> gp_body p)
        (gp_body target) (gp_body (platform_default e (governance_policies s))) = Inr loosening"
      "loosening = [] \<or> gp_created_by target \<noteq> actor"
      "unstaffed_stage_changes
        (eligible_deciders (role_permissions s) (role_assignments s) (platform_users s) t)
        (case active_row (governance_policies s) t of
          None \<Rightarrow> gp_body (platform_default e (governance_policies s)) | Some p \<Rightarrow> gp_body p)
        (gp_body target) (gp_body (platform_default e (governance_policies s))) = Inr []"
      "s' = s\<lparr>governance_policies := switch_active e t (active_row (governance_policies s) t) version (governance_policies s)\<rparr>"
      "row = target\<lparr>gp_status := ''active'', gp_activated_at := Some (db_now e)\<rparr>"
      "\<exists>pb. reqs = [activation_audit e actor t row (active_row (governance_policies s) t) pb loosening]"
proof -
  from assms obtain target where t: "t \<noteq> []" "load_policy_version (governance_policies s) t version = Some target"
    by (auto simp: activate_policy_def split: if_splits option.splits)
  show thesis
  proof (cases "gp_status target = ''active''")
    case True
    with assms t show thesis by (intro same) (auto simp: activate_policy_def)
  next
    case False
    from assms t False obtain L where
      "gp_status target \<noteq> ''superseded''"
      "validate_policy_body (decision_capable_roles (role_permissions s)) (gp_body target) = Inr []"
      "policy_loosening (case active_row (governance_policies s) t of
          None \<Rightarrow> gp_body (platform_default e (governance_policies s)) | Some p \<Rightarrow> gp_body p)
        (gp_body target) (gp_body (platform_default e (governance_policies s))) = Inr L"
      "L = [] \<or> gp_created_by target \<noteq> actor"
      "unstaffed_stage_changes
        (eligible_deciders (role_permissions s) (role_assignments s) (platform_users s) t)
        (case active_row (governance_policies s) t of
          None \<Rightarrow> gp_body (platform_default e (governance_policies s)) | Some p \<Rightarrow> gp_body p)
        (gp_body target) (gp_body (platform_default e (governance_policies s))) = Inr []"
      "s' = s\<lparr>governance_policies := switch_active e t (active_row (governance_policies s) t) version (governance_policies s)\<rparr>"
      "row = target\<lparr>gp_status := ''active'', gp_activated_at := Some (db_now e)\<rparr>"
      "\<exists>pb. reqs = [activation_audit e actor t row (active_row (governance_policies s) t) pb L]"
      unfolding activate_policy_def Let_def by (auto simp: ebind_eq_Inr split: if_splits)
    with t False show thesis by (intro switched) (simp_all add: valid_body_def)
  qed
qed

section \<open>Runs of the version store\<close>

datatype policy_op =
    CreateDraft env string json string
  | Activate env string int string

fun policy_exec :: "policy_op \<Rightarrow> db \<Rightarrow> (db \<times> policy_row \<times> audit_req list) res" where
  "policy_exec (CreateDraft e t body actor) s =
     ebind (create_policy_draft e t body actor s) (\<lambda>(s', row). Inr (s', row, []))"
| "policy_exec (Activate e t version actor) s = activate_policy e t version actor s"

abbreviation policy_step :: "policy_op \<Rightarrow> db \<Rightarrow> db" where
  "policy_step \<equiv> committed policy_exec"

lemma one_active_append:
  assumes "one_active rows" "gp_status row \<noteq> ''active''"
  shows "one_active (rows @ [row])"
  unfolding one_active_def
proof (intro ballI impI)
  fix x y assume "x \<in> set (rows @ [row])" "y \<in> set (rows @ [row])" and act: "gp_status x = ''active''"
    "gp_status y = ''active''" "gp_tenant_id x = gp_tenant_id y"
  with assms(2) have "x \<in> set rows" "y \<in> set rows" by auto
  with act assms(1) [unfolded one_active_def, rule_format] show "version_key x = version_key y" by blast
qed

lemma draft_inv:
  assumes "create_policy_draft e t body actor s = Inr (s', row)" and inv: "versions_inv s"
  shows "versions_inv s'"
proof -
  note d = create_policy_draft_success [OF assms(1)]
  have "version_key row \<notin> version_key ` set (governance_policies s)"
  proof
    assume "version_key row \<in> version_key ` set (governance_policies s)"
    then obtain r where "r \<in> set (governance_policies s)" "gp_tenant_id r = t" "gp_version r = gp_version row"
      using d(4) by (auto simp: version_key_def)
    with latest_version_ge [OF this(1,2)] d(5) show False by simp
  qed
  moreover have "wf_body (gp_body row)" using valid_body_wf [OF d(2)] d(7) by simp
  moreover have "one_active (governance_policies s @ [row])"
    using d(6) by (intro one_active_append versions_invD(2) [OF inv]) simp
  ultimately show ?thesis
    using versions_invD [OF inv] d(3) by (auto simp: versions_inv_def pk_def policies_wf_def)
qed

lemma switch_target_not_previous:
  assumes "pk version_key rows" and "load_policy_version rows t v = Some target"
    and "gp_status target \<noteq> ''active''"
  shows "\<forall>p. active_row rows t = Some p \<longrightarrow> gp_version p \<noteq> v"
proof (intro allI impI notI)
  fix p assume p: "active_row rows t = Some p" "gp_version p = v"
  then have "version_key p = (t, v)" using active_row_tenant [OF p(1)] by (simp add: version_key_def)
  then have "by_key version_key (t, v) rows = Some p"
    using by_key_unique [OF assms(1), of p] active_row_tenant [OF p(1)] by simp
  then have "p = target" using assms(2) by (simp add: load_policy_version_def)
  with assms(3) active_row_tenant [OF p(1)] show False by simp
qed

lemma activate_inv:
  assumes "activate_policy e t v actor s = Inr (s', row, reqs)" and inv: "versions_inv s"
  shows "versions_inv s'"
  using assms(1)
proof (cases rule: activate_policy_success)
  case (same target)
  with inv show ?thesis by simp
next
  case (switched target loosening)
  note rows = switch_active_rows [OF switch_target_not_previous [OF versions_invD(1) [OF inv] switched(1) switched(3)]]
  from switched(9) have "governance_policies s' =
      map (switch_row e t (active_row (governance_policies s) t) v) (governance_policies s)"
    by (simp add: rows)
  with versions_invD [OF inv] show ?thesis
    by (simp add: versions_inv_def pk_switch wf_switch one_active_switch)
qed

lemma policy_step_inv: "versions_inv s \<Longrightarrow> versions_inv (policy_step op s)"
  by (cases op) (auto simp: committed_def ebind_eq_Inr split: sum.splits prod.splits intro: draft_inv activate_inv)

text \<open>
  A stored version keeps its body, hash and author; its status only moves from draft to active
  to superseded.
\<close>

definition status_rank :: "string \<Rightarrow> nat" where
  "status_rank st = (if st = ''superseded'' then 2 else if st = ''active'' then 1 else 0)"

definition row_kept :: "policy_row \<Rightarrow> policy_row \<Rightarrow> bool" where
  "row_kept r r' \<longleftrightarrow> version_key r' = version_key r \<and> gp_body r' = gp_body r \<and> gp_body_hash r' = gp_body_hash r \<and>
     gp_created_by r' = gp_created_by r \<and> status_rank (gp_status r) \<le> status_rank (gp_status r')"

definition versions_kept :: "db \<Rightarrow> db \<Rightarrow> bool" where
  "versions_kept s s' \<longleftrightarrow> (\<forall>r \<in> set (governance_policies s). \<exists>r' \<in> set (governance_policies s'). row_kept r r')"

lemma row_kept_refl [simp]: "row_kept r r"
  by (simp add: row_kept_def)

lemma row_kept_trans: "row_kept r q \<Longrightarrow> row_kept q u \<Longrightarrow> row_kept r u"
  by (auto simp: row_kept_def)

lemma versions_kept_trans: "versions_kept s t \<Longrightarrow> versions_kept t u \<Longrightarrow> versions_kept s u"
  unfolding versions_kept_def by (meson row_kept_trans)

lemma switch_row_kept:
  assumes "pk version_key rows" "load_policy_version rows t v = Some target" "r \<in> set rows"
    "gp_status target \<noteq> ''superseded''"
  shows "row_kept r (switch_row e t p v r)"
proof (cases "gp_tenant_id r = t \<and> gp_version r = v")
  case True
  then have "version_key r = (t, v)" by (simp add: version_key_def)
  with by_key_unique [OF assms(1,3)] assms(2) have "r = target" by (simp add: load_policy_version_def)
  with assms(4) True show ?thesis by (simp add: row_kept_def switch_row_def status_rank_def version_key_def)
next
  case False
  then show ?thesis by (auto simp: row_kept_def switch_row_def status_rank_def version_key_def)
qed

lemma policy_step_kept:
  assumes inv: "versions_inv s"
  shows "versions_kept s (policy_step op s)"
proof (cases "policy_exec op s")
  case (Inl err)
  then show ?thesis by (auto simp: committed_def versions_kept_def intro: row_kept_refl)
next
  case (Inr r)
  then obtain s' row reqs where r: "policy_exec op s = Inr (s', row, reqs)" by (cases r) auto
  have "versions_kept s s'"
  proof (cases op)
    case (CreateDraft e t body actor)
    with r have "create_policy_draft e t body actor s = Inr (s', row)" by (auto simp: ebind_eq_Inr)
    from create_policy_draft_success(3) [OF this] show ?thesis
      by (auto simp: versions_kept_def intro: row_kept_refl)
  next
    case (Activate e t v actor)
    with r have act: "activate_policy e t v actor s = Inr (s', row, reqs)" by simp
    then show ?thesis
    proof (cases rule: activate_policy_success)
      case (same target)
      then show ?thesis by (auto simp: versions_kept_def intro: row_kept_refl)
    next
      case (switched target loosening)
      note rows = switch_active_rows [OF switch_target_not_previous [OF versions_invD(1) [OF inv] switched(1) switched(3)]]
      show ?thesis
        using switch_row_kept [OF versions_invD(1) [OF inv] switched(1) _ switched(4)]
        by (auto simp: versions_kept_def switched(9) rows)
    qed
  qed
  with r show ?thesis by simp
qed

interpretation versions: monotone_ops policy_step versions_inv versions_kept
proof unfold_locales
  show "versions_inv s \<Longrightarrow> versions_inv (policy_step op s)" for s op by (rule policy_step_inv)
  show "versions_kept s s" for s by (meson row_kept_refl versions_kept_def)
  show "versions_kept s t \<Longrightarrow> versions_kept t u \<Longrightarrow> versions_kept s u" for s t u by (rule versions_kept_trans)
  show "versions_inv s \<Longrightarrow> versions_kept s (policy_step op s)" for s op by (rule policy_step_kept)
qed

section \<open>The version in force after an activation\<close>

lemma switch_active_in_force:
  assumes pk: "pk version_key rows" and oa: "one_active rows" and l: "load_policy_version rows t v = Some target"
    and na: "gp_status target \<noteq> ''active''"
  shows "active_row (switch_active e t (active_row rows t) v rows) t =
    Some (target\<lparr>gp_status := ''active'', gp_activated_at := Some (db_now e)\<rparr>)"
proof -
  let ?p = "active_row rows t"
  let ?rows' = "map (switch_row e t ?p v) rows"
  have rows: "switch_active e t ?p v rows = ?rows'"
    by (rule switch_active_rows [OF switch_target_not_previous [OF pk l na]])
  have tg: "target \<in> set rows" "gp_tenant_id target = t" "gp_version target = v"
    using by_key_Some [OF l [unfolded load_policy_version_def]] by (auto simp: version_key_def)
  let ?new = "switch_row e t ?p v target"
  have new: "?new = target\<lparr>gp_status := ''active'', gp_activated_at := Some (db_now e)\<rparr>"
    using tg by (simp add: switch_row_def)
  have mem: "?new \<in> set ?rows'" using tg(1) by simp
  have "active_row ?rows' t \<noteq> None"
    using mem new tg by (auto simp: active_row_def find_None_iff)
  then obtain a where a: "active_row ?rows' t = Some a" by blast
  from active_row_tenant [OF a] have at: "gp_tenant_id a = t" "gp_status a = ''active''" "a \<in> set ?rows'" by auto
  have "version_key a = version_key ?new"
    using one_active_switch [OF oa refl, unfolded one_active_def, rule_format, OF at(3) mem] at new tg by simp
  then have "a = ?new"
    using by_key_unique [OF pk_switch [OF pk] at(3)] by_key_unique [OF pk_switch [OF pk] mem] by simp
  with a rows new show ?thesis by simp
qed

end
