(* ===== verification/Policy_Properties.thy ===== *)
theory Policy_Properties
  imports Policy_Versions
begin

text \<open>
  Properties of the policy engine: what the resolvers return, what an activation by the author
  of a version can and cannot change, which version is in force afterwards, and how a history
  of drafts and activations evolves.
\<close>

section \<open>Activation and the policy in force\<close>



lemma active_policy_body:
  assumes "t \<noteq> []"
  shows "gp_body (active_policy e rows (Some t)) =
    (case active_row rows t of None \<Rightarrow> gp_body (platform_default e rows) | Some p \<Rightarrow> gp_body p)"
  using assms by (simp add: active_policy_def or_str_def split: option.splits)

lemma active_policy_switch:
  assumes "versions_inv s" "load_policy_version (governance_policies s) t v = Some target"
    "gp_status target \<noteq> ''active''" "t \<noteq> []"
  shows "active_policy e (switch_active e t (active_row (governance_policies s) t) v (governance_policies s)) (Some t) =
    target\<lparr>gp_status := ''active'', gp_activated_at := Some (db_now e)\<rparr>"
  using switch_active_in_force [OF versions_invD(1,2) [OF assms(1)] assms(2,3)] assms(4)
  by (simp add: active_policy_def or_str_def)

definition demo_env :: env where
  "demo_env = \<lparr>env_now = 1700000000000000, env_sha256 = (\<lambda>x. ''h:'' @ x), env_hmac = (\<lambda>k x. k @ ''#'' @ x),
     env_getenv = (\<lambda>_. None), env_float_repr = (\<lambda>_. ''0.5'')\<rparr>"

definition demo_body :: json where
  "demo_body = JObj [(''schema'', JStr POLICY_SCHEMA),
     (''evidence'', JObj [(''stale_after_days'', JInt 20)])]"

definition demo_db :: db where
  "demo_db = empty_db\<lparr>governance_policies :=
     [\<lparr>gp_tenant_id = ''acme'', gp_version = 1, gp_status = ''draft'', gp_body = demo_body, gp_body_hash = [],
       gp_created_by = ''ann'', gp_created_at = 0, gp_activated_at = None\<rparr>]\<rparr>"

lemma demo_body_wf: "wf_body demo_body"
  by (auto simp: wf_defs demo_body_def default_vendors_def reviewer_stages_def policy_consts)

lemma demo_db_inv: "versions_inv demo_db"
  by (simp add: versions_inv_def demo_db_def pk_def one_active_def policies_wf_def demo_body_wf)


lemma demo_activation:
  "case activate_policy demo_env ''acme'' 1 ''ann'' demo_db of Inl _ \<Rightarrow> False
     | Inr (s', row, reqs) \<Rightarrow> gp_created_by row = ''ann'' \<and> reqs \<noteq> []"
  by code_simp


text \<open>
  C2: after an activation the activated version is the one that governs the organization, one
  audit entry names it and its author, and every stage list the version changed can be given to
  pairwise different active people with the required authority.
\<close>

theorem activation_in_force_and_staffed:
  assumes inv: "versions_inv s" and act: "activate_policy e t v actor s = Inr (s', row, reqs)" and "reqs \<noteq> []"
  shows "active_policy e (governance_policies s') (Some t) = row \<and> gp_version row = v \<and> gp_status row = ''active'' \<and>
    map aq_action reqs = [''policy.activate''] \<and> map aq_actor_ref reqs = [actor] \<and>
    (\<exists>before after.
      stage_sections (gp_body (active_policy e (governance_policies s) (Some t)))
        (gp_body (platform_default e (governance_policies s))) = Inr before \<and>
      stage_sections (gp_body row) (gp_body (platform_default e (governance_policies s))) = Inr after \<and>
      (\<forall>(section, roles) \<in> set after. map_of before section = Some roles \<or>
        (\<exists>person. inj_on person {..<length roles} \<and> (\<forall>i < length roles. person i \<in>
          set (eligible_deciders (role_permissions s) (role_assignments s) (platform_users s) t (roles ! i))))))"
  using act
proof (cases rule: activate_policy_success)
  case (same target)
  with assms(3) show ?thesis by simp
next
  case (switched target L)
  have v: "gp_version target = v"
    using by_key_Some [OF switched(1) [unfolded load_policy_version_def]] by (simp add: version_key_def)
  have "unstaffed_stage_changes
        (eligible_deciders (role_permissions s) (role_assignments s) (platform_users s) t)
        (gp_body (active_policy e (governance_policies s) (Some t)))
        (gp_body target) (gp_body (platform_default e (governance_policies s))) = Inr []"
    unfolding active_policy_body [OF switched(2), of e "governance_policies s"] by (rule switched(8))
  then obtain before after where sec:
      "stage_sections (gp_body (active_policy e (governance_policies s) (Some t)))
        (gp_body (platform_default e (governance_policies s))) = Inr before"
      "stage_sections (gp_body target) (gp_body (platform_default e (governance_policies s))) = Inr after"
    and st: "\<forall>(section, roles) \<in> set after. map_of before section = Some roles \<or>
        can_staff roles (eligible_deciders (role_permissions s) (role_assignments s) (platform_users s) t)"
    by (auto simp: unstaffed_stage_changes_def ebind_eq_Inr filter_empty_conv)
  have gov: "active_policy e (governance_policies s') (Some t) = row"
    using active_policy_switch [OF inv switched(1,3,2)] switched(9,10) by simp
  have body: "gp_body row = gp_body target" using switched(10) by simp
  show ?thesis
    using gov v switched(10,11) sec st unfolding body can_staff_correct
    by (auto simp: activation_audit_def)
qed

theorem activation_in_force_and_staffed_witness:
  "\<exists>s' row reqs. activate_policy demo_env ''acme'' 1 ''ann'' demo_db = Inr (s', row, reqs) \<and> reqs \<noteq> [] \<and>
    active_policy demo_env (governance_policies s') (Some ''acme'') = row \<and> gp_version row = 1"
proof -
  obtain s' row reqs where a: "activate_policy demo_env ''acme'' 1 ''ann'' demo_db = Inr (s', row, reqs)" "reqs \<noteq> []"
    using demo_activation by (auto split: sum.splits)
  from activation_in_force_and_staffed [OF demo_db_inv a] a show ?thesis by blast
qed

text \<open>
  C4: over every sequence of drafts and activations, refused ones included, versions stay
  unique per organization with at most one active and a validated shape; every version keeps its
  body, hash and author, and its status only moves forward, so a superseded version never comes
  back into force.
\<close>

theorem policy_history_immutable:
  assumes "versions_inv s"
  shows "versions_inv (fold policy_step ops s) \<and> versions_kept s (fold policy_step ops s)"
  using versions.run_inv [OF assms] versions.run_rel [OF assms] by blast

theorem policy_history_immutable_witness:
  "versions_inv demo_db \<and> versions_kept demo_db (fold policy_step
     [Activate demo_env ''acme'' 1 ''ann'', CreateDraft demo_env ''acme'' demo_body ''bob'',
      Activate demo_env ''acme'' 2 ''bob'', Activate demo_env ''acme'' 1 ''ann''] demo_db)"
  using demo_db_inv policy_history_immutable [OF demo_db_inv] by blast

section \<open>Resolvers\<close>



text \<open>
  A document the validator accepts has the shape the readers rely on, whatever roles are
  configured, so the well-formedness that drafts establish is exactly acceptance by the validator.
\<close>

theorem accepted_body_has_shape:
  assumes "validate_policy_body grants body = Inr []"
  shows "wf_body body"
  using assms by (intro valid_body_wf) (simp add: valid_body_def)

theorem accepted_body_has_shape_witness:
  "validate_policy_body Map.empty demo_body = Inr [] \<and> wf_body demo_body"
proof -
  have "validate_policy_body Map.empty demo_body = Inr []" by code_simp
  with accepted_body_has_shape [OF this] show ?thesis by blast
qed

text \<open>
  The validator does not report every malformed document: a tier whose \<open>mode\<close> is a list (or
  an object) makes it raise a TypeError, because the value is looked up in a Python set.
\<close>

lemma validator_raises_on_list_mode:
  "validate_policy_body grants (JObj [(''schema'', JStr POLICY_SCHEMA),
     (''intake'', JObj [(''tiers'', JObj [(''limited'',
        JObj [(''stages'', reviewer_stages), (''mode'', JArr xs)])])])]) = Inl TypeErr"
  by (simp add: validate_policy_body_def validate_intake_def validate_tier_def RISK_TIERS_def Let_def)

section \<open>Staffing\<close>

text \<open>
  C6: the augmenting-path search answers the question it is asked: it succeeds exactly when
  there is an injective choice of an eligible person for every stage.
\<close>

theorem can_staff_iff_matching:
  "can_staff roles eligible \<longleftrightarrow>
     (\<exists>person. inj_on person {..<length roles} \<and> (\<forall>i < length roles. person i \<in> set (eligible (roles ! i))))"
  by (rule can_staff_correct)

theorem can_staff_iff_matching_witness:
  "can_staff [''risk_owner'', ''reviewer''] (\<lambda>r. if r = ''risk_owner'' then [''ann''] else [''ann'', ''bob'']) \<and>
   (\<exists>person. inj_on person {..<2 :: nat} \<and> person 0 \<in> {''ann''} \<and> person 1 \<in> {''ann'', ''bob''})"
proof -
  let ?el = "\<lambda>r :: string. if r = ''risk_owner'' then [''ann''] else [''ann'', ''bob'']"
  have c: "can_staff [''risk_owner'', ''reviewer''] ?el" by code_simp
  then obtain person where p: "inj_on person {..<2 :: nat}"
      "\<And>i. i < 2 \<Longrightarrow> person i \<in> set (?el ([''risk_owner'', ''reviewer''] ! i))"
    unfolding can_staff_iff_matching by (auto simp: numeral_2_eq_2)
  from p(1) p(2) [of 0] p(2) [of 1]
  have "inj_on person {..<2 :: nat} \<and> person 0 \<in> {''ann''} \<and> person 1 \<in> {''ann'', ''bob''}" by simp
  with c show ?thesis by blast
qed

text \<open>C7: the search never runs out of the fuel the model gives it, on any input.\<close>

theorem can_staff_terminates:
  "staff_all (staff_fuel roles eligible) (stage_candidates roles eligible) [0..<length roles] Map.empty \<noteq> None"
  by (simp add: can_staff_run)

end
