(* ===== verification/Notifications.thy ===== *)
theory Notifications
  imports Schema
begin

text \<open>
  services/notifications.py and storage/notifications.py: events become rows of the outbox in
  the caller's transaction (\<open>emit\<close>), workers claim due rows and deliver them with retries
  (\<open>claim_pending\<close>, \<open>deliver_one\<close>, \<open>mark_result\<close>, \<open>deliver_pending\<close>), webhooks are kept per
  organization and invitations are single use. Sending a mail and posting to a URL are
  arguments of the model.
\<close>

section \<open>Recipients\<close>

definition smtp_configured :: "env \<Rightarrow> bool" where
  "smtp_configured e = nonempty (env_getenv e ''NORINTH_SMTP_HOST'')"

definition public_base_url :: "env \<Rightarrow> string" where
  "public_base_url e =
     rstrip_by (\<lambda>c. c = CHR ''/'') (or_str (env_getenv e ''NORINTH_PUBLIC_BASE_URL'') ''http://localhost:8001'')"

definition user_email :: "db \<Rightarrow> string \<Rightarrow> string option" where
  "user_email s user_ref =
     (case by_key pu_user_ref user_ref (platform_users s) of
        None \<Rightarrow> None
      | Some u \<Rightarrow> if pu_status u \<noteq> ''active'' then None else pu_email u)"

text \<open>\<open>_ROLE_RECIPIENT_SQL\<close>: the addresses of the active holders of a role in the organization.\<close>

definition role_recipients :: "db \<Rightarrow> string \<Rightarrow> string option \<Rightarrow> string list" where
  "role_recipients s role tenant =
     concat (map (\<lambda>a. if ra_role a = role \<and> ra_status a = ''active'' \<and>
                        (ra_tenant_id a = None \<or> ra_tenant_id a = tenant)
                      then concat (map (\<lambda>u. if pu_user_ref u = ra_user_ref a \<and> pu_status u = ''active''
                                            then (case pu_email u of None \<Rightarrow> [] | Some m \<Rightarrow> [m]) else [])
                             (platform_users s))
                      else []) (role_assignments s))"

section \<open>Writing the outbox\<close>

definition outbox_entry ::
  "env \<Rightarrow> int \<Rightarrow> string option \<Rightarrow> string \<Rightarrow> string \<Rightarrow> string \<Rightarrow> string option \<Rightarrow> json \<Rightarrow> string \<Rightarrow> outbox_row" where
  "outbox_entry e k tenant channel event_type target subj payload status =
     \<lparr>ob_id = k, ob_tenant_id = tenant, ob_channel = channel, ob_event_type = event_type,
      ob_target = target, ob_subject = subj, ob_payload = payload, ob_status = status, ob_attempts = 0,
      ob_last_error = None, ob_created_at = db_now e, ob_sent_at = None,
      ob_next_attempt_at = Some (db_now e), ob_claimed_by = None, ob_claimed_at = None\<rparr>"

definition enqueue ::
  "env \<Rightarrow> string option \<Rightarrow> string \<Rightarrow> string \<Rightarrow> string \<Rightarrow> string option \<Rightarrow> json \<Rightarrow> string \<Rightarrow> db \<Rightarrow> db" where
  "enqueue e tenant channel event_type target subj payload status s =
     s\<lparr>notification_outbox := notification_outbox s @
         [outbox_entry e (outbox_seq s + 1) tenant channel event_type target subj payload status],
       outbox_seq := outbox_seq s + 1\<rparr>"

definition active_webhooks_for :: "db \<Rightarrow> string \<Rightarrow> string \<Rightarrow> webhook_row list" where
  "active_webhooks_for s tenant event_type =
     filter (\<lambda>w. wh_tenant_id w = tenant \<and> wh_status w = ''active'' \<and>
                 (event_type \<in> set (wh_events w) \<or> ''*'' \<in> set (wh_events w))) (webhooks s)"

text \<open>The keyword arguments of \<open>emit\<close>.\<close>

record notice =
  no_tenant :: "string option"
  no_event :: string
  no_subject :: string
  no_text :: string
  no_data :: json
  no_to_users :: "string list"
  no_to_roles :: "string list"
  no_link :: "string option"

definition recipients :: "db \<Rightarrow> notice \<Rightarrow> string list" where
  "recipients s n =
     sorted_set
       (concat (map (\<lambda>u. case user_email s u of None \<Rightarrow> [] | Some m \<Rightarrow> if m = [] then [] else [py_lower m]) (no_to_users n)) @
        concat (map (\<lambda>r. map py_lower (role_recipients s r (no_tenant n))) (no_to_roles n)))"

definition opt_json :: "string option \<Rightarrow> json" where
  "opt_json x = (case x of None \<Rightarrow> JNull | Some v \<Rightarrow> JStr v)"

definition notice_body :: "env \<Rightarrow> notice \<Rightarrow> json" where
  "notice_body e n = JObj [(''type'', JStr (no_event n)), (''tenant_id'', opt_json (no_tenant n)),
     (''occurred_at'', JStr (zulu_text (env_now e))), (''subject'', JStr (no_subject n)),
     (''text'', JStr (no_text n)), (''link'', opt_json (no_link n)), (''data'', py_or (no_data n) (JObj []))]"

definition emit_email :: "env \<Rightarrow> notice \<Rightarrow> string \<Rightarrow> db \<Rightarrow> db" where
  "emit_email e n email =
     enqueue e (no_tenant n) ''email'' (no_event n) email (Some (no_subject n)) (notice_body e n)
       (if smtp_configured e then ''pending'' else ''skipped_no_smtp'')"

definition emit_webhook :: "env \<Rightarrow> notice \<Rightarrow> webhook_row \<Rightarrow> db \<Rightarrow> db" where
  "emit_webhook e n hook =
     enqueue e (no_tenant n) ''webhook'' (no_event n) (wh_id hook) (Some (no_subject n)) (notice_body e n) ''pending''"

definition emit :: "env \<Rightarrow> notice \<Rightarrow> db \<Rightarrow> db \<times> int" where
  "emit e n s =
     (let mails = recipients s n;
          s1 = fold (emit_email e n) mails s;
          hooks = (case no_tenant n of None \<Rightarrow> [] | Some t \<Rightarrow> if t = [] then [] else active_webhooks_for s1 t (no_event n))
      in (fold (emit_webhook e n) hooks s1, int (length mails) + int (length hooks)))"

abbreviation emitted :: "env \<Rightarrow> notice \<Rightarrow> db \<Rightarrow> db" where
  "emitted e n s \<equiv> fst (emit e n s)"

section \<open>Delivery\<close>

definition STALE_CLAIM_MINUTES :: int where "STALE_CLAIM_MINUTES = 10"

definition minutes :: "int \<Rightarrow> int" where "minutes m = m * 60 * usec_per_sec"

definition release_stale :: "env \<Rightarrow> outbox_row list \<Rightarrow> outbox_row list" where
  "release_stale e =
     update_where (\<lambda>r. ob_status r = ''delivering'' \<and>
                       (case ob_claimed_at r of None \<Rightarrow> False | Some c \<Rightarrow> c \<le> db_now e - minutes STALE_CLAIM_MINUTES))
       (\<lambda>r. r\<lparr>ob_status := ''pending'', ob_claimed_by := None, ob_claimed_at := None\<rparr>)"

definition due :: "env \<Rightarrow> outbox_row \<Rightarrow> bool" where
  "due e r \<longleftrightarrow> ob_status r = ''pending'' \<and>
     (case ob_next_attempt_at r of None \<Rightarrow> True | Some t \<Rightarrow> t \<le> db_now e)"

definition batch :: "env \<Rightarrow> nat \<Rightarrow> outbox_row list \<Rightarrow> int list" where
  "batch e limit rows = take limit (map ob_id (sort_key ob_id (filter (due e) rows)))"

definition claim_rows :: "env \<Rightarrow> nat \<Rightarrow> string \<Rightarrow> outbox_row list \<Rightarrow> outbox_row list" where
  "claim_rows e limit worker rows =
     (let rows1 = release_stale e rows; ids = batch e limit rows1
      in update_where (\<lambda>r. ob_id r \<in> set ids)
           (\<lambda>r. r\<lparr>ob_status := ''delivering'', ob_claimed_by := Some worker, ob_claimed_at := Some (db_now e)\<rparr>) rows1)"

definition claim_pending :: "env \<Rightarrow> nat \<Rightarrow> string \<Rightarrow> db \<Rightarrow> db \<times> outbox_row list" where
  "claim_pending e limit worker s =
     (let rows = claim_rows e limit worker (notification_outbox s)
      in (s\<lparr>notification_outbox := rows\<rparr>,
          sort_key ob_id (filter (\<lambda>r. ob_status r = ''delivering'' \<and> ob_claimed_by r = Some worker) rows)))"

text \<open>\<open>mark_result\<close>: sent, given up after \<open>max_attempts\<close>, or due again after an exponential pause.\<close>

definition max_attempts :: int where "max_attempts = 6"

definition retry_at :: "env \<Rightarrow> int \<Rightarrow> int" where
  "retry_at e attempts =
     ((env_now e + minutes (min 60 (2 ^ nat attempts))) div usec_per_sec) * usec_per_sec"

definition mark_row :: "env \<Rightarrow> bool \<Rightarrow> string option \<Rightarrow> int \<Rightarrow> outbox_row \<Rightarrow> outbox_row" where
  "mark_row e ok error attempts r =
     (if ok then r\<lparr>ob_status := ''sent'', ob_attempts := attempts, ob_last_error := None,
                   ob_sent_at := Some (db_now e), ob_claimed_by := None, ob_claimed_at := None\<rparr>
      else if max_attempts \<le> attempts then
        r\<lparr>ob_status := ''failed'', ob_attempts := attempts, ob_last_error := Some (take 500 (or_str error [])),
          ob_claimed_by := None, ob_claimed_at := None\<rparr>
      else r\<lparr>ob_status := ''pending'', ob_attempts := attempts, ob_last_error := Some (take 500 (or_str error [])),
             ob_next_attempt_at := Some (retry_at e attempts), ob_claimed_by := None, ob_claimed_at := None\<rparr>)"

definition mark_result :: "env \<Rightarrow> int \<Rightarrow> bool \<Rightarrow> string option \<Rightarrow> int \<Rightarrow> db \<Rightarrow> db" where
  "mark_result e row_id ok error attempts s =
     s\<lparr>notification_outbox :=
       update_where (\<lambda>r. ob_id r = row_id) (mark_row e ok error attempts) (notification_outbox s)\<rparr>"

text \<open>
  What the mail server and the webhook endpoint answer: success, or an exception with its class
  and message; an HTTP error keeps its code.
\<close>

datatype send_result = SendOk | HttpError int string | OtherError string string

record sender =
  sn_mail :: "string \<Rightarrow> string \<Rightarrow> json \<Rightarrow> send_result"
  sn_post :: "webhook_row \<Rightarrow> json \<Rightarrow> send_result"

fun error_text :: "send_result \<Rightarrow> string option" where
  "error_text SendOk = None"
| "error_text (HttpError code msg) = Some (''HTTPError: '' @ msg)"
| "error_text (OtherError cls msg) = Some (cls @ '': '' @ msg)"

fun hook_status :: "send_result \<Rightarrow> string" where
  "hook_status SendOk = ''ok''"
| "hook_status (HttpError code msg) = ''http '' @ str_int code"
| "hook_status (OtherError cls msg) = take 80 (''error: '' @ msg)"

definition record_webhook_delivery :: "env \<Rightarrow> string \<Rightarrow> string \<Rightarrow> db \<Rightarrow> db" where
  "record_webhook_delivery e webhook_id status s =
     s\<lparr>webhooks := update_where (\<lambda>w. wh_id w = webhook_id)
       (\<lambda>w. w\<lparr>wh_last_delivery_at := Some (db_now e), wh_last_status := Some status\<rparr>) (webhooks s)\<rparr>"

definition mail_subject :: "outbox_row \<Rightarrow> string" where
  "mail_subject r = or_str (ob_subject r)
     (case ob_payload r of JObj d \<Rightarrow> (case dget d ''subject'' JNull of JStr t \<Rightarrow> or_str (Some t) ''Norinth'' | _ \<Rightarrow> ''Norinth'') | _ \<Rightarrow> ''Norinth'')"

definition deliver_one :: "env \<Rightarrow> sender \<Rightarrow> outbox_row \<Rightarrow> db \<Rightarrow> db \<times> bool \<times> string option" where
  "deliver_one e io row s =
     (if ob_channel row = ''email'' then
        let err = error_text (sn_mail io (ob_target row) (mail_subject row) (ob_payload row)) in (s, err = None, err)
      else if ob_channel row = ''webhook'' then
        (case by_key wh_id (ob_target row) (webhooks s) of
           None \<Rightarrow> (s, False, Some ''webhook no longer exists or is disabled'')
         | Some hook \<Rightarrow>
             if wh_status hook \<noteq> ''active'' then (s, False, Some ''webhook no longer exists or is disabled'')
             else let r = sn_post io hook (ob_payload row)
                  in (record_webhook_delivery e (wh_id hook) (hook_status r) s, error_text r = None, error_text r))
      else (s, False, Some (''unknown channel '' @ ob_channel row)))"

definition deliver_row :: "env \<Rightarrow> sender \<Rightarrow> outbox_row \<Rightarrow> db \<times> int \<times> int \<Rightarrow> db \<times> int \<times> int" where
  "deliver_row e io row = (\<lambda>(s, sent, failed).
     let (s1, ok, error) = deliver_one e io row s;
         s2 = mark_result e (ob_id row) ok error (ob_attempts row + 1) s1
     in (s2, if ok then sent + 1 else sent, if ok then failed else failed + 1))"

definition deliver_pending :: "env \<Rightarrow> sender \<Rightarrow> nat \<Rightarrow> string \<Rightarrow> db \<Rightarrow> db \<times> int \<times> int" where
  "deliver_pending e io limit worker s =
     (let (s1, rows) = claim_pending e limit worker s in fold (deliver_row e io) rows (s1, 0, 0))"

definition list_outbox :: "string \<Rightarrow> nat \<Rightarrow> db \<Rightarrow> outbox_row list" where
  "list_outbox tenant limit s =
     take limit (rev (sort_key ob_id (filter (\<lambda>r. ob_tenant_id r = Some tenant) (notification_outbox s))))"

section \<open>Webhooks\<close>

text \<open>
  The random identifiers and secrets (\<open>secrets.token_urlsafe\<close>) and the encryption at rest
  (services/secrets.py) are arguments.
\<close>

definition create_webhook ::
  "env \<Rightarrow> (string \<Rightarrow> string \<Rightarrow> string res) \<Rightarrow> string \<Rightarrow> string \<Rightarrow> string \<Rightarrow> string \<Rightarrow> string \<Rightarrow> string list \<Rightarrow> string \<Rightarrow>
   string option \<Rightarrow> db \<Rightarrow> (db \<times> string \<times> webhook_row) res" where
  "create_webhook e encrypt idtok secrettok tenant name url events fmt created_by s =
     (let webhook_id = ''whk_'' @ idtok; secret = ''whs_'' @ secrettok
      in ebind (encrypt secret (''webhook:'' @ tenant @ '':'' @ webhook_id)) (\<lambda>stored.
         let row = \<lparr>wh_id = webhook_id, wh_tenant_id = tenant, wh_name = name, wh_url = url, wh_secret = stored,
                    wh_events = sort events, wh_format = fmt, wh_status = ''active'', wh_created_by = created_by,
                    wh_created_at = db_now e, wh_last_delivery_at = None, wh_last_status = None\<rparr>
         in if webhook_id \<in> set (map wh_id (webhooks s)) then Inl (RuntimeErr ''IntegrityError'')
            else Inr (s\<lparr>webhooks := webhooks s @ [row]\<rparr>, secret, row)))"

definition load_webhook :: "string \<Rightarrow> string \<Rightarrow> db \<Rightarrow> webhook_row option" where
  "load_webhook webhook_id tenant s = find (\<lambda>w. wh_id w = webhook_id \<and> wh_tenant_id w = tenant) (webhooks s)"

definition delete_webhook :: "string \<Rightarrow> string \<Rightarrow> db \<Rightarrow> db \<times> bool" where
  "delete_webhook webhook_id tenant s =
     (let p = (\<lambda>w. wh_id w = webhook_id \<and> wh_tenant_id w = tenant)
      in (s\<lparr>webhooks := delete_where p (webhooks s)\<rparr>, exists_row p (webhooks s)))"

section \<open>Invitations\<close>

definition INVITE_TTL_DAYS :: int where "INVITE_TTL_DAYS = 7"

definition create_invite ::
  "env \<Rightarrow> string \<Rightarrow> string \<Rightarrow> string \<Rightarrow> string option \<Rightarrow> db \<Rightarrow> (db \<times> string) res" where
  "create_invite e tok user_ref tenant created_by s =
     (let token = ''inv_'' @ tok; h = env_sha256 e token;
          kept = delete_where (\<lambda>i. iv_user_ref i = user_ref \<and> iv_used_at i = None) (invites s)
      in if h \<in> set (map iv_token_hash kept) then Inl (RuntimeErr ''IntegrityError'')
         else Inr (s\<lparr>invites := kept @ [\<lparr>iv_token_hash = h, iv_user_ref = user_ref, iv_tenant_id = tenant,
                iv_created_by = created_by, iv_created_at = env_now e,
                iv_expires_at = add_days (env_now e) INVITE_TTL_DAYS, iv_used_at = None\<rparr>]\<rparr>, token))"

definition peek_invite :: "env \<Rightarrow> string \<Rightarrow> db \<Rightarrow> invite_row option" where
  "peek_invite e token s =
     (case by_key iv_token_hash (env_sha256 e token) (invites s) of
        None \<Rightarrow> None
      | Some i \<Rightarrow> if iv_used_at i \<noteq> None then None
                  else if iv_expires_at i \<le> env_now e then None else Some i)"

definition consume_invite :: "env \<Rightarrow> string \<Rightarrow> db \<Rightarrow> db \<times> invite_row option" where
  "consume_invite e token s =
     (case peek_invite e token s of
        None \<Rightarrow> (s, None)
      | Some invite \<Rightarrow>
          let p = (\<lambda>i. iv_token_hash i = env_sha256 e token \<and> iv_used_at i = None)
          in if exists_row p (invites s)
             then (s\<lparr>invites := update_where p (\<lambda>i. i\<lparr>iv_used_at := Some (env_now e)\<rparr>) (invites s)\<rparr>, Some invite)
             else (s, None))"

section \<open>What writing the outbox changes\<close>

definition new_rows :: "outbox_row list \<Rightarrow> db \<Rightarrow> db" where
  "new_rows rows s = s\<lparr>notification_outbox := notification_outbox s @ rows,
     outbox_seq := outbox_seq s + int (length rows)\<rparr>"

lemma new_rows_Nil [simp]: "new_rows [] s = s"
  by (simp add: new_rows_def)

lemma new_rows_new_rows: "new_rows ys (new_rows xs s) = new_rows (xs @ ys) s"
  by (simp add: new_rows_def)

text \<open>A run of \<open>enqueue\<close>s appends rows of the notice, numbered on from the counter.\<close>

definition notice_rows :: "notice \<Rightarrow> int \<Rightarrow> outbox_row list \<Rightarrow> bool" where
  "notice_rows n from rows \<longleftrightarrow>
     map ob_id rows = map (\<lambda>i. from + 1 + int i) [0..<length rows] \<and>
     (\<forall>r\<in>set rows. ob_tenant_id r = no_tenant n \<and> ob_event_type r = no_event n \<and> ob_attempts r = 0 \<and>
        ob_status r \<in> {''pending'', ''skipped_no_smtp''} \<and> ob_claimed_by r = None \<and> ob_claimed_at r = None)"

lemma notice_rows_Nil [simp]: "notice_rows n q []"
  by (simp add: notice_rows_def)

lemma notice_rows_append:
  assumes "notice_rows n q xs" "notice_rows n (q + int (length xs)) ys"
  shows "notice_rows n q (xs @ ys)"
proof -
  have "map (\<lambda>i. q + int (length xs) + 1 + int i) [0..<length ys] =
      map (\<lambda>i. q + 1 + int i) [length xs..<length xs + length ys]"
    by (rule nth_equalityI) simp_all
  then have "map ob_id (xs @ ys) = map (\<lambda>i. q + 1 + int i) [0..<length (xs @ ys)]"
    using assms by (simp add: notice_rows_def upt_add_eq_append [of 0])
  then show ?thesis using assms unfolding notice_rows_def by auto
qed

lemma fold_enqueue:
  assumes "\<And>x s. \<exists>r. step x s = new_rows [r] s \<and> notice_rows n (outbox_seq s) [r] \<and> P x r"
  shows "\<exists>rows. fold step xs s = new_rows rows s \<and> notice_rows n (outbox_seq s) rows \<and> list_all2 P xs rows"
proof (induction xs arbitrary: s)
  case Nil
  show ?case by (rule exI [of _ "[]"]) simp
next
  case (Cons x xs)
  obtain r where r: "step x s = new_rows [r] s" "notice_rows n (outbox_seq s) [r]" "P x r" using assms by blast
  obtain rows where rows: "fold step xs (step x s) = new_rows rows (step x s)"
    "notice_rows n (outbox_seq (step x s)) rows" "list_all2 P xs rows"
    using Cons.IH by blast
  have q: "outbox_seq (step x s) = outbox_seq s + 1" using r by (simp add: new_rows_def)
  have "notice_rows n (outbox_seq s) ([r] @ rows)"
    using r(2) rows(2) q by (intro notice_rows_append) simp_all
  moreover have "fold step (x # xs) s = new_rows ([r] @ rows) s"
    using rows(1) r(1) by (simp add: new_rows_new_rows)
  ultimately show ?case using r(3) rows(3) by (intro exI [of _ "[r] @ rows"]) simp
qed

definition mail_row :: "string \<Rightarrow> outbox_row \<Rightarrow> bool" where
  "mail_row m r \<longleftrightarrow> ob_channel r = ''email'' \<and> ob_target r = m"

definition hook_row :: "webhook_row \<Rightarrow> outbox_row \<Rightarrow> bool" where
  "hook_row w r \<longleftrightarrow> ob_channel r = ''webhook'' \<and> ob_target r = wh_id w"

lemma enqueue_new_row:
  "enqueue e tenant ch ev target subj payload status s =
     new_rows [outbox_entry e (outbox_seq s + 1) tenant ch ev target subj payload status] s"
  by (simp add: enqueue_def new_rows_def)

lemma emit_email_row:
  "\<exists>r. emit_email e n m s = new_rows [r] s \<and> notice_rows n (outbox_seq s) [r] \<and> mail_row m r"
  unfolding emit_email_def enqueue_new_row
  by (intro exI conjI, rule refl) (simp_all add: outbox_entry_def notice_rows_def mail_row_def)

lemma emit_webhook_row:
  "\<exists>r. emit_webhook e n w s = new_rows [r] s \<and> notice_rows n (outbox_seq s) [r] \<and> hook_row w r"
  unfolding emit_webhook_def enqueue_new_row
  by (intro exI conjI, rule refl) (simp_all add: outbox_entry_def notice_rows_def hook_row_def)

definition notice_hooks :: "notice \<Rightarrow> db \<Rightarrow> webhook_row list" where
  "notice_hooks n s = (case no_tenant n of None \<Rightarrow> [] | Some t \<Rightarrow> if t = [] then [] else active_webhooks_for s t (no_event n))"

lemma notice_hooks_new_rows [simp]: "notice_hooks n (new_rows rows s) = notice_hooks n s"
  by (simp add: notice_hooks_def active_webhooks_for_def new_rows_def split: option.splits)

text \<open>\<open>emit\<close> appends one row per recipient and one per subscribed webhook, and nothing else.\<close>

lemma emit_rows:
  obtains mails hooks where
    "emit e n s = (new_rows (mails @ hooks) s, int (length mails) + int (length hooks))"
    "notice_rows n (outbox_seq s) (mails @ hooks)"
    "list_all2 mail_row (recipients s n) mails" "list_all2 hook_row (notice_hooks n s) hooks"
proof -
  let ?s1 = "fold (emit_email e n) (recipients s n) s"
  obtain mails where m: "?s1 = new_rows mails s" "notice_rows n (outbox_seq s) mails"
    "list_all2 mail_row (recipients s n) mails"
    using fold_enqueue [of "emit_email e n" n mail_row "recipients s n" s] emit_email_row by blast
  obtain hooks where h: "fold (emit_webhook e n) (notice_hooks n ?s1) ?s1 = new_rows hooks ?s1"
    "notice_rows n (outbox_seq ?s1) hooks" "list_all2 hook_row (notice_hooks n ?s1) hooks"
    using fold_enqueue [of "emit_webhook e n" n hook_row "notice_hooks n ?s1" ?s1] emit_webhook_row by blast
  have h1: "notice_hooks n ?s1 = notice_hooks n s" using m(1) by simp
  show thesis
  proof (rule that [of mails hooks])
    have "length (recipients s n) = length mails" "length (notice_hooks n s) = length hooks"
      using m(3) h(3) h1 by (simp_all add: list_all2_lengthD)
    moreover have "fst (emit e n s) = fold (emit_webhook e n) (notice_hooks n ?s1) ?s1"
      "snd (emit e n s) = int (length (recipients s n)) + int (length (notice_hooks n ?s1))"
      by (simp_all add: emit_def notice_hooks_def Let_def)
    ultimately show "emit e n s = (new_rows (mails @ hooks) s, int (length mails) + int (length hooks))"
      using h(1) h1 m(1) by (metis new_rows_new_rows prod.collapse)
    have "outbox_seq ?s1 = outbox_seq s + int (length mails)" using m(1) by (simp add: new_rows_def)
    then show "notice_rows n (outbox_seq s) (mails @ hooks)"
      using m(2) h(2) by (intro notice_rows_append) simp_all
    show "list_all2 mail_row (recipients s n) mails" by (rule m(3))
    show "list_all2 hook_row (notice_hooks n s) hooks" using h(3) h1 by simp
  qed
qed

lemma emitted_new_rows: "\<exists>rows. emitted e n s = new_rows rows s \<and> notice_rows n (outbox_seq s) rows"
  by (rule emit_rows [of e n s]) auto

lemma emitted_frame [simp]:
  "platform_users (emitted e n s) = platform_users s"
  "sessions (emitted e n s) = sessions s"
  "organizations (emitted e n s) = organizations s"
  "login_throttle (emitted e n s) = login_throttle s"
  "mfa_recovery_codes (emitted e n s) = mfa_recovery_codes s"
  "mfa_challenges (emitted e n s) = mfa_challenges s"
  "ingestion_keys (emitted e n s) = ingestion_keys s"
  "role_permissions (emitted e n s) = role_permissions s"
  "role_assignments (emitted e n s) = role_assignments s"
  "review_queue_policies (emitted e n s) = review_queue_policies s"
  "owner_assignment_policies (emitted e n s) = owner_assignment_policies s"
  "owner_assignments (emitted e n s) = owner_assignments s"
  "governance_decisions (emitted e n s) = governance_decisions s"
  "governance_exceptions (emitted e n s) = governance_exceptions s"
  "lifecycle_fingerprints (emitted e n s) = lifecycle_fingerprints s"
  "change_events (emitted e n s) = change_events s"
  "review_tasks (emitted e n s) = review_tasks s"
  "ai_use_cases (emitted e n s) = ai_use_cases s"
  "control_assessments (emitted e n s) = control_assessments s"
  "risk_findings (emitted e n s) = risk_findings s"
  "governance_policies (emitted e n s) = governance_policies s"
  "approval_stages (emitted e n s) = approval_stages s"
  "vendor_registry (emitted e n s) = vendor_registry s"
  "vendor_evidence_references (emitted e n s) = vendor_evidence_references s"
  "sdk_events (emitted e n s) = sdk_events s"
  "governance_applications (emitted e n s) = governance_applications s"
  "governance_observed_events (emitted e n s) = governance_observed_events s"
  "prompt_versions (emitted e n s) = prompt_versions s"
  "control_library (emitted e n s) = control_library s"
  "control_evidence_traces (emitted e n s) = control_evidence_traces s"
  "attestation_keys (emitted e n s) = attestation_keys s"
  "attestation_requirements (emitted e n s) = attestation_requirements s"
  "governance_deployments (emitted e n s) = governance_deployments s"
  "deployment_versions (emitted e n s) = deployment_versions s"
  "deployment_approval_gates (emitted e n s) = deployment_approval_gates s"
  "governance_incidents (emitted e n s) = governance_incidents s"
  "webhooks (emitted e n s) = webhooks s"
  "invites (emitted e n s) = invites s"
  "events_seq (emitted e n s) = events_seq s"
  "governance_workflows (emitted e n s) = governance_workflows s"
  "governance_models (emitted e n s) = governance_models s"
  "governance_providers (emitted e n s) = governance_providers s"
  "governance_risks (emitted e n s) = governance_risks s"
  "governance_controls (emitted e n s) = governance_controls s"
  "prompt_templates (emitted e n s) = prompt_templates s"
  "risk_rules (emitted e n s) = risk_rules s"
  "agent_registry (emitted e n s) = agent_registry s"
  using emitted_new_rows [of e n s] by (auto simp: new_rows_def)

section \<open>The outbox invariant\<close>

definition outbox_inv :: "db \<Rightarrow> bool" where
  "outbox_inv s \<longleftrightarrow> pk ob_id (notification_outbox s) \<and>
     (\<forall>r\<in>set (notification_outbox s). ob_id r \<le> outbox_seq s)"

lemma outbox_inv_new_rows:
  assumes "outbox_inv s" "notice_rows n (outbox_seq s) rows"
  shows "outbox_inv (new_rows rows s)"
proof -
  have ids: "map ob_id rows = map (\<lambda>i. outbox_seq s + 1 + int i) [0..<length rows]"
    using assms(2) by (simp add: notice_rows_def)
  have "distinct (map ob_id rows)" unfolding ids by (simp add: distinct_map inj_on_def)
  moreover have bound: "outbox_seq s < k \<and> k \<le> outbox_seq s + int (length rows)" if "k \<in> set (map ob_id rows)" for k
    using that unfolding ids by auto
  ultimately have "pk ob_id (notification_outbox s @ rows)"
    using assms(1) unfolding pk_def outbox_inv_def by fastforce
  moreover have "\<forall>r\<in>set (notification_outbox s @ rows). ob_id r \<le> outbox_seq s + int (length rows)"
    using assms(1) bound unfolding outbox_inv_def by fastforce
  ultimately show ?thesis by (simp add: outbox_inv_def new_rows_def)
qed

lemma outbox_inv_map:
  assumes "outbox_inv s" "\<And>r. ob_id (f r) = ob_id r"
  shows "outbox_inv (s\<lparr>notification_outbox := map f (notification_outbox s)\<rparr>)"
proof -
  have "map ob_id (map f t) = map ob_id t" for t using assms(2) by simp
  then show ?thesis using assms unfolding outbox_inv_def pk_def by (simp del: map_map)
qed

definition claim_row :: "env \<Rightarrow> int list \<Rightarrow> string \<Rightarrow> outbox_row \<Rightarrow> outbox_row" where
  "claim_row e ids worker r =
     (if ob_id r \<in> set ids
      then r\<lparr>ob_status := ''delivering'', ob_claimed_by := Some worker, ob_claimed_at := Some (db_now e)\<rparr> else r)"

definition release_row :: "env \<Rightarrow> outbox_row \<Rightarrow> outbox_row" where
  "release_row e r =
     (if ob_status r = ''delivering'' \<and>
         (case ob_claimed_at r of None \<Rightarrow> False | Some c \<Rightarrow> c \<le> db_now e - minutes STALE_CLAIM_MINUTES)
      then r\<lparr>ob_status := ''pending'', ob_claimed_by := None, ob_claimed_at := None\<rparr> else r)"

lemma release_stale_map: "release_stale e rows = map (release_row e) rows"
  by (auto simp: release_stale_def release_row_def update_where_def)

lemma claim_rows_map:
  "claim_rows e limit worker rows =
     map (claim_row e (batch e limit (release_stale e rows)) worker \<circ> release_row e) rows"
  unfolding claim_rows_def Let_def claim_row_def [abs_def] update_where_def
  by (simp add: release_stale_map)

lemma ob_id_claim [simp]: "ob_id (claim_row e ids w r) = ob_id r" "ob_id (release_row e r) = ob_id r"
  by (simp_all add: claim_row_def release_row_def)

lemma batch_due:
  assumes "k \<in> set (batch e limit rows)"
  shows "\<exists>r\<in>set rows. ob_id r = k \<and> due e r"
  using assms set_take_subset unfolding batch_def by fastforce

lemma outbox_inv_claim: "outbox_inv s \<Longrightarrow> outbox_inv (fst (claim_pending e limit worker s))"
  unfolding claim_pending_def Let_def claim_rows_map fst_conv by (rule outbox_inv_map) simp_all

lemma ob_id_mark_row [simp]: "ob_id (mark_row e ok error a r) = ob_id r"
  by (simp add: mark_row_def)

lemma outbox_inv_mark: "outbox_inv s \<Longrightarrow> outbox_inv (mark_result e k ok error a s)"
  unfolding mark_result_def update_where_def by (rule outbox_inv_map) simp_all

lemma outbox_inv_emit: "outbox_inv s \<Longrightarrow> outbox_inv (emitted e n s)"
  using emitted_new_rows [of e n s] outbox_inv_new_rows [of s n] by auto

section \<open>Claims exclude each other\<close>

text \<open>The steps that touch the outbox, as workers and requests interleave them.\<close>

datatype outbox_op =
    OutEmit env notice
  | OutClaim env nat string
  | OutMark env int bool "string option" int

fun outbox_step :: "outbox_op \<Rightarrow> db \<Rightarrow> db" where
  "outbox_step (OutEmit e n) s = emitted e n s"
| "outbox_step (OutClaim e limit worker) s = fst (claim_pending e limit worker s)"
| "outbox_step (OutMark e k ok error attempts) s = mark_result e k ok error attempts s"

interpretation outbox: invariant_ops outbox_step outbox_inv
proof
  fix s op
  assume "outbox_inv s"
  then show "outbox_inv (outbox_step op s)"
    by (cases op) (auto intro: outbox_inv_emit outbox_inv_claim outbox_inv_mark)
qed

text \<open>A step that leaves a claim alone: its clock is inside the claim's window, it is not the result.\<close>

fun respects_claim :: "outbox_row \<Rightarrow> outbox_op \<Rightarrow> bool" where
  "respects_claim r (OutEmit e n) = True"
| "respects_claim r (OutClaim e limit worker) =
     (case ob_claimed_at r of None \<Rightarrow> False | Some c \<Rightarrow> db_now e - minutes STALE_CLAIM_MINUTES < c)"
| "respects_claim r (OutMark e k ok error attempts) = (k \<noteq> ob_id r)"

lemma release_row_kept:
  assumes "respects_claim r (OutClaim e limit worker)"
  shows "release_row e r = r"
  using assms by (simp add: release_row_def split: option.splits)

lemma claim_row_kept:
  assumes "outbox_inv s" "r \<in> set (notification_outbox s)" "ob_status r = ''delivering''"
    "respects_claim r (OutClaim e limit worker)"
  shows "ob_id r \<notin> set (batch e limit (release_stale e (notification_outbox s)))"
proof
  let ?rows = "release_stale e (notification_outbox s)"
  assume "ob_id r \<in> set (batch e limit ?rows)"
  then obtain q where q: "q \<in> set (notification_outbox s)" "ob_id q = ob_id r" "due e (release_row e q)"
    using batch_due [of "ob_id r" e limit ?rows] by (auto simp: release_stale_map)
  have "q = r" using q(1,2) assms(1,2) unfolding outbox_inv_def pk_def by (meson distinct_map inj_onD)
  then show False using q(3) release_row_kept [OF assms(4)] assms(3) by (simp add: due_def)
qed

lemma claimed_row_step:
  assumes "outbox_inv s" "r \<in> set (notification_outbox s)" "ob_status r = ''delivering''" "respects_claim r op"
  shows "r \<in> set (notification_outbox (outbox_step op s))"
proof (cases op)
  case (OutEmit e n)
  then show ?thesis using emitted_new_rows [of e n s] assms(2) by (auto simp: new_rows_def)
next
  case (OutClaim e limit worker)
  let ?ids = "batch e limit (release_stale e (notification_outbox s))"
  have "claim_row e ?ids worker (release_row e r) = r"
    using assms release_row_kept [of r e limit worker] claim_row_kept [of s r e limit worker] OutClaim
    by (simp add: claim_row_def)
  then have "r \<in> (claim_row e ?ids worker \<circ> release_row e) ` set (notification_outbox s)"
    using assms(2) by (metis comp_apply imageI)
  then show ?thesis using OutClaim by (simp add: claim_pending_def Let_def claim_rows_map)
next
  case (OutMark e k ok error attempts)
  then show ?thesis using assms by (auto simp: mark_result_def set_update_where)
qed

lemma claimed_row_run:
  assumes "outbox_inv s" "r \<in> set (notification_outbox s)" "ob_status r = ''delivering''" "list_all (respects_claim r) ops"
  shows "r \<in> set (notification_outbox (fold outbox_step ops s))"
  using assms
proof (induction ops arbitrary: s)
  case Nil
  then show ?case by simp
next
  case (Cons op ops)
  have "outbox_inv (outbox_step op s)" using outbox.step_inv Cons.prems(1) by blast
  moreover have "r \<in> set (notification_outbox (outbox_step op s))" using claimed_row_step Cons.prems by simp
  ultimately show ?case using Cons.IH Cons.prems(3,4) by simp
qed

section \<open>One delivery pass\<close>

text \<open>How a pass leaves a row it claimed: sent, given up, or waiting for a later attempt.\<close>

definition settled :: "env \<Rightarrow> outbox_row \<Rightarrow> outbox_row \<Rightarrow> bool" where
  "settled e r r' \<longleftrightarrow> ob_id r' = ob_id r \<and> ob_attempts r' = ob_attempts r + 1 \<and> ob_claimed_by r' = None \<and>
     (ob_status r' = ''sent'' \<or>
      ob_status r' = ''failed'' \<and> max_attempts \<le> ob_attempts r' \<or>
      ob_status r' = ''pending'' \<and> ob_attempts r' < max_attempts \<and>
        (\<exists>t. ob_next_attempt_at r' = Some t \<and> db_now e < t))"

lemma retry_at_future: "db_now e < retry_at e a"
proof -
  have "(1::int) \<le> min 60 (2 ^ nat a)" by simp
  then have "(1::int) \<le> 60 * min 60 (2 ^ nat a)" by linarith
  then have "env_now e + usec_per_sec \<le> env_now e + minutes (min 60 (2 ^ nat a))" by (simp add: minutes_def)
  then have "(env_now e + usec_per_sec) div usec_per_sec \<le> (env_now e + minutes (min 60 (2 ^ nat a))) div usec_per_sec"
    by (rule zdiv_mono1) simp
  then show ?thesis by (simp add: retry_at_def db_now_def)
qed

lemma mark_row_settled: "settled e r (mark_row e ok error (ob_attempts r + 1) r)"
  using retry_at_future [of e] by (auto simp: settled_def mark_row_def)

lemma deliver_one_outbox [simp]: "notification_outbox (fst (deliver_one e io row s)) = notification_outbox s"
  by (auto simp: deliver_one_def Let_def record_webhook_delivery_def split: option.splits)

lemma deliver_row_outbox:
  "\<exists>ok error. notification_outbox (fst (deliver_row e io row acc)) =
     update_where (\<lambda>r. ob_id r = ob_id row) (mark_row e ok error (ob_attempts row + 1)) (notification_outbox (fst acc))"
proof -
  obtain s a b where acc: "acc = (s, a, b)" by (cases acc)
  obtain s1 ok error where 1: "deliver_one e io row s = (s1, ok, error)" by (cases "deliver_one e io row s")
  then have "notification_outbox s1 = notification_outbox s" using deliver_one_outbox [of e io row s] by simp
  then show ?thesis by (intro exI [of _ ok] exI [of _ error]) (simp add: acc 1 deliver_row_def mark_result_def)
qed

lemma fold_deliver_other:
  assumes "r \<in> set (notification_outbox (fst acc))" "ob_id r \<notin> ob_id ` set rows"
  shows "r \<in> set (notification_outbox (fst (fold (deliver_row e io) rows acc)))"
  using assms
proof (induction rows arbitrary: acc)
  case Nil
  then show ?case by simp
next
  case (Cons row rows)
  obtain ok error where "notification_outbox (fst (deliver_row e io row acc)) =
     update_where (\<lambda>r. ob_id r = ob_id row) (mark_row e ok error (ob_attempts row + 1)) (notification_outbox (fst acc))"
    using deliver_row_outbox by blast
  then have "r \<in> set (notification_outbox (fst (deliver_row e io row acc)))"
    using Cons.prems by (force simp: set_update_where)
  then show ?case using Cons by simp
qed

lemma fold_deliver_settled:
  assumes "set rows \<subseteq> set (notification_outbox (fst acc))" "distinct (map ob_id rows)" "r \<in> set rows"
  shows "\<exists>r'\<in>set (notification_outbox (fst (fold (deliver_row e io) rows acc))). settled e r r'"
  using assms
proof (induction rows arbitrary: acc)
  case Nil
  then show ?case by simp
next
  case (Cons row rows)
  let ?acc = "deliver_row e io row acc"
  obtain ok error where ob: "notification_outbox (fst ?acc) =
     update_where (\<lambda>r. ob_id r = ob_id row) (mark_row e ok error (ob_attempts row + 1)) (notification_outbox (fst acc))"
    using deliver_row_outbox by blast
  show ?case
  proof (cases "r = row")
    case True
    let ?r' = "mark_row e ok error (ob_attempts row + 1) row"
    have "?r' \<in> set (notification_outbox (fst ?acc))" using Cons.prems(1) by (force simp: ob set_update_where)
    moreover have "ob_id ?r' \<notin> ob_id ` set rows" using Cons.prems(2) by simp
    ultimately have "?r' \<in> set (notification_outbox (fst (fold (deliver_row e io) rows ?acc)))"
      by (rule fold_deliver_other)
    then show ?thesis using True mark_row_settled [of e row] by (intro bexI [of _ ?r']) simp_all
  next
    case False
    have "set rows \<subseteq> set (notification_outbox (fst ?acc))"
      using Cons.prems(1,2) unfolding ob by (auto intro!: update_where_keeps) (metis imageI)
    then show ?thesis using Cons.IH [of ?acc] Cons.prems(2,3) False by simp
  qed
qed

lemma fold_deliver_counts:
  "fst (snd (fold (deliver_row e io) rows (s, sent, failed))) + snd (snd (fold (deliver_row e io) rows (s, sent, failed))) =
     sent + failed + int (length rows)"
proof (induction rows arbitrary: s sent failed)
  case Nil
  then show ?case by simp
next
  case (Cons row rows)
  obtain s1 a1 b1 where 1: "deliver_row e io row (s, sent, failed) = (s1, a1, b1)" by (metis prod_cases3)
  then have "a1 + b1 = sent + failed + 1" by (auto simp: deliver_row_def Let_def split: prod.splits if_splits)
  then show ?case using Cons.IH [of s1 a1 b1] 1 by simp
qed

section \<open>Invitations are single use\<close>

datatype invite_op =
    InviteCreate env string string string "string option"
  | InviteConsume env string

fun invite_step :: "invite_op \<Rightarrow> db \<Rightarrow> db" where
  "invite_step (InviteCreate e tok user_ref tenant creator) s =
     (case create_invite e tok user_ref tenant creator s of Inl _ \<Rightarrow> s | Inr (s', _) \<Rightarrow> s')"
| "invite_step (InviteConsume e token) s = fst (consume_invite e token s)"

definition invites_inv :: "db \<Rightarrow> bool" where
  "invites_inv s \<longleftrightarrow> pk iv_token_hash (invites s)"

definition used_kept :: "db \<Rightarrow> db \<Rightarrow> bool" where
  "used_kept s s' \<longleftrightarrow> (\<forall>i\<in>set (invites s). iv_used_at i \<noteq> None \<longrightarrow> i \<in> set (invites s'))"

lemma invites_inv_create:
  "invites_inv s \<Longrightarrow> create_invite e tok u t c s = Inr (s', token) \<Longrightarrow> invites_inv s'"
  unfolding invites_inv_def create_invite_def Let_def
  by (auto simp: pk_def delete_where_def distinct_map_filter split: if_splits)

lemma invites_inv_consume: "invites_inv s \<Longrightarrow> invites_inv (fst (consume_invite e token s))"
  unfolding invites_inv_def consume_invite_def Let_def
  by (auto split: option.splits intro!: pk_update_where)

interpretation invite: monotone_ops invite_step invites_inv used_kept
proof
  fix s t u :: db and op
  show "used_kept s s" by (simp add: used_kept_def)
  show "used_kept s t \<Longrightarrow> used_kept t u \<Longrightarrow> used_kept s u" by (auto simp: used_kept_def)
  assume inv: "invites_inv s"
  show "invites_inv (invite_step op s)"
  proof (cases op)
    case (InviteCreate e tok u t c)
    then show ?thesis using inv by (auto intro: invites_inv_create split: sum.splits)
  next
    case (InviteConsume e token)
    then show ?thesis using inv by (simp add: invites_inv_consume)
  qed
  show "used_kept s (invite_step op s)"
    by (cases op) (auto simp: used_kept_def create_invite_def consume_invite_def Let_def delete_where_def set_update_where
        split: sum.splits if_splits option.splits)
qed

lemma consumed_is_used:
  assumes "consume_invite e token s = (s', Some i)"
  shows "i\<lparr>iv_used_at := Some (env_now e)\<rparr> \<in> set (invites s')" "iv_token_hash i = env_sha256 e token"
    "iv_used_at i = None" "env_now e < iv_expires_at i" "i \<in> set (invites s)"
proof -
  have p: "peek_invite e token s = Some i" using assms by (auto simp: consume_invite_def Let_def split: option.splits if_splits)
  then show k: "iv_token_hash i = env_sha256 e token" "iv_used_at i = None" "env_now e < iv_expires_at i" "i \<in> set (invites s)"
    by (auto simp: peek_invite_def dest!: by_key_Some split: option.splits if_splits)
  show "i\<lparr>iv_used_at := Some (env_now e)\<rparr> \<in> set (invites s')"
    using assms p k by (force simp: consume_invite_def Let_def set_update_where split: if_splits)
qed

lemma used_blocks:
  assumes "invites_inv s" "i \<in> set (invites s)" "iv_token_hash i = env_sha256 e token" "iv_used_at i \<noteq> None"
  shows "consume_invite e token s = (s, None)" "peek_invite e token s = None"
proof -
  have "by_key iv_token_hash (env_sha256 e token) (invites s) = Some i"
    using by_key_unique [of iv_token_hash "invites s" i] assms by (simp add: invites_inv_def)
  then show "peek_invite e token s = None" using assms(4) by (simp add: peek_invite_def)
  then show "consume_invite e token s = (s, None)" by (simp add: consume_invite_def)
qed

end
