(* ===== verification/Accounts.thy ===== *)
theory Accounts
  imports Notifications
begin

text \<open>
  Accounts (storage/workflow.py, storage/organizations.py), sessions (services/auth.py) and
  failed-login throttling (storage/login_attempts.py). Random tokens and password hashes are
  arguments; the settings the modules read from the environment at import are the fields of
  \<open>auth_cfg\<close>.
\<close>

section \<open>Users\<close>

definition load_platform_user :: "db \<Rightarrow> string \<Rightarrow> platform_user option" where
  "load_platform_user s user_ref = by_key pu_user_ref user_ref (platform_users s)"

definition blank_user :: "env \<Rightarrow> string \<Rightarrow> string \<Rightarrow> string \<Rightarrow> platform_user" where
  "blank_user e user_ref display_name status =
     \<lparr>pu_user_ref = user_ref, pu_display_name = display_name, pu_status = status, pu_created_at = db_now e,
      pu_updated_at = db_now e, pu_email = None, pu_password_hash = None, pu_must_change_password = False,
      pu_platform_role = None, pu_tenant_id = None, pu_mfa_secret = None, pu_mfa_pending_secret = None,
      pu_mfa_enabled_at = None, pu_mfa_last_counter = None, pu_external_id = None\<rparr>"

definition upsert_platform_user :: "env \<Rightarrow> string \<Rightarrow> string \<Rightarrow> string \<Rightarrow> db \<Rightarrow> db" where
  "upsert_platform_user e user_ref display_name status s =
     s\<lparr>platform_users := upsert pu_user_ref
        (\<lambda>u. u\<lparr>pu_display_name := display_name, pu_status := status, pu_updated_at := db_now e\<rparr>)
        (blank_user e user_ref display_name status) (platform_users s)\<rparr>"

record new_user =
  nu_user_ref :: string
  nu_display_name :: string
  nu_email :: string
  nu_password_hash :: string
  nu_status :: string
  nu_platform_role :: "string option"
  nu_tenant_id :: "string option"
  nu_must_change_password :: bool

definition create_platform_user :: "env \<Rightarrow> new_user \<Rightarrow> db \<Rightarrow> db" where
  "create_platform_user e n s =
     (let fill = (\<lambda>u. u\<lparr>pu_display_name := nu_display_name n, pu_status := nu_status n, pu_email := Some (nu_email n),
            pu_password_hash := Some (nu_password_hash n), pu_must_change_password := nu_must_change_password n,
            pu_platform_role := nu_platform_role n, pu_tenant_id := nu_tenant_id n, pu_updated_at := db_now e\<rparr>)
      in s\<lparr>platform_users := upsert pu_user_ref fill
            (fill (blank_user e (nu_user_ref n) (nu_display_name n) (nu_status n))) (platform_users s)\<rparr>)"

definition update_user :: "string \<Rightarrow> (platform_user \<Rightarrow> platform_user) \<Rightarrow> db \<Rightarrow> db" where
  "update_user user_ref f s = s\<lparr>platform_users := update_where (\<lambda>u. pu_user_ref u = user_ref) f (platform_users s)\<rparr>"

definition set_user_password :: "env \<Rightarrow> string \<Rightarrow> string \<Rightarrow> db \<Rightarrow> db" where
  "set_user_password e user_ref hash =
     update_user user_ref (\<lambda>u. u\<lparr>pu_password_hash := Some hash, pu_must_change_password := False, pu_updated_at := db_now e\<rparr>)"

definition upgrade_password_hash :: "env \<Rightarrow> string \<Rightarrow> string \<Rightarrow> db \<Rightarrow> db" where
  "upgrade_password_hash e user_ref hash =
     update_user user_ref (\<lambda>u. u\<lparr>pu_password_hash := Some hash, pu_updated_at := db_now e\<rparr>)"

definition reset_user_password :: "env \<Rightarrow> string \<Rightarrow> string \<Rightarrow> db \<Rightarrow> db" where
  "reset_user_password e user_ref hash =
     update_user user_ref (\<lambda>u. u\<lparr>pu_password_hash := Some hash, pu_must_change_password := True, pu_updated_at := db_now e\<rparr>)"

definition set_user_status :: "env \<Rightarrow> string \<Rightarrow> string \<Rightarrow> db \<Rightarrow> (db \<times> platform_user) res" where
  "set_user_status e user_ref status s =
     (case load_platform_user s user_ref of
        None \<Rightarrow> Inl (DomainErr ''user not found'')
      | Some _ \<Rightarrow>
          let s' = update_user user_ref (\<lambda>u. u\<lparr>pu_status := status, pu_updated_at := db_now e\<rparr>) s
          in (case load_platform_user s' user_ref of None \<Rightarrow> Inl TypeErr | Some u \<Rightarrow> Inr (s', u)))"

definition normalize_email :: "string \<Rightarrow> string" where
  "normalize_email m = py_lower (py_strip m)"

definition sql_lower :: "string \<Rightarrow> string" where
  "sql_lower = map (\<lambda>c. let n = of_char c :: nat in if 65 \<le> n \<and> n \<le> 90 then char_of (n + 32) else c)"

definition get_user_by_email :: "db \<Rightarrow> string \<Rightarrow> platform_user option" where
  "get_user_by_email s email =
     find (\<lambda>u. True) (sort_key pu_created_at
       (filter (\<lambda>u. map_option sql_lower (pu_email u) = Some (normalize_email email)) (platform_users s)))"

definition count_super_admins :: "db \<Rightarrow> int" where
  "count_super_admins s = int (length (filter (\<lambda>u. pu_platform_role u = Some ''super_admin'') (platform_users s)))"

definition count_users_pending_password :: "db \<Rightarrow> int" where
  "count_users_pending_password s =
     int (length (filter (\<lambda>u. pu_must_change_password u \<and> pu_status u = ''active'') (platform_users s)))"

definition list_platform_users :: "string option \<Rightarrow> db \<Rightarrow> platform_user list" where
  "list_platform_users tenant s =
     sort_key pu_display_name (filter (\<lambda>u. nonempty tenant \<longrightarrow> pu_tenant_id u = tenant) (platform_users s))"

section \<open>Organizations\<close>

definition load_organization :: "db \<Rightarrow> string \<Rightarrow> organization option" where
  "load_organization s tenant = by_key og_tenant_id tenant (organizations s)"

definition create_organization :: "env \<Rightarrow> string \<Rightarrow> string \<Rightarrow> string \<Rightarrow> db \<Rightarrow> db res" where
  "create_organization e tenant name created_by s =
     (case load_organization s tenant of
        Some _ \<Rightarrow> Inl (DomainErr (''organization '' @ sq @ tenant @ sq @ '' already exists''))
      | None \<Rightarrow> Inr (s\<lparr>organizations := organizations s @
          [\<lparr>og_tenant_id = tenant, og_name = name, og_status = ''active'', og_created_by = created_by,
            og_created_at = db_now e, og_updated_at = db_now e, og_require_mfa = False, og_retention_days = None\<rparr>]\<rparr>))"

definition set_organization_status :: "env \<Rightarrow> string \<Rightarrow> string \<Rightarrow> db \<Rightarrow> db res" where
  "set_organization_status e tenant status s =
     (case load_organization s tenant of
        None \<Rightarrow> Inl (DomainErr ''organization not found'')
      | Some _ \<Rightarrow> Inr (s\<lparr>organizations := update_where (\<lambda>o1. og_tenant_id o1 = tenant)
          (\<lambda>o1. o1\<lparr>og_status := status, og_updated_at := db_now e\<rparr>) (organizations s)\<rparr>))"

definition organization_requires_mfa :: "db \<Rightarrow> string option \<Rightarrow> bool" where
  "organization_requires_mfa s tenant =
     (nonempty tenant \<and> (case load_organization s (the tenant) of None \<Rightarrow> False | Some o1 \<Rightarrow> og_require_mfa o1))"

definition set_organization_require_mfa :: "string \<Rightarrow> bool \<Rightarrow> db \<Rightarrow> db" where
  "set_organization_require_mfa tenant require s =
     s\<lparr>organizations := update_where (\<lambda>o1. og_tenant_id o1 = tenant) (\<lambda>o1. o1\<lparr>og_require_mfa := require\<rparr>) (organizations s)\<rparr>"

definition organization_is_suspended :: "db \<Rightarrow> string option \<Rightarrow> bool" where
  "organization_is_suspended s tenant =
     (nonempty tenant \<and> (case load_organization s (the tenant) of None \<Rightarrow> False | Some o1 \<Rightarrow> og_status o1 \<noteq> ''active''))"

section \<open>Sessions\<close>

record auth_cfg =
  cfg_session_ttl_hours :: int
  cfg_session_idle_minutes :: int
  cfg_lockout_threshold :: int
  cfg_lockout_window_minutes :: int
  cfg_lockout_minutes :: int
  cfg_ip_threshold :: int
  cfg_ip_window_minutes :: int
  cfg_ip_lockout_minutes :: int

definition default_auth_cfg :: auth_cfg where
  "default_auth_cfg = \<lparr>cfg_session_ttl_hours = 12, cfg_session_idle_minutes = 30, cfg_lockout_threshold = 5,
     cfg_lockout_window_minutes = 15, cfg_lockout_minutes = 15, cfg_ip_threshold = 50, cfg_ip_window_minutes = 15,
     cfg_ip_lockout_minutes = 15\<rparr>"

definition TOUCH_INTERVAL_SECONDS :: int where "TOUCH_INTERVAL_SECONDS = 60"

definition insert_session :: "env \<Rightarrow> string \<Rightarrow> string \<Rightarrow> int \<Rightarrow> db \<Rightarrow> db res" where
  "insert_session e token user_ref expires_at s =
     (if token \<in> set (map se_token (sessions s)) then Inl (RuntimeErr ''IntegrityError'')
      else Inr (s\<lparr>sessions := sessions s @ [\<lparr>se_token = token, se_user_ref = user_ref, se_created_at = db_now e,
             se_expires_at = expires_at, se_last_seen_at = Some (env_now e)\<rparr>]\<rparr>))"

definition load_session :: "env \<Rightarrow> string \<Rightarrow> db \<Rightarrow> session option" where
  "load_session e token s = find (\<lambda>x. se_token x = token \<and> env_now e < se_expires_at x) (sessions s)"

definition touch_session :: "string \<Rightarrow> int \<Rightarrow> db \<Rightarrow> db" where
  "touch_session token seen_at s =
     s\<lparr>sessions := update_where (\<lambda>x. se_token x = token) (\<lambda>x. x\<lparr>se_last_seen_at := Some seen_at\<rparr>) (sessions s)\<rparr>"

definition delete_session :: "string \<Rightarrow> db \<Rightarrow> db" where
  "delete_session token s = s\<lparr>sessions := delete_where (\<lambda>x. se_token x = token) (sessions s)\<rparr>"

definition delete_sessions_for_user :: "string \<Rightarrow> db \<Rightarrow> db" where
  "delete_sessions_for_user user_ref s = s\<lparr>sessions := delete_where (\<lambda>x. se_user_ref x = user_ref) (sessions s)\<rparr>"

definition purge_expired_sessions :: "env \<Rightarrow> db \<Rightarrow> db" where
  "purge_expired_sessions e s = s\<lparr>sessions := delete_where (\<lambda>x. se_expires_at x \<le> env_now e) (sessions s)\<rparr>"

definition hours :: "int \<Rightarrow> int" where "hours h = h * 3600 * usec_per_sec"

definition create_session :: "env \<Rightarrow> auth_cfg \<Rightarrow> string \<Rightarrow> string \<Rightarrow> db \<Rightarrow> (db \<times> string) res" where
  "create_session e cfg token user_ref s =
     ebind (insert_session e (env_sha256 e token) user_ref (env_now e + hours (cfg_session_ttl_hours cfg)) (purge_expired_sessions e s))
       (\<lambda>s'. Inr (s', token))"

definition last_activity :: "session \<Rightarrow> int" where
  "last_activity x = (case se_last_seen_at x of None \<Rightarrow> se_created_at x | Some t \<Rightarrow> t)"

definition resolve_session :: "env \<Rightarrow> auth_cfg \<Rightarrow> string option \<Rightarrow> db \<Rightarrow> db \<times> string option" where
  "resolve_session e cfg token s =
     (if \<not> nonempty token then (s, None)
      else let h = env_sha256 e (the token) in
        (case load_session e h s of
           None \<Rightarrow> (s, None)
         | Some x \<Rightarrow>
             if 0 < cfg_session_idle_minutes cfg then
               if minutes (cfg_session_idle_minutes cfg) < env_now e - last_activity x then (delete_session h s, None)
               else if TOUCH_INTERVAL_SECONDS * usec_per_sec < env_now e - last_activity x
                    then (touch_session h (env_now e) s, Some (se_user_ref x)) else (s, Some (se_user_ref x))
             else (s, Some (se_user_ref x))))"

definition end_session :: "env \<Rightarrow> string option \<Rightarrow> db \<Rightarrow> db" where
  "end_session e token s = (if nonempty token then delete_session (env_sha256 e (the token)) s else s)"

definition end_all_sessions :: "string \<Rightarrow> db \<Rightarrow> db" where
  "end_all_sessions user_ref s = delete_sessions_for_user user_ref s"

section \<open>Failed-login throttling\<close>

fun starts_with :: "string \<Rightarrow> string \<Rightarrow> bool" where
  "starts_with [] t = True"
| "starts_with (c # cs) [] = False"
| "starts_with (c # cs) (d # ds) = (c = d \<and> starts_with cs ds)"

definition throttle_policy :: "auth_cfg \<Rightarrow> string \<Rightarrow> int \<times> int \<times> int" where
  "throttle_policy cfg subj =
     (if starts_with ''ip:'' subj then (cfg_ip_threshold cfg, cfg_ip_window_minutes cfg, cfg_ip_lockout_minutes cfg)
      else (cfg_lockout_threshold cfg, cfg_lockout_window_minutes cfg, cfg_lockout_minutes cfg))"

definition is_locked :: "env \<Rightarrow> string \<Rightarrow> db \<Rightarrow> bool" where
  "is_locked e subj s =
     (case by_key lt_subject subj (login_throttle s) of
        None \<Rightarrow> False
      | Some r \<Rightarrow> (case lt_locked_until r of None \<Rightarrow> False | Some u \<Rightarrow> env_now e < u))"

definition reset_window :: "env \<Rightarrow> int \<Rightarrow> throttle_row \<Rightarrow> throttle_row" where
  "reset_window e window r =
     (case lt_first_failed_at r of
        None \<Rightarrow> r
      | Some f \<Rightarrow>
          if f < env_now e - minutes window \<and> (case lt_locked_until r of None \<Rightarrow> True | Some u \<Rightarrow> u < env_now e)
          then r\<lparr>lt_failed_count := 0, lt_first_failed_at := Some (env_now e), lt_locked_until := None\<rparr> else r)"

definition count_failure :: "env \<Rightarrow> int \<Rightarrow> int \<Rightarrow> throttle_row \<Rightarrow> throttle_row" where
  "count_failure e threshold lockout r =
     r\<lparr>lt_failed_count := lt_failed_count r + 1,
       lt_first_failed_at := (case lt_first_failed_at r of None \<Rightarrow> Some (env_now e) | Some f \<Rightarrow> Some f),
       lt_locked_until := (if threshold \<le> lt_failed_count r + 1 then Some (env_now e + minutes lockout) else lt_locked_until r)\<rparr>"

definition register_failure :: "env \<Rightarrow> auth_cfg \<Rightarrow> string \<Rightarrow> db \<Rightarrow> db \<times> bool" where
  "register_failure e cfg subj s =
     (let (threshold, window, lockout) = throttle_policy cfg subj;
          rows1 = update_where (\<lambda>r. lt_subject r = subj) (reset_window e window) (login_throttle s);
          rows2 = upsert lt_subject (count_failure e threshold lockout)
                    \<lparr>lt_subject = subj, lt_failed_count = 1, lt_first_failed_at = Some (env_now e), lt_locked_until = None\<rparr> rows1
      in (s\<lparr>login_throttle := rows2\<rparr>,
          case by_key lt_subject subj rows2 of
            None \<Rightarrow> False
          | Some r \<Rightarrow> lt_locked_until r \<noteq> None \<and> lt_failed_count r = threshold))"

definition clear_attempts :: "string \<Rightarrow> db \<Rightarrow> db" where
  "clear_attempts subj s = s\<lparr>login_throttle := delete_where (\<lambda>r. lt_subject r = subj) (login_throttle s)\<rparr>"

definition email_subject :: "string \<Rightarrow> string" where
  "email_subject m = ''email:'' @ py_lower (py_strip m)"

definition ip_subject :: "string option \<Rightarrow> string" where
  "ip_subject ip = ''ip:'' @ or_str ip ''unknown''"

section \<open>What the throttle does\<close>

definition throttle_row_of :: "db \<Rightarrow> string \<Rightarrow> throttle_row option" where
  "throttle_row_of s subj = by_key lt_subject subj (login_throttle s)"

lemma lt_subject_kept [simp]:
  "lt_subject (reset_window e w r) = lt_subject r" "lt_subject (count_failure e n l r) = lt_subject r"
  by (simp_all add: reset_window_def count_failure_def split: option.splits)

lemma by_key_mapped:
  "by_key lt_subject subj (update_where (\<lambda>r. lt_subject r = subj) (reset_window e w) t) =
     map_option (reset_window e w) (by_key lt_subject subj t)"
  by (subst by_key_update_where) (auto simp: map_option_case dest: by_key_Some split: option.splits)

lemma register_failure_row:
  assumes "throttle_policy cfg subj = (n, w, l)"
  shows "throttle_row_of (fst (register_failure e cfg subj s)) subj =
     Some (case throttle_row_of s subj of
        None \<Rightarrow> \<lparr>lt_subject = subj, lt_failed_count = 1, lt_first_failed_at = Some (env_now e), lt_locked_until = None\<rparr>
      | Some r \<Rightarrow> count_failure e n l (reset_window e w r))"
  using assms
  by (simp add: register_failure_def throttle_row_of_def by_key_upsert by_key_mapped Let_def split: option.splits)

lemma register_failure_flag:
  "snd (register_failure e cfg subj s) \<longleftrightarrow>
     (case throttle_row_of (fst (register_failure e cfg subj s)) subj of None \<Rightarrow> False
      | Some r \<Rightarrow> lt_locked_until r \<noteq> None \<and> lt_failed_count r = fst (throttle_policy cfg subj))"
  by (simp add: register_failure_def throttle_row_of_def Let_def split_beta)

lemma is_locked_row: "is_locked e subj s \<longleftrightarrow>
    (\<exists>r u. throttle_row_of s subj = Some r \<and> lt_locked_until r = Some u \<and> env_now e < u)"
  by (auto simp: is_locked_def throttle_row_of_def split: option.splits)

definition failures :: "env \<Rightarrow> auth_cfg \<Rightarrow> string \<Rightarrow> int list \<Rightarrow> db \<Rightarrow> db" where
  "failures e cfg subj ts s = fold (\<lambda>t. fst \<circ> register_failure (at_time e t) cfg subj) ts s"

lemma failures_snoc: "failures e cfg subj (ts @ [t]) s = fst (register_failure (at_time e t) cfg subj (failures e cfg subj ts s))"
  by (simp add: failures_def)

text \<open>After \<open>k\<close> failures inside the window the row counts them and is locked from the threshold on.\<close>

lemma failures_row:
  assumes fresh: "throttle_row_of s subj = None" and pol: "throttle_policy cfg subj = (n, w, l)" and n: "2 \<le> n"
    and ts: "ts \<noteq> []" "\<forall>t\<in>set ts. t \<le> hd ts + minutes w"
  shows "throttle_row_of (failures e cfg subj ts s) subj =
    Some \<lparr>lt_subject = subj, lt_failed_count = int (length ts), lt_first_failed_at = Some (hd ts),
          lt_locked_until = (if n \<le> int (length ts) then Some (last ts + minutes l) else None)\<rparr>"
  using ts
proof (induction ts rule: rev_induct)
  case Nil
  then show ?case by simp
next
  case (snoc t ts)
  show ?case
  proof (cases "ts = []")
    case True
    then show ?thesis using fresh n register_failure_row [OF pol, of "at_time e t" s] by (simp add: failures_def)
  next
    case False
    have in_window: "\<not> hd ts < t - minutes w" using snoc.prems(2) False by simp
    have "\<forall>t\<in>set ts. t \<le> hd ts + minutes w" using snoc.prems(2) False by simp
    from snoc.IH [OF False this] show ?thesis
      using False in_window register_failure_row [OF pol, of "at_time e t" "failures e cfg subj ts s"]
      by (simp add: failures_snoc reset_window_def count_failure_def)
  qed
qed

text \<open>While a lock runs, further failures never shorten it.\<close>

lemma lock_not_lifted:
  assumes "throttle_policy cfg subj = (n, w, l)" "0 \<le> l" "is_locked e' subj s" "env_now e \<le> env_now e'"
    and n: "\<And>r u. throttle_row_of s subj = Some r \<Longrightarrow> lt_locked_until r = Some u \<Longrightarrow> u \<le> env_now e + minutes l"
  shows "is_locked e' subj (fst (register_failure e cfg subj s))"
proof -
  obtain r u where r: "throttle_row_of s subj = Some r" "lt_locked_until r = Some u" "env_now e' < u"
    using assms(3) by (auto simp: is_locked_row)
  then have "reset_window e w r = r" using assms(4) by (simp add: reset_window_def split: option.splits)
  then show ?thesis using register_failure_row [OF assms(1), of e s] r n [OF r(1,2)]
    by (auto simp: is_locked_row count_failure_def)
qed

section \<open>What a session proves\<close>

lemma resolve_session_live:
  assumes "resolve_session e cfg (Some tok) s = (s', Some u)"
  shows "\<exists>x\<in>set (sessions s). se_token x = env_sha256 e tok \<and> se_user_ref x = u \<and> env_now e < se_expires_at x \<and>
     (0 < cfg_session_idle_minutes cfg \<longrightarrow> env_now e - last_activity x \<le> minutes (cfg_session_idle_minutes cfg))"
  using assms unfolding resolve_session_def load_session_def
  by (auto simp: Let_def find_Some_iff split: if_splits option.splits)

datatype session_op =
    SessCreate env string string
  | SessResolve env "string option"
  | SessEnd env "string option"
  | SessEndAll string

fun session_step :: "auth_cfg \<Rightarrow> session_op \<Rightarrow> db \<Rightarrow> db" where
  "session_step cfg (SessCreate e tok u) s = (case create_session e cfg tok u s of Inl _ \<Rightarrow> s | Inr (s', _) \<Rightarrow> s')"
| "session_step cfg (SessResolve e tok) s = fst (resolve_session e cfg tok s)"
| "session_step cfg (SessEnd e tok) s = end_session e tok s"
| "session_step cfg (SessEndAll u) s = end_all_sessions u s"

fun logs_in :: "string \<Rightarrow> session_op \<Rightarrow> bool" where
  "logs_in u (SessCreate e tok v) = (u = v)"
| "logs_in u _ = False"

definition no_session :: "string \<Rightarrow> db \<Rightarrow> bool" where
  "no_session u s \<longleftrightarrow> (\<forall>x\<in>set (sessions s). se_user_ref x \<noteq> u)"

lemma no_session_step:
  assumes "no_session u s" "\<not> logs_in u op"
  shows "no_session u (session_step cfg op s)"
proof (cases op)
  case (SessCreate e tok v)
  then show ?thesis using assms
    by (auto simp: no_session_def create_session_def insert_session_def purge_expired_sessions_def delete_where_def
        ebind_def split: sum.splits if_splits)
next
  case (SessResolve e tok)
  have "no_session u (touch_session h n s)" "no_session u (delete_session h s)" for h n
    using assms(1) by (auto simp: no_session_def touch_session_def delete_session_def delete_where_def elim!: update_whereE)
  then show ?thesis using SessResolve assms(1)
    by (auto simp: resolve_session_def Let_def split: option.splits)
next
  case (SessEnd e tok)
  then show ?thesis using assms by (auto simp: no_session_def end_session_def delete_session_def delete_where_def)
next
  case (SessEndAll v)
  then show ?thesis using assms by (auto simp: no_session_def end_all_sessions_def delete_sessions_for_user_def delete_where_def)
qed

lemma no_session_run:
  "no_session u s \<Longrightarrow> list_all (\<lambda>op. \<not> logs_in u op) ops \<Longrightarrow> no_session u (fold (session_step cfg) ops s)"
  by (induction ops arbitrary: s) (auto intro: no_session_step)

lemma end_all_no_session: "no_session u (end_all_sessions u s)"
  by (auto simp: no_session_def end_all_sessions_def delete_sessions_for_user_def delete_where_def)

end
