(* ===== verification/Authorization.thy ===== *)
theory Authorization
  imports Accounts Staffing
begin

text \<open>
  Who may do what: services/authorization.py, the actor a session resolves to
  (dependencies.py), role assignments and grants (storage/workflow.py) and the administrative
  routes that change them (api/admin.py). An HTTP error is the \<open>AuthErr\<close>, \<open>DomainErr\<close> or
  \<open>NotFound\<close> with its detail.
\<close>

section \<open>Roles and grants\<close>

definition list_role_permissions :: "db \<Rightarrow> string \<Rightarrow> string list" where
  "list_role_permissions s role = sort (map rp_permission (filter (\<lambda>r. rp_role r = role) (role_permissions s)))"

definition list_actor_role_assignments :: "db \<Rightarrow> string \<Rightarrow> role_assignment list" where
  "list_actor_role_assignments s user_ref =
     rev (sort_key ra_updated_at (filter (\<lambda>a. ra_user_ref a = user_ref \<and> ra_status a = ''active'') (role_assignments s)))"

definition rp_key :: "role_permission \<Rightarrow> string \<times> string" where
  "rp_key r = (rp_role r, rp_permission r)"

definition set_role_permission :: "string \<Rightarrow> string \<Rightarrow> bool \<Rightarrow> db \<Rightarrow> db" where
  "set_role_permission role permission granted s =
     (if granted then s\<lparr>role_permissions := insert_or_ignore rp_key \<lparr>rp_role = role, rp_permission = permission\<rparr> (role_permissions s)\<rparr>
      else s\<lparr>role_permissions := delete_where (\<lambda>r. rp_role r = role \<and> rp_permission r = permission) (role_permissions s)\<rparr>)"

definition DEFAULT_ROLE_PERMISSIONS :: "(string \<times> string list) list" where
  "DEFAULT_ROLE_PERMISSIONS =
     [(''org_admin'', [''user.manage'', ''role.assign'', ''config.write'', ''owner.assign'', ''intake.submit'', ''lifecycle.manage'']),
      (''governance_admin'', [''config.write'', ''intake.submit'', ''owner.assign'', ''review.decide'', ''risk.accept'',
         ''gate.decide'', ''incident.close'', ''lifecycle.manage'']),
      (''risk_owner'', [''review.decide'', ''risk.accept'', ''owner.assign'']),
      (''control_owner'', [''review.decide'', ''owner.assign'']),
      (''governance_reviewer'', [''review.decide'']),
      (''governance_viewer'', [])]"

definition seed_role_permissions :: "db \<Rightarrow> db" where
  "seed_role_permissions s =
     s\<lparr>role_permissions := fold (insert_or_ignore rp_key)
        (concat (map (\<lambda>(role, ps). map (\<lambda>p. \<lparr>rp_role = role, rp_permission = p\<rparr>) ps) DEFAULT_ROLE_PERMISSIONS))
        (role_permissions s)\<rparr>"

definition assignment_id :: "env \<Rightarrow> string option \<Rightarrow> string option \<Rightarrow> string option \<Rightarrow> string \<Rightarrow> string \<Rightarrow> string" where
  "assignment_id e tenant project environment user_ref role =
     entity_id e [Some ''role-assignment'', tenant, project, environment, Some user_ref, Some role]"

definition upsert_role_assignment ::
  "env \<Rightarrow> string option \<Rightarrow> string option \<Rightarrow> string option \<Rightarrow> string \<Rightarrow> string \<Rightarrow> string \<Rightarrow> db \<Rightarrow> db" where
  "upsert_role_assignment e tenant project environment user_ref role status s =
     s\<lparr>role_assignments := upsert ra_id (\<lambda>a. a\<lparr>ra_status := status, ra_updated_at := db_now e\<rparr>)
        \<lparr>ra_id = assignment_id e tenant project environment user_ref role, ra_tenant_id = tenant, ra_project = project,
         ra_environment = environment, ra_user_ref = user_ref, ra_role = role, ra_status = status,
         ra_created_at = db_now e, ra_updated_at = db_now e\<rparr> (role_assignments s)\<rparr>"

section \<open>The actor\<close>

record actor_context =
  ac_user_ref :: string
  ac_tenant_id :: "string option"
  ac_project :: "string option"
  ac_environment :: "string option"
  ac_platform_role :: "string option"

definition is_super_admin :: "actor_context \<Rightarrow> bool" where
  "is_super_admin a \<longleftrightarrow> ac_platform_role a = Some ''super_admin''"

definition mfa_enrollment_required :: "db \<Rightarrow> platform_user \<Rightarrow> bool" where
  "mfa_enrollment_required s u =
     (nonempty (pu_password_hash u) \<and> \<not> (pu_mfa_enabled_at u \<noteq> None \<and> nonempty (pu_mfa_secret u)) \<and>
      nonempty (pu_tenant_id u) \<and> organization_requires_mfa s (pu_tenant_id u))"

definition MFA_EXEMPT_PATHS :: "string list" where
  "MFA_EXEMPT_PATHS = [''/api/auth/me'', ''/api/auth/logout'', ''/api/auth/change-password'']"

definition current_actor :: "env \<Rightarrow> auth_cfg \<Rightarrow> string \<Rightarrow> string option \<Rightarrow> db \<Rightarrow> db \<times> actor_context res" where
  "current_actor e cfg path cookie s =
     (let (s1, who) = resolve_session e cfg cookie s in
      (s1, if \<not> nonempty who then Inl (AuthErr ''Authentication required'')
           else case load_platform_user s1 (the who) of
             None \<Rightarrow> Inl (AuthErr ''User is not active'')
           | Some u \<Rightarrow>
               if pu_status u \<noteq> ''active'' then Inl (AuthErr ''User is not active'')
               else if pu_platform_role u \<noteq> Some ''super_admin'' \<and> nonempty (pu_tenant_id u) \<and>
                       organization_is_suspended s1 (pu_tenant_id u) then Inl (AuthErr ''Organization is suspended'')
               else if mfa_enrollment_required s1 u \<and> path \<notin> set MFA_EXEMPT_PATHS \<and> \<not> starts_with ''/api/auth/mfa'' path
               then Inl (AuthErr ''This organization requires multi-factor authentication; enroll under Security to continue'')
               else Inr \<lparr>ac_user_ref = the who, ac_tenant_id = pu_tenant_id u, ac_project = None, ac_environment = None,
                         ac_platform_role = pu_platform_role u\<rparr>))"

record scope_filter =
  sf_tenant_id :: "string option"
  sf_project :: "string option"
  sf_environment :: "string option"

definition request_scope :: "actor_context \<Rightarrow> string option \<Rightarrow> string option \<Rightarrow> scope_filter res" where
  "request_scope a project environment =
     (if is_super_admin a then Inl (AuthErr ''Platform super admins do not have access to tenant governance data'')
      else if \<not> nonempty (ac_tenant_id a) then Inl (AuthErr ''User is not bound to an organization'')
      else Inr \<lparr>sf_tenant_id = ac_tenant_id a, sf_project = project, sf_environment = environment\<rparr>)"

section \<open>Permissions\<close>

text \<open>What the checks read of the record an action is about.\<close>

record target =
  tg_tenant_id :: "string option"
  tg_project :: "string option"
  tg_environment :: "string option"
  tg_type :: "string option"
  tg_has_risk :: bool

definition tenant_target :: "string option \<Rightarrow> target" where
  "tenant_target t = \<lparr>tg_tenant_id = t, tg_project = None, tg_environment = None, tg_type = None, tg_has_risk = False\<rparr>"

definition require_super_admin :: "actor_context \<Rightarrow> unit res" where
  "require_super_admin a = (if is_super_admin a then Inr ()
     else Inl (AuthErr (''User '' @ ac_user_ref a @ '' is not a platform super admin'')))"

definition require_active_actor :: "db \<Rightarrow> actor_context \<Rightarrow> unit res" where
  "require_active_actor s a =
     (case load_platform_user s (ac_user_ref a) of
        None \<Rightarrow> Inl (AuthErr (''User '' @ ac_user_ref a @ '' is not active''))
      | Some u \<Rightarrow> if pu_status u \<noteq> ''active'' then Inl (AuthErr (''User '' @ ac_user_ref a @ '' is not active'')) else Inr ())"

definition scope_conflict :: "string option \<Rightarrow> string option \<Rightarrow> bool" where
  "scope_conflict mine theirs \<longleftrightarrow> nonempty mine \<and> nonempty theirs \<and> mine \<noteq> theirs"

definition require_actor_scope :: "actor_context \<Rightarrow> target \<Rightarrow> unit res" where
  "require_actor_scope a t =
     (if nonempty (ac_tenant_id a) \<and> tg_tenant_id t \<noteq> ac_tenant_id a then Inl (AuthErr ''Actor tenant does not match target tenant'')
      else if scope_conflict (ac_project a) (tg_project t) then Inl (AuthErr ''Actor scope does not match target project'')
      else if scope_conflict (ac_environment a) (tg_environment t) then Inl (AuthErr ''Actor scope does not match target environment'')
      else Inr ())"

definition role_scope_matches :: "role_assignment \<Rightarrow> target \<Rightarrow> bool" where
  "role_scope_matches a t \<longleftrightarrow> ra_tenant_id a = tg_tenant_id t \<and>
     (ra_project a \<noteq> None \<longrightarrow> ra_project a = tg_project t) \<and> (ra_environment a \<noteq> None \<longrightarrow> ra_environment a = tg_environment t)"

definition actor_permissions :: "db \<Rightarrow> actor_context \<Rightarrow> target option \<Rightarrow> string list" where
  "actor_permissions s a t =
     concat (map (\<lambda>x. list_role_permissions s (ra_role x))
       (filter (\<lambda>x. case t of None \<Rightarrow> True | Some tg \<Rightarrow> role_scope_matches x tg) (list_actor_role_assignments s (ac_user_ref a))))"

definition require_permission :: "db \<Rightarrow> actor_context \<Rightarrow> string \<Rightarrow> target \<Rightarrow> bool \<Rightarrow> unit res" where
  "require_permission s a permission t adopt =
     ebind (require_active_actor s a) (\<lambda>_.
     let t' = (if adopt \<and> tg_tenant_id t = None \<and> nonempty (ac_tenant_id a) then t\<lparr>tg_tenant_id := ac_tenant_id a\<rparr> else t) in
     ebind (require_actor_scope a t') (\<lambda>_.
     if permission \<in> set (actor_permissions s a (Some t')) then Inr ()
     else Inl (AuthErr (''User '' @ ac_user_ref a @ '' lacks required permission: '' @ permission))))"

definition require_config_write :: "db \<Rightarrow> actor_context \<Rightarrow> target \<Rightarrow> unit res" where
  "require_config_write s a t = require_permission s a ''config.write'' t True"

definition require_owner_assignment :: "db \<Rightarrow> actor_context \<Rightarrow> target \<Rightarrow> unit res" where
  "require_owner_assignment s a t = require_permission s a ''owner.assign'' t False"

definition decision_permission :: "target \<Rightarrow> string" where
  "decision_permission t =
     (if tg_type t = Some ''deployment_gate'' then ''gate.decide''
      else if tg_type t = Some ''incident'' then ''incident.close''
      else if tg_type t = Some ''risk_finding'' \<or> tg_has_risk t then ''risk.accept''
      else ''review.decide'')"

definition require_decision :: "db \<Rightarrow> actor_context \<Rightarrow> target \<Rightarrow> unit res" where
  "require_decision s a t = require_permission s a (decision_permission t) t False"

definition require_exception :: "db \<Rightarrow> actor_context \<Rightarrow> target \<Rightarrow> unit res" where
  "require_exception s a t = require_permission s a ''risk.accept'' t False"

definition ADMINISTRATION_ROLES :: "string list" where "ADMINISTRATION_ROLES = [''org_admin'']"

definition DECISION_ROLES :: "string list" where
  "DECISION_ROLES = [''governance_admin'', ''risk_owner'', ''control_owner'', ''governance_reviewer'']"

definition would_violate_role_separation :: "string list \<Rightarrow> string \<Rightarrow> string \<Rightarrow> bool" where
  "would_violate_role_separation existing role status =
     (let resulting = (if status = ''active'' then role # existing else filter (\<lambda>r. r \<noteq> role) existing)
      in list_ex (\<lambda>r. r \<in> set ADMINISTRATION_ROLES) resulting \<and> list_ex (\<lambda>r. r \<in> set DECISION_ROLES) resulting)"

definition actor_satisfies_stage_role :: "db \<Rightarrow> actor_context \<Rightarrow> string \<Rightarrow> target \<Rightarrow> bool" where
  "actor_satisfies_stage_role s a required_role t =
     (let required = list_role_permissions s required_role in
      required \<noteq> [] \<and>
      list_ex (\<lambda>x. role_scope_matches x t \<and>
                   (ra_role x = required_role \<or> set required \<subseteq> set (list_role_permissions s (ra_role x))))
        (list_actor_role_assignments s (ac_user_ref a)))"

definition require_stage_role :: "db \<Rightarrow> actor_context \<Rightarrow> string \<Rightarrow> target \<Rightarrow> unit res" where
  "require_stage_role s a required_role t =
     (if actor_satisfies_stage_role s a required_role t then Inr ()
      else Inl (AuthErr (''This stage requires the authority of the '' @ sq @ required_role @ sq @ '' role, which '' @
             ac_user_ref a @ '' does not hold in this scope'')))"

definition effective_permissions :: "db \<Rightarrow> actor_context \<Rightarrow> string list" where
  "effective_permissions s a = sorted_set (actor_permissions s a None)"

section \<open>Administrative routes\<close>

definition ASSIGNABLE_ORG_ROLES :: "string list" where
  "ASSIGNABLE_ORG_ROLES = [''org_admin'', ''governance_admin'', ''risk_owner'', ''control_owner'', ''governance_reviewer'', ''governance_viewer'']"

definition require_tenant :: "actor_context \<Rightarrow> string res" where
  "require_tenant a =
     (if is_super_admin a then Inl (AuthErr ''Platform super admins do not operate on tenant data'')
      else if \<not> nonempty (ac_tenant_id a) then Inl (DomainErr ''Actor is not bound to an organization'')
      else Inr (the (ac_tenant_id a)))"

definition audit_entry :: "string \<Rightarrow> string \<Rightarrow> string option \<Rightarrow> string \<Rightarrow> string \<Rightarrow> json option \<Rightarrow> audit_req" where
  "audit_entry actor action tenant ty k detail =
     \<lparr>aq_actor_ref = actor, aq_action = action, aq_tenant_id = tenant, aq_target_type = Some ty, aq_target_id = Some k, aq_detail = detail\<rparr>"

definition active_roles :: "db \<Rightarrow> string \<Rightarrow> string \<Rightarrow> string list" where
  "active_roles s tenant user_ref =
     map ra_role (filter (\<lambda>x. ra_tenant_id x = Some tenant \<and> ra_user_ref x = user_ref \<and> ra_status x = ''active'') (role_assignments s))"

definition change_org_role_assignment ::
  "env \<Rightarrow> actor_context \<Rightarrow> string \<Rightarrow> string \<Rightarrow> string \<Rightarrow> db \<Rightarrow> (db \<times> audit_req) res" where
  "change_org_role_assignment e a user_ref role status s =
     ebind (require_tenant a) (\<lambda>tenant.
     ebind (require_permission s a ''role.assign'' (tenant_target (Some tenant)) False) (\<lambda>_.
     if role \<notin> set ASSIGNABLE_ORG_ROLES then Inl (DomainErr (''role must be one of '' @ repr_list ASSIGNABLE_ORG_ROLES))
     else if status \<notin> {''active'', ''revoked''} then Inl (DomainErr (''status must be '' @ sq @ ''active'' @ sq @ '' or '' @ sq @ ''revoked'' @ sq))
     else if user_ref = ac_user_ref a then Inl (AuthErr (''Segregation of duties: you cannot change your own role assignments; '' @ ''another administrator must do so''))
     else case load_platform_user s user_ref of
       None \<Rightarrow> Inl (NotFound ''User not found in this organization'')
     | Some u \<Rightarrow>
         if pu_tenant_id u \<noteq> Some tenant then Inl (NotFound ''User not found in this organization'')
         else if would_violate_role_separation (active_roles s tenant user_ref) role status
         then Inl (DomainErr (''Segregation of duties: a user cannot hold both an administration role '' @
                ''(org_admin) and a governance-decision role (e.g. governance_admin, risk_owner). '' @ ''Assign these to different people.''))
         else Inr (upsert_role_assignment e (Some tenant) None None user_ref role status s,
                   audit_entry (ac_user_ref a) ''role.assign'' (Some tenant) ''user'' user_ref
                     (Some (JObj [(''role'', JStr role), (''status'', JStr status)])))))"

definition update_account_status ::
  "env \<Rightarrow> actor_context \<Rightarrow> string \<Rightarrow> string \<Rightarrow> db \<Rightarrow> (db \<times> audit_req) res" where
  "update_account_status e a user_ref status s =
     ebind (require_super_admin a) (\<lambda>_.
     if status \<notin> {''active'', ''suspended''} then Inl (DomainErr (''status must be '' @ sq @ ''active'' @ sq @ '' or '' @ sq @ ''suspended'' @ sq))
     else case load_platform_user s user_ref of
       None \<Rightarrow> Inl (NotFound ''User not found'')
     | Some u \<Rightarrow>
         if status = ''suspended'' \<and> pu_platform_role u = Some ''super_admin'' \<and>
            (user_ref = ac_user_ref a \<or> count_super_admins s \<le> 1)
         then Inl (DomainErr ''Cannot suspend the last active super admin'')
         else ebind (set_user_status e user_ref status s) (\<lambda>(s', _).
              Inr (s', audit_entry (ac_user_ref a) ''account.status'' (pu_tenant_id u) ''user'' user_ref
                     (Some (JObj [(''status'', JStr status)])))))"

definition update_role_permission ::
  "actor_context \<Rightarrow> string \<Rightarrow> string \<Rightarrow> bool \<Rightarrow> db \<Rightarrow> (db \<times> audit_req) res" where
  "update_role_permission a role permission granted s =
     ebind (require_super_admin a) (\<lambda>_.
     Inr (set_role_permission role permission granted s,
          audit_entry (ac_user_ref a) ''rbac.role_permission'' None ''role'' role
            (Some (JObj [(''permission'', JStr permission), (''granted'', JBool granted)]))))"

record organization_request =
  oq_tenant_id :: string
  oq_name :: string
  oq_admin_email :: string
  oq_admin_display_name :: string
  oq_password_hash :: string

definition provision_organization ::
  "env \<Rightarrow> actor_context \<Rightarrow> organization_request \<Rightarrow> db \<Rightarrow> (db \<times> audit_req) res" where
  "provision_organization e a q s =
     ebind (require_super_admin a) (\<lambda>_.
     let email = normalize_email (oq_admin_email q) in
     if get_user_by_email s email \<noteq> None then Inl (DomainErr ''A user with that email already exists'')
     else ebind (create_organization e (oq_tenant_id q) (oq_name q) (ac_user_ref a) s) (\<lambda>s1.
       let s2 = create_platform_user e
                  \<lparr>nu_user_ref = email, nu_display_name = oq_admin_display_name q, nu_email = email,
                   nu_password_hash = oq_password_hash q, nu_status = ''active'', nu_platform_role = None,
                   nu_tenant_id = Some (oq_tenant_id q), nu_must_change_password = True\<rparr> s1;
           s3 = upsert_role_assignment e (Some (oq_tenant_id q)) None None email ''org_admin'' ''active'' s2
       in Inr (s3, audit_entry (ac_user_ref a) ''org.provision'' (Some (oq_tenant_id q)) ''organization'' (oq_tenant_id q)
                (Some (JObj [(''name'', JStr (oq_name q)), (''org_admin'', JStr email)])))))"

end
