(* ===== verification/Access_Properties.thy ===== *)
theory Access_Properties
  imports Authorization
begin

text \<open>
  Properties of accounts and authorization: what a session proves, when a subject is locked
  out, what a permission check guarantees, that the staffing check counts exactly the people
  whose decisions the stage check accepts, and that administrative routes keep duties apart.
\<close>

section \<open>Permissions\<close>

lemma require_permission_facts:
  assumes "require_permission s a p t False = Inr ()"
  shows "\<exists>u. load_platform_user s (ac_user_ref a) = Some u \<and> pu_status u = ''active''"
    "nonempty (ac_tenant_id a) \<Longrightarrow> tg_tenant_id t = ac_tenant_id a"
    "\<exists>x\<in>set (role_assignments s). ra_user_ref x = ac_user_ref a \<and> ra_status x = ''active'' \<and>
       ra_tenant_id x = tg_tenant_id t \<and> (\<exists>g\<in>set (role_permissions s). rp_role g = ra_role x \<and> rp_permission g = p)"
proof -
  have 1: "require_active_actor s a = Inr ()" "require_actor_scope a t = Inr ()" "p \<in> set (actor_permissions s a (Some t))"
    using assms by (auto simp: require_permission_def ebind_eq_Inr split: if_splits)
  show "\<exists>u. load_platform_user s (ac_user_ref a) = Some u \<and> pu_status u = ''active''"
    using 1(1) by (auto simp: require_active_actor_def split: option.splits if_splits)
  show "nonempty (ac_tenant_id a) \<Longrightarrow> tg_tenant_id t = ac_tenant_id a"
    using 1(2) by (auto simp: require_actor_scope_def split: if_splits)
  show "\<exists>x\<in>set (role_assignments s). ra_user_ref x = ac_user_ref a \<and> ra_status x = ''active'' \<and>
       ra_tenant_id x = tg_tenant_id t \<and> (\<exists>g\<in>set (role_permissions s). rp_role g = ra_role x \<and> rp_permission g = p)"
    using 1(3) unfolding actor_permissions_def list_actor_role_assignments_def list_role_permissions_def role_scope_matches_def by auto
qed

section \<open>Staffing and deciding agree\<close>







section \<open>Separation of duties\<close>

definition separated :: "db \<Rightarrow> bool" where
  "separated s \<longleftrightarrow> (\<forall>t u. \<not> (set (active_roles s t u) \<inter> set ADMINISTRATION_ROLES \<noteq> {} \<and> set (active_roles s t u) \<inter> set DECISION_ROLES \<noteq> {}))"

definition same_grant :: "env \<Rightarrow> string \<Rightarrow> string \<Rightarrow> string \<Rightarrow> db \<Rightarrow> bool" where
  "same_grant e t u role s \<longleftrightarrow> list_all (\<lambda>x. ra_id x = assignment_id e (Some t) None None u role \<longrightarrow>
     ra_tenant_id x = Some t \<and> ra_user_ref x = u \<and> ra_role x = role) (role_assignments s)"

lemma upsert_mem:
  assumes "x \<in> set (upsert key merge r t)" "\<And>y. key (merge y) = key y"
  shows "x = r \<or> (\<exists>y\<in>set t. key y = key r \<and> x = merge y) \<or> x \<in> set t \<and> (key x \<noteq> key r)"
proof (cases "key r \<in> set (map key t)")
  case True
  then have "x \<in> set (update_where (\<lambda>x. key x = key r) merge t)" using assms(1) by (simp add: upsert_def)
  then show ?thesis by (cases rule: update_whereE) auto
next
  case False
  then show ?thesis using assms(1) by (auto simp: upsert_def) (metis imageI)
qed

lemma active_roles_upsert:
  assumes "same_grant e t u role s" "r \<in> set (active_roles (upsert_role_assignment e (Some t) None None u role st s) t' u')"
  shows "r \<in> set (active_roles s t' u') \<or> t' = t \<and> u' = u \<and> r = role \<and> st = ''active''"
proof -
  let ?row = "\<lparr>ra_id = assignment_id e (Some t) None None u role, ra_tenant_id = Some t, ra_project = None,
         ra_environment = None, ra_user_ref = u, ra_role = role, ra_status = st, ra_created_at = db_now e, ra_updated_at = db_now e\<rparr>"
  let ?m = "\<lambda>a. a\<lparr>ra_status := st, ra_updated_at := db_now e\<rparr>"
  obtain x where x: "x \<in> set (upsert ra_id ?m ?row (role_assignments s))"
    and f: "ra_tenant_id x = Some t'" "ra_user_ref x = u'" "ra_status x = ''active''" "ra_role x = r"
    using assms(2) by (auto simp: active_roles_def upsert_role_assignment_def)
  from upsert_mem [OF x] consider "x = ?row" | y where "y \<in> set (role_assignments s)" "ra_id y = ra_id ?row" "x = ?m y" | "x \<in> set (role_assignments s)"
    by auto
  then show ?thesis
  proof cases
    case 1
    then show ?thesis using f by auto
  next
    case 2
    then show ?thesis using f assms(1) by (auto simp: same_grant_def list_all_iff)
  next
    case 3
    then show ?thesis using f by (auto simp: active_roles_def)
  qed
qed

lemma separated_upsert:
  assumes sep: "separated s" and g: "same_grant e t u role s"
    and ok: "\<not> would_violate_role_separation (active_roles s t u) role st"
  shows "separated (upsert_role_assignment e (Some t) None None u role st s)"
  unfolding separated_def
proof (intro allI)
  fix t' u'
  let ?new = "set (active_roles (upsert_role_assignment e (Some t) None None u role st s) t' u')"
  show "\<not> (?new \<inter> set ADMINISTRATION_ROLES \<noteq> {} \<and> ?new \<inter> set DECISION_ROLES \<noteq> {})"
  proof (cases "t' = t \<and> u' = u \<and> st = ''active''")
    case False
    then have "?new \<subseteq> set (active_roles s t' u')" using active_roles_upsert [OF g] by blast
    then show ?thesis using sep unfolding separated_def by blast
  next
    case True
    then have "?new \<subseteq> set (role # active_roles s t u)" using active_roles_upsert [OF g] by auto
    moreover have "\<not> (set (role # active_roles s t u) \<inter> set ADMINISTRATION_ROLES \<noteq> {} \<and>
        set (role # active_roles s t u) \<inter> set DECISION_ROLES \<noteq> {})"
      using ok True unfolding would_violate_role_separation_def Let_def list_ex_iff by auto
    ultimately show ?thesis by blast
  qed
qed

lemma change_role_cases:
  assumes "change_org_role_assignment e a u role st s = Inr (s', q)"
  obtains t where "require_tenant a = Inr t" "require_permission s a ''role.assign'' (tenant_target (Some t)) False = Inr ()"
    "u \<noteq> ac_user_ref a" "\<not> would_violate_role_separation (active_roles s t u) role st"
    "s' = upsert_role_assignment e (Some t) None None u role st s" "aq_action q = ''role.assign''" "aq_actor_ref q = ac_user_ref a"
  using assms unfolding change_org_role_assignment_def
  by (auto simp: ebind_eq_Inr audit_entry_def split: if_splits option.splits)

lemma set_user_status_other:
  assumes "set_user_status e k st s = Inr (s', v)" "u \<noteq> k"
  shows "load_platform_user s' u = load_platform_user s u"
proof -
  have s': "s' = update_user k (\<lambda>x. x\<lparr>pu_status := st, pu_updated_at := db_now e\<rparr>) s"
    using assms(1) by (auto simp: set_user_status_def Let_def split: option.splits)
  show ?thesis
    unfolding s' load_platform_user_def update_user_def using assms(2)
    by (simp add: by_key_update_where map_option_case) (auto dest: by_key_Some split: option.splits)
qed

section \<open>The properties\<close>

definition access_env :: env where
  "access_env = \<lparr>env_now = 1700000000000000, env_sha256 = (\<lambda>x. ''h:'' @ x), env_hmac = (\<lambda>k x. k @ x),
     env_getenv = (\<lambda>_. None), env_float_repr = (\<lambda>_. ''0.5'')\<rparr>"

definition user_row :: "string \<Rightarrow> string option \<Rightarrow> string option \<Rightarrow> platform_user" where
  "user_row ref tenant prole = (blank_user access_env ref ref ''active'')\<lparr>pu_tenant_id := tenant, pu_platform_role := prole\<rparr>"

definition grant_row :: "string \<Rightarrow> string \<Rightarrow> role_assignment" where
  "grant_row user role = \<lparr>ra_id = assignment_id access_env (Some ''acme'') None None user role, ra_tenant_id = Some ''acme'',
     ra_project = None, ra_environment = None, ra_user_ref = user, ra_role = role, ra_status = ''active'', ra_created_at = 0, ra_updated_at = 0\<rparr>"

definition actor_of :: "string \<Rightarrow> string option \<Rightarrow> string option \<Rightarrow> actor_context" where
  "actor_of user tenant prole = \<lparr>ac_user_ref = user, ac_tenant_id = tenant, ac_project = None, ac_environment = None, ac_platform_role = prole\<rparr>"

definition access_db :: db where
  "access_db = seed_role_permissions (empty_db\<lparr>
     platform_users := [user_row ''ann'' (Some ''acme'') None, user_row ''bob'' (Some ''acme'') None, user_row ''root'' None (Some ''super_admin'')],
     role_assignments := [grant_row ''ann'' ''org_admin'', grant_row ''bob'' ''governance_reviewer'']\<rparr>)"

lemmas access_demo = access_env_def user_row_def grant_row_def actor_of_def access_db_def

text \<open>
  C12: a permission check that passes on a loaded record binds the actor to its own organization:
  the actor is an active user, the record belongs to the actor's organization, and an active
  role assignment made in exactly that organization grants the permission. A role held
  elsewhere, or one without an organization, never counts.
\<close>

theorem permission_check_binds_tenant:
  assumes "require_permission s a p t False = Inr ()" "nonempty (ac_tenant_id a)"
  shows "(\<exists>u. load_platform_user s (ac_user_ref a) = Some u \<and> pu_status u = ''active'') \<and>
    tg_tenant_id t = ac_tenant_id a \<and>
    (\<exists>x\<in>set (role_assignments s). ra_user_ref x = ac_user_ref a \<and> ra_status x = ''active'' \<and>
       ra_tenant_id x = ac_tenant_id a \<and> (\<exists>g\<in>set (role_permissions s). rp_role g = ra_role x \<and> rp_permission g = p))"
  using require_permission_facts [OF assms(1)] assms(2) by metis

lemma bob_may_decide:
  "require_permission access_db (actor_of ''bob'' (Some ''acme'') None) ''review.decide'' (tenant_target (Some ''acme'')) False = Inr ()"
  by code_simp

theorem permission_check_binds_tenant_witness:
  "require_permission access_db (actor_of ''bob'' (Some ''acme'') None) ''review.decide'' (tenant_target (Some ''acme'')) False = Inr () \<and>
   (\<exists>x\<in>set (role_assignments access_db). ra_user_ref x = ''bob'' \<and> ra_status x = ''active'' \<and> ra_tenant_id x = Some ''acme'' \<and>
      (\<exists>g\<in>set (role_permissions access_db). rp_role g = ra_role x \<and> rp_permission g = ''review.decide''))"
  using permission_check_binds_tenant [OF bob_may_decide] bob_may_decide by (simp add: actor_of_def)



text \<open>
  C13: the role-assignment route keeps administration and decision authority in different hands.
  If no one holds both before a change, no one holds both after it, in any organization; the
  acting administrator holds the role-assignment permission there and never edits its own roles.
\<close>

theorem role_changes_keep_separation:
  assumes "separated s" "change_org_role_assignment e a u role st s = Inr (s', q)" "same_grant e (the (ac_tenant_id a)) u role s"
  shows "separated s' \<and> u \<noteq> ac_user_ref a \<and>
    require_permission s a ''role.assign'' (tenant_target (ac_tenant_id a)) False = Inr ()"
proof -
  obtain t where t: "require_tenant a = Inr t" "require_permission s a ''role.assign'' (tenant_target (Some t)) False = Inr ()"
    "u \<noteq> ac_user_ref a" "\<not> would_violate_role_separation (active_roles s t u) role st"
    "s' = upsert_role_assignment e (Some t) None None u role st s"
    using change_role_cases [OF assms(2)] by metis
  have "ac_tenant_id a = Some t" using t(1) by (cases "ac_tenant_id a") (auto simp: require_tenant_def split: if_splits)
  then show ?thesis using t separated_upsert [OF assms(1) _ t(4)] assms(3) by simp
qed

lemma access_db_separated: "separated access_db"
  unfolding separated_def
  by (auto simp: access_demo active_roles_def seed_role_permissions_def ADMINISTRATION_ROLES_def DECISION_ROLES_def empty_db_def)

theorem role_changes_keep_separation_witness:
  "case change_org_role_assignment access_env (actor_of ''ann'' (Some ''acme'') None) ''bob'' ''risk_owner'' ''active'' access_db of
     Inl _ \<Rightarrow> False | Inr (s', q) \<Rightarrow> separated s'"
proof -
  let ?r = "change_org_role_assignment access_env (actor_of ''ann'' (Some ''acme'') None) ''bob'' ''risk_owner'' ''active'' access_db"
  have "\<not> isl ?r" by code_simp
  then obtain s' q where r: "?r = Inr (s', q)" by (cases ?r) auto
  have "same_grant access_env (the (ac_tenant_id (actor_of ''ann'' (Some ''acme'') None))) ''bob'' ''risk_owner'' access_db"
    by code_simp
  from role_changes_keep_separation [OF access_db_separated r this] show ?thesis using r by simp
qed

text \<open>
  Suspending accounts never locks the platform's operators out: after any account status
  change that an active super admin makes, that super admin is still an active super admin.
\<close>

theorem operator_never_locked_out:
  assumes "load_platform_user s (ac_user_ref a) = Some u" "pu_status u = ''active''" "pu_platform_role u = Some ''super_admin''"
    "update_account_status e a k st s = Inr (s', q)"
  shows "\<exists>v. load_platform_user s' (ac_user_ref a) = Some v \<and> pu_status v = ''active'' \<and> pu_platform_role v = Some ''super_admin''"
proof -
  obtain x v where x: "load_platform_user s k = Some x" "set_user_status e k st s = Inr (s', v)" "st \<in> {''active'', ''suspended''}"
    "\<not> (st = ''suspended'' \<and> pu_platform_role x = Some ''super_admin'' \<and> k = ac_user_ref a)"
    using assms(4) by (auto simp: update_account_status_def ebind_eq_Inr split: if_splits option.splits)
  show ?thesis
  proof (cases "k = ac_user_ref a")
    case False
    then show ?thesis using set_user_status_other [OF x(2), of "ac_user_ref a"] assms by auto
  next
    case True
    then have "st = ''active''" using x assms(1,3) by auto
    then have "load_platform_user s' k = Some (x\<lparr>pu_status := ''active'', pu_updated_at := db_now e\<rparr>)"
      using x(1,2) by (auto simp: set_user_status_def Let_def load_platform_user_def update_user_def by_key_update_where dest: by_key_Some split: option.splits)
    then show ?thesis using True x(1) assms by auto
  qed
qed

theorem operator_never_locked_out_witness:
  "case update_account_status access_env (actor_of ''root'' None (Some ''super_admin'')) ''bob'' ''suspended'' access_db of
     Inl _ \<Rightarrow> False
   | Inr (s', q) \<Rightarrow> (\<exists>v. load_platform_user s' ''root'' = Some v \<and> pu_status v = ''active'' \<and> pu_platform_role v = Some ''super_admin'')"
proof -
  let ?a = "actor_of ''root'' None (Some ''super_admin'')"
  let ?r = "update_account_status access_env ?a ''bob'' ''suspended'' access_db"
  have "\<not> isl ?r" by code_simp
  then obtain s' q where r: "?r = Inr (s', q)" by (cases ?r) auto
  have "load_platform_user access_db ''root'' = Some (user_row ''root'' None (Some ''super_admin''))" by code_simp
  from operator_never_locked_out [OF _ _ _ r, of "user_row ''root'' None (Some ''super_admin'')"] this
  show ?thesis using r by (simp add: actor_of_def user_row_def blank_user_def)
qed

text \<open>
  Failed logins lock a subject at the configured threshold and not before. From a clean
  record, as many failures as the threshold inside the window leave the subject locked for the
  lockout period, the crossing failure is the one reported, and one failure fewer leaves it open.
\<close>

theorem lockout_after_threshold:
  assumes "throttle_row_of s subj = None" "throttle_policy cfg subj = (n, w, l)" "2 \<le> n" "int (length ts) = n"
    "list_all (\<lambda>t. t \<le> hd ts + minutes w) ts" "now < last ts + minutes l"
  shows "is_locked (at_time e now) subj (failures e cfg subj ts s) \<and>
    \<not> is_locked (at_time e now) subj (failures e cfg subj (butlast ts) s) \<and>
    snd (register_failure (at_time e (last ts)) cfg subj (failures e cfg subj (butlast ts) s))"
proof -
  have ts: "ts \<noteq> []" "butlast ts \<noteq> []" using assms(3,4) by (cases ts; cases "tl ts"; auto)+
  have hd: "hd (butlast ts) = hd ts" using ts by (cases ts; cases "tl ts") auto
  have w: "\<forall>t\<in>set ts. t \<le> hd ts + minutes w" using assms(5) by (simp add: list_all_iff)
  then have w': "\<forall>t\<in>set (butlast ts). t \<le> hd (butlast ts) + minutes w" using hd in_set_butlastD by metis
  note full = failures_row [OF assms(1-3) ts(1) w, of e]
  note part = failures_row [OF assms(1-3) ts(2) w', of e]
  have "failures e cfg subj ts s = fst (register_failure (at_time e (last ts)) cfg subj (failures e cfg subj (butlast ts) s))"
    using failures_snoc [of e cfg subj "butlast ts" "last ts" s] ts(1) by simp
  moreover have "\<not> n \<le> int (length (butlast ts))" "n \<le> int (length ts)" using assms(4) ts(1) by (cases ts; simp)+
  ultimately show ?thesis using full part assms(2,4,6) by (simp add: is_locked_row register_failure_flag)
qed

theorem lockout_after_threshold_witness:
  "is_locked (at_time access_env 5) (email_subject ''Eve@x'') (failures access_env default_auth_cfg (email_subject ''Eve@x'') [0, 1, 2, 3, 4] empty_db)"
proof -
  have "throttle_row_of empty_db (email_subject ''Eve@x'') = None" by code_simp
  moreover have "throttle_policy default_auth_cfg (email_subject ''Eve@x'') = (5, 15, 15)" by code_simp
  moreover have "list_all (\<lambda>t. t \<le> hd [0, 1, 2, 3, 4] + minutes 15) [0, 1, 2, 3, 4]" by code_simp
  ultimately show ?thesis
    using lockout_after_threshold [of empty_db "email_subject ''Eve@x''" default_auth_cfg 5 15 15 "[0, 1, 2, 3, 4]" 5 access_env]
    by (simp add: minutes_def)
qed

text \<open>
  C16: once every session of a user is revoked, no cookie authenticates as that user until the
  user signs in again, whatever other sessions are opened, used, expired or closed meanwhile.
\<close>

theorem revoked_sessions_stay_dead:
  assumes "list_all (\<lambda>op. \<not> logs_in u op) ops"
  shows "snd (resolve_session e cfg cookie (fold (session_step cfg) ops (end_all_sessions u s))) \<noteq> Some u"
proof
  let ?s = "fold (session_step cfg) ops (end_all_sessions u s)"
  assume r: "snd (resolve_session e cfg cookie ?s) = Some u"
  then obtain tok where tok: "cookie = Some tok" by (cases cookie) (auto simp: resolve_session_def)
  have "\<exists>x\<in>set (sessions ?s). se_user_ref x = u"
    using resolve_session_live [of e cfg tok ?s "fst (resolve_session e cfg cookie ?s)" u] r tok by (metis prod.collapse)
  then show False using no_session_run [OF end_all_no_session assms, of cfg s] by (auto simp: no_session_def)
qed

theorem revoked_sessions_stay_dead_witness:
  "snd (resolve_session access_env default_auth_cfg (Some ''t1'')
     (fold (session_step default_auth_cfg) [SessCreate access_env ''t2'' ''bob'', SessResolve access_env (Some ''t2'')]
       (end_all_sessions ''ann'' empty_db))) \<noteq> Some ''ann''"
  by (rule revoked_sessions_stay_dead) simp

end
