(* ===== verification/Notification_Properties.thy ===== *)
theory Notification_Properties
  imports Notifications
begin

text \<open>
  Properties of notifications: what an event writes, that two workers never hold the same row,
  that a delivery pass settles everything it claimed, and that an invitation is used once.
\<close>

section \<open>Claims\<close>

lemma claimed_rows_mem:
  assumes "claim_pending e limit w s = (s1, rows)"
  shows "r \<in> set rows \<longleftrightarrow> r \<in> set (notification_outbox s1) \<and> ob_status r = ''delivering'' \<and> ob_claimed_by r = Some w"
  using assms by (auto simp: claim_pending_def Let_def)

lemma same_id_same_row:
  assumes "outbox_inv s" "a \<in> set (notification_outbox s)" "b \<in> set (notification_outbox s)" "ob_id a = ob_id b"
  shows "a = b"
  using assms unfolding outbox_inv_def pk_def by (meson distinct_map inj_onD)

lemma deliver_row_rows:
  assumes "x \<in> set (notification_outbox (fst (deliver_row e io row acc)))"
  shows "ob_claimed_by x = None \<or> x \<in> set (notification_outbox (fst acc)) \<and> ob_id x \<noteq> ob_id row"
proof -
  obtain ok error where "notification_outbox (fst (deliver_row e io row acc)) =
     update_where (\<lambda>r. ob_id r = ob_id row) (mark_row e ok error (ob_attempts row + 1)) (notification_outbox (fst acc))"
    using deliver_row_outbox by blast
  with assms have "x \<in> set (update_where (\<lambda>r. ob_id r = ob_id row) (mark_row e ok error (ob_attempts row + 1)) (notification_outbox (fst acc)))"
    by simp
  then show ?thesis by (cases rule: update_whereE) (simp_all add: mark_row_def)
qed

lemma fold_deliver_released:
  assumes "x \<in> set (notification_outbox (fst (fold (deliver_row e io) rows acc)))"
  shows "ob_claimed_by x = None \<or> x \<in> set (notification_outbox (fst acc)) \<and> ob_id x \<notin> ob_id ` set rows"
  using assms
proof (induction rows arbitrary: acc)
  case Nil
  then show ?case by simp
next
  case (Cons row rows)
  then have "ob_claimed_by x = None \<or> x \<in> set (notification_outbox (fst (deliver_row e io row acc))) \<and> ob_id x \<notin> ob_id ` set rows"
    by simp
  then show ?case using deliver_row_rows [of x e io row acc] by auto
qed

section \<open>A sample outbox\<close>

definition note_env :: "int \<Rightarrow> env" where
  "note_env minute = \<lparr>env_now = 1700000000000000 + minutes minute, env_sha256 = (\<lambda>x. ''h:'' @ x), env_hmac = (\<lambda>k x. k @ x),
     env_getenv = (\<lambda>v. if v = ''NORINTH_SMTP_HOST'' then Some ''mail'' else None), env_float_repr = (\<lambda>_. ''0.5'')\<rparr>"

definition note_row :: "int \<Rightarrow> outbox_row" where
  "note_row k = outbox_entry (note_env 0) k (Some ''acme'') ''email'' ''review.assigned'' ''ann@acme'' (Some ''Review'') JNull ''pending''"

definition note_db :: db where
  "note_db = empty_db\<lparr>notification_outbox := [note_row 1, note_row 2], outbox_seq := 2\<rparr>"

definition note_sender :: sender where
  "note_sender = \<lparr>sn_mail = (\<lambda>_ _ _. OtherError ''Timeout'' ''late''), sn_post = (\<lambda>_ _. SendOk)\<rparr>"

definition invite_db :: db where
  "invite_db = (case create_invite (note_env 0) ''tok'' ''ann'' ''acme'' None empty_db of Inl _ \<Rightarrow> empty_db | Inr (s, _) \<Rightarrow> s)"

lemma note_db_inv: "outbox_inv note_db"
  by (simp add: note_db_def outbox_inv_def pk_def note_row_def outbox_entry_def)

lemma invite_db_inv: "invites_inv invite_db"
  by (simp add: invite_db_def invites_inv_def create_invite_def empty_db_def delete_where_def pk_def Let_def)

section \<open>The properties\<close>

text \<open>
  An event appends to the outbox one mail per distinct active recipient, in order, and one
  post per active webhook of its own organization that subscribes to it, all fresh, unclaimed and
  stamped with that organization; it returns their number, and changes nothing else.
\<close>

theorem emit_appends_own_rows:
  "\<exists>mails hooks. emit e n s = (new_rows (mails @ hooks) s, int (length (mails @ hooks))) \<and>
     notice_rows n (outbox_seq s) (mails @ hooks) \<and>
     list_all2 mail_row (recipients s n) mails \<and> list_all2 hook_row (notice_hooks n s) hooks"
  by (rule emit_rows [of e n s]) auto

text \<open>
  C20: a row that one worker has claimed stays with it, whatever events, other claims and results of
  other rows come in between, as long as their clocks are inside the claim's ten minutes: another
  worker's claim leaves the row untouched and does not return it.
\<close>

theorem claims_are_exclusive:
  assumes inv: "outbox_inv s" and first: "claim_pending e limit w s = (s1, rows)" and r: "r \<in> set rows"
    and ops: "list_all (respects_claim r) ops" and window: "respects_claim r (OutClaim e' limit' w')" and other: "w' \<noteq> w"
    and second: "claim_pending e' limit' w' (fold outbox_step ops s1) = (s2, rows2)"
  shows "r \<in> set (notification_outbox s2) \<and> ob_id r \<notin> set (map ob_id rows2)"
proof -
  have inv1: "outbox_inv s1" using outbox_inv_claim [OF inv, of e limit w] first by simp
  have r1: "r \<in> set (notification_outbox s1)" "ob_status r = ''delivering''" "ob_claimed_by r = Some w"
    using claimed_rows_mem [OF first] r by simp_all
  have "s2 = fold outbox_step (ops @ [OutClaim e' limit' w']) s1" using second by simp
  moreover have "list_all (respects_claim r) (ops @ [OutClaim e' limit' w'])" using ops window by simp
  ultimately have r2: "r \<in> set (notification_outbox s2)" and inv2: "outbox_inv s2"
    using claimed_row_run [OF inv1 r1(1,2)] outbox.run_inv [OF inv1] by metis+
  have "ob_id r \<notin> set (map ob_id rows2)"
  proof
    assume "ob_id r \<in> set (map ob_id rows2)"
    then obtain q where q: "q \<in> set rows2" "ob_id q = ob_id r" by auto
    then have "q \<in> set (notification_outbox s2)" "ob_claimed_by q = Some w'" using claimed_rows_mem [OF second] by simp_all
    then show False using same_id_same_row [OF inv2 _ r2 q(2)] r1(3) other by simp
  qed
  with r2 show ?thesis ..
qed

theorem claims_are_exclusive_witness:
  "let (s1, rows) = claim_pending (note_env 1) 1 ''w1'' note_db;
       r = hd rows;
       (s2, rows2) = claim_pending (note_env 5) 10 ''w2'' (fold outbox_step [OutMark (note_env 2) 2 True None 1] s1)
   in length rows = 1 \<and> r \<in> set (notification_outbox s2) \<and> ob_id r \<notin> set (map ob_id rows2) \<and> length rows2 = 0"
proof -
  obtain s1 rows where 1: "claim_pending (note_env 1) 1 ''w1'' note_db = (s1, rows)" by fastforce
  obtain s2 rows2 where 2: "claim_pending (note_env 5) 10 ''w2'' (fold outbox_step [OutMark (note_env 2) 2 True None 1] s1) = (s2, rows2)"
    by fastforce
  have "length (snd (claim_pending (note_env 1) 1 ''w1'' note_db)) = 1 \<and> ob_id (hd (snd (claim_pending (note_env 1) 1 ''w1'' note_db))) = 1 \<and>
      respects_claim (hd (snd (claim_pending (note_env 1) 1 ''w1'' note_db))) (OutClaim (note_env 5) 10 ''w2'') \<and>
      length (snd (claim_pending (note_env 5) 10 ''w2'' (fold outbox_step [OutMark (note_env 2) 2 True None 1]
        (fst (claim_pending (note_env 1) 1 ''w1'' note_db))))) = 0"
    by code_simp
  then have f: "length rows = 1" "respects_claim (hd rows) (OutClaim (note_env 5) 10 ''w2'')" "length rows2 = 0" "ob_id (hd rows) = 1"
    using 1 2 by simp_all
  have "hd rows \<in> set rows" using f(1) by (cases rows) simp_all
  then have "hd rows \<in> set (notification_outbox s2) \<and> ob_id (hd rows) \<notin> set (map ob_id rows2)"
    by (intro claims_are_exclusive [OF note_db_inv 1 _ _ f(2) _ 2]) (simp_all add: f)
  then show ?thesis using f 1 2 by simp
qed

text \<open>
  A delivery pass returns counts that add up to the rows it held, leaves every one of them
  sent, failed after the last attempt, or pending with a later attempt time and one attempt more,
  and keeps no claim of its own.
\<close>

theorem delivery_pass_settles:
  assumes inv: "outbox_inv s" and run: "deliver_pending e io limit w s = (s', sent, failed)"
    and held: "claim_pending e limit w s = (s1, rows)"
  shows "sent + failed = int (length rows) \<and>
    (\<forall>r\<in>set rows. \<exists>r'\<in>set (notification_outbox s'). settled e r r') \<and>
    (\<forall>x\<in>set (notification_outbox s'). \<not> (ob_status x = ''delivering'' \<and> ob_claimed_by x = Some w))"
proof (intro conjI)
  have f: "fold (deliver_row e io) rows (s1, 0, 0) = (s', sent, failed)" using run held by (simp add: deliver_pending_def)
  have mem: "r \<in> set rows \<longleftrightarrow> r \<in> set (notification_outbox s1) \<and> ob_status r = ''delivering'' \<and> ob_claimed_by r = Some w" for r
    by (rule claimed_rows_mem [OF held])
  have "outbox_inv s1" using outbox_inv_claim [OF inv, of e limit w] held by simp
  then have "distinct (map ob_id (notification_outbox s1))" by (simp add: outbox_inv_def pk_def)
  moreover have "rows = sort_key ob_id (filter (\<lambda>r. ob_status r = ''delivering'' \<and> ob_claimed_by r = Some w) (notification_outbox s1))"
    using held by (auto simp: claim_pending_def Let_def)
  ultimately have dis: "distinct (map ob_id rows)"
    using distinct_map_filter [of ob_id "notification_outbox s1"] by (simp add: distinct_map)
  show "sent + failed = int (length rows)" using fold_deliver_counts [of e io rows s1 0 0] f by simp
  show "\<forall>r\<in>set rows. \<exists>r'\<in>set (notification_outbox s'). settled e r r'"
  proof
    fix r
    assume "r \<in> set rows"
    moreover have "set rows \<subseteq> set (notification_outbox (fst (s1, 0 :: int, 0 :: int)))" using mem by auto
    ultimately show "\<exists>r'\<in>set (notification_outbox s'). settled e r r'" using fold_deliver_settled [OF _ dis, of "(s1, 0, 0)" r e io] f by simp
  qed
  show "\<forall>x\<in>set (notification_outbox s'). \<not> (ob_status x = ''delivering'' \<and> ob_claimed_by x = Some w)"
  proof
    fix x
    assume "x \<in> set (notification_outbox s')"
    then show "\<not> (ob_status x = ''delivering'' \<and> ob_claimed_by x = Some w)"
      using fold_deliver_released [of x e io rows "(s1, 0, 0)"] f mem [of x] by auto
  qed
qed

theorem delivery_pass_settles_witness:
  "let (s1, rows) = claim_pending (note_env 1) 5 ''w1'' note_db;
       (s', sent, failed) = deliver_pending (note_env 1) note_sender 5 ''w1'' note_db
   in length rows = 2 \<and> sent + failed = int (length rows) \<and>
      (\<forall>r\<in>set rows. \<exists>r'\<in>set (notification_outbox s'). settled (note_env 1) r r') \<and>
      (\<forall>x\<in>set (notification_outbox s'). \<not> (ob_status x = ''delivering'' \<and> ob_claimed_by x = Some ''w1''))"
proof -
  obtain s1 rows where 1: "claim_pending (note_env 1) 5 ''w1'' note_db = (s1, rows)" by fastforce
  obtain s' sent failed where 2: "deliver_pending (note_env 1) note_sender 5 ''w1'' note_db = (s', sent, failed)" by (metis prod_cases3)
  have "length (snd (claim_pending (note_env 1) 5 ''w1'' note_db)) = 2" by code_simp
  then have "length rows = 2" using 1 by simp
  then show ?thesis unfolding 1 2 Let_def prod.case using delivery_pass_settles [OF note_db_inv 2 1] by (rule conjI)
qed

text \<open>
  C21: an invitation token that was accepted once is never accepted again, whatever invitations are
  created or used afterwards, by any process that hashes with the same function.
\<close>

theorem invite_single_use:
  assumes "invites_inv s" "consume_invite e token s = (s1, Some i)" "env_sha256 e' = env_sha256 e"
  shows "snd (consume_invite e' token (fold invite_step ops s1)) = None \<and> peek_invite e' token (fold invite_step ops s1) = None"
proof -
  let ?i = "i\<lparr>iv_used_at := Some (env_now e)\<rparr>" and ?s = "fold invite_step ops s1"
  have inv1: "invites_inv s1" using invites_inv_consume [OF assms(1), of e token] assms(2) by simp
  have "?i \<in> set (invites ?s)"
    using invite.run_rel [OF inv1, of ops] consumed_is_used(1) [OF assms(2)] unfolding used_kept_def by auto
  moreover have "iv_token_hash ?i = env_sha256 e' token" using consumed_is_used(2) [OF assms(2)] assms(3) by simp
  moreover have "iv_used_at ?i \<noteq> None" by simp
  ultimately have "consume_invite e' token ?s = (?s, None)" "peek_invite e' token ?s = None"
    using used_blocks [OF invite.run_inv [OF inv1, of ops]] by blast+
  then show ?thesis by simp
qed

theorem invite_single_use_witness:
  "let (s1, i) = consume_invite (note_env 1) ''inv_tok'' invite_db
   in i \<noteq> None \<and> snd (consume_invite (note_env 2) ''inv_tok''
        (fold invite_step [InviteCreate (note_env 2) ''other'' ''bob'' ''acme'' None] s1)) = None"
proof -
  obtain s1 i where 1: "consume_invite (note_env 1) ''inv_tok'' invite_db = (s1, i)" by fastforce
  have "\<not> Option.is_none (snd (consume_invite (note_env 1) ''inv_tok'' invite_db))" by code_simp
  then obtain j where i: "i = Some j" using 1 by (auto simp: Option.is_none_def)
  show ?thesis
    using invite_single_use [OF invite_db_inv 1 [unfolded i], of "note_env 2" "[InviteCreate (note_env 2) ''other'' ''bob'' ''acme'' None]"] 1 i
    by (simp add: note_env_def)
qed

end
