(* ===== verification/Vendor_Evidence.thy ===== *)
theory Vendor_Evidence
  imports Schema "HOL-Library.Product_Lexorder"
begin

text \<open>
  storage/vendor_evidence.py: the typed references (agreements, reports, certificates) recorded
  for a vendor. A new reference of a kind supersedes the earlier one; a lapsed one blocks the
  vendor's approval. The ageing pass over the expiry dates is in \<open>Vendors\<close>, with the vendor
  registry it moves.
\<close>

section \<open>Kinds and reading the request\<close>

definition EVIDENCE_KINDS :: "(string \<times> string) list" where
  "EVIDENCE_KINDS =
     [(''baa'', ''Business associate agreement''), (''dpa'', ''Data processing agreement''),
      (''soc2_type2'', ''SOC 2 Type II report''), (''iso_27001'', ''ISO/IEC 27001 certificate''),
      (''iso_42001'', ''ISO/IEC 42001 certificate''), (''fda_clearance'', ''FDA clearance or approval''),
      (''pen_test'', ''Penetration test attestation''), (''other'', ''Other attestation'')]"

definition EXPIRY_NOTICE_DAYS :: int where "EXPIRY_NOTICE_DAYS = 30"

definition today :: "env \<Rightarrow> int" where "today e = day_of (env_now e)"

definition parse_date :: "string \<Rightarrow> string \<Rightarrow> int res" where
  "parse_date v field =
     (case date_fromisoformat (py_strip v) of
        None \<Rightarrow> Inl (DomainErr (field @ '' must be a date (YYYY-MM-DD)''))
      | Some d \<Rightarrow> Inr d)"

text \<open>\<open>_SHA256\<close>, matched against text already stripped.\<close>

definition sha256_text :: "string \<Rightarrow> bool" where
  "sha256_text h \<longleftrightarrow> length h = 64 \<and>
     list_all (\<lambda>c. is_digit c \<or> 97 \<le> (of_char c :: nat) \<and> (of_char c :: nat) \<le> 102) h"

definition clean_hash :: "string option \<Rightarrow> string option res" where
  "clean_hash h =
     (case h of None \<Rightarrow> Inr None
      | Some x \<Rightarrow> (let y = py_lower (py_strip x)
                   in if sha256_text y then Inr (Some y)
                      else Inl (DomainErr ''document_hash must be the hex SHA-256 of the document'')))"

definition kind_label :: "evidence_ref \<Rightarrow> string" where
  "kind_label r = (case map_of EVIDENCE_KINDS (ev_kind r) of None \<Rightarrow> ev_kind r | Some l \<Rightarrow> l)"

definition vendor_in_tenant :: "db \<Rightarrow> string \<Rightarrow> string \<Rightarrow> vendor_row res" where
  "vendor_in_tenant s vendor_id tenant =
     (case find (\<lambda>v. vr_id v = vendor_id \<and> vr_tenant_id v = tenant) (vendor_registry s) of
        None \<Rightarrow> Inl (NotFound ''vendor not found in this organization'')
      | Some v \<Rightarrow> Inr v)"

section \<open>Recording and withdrawing\<close>

record evidence_request =
  er_tenant_id :: string
  er_vendor_id :: string
  er_kind :: string
  er_name :: string
  er_identifier :: "string option"
  er_issued_at :: string
  er_expires_at :: string
  er_document_hash :: "string option"
  er_actor_ref :: string

definition evidence_id :: "env \<Rightarrow> evidence_request \<Rightarrow> int \<Rightarrow> int \<Rightarrow> string \<Rightarrow> string" where
  "evidence_id e q issued expires label =
     entity_id e [Some ''vendor-evidence'', Some (er_tenant_id q), Some (er_vendor_id q), Some (er_kind q),
       Some (date_iso issued), Some (date_iso expires), Some label]"

definition supersede :: "env \<Rightarrow> string \<Rightarrow> string \<Rightarrow> string \<Rightarrow> evidence_ref list \<Rightarrow> evidence_ref list" where
  "supersede e vendor_id kind rid =
     update_where (\<lambda>r. ev_vendor_id r = vendor_id \<and> ev_kind r = kind \<and> ev_status r \<in> {''current'', ''expired''} \<and> ev_id r \<noteq> rid)
       (\<lambda>r. r\<lparr>ev_status := ''superseded'', ev_updated_at := db_now e\<rparr>)"

definition none_if_empty :: "string \<Rightarrow> string option" where
  "none_if_empty x = (if x = [] then None else Some x)"

definition evidence_row :: "env \<Rightarrow> evidence_request \<Rightarrow> int \<Rightarrow> int \<Rightarrow> string option \<Rightarrow> evidence_ref" where
  "evidence_row e q issued expires hash =
     (let label = py_strip (er_name q) in
      \<lparr>ev_id = evidence_id e q issued expires label, ev_tenant_id = er_tenant_id q, ev_vendor_id = er_vendor_id q,
       ev_kind = er_kind q, ev_name = label,
       ev_identifier = none_if_empty (py_strip (or_str (er_identifier q) [])),
       ev_issued_at = issued, ev_expires_at = expires, ev_document_hash = hash, ev_status = ''current'',
       ev_created_by = er_actor_ref q, ev_created_at = db_now e, ev_updated_at = db_now e, ev_expired_at = None,
       ev_expiry_notice_sent_at = None\<rparr>)"

definition merge_evidence :: "env \<Rightarrow> evidence_ref \<Rightarrow> evidence_ref \<Rightarrow> evidence_ref" where
  "merge_evidence e row r =
     r\<lparr>ev_identifier := ev_identifier row, ev_document_hash := ev_document_hash row, ev_status := ''current'',
       ev_expired_at := None, ev_expiry_notice_sent_at := None, ev_updated_at := db_now e\<rparr>"

definition store_evidence :: "env \<Rightarrow> evidence_ref \<Rightarrow> evidence_ref list \<Rightarrow> evidence_ref list" where
  "store_evidence e row refs =
     upsert ev_id (merge_evidence e row) row (supersede e (ev_vendor_id row) (ev_kind row) (ev_id row) refs)"

definition record_evidence_reference :: "env \<Rightarrow> evidence_request \<Rightarrow> db \<Rightarrow> (db \<times> evidence_ref) res" where
  "record_evidence_reference e q s =
     (if er_kind q \<notin> set (map fst EVIDENCE_KINDS)
      then Inl (DomainErr (''kind must be one of '' @ comma_join (sort (map fst EVIDENCE_KINDS))))
      else ebind (parse_date (er_issued_at q) ''issued_at'') (\<lambda>issued.
           ebind (parse_date (er_expires_at q) ''expires_at'') (\<lambda>expires.
      if expires \<le> issued then Inl (DomainErr ''expires_at must be after issued_at'')
      else if expires \<le> today e then Inl (DomainErr ''expires_at must be in the future; a lapsed document is not evidence'')
      else ebind (clean_hash (er_document_hash q)) (\<lambda>hash.
      if py_strip (er_name q) = [] then Inl (DomainErr ''name is required'')
      else ebind (vendor_in_tenant s (er_vendor_id q) (er_tenant_id q)) (\<lambda>vendor.
      if vr_status vendor = ''retired'' then Inl (DomainErr ''a retired vendor takes no new evidence'')
      else
        let row = evidence_row e q issued expires hash;
            refs = store_evidence e row (vendor_evidence_references s)
        in case by_key ev_id (ev_id row) refs of
             None \<Rightarrow> Inl TypeErr
           | Some r \<Rightarrow> Inr (s\<lparr>vendor_evidence_references := refs\<rparr>, r))))))"

definition withdraw_evidence_reference :: "env \<Rightarrow> string \<Rightarrow> string \<Rightarrow> db \<Rightarrow> (db \<times> evidence_ref) res" where
  "withdraw_evidence_reference e rid tenant s =
     (case find (\<lambda>r. ev_id r = rid \<and> ev_tenant_id r = tenant) (vendor_evidence_references s) of
        None \<Rightarrow> Inl (NotFound ''evidence reference not found in this organization'')
      | Some _ \<Rightarrow>
          let refs' = update_where (\<lambda>r. ev_id r = rid) (\<lambda>r. r\<lparr>ev_status := ''withdrawn'', ev_updated_at := db_now e\<rparr>)
                        (vendor_evidence_references s)
          in (case by_key ev_id rid refs' of
                None \<Rightarrow> Inl TypeErr
              | Some r \<Rightarrow> Inr (s\<lparr>vendor_evidence_references := refs'\<rparr>, r)))"

definition list_evidence_references :: "string \<Rightarrow> string option \<Rightarrow> db \<Rightarrow> evidence_ref list" where
  "list_evidence_references tenant vendor_id s =
     sort_key (\<lambda>r. (ev_vendor_id r, ev_kind r, - ev_expires_at r))
       (filter (\<lambda>r. ev_tenant_id r = tenant \<and> (case vendor_id of None \<Rightarrow> True | Some v \<Rightarrow> ev_vendor_id r = v))
          (vendor_evidence_references s))"

section \<open>Lapsed references block an approval\<close>

definition expired_references :: "db \<Rightarrow> string \<Rightarrow> evidence_ref list" where
  "expired_references s vendor_id =
     sort_key ev_kind (filter (\<lambda>r. ev_vendor_id r = vendor_id \<and> ev_status r = ''expired'') (vendor_evidence_references s))"

definition lapsed_text :: "evidence_ref \<Rightarrow> string" where
  "lapsed_text r = kind_label r @ '' ('' @ ev_name r @ '', expired '' @ date_iso (ev_expires_at r) @ '')''"

definition require_no_expired_evidence :: "db \<Rightarrow> string \<Rightarrow> string \<Rightarrow> unit res" where
  "require_no_expired_evidence s vendor_id vendor_name =
     (case expired_references s vendor_id of
        [] \<Rightarrow> Inr ()
      | lapsed \<Rightarrow> Inl (DomainErr (''vendor '' @ sq @ vendor_name @ sq @ '' has expired evidence: '' @
          comma_join (map lapsed_text lapsed) @ ''. Record a current reference or withdraw the '' @
          ''expired one before the vendor can be approved'')))"

lemma require_no_expired_iff:
  "(\<exists>u. require_no_expired_evidence s v name = Inr u) \<longleftrightarrow>
     (\<forall>r\<in>set (vendor_evidence_references s). ev_vendor_id r = v \<longrightarrow> ev_status r \<noteq> ''expired'')"
proof -
  have "(\<exists>u. require_no_expired_evidence s v name = Inr u) \<longleftrightarrow> set (expired_references s v) = {}"
    by (auto simp: require_no_expired_evidence_def split: list.splits)
  also have "\<dots> \<longleftrightarrow> (\<forall>r\<in>set (vendor_evidence_references s). ev_vendor_id r = v \<longrightarrow> ev_status r \<noteq> ''expired'')"
    by (auto simp: expired_references_def)
  finally show ?thesis .
qed

section \<open>At most one reference of a kind stands\<close>

definition stands :: "evidence_ref \<Rightarrow> bool" where
  "stands r \<longleftrightarrow> ev_status r \<in> {''current'', ''expired''}"

definition evidence_inv :: "db \<Rightarrow> bool" where
  "evidence_inv s \<longleftrightarrow> pk ev_id (vendor_evidence_references s) \<and>
     (\<forall>a\<in>set (vendor_evidence_references s). \<forall>b\<in>set (vendor_evidence_references s).
        stands a \<and> stands b \<and> ev_vendor_id a = ev_vendor_id b \<and> ev_kind a = ev_kind b \<longrightarrow> ev_id a = ev_id b)"

lemma record_evidence_cases:
  assumes "record_evidence_reference e q s = Inr (s', r)"
  obtains issued expires hash vendor where
    "parse_date (er_expires_at q) ''expires_at'' = Inr expires" "issued < expires" "today e < expires"
    "vendor_in_tenant s (er_vendor_id q) (er_tenant_id q) = Inr vendor" "vr_status vendor \<noteq> ''retired''"
    "s' = s\<lparr>vendor_evidence_references :=
       store_evidence e (evidence_row e q issued expires hash) (vendor_evidence_references s)\<rparr>"
    "by_key ev_id (ev_id (evidence_row e q issued expires hash))
       (store_evidence e (evidence_row e q issued expires hash) (vendor_evidence_references s)) = Some r"
proof -
  obtain issued expires hash vendor where
    "parse_date (er_expires_at q) ''expires_at'' = Inr expires" "\<not> expires \<le> issued" "\<not> expires \<le> today e"
    "vendor_in_tenant s (er_vendor_id q) (er_tenant_id q) = Inr vendor" "vr_status vendor \<noteq> ''retired''" and
    out: "(case by_key ev_id (ev_id (evidence_row e q issued expires hash))
       (store_evidence e (evidence_row e q issued expires hash) (vendor_evidence_references s)) of
        None \<Rightarrow> Inl TypeErr
      | Some r \<Rightarrow> Inr (s\<lparr>vendor_evidence_references :=
          store_evidence e (evidence_row e q issued expires hash) (vendor_evidence_references s)\<rparr>, r)) = Inr (s', r)"
    using assms unfolding record_evidence_reference_def Let_def
    by (simp add: ebind_eq_Inr split: if_splits) blast
  then show thesis by (intro that) (auto split: option.splits)
qed

lemma evidence_row_simps [simp]:
  "ev_vendor_id (evidence_row e q i x h) = er_vendor_id q" "ev_kind (evidence_row e q i x h) = er_kind q"
  "ev_tenant_id (evidence_row e q i x h) = er_tenant_id q" "ev_status (evidence_row e q i x h) = ''current''"
  "ev_expires_at (evidence_row e q i x h) = x"
  by (simp_all add: evidence_row_def Let_def)

lemma merge_evidence_simps [simp]:
  "ev_id (merge_evidence e row r) = ev_id r" "ev_vendor_id (merge_evidence e row r) = ev_vendor_id r"
  "ev_kind (merge_evidence e row r) = ev_kind r" "ev_status (merge_evidence e row r) = ''current''"
  by (simp_all add: merge_evidence_def)

lemma supersede_keys: "map ev_id (supersede e v k rid t) = map ev_id t"
  unfolding supersede_def by (rule map_key_update_where) simp

lemma supersede_stands:
  assumes "x \<in> set (supersede e v k rid t)" "stands x" "ev_vendor_id x = v" "ev_kind x = k"
  shows "ev_id x = rid"
  using assms(1) unfolding supersede_def
  by (cases rule: update_whereE) (use assms(2-4) in \<open>auto simp: stands_def\<close>)

lemma supersede_from:
  assumes "x \<in> set (supersede e v k rid t)"
  shows "\<exists>y\<in>set t. ev_id y = ev_id x \<and> ev_vendor_id y = ev_vendor_id x \<and> ev_kind y = ev_kind x \<and>
    ev_expires_at y = ev_expires_at x \<and> (stands x \<longrightarrow> stands y)"
  using assms unfolding supersede_def
proof (cases rule: update_whereE)
  case (hit y)
  then show ?thesis by (intro bexI [of _ y]) (simp_all add: stands_def)
next
  case miss
  then show ?thesis by blast
qed

text \<open>
  The table after a new reference: what stands for the vendor and kind is that reference, and
  elsewhere nothing new stands. \<open>no_collision\<close>: an existing row under the same content hash is
  about the same vendor and kind.
\<close>

definition no_collision :: "evidence_request \<Rightarrow> string \<Rightarrow> db \<Rightarrow> bool" where
  "no_collision q rid s \<longleftrightarrow> list_all (\<lambda>x. ev_id x = rid \<longrightarrow> ev_vendor_id x = er_vendor_id q \<and> ev_kind x = er_kind q)
     (vendor_evidence_references s)"

definition row_of :: "evidence_ref \<Rightarrow> evidence_ref list \<Rightarrow> evidence_ref \<Rightarrow> bool" where
  "row_of row t x \<longleftrightarrow>
     (if ev_id x = ev_id row then ev_vendor_id x = ev_vendor_id row \<and> ev_kind x = ev_kind row
      else (stands x \<longrightarrow> \<not> (ev_vendor_id x = ev_vendor_id row \<and> ev_kind x = ev_kind row)) \<and>
        (\<exists>y\<in>set t. ev_id y = ev_id x \<and> ev_vendor_id y = ev_vendor_id x \<and> ev_kind y = ev_kind x \<and> (stands x \<longrightarrow> stands y)))"

lemma store_evidence_rows:
  assumes coll: "\<And>x. x \<in> set t \<Longrightarrow> ev_id x = ev_id row \<Longrightarrow> ev_vendor_id x = ev_vendor_id row \<and> ev_kind x = ev_kind row"
    and x: "x \<in> set (store_evidence e row t)"
  shows "row_of row t x"
proof (cases "ev_id x = ev_id row")
  case True
  let ?t = "supersede e (ev_vendor_id row) (ev_kind row) (ev_id row) t"
  from x consider "x = row" | y where "y \<in> set ?t" "ev_id y = ev_id row" "x = merge_evidence e row y" | "x \<in> set ?t"
    unfolding store_evidence_def upsert_def by (auto elim: update_whereE split: if_splits)
  then have "ev_vendor_id x = ev_vendor_id row \<and> ev_kind x = ev_kind row"
  proof cases
    case 1
    then show ?thesis by simp
  next
    case 2
    then show ?thesis using supersede_from [OF 2(1)] coll merge_evidence_simps by metis
  next
    case 3
    then show ?thesis using supersede_from [OF 3] coll True by metis
  qed
  then show ?thesis using True by (simp add: row_of_def)
next
  case False
  then have "x \<in> set (supersede e (ev_vendor_id row) (ev_kind row) (ev_id row) t)"
    using x unfolding store_evidence_def upsert_def by (auto elim!: update_whereE split: if_splits)
  from supersede_from [OF this] supersede_stands [OF this] show ?thesis
    using False unfolding row_of_def by auto
qed

lemma store_evidence_unique:
  assumes "evidence_inv s" "\<And>x. x \<in> set t' \<Longrightarrow> row_of row (vendor_evidence_references s) x"
    and "a \<in> set t'" "b \<in> set t'" "stands a" "stands b" "ev_vendor_id a = ev_vendor_id b" "ev_kind a = ev_kind b"
  shows "ev_id a = ev_id b"
proof (cases "ev_vendor_id a = ev_vendor_id row \<and> ev_kind a = ev_kind row")
  case True
  then show ?thesis using assms(2) [OF assms(3)] assms(2) [OF assms(4)] assms(5-8) unfolding row_of_def by metis
next
  case False
  then obtain x y where "x \<in> set (vendor_evidence_references s)" "y \<in> set (vendor_evidence_references s)"
    "ev_id x = ev_id a" "ev_vendor_id x = ev_vendor_id a" "ev_kind x = ev_kind a" "stands x"
    "ev_id y = ev_id b" "ev_vendor_id y = ev_vendor_id b" "ev_kind y = ev_kind b" "stands y"
    using assms(2) [OF assms(3)] assms(2) [OF assms(4)] assms(5-8) unfolding row_of_def by metis
  then show ?thesis using assms(1,7,8) unfolding evidence_inv_def by metis
qed

lemma record_evidence_inv:
  assumes inv: "evidence_inv s" and r: "record_evidence_reference e q s = Inr (s', r)" and coll: "no_collision q (ev_id r) s"
  shows "evidence_inv s'"
    and "ev_status r = ''current''" "ev_vendor_id r = er_vendor_id q" "ev_kind r = er_kind q"
    and "\<And>x. x \<in> set (vendor_evidence_references s') \<Longrightarrow> stands x \<Longrightarrow> ev_vendor_id x = er_vendor_id q \<Longrightarrow>
           ev_kind x = er_kind q \<Longrightarrow> ev_id x = ev_id r"
proof -
  obtain issued expires hash where
    s': "s' = s\<lparr>vendor_evidence_references :=
       store_evidence e (evidence_row e q issued expires hash) (vendor_evidence_references s)\<rparr>" and
    k: "by_key ev_id (ev_id (evidence_row e q issued expires hash))
       (store_evidence e (evidence_row e q issued expires hash) (vendor_evidence_references s)) = Some r"
    using record_evidence_cases [OF r] by metis
  let ?row = "evidence_row e q issued expires hash"
  have r_in: "r \<in> set (vendor_evidence_references s')" and r_id: "ev_id r = ev_id ?row"
    using by_key_Some [OF k] by (simp_all add: s')
  have rows: "row_of ?row (vendor_evidence_references s) x" if "x \<in> set (vendor_evidence_references s')" for x
    using that coll r_id unfolding s'
    by (intro store_evidence_rows [where e = e]) (auto simp: no_collision_def list_all_iff)
  show "ev_vendor_id r = er_vendor_id q" "ev_kind r = er_kind q" using rows [OF r_in] r_id by (auto simp: row_of_def)
  show "ev_status r = ''current''"
    using k by (auto simp: store_evidence_def by_key_upsert split: if_splits option.splits)
  show "ev_id x = ev_id r" if "x \<in> set (vendor_evidence_references s')" "stands x"
    "ev_vendor_id x = er_vendor_id q" "ev_kind x = er_kind q" for x
    using rows [OF that(1)] that r_id by (auto simp: row_of_def split: if_splits)
  have "pk ev_id (vendor_evidence_references s')"
  proof -
    have "pk ev_id (supersede e v k rid (vendor_evidence_references s))" for v k rid
      using inv by (simp add: evidence_inv_def pk_def supersede_keys)
    then show ?thesis by (simp add: s' store_evidence_def pk_upsert)
  qed
  then show "evidence_inv s'" unfolding evidence_inv_def using store_evidence_unique [OF inv rows] by blast
qed

lemma withdraw_evidence_inv:
  assumes inv: "evidence_inv s" and r: "withdraw_evidence_reference e rid tenant s = Inr (s', r)"
  shows "evidence_inv s'" "ev_status r = ''withdrawn''" "ev_tenant_id r = tenant"
proof -
  let ?f = "\<lambda>r. r\<lparr>ev_status := ''withdrawn'', ev_updated_at := db_now e\<rparr>"
  obtain x where x: "find (\<lambda>r. ev_id r = rid \<and> ev_tenant_id r = tenant) (vendor_evidence_references s) = Some x"
    and s': "s' = s\<lparr>vendor_evidence_references := update_where (\<lambda>r. ev_id r = rid) ?f (vendor_evidence_references s)\<rparr>"
    and k: "by_key ev_id rid (update_where (\<lambda>r. ev_id r = rid) ?f (vendor_evidence_references s)) = Some r"
    using r by (auto simp: withdraw_evidence_reference_def Let_def split: option.splits)
  have "by_key ev_id rid (vendor_evidence_references s) = Some x"
    using x inv by_key_unique [of ev_id "vendor_evidence_references s" x] by (auto simp: evidence_inv_def find_Some_iff)
  then have "r = ?f x" "ev_tenant_id x = tenant"
    using k x by (auto simp: by_key_update_where find_Some_iff)
  then show "ev_status r = ''withdrawn''" "ev_tenant_id r = tenant" by simp_all
  have "pk ev_id (vendor_evidence_references s')"
    using inv unfolding s' evidence_inv_def by (auto intro: pk_update_where)
  moreover have "ev_id a = ev_id b"
    if "a \<in> set (vendor_evidence_references s')" "b \<in> set (vendor_evidence_references s')" "stands a" "stands b"
      "ev_vendor_id a = ev_vendor_id b" "ev_kind a = ev_kind b" for a b
  proof -
    have kept: "x \<in> set (vendor_evidence_references s)" if "x \<in> set (vendor_evidence_references s')" "stands x" for x
    proof -
      have "x \<in> set (update_where (\<lambda>r. ev_id r = rid) ?f (vendor_evidence_references s))" using that(1) by (simp add: s')
      then show ?thesis by (cases rule: update_whereE) (use that(2) in \<open>simp_all add: stands_def\<close>)
    qed
    show ?thesis using inv kept [OF that(1,3)] kept [OF that(2,4)] that(3-6) unfolding evidence_inv_def by blast
  qed
  ultimately show "evidence_inv s'" unfolding evidence_inv_def by blast
qed

end
