(* ===== verification/Approvals.thy ===== *)
theory Approvals
  imports Policy_Resolution Notifications Vendor_Evidence
begin

text \<open>
  Staged approvals: the status a decision gives its target (storage/workflow.py,
  \<open>apply_decision_status\<close>) and the stage checklist of a governed subject
  (storage/policy_engine.py): its materialization from the policy in force, the transition of
  one stage and the roll-up of the subject.
\<close>

section \<open>The status a decision gives\<close>

definition status_by_decision :: "string \<Rightarrow> string option" where
  "status_by_decision = map_of
     [(''approve'', ''approved''), (''reject'', ''rejected''), (''accept_risk'', ''accepted''),
      (''mitigate'', ''mitigation_required''), (''waive'', ''waived''), (''close'', ''closed'')]"

definition notify_intake_decided :: "env \<Rightarrow> string \<Rightarrow> string \<Rightarrow> string \<Rightarrow> db \<Rightarrow> db" where
  "notify_intake_decided e intake_id task_id status s =
     (case by_key uc_intake_id intake_id (ai_use_cases s) of
        None \<Rightarrow> s
      | Some u \<Rightarrow>
          if uc_submitted_by u = [] then s
          else let outcome = (if status = ''approved'' then ''approved'' else ''rejected'')
               in emitted e
                 \<lparr>no_tenant = uc_tenant_id u, no_event = ''review.'' @ outcome,
                  no_subject = ''System '' @ outcome @ '': '' @ uc_application_name u @ '' / '' @ uc_use_case u,
                  no_text = ''The review of '' @ uc_application_name u @ '' ('' @ uc_use_case u @ '') is finished: '' @ outcome @
                    ''. Open the review to see each decision and who made it.'',
                  no_data = JObj [(''intake_id'', JStr intake_id), (''task_id'', JStr task_id), (''status'', JStr status)],
                  no_to_users = [uc_submitted_by u], no_to_roles = [],
                  no_link = Some (public_base_url e @ ''/#review/'' @ task_id)\<rparr> s)"

text \<open>The use case of an intake review follows an approval or a rejection of the task.\<close>

definition decide_use_case :: "env \<Rightarrow> review_task \<Rightarrow> string \<Rightarrow> db \<Rightarrow> db" where
  "decide_use_case e task status s =
     (if rt_task_type task = ''intake_review'' \<and> status \<in> {''approved'', ''rejected''} then
        let p = (\<lambda>u. uc_intake_id u = rt_change_id task \<and> uc_status u \<noteq> status);
            s1 = s\<lparr>ai_use_cases := update_where p (\<lambda>u. u\<lparr>uc_status := status, uc_updated_at := db_now e\<rparr>) (ai_use_cases s)\<rparr>
        in if exists_row p (ai_use_cases s) then notify_intake_decided e (rt_change_id task) (rt_id task) status s1 else s1
      else s)"

definition decide_task :: "env \<Rightarrow> string \<Rightarrow> string \<Rightarrow> db \<Rightarrow> db" where
  "decide_task e task_id status s =
     (let s1 = s\<lparr>review_tasks := update_where (\<lambda>r. rt_id r = task_id)
                   (\<lambda>r. r\<lparr>rt_status := status, rt_updated_at := db_now e\<rparr>) (review_tasks s)\<rparr>
      in case by_key rt_id task_id (review_tasks s1) of None \<Rightarrow> s1 | Some task \<Rightarrow> decide_use_case e task status s1)"

definition apply_decision_status :: "env \<Rightarrow> string \<Rightarrow> string \<Rightarrow> string \<Rightarrow> db \<Rightarrow> db" where
  "apply_decision_status e target_type target_id decision s =
     (case status_by_decision decision of
        None \<Rightarrow> s
      | Some status \<Rightarrow>
          if target_type = ''review_task'' then decide_task e target_id status s
          else if target_type = ''risk_finding'' then
            s\<lparr>risk_findings := update_where (\<lambda>r. rf_id r = target_id)
               (\<lambda>r. r\<lparr>rf_status := status, rf_evaluated_at := db_now e\<rparr>) (risk_findings s)\<rparr>
          else if target_type = ''change_event'' then
            s\<lparr>change_events := update_where (\<lambda>r. ce_id r = target_id) (\<lambda>r. r\<lparr>ce_status := status\<rparr>) (change_events s)\<rparr>
          else if target_type = ''control_assessment'' then
            s\<lparr>control_assessments := update_where (\<lambda>r. ca_id r = target_id)
               (\<lambda>r. r\<lparr>ca_status := status, ca_evaluated_at := db_now e\<rparr>) (control_assessments s)\<rparr>
          else s)"

section \<open>Materializing the checklist\<close>

definition stage_id :: "env \<Rightarrow> string \<Rightarrow> string \<Rightarrow> int \<Rightarrow> int \<Rightarrow> string" where
  "stage_id e subject_type subject_id review_round stage_index =
     entity_id e [Some ''approval-stage'', Some subject_type, Some subject_id, Some (str_int review_round), Some (str_int stage_index)]"

record subject_ref =
  sb_type :: string
  sb_id :: string
  sb_round :: int
  sb_tenant_id :: "string option"
  sb_project :: string
  sb_environment :: string
  sb_application_name :: string

definition of_subject :: "string \<Rightarrow> string \<Rightarrow> int \<Rightarrow> stage_row \<Rightarrow> bool" where
  "of_subject ty sid rd r \<longleftrightarrow> st_subject_type r = ty \<and> st_subject_id r = sid \<and> st_review_round r = rd"

text \<open>\<open>stage["role"]\<close> and \<open>stage.get("label")\<close>; the validator admits text only.\<close>

definition stage_role_text :: "json \<Rightarrow> string res" where
  "stage_role_text v = (case v of
      JObj d \<Rightarrow> (case map_of d ''role'' of None \<Rightarrow> Inl KeyErr | Some (JStr r) \<Rightarrow> Inr r | Some _ \<Rightarrow> Inl TypeErr)
    | _ \<Rightarrow> Inl TypeErr)"

definition stage_label_text :: "json \<Rightarrow> string option" where
  "stage_label_text v = (case v of JObj d \<Rightarrow> (case dget d ''label'' JNull of JStr l \<Rightarrow> Some l | _ \<Rightarrow> None) | _ \<Rightarrow> None)"

definition make_stage ::
  "env \<Rightarrow> subject_ref \<Rightarrow> string \<Rightarrow> string \<Rightarrow> int \<Rightarrow> nat \<times> string \<times> string option \<Rightarrow> stage_row" where
  "make_stage e b mode policy_tenant policy_version = (\<lambda>(i, role, label).
     \<lparr>st_id = stage_id e (sb_type b) (sb_id b) (sb_round b) (int i), st_tenant_id = sb_tenant_id b,
      st_project = sb_project b, st_environment = sb_environment b, st_application_name = sb_application_name b,
      st_subject_type = sb_type b, st_subject_id = sb_id b, st_review_round = sb_round b,
      st_policy_tenant = policy_tenant, st_policy_version = policy_version, st_index = int i,
      st_required_role = role, st_label = label, st_mode = mode,
      st_status = (if mode = ''parallel'' \<or> i = 0 then ''open'' else ''pending''),
      st_decision_id = None, st_decided_by = None, st_created_at = db_now e, st_decided_at = None\<rparr>)"

definition materialize_stages ::
  "env \<Rightarrow> subject_ref \<Rightarrow> json \<Rightarrow> string \<Rightarrow> string \<Rightarrow> int \<Rightarrow> db \<Rightarrow> (db \<times> bool) res" where
  "materialize_stages e b stages mode policy_tenant policy_version s =
     (if exists_row (of_subject (sb_type b) (sb_id b) (sb_round b)) (approval_stages s) then Inr (s, False)
      else ebind (jiter stages) (\<lambda>items.
           ebind (emap (\<lambda>v. ebind (stage_role_text v) (\<lambda>role. Inr (role, stage_label_text v))) items) (\<lambda>cols.
           let rows = map (make_stage e b mode policy_tenant policy_version) (enumerate 0 cols)
           in Inr (s\<lparr>approval_stages := fold (insert_or_ignore st_id) rows (approval_stages s)\<rparr>, True))))"

definition json_text :: "json \<Rightarrow> string res" where
  "json_text v = (case v of JStr t \<Rightarrow> Inr t | _ \<Rightarrow> Inl TypeErr)"

definition materialize_intake_stages :: "env \<Rightarrow> string \<Rightarrow> subject_ref \<Rightarrow> string \<Rightarrow> db \<Rightarrow> db res" where
  "materialize_intake_stages e task_id b risk_tier s =
     ebind (resolve_tier_policy e (governance_policies s) (sb_tenant_id b) risk_tier) (\<lambda>tp.
     ebind (json_text (tp_mode tp)) (\<lambda>mode.
     ebind (materialize_stages e (b\<lparr>sb_type := ''review_task'', sb_id := task_id, sb_round := 0\<rparr>)
              (tp_stages tp) mode (tp_policy_tenant tp) (tp_policy_version tp) s) (\<lambda>(s', created). Inr s')))"

section \<open>Reading stages\<close>

definition load_stage :: "db \<Rightarrow> string \<Rightarrow> stage_row res" where
  "load_stage s sid = (case by_key st_id sid (approval_stages s) of
     None \<Rightarrow> Inl (NotFound ''approval stage not found'') | Some r \<Rightarrow> Inr r)"

definition list_subject_stages :: "db \<Rightarrow> string \<Rightarrow> string \<Rightarrow> int option \<Rightarrow> stage_row list" where
  "list_subject_stages s ty sid rd =
     (case rd of
        None \<Rightarrow> sort_key (\<lambda>r. (st_review_round r, st_index r))
                  (filter (\<lambda>r. st_subject_type r = ty \<and> st_subject_id r = sid) (approval_stages s))
      | Some n \<Rightarrow> sort_key st_index (filter (of_subject ty sid n) (approval_stages s)))"

definition list_stages :: "db \<Rightarrow> string option \<Rightarrow> string option \<Rightarrow> string option \<Rightarrow> stage_row list" where
  "list_stages s tenant ty sid =
     sort_key (\<lambda>r. (- st_created_at r, st_subject_id r, st_review_round r, st_index r))
       (filter (\<lambda>r. (nonempty tenant \<longrightarrow> st_tenant_id r = tenant) \<and>
                    (nonempty ty \<longrightarrow> Some (st_subject_type r) = ty) \<and> (nonempty sid \<longrightarrow> Some (st_subject_id r) = sid))
          (approval_stages s))"

datatype subject = TaskSubject review_task | VendorSubject vendor_row

definition load_stage_subject :: "db \<Rightarrow> stage_row \<Rightarrow> subject res" where
  "load_stage_subject s stage =
     (if st_subject_type stage = ''review_task'' then
        (case by_key rt_id (st_subject_id stage) (review_tasks s) of
           None \<Rightarrow> Inl (NotFound ''review task for this stage no longer exists'') | Some t \<Rightarrow> Inr (TaskSubject t))
      else if st_subject_type stage = ''vendor_review'' then
        (case by_key vr_id (st_subject_id stage) (vendor_registry s) of
           None \<Rightarrow> Inl (NotFound ''vendor for this stage no longer exists'') | Some v \<Rightarrow> Inr (VendorSubject v))
      else Inl (ValueErr (''unsupported stage subject type: '' @ st_subject_type stage)))"

fun stage_subject_undecided :: "stage_row \<Rightarrow> subject \<Rightarrow> bool" where
  "stage_subject_undecided stage (TaskSubject t) \<longleftrightarrow> rt_status t = ''open''"
| "stage_subject_undecided stage (VendorSubject v) \<longleftrightarrow>
     vr_status v = ''under_review'' \<and> vr_review_round v = st_review_round stage"

text \<open>Who originated the subject. A review task has no author column, so other tasks have none.\<close>

fun stage_maker :: "db \<Rightarrow> stage_row \<Rightarrow> subject \<Rightarrow> string option" where
  "stage_maker s stage (TaskSubject t) =
     (if rt_task_type t \<in> {''intake_review'', ''recertification_review''}
      then map_option uc_submitted_by (by_key uc_intake_id (rt_change_id t) (ai_use_cases s)) else None)"
| "stage_maker s stage (VendorSubject v) = Some (or_str (vr_submitted_by v) (vr_created_by v))"

definition actor_decided_sibling_stage :: "db \<Rightarrow> stage_row \<Rightarrow> string \<Rightarrow> bool" where
  "actor_decided_sibling_stage s stage actor =
     exists_row (\<lambda>r. of_subject (st_subject_type stage) (st_subject_id stage) (st_review_round stage) r \<and>
                     st_id r \<noteq> st_id stage \<and> st_decided_by r = Some actor) (approval_stages s)"

section \<open>Deciding a stage\<close>

definition stage_name :: "stage_row \<Rightarrow> string" where
  "stage_name r = or_str (st_label r) (st_required_role r)"

definition notify_stage_opened :: "env \<Rightarrow> stage_row \<Rightarrow> db \<Rightarrow> db" where
  "notify_stage_opened e r s =
     (let task = (st_subject_type r = ''review_task'');
          link = (if task then public_base_url e @ ''/#review/'' @ st_subject_id r else public_base_url e @ ''/#vendors'');
          label = or_str (Some (st_application_name r)) (if task then st_subject_id r else ''vendor'')
      in emitted e
        \<lparr>no_tenant = st_tenant_id r, no_event = ''review.stage_opened'',
         no_subject = ''Approval stage open: '' @ stage_name r @ '' for '' @ label,
         no_text = ''Stage '' @ str_int (st_index r + 1) @ '' ('' @ stage_name r @ '') is now open for '' @ label @
           ''. It requires a decision by a holder of the '' @ st_required_role r @ '' role.'',
         no_data = JObj [(''stage_id'', JStr (st_id r)), (''subject_type'', JStr (st_subject_type r)),
           (''subject_id'', JStr (st_subject_id r)), (''required_role'', JStr (st_required_role r))],
         no_to_users = [], no_to_roles = [st_required_role r], no_link = Some link\<rparr> s)"

definition roll_up_subject :: "env \<Rightarrow> stage_row \<Rightarrow> string \<Rightarrow> db \<Rightarrow> db res" where
  "roll_up_subject e stage decision s =
     (if st_subject_type stage = ''review_task'' then Inr (apply_decision_status e ''review_task'' (st_subject_id stage) decision s)
      else if st_subject_type stage = ''vendor_review'' then
        let status = (if decision = ''approve'' then ''approved'' else ''rejected'')
        in ebind (if status = ''approved''
                  then require_no_expired_evidence s (st_subject_id stage) (or_str (Some (st_application_name stage)) ''vendor'')
                  else Inr ()) (\<lambda>_.
           Inr (s\<lparr>vendor_registry := update_where
             (\<lambda>v. vr_id v = st_subject_id stage \<and> vr_review_round v = st_review_round stage \<and> vr_status v = ''under_review'')
             (\<lambda>v. v\<lparr>vr_status := status, vr_reviewed_at := Some (db_now e), vr_updated_at := db_now e\<rparr>) (vendor_registry s)\<rparr>))
      else Inr s)"

definition stamp_stage :: "env \<Rightarrow> string \<Rightarrow> string \<Rightarrow> string \<Rightarrow> string \<Rightarrow> stage_row list \<Rightarrow> stage_row list" where
  "stamp_stage e sid status decision_id actor =
     update_where (\<lambda>r. st_id r = sid \<and> st_status r = ''open'')
       (\<lambda>r. r\<lparr>st_status := status, st_decision_id := Some decision_id, st_decided_by := Some actor,
              st_decided_at := Some (db_now e)\<rparr>)"

definition open_stage :: "string \<Rightarrow> stage_row list \<Rightarrow> stage_row list" where
  "open_stage sid = update_where (\<lambda>r. st_id r = sid \<and> st_status r = ''pending'') (\<lambda>r. r\<lparr>st_status := ''open''\<rparr>)"

definition apply_stage_decision :: "env \<Rightarrow> stage_row \<Rightarrow> string \<Rightarrow> string \<Rightarrow> string \<Rightarrow> db \<Rightarrow> db res" where
  "apply_stage_decision e stage decision decision_id actor s =
     (let status = (if decision = ''approve'' then ''approved'' else ''rejected'');
          s1 = s\<lparr>approval_stages := stamp_stage e (st_id stage) status decision_id actor (approval_stages s)\<rparr>
      in if \<not> exists_row (\<lambda>r. st_id r = st_id stage \<and> st_status r = ''open'') (approval_stages s) then Inr s1
         else if status = ''rejected'' then roll_up_subject e stage ''reject'' s1
         else let siblings = list_subject_stages s1 (st_subject_type stage) (st_subject_id stage) (Some (st_review_round stage))
              in if list_all (\<lambda>r. st_status r = ''approved'') siblings then roll_up_subject e stage ''approve'' s1
                 else if st_mode stage = ''sequence'' then
                   (case find (\<lambda>r. st_status r = ''pending'') siblings of
                      None \<Rightarrow> Inr s1
                    | Some nxt \<Rightarrow>
                        Inr (notify_stage_opened e (nxt\<lparr>st_status := ''open''\<rparr>)
                               (s1\<lparr>approval_stages := open_stage (st_id nxt) (approval_stages s1)\<rparr>)))
                 else Inr s1)"

definition sync_decision_to_stages :: "env \<Rightarrow> string \<Rightarrow> string \<Rightarrow> string \<Rightarrow> string \<Rightarrow> string \<Rightarrow> db \<Rightarrow> db res" where
  "sync_decision_to_stages e target_type target_id decision actor decision_id s =
     (if decision \<notin> {''approve'', ''reject''} then Inr s
      else if target_type = ''approval_stage'' then
        (case by_key st_id target_id (approval_stages s) of
           None \<Rightarrow> Inr s | Some stage \<Rightarrow> apply_stage_decision e stage decision decision_id actor s)
      else if target_type = ''review_task'' then
        (case list_subject_stages s ''review_task'' target_id (Some 0) of
           [stage] \<Rightarrow>
             if st_status stage = ''open''
             then Inr (s\<lparr>approval_stages := stamp_stage e (st_id stage)
                    (if decision = ''approve'' then ''approved'' else ''rejected'') decision_id actor (approval_stages s)\<rparr>)
             else Inr s
         | _ \<Rightarrow> Inr s)
      else Inr s)"

section \<open>What a decision leaves alone\<close>

lemma notify_intake_decided_frame [simp]:
  "approval_stages (notify_intake_decided e i k st s) = approval_stages s"
  "review_tasks (notify_intake_decided e i k st s) = review_tasks s"
  "ai_use_cases (notify_intake_decided e i k st s) = ai_use_cases s"
  "vendor_registry (notify_intake_decided e i k st s) = vendor_registry s"
  "governance_decisions (notify_intake_decided e i k st s) = governance_decisions s"
  by (simp_all add: notify_intake_decided_def Let_def split: option.splits)

lemma decide_use_case_frame [simp]:
  "approval_stages (decide_use_case e task st s) = approval_stages s"
  "review_tasks (decide_use_case e task st s) = review_tasks s"
  "vendor_registry (decide_use_case e task st s) = vendor_registry s"
  "governance_decisions (decide_use_case e task st s) = governance_decisions s"
  by (simp_all add: decide_use_case_def Let_def)

lemma decide_task_frame [simp]:
  "approval_stages (decide_task e k st s) = approval_stages s"
  "vendor_registry (decide_task e k st s) = vendor_registry s"
  "governance_decisions (decide_task e k st s) = governance_decisions s"
  by (simp_all add: decide_task_def Let_def split: option.splits)

lemma apply_decision_status_frame [simp]:
  "approval_stages (apply_decision_status e ty k d s) = approval_stages s"
  "vendor_registry (apply_decision_status e ty k d s) = vendor_registry s"
  "governance_decisions (apply_decision_status e ty k d s) = governance_decisions s"
  by (simp_all add: apply_decision_status_def split: option.splits)

lemma notify_stage_opened_frame [simp]:
  "approval_stages (notify_stage_opened e r s) = approval_stages s"
  "review_tasks (notify_stage_opened e r s) = review_tasks s"
  "ai_use_cases (notify_stage_opened e r s) = ai_use_cases s"
  "vendor_registry (notify_stage_opened e r s) = vendor_registry s"
  "governance_decisions (notify_stage_opened e r s) = governance_decisions s"
  by (simp_all add: notify_stage_opened_def Let_def)

lemma roll_up_stages: "roll_up_subject e stage d s = Inr s' \<Longrightarrow> approval_stages s' = approval_stages s"
  by (auto simp: roll_up_subject_def Let_def ebind_eq_Inr split: if_splits)

section \<open>Identifiers of stages\<close>

text \<open>The platform relies on content hashes being distinct for distinct contents.\<close>

definition collision_free :: "env \<Rightarrow> bool" where
  "collision_free e \<longleftrightarrow> inj (env_sha256 e)"

definition subject_types :: "string list" where
  "subject_types = [''review_task'', ''vendor_review'']"

lemma stage_id_inj:
  assumes "collision_free e" "ty \<in> set subject_types" "ty' \<in> set subject_types"
    and "stage_id e ty sid rd i = stage_id e ty' sid' rd' i'"
  shows "ty = ty' \<and> sid = sid' \<and> rd = rd' \<and> i = i'"
proof -
  let ?bar = "CHR ''|''"
  have eq: "ty @ ?bar # sid @ ?bar # str_int rd @ ?bar # str_int i = ty' @ ?bar # sid' @ ?bar # str_int rd' @ ?bar # str_int i'"
    using assms(1,4) unfolding collision_free_def stage_id_def entity_id_def by (simp add: inj_eq)
  have bars: "?bar \<notin> set ty" "?bar \<notin> set ty'" using assms(2,3) by (auto simp: subject_types_def)
  from split_first_inj [OF bars eq] have 1: "ty = ty'" "sid @ ?bar # str_int rd @ ?bar # str_int i = sid' @ ?bar # str_int rd' @ ?bar # str_int i'"
    by simp_all
  then have 12: "(sid @ ?bar # str_int rd) @ ?bar # str_int i = (sid' @ ?bar # str_int rd') @ ?bar # str_int i'" by simp
  from split_last_inj [OF bar_not_in_str_int bar_not_in_str_int 12]
  have 2: "sid @ ?bar # str_int rd = sid' @ ?bar # str_int rd'" "str_int i = str_int i'" by simp_all
  from split_last_inj [OF bar_not_in_str_int bar_not_in_str_int 2(1)]
  have "sid = sid'" "str_int rd = str_int rd'" by simp_all
  with 1 2 show ?thesis by (auto dest: str_int_inj)
qed

section \<open>The checklist as a state machine\<close>

definition same_subject :: "stage_row \<Rightarrow> stage_row \<Rightarrow> bool" where
  "same_subject a b \<longleftrightarrow> of_subject (st_subject_type b) (st_subject_id b) (st_review_round b) a"

definition decided :: "stage_row \<Rightarrow> bool" where
  "decided r \<longleftrightarrow> st_status r \<in> {''approved'', ''rejected''}"

text \<open>
  Row by row: the id is the content hash, the status one of four, a decider exactly when decided.
  Pairwise: one mode per subject, and in a sequence nothing has left \<open>pending\<close> before everything
  in front of it is approved. Per subject: where something is pending, something is open or
  rejected, so the checklist is never stuck.
\<close>

definition stage_ok :: "env \<Rightarrow> stage_row \<Rightarrow> bool" where
  "stage_ok e r \<longleftrightarrow> st_subject_type r \<in> set subject_types \<and>
     st_id r = stage_id e (st_subject_type r) (st_subject_id r) (st_review_round r) (st_index r) \<and>
     st_mode r \<in> {''sequence'', ''parallel''} \<and>
     st_status r \<in> {''pending'', ''open'', ''approved'', ''rejected''} \<and>
     (st_mode r = ''parallel'' \<longrightarrow> st_status r \<noteq> ''pending'') \<and>
     (decided r \<longleftrightarrow> st_decided_by r \<noteq> None)"

definition in_order :: "stage_row list \<Rightarrow> bool" where
  "in_order t \<longleftrightarrow> (\<forall>a\<in>set t. \<forall>b\<in>set t. same_subject a b \<longrightarrow>
     st_mode a = st_mode b \<and>
     (st_mode b = ''sequence'' \<and> st_index a < st_index b \<and> st_status b \<noteq> ''pending'' \<longrightarrow> st_status a = ''approved''))"

definition not_stuck :: "stage_row list \<Rightarrow> bool" where
  "not_stuck t \<longleftrightarrow> (\<forall>a\<in>set t. st_status a = ''pending'' \<longrightarrow>
     (\<exists>b\<in>set t. same_subject b a \<and> st_status b \<in> {''open'', ''rejected''}))"

definition stages_ok :: "env \<Rightarrow> stage_row list \<Rightarrow> bool" where
  "stages_ok e t \<longleftrightarrow> pk st_id t \<and> (\<forall>r\<in>set t. stage_ok e r) \<and> in_order t \<and> not_stuck t"

lemma stages_okD:
  assumes "stages_ok e t"
  shows "pk st_id t" "\<And>r. r \<in> set t \<Longrightarrow> stage_ok e r" "in_order t" "not_stuck t"
  using assms by (simp_all add: stages_ok_def)

text \<open>A stage row moves only forward, and a decided one not at all.\<close>

definition stage_rank :: "string \<Rightarrow> nat" where
  "stage_rank st = (if st = ''pending'' then 0 else if st = ''open'' then 1 else 2)"

definition stage_moved :: "stage_row \<Rightarrow> stage_row \<Rightarrow> bool" where
  "stage_moved x y \<longleftrightarrow>
     y = x\<lparr>st_status := st_status y, st_decision_id := st_decision_id y, st_decided_by := st_decided_by y,
           st_decided_at := st_decided_at y\<rparr> \<and>
     (decided x \<longrightarrow> y = x) \<and> stage_rank (st_status x) \<le> stage_rank (st_status y)"

definition stages_kept :: "stage_row list \<Rightarrow> stage_row list \<Rightarrow> bool" where
  "stages_kept t t' \<longleftrightarrow> (\<forall>x\<in>set t. \<exists>y\<in>set t'. stage_moved x y)"

lemma stage_moved_refl [simp]: "stage_moved x x"
  by (simp add: stage_moved_def)

lemma stage_moved_trans:
  assumes "stage_moved x y" "stage_moved y z"
  shows "stage_moved x z"
proof -
  have "z = x\<lparr>st_status := st_status z, st_decision_id := st_decision_id z, st_decided_by := st_decided_by z,
           st_decided_at := st_decided_at z\<rparr>"
    using assms unfolding stage_moved_def by (cases x; cases y; cases z) simp
  then show ?thesis using assms unfolding stage_moved_def by auto
qed

lemma stages_kept_refl: "stages_kept t t"
  unfolding stages_kept_def by (metis stage_moved_refl)

lemma stages_kept_trans: "stages_kept t u \<Longrightarrow> stages_kept u v \<Longrightarrow> stages_kept t v"
  unfolding stages_kept_def by (meson stage_moved_trans)

lemma stages_kept_map: "(\<And>x. x \<in> set t \<Longrightarrow> stage_moved x (f x)) \<Longrightarrow> stages_kept t (map f t)"
  unfolding stages_kept_def by auto

lemma stages_kept_append: "stages_kept t (t @ u)"
  unfolding stages_kept_def by (metis Un_iff set_append stage_moved_refl)

end
