(* ===== verification/Approval_Stages.thy ===== *)
theory Approval_Stages
  imports Approvals
begin

text \<open>
  The stage checklist is a state machine: every operation that writes \<open>approval_stages\<close> keeps the
  order of a sequence, never leaves a checklist stuck, and never touches a decided stage.
\<close>

section \<open>Replacing one row\<close>

definition replace_row :: "'r \<Rightarrow> 'r \<Rightarrow> 'r list \<Rightarrow> 'r list" where
  "replace_row x y t = map (\<lambda>r. if r = x then y else r) t"

lemma replace_row_cases: "r \<in> set (replace_row x y t) \<Longrightarrow> r = y \<or> r \<in> set t \<and> r \<noteq> x"
  by (auto simp: replace_row_def)

lemma replace_row_new: "x \<in> set t \<Longrightarrow> y \<in> set (replace_row x y t)"
  by (auto simp: replace_row_def image_iff)

lemma replace_row_old: "r \<in> set t \<Longrightarrow> r \<noteq> x \<Longrightarrow> r \<in> set (replace_row x y t)"
  by (auto simp: replace_row_def image_iff)

lemma pk_replace_row: "pk key t \<Longrightarrow> key y = key x \<Longrightarrow> pk key (replace_row x y t)"
proof -
  assume "pk key t" "key y = key x"
  moreover from this have "map key (replace_row x y t) = map key t" by (auto simp: replace_row_def)
  ultimately show ?thesis by (simp add: pk_def)
qed

lemma update_where_one:
  assumes "pk key t" "x \<in> set t" "p x"
  shows "update_where (\<lambda>r. key r = key x \<and> p r) f t = replace_row x (f x) t"
proof -
  have "(key r = key x \<and> p r) = (r = x)" if "r \<in> set t" for r
    using assms that unfolding pk_def by (metis distinct_map inj_onD)
  then show ?thesis unfolding update_where_def replace_row_def by (intro map_cong) auto
qed

section \<open>One transition\<close>

definition same_slot :: "stage_row \<Rightarrow> stage_row \<Rightarrow> bool" where
  "same_slot x y \<longleftrightarrow> st_id y = st_id x \<and> st_subject_type y = st_subject_type x \<and> st_subject_id y = st_subject_id x \<and>
     st_review_round y = st_review_round x \<and> st_mode y = st_mode x \<and> st_index y = st_index x"

lemma same_subject_slot:
  "same_slot x y \<Longrightarrow> same_subject y b = same_subject x b" "same_slot x y \<Longrightarrow> same_subject b y = same_subject b x"
  by (simp_all add: same_slot_def same_subject_def of_subject_def)

lemma same_subject_refl [simp]: "same_subject x x"
  by (simp add: same_subject_def of_subject_def)

lemma same_subject_sym: "same_subject x y \<Longrightarrow> same_subject y x"
  by (auto simp: same_subject_def of_subject_def)

lemma same_subject_trans: "same_subject x y \<Longrightarrow> same_subject y z \<Longrightarrow> same_subject x z"
  by (auto simp: same_subject_def of_subject_def)

lemma in_orderD:
  assumes "in_order t" "a \<in> set t" "b \<in> set t" "same_subject a b"
  shows "st_mode a = st_mode b"
    and "st_mode b = ''sequence'' \<Longrightarrow> st_index a < st_index b \<Longrightarrow> st_status b \<noteq> ''pending'' \<Longrightarrow> st_status a = ''approved''"
  using assms unfolding in_order_def by blast+

lemma in_order_replace:
  assumes ord: "in_order t" and x: "x \<in> set t" and slot: "same_slot x y" and nx: "st_status x \<noteq> ''approved''"
    and front: "\<And>a. a \<in> set t \<Longrightarrow> same_subject a x \<Longrightarrow> st_mode x = ''sequence'' \<Longrightarrow> st_index a < st_index x \<Longrightarrow> st_status a = ''approved''"
  shows "in_order (replace_row x y t)"
  unfolding in_order_def
proof (intro ballI impI)
  fix a b
  assume ab: "a \<in> set (replace_row x y t)" "b \<in> set (replace_row x y t)" "same_subject a b"
  have slot': "st_mode y = st_mode x" "st_index y = st_index x" using slot by (simp_all add: same_slot_def)
  consider "a = y" "b = y" | "a = y" "b \<in> set t" "b \<noteq> x" | "a \<in> set t" "a \<noteq> x" "b = y" | "a \<in> set t" "b \<in> set t"
    using replace_row_cases [OF ab(1)] replace_row_cases [OF ab(2)] by blast
  then show "st_mode a = st_mode b \<and>
     (st_mode b = ''sequence'' \<and> st_index a < st_index b \<and> st_status b \<noteq> ''pending'' \<longrightarrow> st_status a = ''approved'')"
  proof cases
    case 1
    then show ?thesis by simp
  next
    case 2
    then show ?thesis using in_orderD [OF ord x 2(2)] ab(3) same_subject_slot(1) [OF slot] slot' nx by auto
  next
    case 3
    then have "same_subject a x" using ab(3) same_subject_slot(2) [OF slot] by simp
    then show ?thesis using in_orderD(1) [OF ord 3(1) x] front [OF 3(1)] 3 slot' by auto
  next
    case 4
    then show ?thesis using in_orderD [OF ord 4(1,2) ab(3)] by blast
  qed
qed

lemma not_stuck_replace:
  assumes ns: "not_stuck t" and x: "x \<in> set t" and slot: "same_slot x y" and y: "st_status y \<noteq> ''pending''"
    and own: "st_status y \<in> {''open'', ''rejected''} \<or> (\<forall>a\<in>set t. same_subject x a \<longrightarrow> a = x \<or> st_status a \<noteq> ''pending'')"
  shows "not_stuck (replace_row x y t)"
  unfolding not_stuck_def
proof (intro ballI impI)
  fix a
  assume a: "a \<in> set (replace_row x y t)" "st_status a = ''pending''"
  have at: "a \<in> set t" "a \<noteq> x" using replace_row_cases [OF a(1)] a(2) y by auto
  obtain b where b: "b \<in> set t" "same_subject b a" "st_status b \<in> {''open'', ''rejected''}"
    using ns a(2) at(1) unfolding not_stuck_def by blast
  show "\<exists>b\<in>set (replace_row x y t). same_subject b a \<and> st_status b \<in> {''open'', ''rejected''}"
  proof (cases "b = x")
    case True
    then have "st_status y \<in> {''open'', ''rejected''}" using own at b(2) a(2) by blast
    then show ?thesis using replace_row_new [OF x] b(2) True same_subject_slot(1) [OF slot] by blast
  next
    case False
    then show ?thesis using replace_row_old [OF b(1)] b by blast
  qed
qed

text \<open>Stamping the open stage \<open>x\<close>.\<close>

definition stamped :: "env \<Rightarrow> string \<Rightarrow> string \<Rightarrow> string \<Rightarrow> stage_row \<Rightarrow> stage_row" where
  "stamped e status decision_id actor r =
     r\<lparr>st_status := status, st_decision_id := Some decision_id, st_decided_by := Some actor, st_decided_at := Some (db_now e)\<rparr>"

lemma stamped_slot [simp]: "same_slot r (stamped e st d a r)" "st_status (stamped e st d a r) = st"
    "st_decided_by (stamped e st d a r) = Some a" "st_id (stamped e st d a r) = st_id r"
  by (simp_all add: same_slot_def stamped_def)

lemma stamp_stage_replace:
  assumes "pk st_id t" "x \<in> set t" "st_status x = ''open''"
  shows "stamp_stage e (st_id x) st d a t = replace_row x (stamped e st d a x) t"
  unfolding stamp_stage_def stamped_def by (rule update_where_one) (use assms in simp_all)

lemma stamped_ok:
  assumes "stage_ok e x" "st \<in> {''approved'', ''rejected''}"
  shows "stage_ok e (stamped e' st d a x)"
  using assms by (auto simp: stage_ok_def stamped_def decided_def)

lemma stamped_moved: "st_status x = ''open'' \<Longrightarrow> st \<in> {''approved'', ''rejected''} \<Longrightarrow> stage_moved x (stamped e st d a x)"
  by (auto simp: stage_moved_def stamped_def decided_def stage_rank_def)

lemma stages_kept_replace: "stage_moved x y \<Longrightarrow> stages_kept t (replace_row x y t)"
  unfolding replace_row_def by (rule stages_kept_map) simp

text \<open>What a stamp keeps; the subject's checklist may need its next stage opened.\<close>

lemma stamp_keeps:
  assumes ok: "stages_ok e t" and x: "x \<in> set t" "st_status x = ''open''" and st: "st \<in> {''approved'', ''rejected''}"
    and def: "t' = stamp_stage e' (st_id x) st d a t"
  shows "pk st_id t'" "\<And>r. r \<in> set t' \<Longrightarrow> stage_ok e r" "in_order t'" "stages_kept t t'"
proof -
  let ?y = "stamped e' st d a x"
  have t': "t' = replace_row x ?y t"
    unfolding def by (rule stamp_stage_replace) (use ok x in \<open>simp_all add: stages_ok_def\<close>)
  show "pk st_id t'" unfolding t' using stages_okD(1) [OF ok] by (rule pk_replace_row) simp
  show "stage_ok e r" if "r \<in> set t'" for r
    using that stages_okD(2) [OF ok] stamped_ok x(1) st unfolding t' by (metis replace_row_cases)
  show "in_order t'" unfolding t'
    by (rule in_order_replace [OF stages_okD(3) [OF ok] x(1)])
      (use x in_orderD(2) [OF stages_okD(3) [OF ok] _ x(1)] in auto)
  show "stages_kept t t'" unfolding t' by (rule stages_kept_replace) (rule stamped_moved [OF x(2) st])
qed

lemma reject_stamp_ok:
  assumes ok: "stages_ok e t" and x: "x \<in> set t" "st_status x = ''open''"
  shows "stages_ok e (stamp_stage e' (st_id x) ''rejected'' d a t)"
proof -
  have "not_stuck (replace_row x (stamped e' ''rejected'' d a x) t)"
    by (rule not_stuck_replace [OF stages_okD(4) [OF ok] x(1)]) simp_all
  then have "not_stuck (stamp_stage e' (st_id x) ''rejected'' d a t)"
    using stamp_stage_replace [OF stages_okD(1) [OF ok] x] by simp
  then show ?thesis using stamp_keeps [OF ok x _ refl, of "''rejected''"] unfolding stages_ok_def by simp
qed

lemma approve_stamp_not_stuck:
  assumes ok: "stages_ok e t" and x: "x \<in> set t" "st_status x = ''open''"
    and none: "\<And>r. r \<in> set t \<Longrightarrow> same_subject x r \<Longrightarrow> st_status r \<noteq> ''pending''"
  shows "stages_ok e (stamp_stage e' (st_id x) ''approved'' d a t)"
proof -
  have "not_stuck (replace_row x (stamped e' ''approved'' d a x) t)"
    by (rule not_stuck_replace [OF stages_okD(4) [OF ok] x(1)]) (use none in simp_all)
  then have "not_stuck (stamp_stage e' (st_id x) ''approved'' d a t)"
    using stamp_stage_replace [OF stages_okD(1) [OF ok] x] by simp
  then show ?thesis using stamp_keeps [OF ok x _ refl, of "''approved''"] unfolding stages_ok_def by simp
qed

text \<open>Approving the open stage of a sequence and opening the next pending one.\<close>

definition opened :: "stage_row \<Rightarrow> stage_row" where
  "opened r = r\<lparr>st_status := ''open''\<rparr>"

lemma opened_slot [simp]: "same_slot r (opened r)" "st_status (opened r) = ''open''" "st_id (opened r) = st_id r"
  by (simp_all add: same_slot_def opened_def)

lemma open_stage_replace:
  assumes "pk st_id t" "x \<in> set t" "st_status x = ''pending''"
  shows "open_stage (st_id x) t = replace_row x (opened x) t"
  unfolding open_stage_def opened_def by (rule update_where_one) (use assms in simp_all)

lemma opened_ok: "stage_ok e x \<Longrightarrow> st_status x = ''pending'' \<Longrightarrow> stage_ok e (opened x)"
  by (auto simp: stage_ok_def opened_def decided_def)

lemma opened_moved: "st_status x = ''pending'' \<Longrightarrow> stage_moved x (opened x)"
  by (auto simp: stage_moved_def opened_def decided_def stage_rank_def)

lemma sequence_others:
  assumes ok: "stages_ok e t" and x: "x \<in> set t" "st_status x = ''open''" "st_mode x = ''sequence''"
    and a: "a \<in> set t" "a \<noteq> x" "same_subject a x" "st_status a \<noteq> ''pending''"
  shows "st_status a = ''approved''"
proof -
  have mode: "st_mode a = ''sequence''" using in_orderD(1) [OF stages_okD(3) [OF ok] a(1) x(1) a(3)] x(3) by simp
  have "st_id a \<noteq> st_id x" using stages_okD(1) [OF ok] a(1,2) x(1) unfolding pk_def by (metis distinct_map inj_onD)
  then have "st_index a \<noteq> st_index x"
    using stages_okD(2) [OF ok a(1)] stages_okD(2) [OF ok x(1)] a(3)
    by (auto simp: stage_ok_def same_subject_def of_subject_def)
  then show ?thesis
    using in_orderD(2) [OF stages_okD(3) [OF ok] a(1) x(1) a(3)] in_orderD(2) [OF stages_okD(3) [OF ok] x(1) a(1)]
      same_subject_sym [OF a(3)] mode x a(4) by fastforce
qed

lemma open_next_ok:
  assumes ok: "stages_ok e t" and x: "x \<in> set t" "st_status x = ''open''" "st_mode x = ''sequence''"
    and t1: "t1 = stamp_stage e' (st_id x) ''approved'' d a t"
    and n: "n \<in> set t1" "st_status n = ''pending''" "same_subject n x"
    and first: "\<And>r. r \<in> set t1 \<Longrightarrow> same_subject r x \<Longrightarrow> st_index r < st_index n \<Longrightarrow> st_status r \<noteq> ''pending''"
  shows "stages_ok e (open_stage (st_id n) t1)" "stages_kept t1 (open_stage (st_id n) t1)"
proof -
  note k = stamp_keeps [OF ok x(1,2) _ t1, simplified]
  let ?y = "stamped e' ''approved'' d a x"
  have t1': "t1 = replace_row x ?y t" unfolding t1 by (rule stamp_stage_replace [OF stages_okD(1) [OF ok] x(1,2)])
  have t2: "open_stage (st_id n) t1 = replace_row n (opened n) t1" by (rule open_stage_replace [OF k(1) n(1,2)])
  show "stages_kept t1 (open_stage (st_id n) t1)" unfolding t2 by (rule stages_kept_replace) (rule opened_moved [OF n(2)])
  have front: "st_status r = ''approved''" if "r \<in> set t1" "same_subject r n" "st_index r < st_index n" for r
  proof (cases "r = ?y")
    case False
    have rt: "r \<in> set t" "r \<noteq> x" using replace_row_cases [OF that(1) [unfolded t1']] False by simp_all
    have rx: "same_subject r x" using that(2) n(3) by (rule same_subject_trans)
    show ?thesis by (rule sequence_others [OF ok x rt rx]) (rule first [OF that(1) rx that(3)])
  qed simp
  have "in_order (open_stage (st_id n) t1)"
    unfolding t2 by (rule in_order_replace [OF k(3) n(1)]) (use front n(2) in simp_all)
  moreover have "not_stuck (open_stage (st_id n) t1)"
    unfolding not_stuck_def
  proof (intro ballI impI)
    fix r
    assume r: "r \<in> set (open_stage (st_id n) t1)" "st_status r = ''pending''"
    have "r \<noteq> opened n" using r(2) by auto
    then have r1: "r \<in> set t1" "r \<noteq> n" using replace_row_cases [OF r(1) [unfolded t2]] by simp_all
    have rt: "r \<in> set t" using replace_row_cases [OF r1(1) [unfolded t1']] r(2) by auto
    show "\<exists>b\<in>set (open_stage (st_id n) t1). same_subject b r \<and> st_status b \<in> {''open'', ''rejected''}"
    proof (cases "same_subject x r")
      case True
      then have "same_subject (opened n) r" using n(3) same_subject_trans same_subject_slot(1) [OF opened_slot(1)] by blast
      then show ?thesis unfolding t2 using replace_row_new [OF n(1)] opened_slot(2) by blast
    next
      case False
      obtain b where b: "b \<in> set t" "same_subject b r" "st_status b \<in> {''open'', ''rejected''}"
        using stages_okD(4) [OF ok] rt r(2) unfolding not_stuck_def by blast
      then have "b \<in> set t1" "b \<noteq> n" using False n(2) replace_row_old [of b t x] unfolding t1' by auto
      then show ?thesis unfolding t2 using b replace_row_old [of b t1 n] by blast
    qed
  qed
  moreover have "stage_ok e r" if "r \<in> set (open_stage (st_id n) t1)" for r
    using that k(2) opened_ok n(1,2) unfolding t2 by (metis replace_row_cases)
  moreover have "pk st_id (open_stage (st_id n) t1)" unfolding t2 using k(1) by (rule pk_replace_row) simp
  ultimately show "stages_ok e (open_stage (st_id n) t1)" unfolding stages_ok_def by blast
qed

section \<open>Deciding a stage\<close>

lemma set_subject_stages:
  "set (list_subject_stages s ty sid (Some rd)) = {r \<in> set (approval_stages s). of_subject ty sid rd r}"
  by (simp add: list_subject_stages_def)

lemma sibling_iff: "of_subject (st_subject_type x) (st_subject_id x) (st_review_round x) r \<longleftrightarrow> same_subject r x"
  by (simp add: same_subject_def)

lemma stamp_not_open:
  assumes "\<not> exists_row (\<lambda>r. st_id r = sid \<and> st_status r = ''open'') t"
  shows "stamp_stage e sid st d a t = t"
  unfolding stamp_stage_def by (rule update_where_none) (use assms in \<open>simp add: exists_row_def list_ex_iff\<close>)

lemma exists_open_iff:
  assumes "pk st_id t" "x \<in> set t"
  shows "exists_row (\<lambda>r. st_id r = st_id x \<and> st_status r = ''open'') t \<longleftrightarrow> st_status x = ''open''"
  using assms unfolding exists_row_def list_ex_iff pk_def by (metis distinct_map inj_onD)

text \<open>The rows after a stage decision: unchanged, stamped, or stamped with the next stage opened.\<close>

lemma apply_stage_decision_cases:
  assumes "apply_stage_decision e x decision d a s = Inr s'" and pk: "pk st_id (approval_stages s)" and x: "x \<in> set (approval_stages s)"
  obtains (closed) "st_status x \<noteq> ''open''" "s' = s"
    | (reject) "st_status x = ''open''" "decision \<noteq> ''approve''"
        "approval_stages s' = stamp_stage e (st_id x) ''rejected'' d a (approval_stages s)"
    | (last) "st_status x = ''open''" "decision = ''approve''"
        "approval_stages s' = stamp_stage e (st_id x) ''approved'' d a (approval_stages s)"
        "\<And>r. r \<in> set (approval_stages s') \<Longrightarrow> same_subject r x \<Longrightarrow> st_status r = ''approved''"
    | (next_stage) n where "st_status x = ''open''" "decision = ''approve''" "st_mode x = ''sequence''"
        "n \<in> set (stamp_stage e (st_id x) ''approved'' d a (approval_stages s))" "st_status n = ''pending''" "same_subject n x"
        "\<And>r. r \<in> set (stamp_stage e (st_id x) ''approved'' d a (approval_stages s)) \<Longrightarrow> same_subject r x \<Longrightarrow>
           st_index r < st_index n \<Longrightarrow> st_status r \<noteq> ''pending''"
        "approval_stages s' = open_stage (st_id n) (stamp_stage e (st_id x) ''approved'' d a (approval_stages s))"
        "review_tasks s' = review_tasks s" "ai_use_cases s' = ai_use_cases s" "vendor_registry s' = vendor_registry s"
    | (waiting) "st_status x = ''open''" "decision = ''approve''"
        "s' = s\<lparr>approval_stages := stamp_stage e (st_id x) ''approved'' d a (approval_stages s)\<rparr>"
        "st_mode x = ''sequence'' \<Longrightarrow> \<forall>r\<in>set (approval_stages s'). same_subject r x \<longrightarrow> st_status r \<noteq> ''pending''"
proof (cases "st_status x = ''open''")
  case False
  then have ne: "\<not> exists_row (\<lambda>r. st_id r = st_id x \<and> st_status r = ''open'') (approval_stages s)"
    using exists_open_iff [OF pk x] by simp
  then have "s' = s" using assms(1) stamp_not_open [OF ne] by (simp add: apply_stage_decision_def Let_def)
  with False show thesis by (rule closed)
next
  case True
  then have ex: "exists_row (\<lambda>r. st_id r = st_id x \<and> st_status r = ''open'') (approval_stages s)"
    using exists_open_iff [OF pk x] by simp
  show thesis
  proof (cases "decision = ''approve''")
    case False
    then have "roll_up_subject e x ''reject'' (s\<lparr>approval_stages := stamp_stage e (st_id x) ''rejected'' d a (approval_stages s)\<rparr>) = Inr s'"
      using assms(1) ex by (simp add: apply_stage_decision_def Let_def)
    then show thesis using reject [OF True False] roll_up_stages by fastforce
  next
    case app: True
    let ?t = "stamp_stage e (st_id x) ''approved'' d a (approval_stages s)"
    let ?s1 = "s\<lparr>approval_stages := ?t\<rparr>"
    let ?sib = "list_subject_stages ?s1 (st_subject_type x) (st_subject_id x) (Some (st_review_round x))"
    have sib: "r \<in> set ?sib \<longleftrightarrow> r \<in> set ?t \<and> same_subject r x" for r
      by (simp add: set_subject_stages sibling_iff)
    have eq: "(if list_all (\<lambda>r. st_status r = ''approved'') ?sib then roll_up_subject e x ''approve'' ?s1
       else if st_mode x = ''sequence'' then
         (case find (\<lambda>r. st_status r = ''pending'') ?sib of None \<Rightarrow> Inr ?s1
          | Some nxt \<Rightarrow> Inr (notify_stage_opened e (nxt\<lparr>st_status := ''open''\<rparr>) (?s1\<lparr>approval_stages := open_stage (st_id nxt) ?t\<rparr>)))
       else Inr ?s1) = Inr s'"
      using assms(1) ex app by (simp add: apply_stage_decision_def Let_def cong: if_cong option.case_cong split del: if_split)
    show thesis
    proof (cases "list_all (\<lambda>r. st_status r = ''approved'') ?sib")
      case all: True
      then have "approval_stages s' = ?t" using eq roll_up_stages by fastforce
      moreover have "st_status r = ''approved''" if "r \<in> set ?t" "same_subject r x" for r
        using all sib that by (simp add: list_all_iff)
      ultimately show thesis using last [OF True app] by simp
    next
      case some: False
      show thesis
      proof (cases "st_mode x = ''sequence''")
        case False
        then show thesis using eq some waiting [OF True app] by auto
      next
        case seq: True
        show thesis
        proof (cases "find (\<lambda>r. st_status r = ''pending'') ?sib")
          case None
          then have "\<forall>r\<in>set ?t. same_subject r x \<longrightarrow> st_status r \<noteq> ''pending''" using sib by (auto simp: find_None_iff)
          then show thesis using eq some seq None waiting [OF True app] by auto
        next
          case (Some n)
          have "find (\<lambda>r. st_status r = ''pending'') (sort_key st_index
              (filter (of_subject (st_subject_type x) (st_subject_id x) (st_review_round x)) ?t)) = Some n"
            using Some by (simp add: list_subject_stages_def)
          note f = find_sort_key_first [OF this]
          show thesis
            by (rule next_stage [OF True app seq, of n])
              (use f eq some seq Some in \<open>auto simp: sibling_iff\<close>)
        qed
      qed
    qed
  qed
qed

lemma apply_stage_decision_ok:
  assumes ok: "stages_ok e0 (approval_stages s)" and x: "x \<in> set (approval_stages s)"
    and r: "apply_stage_decision e x decision d a s = Inr s'"
  shows "stages_ok e0 (approval_stages s') \<and> stages_kept (approval_stages s) (approval_stages s')"
  using r stages_okD(1) [OF ok] x
proof (cases rule: apply_stage_decision_cases)
  case closed
  then show ?thesis using ok stages_kept_refl by simp
next
  case reject
  then show ?thesis using reject_stamp_ok [OF ok x] stamp_keeps(4) [OF ok x _ _ refl] by simp
next
  case last
  let ?y = "stamped e ''approved'' d a x"
  have t': "approval_stages s' = replace_row x ?y (approval_stages s)"
    unfolding last(3) by (rule stamp_stage_replace [OF stages_okD(1) [OF ok] x last(1)])
  have "st_status r \<noteq> ''pending''" if r: "r \<in> set (approval_stages s)" "same_subject x r" for r
  proof (cases "r = x")
    case True
    then show ?thesis using last(1) by simp
  next
    case False
    then have "r \<in> set (approval_stages s')" unfolding t' by (rule replace_row_old [OF r(1)])
    then show ?thesis using last(4) same_subject_sym [OF r(2)] by auto
  qed
  then show ?thesis using approve_stamp_not_stuck [OF ok x last(1)] stamp_keeps(4) [OF ok x last(1) _ refl] last(3) by simp
next
  case (next_stage n)
  note k = open_next_ok [OF ok x next_stage(1,3) refl next_stage(4-7)]
  then show ?thesis
    using stamp_keeps(4) [OF ok x next_stage(1) _ refl, of "''approved''" e d a] stages_kept_trans next_stage(8) by auto
next
  case waiting
  have "st_status r \<noteq> ''pending''" if r: "r \<in> set (approval_stages s)" "same_subject x r" for r
  proof (cases "st_mode x = ''sequence''")
    case True
    let ?y = "stamped e ''approved'' d a x"
    have t': "approval_stages s' = replace_row x ?y (approval_stages s)"
      unfolding waiting(3) by (simp add: stamp_stage_replace [OF stages_okD(1) [OF ok] x waiting(1)])
    show ?thesis
    proof (cases "r = x")
      case False
      then have "r \<in> set (approval_stages s')" unfolding t' by (rule replace_row_old [OF r(1)])
      then show ?thesis using waiting(4) [OF True] same_subject_sym [OF r(2)] by blast
    qed (use waiting(1) in simp)
  next
    case False
    then have "st_mode r = ''parallel''"
      using in_orderD(1) [OF stages_okD(3) [OF ok] x r(1) r(2)] stages_okD(2) [OF ok x] by (auto simp: stage_ok_def)
    then show ?thesis using stages_okD(2) [OF ok r(1)] by (simp add: stage_ok_def)
  qed
  then show ?thesis using approve_stamp_not_stuck [OF ok x waiting(1)] stamp_keeps(4) [OF ok x waiting(1) _ refl] waiting(3) by simp
qed

lemma sync_decision_cases:
  assumes r: "sync_decision_to_stages e ty k decision a d s = Inr s'"
  obtains (same) "s' = s"
    | (stage) x where "ty = ''approval_stage''" "by_key st_id k (approval_stages s) = Some x"
        "decision \<in> {''approve'', ''reject''}" "apply_stage_decision e x decision d a s = Inr s'"
    | (single) x where "ty = ''review_task''" "list_subject_stages s ''review_task'' k (Some 0) = [x]" "st_status x = ''open''"
        "s' = s\<lparr>approval_stages := stamp_stage e (st_id x) (if decision = ''approve'' then ''approved'' else ''rejected'') d a (approval_stages s)\<rparr>"
proof (cases "decision \<in> {''approve'', ''reject''} \<and> ty \<in> {''approval_stage'', ''review_task''}")
  case False
  then have "s' = s" using r by (auto simp: sync_decision_to_stages_def split: if_splits)
  then show thesis by (rule same)
next
  case True
  show thesis
  proof (cases "ty = ''approval_stage''")
    case ty: True
    show thesis
    proof (cases "by_key st_id k (approval_stages s)")
      case None
      then have "s' = s" using r True ty by (auto simp: sync_decision_to_stages_def)
      then show thesis by (rule same)
    next
      case (Some x)
      then have "apply_stage_decision e x decision d a s = Inr s'" using r True ty by (auto simp: sync_decision_to_stages_def)
      then show thesis using stage [OF ty Some] True by simp
    qed
  next
    case False
    then have ty: "ty = ''review_task''" using True by simp
    show thesis
    proof (cases "\<exists>x. list_subject_stages s ''review_task'' k (Some 0) = [x] \<and> st_status x = ''open''")
      case None: False
      then have "s' = s" using r True ty by (auto simp: sync_decision_to_stages_def split: list.splits if_splits)
      then show thesis by (rule same)
    next
      case One: True
      then obtain x where x: "list_subject_stages s ''review_task'' k (Some 0) = [x]" "st_status x = ''open''" by blast
      have "decision = ''approve'' \<or> decision = ''reject''" using True by simp
      then have "sync_decision_to_stages e ''review_task'' k decision a d s = Inr (s\<lparr>approval_stages :=
          stamp_stage e (st_id x) (if decision = ''approve'' then ''approved'' else ''rejected'') d a (approval_stages s)\<rparr>)"
        by (elim disjE) (simp_all add: sync_decision_to_stages_def x)
      then show thesis using single [OF ty x] r ty by simp
    qed
  qed
qed

lemma sync_decision_ok:
  assumes ok: "stages_ok e0 (approval_stages s)" and r: "sync_decision_to_stages e ty k decision a d s = Inr s'"
  shows "stages_ok e0 (approval_stages s') \<and> stages_kept (approval_stages s) (approval_stages s')"
  using r
proof (cases rule: sync_decision_cases)
    case same
    then show ?thesis using ok stages_kept_refl by simp
  next
    case (stage x)
    show ?thesis by (rule apply_stage_decision_ok [OF ok _ stage(4)]) (use by_key_Some [OF stage(2)] in simp)
  next
    case (single x)
    have own: "r = x \<longleftrightarrow> r \<in> set (approval_stages s) \<and> of_subject ''review_task'' k 0 r" for r
      using set_subject_stages [of s "''review_task''" k 0] single(2) by auto
    have x: "x \<in> set (approval_stages s)" and xs: "of_subject ''review_task'' k 0 x" using own [of x] by simp_all
    have only: "r = x" if "r \<in> set (approval_stages s)" "same_subject x r" for r
      using own [of r] that xs by (simp add: same_subject_def of_subject_def)
    have "st_status r \<noteq> ''pending''" if "r \<in> set (approval_stages s)" "same_subject x r" for r
      using only [OF that] single(3) by simp
    then have "stages_ok e0 (stamp_stage e (st_id x) ''approved'' d a (approval_stages s))"
      by (rule approve_stamp_not_stuck [OF ok x single(3)])
    then show ?thesis
      using reject_stamp_ok [OF ok x single(3)] stamp_keeps(4) [OF ok x single(3) _ refl] single(4) by simp
qed

section \<open>Materializing a checklist\<close>

lemma make_stage_simps:
  "st_id (make_stage e b mode pt pv (i, c)) = stage_id e (sb_type b) (sb_id b) (sb_round b) (int i)"
  "of_subject (sb_type b) (sb_id b) (sb_round b) (make_stage e b mode pt pv (i, c))"
  "st_index (make_stage e b mode pt pv (i, c)) = int i" "st_mode (make_stage e b mode pt pv (i, c)) = mode"
  "st_status (make_stage e b mode pt pv (i, c)) = (if mode = ''parallel'' \<or> i = 0 then ''open'' else ''pending'')"
  "st_decided_by (make_stage e b mode pt pv (i, c)) = None"
  "st_subject_type (make_stage e b mode pt pv (i, c)) = sb_type b" "st_subject_id (make_stage e b mode pt pv (i, c)) = sb_id b"
  "st_review_round (make_stage e b mode pt pv (i, c)) = sb_round b"
  by (simp_all add: make_stage_def of_subject_def split: prod.splits)

definition new_stages :: "env \<Rightarrow> subject_ref \<Rightarrow> string \<Rightarrow> string \<Rightarrow> int \<Rightarrow> (string \<times> string option) list \<Rightarrow> stage_row list" where
  "new_stages e b mode pt pv cols = map (make_stage e b mode pt pv) (enumerate 0 cols)"

lemma new_stages_mem:
  assumes "r \<in> set (new_stages e b mode pt pv cols)"
  obtains i c where "i < length cols" "r = make_stage e b mode pt pv (i, c)"
  using assms unfolding new_stages_def by (auto simp: in_set_enumerate_eq)

lemma new_stages_first:
  assumes "cols \<noteq> []"
  shows "\<exists>r\<in>set (new_stages e b mode pt pv cols). st_status r = ''open'' \<and> of_subject (sb_type b) (sb_id b) (sb_round b) r"
proof -
  have "(0, hd cols) \<in> set (enumerate 0 cols)" using assms by (simp add: in_set_enumerate_eq hd_conv_nth)
  then have "make_stage e b mode pt pv (0, hd cols) \<in> set (new_stages e b mode pt pv cols)" by (simp add: new_stages_def)
  then show ?thesis by (rule bexI [rotated]) (simp add: make_stage_simps)
qed

lemma materialize_append:
  assumes ok: "stages_ok e (approval_stages s)" and cf: "collision_free e" and ty: "sb_type b \<in> set subject_types"
    and none: "\<not> exists_row (of_subject (sb_type b) (sb_id b) (sb_round b)) (approval_stages s)"
  shows "fold (insert_or_ignore st_id) (new_stages e b mode pt pv cols) (approval_stages s) =
    approval_stages s @ new_stages e b mode pt pv cols"
proof (rule fold_insert_fresh)
  have inj: "i = j" if "stage_id e (sb_type b) (sb_id b) (sb_round b) (int i) = stage_id e (sb_type b) (sb_id b) (sb_round b) (int j)" for i j
    using stage_id_inj [OF cf ty ty that] by simp
  have "map st_id (new_stages e b mode pt pv cols) = map (\<lambda>i. stage_id e (sb_type b) (sb_id b) (sb_round b) (int i)) [0..<length cols]"
    unfolding new_stages_def by (rule nth_equalityI) (simp_all add: nth_enumerate_eq make_stage_simps)
  then show "distinct (map st_id (new_stages e b mode pt pv cols))"
    using inj by (simp add: distinct_map inj_on_def)
  show "set (map st_id (new_stages e b mode pt pv cols)) \<inter> set (map st_id (approval_stages s)) = {}"
  proof (rule ccontr)
    assume "\<not> ?thesis"
    then obtain x y where x: "x \<in> set (approval_stages s)" and y: "y \<in> set (new_stages e b mode pt pv cols)" and eq: "st_id x = st_id y"
      by (auto simp: image_iff disjoint_iff)
    obtain i c where yi: "y = make_stage e b mode pt pv (i, c)" using new_stages_mem [OF y] by blast
    have "stage_ok e x" by (rule stages_okD(2) [OF ok x])
    then have "stage_id e (st_subject_type x) (st_subject_id x) (st_review_round x) (st_index x) =
        stage_id e (sb_type b) (sb_id b) (sb_round b) (int i)" "st_subject_type x \<in> set subject_types"
      using eq yi by (simp_all add: stage_ok_def make_stage_simps)
    then have "of_subject (sb_type b) (sb_id b) (sb_round b) x" using stage_id_inj [OF cf _ ty] by (auto simp: of_subject_def)
    then show False using none x by (auto simp: exists_row_def list_ex_iff)
  qed
qed

lemma new_stage_ok:
  assumes "sb_type b \<in> set subject_types" "mode \<in> {''sequence'', ''parallel''}" "r \<in> set (new_stages e b mode pt pv cols)"
  shows "stage_ok e r"
proof -
  obtain i c where "r = make_stage e b mode pt pv (i, c)" using assms(3) by (rule new_stages_mem)
  then show ?thesis using assms(1,2) by (auto simp: stage_ok_def make_stage_simps decided_def)
qed

lemma in_order_append:
  assumes ord: "in_order t" and none: "\<And>r. r \<in> set t \<Longrightarrow> \<not> of_subject (sb_type b) (sb_id b) (sb_round b) r"
  shows "in_order (t @ new_stages e b mode pt pv cols)"
  unfolding in_order_def
proof (intro ballI impI)
  fix x y
  assume m: "x \<in> set (t @ new_stages e b mode pt pv cols)" "y \<in> set (t @ new_stages e b mode pt pv cols)" and ss: "same_subject x y"
  have new: "of_subject (sb_type b) (sb_id b) (sb_round b) z" if "z \<in> set (new_stages e b mode pt pv cols)" for z
    using new_stages_mem [OF that] make_stage_simps(2) by metis
  have "of_subject (sb_type b) (sb_id b) (sb_round b) x = of_subject (sb_type b) (sb_id b) (sb_round b) y"
    using ss by (simp add: same_subject_def of_subject_def)
  then consider "x \<in> set t" "y \<in> set t" | "x \<in> set (new_stages e b mode pt pv cols)" "y \<in> set (new_stages e b mode pt pv cols)"
    using m none [of x] none [of y] new [of x] new [of y] by auto
  then show "st_mode x = st_mode y \<and>
     (st_mode y = ''sequence'' \<and> st_index x < st_index y \<and> st_status y \<noteq> ''pending'' \<longrightarrow> st_status x = ''approved'')"
  proof cases
    case 1
    then show ?thesis using in_orderD [OF ord 1 ss] by blast
  next
    case 2
    obtain i c where x: "x = make_stage e b mode pt pv (i, c)" using new_stages_mem [OF 2(1)] by blast
    obtain j c' where y: "y = make_stage e b mode pt pv (j, c')" using new_stages_mem [OF 2(2)] by blast
    show ?thesis by (simp add: x y make_stage_simps)
  qed
qed

lemma not_stuck_append:
  assumes ns: "not_stuck t"
  shows "not_stuck (t @ new_stages e b mode pt pv cols)"
  unfolding not_stuck_def
proof (intro ballI impI)
  fix x
  assume x: "x \<in> set (t @ new_stages e b mode pt pv cols)" "st_status x = ''pending''"
  show "\<exists>y\<in>set (t @ new_stages e b mode pt pv cols). same_subject y x \<and> st_status y \<in> {''open'', ''rejected''}"
  proof (cases "x \<in> set t")
    case True
    then show ?thesis using ns x(2) unfolding not_stuck_def by auto
  next
    case False
    then have new: "x \<in> set (new_stages e b mode pt pv cols)" using x(1) by simp
    then obtain i c where xi: "x = make_stage e b mode pt pv (i, c)" by (rule new_stages_mem)
    have "cols \<noteq> []" using new by (auto simp: new_stages_def)
    then obtain y where "y \<in> set (new_stages e b mode pt pv cols)" "st_status y = ''open''" "of_subject (sb_type b) (sb_id b) (sb_round b) y"
      using new_stages_first by blast
    then show ?thesis by (intro bexI [of _ y]) (simp_all add: xi same_subject_def make_stage_simps)
  qed
qed

lemma pk_fold_insert: "pk key t \<Longrightarrow> pk key (fold (insert_or_ignore key) rows t)"
  by (induction rows arbitrary: t) (auto intro: pk_insert_or_ignore)

lemma materialize_stages_ok:
  assumes ok: "stages_ok e (approval_stages s)" and cf: "collision_free e" and ty: "sb_type b \<in> set subject_types"
    and mode: "mode \<in> {''sequence'', ''parallel''}"
    and r: "materialize_stages e b stages mode pt pv s = Inr (s', created)"
  shows "stages_ok e (approval_stages s') \<and> stages_kept (approval_stages s) (approval_stages s')"
proof (cases "exists_row (of_subject (sb_type b) (sb_id b) (sb_round b)) (approval_stages s)")
  case True
  then show ?thesis using r ok stages_kept_refl by (simp add: materialize_stages_def)
next
  case False
  obtain cols where "s' = s\<lparr>approval_stages := fold (insert_or_ignore st_id) (new_stages e b mode pt pv cols) (approval_stages s)\<rparr>"
    using r False by (auto simp: materialize_stages_def ebind_eq_Inr Let_def new_stages_def)
  then have s': "approval_stages s' = approval_stages s @ new_stages e b mode pt pv cols"
    using materialize_append [OF ok cf ty False] by simp
  have none: "\<not> of_subject (sb_type b) (sb_id b) (sb_round b) r" if "r \<in> set (approval_stages s)" for r
    using False that by (simp add: exists_row_def list_ex_iff)
  have "pk st_id (approval_stages s')"
    unfolding s' materialize_append [OF ok cf ty False, symmetric] by (rule pk_fold_insert [OF stages_okD(1) [OF ok]])
  then show ?thesis
    unfolding s' stages_ok_def using ok new_stage_ok [OF ty mode] in_order_append [OF stages_okD(3) [OF ok] none]
      not_stuck_append [OF stages_okD(4) [OF ok]] stages_kept_append
    by (auto simp: stages_ok_def)
qed

section \<open>Runs of the checklist\<close>

text \<open>
  The operations that write stage rows, each at its own time: materializing a subject's list and
  applying a recorded decision. The callers materialize only the two subject types and the two
  modes of a validated policy.
\<close>

datatype stage_op =
    StMaterialize int subject_ref json string string int
  | StDecide int string string string string string

fun stage_step :: "env \<Rightarrow> stage_op \<Rightarrow> db \<Rightarrow> db" where
  "stage_step e (StMaterialize t b stages mode pt pv) s =
     (if sb_type b \<in> set subject_types \<and> mode \<in> {''sequence'', ''parallel''}
      then case materialize_stages (at_time e t) b stages mode pt pv s of Inl _ \<Rightarrow> s | Inr (s', _) \<Rightarrow> s' else s)"
| "stage_step e (StDecide t ty k decision actor decision_id) s =
     (case sync_decision_to_stages (at_time e t) ty k decision actor decision_id s of Inl _ \<Rightarrow> s | Inr s' \<Rightarrow> s')"

lemma stages_ok_at_time [simp]: "stages_ok (at_time e t) rows = stages_ok e rows"
  by (simp add: stages_ok_def stage_ok_def stage_id_def entity_id_def)

lemma collision_free_at_time [simp]: "collision_free (at_time e t) = collision_free e"
  by (simp add: collision_free_def)

definition stages_inv :: "env \<Rightarrow> db \<Rightarrow> bool" where
  "stages_inv e s \<longleftrightarrow> collision_free e \<and> stages_ok e (approval_stages s)"

lemma stage_step_ok:
  assumes inv: "stages_inv e s"
  shows "stages_ok e (approval_stages (stage_step e op s)) \<and> stages_kept (approval_stages s) (approval_stages (stage_step e op s))"
proof (cases op)
  case (StMaterialize t b stages mode pt pv)
  have here: "stages_ok (at_time e t) (approval_stages s)" "collision_free (at_time e t)" using inv by (simp_all add: stages_inv_def)
  show ?thesis
  proof (cases "sb_type b \<in> set subject_types \<and> mode \<in> {''sequence'', ''parallel''}")
    case False
    then show ?thesis using inv StMaterialize stages_kept_refl by (auto simp: stages_inv_def)
  next
    case True
    show ?thesis
    proof (cases "materialize_stages (at_time e t) b stages mode pt pv s")
      case (Inl x)
      then show ?thesis using inv StMaterialize stages_kept_refl by (simp add: stages_inv_def)
    next
      case (Inr r)
      obtain s' created where r: "r = (s', created)" by (cases r)
      show ?thesis using materialize_stages_ok [OF here _ _ Inr [unfolded r]] True StMaterialize Inr r by simp
    qed
  qed
next
  case (StDecide t ty k decision a d)
  have here: "stages_ok e (approval_stages s)" using inv by (simp add: stages_inv_def)
  show ?thesis
  proof (cases "sync_decision_to_stages (at_time e t) ty k decision a d s")
    case (Inl x)
    then show ?thesis using here StDecide stages_kept_refl by simp
  next
    case (Inr s')
    show ?thesis using sync_decision_ok [OF here Inr] StDecide Inr by simp
  qed
qed

interpretation stages: monotone_ops "stage_step e" "stages_inv e" "\<lambda>s s'. stages_kept (approval_stages s) (approval_stages s')" for e
proof
  fix s t u :: db and op
  show "stages_kept (approval_stages s) (approval_stages s)" by (rule stages_kept_refl)
  show "stages_kept (approval_stages s) (approval_stages t) \<Longrightarrow> stages_kept (approval_stages t) (approval_stages u) \<Longrightarrow>
      stages_kept (approval_stages s) (approval_stages u)" by (rule stages_kept_trans)
  assume "stages_inv e s"
  then show "stages_inv e (stage_step e op s)" "stages_kept (approval_stages s) (approval_stages (stage_step e op s))"
    using stage_step_ok [of e s op] by (simp_all add: stages_inv_def)
qed

section \<open>Approving makes progress\<close>

definition unapproved :: "stage_row \<Rightarrow> stage_row list \<Rightarrow> nat" where
  "unapproved x t = length (filter (\<lambda>r. same_subject r x \<and> st_status r \<noteq> ''approved'') t)"

definition no_rejection :: "stage_row \<Rightarrow> stage_row list \<Rightarrow> bool" where
  "no_rejection x t \<longleftrightarrow> list_all (\<lambda>r. same_subject r x \<longrightarrow> st_status r \<noteq> ''rejected'') t"

lemma open_stage_exists:
  assumes ok: "stages_ok e t" and x: "x \<in> set t" "st_status x \<noteq> ''approved''" and nr: "no_rejection x t"
  shows "\<exists>y\<in>set t. same_subject y x \<and> st_status y = ''open''"
proof (cases "st_status x = ''pending''")
  case True
  then obtain y where "y \<in> set t" "same_subject y x" "st_status y \<in> {''open'', ''rejected''}"
    using stages_okD(4) [OF ok] x(1) unfolding not_stuck_def by blast
  then show ?thesis using nr by (intro bexI [of _ y]) (auto simp: no_rejection_def list_all_iff)
next
  case False
  then have "st_status x = ''open''"
    using stages_okD(2) [OF ok x(1)] x nr by (auto simp: stage_ok_def no_rejection_def list_all_iff)
  then show ?thesis using x(1) by (intro bexI [of _ x]) simp_all
qed

lemma length_filter_map_le:
  assumes "\<And>r. r \<in> set t \<Longrightarrow> P (f r) \<Longrightarrow> P r"
  shows "length (filter P (map f t)) \<le> length (filter P t)"
  using assms
proof (induction t)
  case (Cons a t)
  then have "length (filter P (map f t)) \<le> length (filter P t)" by simp
  then show ?case using Cons.prems [of a] by auto
qed simp

lemma length_filter_map_less:
  assumes "\<And>r. r \<in> set t \<Longrightarrow> P (f r) \<Longrightarrow> P r" "x \<in> set t" "P x" "\<not> P (f x)"
  shows "length (filter P (map f t)) < length (filter P t)"
  using assms
proof (induction t)
  case (Cons a t)
  show ?case
  proof (cases "a = x")
    case True
    have "length (filter P (map f t)) \<le> length (filter P t)" by (rule length_filter_map_le) (use Cons.prems(1) in simp)
    then show ?thesis using Cons.prems(3,4) True by (simp add: less_Suc_eq_le)
  next
    case False
    then have "length (filter P (map f t)) < length (filter P t)" using Cons by simp
    then show ?thesis using Cons.prems(1) [of a] by auto
  qed
qed simp

lemma stamp_unapproved:
  assumes "y \<in> set t" "st_status y = ''open''" "same_subject y x"
  shows "unapproved x (stamp_stage e (st_id y) ''approved'' d a t) < unapproved x t"
  unfolding unapproved_def stamp_stage_def update_where_def
  by (rule length_filter_map_less [of _ _ _ y]) (use assms in \<open>auto simp: same_subject_def of_subject_def split: if_splits\<close>)

lemma open_unapproved: "unapproved x (open_stage k t) \<le> unapproved x t"
  unfolding unapproved_def open_stage_def update_where_def
  by (rule length_filter_map_le) (auto simp: same_subject_def of_subject_def split: if_splits)

lemma no_rejection_stamp: "no_rejection x t \<Longrightarrow> no_rejection x (stamp_stage e k ''approved'' d a t)"
  unfolding no_rejection_def list_all_iff stamp_stage_def set_update_where
  by (auto simp: same_subject_def of_subject_def)

lemma no_rejection_open: "no_rejection x t \<Longrightarrow> no_rejection x (open_stage k t)"
  unfolding no_rejection_def list_all_iff open_stage_def set_update_where
  by (auto simp: same_subject_def of_subject_def)

lemma approve_total:
  assumes "st_subject_type y = ''review_task''"
  shows "\<exists>s'. apply_stage_decision e y decision d a s = Inr s'"
  using assms unfolding apply_stage_decision_def Let_def
  by (simp add: roll_up_subject_def split: option.splits)

lemma approve_progress:
  assumes ok: "stages_ok e0 (approval_stages s)" and y: "y \<in> set (approval_stages s)" "st_status y = ''open''" "same_subject y x"
    and nr: "no_rejection x (approval_stages s)" and r: "apply_stage_decision e y ''approve'' d a s = Inr s'"
  shows "unapproved x (approval_stages s') < unapproved x (approval_stages s) \<and> no_rejection x (approval_stages s')"
  using r stages_okD(1) [OF ok] y(1)
proof (cases rule: apply_stage_decision_cases)
  case (next_stage n)
  have "unapproved x (approval_stages s') \<le> unapproved x (stamp_stage e (st_id y) ''approved'' d a (approval_stages s))"
    unfolding next_stage(8) by (rule open_unapproved)
  also have "\<dots> < unapproved x (approval_stages s)" by (rule stamp_unapproved [OF y])
  finally show ?thesis using no_rejection_open no_rejection_stamp [OF nr] next_stage(8) by simp
qed (use y stamp_unapproved [OF y] no_rejection_stamp [OF nr] in simp_all)

end
