(* ===== verification/Review_Queue.thy ===== *)
theory Review_Queue
  imports Approvals
begin

text \<open>
  The review queue and ownership (storage/workflow.py): policies with an organization's own laid
  over the platform defaults, routing of open tasks to a role and a person, due dates and
  escalation, notifications on transitions, and the owner assignments the owner policies create.
\<close>

section \<open>Policies laid over the defaults\<close>

text \<open>
  The loop of \<open>list_queue_policies\<close> and \<open>list_owner_policies\<close> over the rows ordered by policy id:
  the first row of a policy id takes the place, an organization's own row replaces what is there.
\<close>

definition overlay_step :: "('r \<Rightarrow> string) \<Rightarrow> ('r \<Rightarrow> string) \<Rightarrow> 'r \<Rightarrow> 'r list \<Rightarrow> 'r list" where
  "overlay_step pid tid r acc =
     (if pid r \<notin> set (map pid acc) then acc @ [r]
      else if tid r \<noteq> [] then map (\<lambda>x. if pid x = pid r then r else x) acc else acc)"

definition overlay :: "('r \<Rightarrow> string) \<Rightarrow> ('r \<Rightarrow> string) \<Rightarrow> string option \<Rightarrow> 'r list \<Rightarrow> 'r list" where
  "overlay pid tid tenant rows =
     fold (overlay_step pid tid)
       (sort_key pid (filter (\<lambda>r. tid r = [] \<or> tid r = or_str tenant []) rows)) []"

definition list_queue_policies :: "db \<Rightarrow> string option \<Rightarrow> queue_policy list" where
  "list_queue_policies s tenant = overlay qp_policy_id qp_tenant_id tenant (review_queue_policies s)"

definition list_owner_policies :: "db \<Rightarrow> string option \<Rightarrow> owner_policy list" where
  "list_owner_policies s tenant = overlay op_policy_id op_tenant_id tenant (owner_assignment_policies s)"

definition DEFAULT_REVIEW_QUEUE_POLICIES :: "(string \<times> string \<times> string \<times> int \<times> int) list" where
  "DEFAULT_REVIEW_QUEUE_POLICIES =
     [(''default-intake'', ''intake_review'', ''governance_reviewer'', 5, 3),
      (''default-material-change'', ''material_change_review'', ''governance_admin'', 3, 2),
      (''default-recertification'', ''recertification_review'', ''governance_admin'', 14, 7)]"

definition qp_key :: "queue_policy \<Rightarrow> string \<times> string" where "qp_key r = (qp_tenant_id r, qp_policy_id r)"

definition seed_review_queue_policies :: "env \<Rightarrow> db \<Rightarrow> db" where
  "seed_review_queue_policies e s =
     s\<lparr>review_queue_policies := fold (insert_or_ignore qp_key)
        (map (\<lambda>(pid, ty, role, d, esc). \<lparr>qp_tenant_id = [], qp_policy_id = pid, qp_task_type = ty, qp_assigned_role = role,
            qp_due_days = d, qp_escalation_days = esc, qp_source = ''default'', qp_created_at = db_now e, qp_updated_at = db_now e\<rparr>)
          DEFAULT_REVIEW_QUEUE_POLICIES) (review_queue_policies s)\<rparr>"

record queue_policy_request =
  qr_policy_id :: string
  qr_task_type :: string
  qr_assigned_role :: string
  qr_due_days :: int
  qr_escalation_days :: int
  qr_source :: string

definition upsert_review_queue_policy :: "env \<Rightarrow> queue_policy_request \<Rightarrow> string \<Rightarrow> db \<Rightarrow> db res" where
  "upsert_review_queue_policy e q tenant s =
     (if tenant = [] then Inl (DomainErr ''a tenant_id is required to customize review routing'')
      else Inr (s\<lparr>review_queue_policies := upsert qp_key
        (\<lambda>r. r\<lparr>qp_task_type := qr_task_type q, qp_assigned_role := qr_assigned_role q, qp_due_days := qr_due_days q,
               qp_escalation_days := qr_escalation_days q, qp_source := qr_source q, qp_updated_at := db_now e\<rparr>)
        \<lparr>qp_tenant_id = tenant, qp_policy_id = qr_policy_id q, qp_task_type = qr_task_type q,
         qp_assigned_role = qr_assigned_role q, qp_due_days = qr_due_days q, qp_escalation_days = qr_escalation_days q,
         qp_source = qr_source q, qp_created_at = db_now e, qp_updated_at = db_now e\<rparr> (review_queue_policies s)\<rparr>))"

record owner_policy_request =
  ow_policy_id :: string
  ow_subject_type :: string
  ow_owner_role :: string
  ow_applies_to_status :: "string option"
  ow_source :: string

definition op_key :: "owner_policy \<Rightarrow> string \<times> string" where "op_key r = (op_tenant_id r, op_policy_id r)"

definition upsert_owner_policy :: "env \<Rightarrow> owner_policy_request \<Rightarrow> string \<Rightarrow> db \<Rightarrow> db res" where
  "upsert_owner_policy e q tenant s =
     (if tenant = [] then Inl (DomainErr ''a tenant_id is required to customize owner policies'')
      else Inr (s\<lparr>owner_assignment_policies := upsert op_key
        (\<lambda>r. r\<lparr>op_subject_type := ow_subject_type q, op_owner_role := ow_owner_role q,
               op_applies_to_status := ow_applies_to_status q, op_source := ow_source q, op_updated_at := db_now e\<rparr>)
        \<lparr>op_tenant_id = tenant, op_policy_id = ow_policy_id q, op_subject_type = ow_subject_type q,
         op_owner_role = ow_owner_role q, op_applies_to_status = ow_applies_to_status q, op_source = ow_source q,
         op_created_at = db_now e, op_updated_at = db_now e\<rparr> (owner_assignment_policies s)\<rparr>))"

section \<open>Routing\<close>

definition stage_route_role :: "db \<Rightarrow> string \<Rightarrow> string option" where
  "stage_route_role s task_id =
     map_option st_required_role (find (\<lambda>r. True) (sort_key st_index (filter (\<lambda>r. st_subject_type r = ''review_task'' \<and>
        st_subject_id r = task_id \<and> st_status r = ''open'' \<and> st_policy_tenant r \<noteq> []) (approval_stages s))))"

definition null_or :: "string option \<Rightarrow> string option \<Rightarrow> bool" where
  "null_or col v \<longleftrightarrow> col = None \<or> v \<noteq> None \<and> col = v"

definition null_last :: "string option \<Rightarrow> nat" where
  "null_last col = (if col = None then 1 else 0)"

definition assignee_candidates :: "db \<Rightarrow> review_task \<Rightarrow> string \<Rightarrow> role_assignment list" where
  "assignee_candidates s t role =
     filter (\<lambda>a. ra_role a = role \<and> ra_status a = ''active'' \<and>
                 exists_row (\<lambda>u. pu_user_ref u = ra_user_ref a \<and> pu_status u = ''active'') (platform_users s) \<and>
                 null_or (ra_tenant_id a) (rt_tenant_id t) \<and> null_or (ra_project a) (Some (rt_project t)) \<and>
                 null_or (ra_environment a) (Some (rt_environment t))) (role_assignments s)"

definition find_assignee :: "db \<Rightarrow> review_task \<Rightarrow> string \<Rightarrow> string option" where
  "find_assignee s t role =
     map_option ra_user_ref (find (\<lambda>a. True) (sort_key (\<lambda>a. (null_last (ra_tenant_id a), null_last (ra_project a),
        null_last (ra_environment a), ra_created_at a)) (assignee_candidates s t role)))"

definition shift_days :: "int \<Rightarrow> int \<Rightarrow> int" where
  "shift_days t days = (add_days t days div usec_per_sec) * usec_per_sec"

definition queue_status :: "env \<Rightarrow> int \<Rightarrow> int \<Rightarrow> string option \<Rightarrow> string" where
  "queue_status e due_at escalation_days assignee =
     (if assignee = None then ''unassigned''
      else if env_now e \<le> due_at then ''on_track''
      else if add_days due_at escalation_days < env_now e then ''escalated'' else ''overdue'')"

section \<open>Transitions of a task in the queue\<close>

record routing =
  ro_role :: "string option"
  ro_assignee :: "string option"
  ro_due :: "int option"
  ro_status :: string

definition due_text :: "int option \<Rightarrow> string" where
  "due_text d = (case d of None \<Rightarrow> ''None'' | Some t \<Rightarrow> db_text t)"

definition due_json :: "int option \<Rightarrow> json" where
  "due_json d = (case d of None \<Rightarrow> JNull | Some t \<Rightarrow> JStr (db_text t))"

definition task_title :: "review_task \<Rightarrow> string" where
  "task_title t = or_str (Some (rt_title t)) (or_str (Some (rt_task_type t)) (rt_id t))"

definition opt_text :: "string option \<Rightarrow> string" where
  "opt_text x = (case x of None \<Rightarrow> ''None'' | Some v \<Rightarrow> v)"

definition assigned_notice :: "env \<Rightarrow> review_task \<Rightarrow> routing \<Rightarrow> notice" where
  "assigned_notice e t r =
     \<lparr>no_tenant = rt_tenant_id t, no_event = ''review.assigned'', no_subject = ''Review assigned to you: '' @ task_title t,
      no_text = ''A '' @ rt_task_type t @ '' for '' @ rt_application_name t @ '' is routed to you as '' @ opt_text (ro_role r) @
        ''. Due '' @ due_text (ro_due r) @ ''.'',
      no_data = JObj [(''task_id'', JStr (rt_id t)), (''task_type'', JStr (rt_task_type t)),
        (''application_name'', JStr (rt_application_name t)), (''due_at'', due_json (ro_due r))],
      no_to_users = [opt_text (ro_assignee r)], no_to_roles = [], no_link = Some (public_base_url e @ ''/#review/'' @ rt_id t)\<rparr>"

definition late_data :: "review_task \<Rightarrow> routing \<Rightarrow> json" where
  "late_data t r = JObj [(''task_id'', JStr (rt_id t)), (''assigned_to'', opt_json (ro_assignee r)), (''due_at'', due_json (ro_due r))]"

definition to_assignee :: "routing \<Rightarrow> string list" where
  "to_assignee r = (if nonempty (ro_assignee r) then [the (ro_assignee r)] else [])"

definition overdue_notice :: "env \<Rightarrow> review_task \<Rightarrow> routing \<Rightarrow> notice" where
  "overdue_notice e t r =
     \<lparr>no_tenant = rt_tenant_id t, no_event = ''review.overdue'', no_subject = ''Review overdue: '' @ task_title t,
      no_text = ''The '' @ rt_task_type t @ '' for '' @ rt_application_name t @ '' was due '' @ due_text (ro_due r) @
        '' and has not been decided.'',
      no_data = late_data t r, no_to_users = to_assignee r, no_to_roles = [],
      no_link = Some (public_base_url e @ ''/#review/'' @ rt_id t)\<rparr>"

definition escalated_notice :: "env \<Rightarrow> review_task \<Rightarrow> routing \<Rightarrow> notice" where
  "escalated_notice e t r =
     \<lparr>no_tenant = rt_tenant_id t, no_event = ''review.escalated'', no_subject = ''Review escalated: '' @ task_title t,
      no_text = ''The '' @ rt_task_type t @ '' for '' @ rt_application_name t @ '' assigned to '' @ or_str (ro_assignee r) ''nobody'' @
        '' is past its escalation deadline (due '' @ due_text (ro_due r) @ ''). An administrator should reassign or decide it.'',
      no_data = late_data t r, no_to_users = to_assignee r, no_to_roles = [''org_admin''],
      no_link = Some (public_base_url e @ ''/#review/'' @ rt_id t)\<rparr>"

definition notify_queue_transition :: "env \<Rightarrow> review_task \<Rightarrow> routing \<Rightarrow> db \<Rightarrow> db" where
  "notify_queue_transition e t r s =
     (let s1 = (if nonempty (ro_assignee r) \<and> ro_assignee r \<noteq> rt_assigned_to t then emitted e (assigned_notice e t r) s else s);
          s2 = (if ro_status r = ''overdue'' \<and> rt_escalation_status t \<notin> {''overdue'', ''escalated''}
                then emitted e (overdue_notice e t r) s1 else s1)
      in if ro_status r = ''escalated'' \<and> rt_escalation_status t \<noteq> ''escalated'' then emitted e (escalated_notice e t r) s2 else s2)"

definition routed :: "env \<Rightarrow> routing \<Rightarrow> review_task \<Rightarrow> review_task" where
  "routed e r t =
     t\<lparr>rt_assigned_role := ro_role r, rt_assigned_to := ro_assignee r, rt_due_at := ro_due r, rt_escalation_status := ro_status r,
       rt_escalated_at := (case rt_escalated_at t of Some x \<Rightarrow> Some x
          | None \<Rightarrow> if ro_status r = ''escalated'' then Some (db_now e) else None),
       rt_updated_at := db_now e\<rparr>"

definition mark_review_task_queue_state :: "env \<Rightarrow> review_task \<Rightarrow> routing \<Rightarrow> db \<Rightarrow> db" where
  "mark_review_task_queue_state e t r s =
     (let s1 = notify_queue_transition e t r s
      in s1\<lparr>review_tasks := update_where (\<lambda>x. rt_id x = rt_id t) (routed e r) (review_tasks s1)\<rparr>)"

definition route_task :: "env \<Rightarrow> db \<Rightarrow> review_task \<Rightarrow> routing" where
  "route_task e s t =
     (case find (\<lambda>p. qp_task_type p = rt_task_type t) (list_queue_policies s (rt_tenant_id t)) of
        None \<Rightarrow> \<lparr>ro_role = None, ro_assignee = None, ro_due = None, ro_status = ''unassigned''\<rparr>
      | Some p \<Rightarrow>
          let role = or_str (stage_route_role s (rt_id t)) (qp_assigned_role p);
              who = find_assignee s t role;
              due_at = shift_days (rt_created_at t) (qp_due_days p)
          in \<lparr>ro_role = Some role, ro_assignee = who, ro_due = Some due_at,
              ro_status = queue_status e due_at (qp_escalation_days p) who\<rparr>)"

definition refresh_task :: "env \<Rightarrow> review_task \<Rightarrow> db \<Rightarrow> db" where
  "refresh_task e t s = mark_review_task_queue_state e t (route_task e s t) s"

definition refresh_review_queue :: "env \<Rightarrow> string option list option \<Rightarrow> db \<Rightarrow> db" where
  "refresh_review_queue e tenants s =
     fold (refresh_task e)
       (filter (\<lambda>t. rt_status t = ''open'' \<and> (case tenants of None \<Rightarrow> True | Some ts \<Rightarrow> rt_tenant_id t \<in> set ts)) (review_tasks s)) s"

section \<open>Owners\<close>

record app_scope =
  as_tenant_id :: "string option"
  as_project :: string
  as_environment :: string
  as_application_name :: string

definition owner_row :: "env \<Rightarrow> app_scope \<Rightarrow> string \<Rightarrow> string \<Rightarrow> string \<Rightarrow> string \<Rightarrow> owner_assignment" where
  "owner_row e c subject_type subject_name owner_role source =
     \<lparr>oa_id = entity_id e [Some ''owner-assignment'', as_tenant_id c, Some (as_project c), Some (as_environment c),
        Some (as_application_name c), Some subject_type, Some subject_name, Some owner_role],
      oa_tenant_id = as_tenant_id c, oa_project = as_project c, oa_environment = as_environment c,
      oa_application_name = as_application_name c, oa_subject_type = subject_type, oa_subject_name = subject_name,
      oa_owner_role = owner_role, oa_owner_ref = None, oa_status = ''unassigned'', oa_source = source,
      oa_created_at = db_now e, oa_updated_at = db_now e\<rparr>"

definition ensure_owner_assignment :: "env \<Rightarrow> app_scope \<Rightarrow> string \<Rightarrow> string \<Rightarrow> string \<Rightarrow> string \<Rightarrow> db \<Rightarrow> db" where
  "ensure_owner_assignment e c subject_type subject_name owner_role source s =
     s\<lparr>owner_assignments := insert_or_ignore oa_id (owner_row e c subject_type subject_name owner_role source) (owner_assignments s)\<rparr>"

definition apply_owner_policies :: "env \<Rightarrow> string \<Rightarrow> app_scope \<times> string \<times> string \<Rightarrow> db \<Rightarrow> db" where
  "apply_owner_policies e subject_type = (\<lambda>(c, subject_name, subject_status) s.
     fold (\<lambda>p. if op_subject_type p = subject_type \<and>
                  \<not> (nonempty (op_applies_to_status p) \<and> op_applies_to_status p \<noteq> Some subject_status)
               then ensure_owner_assignment e c subject_type subject_name (op_owner_role p) (op_source p) else id)
       (list_owner_policies s (as_tenant_id c)) s)"

definition in_scopes :: "app_scope list option \<Rightarrow> app_scope \<Rightarrow> bool" where
  "in_scopes wanted c \<longleftrightarrow> (case wanted of None \<Rightarrow> True | Some ws \<Rightarrow> c \<in> set ws)"

definition application_scope :: "application \<Rightarrow> app_scope" where
  "application_scope r = \<lparr>as_tenant_id = ga_tenant_id r, as_project = ga_project r, as_environment = ga_environment r,
     as_application_name = ga_application_name r\<rparr>"

definition incident_scope :: "incident \<Rightarrow> app_scope" where
  "incident_scope r = \<lparr>as_tenant_id = Some (ic_tenant_id r), as_project = ic_project r, as_environment = ic_environment r,
     as_application_name = ic_application_name r\<rparr>"

definition finding_scope :: "risk_finding \<Rightarrow> app_scope" where
  "finding_scope r = \<lparr>as_tenant_id = rf_tenant_id r, as_project = rf_project r, as_environment = rf_environment r,
     as_application_name = rf_application_name r\<rparr>"

definition assessment_scope :: "control_assessment \<Rightarrow> app_scope" where
  "assessment_scope r = \<lparr>as_tenant_id = ca_tenant_id r, as_project = ca_project r, as_environment = ca_environment r,
     as_application_name = ca_application_name r\<rparr>"

definition application_subjects :: "db \<Rightarrow> (app_scope \<times> string \<times> string) list" where
  "application_subjects s =
     map (\<lambda>c. (c, as_application_name c, ''active'')) (remdups (map application_scope (governance_applications s)))"

definition finding_subjects :: "db \<Rightarrow> (app_scope \<times> string \<times> string) list" where
  "finding_subjects s = remdups (map (\<lambda>r. (finding_scope r, rf_id r, ''open'')) (filter (\<lambda>r. rf_status r \<noteq> ''observed'') (risk_findings s)))"

definition assessment_subjects :: "db \<Rightarrow> (app_scope \<times> string \<times> string) list" where
  "assessment_subjects s =
     remdups (map (\<lambda>r. (assessment_scope r, ca_id r, ''missing'')) (filter (\<lambda>r. ca_status r = ''missing'') (control_assessments s)))"

definition incident_subjects :: "db \<Rightarrow> (app_scope \<times> string \<times> string) list" where
  "incident_subjects s =
     remdups (map (\<lambda>r. (incident_scope r, ic_id r, ic_status r)) (filter (\<lambda>r. ic_status r \<noteq> ''closed'') (governance_incidents s)))"

definition apply_to_subjects :: "env \<Rightarrow> app_scope list option \<Rightarrow> string \<Rightarrow> (app_scope \<times> string \<times> string) list \<Rightarrow> db \<Rightarrow> db" where
  "apply_to_subjects e wanted subject_type subjects s =
     fold (apply_owner_policies e subject_type) (filter (\<lambda>x. in_scopes wanted (fst x)) subjects) s"

definition refresh_workflow_state :: "env \<Rightarrow> app_scope list option \<Rightarrow> db \<Rightarrow> db" where
  "refresh_workflow_state e scopes s =
     (let s1 = apply_to_subjects e scopes ''application'' (application_subjects s) s;
          s2 = apply_to_subjects e scopes ''risk_finding'' (finding_subjects s1) s1;
          s3 = apply_to_subjects e scopes ''control_assessment'' (assessment_subjects s2) s2;
          s4 = apply_to_subjects e scopes ''incident'' (incident_subjects s3) s3
      in refresh_review_queue e (map_option (map as_tenant_id) scopes) s4)"

definition load_owner_assignment :: "db \<Rightarrow> string \<Rightarrow> owner_assignment res" where
  "load_owner_assignment s k =
     (case by_key oa_id k (owner_assignments s) of None \<Rightarrow> Inl (NotFound ''owner assignment not found'') | Some r \<Rightarrow> Inr r)"

definition assign_owner :: "env \<Rightarrow> string \<Rightarrow> string \<Rightarrow> string \<Rightarrow> db \<Rightarrow> (db \<times> owner_assignment) res" where
  "assign_owner e k owner_ref actor s =
     ebind (load_owner_assignment s k) (\<lambda>_.
     let s' = s\<lparr>owner_assignments := update_where (\<lambda>r. oa_id r = k)
                 (\<lambda>r. r\<lparr>oa_owner_ref := Some owner_ref, oa_status := ''assigned'', oa_source := ''assigned_by:'' @ actor,
                        oa_updated_at := db_now e\<rparr>) (owner_assignments s)\<rparr>
     in ebind (load_owner_assignment s' k) (\<lambda>r. Inr (s', r)))"

section \<open>What a refresh leaves alone\<close>

definition queue_frame :: "db \<Rightarrow> db \<Rightarrow> bool" where
  "queue_frame s s' \<longleftrightarrow> s' = s\<lparr>review_tasks := review_tasks s', owner_assignments := owner_assignments s',
     notification_outbox := notification_outbox s', outbox_seq := outbox_seq s'\<rparr>"

lemma queue_frame_refl [simp]: "queue_frame s s"
  by (simp add: queue_frame_def)

lemma queue_frame_trans: "queue_frame s t \<Longrightarrow> queue_frame t u \<Longrightarrow> queue_frame s u"
  unfolding queue_frame_def by (cases s; cases t; cases u) simp

lemma queue_frameD:
  assumes "queue_frame s s'"
  shows "approval_stages s' = approval_stages s" "ai_use_cases s' = ai_use_cases s" "role_assignments s' = role_assignments s"
    "platform_users s' = platform_users s" "role_permissions s' = role_permissions s" "vendor_registry s' = vendor_registry s"
    "governance_decisions s' = governance_decisions s" "governance_policies s' = governance_policies s"
    "review_queue_policies s' = review_queue_policies s" "owner_assignment_policies s' = owner_assignment_policies s"
    "risk_findings s' = risk_findings s" "control_assessments s' = control_assessments s"
    "governance_incidents s' = governance_incidents s" "governance_exceptions s' = governance_exceptions s"
  using assms unfolding queue_frame_def by (cases s; cases s'; simp)+

lemma queue_frame_emitted: "queue_frame s (emitted e n s)"
  using emitted_new_rows [of e n s] by (auto simp: queue_frame_def new_rows_def)

lemma queue_frame_notify: "queue_frame s (notify_queue_transition e t r s)"
proof -
  have step: "queue_frame s (if b then emitted e n u else u)" if "queue_frame s u" for b n u
    using that queue_frame_emitted queue_frame_trans by (cases b) simp_all
  show ?thesis unfolding notify_queue_transition_def Let_def by (intro step queue_frame_refl)
qed

lemma queue_frame_tasks: "queue_frame s (s\<lparr>review_tasks := ts\<rparr>)"
  unfolding queue_frame_def by (cases s) simp

lemma queue_frame_owners: "queue_frame s (s\<lparr>owner_assignments := os\<rparr>)"
  unfolding queue_frame_def by (cases s) simp

lemma queue_frame_refresh_task: "queue_frame s (refresh_task e t s)"
  unfolding refresh_task_def mark_review_task_queue_state_def Let_def
  by (rule queue_frame_trans [OF queue_frame_notify queue_frame_tasks])

lemma queue_frame_fold: "(\<And>x s. queue_frame s (f x s)) \<Longrightarrow> queue_frame s (fold f xs s)"
  by (induction xs arbitrary: s) (auto intro: queue_frame_trans)

lemma queue_frame_owner_policies: "queue_frame s (apply_owner_policies e ty x s)"
  unfolding apply_owner_policies_def split_beta
  by (rule queue_frame_fold) (auto simp: ensure_owner_assignment_def intro: queue_frame_owners)

lemma queue_frame_refresh_queue: "queue_frame s (refresh_review_queue e ts s)"
  unfolding refresh_review_queue_def by (rule queue_frame_fold) (rule queue_frame_refresh_task)

lemma queue_frame_subjects: "queue_frame s (apply_to_subjects e w ty xs s)"
  unfolding apply_to_subjects_def by (rule queue_frame_fold) (rule queue_frame_owner_policies)

lemma queue_frame_refresh: "queue_frame s (refresh_workflow_state e scopes s)"
  unfolding refresh_workflow_state_def Let_def
  by (rule queue_frame_trans [OF queue_frame_trans [OF queue_frame_trans [OF queue_frame_trans
      [OF queue_frame_subjects queue_frame_subjects] queue_frame_subjects] queue_frame_subjects] queue_frame_refresh_queue])

text \<open>Of a task, a refresh writes the routing columns only.\<close>

definition task_core :: "review_task \<Rightarrow> review_task" where
  "task_core t = t\<lparr>rt_assigned_role := None, rt_assigned_to := None, rt_due_at := None, rt_escalation_status := [],
     rt_escalated_at := None, rt_updated_at := 0\<rparr>"

lemma task_core_routed [simp]: "task_core (routed e r t) = task_core t"
  by (simp add: task_core_def routed_def)

lemma task_core_fields: "task_core a = task_core b \<Longrightarrow> rt_id a = rt_id b \<and> rt_status a = rt_status b \<and>
    rt_task_type a = rt_task_type b \<and> rt_change_id a = rt_change_id b \<and> rt_created_at a = rt_created_at b \<and> rt_tenant_id a = rt_tenant_id b"
  by (cases a; cases b) (simp add: task_core_def)

lemma notify_tasks [simp]: "review_tasks (notify_queue_transition e t r s) = review_tasks s"
  by (simp add: notify_queue_transition_def Let_def)

lemma refresh_task_core: "map task_core (review_tasks (refresh_task e t s)) = map task_core (review_tasks s)"
  by (simp add: refresh_task_def mark_review_task_queue_state_def Let_def update_where_def)

lemma fold_core: "(\<And>x s. map task_core (review_tasks (f x s)) = map task_core (review_tasks s)) \<Longrightarrow>
    map task_core (review_tasks (fold f xs s)) = map task_core (review_tasks s)"
  by (induction xs arbitrary: s) auto

lemma owner_policies_tasks [simp]: "review_tasks (apply_owner_policies e ty x s) = review_tasks s"
proof -
  have "review_tasks (fold (\<lambda>p. if P p then ensure_owner_assignment e c a b (f p) (g p) else id) ps s) = review_tasks s" for P c a b f g ps s
    by (induction ps arbitrary: s) (auto simp: ensure_owner_assignment_def)
  then show ?thesis by (simp add: apply_owner_policies_def split_beta)
qed

lemma apply_to_subjects_tasks [simp]: "review_tasks (apply_to_subjects e w ty xs s) = review_tasks s"
proof -
  have "review_tasks (fold (apply_owner_policies e ty) ys s) = review_tasks s" for ys s by (induction ys arbitrary: s) auto
  then show ?thesis by (simp add: apply_to_subjects_def)
qed

lemma refresh_core: "map task_core (review_tasks (refresh_workflow_state e scopes s)) = map task_core (review_tasks s)"
  by (simp add: refresh_workflow_state_def Let_def refresh_review_queue_def fold_core [OF refresh_task_core])

section \<open>Owners are never taken away\<close>

lemma owner_fold_keeps:
  "x \<in> set (owner_assignments s) \<Longrightarrow> x \<in> set (owner_assignments (apply_owner_policies e ty c s))"
proof -
  have "x \<in> set (owner_assignments s) \<Longrightarrow>
      x \<in> set (owner_assignments (fold (\<lambda>p. if P p then ensure_owner_assignment e c a b (f p) (g p) else id) ps s))" for P c a b f g ps s
    by (induction ps arbitrary: s) (auto simp: ensure_owner_assignment_def insert_or_ignore_keeps)
  then show "x \<in> set (owner_assignments s) \<Longrightarrow> ?thesis" by (simp add: apply_owner_policies_def split_beta)
qed

lemma owner_subjects_keep: "x \<in> set (owner_assignments s) \<Longrightarrow> x \<in> set (owner_assignments (apply_to_subjects e w ty xs s))"
proof -
  have "x \<in> set (owner_assignments s) \<Longrightarrow> x \<in> set (owner_assignments (fold (apply_owner_policies e ty) ys s))" for ys s
    by (induction ys arbitrary: s) (auto intro: owner_fold_keeps)
  then show "x \<in> set (owner_assignments s) \<Longrightarrow> ?thesis" by (simp add: apply_to_subjects_def)
qed

lemma refresh_queue_owners [simp]: "owner_assignments (refresh_review_queue e ts s) = owner_assignments s"
proof -
  have "owner_assignments (refresh_task e t s) = owner_assignments s" for t s
    by (simp add: refresh_task_def mark_review_task_queue_state_def notify_queue_transition_def Let_def)
  then have "owner_assignments (fold (refresh_task e) xs s) = owner_assignments s" for xs s by (induction xs arbitrary: s) auto
  then show ?thesis by (simp add: refresh_review_queue_def)
qed

lemma refresh_keeps_owners: "x \<in> set (owner_assignments s) \<Longrightarrow> x \<in> set (owner_assignments (refresh_workflow_state e scopes s))"
  by (simp add: refresh_workflow_state_def Let_def owner_subjects_keep)

section \<open>The assignee\<close>

lemma find_True_hd: "find (\<lambda>a. True) xs = (case xs of [] \<Rightarrow> None | x # _ \<Rightarrow> Some x)"
  by (cases xs) auto

lemma find_assignee_sound:
  assumes "find_assignee s t role = Some u"
  shows "\<exists>a\<in>set (assignee_candidates s t role). ra_user_ref a = u \<and>
    (\<forall>b\<in>set (assignee_candidates s t role). (null_last (ra_tenant_id a), null_last (ra_project a), null_last (ra_environment a), ra_created_at a) \<le>
       (null_last (ra_tenant_id b), null_last (ra_project b), null_last (ra_environment b), ra_created_at b))"
proof -
  let ?k = "\<lambda>a. (null_last (ra_tenant_id a), null_last (ra_project a), null_last (ra_environment a), ra_created_at a)"
  let ?c = "assignee_candidates s t role"
  obtain a xs where a: "sort_key ?k ?c = a # xs" "ra_user_ref a = u"
    using assms by (auto simp: find_assignee_def find_True_hd split: list.splits)
  have "sorted (map ?k (a # xs))" using sorted_sort_key [of ?k ?c] a(1) by simp
  moreover have "set (a # xs) = set ?c" using a(1) set_sort [of ?k ?c] by simp
  ultimately have "\<forall>b\<in>set ?c. ?k a \<le> ?k b" "a \<in> set ?c" by (simp_all only: list.map sorted_simps(2)) auto
  then show ?thesis using a(2) by (intro bexI [of _ a] conjI) simp_all
qed

lemma sort_key_Nil: "sort_key k xs = [] \<longleftrightarrow> xs = []"
  using length_sort [of k xs] by (cases "sort_key k xs"; cases xs) simp_all

lemma find_assignee_total: "find_assignee s t role = None \<longleftrightarrow> assignee_candidates s t role = []"
proof -
  have "find_assignee s t role = None \<longleftrightarrow> sort_key (\<lambda>a. (null_last (ra_tenant_id a), null_last (ra_project a),
        null_last (ra_environment a), ra_created_at a)) (assignee_candidates s t role) = []"
    by (auto simp: find_assignee_def find_True_hd split: list.splits)
  then show ?thesis by (simp add: sort_key_Nil)
qed

end
