(* ===== verification/Review_Properties.thy ===== *)
theory Review_Properties
  imports Approval_Stages Review_Queue
begin

text \<open>
  Properties of reviews: the stage checklist as a state machine, the evidence a vendor approval
  needs, and what routing may change.
\<close>

section \<open>A sample checklist\<close>

definition two_stages :: json where
  "two_stages = JArr [JObj [(''role'', JStr ''governance_reviewer'')], JObj [(''role'', JStr ''risk_owner'')]]"

definition sample_subject :: subject_ref where
  "sample_subject = \<lparr>sb_type = ''review_task'', sb_id = ''t1'', sb_round = 0, sb_tenant_id = Some ''acme'', sb_project = ''p'',
     sb_environment = ''prod'', sb_application_name = ''app''\<rparr>"

definition sample_ops :: "stage_op list" where
  "sample_ops = [StMaterialize 1 sample_subject two_stages ''sequence'' [] 1,
     StDecide 2 ''approval_stage'' (stage_id (sample_env 0) ''review_task'' ''t1'' 0 0) ''approve'' ''ann'' ''d1'']"

lemma sample_collision_free: "collision_free (sample_env t)"
  by (simp add: collision_free_def sample_env_def inj_def)

lemma empty_stages_inv: "stages_inv (sample_env t) empty_db"
  using sample_collision_free by (simp add: stages_inv_def stages_ok_def in_order_def not_stuck_def empty_db_def)

lemma sample_run_facts:
  "map st_status (approval_stages (fold (stage_step (sample_env 0)) sample_ops empty_db)) = [''approved'', ''open'']"
  by code_simp

section \<open>The checklist\<close>

text \<open>
  C8: whatever sequence of materializations and recorded decisions runs, the rows of the checklist
  stay well formed and every row moves only forward (pending, open, decided) and keeps its role,
  subject, order and policy version; a decided row never changes again.
\<close>

theorem stage_history_final:
  assumes "stages_inv e s"
  shows "stages_inv e (fold (stage_step e) ops s) \<and>
    stages_kept (approval_stages s) (approval_stages (fold (stage_step e) ops s))"
  using stages.run_inv [OF assms] stages.run_rel [OF assms] by blast

theorem stage_history_final_witness:
  "stages_inv (sample_env 0) (fold (stage_step (sample_env 0)) sample_ops empty_db) \<and>
   stages_kept (approval_stages empty_db) (approval_stages (fold (stage_step (sample_env 0)) sample_ops empty_db))"
  by (rule stage_history_final [OF empty_stages_inv])

lemma open_stages_equal:
  assumes ok: "stages_ok e t" and m: "x \<in> set t" "y \<in> set t" and ss: "same_subject x y" and seq: "st_mode y = ''sequence''"
    and op: "st_status x = ''open''" "st_status y = ''open''"
  shows "x = y"
proof -
  have "\<not> st_index x < st_index y" using in_orderD(2) [OF stages_okD(3) [OF ok] m ss] seq op by auto
  moreover have "st_mode x = ''sequence''" using in_orderD(1) [OF stages_okD(3) [OF ok] m ss] seq by simp
  then have "\<not> st_index y < st_index x"
    using in_orderD(2) [OF stages_okD(3) [OF ok] m(2,1) same_subject_sym [OF ss]] op by auto
  ultimately have "st_id x = st_id y"
    using stages_okD(2) [OF ok m(1)] stages_okD(2) [OF ok m(2)] ss by (simp add: stage_ok_def same_subject_def of_subject_def)
  then show ?thesis using stages_okD(1) [OF ok] m unfolding pk_def by (meson distinct_map inj_onD)
qed

text \<open>
  C9: in every state the checklist operations reach, a stage of a sequence that is no longer pending
  has all stages in front of it approved, and at most one stage of the sequence is open.
\<close>

theorem sequence_stages_in_order:
  assumes "stages_inv e s" and t: "t = approval_stages (fold (stage_step e) ops s)"
    and x: "x \<in> set t" "y \<in> set t" "same_subject x y" "st_mode y = ''sequence''"
  shows "(st_index x < st_index y \<and> st_status y \<noteq> ''pending'' \<longrightarrow> st_status x = ''approved'') \<and>
    (st_status x = ''open'' \<and> st_status y = ''open'' \<longrightarrow> x = y)"
proof -
  have ok: "stages_ok e t" using stages.run_inv [OF assms(1)] t by (simp add: stages_inv_def)
  show ?thesis using in_orderD(2) [OF stages_okD(3) [OF ok] x(1-3)] open_stages_equal [OF ok x] x(4) by auto
qed

theorem sequence_stages_in_order_witness:
  "let t = approval_stages (fold (stage_step (sample_env 0)) sample_ops empty_db)
   in st_index (t ! 0) < st_index (t ! 1) \<and> st_status (t ! 1) = ''open'' \<and> st_status (t ! 0) = ''approved''"
proof -
  let ?t = "approval_stages (fold (stage_step (sample_env 0)) sample_ops empty_db)"
  have f: "length ?t = 2 \<and> st_index (?t ! 0) < st_index (?t ! 1) \<and> st_status (?t ! 1) = ''open'' \<and> same_subject (?t ! 0) (?t ! 1) \<and>
      st_mode (?t ! 1) = ''sequence''" by code_simp
  have "?t ! 0 \<in> set ?t" "?t ! 1 \<in> set ?t" using f by simp_all
  then show ?thesis
    using sequence_stages_in_order [where e = "sample_env 0" and s = empty_db and ops = sample_ops, OF empty_stages_inv refl, of "?t ! 0" "?t ! 1"] f by (simp add: Let_def)
qed



section \<open>Vendor evidence\<close>

definition evidence_vendor :: vendor_row where
  "evidence_vendor = \<lparr>vr_id = ''v1'', vr_tenant_id = ''acme'', vr_name = ''Vendor'', vr_providers = [''openai''], vr_status = ''approved'',
     vr_approved_models = None, vr_notes_ref = None, vr_review_round = 1, vr_created_by = ''ann'', vr_submitted_by = None,
     vr_created_at = 0, vr_updated_at = 0, vr_reviewed_at = None\<rparr>"

definition evidence_request_of :: "string \<Rightarrow> string \<Rightarrow> evidence_request" where
  "evidence_request_of issued expires = \<lparr>er_tenant_id = ''acme'', er_vendor_id = ''v1'', er_kind = ''baa'', er_name = ''Agreement'',
     er_identifier = None, er_issued_at = issued, er_expires_at = expires, er_document_hash = None, er_actor_ref = ''ann''\<rparr>"

definition evidence_db :: db where
  "evidence_db = empty_db\<lparr>vendor_registry := [evidence_vendor]\<rparr>"

definition recorded :: "evidence_request \<Rightarrow> db \<Rightarrow> db \<times> evidence_ref option" where
  "recorded q s = (case record_evidence_reference (sample_env 1700000000000000) q s of Inl _ \<Rightarrow> (s, None) | Inr (s', r) \<Rightarrow> (s', Some r))"

lemma evidence_inv_empty: "evidence_inv evidence_db"
  by (simp add: evidence_inv_def evidence_db_def empty_db_def)

text \<open>
  Recording a reference makes it the one of its vendor and kind that stands (an earlier one of
  that kind, current or lapsed, no longer does) and keeps the register's rule that at most one reference of a kind stands.
\<close>

theorem recorded_evidence_supersedes:
  assumes "evidence_inv s" "record_evidence_reference e q s = Inr (s', r)" "no_collision q (ev_id r) s"
  shows "evidence_inv s' \<and> r \<in> set (vendor_evidence_references s') \<and> ev_status r = ''current'' \<and>
    ev_vendor_id r = er_vendor_id q \<and> ev_kind r = er_kind q \<and>
    (\<forall>x\<in>set (vendor_evidence_references s'). stands x \<and> ev_vendor_id x = er_vendor_id q \<and> ev_kind x = er_kind q \<longrightarrow> x = r)"
proof -
  note k = record_evidence_inv [OF assms]
  obtain row where s': "s' = s\<lparr>vendor_evidence_references := store_evidence e row (vendor_evidence_references s)\<rparr>"
    and key: "by_key ev_id (ev_id row) (store_evidence e row (vendor_evidence_references s)) = Some r"
    by (rule record_evidence_cases [OF assms(2)]) (rule that)
  have r: "r \<in> set (vendor_evidence_references s')" using by_key_Some [OF key] s' by simp
  have "x = r" if "x \<in> set (vendor_evidence_references s')" "stands x" "ev_vendor_id x = er_vendor_id q" "ev_kind x = er_kind q" for x
    using k(5) [OF that] k(1) r that(1) unfolding evidence_inv_def pk_def by (meson distinct_map inj_onD)
  then show ?thesis using k(1-4) r by blast
qed

theorem recorded_evidence_supersedes_witness:
  "let s1 = fst (recorded (evidence_request_of ''2023-01-01'' ''2024-01-01'') evidence_db);
       (s2, o2) = recorded (evidence_request_of ''2023-06-01'' ''2024-06-01'') s1; r = the o2
   in length (vendor_evidence_references s2) = 2 \<and> ev_status r = ''current'' \<and>
      (\<forall>x\<in>set (vendor_evidence_references s2). stands x \<and> ev_vendor_id x = ''v1'' \<and> ev_kind x = ''baa'' \<longrightarrow> x = r)"
proof -
  let ?e = "sample_env 1700000000000000" and ?q = "evidence_request_of ''2023-06-01'' ''2024-06-01''"
  let ?s1 = "fst (recorded (evidence_request_of ''2023-01-01'' ''2024-01-01'') evidence_db)"
  have f: "case record_evidence_reference ?e (evidence_request_of ''2023-01-01'' ''2024-01-01'') evidence_db of Inl _ \<Rightarrow> False | Inr (s1, r1) \<Rightarrow>
      no_collision (evidence_request_of ''2023-01-01'' ''2024-01-01'') (ev_id r1) evidence_db \<and>
      (case record_evidence_reference ?e ?q s1 of Inl _ \<Rightarrow> False
       | Inr (s2, r2) \<Rightarrow> no_collision ?q (ev_id r2) s1 \<and> length (vendor_evidence_references s2) = 2)"
    by code_simp
  then obtain s1 r1 s2 r2 where 1: "record_evidence_reference ?e (evidence_request_of ''2023-01-01'' ''2024-01-01'') evidence_db = Inr (s1, r1)"
      "no_collision (evidence_request_of ''2023-01-01'' ''2024-01-01'') (ev_id r1) evidence_db"
    and 2: "record_evidence_reference ?e ?q s1 = Inr (s2, r2)" "no_collision ?q (ev_id r2) s1" "length (vendor_evidence_references s2) = 2"
    by (simp only: split: sum.splits prod.splits) auto
  have inv1: "evidence_inv s1" by (rule record_evidence_inv(1) [OF evidence_inv_empty 1])
  have "er_vendor_id ?q = ''v1''" "er_kind ?q = ''baa''" by (simp_all add: evidence_request_of_def)
  then show ?thesis using recorded_evidence_supersedes [OF inv1 2(1,2)] 1 2 by (simp add: recorded_def)
qed

text \<open>
  The final approval of a vendor review goes through exactly when none of the vendor's references
  is lapsed (neither replaced nor withdrawn); otherwise it is refused and nothing changes.
\<close>

theorem lapsed_evidence_blocks_vendor_approval:
  assumes "st_subject_type stage = ''vendor_review''"
  shows "(\<exists>s'. roll_up_subject e stage ''approve'' s = Inr s') \<longleftrightarrow>
    (\<forall>r\<in>set (vendor_evidence_references s). ev_vendor_id r = st_subject_id stage \<longrightarrow> ev_status r \<noteq> ''expired'')"
proof -
  have "(\<exists>s'. roll_up_subject e stage ''approve'' s = Inr s') \<longleftrightarrow>
    (\<exists>u. require_no_expired_evidence s (st_subject_id stage) (or_str (Some (st_application_name stage)) ''vendor'') = Inr u)"
    using assms by (auto simp: roll_up_subject_def Let_def ebind_eq_Inr)
  then show ?thesis by (simp only: require_no_expired_iff)
qed

definition vendor_stage :: stage_row where
  "vendor_stage = make_stage (sample_env 0) (sample_subject\<lparr>sb_type := ''vendor_review'', sb_id := ''v1'', sb_round := 1\<rparr>) ''sequence'' [] 1
     (0, ''risk_owner'', None)"

theorem lapsed_evidence_blocks_vendor_approval_witness:
  "\<not> isl (roll_up_subject (sample_env 5) vendor_stage ''approve'' evidence_db)"
proof -
  have "\<exists>s'. roll_up_subject (sample_env 5) vendor_stage ''approve'' evidence_db = Inr s'"
    using lapsed_evidence_blocks_vendor_approval [of vendor_stage "sample_env 5" evidence_db]
    by (simp add: vendor_stage_def make_stage_def sample_subject_def evidence_db_def empty_db_def)
  then show ?thesis by auto
qed

section \<open>Routing\<close>

text \<open>
  Refreshing the queue writes only routing: every task keeps its status, subject, type, priority
  and creation time, every owner assignment that exists stays as it is, and apart from tasks, new
  owner rows and notifications no table changes.
\<close>

theorem refresh_writes_routing_only:
  "map task_core (review_tasks (refresh_workflow_state e scopes s)) = map task_core (review_tasks s) \<and>
   set (owner_assignments s) \<subseteq> set (owner_assignments (refresh_workflow_state e scopes s)) \<and>
   queue_frame s (refresh_workflow_state e scopes s)"
  using refresh_core refresh_keeps_owners queue_frame_refresh by blast

text \<open>
  The person a task is routed to is an active user holding the role actively in a scope that
  covers the task, nobody holds it in a more specific scope or earlier in the same one, and a task
  stays unassigned only if there is no such holder.
\<close>

theorem assignee_most_specific:
  "case find_assignee s t role of
     None \<Rightarrow> assignee_candidates s t role = []
   | Some u \<Rightarrow> (\<exists>a\<in>set (assignee_candidates s t role). ra_user_ref a = u \<and>
       list_all (\<lambda>b. (null_last (ra_tenant_id a), null_last (ra_project a), null_last (ra_environment a), ra_created_at a) \<le>
         (null_last (ra_tenant_id b), null_last (ra_project b), null_last (ra_environment b), ra_created_at b)) (assignee_candidates s t role))"
  using find_assignee_sound [of s t role] find_assignee_total [of s t role] by (auto simp: list_all_iff split: option.splits)

end
