(* ===== verification/Intake.thy ===== *)
theory Intake
  imports Review_Queue Authorization
begin

text \<open>
  AI use cases (storage/intake.py), their custom fields and recertification clocks
  (storage/policy_engine.py) and the intake routes (api/intake.py).
\<close>

section \<open>The risk tier\<close>

definition DATA_SENSITIVITY_LEVELS :: "string list" where
  "DATA_SENSITIVITY_LEVELS = [''public'', ''internal'', ''confidential'', ''restricted'']"

definition AUTONOMY_LEVELS :: "string list" where
  "AUTONOMY_LEVELS = [''assistive'', ''supervised'', ''autonomous'']"

fun level_index :: "string list \<Rightarrow> string \<Rightarrow> nat" where
  "level_index [] v = 0"
| "level_index (l # ls) v = (if l = v then 0 else if v \<in> set ls then Suc (level_index ls v) else 0)"

definition compute_risk_tier :: "string \<Rightarrow> string \<Rightarrow> bool \<Rightarrow> string" where
  "compute_risk_tier data_sensitivity autonomy_level affects_individuals =
     (let score = level_index DATA_SENSITIVITY_LEVELS data_sensitivity + level_index AUTONOMY_LEVELS autonomy_level +
                  (if affects_individuals then 1 else 0)
      in if data_sensitivity = ''restricted'' \<or> 4 \<le> score then ''high'' else if 2 \<le> score then ''elevated'' else ''limited'')"

section \<open>Custom fields\<close>

fun field_key_of :: "json \<Rightarrow> string res" where
  "field_key_of (JObj d) = (case map_of d ''key'' of None \<Rightarrow> Inl KeyErr | Some (JStr k) \<Rightarrow> Inr k | Some _ \<Rightarrow> Inl TypeErr)"
| "field_key_of _ = Inl TypeErr"

text \<open>\<open>{field["key"]: field for field in fields}\<close>: the last field of a key wins, in the place of the first.\<close>

definition dict_set :: "'a \<Rightarrow> 'b \<Rightarrow> ('a \<times> 'b) list \<Rightarrow> ('a \<times> 'b) list" where
  "dict_set k v d = (if k \<in> set (map fst d) then map (\<lambda>(a, b). (a, if a = k then v else b)) d else d @ [(k, v)])"

definition declared_fields :: "json list \<Rightarrow> (string \<times> json) list res" where
  "declared_fields fs = ebind (emap (\<lambda>f. ebind (field_key_of f) (\<lambda>k. Inr (k, f))) fs) (\<lambda>kvs.
     Inr (fold (\<lambda>(k, f). dict_set k f) kvs []))"

definition clean_value :: "string \<Rightarrow> json \<Rightarrow> json \<Rightarrow> json option res" where
  "clean_value key field v =
     ebind (jget field ''type'' (JStr ''string'')) (\<lambda>ty.
     if ty = JStr ''string'' then
       (case v of
          JStr t \<Rightarrow>
            ebind (jget field ''max_length'' JNull) (\<lambda>m. ebind (py_int (py_or m (JInt 500))) (\<lambda>cap.
            if cap < int (length t)
            then Inl (ValueErr (''intake field '' @ sq @ key @ sq @ '' exceeds its maximum length of '' @ str_int cap @ '' characters''))
            else Inr (Some v)))
        | _ \<Rightarrow> Inl (ValueErr (''intake field '' @ sq @ key @ sq @ '' must be a string'')))
     else if ty = JStr ''number'' then
       if is_bool v \<or> \<not> is_number v then Inl (ValueErr (''intake field '' @ sq @ key @ sq @ '' must be a number'')) else Inr (Some v)
     else if ty = JStr ''boolean'' then
       if \<not> is_bool v then Inl (ValueErr (''intake field '' @ sq @ key @ sq @ '' must be a boolean'')) else Inr (Some v)
     else Inr None)"

definition check_field :: "dict \<Rightarrow> string \<Rightarrow> string \<times> json \<Rightarrow> dict res" where
  "check_field values risk_tier = (\<lambda>(key, field).
     let v = dget values key JNull in
     ebind (jget field ''required_tiers'' JNull) (\<lambda>rt. ebind (jiter (py_or rt (JArr []))) (\<lambda>tiers.
     if v = JNull \<or> v = JStr [] then
       if JStr risk_tier \<in> set tiers then
         ebind (jget field ''label'' JNull) (\<lambda>l.
         Inl (ValueErr (''intake field '' @ sq @ str_of (py_or l (JStr key)) @ sq @ '' is required for risk tier '' @ sq @ risk_tier @ sq)))
       else Inr []
     else ebind (clean_value key field v) (\<lambda>c. Inr (case c of None \<Rightarrow> [] | Some w \<Rightarrow> [(key, w)])))))"

definition validate_custom_field_values :: "json list \<Rightarrow> dict \<Rightarrow> string \<Rightarrow> dict res" where
  "validate_custom_field_values fs values risk_tier =
     ebind (declared_fields fs) (\<lambda>decl.
     let unknown = filter (\<lambda>k. k \<notin> set (map fst decl)) (map fst values) in
     if unknown \<noteq> []
     then Inl (ValueErr (''unknown intake fields: '' @ comma_join (sorted_set unknown) @ '' (fields are declared in the governance policy)''))
     else ebind (emap (check_field values risk_tier) decl) (\<lambda>parts. Inr (concat parts)))"

section \<open>Submitting a use case\<close>

record intake_request =
  iq_tenant_id :: "string option"
  iq_project :: string
  iq_environment :: string
  iq_application_name :: string
  iq_use_case :: string
  iq_description :: string
  iq_intended_purpose :: string
  iq_data_sensitivity :: string
  iq_autonomy_level :: string
  iq_affects_individuals :: bool
  iq_custom_fields :: dict
  iq_submitted_by :: string

definition intake_id :: "env \<Rightarrow> intake_request \<Rightarrow> string" where
  "intake_id e q = entity_id e [Some ''ai-use-case'', iq_tenant_id q, Some (iq_project q), Some (iq_environment q),
     Some (iq_application_name q), Some (iq_use_case q)]"

definition intake_tier :: "intake_request \<Rightarrow> string" where
  "intake_tier q = compute_risk_tier (iq_data_sensitivity q) (iq_autonomy_level q) (iq_affects_individuals q)"

definition intake_fields_column :: "intake_request \<Rightarrow> json option" where
  "intake_fields_column q = (if iq_custom_fields q = [] then None else Some (JObj (iq_custom_fields q)))"

definition use_case_row :: "env \<Rightarrow> intake_request \<Rightarrow> use_case" where
  "use_case_row e q =
     \<lparr>uc_intake_id = intake_id e q, uc_tenant_id = iq_tenant_id q, uc_project = iq_project q,
      uc_environment = iq_environment q, uc_application_name = iq_application_name q, uc_use_case = iq_use_case q,
      uc_description = iq_description q, uc_intended_purpose = iq_intended_purpose q,
      uc_data_sensitivity = iq_data_sensitivity q, uc_autonomy_level = iq_autonomy_level q,
      uc_affects_individuals = iq_affects_individuals q, uc_risk_tier = intake_tier q, uc_status = ''submitted'',
      uc_submitted_by = iq_submitted_by q, uc_custom_fields = intake_fields_column q,
      uc_created_at = db_now e, uc_updated_at = db_now e\<rparr>"

definition merge_use_case :: "env \<Rightarrow> intake_request \<Rightarrow> use_case \<Rightarrow> use_case" where
  "merge_use_case e q u =
     u\<lparr>uc_description := iq_description q, uc_intended_purpose := iq_intended_purpose q,
       uc_data_sensitivity := iq_data_sensitivity q, uc_autonomy_level := iq_autonomy_level q,
       uc_affects_individuals := iq_affects_individuals q, uc_risk_tier := intake_tier q,
       uc_custom_fields := intake_fields_column q, uc_updated_at := db_now e\<rparr>"

definition intake_task_id :: "env \<Rightarrow> string \<Rightarrow> string" where
  "intake_task_id e iid = entity_id e [Some ''review-task'', Some ''intake'', Some iid]"

definition intake_priority :: "string \<Rightarrow> string" where
  "intake_priority tier = (if tier = ''high'' then ''high'' else ''medium'')"

definition intake_title :: "intake_request \<Rightarrow> string" where
  "intake_title q = ''Intake review: '' @ iq_application_name q @ '' / '' @ iq_use_case q"

definition intake_rationale :: "intake_request \<Rightarrow> string \<Rightarrow> string" where
  "intake_rationale q tier = ''AI use case submitted with risk tier '' @ sq @ tier @ sq @ ''. Purpose: '' @ iq_intended_purpose q @
     ''. Data sensitivity: '' @ iq_data_sensitivity q @ ''. Autonomy: '' @ iq_autonomy_level q @ ''.''"

definition new_task :: "env \<Rightarrow> string \<Rightarrow> string \<Rightarrow> string \<Rightarrow> string \<Rightarrow> string \<Rightarrow> string \<Rightarrow> app_scope \<Rightarrow> review_task" where
  "new_task e task_id change_id task_type priority title rationale c =
     \<lparr>rt_id = task_id, rt_change_id = change_id, rt_tenant_id = as_tenant_id c, rt_project = as_project c,
      rt_environment = as_environment c, rt_application_name = as_application_name c, rt_task_type = task_type,
      rt_status = ''open'', rt_priority = priority, rt_title = title, rt_rationale = rationale,
      rt_created_at = db_now e, rt_updated_at = db_now e, rt_assigned_role = None, rt_assigned_to = None,
      rt_due_at = None, rt_escalation_status = ''unassigned'', rt_escalated_at = None\<rparr>"

definition intake_scope :: "intake_request \<Rightarrow> app_scope" where
  "intake_scope q = \<lparr>as_tenant_id = iq_tenant_id q, as_project = iq_project q, as_environment = iq_environment q,
     as_application_name = iq_application_name q\<rparr>"

definition seed_intake_review_task :: "env \<Rightarrow> string \<Rightarrow> intake_request \<Rightarrow> string \<Rightarrow> db \<Rightarrow> db res" where
  "seed_intake_review_task e iid q tier s =
     (let task_id = intake_task_id e iid;
          row = new_task e task_id iid ''intake_review'' (intake_priority tier) (intake_title q) (intake_rationale q tier) (intake_scope q);
          s1 = s\<lparr>review_tasks := upsert rt_id (\<lambda>t. t\<lparr>rt_priority := rt_priority row, rt_title := rt_title row,
                   rt_rationale := rt_rationale row, rt_updated_at := db_now e\<rparr>) row (review_tasks s)\<rparr>
      in materialize_intake_stages e task_id
           \<lparr>sb_type = ''review_task'', sb_id = task_id, sb_round = 0, sb_tenant_id = iq_tenant_id q, sb_project = iq_project q,
            sb_environment = iq_environment q, sb_application_name = iq_application_name q\<rparr> tier s1)"

definition create_intake :: "env \<Rightarrow> intake_request \<Rightarrow> db \<Rightarrow> (db \<times> use_case) res" where
  "create_intake e q s =
     (let iid = intake_id e q;
          s1 = s\<lparr>ai_use_cases := upsert uc_intake_id (merge_use_case e q) (use_case_row e q) (ai_use_cases s)\<rparr>
      in ebind (seed_intake_review_task e iid q (intake_tier q) s1) (\<lambda>s2.
         case by_key uc_intake_id iid (ai_use_cases s2) of None \<Rightarrow> Inl TypeErr | Some u \<Rightarrow> Inr (s2, u)))"

definition load_intake :: "db \<Rightarrow> string \<Rightarrow> use_case option" where
  "load_intake s iid = by_key uc_intake_id iid (ai_use_cases s)"

definition intake_submitter :: "db \<Rightarrow> string \<Rightarrow> string option" where
  "intake_submitter s iid = map_option uc_submitted_by (by_key uc_intake_id iid (ai_use_cases s))"

definition list_intake :: "scope_filter \<Rightarrow> db \<Rightarrow> use_case list" where
  "list_intake f s =
     rev (sort_key uc_updated_at (filter (\<lambda>u. (nonempty (sf_tenant_id f) \<longrightarrow> uc_tenant_id u = sf_tenant_id f) \<and>
        (nonempty (sf_project f) \<longrightarrow> Some (uc_project u) = sf_project f) \<and>
        (nonempty (sf_environment f) \<longrightarrow> Some (uc_environment u) = sf_environment f)) (ai_use_cases s)))"

section \<open>Recertification\<close>

definition close_recertification_tasks :: "env \<Rightarrow> string \<Rightarrow> db \<Rightarrow> db" where
  "close_recertification_tasks e iid s =
     s\<lparr>review_tasks := update_where (\<lambda>t. rt_task_type t = ''recertification_review'' \<and> rt_change_id t = iid \<and> rt_status t = ''open'')
        (\<lambda>t. t\<lparr>rt_status := ''closed'', rt_updated_at := db_now e\<rparr>) (review_tasks s)\<rparr>"

definition set_intake_status :: "env \<Rightarrow> string \<Rightarrow> string \<Rightarrow> db \<Rightarrow> (db \<times> use_case) res" where
  "set_intake_status e iid status s =
     (case by_key uc_intake_id iid (ai_use_cases s) of
        None \<Rightarrow> Inl (DomainErr ''intake record not found'')
      | Some _ \<Rightarrow>
          let s1 = s\<lparr>ai_use_cases := update_where (\<lambda>u. uc_intake_id u = iid)
                      (\<lambda>u. u\<lparr>uc_status := status, uc_updated_at := db_now e\<rparr>) (ai_use_cases s)\<rparr>;
              s2 = (if status \<in> {''recertified'', ''retired''} then close_recertification_tasks e iid s1 else s1)
          in (case by_key uc_intake_id iid (ai_use_cases s2) of None \<Rightarrow> Inl TypeErr | Some u \<Rightarrow> Inr (s2, u)))"

definition recertification_due :: "env \<Rightarrow> use_case \<Rightarrow> tier_policy \<Rightarrow> int option res" where
  "recertification_due e u tp =
     (if \<not> truthy (tp_recertify_days tp) then Inr None
      else ebind (py_int (tp_recertify_days tp)) (\<lambda>days.
           if env_now e \<le> add_days (uc_updated_at u) days then Inr None else Inr (Some days)))"

definition recertification_rationale :: "use_case \<Rightarrow> tier_policy \<Rightarrow> int \<Rightarrow> string" where
  "recertification_rationale u tp days =
     ''Risk tier '' @ sq @ uc_risk_tier u @ sq @ '' requires recertification every '' @ str_int days @ '' days under governance '' @
     ''policy '' @ or_str (Some (tp_policy_tenant tp)) ''default'' @ ''/v'' @ str_int (tp_policy_version tp) @ ''. Last certified '' @
     db_text (uc_updated_at u) @ ''.''"

definition recertification_task :: "env \<Rightarrow> use_case \<Rightarrow> tier_policy \<Rightarrow> int \<Rightarrow> review_task" where
  "recertification_task e u tp days =
     new_task e (entity_id e [Some ''review-task'', Some ''recertification'', Some (uc_intake_id u), Some (db_text (uc_updated_at u))])
       (uc_intake_id u) ''recertification_review'' ''medium''
       (''Recertification due: '' @ uc_application_name u @ '' / '' @ uc_use_case u) (recertification_rationale u tp days)
       \<lparr>as_tenant_id = uc_tenant_id u, as_project = uc_project u, as_environment = uc_environment u,
        as_application_name = uc_application_name u\<rparr>"

definition age_use_case :: "env \<Rightarrow> use_case \<Rightarrow> db \<times> int \<Rightarrow> (db \<times> int) res" where
  "age_use_case e u = (\<lambda>(s, n).
     ebind (resolve_tier_policy e (governance_policies s) (uc_tenant_id u) (or_str (Some (uc_risk_tier u)) ''limited'')) (\<lambda>tp.
     ebind (recertification_due e u tp) (\<lambda>d.
     case d of None \<Rightarrow> Inr (s, n)
     | Some days \<Rightarrow>
         let row = recertification_task e u tp days
         in Inr (s\<lparr>review_tasks := insert_or_ignore rt_id row (review_tasks s)\<rparr>,
                 if rt_id row \<in> set (map rt_id (review_tasks s)) then n else n + 1))))"

fun efold :: "('a \<Rightarrow> 's \<Rightarrow> 's res) \<Rightarrow> 'a list \<Rightarrow> 's \<Rightarrow> 's res" where
  "efold f [] s = Inr s"
| "efold f (x # xs) s = ebind (f x s) (efold f xs)"

lemma efold_frame:
  assumes "\<And>x s s'. f x s = Inr s' \<Longrightarrow> P s s'" "\<And>s. P s s" "\<And>s t u. P s t \<Longrightarrow> P t u \<Longrightarrow> P s u"
  shows "efold f xs s = Inr s' \<Longrightarrow> P s s'"
  using assms by (induction xs arbitrary: s) (auto simp: ebind_eq_Inr, blast)

definition age_recertifications :: "env \<Rightarrow> db \<Rightarrow> (db \<times> int) res" where
  "age_recertifications e s =
     efold (age_use_case e) (filter (\<lambda>u. uc_status u \<in> {''approved'', ''recertified''}) (ai_use_cases s)) (s, 0)"

section \<open>Routes\<close>

definition submit_intake :: "env \<Rightarrow> actor_context \<Rightarrow> intake_request \<Rightarrow> db \<Rightarrow> (db \<times> use_case \<times> audit_req) res" where
  "submit_intake e a q s =
     (if iq_data_sensitivity q \<notin> set DATA_SENSITIVITY_LEVELS
      then Inl (DomainErr (''data_sensitivity must be one of '' @ repr_list DATA_SENSITIVITY_LEVELS))
      else if iq_autonomy_level q \<notin> set AUTONOMY_LEVELS
      then Inl (DomainErr (''autonomy_level must be one of '' @ repr_list AUTONOMY_LEVELS))
      else ebind (require_permission s a ''intake.submit'' (tenant_target (ac_tenant_id a)) False) (\<lambda>_.
           ebind (resolve_intake_fields e (governance_policies s) (ac_tenant_id a)) (\<lambda>fs.
           ebind (validate_custom_field_values fs (iq_custom_fields q) (intake_tier q)) (\<lambda>custom.
           ebind (create_intake e (q\<lparr>iq_custom_fields := custom, iq_tenant_id := ac_tenant_id a, iq_submitted_by := ac_user_ref a\<rparr>) s) (\<lambda>(s1, u).
           Inr (refresh_workflow_state e None s1, u,
                audit_entry (ac_user_ref a) ''intake.submit'' (ac_tenant_id a) ''ai_use_case'' (uc_intake_id u)
                  (Some (JObj [(''risk_tier'', JStr (uc_risk_tier u)), (''use_case'', JStr (uc_use_case u))]))))))))"

definition lifecycle_transition ::
  "env \<Rightarrow> actor_context \<Rightarrow> string \<Rightarrow> string \<Rightarrow> string \<Rightarrow> string \<Rightarrow> db \<Rightarrow> (db \<times> use_case \<times> audit_req) res" where
  "lifecycle_transition e a iid rationale status action s =
     (case load_intake s iid of
        None \<Rightarrow> Inl (NotFound ''Intake record not found'')
      | Some u \<Rightarrow>
          ebind (require_permission s a ''lifecycle.manage'' (tenant_target (uc_tenant_id u)) False) (\<lambda>_.
          ebind (set_intake_status e iid status s) (\<lambda>(s1, u1).
          Inr (s1, u1, audit_entry (ac_user_ref a) action (uc_tenant_id u) ''ai_use_case'' iid
                 (Some (JObj [(''rationale'', JStr rationale), (''status'', JStr status)]))))))"

definition recertify_intake :: "env \<Rightarrow> actor_context \<Rightarrow> string \<Rightarrow> string \<Rightarrow> db \<Rightarrow> (db \<times> use_case \<times> audit_req) res" where
  "recertify_intake e a iid rationale = lifecycle_transition e a iid rationale ''recertified'' ''lifecycle.recertify''"

definition retire_intake :: "env \<Rightarrow> actor_context \<Rightarrow> string \<Rightarrow> string \<Rightarrow> db \<Rightarrow> (db \<times> use_case \<times> audit_req) res" where
  "retire_intake e a iid rationale = lifecycle_transition e a iid rationale ''retired'' ''lifecycle.retire''"

end
