(* ===== verification/Decisions.thy ===== *)
theory Decisions
  imports Intake Approval_Stages
begin

text \<open>
  Decisions and exceptions (storage/workflow.py) and the routes that record them (api/routes.py,
  api/policy.py): the record a decision is about, the append-only decision and exception logs,
  the maker-checker and stage-policy guards, the expiry of exceptions. A route returns the audit
  entry it asks for and, where the code recomputes release gates, the scopes it recomputes.
\<close>

section \<open>Decision targets\<close>

text \<open>
  The columns of a target row that the routes read. A column the table does not have is None, as
  \<open>dict.get\<close> answers; none of the tables has \<open>submitted_by\<close> or \<open>created_by\<close>.
\<close>

record decision_target =
  dt_type :: string
  dt_id :: string
  dt_tenant_id :: "string option"
  dt_project :: string
  dt_environment :: string
  dt_application_name :: string
  dt_task_type :: "string option"
  dt_change_id :: "string option"
  dt_version_id :: "string option"
  dt_detected_by :: "string option"

definition plain_target :: "string \<Rightarrow> string \<Rightarrow> string option \<Rightarrow> string \<Rightarrow> string \<Rightarrow> string \<Rightarrow> decision_target" where
  "plain_target ty k tenant project environment app =
     \<lparr>dt_type = ty, dt_id = k, dt_tenant_id = tenant, dt_project = project, dt_environment = environment,
      dt_application_name = app, dt_task_type = None, dt_change_id = None, dt_version_id = None, dt_detected_by = None\<rparr>"

definition task_target :: "review_task \<Rightarrow> decision_target" where
  "task_target r = (plain_target ''review_task'' (rt_id r) (rt_tenant_id r) (rt_project r) (rt_environment r) (rt_application_name r))
     \<lparr>dt_task_type := Some (rt_task_type r), dt_change_id := Some (rt_change_id r)\<rparr>"

definition finding_target :: "risk_finding \<Rightarrow> decision_target" where
  "finding_target r = plain_target ''risk_finding'' (rf_id r) (rf_tenant_id r) (rf_project r) (rf_environment r) (rf_application_name r)"

definition change_target :: "change_event \<Rightarrow> decision_target" where
  "change_target r = plain_target ''change_event'' (ce_id r) (ce_tenant_id r) (ce_project r) (ce_environment r) (ce_application_name r)"

definition assessment_target :: "control_assessment \<Rightarrow> decision_target" where
  "assessment_target r =
     plain_target ''control_assessment'' (ca_id r) (ca_tenant_id r) (ca_project r) (ca_environment r) (ca_application_name r)"

definition gate_target :: "gate_row \<Rightarrow> decision_target" where
  "gate_target r = (plain_target ''deployment_gate'' (dg_id r) (dg_tenant_id r) (dg_project r) (dg_environment r) (dg_application_name r))
     \<lparr>dt_version_id := Some (dg_version_id r)\<rparr>"

definition incident_target :: "incident \<Rightarrow> decision_target" where
  "incident_target r = (plain_target ''incident'' (ic_id r) (Some (ic_tenant_id r)) (ic_project r) (ic_environment r) (ic_application_name r))
     \<lparr>dt_detected_by := ic_detected_by r\<rparr>"

definition stage_target :: "stage_row \<Rightarrow> decision_target" where
  "stage_target r =
     plain_target ''approval_stage'' (st_id r) (st_tenant_id r) (st_project r) (st_environment r) (st_application_name r)"

definition target_rows :: "db \<Rightarrow> string \<Rightarrow> decision_target list option" where
  "target_rows s ty =
     (if ty = ''review_task'' then Some (map task_target (review_tasks s))
      else if ty = ''risk_finding'' then Some (map finding_target (risk_findings s))
      else if ty = ''change_event'' then Some (map change_target (change_events s))
      else if ty = ''control_assessment'' then Some (map assessment_target (control_assessments s))
      else if ty = ''deployment_gate'' then Some (map gate_target (deployment_approval_gates s))
      else if ty = ''incident'' then Some (map incident_target (governance_incidents s))
      else if ty = ''approval_stage'' then Some (map stage_target (approval_stages s))
      else None)"

definition load_decision_target :: "db \<Rightarrow> string \<Rightarrow> string \<Rightarrow> string option \<Rightarrow> decision_target res" where
  "load_decision_target s ty k tenant =
     (case target_rows s ty of
        None \<Rightarrow> Inl (DomainErr ''unsupported decision target type'')
      | Some rows \<Rightarrow>
          (case find (\<lambda>t. dt_id t = k \<and> (nonempty tenant \<longrightarrow> dt_tenant_id t = tenant)) rows of
             None \<Rightarrow> Inl (NotFound ''decision target not found'')
           | Some t \<Rightarrow> Inr t))"

text \<open>What the permission checks read of it; only a risk finding has a column \<open>risk\<close>.\<close>

definition auth_target :: "decision_target \<Rightarrow> target" where
  "auth_target t = \<lparr>tg_tenant_id = dt_tenant_id t, tg_project = Some (dt_project t), tg_environment = Some (dt_environment t),
     tg_type = Some (dt_type t), tg_has_risk = (dt_type t = ''risk_finding'')\<rparr>"

section \<open>The decision log\<close>

definition decision_id :: "env \<Rightarrow> string \<Rightarrow> string \<Rightarrow> string \<Rightarrow> string \<Rightarrow> string \<Rightarrow> string" where
  "decision_id e ty k decision rationale actor =
     entity_id e [Some ''governance-decision'', Some ty, Some k, Some decision, Some rationale, Some actor]"

definition decision_row :: "env \<Rightarrow> decision_target \<Rightarrow> string \<Rightarrow> string \<Rightarrow> string \<Rightarrow> string \<Rightarrow> string \<Rightarrow> governance_decision" where
  "decision_row e t ty k decision rationale actor =
     \<lparr>gd_id = decision_id e ty k decision rationale actor, gd_tenant_id = dt_tenant_id t, gd_project = dt_project t,
      gd_environment = dt_environment t, gd_application_name = dt_application_name t, gd_target_type = ty, gd_target_id = k,
      gd_decision = decision, gd_rationale = rationale, gd_actor_ref = actor, gd_created_at = db_now e\<rparr>"

definition record_decision ::
  "env \<Rightarrow> string \<Rightarrow> string \<Rightarrow> string \<Rightarrow> string \<Rightarrow> string \<Rightarrow> string option \<Rightarrow> db \<Rightarrow> (db \<times> governance_decision) res" where
  "record_decision e ty k decision rationale actor tenant s =
     ebind (load_decision_target s ty k tenant) (\<lambda>t.
     let did = decision_id e ty k decision rationale actor in
     case by_key gd_id did (governance_decisions s) of
       Some d \<Rightarrow> Inr (s, d)
     | None \<Rightarrow>
         let s1 = s\<lparr>governance_decisions := insert_or_ignore gd_id (decision_row e t ty k decision rationale actor) (governance_decisions s)\<rparr>
         in ebind (sync_decision_to_stages e ty k decision actor did (apply_decision_status e ty k decision s1)) (\<lambda>s2.
            case by_key gd_id did (governance_decisions s2) of None \<Rightarrow> Inl TypeErr | Some d \<Rightarrow> Inr (s2, d)))"

definition list_decisions :: "scope_filter \<Rightarrow> db \<Rightarrow> governance_decision list" where
  "list_decisions f s =
     rev (sort_key gd_created_at (filter (\<lambda>d. (nonempty (sf_tenant_id f) \<longrightarrow> gd_tenant_id d = sf_tenant_id f) \<and>
        (nonempty (sf_project f) \<longrightarrow> Some (gd_project d) = sf_project f) \<and>
        (nonempty (sf_environment f) \<longrightarrow> Some (gd_environment d) = sf_environment f)) (governance_decisions s)))"

section \<open>Exceptions\<close>

definition exception_id :: "env \<Rightarrow> string \<Rightarrow> string \<Rightarrow> string \<Rightarrow> string \<Rightarrow> string" where
  "exception_id e ty k reason expires_at =
     entity_id e [Some ''governance-exception'', Some ty, Some k, Some reason, Some expires_at]"

definition exception_row ::
  "env \<Rightarrow> decision_target \<Rightarrow> string \<Rightarrow> string \<Rightarrow> string \<Rightarrow> string \<Rightarrow> string \<Rightarrow> string \<Rightarrow> governance_exception" where
  "exception_row e t ty k reason control expires_at actor =
     \<lparr>ge_id = exception_id e ty k reason expires_at, ge_tenant_id = dt_tenant_id t, ge_project = dt_project t,
      ge_environment = dt_environment t, ge_application_name = dt_application_name t, ge_target_type = ty, ge_target_id = k,
      ge_reason = reason, ge_compensating_control = control, ge_expires_at = expires_at, ge_status = ''active'',
      ge_actor_ref = actor, ge_created_at = db_now e, ge_updated_at = db_now e\<rparr>"

definition create_exception ::
  "env \<Rightarrow> string \<Rightarrow> string \<Rightarrow> string \<Rightarrow> string \<Rightarrow> string \<Rightarrow> string \<Rightarrow> string option \<Rightarrow> db \<Rightarrow> (db \<times> governance_exception) res" where
  "create_exception e ty k reason control expires_at actor tenant s =
     ebind (load_decision_target s ty k tenant) (\<lambda>t.
     let xid = exception_id e ty k reason expires_at in
     case by_key ge_id xid (governance_exceptions s) of
       Some x \<Rightarrow> Inr (s, x)
     | None \<Rightarrow>
         let s1 = s\<lparr>governance_exceptions := insert_or_ignore ge_id (exception_row e t ty k reason control expires_at actor) (governance_exceptions s)\<rparr>;
             s2 = apply_decision_status e ty k ''waive'' s1
         in (case by_key ge_id xid (governance_exceptions s2) of None \<Rightarrow> Inl TypeErr | Some x \<Rightarrow> Inr (s2, x)))"

text \<open>One lapsed exception: marked expired, and what it waived is open again.\<close>

definition expire_exception :: "env \<Rightarrow> governance_exception \<Rightarrow> db \<Rightarrow> db" where
  "expire_exception e x s =
     (let s1 = s\<lparr>governance_exceptions := update_where (\<lambda>r. ge_id r = ge_id x)
                   (\<lambda>r. r\<lparr>ge_status := ''expired'', ge_updated_at := db_now e\<rparr>) (governance_exceptions s)\<rparr>
      in if ge_target_type x = ''risk_finding'' then
           s1\<lparr>risk_findings := update_where (\<lambda>r. rf_id r = ge_target_id x \<and> rf_status r = ''waived'')
               (\<lambda>r. r\<lparr>rf_status := ''open'', rf_evaluated_at := db_now e\<rparr>) (risk_findings s1)\<rparr>
         else if ge_target_type x = ''control_assessment'' then
           s1\<lparr>control_assessments := update_where (\<lambda>r. ca_id r = ge_target_id x \<and> ca_status r = ''waived'')
               (\<lambda>r. r\<lparr>ca_status := ''missing'', ca_evaluated_at := db_now e\<rparr>) (control_assessments s1)\<rparr>
         else s1)"

definition due_exceptions :: "env \<Rightarrow> db \<Rightarrow> governance_exception list" where
  "due_exceptions e s =
     filter (\<lambda>x. ge_status x = ''active'' \<and> ge_expires_at x \<le> isoformat (env_now e)) (governance_exceptions s)"

definition expire_due_exceptions :: "env \<Rightarrow> db \<Rightarrow> db \<times> int" where
  "expire_due_exceptions e s = (fold (expire_exception e) (due_exceptions e s) s, int (length (due_exceptions e s)))"

section \<open>Guards\<close>

definition gate_deployer :: "db \<Rightarrow> string \<Rightarrow> string option" where
  "gate_deployer s version_id =
     (case by_key dv_version_id version_id (deployment_versions s) of None \<Rightarrow> None | Some v \<Rightarrow> dv_deployed_by v)"

definition decision_maker :: "db \<Rightarrow> decision_target \<Rightarrow> string option" where
  "decision_maker s t =
     (if dt_type t = ''review_task'' \<and> dt_task_type t \<in> {Some ''intake_review'', Some ''recertification_review''}
      then intake_submitter s (or_str (dt_change_id t) [])
      else if dt_type t = ''deployment_gate'' then gate_deployer s (or_str (dt_version_id t) [])
      else if dt_type t = ''incident'' then dt_detected_by t
      else None)"

definition own_work :: err where
  "own_work = AuthErr ''Segregation of duties: a user cannot record a decision on work they originated''"

definition enforce_segregation_of_duties :: "db \<Rightarrow> actor_context \<Rightarrow> decision_target \<Rightarrow> unit res" where
  "enforce_segregation_of_duties s a t =
     (if nonempty (decision_maker s t) \<and> decision_maker s t = Some (ac_user_ref a) then Inl own_work else Inr ())"

definition scope_target :: "decision_target \<Rightarrow> target" where
  "scope_target t = \<lparr>tg_tenant_id = dt_tenant_id t, tg_project = Some (dt_project t), tg_environment = Some (dt_environment t),
     tg_type = None, tg_has_risk = False\<rparr>"

definition enforce_stage_policy :: "db \<Rightarrow> actor_context \<Rightarrow> decision_target \<Rightarrow> string \<Rightarrow> unit res" where
  "enforce_stage_policy s a t decision =
     (if dt_type t \<noteq> ''review_task'' \<or> decision \<notin> {''approve'', ''reject''} then Inr ()
      else let stages = list_subject_stages s ''review_task'' (dt_id t) (Some 0) in
        case stages of
          [] \<Rightarrow> Inr ()
        | x # rest \<Rightarrow>
            if rest \<noteq> [] then
              Inl (DomainErr (''This review is governed by a multi-stage approval policy (policy '' @ or_str (Some (st_policy_tenant x)) ''default'' @
                ''/v'' @ str_int (st_policy_version x) @ ''). Decide its open stage via /api/approval-stages/{stage_id}/decide instead.''))
            else if list_ex (\<lambda>r. st_status r \<in> {''open'', ''pending''}) stages
            then require_stage_role s a (st_required_role x) (scope_target t)
            else Inr ())"

section \<open>Routes\<close>

definition ALLOWED_DECISIONS :: "string list" where
  "ALLOWED_DECISIONS = [''approve'', ''reject'', ''accept_risk'', ''mitigate'', ''waive'', ''close'']"

record decision_request =
  dq_target_type :: string
  dq_target_id :: string
  dq_decision :: string
  dq_rationale :: string

definition target_scope :: "decision_target \<Rightarrow> app_scope" where
  "target_scope t = \<lparr>as_tenant_id = dt_tenant_id t, as_project = dt_project t, as_environment = dt_environment t,
     as_application_name = dt_application_name t\<rparr>"

definition create_decision ::
  "env \<Rightarrow> actor_context \<Rightarrow> decision_request \<Rightarrow> db \<Rightarrow> (db \<times> governance_decision \<times> audit_req \<times> app_scope list) res" where
  "create_decision e a q s =
     (if dq_decision q \<notin> set ALLOWED_DECISIONS
      then Inl (DomainErr (''decision must be one of '' @ repr_list (sort ALLOWED_DECISIONS)))
      else if dq_target_type q \<in> {''deployment_gate'', ''incident'', ''approval_stage''}
      then Inl (DomainErr (''Use the dedicated endpoint for this target type: deployment gates via '' @
        ''/api/deployment-gates/{id}/approve|reject, incidents via /api/incidents/{id}/close, '' @
        ''approval stages via /api/approval-stages/{id}/decide''))
      else ebind (load_decision_target s (dq_target_type q) (dq_target_id q) (ac_tenant_id a)) (\<lambda>t.
           ebind (require_decision s a (auth_target t)) (\<lambda>_.
           ebind (enforce_segregation_of_duties s a t) (\<lambda>_.
           ebind (enforce_stage_policy s a t (dq_decision q)) (\<lambda>_.
           ebind (record_decision e (dq_target_type q) (dq_target_id q) (dq_decision q) (dq_rationale q) (ac_user_ref a) (ac_tenant_id a) s) (\<lambda>(s1, d).
           Inr (s1, d, audit_entry (ac_user_ref a) ''review.decide'' (dt_tenant_id t) (dq_target_type q) (dq_target_id q)
                         (Some (JObj [(''decision'', JStr (dq_decision q))])),
                if dq_target_type q \<in> {''risk_finding'', ''control_assessment'', ''change_event''} \<and> dt_application_name t \<noteq> []
                then [target_scope t] else [])))))))"

text \<open>The expiry is given in the normalized form; reading the request's text is \<open>normalize_expiry\<close>.\<close>

definition create_exception_route ::
  "env \<Rightarrow> actor_context \<Rightarrow> string \<Rightarrow> string \<Rightarrow> string \<Rightarrow> string \<Rightarrow> int \<Rightarrow> db \<Rightarrow> (db \<times> governance_exception \<times> audit_req) res" where
  "create_exception_route e a ty k reason control expiry s =
     (if expiry \<le> env_now e then Inl (DomainErr ''expires_at must be a future date'')
      else ebind (load_decision_target s ty k (ac_tenant_id a)) (\<lambda>t.
           ebind (require_exception s a (auth_target t)) (\<lambda>_.
           ebind (create_exception e ty k reason control (isoformat expiry) (ac_user_ref a) (ac_tenant_id a) s) (\<lambda>(s1, x).
           Inr (s1, x, audit_entry (ac_user_ref a) ''risk.accept'' (dt_tenant_id t) ty k None)))))"

definition stage_scope :: "stage_row \<Rightarrow> app_scope" where
  "stage_scope r = \<lparr>as_tenant_id = st_tenant_id r, as_project = st_project r, as_environment = st_environment r,
     as_application_name = st_application_name r\<rparr>"

definition stage_audit :: "actor_context \<Rightarrow> stage_row \<Rightarrow> string \<Rightarrow> audit_req" where
  "stage_audit a r decision =
     audit_entry (ac_user_ref a) ''stage.decide'' (st_tenant_id r) ''approval_stage'' (st_id r)
       (Some (JObj [(''decision'', JStr decision), (''subject_type'', JStr (st_subject_type r)), (''subject_id'', JStr (st_subject_id r)),
          (''stage_index'', JInt (st_index r)), (''required_role'', JStr (st_required_role r)), (''policy_tenant'', JStr (st_policy_tenant r)),
          (''policy_version'', JInt (st_policy_version r))]))"

definition stage_guards :: "db \<Rightarrow> actor_context \<Rightarrow> stage_row \<Rightarrow> unit res" where
  "stage_guards s a stage =
     ebind (load_stage_subject s stage) (\<lambda>subject.
     if \<not> stage_subject_undecided stage subject then Inl (DomainErr ''the subject of this stage has already been decided'')
     else if st_status stage \<in> {''approved'', ''rejected''}
     then Inl (DomainErr (''this stage has already been '' @ st_status stage @ '' and is terminal''))
     else if st_status stage \<noteq> ''open''
     then Inl (DomainErr ''this stage is not open yet; earlier stages of the sequence must be approved first'')
     else ebind (require_decision s a (auth_target (stage_target stage))) (\<lambda>_.
          ebind (require_stage_role s a (st_required_role stage) (auth_target (stage_target stage))) (\<lambda>_.
          if nonempty (stage_maker s stage subject) \<and> stage_maker s stage subject = Some (ac_user_ref a) then Inl own_work
          else if actor_decided_sibling_stage s stage (ac_user_ref a)
          then Inl (AuthErr ''Segregation of duties: each approval stage of a subject must be decided by a different person'')
          else Inr ())))"

definition decide_approval_stage ::
  "env \<Rightarrow> actor_context \<Rightarrow> string \<Rightarrow> string \<Rightarrow> string \<Rightarrow> db \<Rightarrow> (db \<times> governance_decision \<times> audit_req) res" where
  "decide_approval_stage e a sid decision rationale s =
     (if decision \<notin> {''approve'', ''reject''} then Inl (DomainErr (''stage decisions must be '' @ sq @ ''approve'' @ sq @ '' or '' @ sq @ ''reject'' @ sq))
      else ebind (load_stage s sid) (\<lambda>stage.
           ebind (stage_guards s a stage) (\<lambda>_.
           ebind (record_decision e ''approval_stage'' sid decision rationale (ac_user_ref a) None s) (\<lambda>(s1, d).
           let s2 = (if st_subject_type stage = ''review_task'' then refresh_workflow_state e (Some [stage_scope stage]) s1 else s1)
           in ebind (load_stage s2 sid) (\<lambda>updated.
              ebind (load_stage_subject s2 updated) (\<lambda>_.
              Inr (s2, d, stage_audit a stage decision)))))))"

end
