(* ===== verification/Review_Invariant.thy ===== *)
theory Review_Invariant
  imports Decisions Policy_Versions
begin

text \<open>
  The invariant of reviews over the routes of several components (intake, stage decisions, direct
  decisions, exceptions, lifecycle transitions, the ageing passes): a use case under a checklist of
  several stages is approved only when every stage is, the stages of one review are decided by
  different people, and never by the person who submitted the work.
\<close>

section \<open>What a decision does to the checklist\<close>

definition stage_map :: "(stage_row \<Rightarrow> stage_row) \<Rightarrow> stage_row list \<Rightarrow> stage_row list \<Rightarrow> bool" where
  "stage_map f t t' \<longleftrightarrow> t' = map f t \<and> (\<forall>x\<in>set t. stage_moved x (f x))"

definition stamp_row :: "env \<Rightarrow> string \<Rightarrow> string \<Rightarrow> string \<Rightarrow> string \<Rightarrow> stage_row \<Rightarrow> stage_row" where
  "stamp_row e sid st d a r = (if st_id r = sid \<and> st_status r = ''open'' then stamped e st d a r else r)"

definition open_row :: "string \<Rightarrow> stage_row \<Rightarrow> stage_row" where
  "open_row sid r = (if st_id r = sid \<and> st_status r = ''pending'' then opened r else r)"

lemma stamp_stage_map: "stamp_stage e sid st d a t = map (stamp_row e sid st d a) t"
  by (simp add: stamp_stage_def update_where_def stamp_row_def stamped_def)

lemma open_stage_map: "open_stage sid t = map (open_row sid) t"
  by (simp add: open_stage_def update_where_def open_row_def opened_def)

lemma stamp_row_moved: "st \<in> {''approved'', ''rejected''} \<Longrightarrow> stage_moved r (stamp_row e sid st d a r)"
  by (auto simp: stamp_row_def stamped_moved)

lemma open_row_moved: "stage_moved r (open_row sid r)"
  by (simp add: open_row_def opened_moved)

lemma stamp_row_decider: "st_decided_by (stamp_row e sid st d a r) \<noteq> st_decided_by r \<Longrightarrow>
    st_decided_by (stamp_row e sid st d a r) = Some a \<and> st_id r = sid"
  by (auto simp: stamp_row_def stamped_def split: if_splits)

lemma open_row_decider [simp]: "st_decided_by (open_row sid r) = st_decided_by r"
  by (simp add: open_row_def opened_def)

text \<open>
  The rows after a stage decision: the same rows, each moved forward, and only the decided one has
  got a decider, the actor.
\<close>

definition decided_by_actor :: "string \<Rightarrow> string \<Rightarrow> (stage_row \<Rightarrow> stage_row) \<Rightarrow> bool" where
  "decided_by_actor sid a f \<longleftrightarrow> (\<forall>x. st_decided_by (f x) \<noteq> st_decided_by x \<longrightarrow> st_decided_by (f x) = Some a \<and> st_id x = sid)"

lemma decided_by_actorD:
  "decided_by_actor sid a f \<Longrightarrow> st_decided_by (f x) = Some b \<Longrightarrow> st_decided_by x = Some b \<or> b = a \<and> st_id x = sid"
  unfolding decided_by_actor_def by (metis option.inject)

lemma decided_by_actor_id: "decided_by_actor sid a (\<lambda>x. x)"
  by (simp add: decided_by_actor_def)

lemma decided_by_actor_stamp: "decided_by_actor sid a (stamp_row e sid st d a)"
  unfolding decided_by_actor_def using stamp_row_decider by blast

lemma decided_by_actor_open: "decided_by_actor sid a (open_row k \<circ> stamp_row e sid st d a)"
  unfolding decided_by_actor_def using stamp_row_decider by simp

lemma apply_stage_map:
  assumes r: "apply_stage_decision e x decision d a s = Inr s'" and pk: "pk st_id (approval_stages s)" and x: "x \<in> set (approval_stages s)"
  obtains f where "stage_map f (approval_stages s) (approval_stages s')" "decided_by_actor (st_id x) a f"
  using r pk x
proof (cases rule: apply_stage_decision_cases)
  case closed
  then show thesis using that [of "\<lambda>x. x"] by (simp add: stage_map_def decided_by_actor_id)
next
  case reject
  then show thesis using that [of "stamp_row e (st_id x) ''rejected'' d a"]
    by (simp add: stage_map_def stamp_stage_map stamp_row_moved decided_by_actor_stamp)
next
  case last
  then show thesis using that [of "stamp_row e (st_id x) ''approved'' d a"]
    by (simp add: stage_map_def stamp_stage_map stamp_row_moved decided_by_actor_stamp)
next
  case (next_stage n)
  let ?f = "open_row (st_id n) \<circ> stamp_row e (st_id x) ''approved'' d a"
  have "stage_moved r (?f r)" for r using stage_moved_trans [OF stamp_row_moved open_row_moved] by simp
  then show thesis using that [of ?f] decided_by_actor_open next_stage(8) by (simp add: stage_map_def stamp_stage_map open_stage_map)
next
  case waiting
  then show thesis using that [of "stamp_row e (st_id x) ''approved'' d a"]
    by (simp add: stage_map_def stamp_stage_map stamp_row_moved decided_by_actor_stamp)
qed

lemma stage_moved_slot:
  assumes "stage_moved x y"
  shows "st_id y = st_id x" "of_subject ty k rd y = of_subject ty k rd x" "st_index y = st_index x"
    "st_subject_type y = st_subject_type x" "st_subject_id y = st_subject_id x" "st_review_round y = st_review_round x"
  using assms unfolding stage_moved_def by (cases x; cases y; simp add: of_subject_def)+

section \<open>What a decision does to tasks and use cases\<close>

definition rt_key :: "review_task \<Rightarrow> string \<times> string \<times> string" where
  "rt_key t = (rt_id t, rt_task_type t, rt_change_id t)"

definition uc_key :: "use_case \<Rightarrow> string \<times> string" where
  "uc_key u = (uc_intake_id u, uc_submitted_by u)"

definition keys_kept :: "db \<Rightarrow> db \<Rightarrow> bool" where
  "keys_kept s s' \<longleftrightarrow> map rt_key (review_tasks s') = map rt_key (review_tasks s) \<and>
     map uc_key (ai_use_cases s') = map uc_key (ai_use_cases s) \<and> governance_policies s' = governance_policies s"

lemma keys_kept_refl: "keys_kept s s"
  by (simp add: keys_kept_def)

lemma keys_kept_trans: "keys_kept s t \<Longrightarrow> keys_kept t u \<Longrightarrow> keys_kept s u"
  by (simp add: keys_kept_def)

lemma map_key_update:
  assumes "\<And>r. key (f r) = key r"
  shows "map key (update_where p f t) = map key t"
  using assms by (intro map_key_update_where) simp

lemma notify_intake_policies [simp]: "governance_policies (notify_intake_decided e i k st s) = governance_policies s"
  by (simp add: notify_intake_decided_def Let_def split: option.splits)

lemma decide_use_case_keys: "keys_kept s (decide_use_case e task st s)"
  by (auto simp: keys_kept_def decide_use_case_def Let_def uc_key_def intro!: map_key_update)

lemma decide_task_keys: "keys_kept s (decide_task e k st s)"
proof -
  let ?s1 = "s\<lparr>review_tasks := update_where (\<lambda>r. rt_id r = k) (\<lambda>r. r\<lparr>rt_status := st, rt_updated_at := db_now e\<rparr>) (review_tasks s)\<rparr>"
  have 1: "keys_kept s ?s1" by (auto simp: keys_kept_def rt_key_def intro!: map_key_update)
  then show ?thesis
    using keys_kept_trans [OF 1 decide_use_case_keys] by (simp add: decide_task_def Let_def split: option.splits)
qed

lemma apply_decision_keys: "keys_kept s (apply_decision_status e ty k d s)"
  using decide_task_keys by (auto simp: apply_decision_status_def keys_kept_def split: option.splits)

text \<open>A use case gets approved only by an approval of its own intake review.\<close>

definition approves :: "db \<Rightarrow> db \<Rightarrow> string \<Rightarrow> bool" where
  "approves s s' k \<longleftrightarrow> (\<forall>u\<in>set (ai_use_cases s'). uc_status u = ''approved'' \<longrightarrow>
     (\<exists>u0\<in>set (ai_use_cases s). uc_key u0 = uc_key u \<and> uc_status u0 = ''approved'') \<or>
     (k, ''intake_review'', uc_intake_id u) \<in> set (map rt_key (review_tasks s)))"

definition no_approvals :: "db \<Rightarrow> db \<Rightarrow> bool" where
  "no_approvals s s' \<longleftrightarrow> (\<forall>u\<in>set (ai_use_cases s'). uc_status u = ''approved'' \<longrightarrow>
     (\<exists>u0\<in>set (ai_use_cases s). uc_key u0 = uc_key u \<and> uc_status u0 = ''approved''))"

lemma no_approvals_same: "ai_use_cases s' = ai_use_cases s \<Longrightarrow> no_approvals s s'"
  by (auto simp: no_approvals_def)

lemma decide_use_case_cases:
  assumes "u \<in> set (ai_use_cases (decide_use_case e task st s))"
  shows "u \<in> set (ai_use_cases s) \<or> rt_task_type task = ''intake_review'' \<and> uc_intake_id u = rt_change_id task \<and> uc_status u = st"
proof (cases "rt_task_type task = ''intake_review'' \<and> st \<in> {''approved'', ''rejected''}")
  case False
  then show ?thesis using assms by (auto simp: decide_use_case_def)
next
  case True
  then have "u \<in> set (update_where (\<lambda>u. uc_intake_id u = rt_change_id task \<and> uc_status u \<noteq> st)
      (\<lambda>u. u\<lparr>uc_status := st, uc_updated_at := db_now e\<rparr>) (ai_use_cases s))"
    using assms by (simp add: decide_use_case_def Let_def split: if_splits)
  then show ?thesis by (cases rule: update_whereE) (use True in simp_all)
qed

lemma decide_task_cases:
  assumes "u \<in> set (ai_use_cases (decide_task e k st s))"
  shows "u \<in> set (ai_use_cases s) \<or> (k, ''intake_review'', uc_intake_id u) \<in> set (map rt_key (review_tasks s)) \<and> uc_status u = st"
proof -
  let ?ts = "update_where (\<lambda>r. rt_id r = k) (\<lambda>r. r\<lparr>rt_status := st, rt_updated_at := db_now e\<rparr>) (review_tasks s)"
  let ?s1 = "s\<lparr>review_tasks := ?ts\<rparr>"
  have keys: "map rt_key ?ts = map rt_key (review_tasks s)" by (auto simp: rt_key_def intro!: map_key_update)
  show ?thesis
  proof (cases "by_key rt_id k ?ts")
    case None
    then show ?thesis using assms by (simp add: decide_task_def Let_def)
  next
    case (Some task)
    then have u: "u \<in> set (ai_use_cases (decide_use_case e task st ?s1))" using assms by (simp add: decide_task_def Let_def)
    have task: "task \<in> set ?ts" "rt_id task = k" using by_key_Some [OF Some] by simp_all
    then have "rt_key task \<in> set (map rt_key (review_tasks s))" unfolding keys [symmetric] by simp
    then show ?thesis using decide_use_case_cases [OF u] task(2) by (auto simp: rt_key_def)
  qed
qed

lemma apply_decision_approves: "approves s (apply_decision_status e ''review_task'' k d s) k"
  using decide_task_cases unfolding approves_def
  by (auto simp: apply_decision_status_def split: option.splits) (metis | blast)+

lemma apply_decision_no_approvals:
  assumes "ty \<noteq> ''review_task'' \<or> d \<noteq> ''approve''"
  shows "no_approvals s (apply_decision_status e ty k d s)"
proof (cases "status_by_decision d")
  case None
  then show ?thesis by (simp add: apply_decision_status_def no_approvals_same)
next
  case (Some st)
  show ?thesis
  proof (cases "ty = ''review_task''")
    case False
    then show ?thesis using Some by (simp add: apply_decision_status_def no_approvals_same)
  next
    case True
    then have "d \<noteq> ''approve''" using assms by simp
    then have "st \<noteq> ''approved''" using Some by (auto simp: status_by_decision_def split: if_splits)
    then show ?thesis using True Some decide_task_cases [of _ e k st s] unfolding no_approvals_def
      by (auto simp: apply_decision_status_def)
  qed
qed

lemma roll_up_effect:
  assumes "roll_up_subject e x d s = Inr s'"
  shows "keys_kept s s'"
    and "st_subject_type x = ''review_task'' \<Longrightarrow> approves s s' (st_subject_id x)"
    and "st_subject_type x \<noteq> ''review_task'' \<or> d \<noteq> ''approve'' \<Longrightarrow> no_approvals s s'"
proof -
  have task: "s' = apply_decision_status e ''review_task'' (st_subject_id x) d s" if "st_subject_type x = ''review_task''"
    using assms that by (simp add: roll_up_subject_def)
  have other: "ai_use_cases s' = ai_use_cases s \<and> review_tasks s' = review_tasks s \<and> governance_policies s' = governance_policies s"
    if "st_subject_type x \<noteq> ''review_task''"
    using assms that by (auto simp: roll_up_subject_def Let_def ebind_eq_Inr split: if_splits)
  show "keys_kept s s'" using task other apply_decision_keys by (cases "st_subject_type x = ''review_task''") (auto simp: keys_kept_def)
  show "approves s s' (st_subject_id x)" if "st_subject_type x = ''review_task''" using task [OF that] apply_decision_approves by simp
  show "no_approvals s s'" if "st_subject_type x \<noteq> ''review_task'' \<or> d \<noteq> ''approve''"
    using that task other apply_decision_no_approvals no_approvals_same by (cases "st_subject_type x = ''review_task''") auto
qed

lemma stage_update_frame:
  "keys_kept (s\<lparr>approval_stages := t\<rparr>) s' = keys_kept s s'" "no_approvals (s\<lparr>approval_stages := t\<rparr>) s' = no_approvals s s'"
  "approves (s\<lparr>approval_stages := t\<rparr>) s' k = approves s s' k"
  by (simp_all add: keys_kept_def no_approvals_def approves_def)

lemma notify_stage_policies [simp]: "governance_policies (notify_stage_opened e r s) = governance_policies s"
  by (simp add: notify_stage_opened_def Let_def)

lemma apply_stage_effect:
  assumes r: "apply_stage_decision e x decision d a s = Inr s'" and pk: "pk st_id (approval_stages s)" and x: "x \<in> set (approval_stages s)"
  shows "keys_kept s s'"
    and "no_approvals s s' \<or> st_subject_type x = ''review_task'' \<and> approves s s' (st_subject_id x) \<and>
      (\<forall>r\<in>set (approval_stages s'). same_subject r x \<longrightarrow> st_status r = ''approved'')"
proof -
  let ?st = "if decision = ''approve'' then ''approved'' else ''rejected''"
  let ?s1 = "s\<lparr>approval_stages := stamp_stage e (st_id x) ?st d a (approval_stages s)\<rparr>"
  let ?sib = "list_subject_stages ?s1 (st_subject_type x) (st_subject_id x) (Some (st_review_round x))"
  consider (plain) "ai_use_cases s' = ai_use_cases s" "review_tasks s' = review_tasks s" "governance_policies s' = governance_policies s"
    | (reject) "roll_up_subject e x ''reject'' ?s1 = Inr s'"
    | (approve) "roll_up_subject e x ''approve'' ?s1 = Inr s'" "list_all (\<lambda>r. st_status r = ''approved'') ?sib"
    using r unfolding apply_stage_decision_def Let_def
    by (auto split: if_splits option.splits)
  then have "keys_kept s s' \<and> (no_approvals s s' \<or> st_subject_type x = ''review_task'' \<and> approves s s' (st_subject_id x) \<and>
      (\<forall>r\<in>set (approval_stages s'). same_subject r x \<longrightarrow> st_status r = ''approved''))"
  proof cases
    case plain
    then show ?thesis by (simp add: keys_kept_def no_approvals_same)
  next
    case reject
    then show ?thesis using roll_up_effect(1,3) [OF reject] by (simp add: stage_update_frame)
  next
    case approve
    have "approval_stages s' = approval_stages ?s1" by (rule roll_up_stages [OF approve(1)])
    then have "\<forall>r\<in>set (approval_stages s'). same_subject r x \<longrightarrow> st_status r = ''approved''"
      using approve(2) by (simp add: list_all_iff set_subject_stages sibling_iff)
    then show ?thesis using roll_up_effect [OF approve(1)] by (auto simp: stage_update_frame)
  qed
  then show "keys_kept s s'" "no_approvals s s' \<or> st_subject_type x = ''review_task'' \<and> approves s s' (st_subject_id x) \<and>
      (\<forall>r\<in>set (approval_stages s'). same_subject r x \<longrightarrow> st_status r = ''approved'')" by blast+
qed

section \<open>The invariant\<close>

definition subject_stages :: "stage_row list \<Rightarrow> string \<Rightarrow> stage_row list" where
  "subject_stages t k = filter (of_subject ''review_task'' k 0) t"

definition tasks_ok :: "env \<Rightarrow> (string \<times> string \<times> string) list \<Rightarrow> (string \<times> string) list \<Rightarrow> bool" where
  "tasks_ok e tk ck \<longleftrightarrow> distinct (map fst tk) \<and> distinct (map fst ck) \<and>
     (\<forall>(k, ty, c)\<in>set tk. (ty = ''intake_review'' \<longleftrightarrow> (\<exists>i. k = intake_task_id e i)) \<and>
        (ty = ''intake_review'' \<longrightarrow> k = intake_task_id e c \<and> c \<in> fst ` set ck))"

definition stages_have_tasks :: "(string \<times> string \<times> string) list \<Rightarrow> stage_row list \<Rightarrow> bool" where
  "stages_have_tasks tk t \<longleftrightarrow> (\<forall>x\<in>set t. st_subject_type x = ''review_task'' \<longrightarrow> st_review_round x = 0 \<and> st_subject_id x \<in> fst ` set tk)"

definition four_eyes :: "stage_row list \<Rightarrow> bool" where
  "four_eyes t \<longleftrightarrow> (\<forall>x\<in>set t. \<forall>y\<in>set t. same_subject x y \<and> x \<noteq> y \<and> st_decided_by x \<noteq> None \<longrightarrow> st_decided_by x \<noteq> st_decided_by y)"

definition no_self_review :: "env \<Rightarrow> (string \<times> string) list \<Rightarrow> stage_row list \<Rightarrow> bool" where
  "no_self_review e ck t \<longleftrightarrow> (\<forall>x\<in>set t. \<forall>(i, sub)\<in>set ck. st_subject_type x = ''review_task'' \<and> st_subject_id x = intake_task_id e i \<and> sub \<noteq> [] \<longrightarrow>
     st_decided_by x \<noteq> Some sub)"

definition approved_ok :: "env \<Rightarrow> use_case list \<Rightarrow> stage_row list \<Rightarrow> bool" where
  "approved_ok e us t \<longleftrightarrow> (\<forall>u\<in>set us. let own = subject_stages t (intake_task_id e (uc_intake_id u)) in
     own \<noteq> [] \<and> (uc_status u = ''approved'' \<and> 2 \<le> length own \<longrightarrow> (\<forall>x\<in>set own. st_status x = ''approved'')))"

definition review_inv :: "env \<Rightarrow> db \<Rightarrow> bool" where
  "review_inv e s \<longleftrightarrow> stages_inv e s \<and> versions_inv s \<and>
     tasks_ok e (map rt_key (review_tasks s)) (map uc_key (ai_use_cases s)) \<and>
     stages_have_tasks (map rt_key (review_tasks s)) (approval_stages s) \<and> four_eyes (approval_stages s) \<and>
     no_self_review e (map uc_key (ai_use_cases s)) (approval_stages s) \<and> approved_ok e (ai_use_cases s) (approval_stages s)"

lemma review_invD:
  assumes "review_inv e s"
  shows "collision_free e" "stages_ok e (approval_stages s)" "policies_wf (governance_policies s)"
    "tasks_ok e (map rt_key (review_tasks s)) (map uc_key (ai_use_cases s))"
    "stages_have_tasks (map rt_key (review_tasks s)) (approval_stages s)" "four_eyes (approval_stages s)"
    "no_self_review e (map uc_key (ai_use_cases s)) (approval_stages s)" "approved_ok e (ai_use_cases s) (approval_stages s)"
  using assms by (simp_all add: review_inv_def stages_inv_def versions_inv_def)

lemma subject_stages_map:
  assumes "stage_map f t t'"
  shows "subject_stages t' k = map f (subject_stages t k)"
proof -
  have "filter (of_subject ''review_task'' k 0) (map f t) = map f (filter (of_subject ''review_task'' k 0 \<circ> f) t)" by (simp add: filter_map)
  also have "filter (of_subject ''review_task'' k 0 \<circ> f) t = filter (of_subject ''review_task'' k 0) t"
    using assms by (intro filter_cong) (auto simp: stage_map_def stage_moved_slot)
  finally show ?thesis using assms by (simp add: subject_stages_def stage_map_def)
qed

lemma stage_map_mem:
  assumes "stage_map f t t'" "y \<in> set t'"
  obtains x where "x \<in> set t" "y = f x" "stage_moved x y"
  using assms by (auto simp: stage_map_def)

section \<open>Decisions keep the invariant\<close>

definition fresh_decider :: "env \<Rightarrow> db \<Rightarrow> stage_row \<Rightarrow> string \<Rightarrow> bool" where
  "fresh_decider e s x a \<longleftrightarrow>
     (\<forall>y\<in>set (approval_stages s). same_subject y x \<and> y \<noteq> x \<longrightarrow> st_decided_by y \<noteq> Some a) \<and>
     (\<forall>(i, sub)\<in>set (map uc_key (ai_use_cases s)). st_subject_type x = ''review_task'' \<and> st_subject_id x = intake_task_id e i \<and> sub \<noteq> [] \<longrightarrow> a \<noteq> sub)"

text \<open>How a step may change deciders: one stage, by an actor who is fresh to its subject.\<close>

definition decider_step :: "env \<Rightarrow> db \<Rightarrow> string \<Rightarrow> string \<Rightarrow> (stage_row \<Rightarrow> stage_row) \<Rightarrow> bool" where
  "decider_step e s sid a f \<longleftrightarrow> (\<forall>x\<in>set (approval_stages s). st_decided_by (f x) \<noteq> st_decided_by x \<longrightarrow>
     st_decided_by (f x) = Some a \<and> st_id x = sid \<and> fresh_decider e s x a)"

definition approval_step :: "db \<Rightarrow> db \<Rightarrow> bool" where
  "approval_step s s' \<longleftrightarrow> no_approvals s s' \<or>
     (\<exists>k. approves s s' k \<and> (length (subject_stages (approval_stages s) k) \<le> 1 \<or>
        (\<forall>r\<in>set (subject_stages (approval_stages s') k). st_status r = ''approved'')))"

lemma four_eyes_step:
  assumes fe: "four_eyes (approval_stages s)" and pk: "pk st_id (approval_stages s)" and f: "stage_map f (approval_stages s) t'"
    and D: "decider_step e s sid a f"
  shows "four_eyes t'"
  unfolding four_eyes_def
proof (intro ballI impI notI)
  fix x' y'
  assume m: "x' \<in> set t'" "y' \<in> set t'" and c: "same_subject x' y' \<and> x' \<noteq> y' \<and> st_decided_by x' \<noteq> None"
    and eq: "st_decided_by x' = st_decided_by y'"
  obtain x where x: "x \<in> set (approval_stages s)" "x' = f x" "stage_moved x x'" by (rule stage_map_mem [OF f m(1)])
  obtain y where y: "y \<in> set (approval_stages s)" "y' = f y" "stage_moved y y'" by (rule stage_map_mem [OF f m(2)])
  have ss: "same_subject x y" using c stage_moved_slot [OF x(3)] stage_moved_slot [OF y(3)] by (simp add: same_subject_def)
  have ne: "x \<noteq> y" using c x(2) y(2) by auto
  have old: "\<not> (st_decided_by x = st_decided_by y \<and> st_decided_by x \<noteq> None)"
    using fe x(1) y(1) ss ne unfolding four_eyes_def by blast
  have Dx: "st_decided_by x' \<noteq> st_decided_by x \<Longrightarrow> st_decided_by x' = Some a \<and> st_id x = sid \<and> fresh_decider e s x a"
    using D x by (simp add: decider_step_def)
  have Dy: "st_decided_by y' \<noteq> st_decided_by y \<Longrightarrow> st_decided_by y' = Some a \<and> st_id y = sid \<and> fresh_decider e s y a"
    using D y by (simp add: decider_step_def)
  show False
  proof (cases "st_decided_by x' = st_decided_by x")
    case keepx: True
    show False
    proof (cases "st_decided_by y' = st_decided_by y")
      case True
      then show False using old keepx eq c by simp
    next
      case False
      then have "st_decided_by x = Some a" "fresh_decider e s y a" using Dy keepx eq by simp_all
      then show False using ss ne x(1) by (auto simp: fresh_decider_def)
    qed
  next
    case chx: False
    show False
    proof (cases "st_decided_by y' = st_decided_by y")
      case True
      then have "st_decided_by y = Some a" "fresh_decider e s x a" using Dx [OF chx] eq by simp_all
      then show False using same_subject_sym [OF ss] ne y(1) by (auto simp: fresh_decider_def)
    next
      case False
      then have "st_id x = st_id y" using Dx [OF chx] Dy by simp
      then show False using pk x(1) y(1) ne unfolding pk_def by (meson distinct_map inj_onD)
    qed
  qed
qed

lemma no_self_step:
  assumes ns: "no_self_review e (map uc_key (ai_use_cases s)) (approval_stages s)" and f: "stage_map f (approval_stages s) t'"
    and D: "decider_step e s sid a f"
  shows "no_self_review e (map uc_key (ai_use_cases s)) t'"
  unfolding no_self_review_def
proof (intro ballI, clarify)
  fix x' i sub
  assume m: "x' \<in> set t'" and u: "(i, sub) \<in> set (map uc_key (ai_use_cases s))"
    and c: "st_subject_type x' = ''review_task''" "st_subject_id x' = intake_task_id e i" "sub \<noteq> []" and eq: "st_decided_by x' = Some sub"
  obtain x where x: "x \<in> set (approval_stages s)" "x' = f x" "stage_moved x x'" by (rule stage_map_mem [OF f m])
  have xc: "st_subject_type x = ''review_task''" "st_subject_id x = intake_task_id e i" using c stage_moved_slot [OF x(3)] by simp_all
  show False
  proof (cases "st_decided_by x' = st_decided_by x")
    case True
    then show False using ns x(1) u xc c(3) eq unfolding no_self_review_def by fastforce
  next
    case False
    then have "st_decided_by x' = Some a" "fresh_decider e s x a" using D x unfolding decider_step_def by blast+
    then show False using u xc c(3) eq unfolding fresh_decider_def by fastforce
  qed
qed

lemma approved_step:
  assumes inv: "review_inv e s" and keys: "keys_kept s s'" and f: "stage_map f (approval_stages s) (approval_stages s')"
    and A: "approval_step s s'"
  shows "approved_ok e (ai_use_cases s') (approval_stages s')"
  unfolding approved_ok_def Let_def
proof (intro ballI conjI impI)
  fix u
  assume u: "u \<in> set (ai_use_cases s')"
  let ?k = "intake_task_id e (uc_intake_id u)"
  have own': "subject_stages (approval_stages s') ?k = map f (subject_stages (approval_stages s) ?k)" by (rule subject_stages_map [OF f])
  have "uc_key u \<in> set (map uc_key (ai_use_cases s))" using u keys unfolding keys_kept_def by (metis image_eqI set_map)
  then obtain u1 where u1: "u1 \<in> set (ai_use_cases s)" "uc_intake_id u1 = uc_intake_id u" by (auto simp: uc_key_def)
  have ap: "subject_stages (approval_stages s) ?k \<noteq> []" and
    all: "\<And>v. v \<in> set (ai_use_cases s) \<Longrightarrow> uc_intake_id v = uc_intake_id u \<Longrightarrow> uc_status v = ''approved'' \<Longrightarrow>
      2 \<le> length (subject_stages (approval_stages s) ?k) \<Longrightarrow> \<forall>x\<in>set (subject_stages (approval_stages s) ?k). st_status x = ''approved''"
    using review_invD(8) [OF inv] u1 unfolding approved_ok_def Let_def by metis+
  show "subject_stages (approval_stages s') ?k \<noteq> []" using ap own' by simp
  fix x'
  assume c: "uc_status u = ''approved'' \<and> 2 \<le> length (subject_stages (approval_stages s') ?k)" and x': "x' \<in> set (subject_stages (approval_stages s') ?k)"
  have len: "2 \<le> length (subject_stages (approval_stages s) ?k)" using c own' by simp
  have was: "st_status x' = ''approved''" if "v \<in> set (ai_use_cases s)" "uc_key v = uc_key u" "uc_status v = ''approved''" for v
  proof -
    have "uc_intake_id v = uc_intake_id u" using that(2) by (simp add: uc_key_def)
    note app = all [OF that(1) this that(3) len]
    obtain x where x: "x \<in> set (subject_stages (approval_stages s) ?k)" "x' = f x" using x' own' by auto
    then have "stage_moved x x'" "st_status x = ''approved''" using f app by (auto simp: stage_map_def subject_stages_def)
    then show ?thesis by (auto simp: stage_moved_def decided_def)
  qed
  from A consider "no_approvals s s'"
    | k where "approves s s' k" "length (subject_stages (approval_stages s) k) \<le> 1 \<or>
        (\<forall>r\<in>set (subject_stages (approval_stages s') k). st_status r = ''approved'')"
    unfolding approval_step_def by blast
  then show "st_status x' = ''approved''"
  proof cases
    case 1
    then show ?thesis using was u c unfolding no_approvals_def by blast
  next
    case 2
    from 2(1) u c consider v where "v \<in> set (ai_use_cases s)" "uc_key v = uc_key u" "uc_status v = ''approved''"
      | "(k, ''intake_review'', uc_intake_id u) \<in> set (map rt_key (review_tasks s))"
      unfolding approves_def by blast
    then show ?thesis
    proof cases
      case 1
      then show ?thesis by (rule was)
    next
      case task: 2
      then have "k = ?k" using review_invD(4) [OF inv] unfolding tasks_ok_def by fastforce
      then show ?thesis using 2(2) len x' by auto
    qed
  qed
qed

lemma review_inv_step:
  assumes inv: "review_inv e s" and keys: "keys_kept s s'" and ok: "stages_ok e (approval_stages s')"
    and f: "stage_map f (approval_stages s) (approval_stages s')" and D: "decider_step e s sid a f" and A: "approval_step s s'"
  shows "review_inv e s'"
proof -
  have k: "map rt_key (review_tasks s') = map rt_key (review_tasks s)" "map uc_key (ai_use_cases s') = map uc_key (ai_use_cases s)"
    "governance_policies s' = governance_policies s" using keys by (simp_all add: keys_kept_def)
  have "stages_have_tasks (map rt_key (review_tasks s)) (approval_stages s')"
    unfolding stages_have_tasks_def
  proof (intro ballI impI)
    fix y
    assume "y \<in> set (approval_stages s')" and ty: "st_subject_type y = ''review_task''"
    then obtain x where "x \<in> set (approval_stages s)" "stage_moved x y" using stage_map_mem [OF f] by metis
    then show "st_review_round y = 0 \<and> st_subject_id y \<in> fst ` set (map rt_key (review_tasks s))"
      using review_invD(5) [OF inv] ty stage_moved_slot [of x y] unfolding stages_have_tasks_def by auto
  qed
  then show ?thesis
    unfolding review_inv_def stages_inv_def versions_inv_def k
    using inv [unfolded review_inv_def stages_inv_def versions_inv_def] ok four_eyes_step [OF review_invD(6) [OF inv] stages_okD(1) [OF review_invD(2) [OF inv]] f D]
      no_self_step [OF review_invD(7) [OF inv] f D] approved_step [OF inv keys f A] by blast
qed

lemma review_inv_frame:
  assumes "review_inv e s" "keys_kept s s'" "approval_stages s' = approval_stages s" "no_approvals s s'"
  shows "review_inv e s'"
proof (rule review_inv_step [OF assms(1,2), of "\<lambda>x. x" "[]" "[]"])
  show "stages_ok e (approval_stages s')" using review_invD(2) [OF assms(1)] assms(3) by simp
  show "stage_map (\<lambda>x. x) (approval_stages s) (approval_stages s')" using assms(3) by (simp add: stage_map_def)
  show "decider_step e s [] [] (\<lambda>x. x)" by (simp add: decider_step_def)
  show "approval_step s s'" using assms(4) by (simp add: approval_step_def)
qed

lemma refresh_keys: "keys_kept s (refresh_workflow_state e scopes s)" "no_approvals s (refresh_workflow_state e scopes s)"
  "approval_stages (refresh_workflow_state e scopes s) = approval_stages s"
proof -
  note q = queue_frameD [OF queue_frame_refresh [of s e scopes]]
  have "map rt_key ts = map rt_key ts'" if "map task_core ts = map task_core ts'" for ts ts'
  proof -
    have key: "rt_key t = rt_key (task_core t)" for t by (simp add: rt_key_def task_core_def)
    have "map rt_key ts = map rt_key (map task_core ts)" "map rt_key ts' = map rt_key (map task_core ts')" using key by simp_all
    then show ?thesis using that by (simp only:)
  qed
  then have "map rt_key (review_tasks (refresh_workflow_state e scopes s)) = map rt_key (review_tasks s)" using refresh_core by blast
  then show "keys_kept s (refresh_workflow_state e scopes s)" using q by (simp add: keys_kept_def)
  show "no_approvals s (refresh_workflow_state e scopes s)" by (rule no_approvals_same) (rule q)
  show "approval_stages (refresh_workflow_state e scopes s) = approval_stages s" by (rule q)
qed

lemma review_inv_refresh: "review_inv e s \<Longrightarrow> review_inv e (refresh_workflow_state e' scopes s)"
  by (rule review_inv_frame [OF _ refresh_keys(1,3,2)])

lemma intake_task_id_inj: "collision_free e \<Longrightarrow> intake_task_id e i = intake_task_id e j \<Longrightarrow> i = j"
  unfolding intake_task_id_def entity_id_def collision_free_def by (simp add: inj_eq)

text \<open>The task of a use case's own review, and its submitter.\<close>

lemma own_task:
  assumes inv: "review_inv e s" and t: "t \<in> set (review_tasks s)" "rt_id t = intake_task_id e i" and u: "(i, sub) \<in> set (map uc_key (ai_use_cases s))"
  shows "rt_task_type t = ''intake_review''" "rt_change_id t = i" "intake_submitter s i = Some sub"
proof -
  note ok = review_invD(4) [OF inv]
  have "rt_key t \<in> set (map rt_key (review_tasks s))" using t(1) by simp
  then have k: "(rt_task_type t = ''intake_review'' \<longleftrightarrow> (\<exists>i. rt_id t = intake_task_id e i)) \<and>
      (rt_task_type t = ''intake_review'' \<longrightarrow> rt_id t = intake_task_id e (rt_change_id t))"
    using ok unfolding tasks_ok_def rt_key_def by fastforce
  then show ty: "rt_task_type t = ''intake_review''" using t(2) by blast
  then show "rt_change_id t = i" using k t(2) intake_task_id_inj [OF review_invD(1) [OF inv]] by simp
  obtain v where v: "v \<in> set (ai_use_cases s)" "uc_key v = (i, sub)" using u by auto
  have "pk uc_intake_id (ai_use_cases s)" using ok unfolding tasks_ok_def pk_def by (simp add: uc_key_def comp_def)
  then show "intake_submitter s i = Some sub"
    using by_key_unique [of uc_intake_id "ai_use_cases s" v] v by (simp add: intake_submitter_def uc_key_def)
qed

lemma log_frame:
  "keys_kept (s\<lparr>governance_decisions := ds\<rparr>) s' = keys_kept s s'" "no_approvals (s\<lparr>governance_decisions := ds\<rparr>) s' = no_approvals s s'"
  "approves (s\<lparr>governance_decisions := ds\<rparr>) s' k = approves s s' k"
  by (simp_all add: keys_kept_def no_approvals_def approves_def)

lemma record_decision_cases:
  assumes "record_decision e ty k decision rationale a tenant s = Inr (s', d)"
  obtains (replay) "s' = s"
    | (new) t ds where "load_decision_target s ty k tenant = Inr t"
        "sync_decision_to_stages e ty k decision a (decision_id e ty k decision rationale a)
           (apply_decision_status e ty k decision (s\<lparr>governance_decisions := ds\<rparr>)) = Inr s'"
proof -
  obtain t where t: "load_decision_target s ty k tenant = Inr t" using assms by (auto simp: record_decision_def ebind_eq_Inr)
  show thesis
  proof (cases "by_key gd_id (decision_id e ty k decision rationale a) (governance_decisions s)")
    case None
    then show thesis using assms t by (auto simp: record_decision_def ebind_eq_Inr Let_def split: option.splits intro: new [OF t])
  next
    case (Some x)
    then show thesis using assms t by (auto simp: record_decision_def intro: replay)
  qed
qed

lemma stage_guards_fresh:
  assumes inv: "review_inv e s" and x: "x \<in> set (approval_stages s)" and g: "stage_guards s a x = Inr ()"
  shows "st_status x = ''open''" "fresh_decider e s x (ac_user_ref a)"
proof -
  obtain subject where sub: "load_stage_subject s x = Inr subject" and
    maker: "\<not> (nonempty (stage_maker s x subject) \<and> stage_maker s x subject = Some (ac_user_ref a))" and
    sib: "\<not> actor_decided_sibling_stage s x (ac_user_ref a)" and op: "st_status x = ''open''"
    using g by (auto simp: stage_guards_def ebind_eq_Inr split: if_splits)
  show "st_status x = ''open''" by (rule op)
  have pk: "st_id y \<noteq> st_id x" if "y \<in> set (approval_stages s)" "y \<noteq> x" for y
    using stages_okD(1) [OF review_invD(2) [OF inv]] x that unfolding pk_def by (meson distinct_map inj_onD)
  show "fresh_decider e s x (ac_user_ref a)"
    unfolding fresh_decider_def
  proof (intro conjI ballI impI, goal_cases)
    case (1 y)
    then show ?case using sib pk [of y] by (auto simp: actor_decided_sibling_stage_def exists_row_def list_ex_iff sibling_iff)
  next
    case (2 p)
    obtain i m where p: "p = (i, m)" by (cases p)
    show ?case unfolding p prod.case
    proof (intro impI)
      assume c: "st_subject_type x = ''review_task'' \<and> st_subject_id x = intake_task_id e i \<and> m \<noteq> []"
      then obtain t where t: "subject = TaskSubject t" "by_key rt_id (st_subject_id x) (review_tasks s) = Some t"
        using sub by (auto simp: load_stage_subject_def split: option.splits)
      have "t \<in> set (review_tasks s)" "rt_id t = intake_task_id e i" using by_key_Some [OF t(2)] c by simp_all
      note own = own_task [OF inv this 2 [unfolded p]]
      then have "stage_maker s x subject = Some m" by (simp add: t(1) intake_submitter_def)
      then show "ac_user_ref a \<noteq> m" using maker c by simp
    qed
  qed
qed

lemma decide_stage_cases:
  assumes r: "decide_approval_stage e a sid decision rationale s = Inr (s', d, q)"
  obtains x s1 where "decision \<in> {''approve'', ''reject''}" "load_stage s sid = Inr x" "stage_guards s a x = Inr ()"
    "record_decision e ''approval_stage'' sid decision rationale (ac_user_ref a) None s = Inr (s1, d)"
    "s' = (if st_subject_type x = ''review_task'' then refresh_workflow_state e (Some [stage_scope x]) s1 else s1)"
proof -
  have dec: "decision \<in> {''approve'', ''reject''}" using r by (auto simp: decide_approval_stage_def split: if_splits)
  then have nd: "\<not> decision \<notin> {''approve'', ''reject''}" by simp
  obtain x where x: "load_stage s sid = Inr x"
    using r dec by (cases "load_stage s sid") (auto simp: decide_approval_stage_def)
  have g: "stage_guards s a x = Inr ()" using r dec x by (cases "stage_guards s a x") (auto simp: decide_approval_stage_def)
  obtain s1 d1 where rec1: "record_decision e ''approval_stage'' sid decision rationale (ac_user_ref a) None s = Inr (s1, d1)"
    using r dec x g by (cases "record_decision e ''approval_stage'' sid decision rationale (ac_user_ref a) None s") (auto simp: decide_approval_stage_def)
  let ?s2 = "if st_subject_type x = ''review_task'' then refresh_workflow_state e (Some [stage_scope x]) s1 else s1"
  have "ebind (load_stage ?s2 sid) (\<lambda>updated. ebind (load_stage_subject ?s2 updated) (\<lambda>_. Inr (?s2, d1, stage_audit a x decision))) = Inr (s', d, q)"
    using r unfolding decide_approval_stage_def if_not_P [OF nd] by (simp add: x g rec1 Let_def split del: if_split)
  then have "s' = ?s2" "d1 = d" unfolding ebind_eq_Inr by blast+
  then show thesis using that [OF dec x g] rec1 by simp
qed

lemma decide_stage_inv:
  assumes inv: "review_inv e0 s"
    and r: "decide_approval_stage e a sid decision rationale s = Inr (s', d, q)"
  shows "review_inv e0 s'"
proof -
  obtain x s1 where dec: "decision \<in> {''approve'', ''reject''}" and x: "load_stage s sid = Inr x" and g: "stage_guards s a x = Inr ()"
    and rec: "record_decision e ''approval_stage'' sid decision rationale (ac_user_ref a) None s = Inr (s1, d)"
    and s': "s' = (if st_subject_type x = ''review_task'' then refresh_workflow_state e (Some [stage_scope x]) s1 else s1)"
    by (rule decide_stage_cases [OF r])
  have k: "by_key st_id sid (approval_stages s) = Some x" using x by (auto simp: load_stage_def split: option.splits)
  have xm: "x \<in> set (approval_stages s)" "st_id x = sid" using by_key_Some [OF k] by simp_all
  from rec have "review_inv e0 s1"
  proof (cases rule: record_decision_cases)
    case replay
    then show ?thesis using inv by simp
  next
    case (new t ds)
    let ?s0 = "s\<lparr>governance_decisions := ds\<rparr>" and ?did = "decision_id e ''approval_stage'' sid decision rationale (ac_user_ref a)"
    have "apply_decision_status e ''approval_stage'' sid decision ?s0 = ?s0" by (simp add: apply_decision_status_def split: option.splits)
    then have sync: "sync_decision_to_stages e ''approval_stage'' sid decision (ac_user_ref a) ?did ?s0 = Inr s1" using new(2) by simp
    have ok: "stages_ok e0 (approval_stages ?s0)" using review_invD(2) [OF inv] by simp
    have app: "apply_stage_decision e x decision ?did (ac_user_ref a) ?s0 = Inr s1"
      using sync k dec by (auto simp: sync_decision_to_stages_def)
    have pk: "pk st_id (approval_stages ?s0)" and x0: "x \<in> set (approval_stages ?s0)" using stages_okD(1) [OF ok] xm by simp_all
    obtain f where f: "stage_map f (approval_stages ?s0) (approval_stages s1)" "decided_by_actor (st_id x) (ac_user_ref a) f"
      by (rule apply_stage_map [OF app pk x0])
    have only: "y = x" if "y \<in> set (approval_stages s)" "st_id y = st_id x" for y
      using pk xm(1) that unfolding pk_def by (simp add: distinct_map inj_on_def)
    show ?thesis
    proof (rule review_inv_step [OF inv, of s1 f "st_id x" "ac_user_ref a"])
      show "keys_kept s s1" using apply_stage_effect(1) [OF app pk x0] by (simp add: log_frame)
      show "stages_ok e0 (approval_stages s1)" using apply_stage_decision_ok [OF ok x0 app] by simp
      show "stage_map f (approval_stages s) (approval_stages s1)" using f(1) by simp
      show "decider_step e0 s (st_id x) (ac_user_ref a) f"
        unfolding decider_step_def using f(2) stage_guards_fresh(2) [OF inv xm(1) g] only unfolding decided_by_actor_def by blast
      show "approval_step s s1"
      proof (cases "no_approvals s s1")
        case False
        then have a: "st_subject_type x = ''review_task''" "approves s s1 (st_subject_id x)"
            "\<forall>r\<in>set (approval_stages s1). same_subject r x \<longrightarrow> st_status r = ''approved''"
          using apply_stage_effect(2) [OF app pk x0] by (simp_all add: log_frame)
        have "st_review_round x = 0" using review_invD(5) [OF inv] xm(1) a(1) unfolding stages_have_tasks_def by blast
        then have "\<forall>r\<in>set (subject_stages (approval_stages s1) (st_subject_id x)). st_status r = ''approved''"
          using a(1,3) by (auto simp: subject_stages_def same_subject_def)
        then show ?thesis using a(2) unfolding approval_step_def by blast
      qed (simp add: approval_step_def)
    qed
  qed
  then show ?thesis using s' review_inv_refresh by simp
qed

lemma load_task_target:
  assumes "load_decision_target s ''review_task'' k tenant = Inr t"
  obtains r where "r \<in> set (review_tasks s)" "t = task_target r" "rt_id r = k"
proof -
  have "find (\<lambda>t. dt_id t = k \<and> (nonempty tenant \<longrightarrow> dt_tenant_id t = tenant)) (map task_target (review_tasks s)) = Some t"
    using assms by (auto simp: load_decision_target_def target_rows_def split: option.splits)
  then have "t \<in> set (map task_target (review_tasks s))" "dt_id t = k" using find_mem by fastforce+
  then show thesis using that by (auto simp: task_target_def plain_target_def)
qed

lemma single_stage:
  assumes "list_subject_stages s ''review_task'' k (Some 0) = [x]"
  shows "x \<in> set (approval_stages s)" "of_subject ''review_task'' k 0 x" "\<And>y. y \<in> set (approval_stages s) \<Longrightarrow> same_subject y x \<Longrightarrow> y = x"
proof -
  have own: "r = x \<longleftrightarrow> r \<in> set (approval_stages s) \<and> of_subject ''review_task'' k 0 r" for r
    using set_subject_stages [of s "''review_task''" k 0] assms by auto
  then show "x \<in> set (approval_stages s)" and xs: "of_subject ''review_task'' k 0 x" by blast+
  show "y = x" if "y \<in> set (approval_stages s)" "same_subject y x" for y
    using own that xs by (simp add: same_subject_def of_subject_def)
qed

lemma length_list_subject_stages: "length (list_subject_stages s ''review_task'' k (Some 0)) = length (subject_stages (approval_stages s) k)"
  by (simp add: list_subject_stages_def subject_stages_def)

lemma stage_policy_single:
  assumes "enforce_stage_policy s a t ''approve'' = Inr ()" "dt_type t = ''review_task''"
  shows "length (subject_stages (approval_stages s) (dt_id t)) \<le> 1"
  using assms unfolding length_list_subject_stages [symmetric] enforce_stage_policy_def Let_def
  by (auto split: list.splits if_splits)

lemma decision_type_cases:
  assumes "load_decision_target s ty k tenant = Inr t"
  shows "dt_type t = ty"
proof -
  obtain rows where rows: "target_rows s ty = Some rows" "find (\<lambda>t. dt_id t = k \<and> (nonempty tenant \<longrightarrow> dt_tenant_id t = tenant)) rows = Some t"
    using assms by (auto simp: load_decision_target_def split: option.splits)
  then have "t \<in> set rows" using find_mem by fastforce
  then show ?thesis using rows(1)
    by (auto simp: target_rows_def task_target_def finding_target_def change_target_def assessment_target_def gate_target_def
        incident_target_def stage_target_def plain_target_def split: if_splits)
qed

lemma direct_decision_inv:
  assumes inv: "review_inv e0 s"
    and t: "load_decision_target s ty k tenant = Inr t" and ty: "ty \<noteq> ''approval_stage''"
    and sod: "enforce_segregation_of_duties s a t = Inr ()" and pol: "enforce_stage_policy s a t decision = Inr ()"
    and rec: "record_decision e ty k decision rationale (ac_user_ref a) tenant s = Inr (s1, d)"
  shows "review_inv e0 s1"
  using rec
proof (cases rule: record_decision_cases)
  case replay
  then show ?thesis using inv by simp
next
  case (new t' ds)
  let ?s0 = "s\<lparr>governance_decisions := ds\<rparr>"
  let ?s1 = "apply_decision_status e ty k decision ?s0"
  have keys: "keys_kept s ?s1" using apply_decision_keys [of ?s0 e ty k decision] by (simp add: log_frame)
  have st: "approval_stages ?s1 = approval_stages s" by simp
  have A: "no_approvals s ?s1 \<or> ty = ''review_task'' \<and> decision = ''approve'' \<and> approves s ?s1 k"
    using apply_decision_no_approvals [of ty decision ?s0 e k] apply_decision_approves [of ?s0 e k decision] by (auto simp: log_frame)
  have one: "length (subject_stages (approval_stages s) k) \<le> 1" if "ty = ''review_task''" "decision = ''approve''"
  proof -
    have "dt_type t = ''review_task''" using decision_type_cases [OF t] that by simp
    moreover have "dt_id t = k"
      by (rule load_task_target [OF t [unfolded that(1)]]) (simp add: task_target_def plain_target_def)
    ultimately show ?thesis using stage_policy_single [of s a t] pol that by simp
  qed
  from new(2) show ?thesis
  proof (cases rule: sync_decision_cases)
    case same
    have "approval_step s ?s1" using A one unfolding approval_step_def by blast
    moreover have "stage_map (\<lambda>x. x) (approval_stages s) (approval_stages ?s1)" using st by (simp add: stage_map_def)
    moreover have "stages_ok e0 (approval_stages ?s1)" using st review_invD(2) [OF inv] by simp
    moreover have "decider_step e0 s [] [] (\<lambda>x. x)" by (simp add: decider_step_def)
    ultimately show ?thesis using same review_inv_step [OF inv keys] by blast
  next
    case (stage x)
    then show ?thesis using ty by simp
  next
    case (single x)
    let ?did = "decision_id e ty k decision rationale (ac_user_ref a)"
    let ?st = "if decision = ''approve'' then ''approved'' else ''rejected''"
    let ?f = "stamp_row e (st_id x) ?st ?did (ac_user_ref a)"
    have ls: "list_subject_stages s ''review_task'' k (Some 0) = [x]" using single(2) by (simp add: list_subject_stages_def)
    note x = single_stage [OF ls]
    have s1: "s1 = ?s1\<lparr>approval_stages := map ?f (approval_stages s)\<rparr>" using single(4) by (simp add: stamp_stage_map)
    have fresh: "fresh_decider e0 s x (ac_user_ref a)"
      unfolding fresh_decider_def
    proof (intro conjI ballI impI, goal_cases)
      case (1 y)
      then show ?case using x(3) by blast
    next
      case (2 p)
      obtain i m where p: "p = (i, m)" by (cases p)
      show ?case unfolding p prod.case
      proof (intro impI)
        assume c: "st_subject_type x = ''review_task'' \<and> st_subject_id x = intake_task_id e0 i \<and> m \<noteq> []"
        obtain r where r: "r \<in> set (review_tasks s)" "t = task_target r" "rt_id r = k" by (rule load_task_target [OF t [unfolded single(1)]])
        have "rt_id r = intake_task_id e0 i" using r(3) c x(2) by (simp add: of_subject_def)
        note own = own_task [OF inv r(1) this 2 [unfolded p]]
        then have "decision_maker s t = Some m" using c by (simp add: decision_maker_def r(2) task_target_def plain_target_def or_str_def intake_submitter_def)
        then show "ac_user_ref a \<noteq> m" using sod c by (auto simp: enforce_segregation_of_duties_def split: if_splits)
      qed
    qed
    show ?thesis
    proof (rule review_inv_step [OF inv, of s1 ?f "st_id x" "ac_user_ref a"])
      show "keys_kept s s1" using keys by (simp add: s1 keys_kept_def)
      show "stage_map ?f (approval_stages s) (approval_stages s1)" by (simp add: s1 stage_map_def stamp_row_moved)
      show "stages_ok e0 (approval_stages s1)" using sync_decision_ok [OF _ new(2)] review_invD(2) [OF inv] by simp
      have "y = x" if "y \<in> set (approval_stages s)" "st_id y = st_id x" for y
        using stages_okD(1) [OF review_invD(2) [OF inv]] x(1) that unfolding pk_def by (simp add: distinct_map inj_on_def)
      then show "decider_step e0 s (st_id x) (ac_user_ref a) ?f"
        unfolding decider_step_def using fresh decided_by_actor_stamp unfolding decided_by_actor_def by blast
      show "approval_step s s1" using A one by (auto simp: s1 approval_step_def no_approvals_def approves_def)
    qed
  qed
qed

end
