(* ===== verification/Review_Run.thy ===== *)
theory Review_Run
  imports Review_Invariant
begin

text \<open>
  The rest of the routes that touch reviews (exceptions, lifecycle transitions, the ageing passes,
  submission), and the runs they make up: each keeps the invariant of
  \<^theory_text>\<open>Review_Invariant\<close>.
\<close>

section \<open>Exceptions, lifecycle transitions and ageing keep the invariant\<close>

lemma exception_inv:
  assumes inv: "review_inv e0 s" and r: "create_exception e ty k reason control expires a tenant s = Inr (s', x)"
  shows "review_inv e0 s'"
proof (cases "by_key ge_id (exception_id e ty k reason expires) (governance_exceptions s)")
  case None
  then obtain xs where s': "s' = apply_decision_status e ty k ''waive'' (s\<lparr>governance_exceptions := xs\<rparr>)"
    using r by (auto simp: create_exception_def ebind_eq_Inr Let_def split: option.splits)
  let ?s0 = "s\<lparr>governance_exceptions := xs\<rparr>"
  have "keys_kept s s'" using apply_decision_keys [of ?s0 e ty k "''waive''"] by (simp add: s' keys_kept_def)
  moreover have "no_approvals s s'" using apply_decision_no_approvals [of ty "''waive''" ?s0 e k] by (simp add: s' no_approvals_def)
  ultimately show ?thesis by (intro review_inv_frame [OF inv]) (simp_all add: s')
next
  case (Some y)
  then show ?thesis using r inv by (auto simp: create_exception_def ebind_eq_Inr Let_def)
qed

lemma expire_frame:
  "review_tasks (fold (expire_exception e) xs s) = review_tasks s \<and> ai_use_cases (fold (expire_exception e) xs s) = ai_use_cases s \<and>
   approval_stages (fold (expire_exception e) xs s) = approval_stages s \<and> governance_policies (fold (expire_exception e) xs s) = governance_policies s"
  by (induction xs arbitrary: s) (simp_all add: expire_exception_def Let_def)

lemma expire_inv: "review_inv e0 s \<Longrightarrow> review_inv e0 (fst (expire_due_exceptions e s))"
  using expire_frame [of e "due_exceptions e s" s] review_inv_frame [of e0 s "fst (expire_due_exceptions e s)"]
  by (simp add: expire_due_exceptions_def keys_kept_def no_approvals_same)

lemma set_intake_status_eq:
  assumes "set_intake_status e i st s = Inr (s', u)"
  defines "s1 \<equiv> s\<lparr>ai_use_cases := update_where (\<lambda>u. uc_intake_id u = i) (\<lambda>u. u\<lparr>uc_status := st, uc_updated_at := db_now e\<rparr>) (ai_use_cases s)\<rparr>"
  shows "s' = (if st \<in> {''recertified'', ''retired''} then close_recertification_tasks e i s1 else s1)"
proof (cases "by_key uc_intake_id i (ai_use_cases s)")
  case None
  then show ?thesis using assms(1) by (simp add: set_intake_status_def)
next
  case (Some y)
  let ?s2 = "if st \<in> {''recertified'', ''retired''} then close_recertification_tasks e i s1 else s1"
  have "(case by_key uc_intake_id i (ai_use_cases ?s2) of None \<Rightarrow> Inl TypeErr | Some u \<Rightarrow> Inr (?s2, u)) = Inr (s', u)"
    using assms(1) Some unfolding set_intake_status_def Let_def s1_def option.case(2) by simp
  then show ?thesis by (cases "by_key uc_intake_id i (ai_use_cases ?s2)") (simp_all split del: if_split)
qed

lemma close_recertification_frame:
  "ai_use_cases (close_recertification_tasks e i s) = ai_use_cases s"
  "governance_policies (close_recertification_tasks e i s) = governance_policies s"
  "approval_stages (close_recertification_tasks e i s) = approval_stages s"
  "map rt_key (review_tasks (close_recertification_tasks e i s)) = map rt_key (review_tasks s)"
  unfolding close_recertification_tasks_def by (simp_all add: rt_key_def map_key_update)

lemma set_status_inv:
  assumes inv: "review_inv e0 s" and r: "set_intake_status e i st s = Inr (s', u)" and st: "st \<noteq> ''approved''"
  shows "review_inv e0 s'"
proof -
  let ?p = "\<lambda>u. uc_intake_id u = i" and ?f = "\<lambda>u. u\<lparr>uc_status := st, uc_updated_at := db_now e\<rparr>"
  note s' = set_intake_status_eq [OF r]
  have cases: "ai_use_cases s' = update_where ?p ?f (ai_use_cases s)" by (simp add: s' close_recertification_frame)
  have "map uc_key (ai_use_cases s') = map uc_key (ai_use_cases s)" unfolding cases by (rule map_key_update) (simp add: uc_key_def)
  moreover have "map rt_key (review_tasks s') = map rt_key (review_tasks s)"
    "governance_policies s' = governance_policies s" "approval_stages s' = approval_stages s"
    by (simp_all add: s' close_recertification_frame)
  moreover have "no_approvals s s'"
    unfolding no_approvals_def cases
  proof (intro ballI impI)
    fix u
    assume "u \<in> set (update_where ?p ?f (ai_use_cases s))" and ap: "uc_status u = ''approved''"
    then show "\<exists>u0\<in>set (ai_use_cases s). uc_key u0 = uc_key u \<and> uc_status u0 = ''approved''"
    proof (cases rule: update_whereE)
      case (hit y)
      then show ?thesis using st ap by simp
    next
      case miss
      then show ?thesis using ap by blast
    qed
  qed
  ultimately show ?thesis by (intro review_inv_frame [OF inv]) (simp_all add: keys_kept_def)
qed

lemma lifecycle_inv:
  assumes "review_inv e0 s" "lifecycle_transition e a i rationale st action s = Inr (s', u, q)" "st \<noteq> ''approved''"
  shows "review_inv e0 s'"
  using assms(2) set_status_inv [OF assms(1) _ assms(3)]
  by (auto simp: lifecycle_transition_def ebind_eq_Inr split: option.splits)

lemma recertification_id: "collision_free e \<Longrightarrow> rt_id (recertification_task e u tp days) \<noteq> intake_task_id e i"
  by (simp add: recertification_task_def new_task_def intake_task_id_def entity_id_def collision_free_def inj_eq)

lemma tasks_ok_snoc:
  assumes "tasks_ok e tk ck" "k \<notin> fst ` set tk" "ty = ''intake_review'' \<longleftrightarrow> (\<exists>i. k = intake_task_id e i)"
    "ty = ''intake_review'' \<Longrightarrow> k = intake_task_id e c \<and> c \<in> fst ` set ck"
  shows "tasks_ok e (tk @ [(k, ty, c)]) ck"
  using assms unfolding tasks_ok_def by (simp add: ball_Un)

lemma tasks_ok_case:
  assumes "tasks_ok e tk ck" "i \<notin> fst ` set ck"
  shows "tasks_ok e tk (ck @ [(i, m)])"
  using assms unfolding tasks_ok_def by fastforce

lemma add_task_inv:
  assumes inv: "review_inv e s" and ty: "rt_task_type row \<noteq> ''intake_review''" and k: "\<And>i. rt_id row \<noteq> intake_task_id e i"
  shows "review_inv e (s\<lparr>review_tasks := insert_or_ignore rt_id row (review_tasks s)\<rparr>)"
proof (cases "rt_id row \<in> set (map rt_id (review_tasks s))")
  case True
  then have "insert_or_ignore rt_id row (review_tasks s) = review_tasks s" unfolding insert_or_ignore_def by simp
  then show ?thesis using inv by simp
next
  case False
  then have ts: "insert_or_ignore rt_id row (review_tasks s) = review_tasks s @ [row]" unfolding insert_or_ignore_def by simp
  have new: "rt_id row \<notin> fst ` set (map rt_key (review_tasks s))" using False by (auto simp: rt_key_def)
  have "tasks_ok e (map rt_key (review_tasks s @ [row])) (map uc_key (ai_use_cases s))"
    using tasks_ok_snoc [OF review_invD(4) [OF inv] new] ty k by (simp add: rt_key_def)
  moreover have "stages_have_tasks (map rt_key (review_tasks s @ [row])) (approval_stages s)"
    using review_invD(5) [OF inv] unfolding stages_have_tasks_def by auto
  ultimately show ?thesis using inv unfolding ts by (simp add: review_inv_def stages_inv_def versions_inv_def)
qed

lemma age_use_case_eq:
  assumes "age_use_case e u (s, n) = Inr (s', n')"
  shows "s' = s \<or> (\<exists>tp days. s' = s\<lparr>review_tasks := insert_or_ignore rt_id (recertification_task e u tp days) (review_tasks s)\<rparr>)"
proof -
  obtain tp d where
    "(case d of None \<Rightarrow> Inr (s, n)
      | Some days \<Rightarrow> let row = recertification_task e u tp days
          in Inr (s\<lparr>review_tasks := insert_or_ignore rt_id row (review_tasks s)\<rparr>,
                  if rt_id row \<in> set (map rt_id (review_tasks s)) then n else n + 1)) = (Inr (s', n') :: (db \<times> int) res)"
    using assms unfolding age_use_case_def prod.case ebind_eq_Inr by blast
  then show ?thesis unfolding Let_def by (cases d) (simp_all only: option.case sum.inject prod.inject, blast+)
qed

lemma age_use_case_inv:
  assumes inv: "review_inv e s" and r: "age_use_case e u (s, n) = Inr (s', n')"
  shows "review_inv e s'"
  using age_use_case_eq [OF r]
proof (elim disjE exE)
  fix tp days
  let ?row = "recertification_task e u tp days"
  assume "s' = s\<lparr>review_tasks := insert_or_ignore rt_id ?row (review_tasks s)\<rparr>"
  moreover have "rt_task_type ?row \<noteq> ''intake_review''" by (simp add: recertification_task_def new_task_def)
  ultimately show ?thesis using add_task_inv [OF inv, of ?row] recertification_id [OF review_invD(1) [OF inv]] by simp
qed (use inv in simp)

lemma age_inv:
  assumes "review_inv e s" "efold (age_use_case e) us (s, n) = Inr (s', n')"
  shows "review_inv e s'"
  using assms
proof (induction us arbitrary: s n)
  case (Cons u us)
  obtain s1 n1 where 1: "age_use_case e u (s, n) = Inr (s1, n1)" "efold (age_use_case e) us (s1, n1) = Inr (s', n')"
    using Cons.prems(2) by (auto simp: ebind_eq_Inr)
  then show ?case using Cons.IH age_use_case_inv [OF Cons.prems(1) 1(1)] by blast
qed simp

section \<open>Submission keeps the invariant\<close>

lemma materialize_new:
  assumes ok: "stages_ok e (approval_stages s)" and cf: "collision_free e" and ty: "sb_type b \<in> set subject_types"
    and none: "\<not> exists_row (of_subject (sb_type b) (sb_id b) (sb_round b)) (approval_stages s)"
    and r: "materialize_stages e b (JArr items) mode pt pv s = Inr (s', created)"
  obtains cols where "length cols = length items" "s' = s\<lparr>approval_stages := approval_stages s @ new_stages e b mode pt pv cols\<rparr>"
proof -
  obtain cols where cols: "emap (\<lambda>v. ebind (stage_role_text v) (\<lambda>role. Inr (role, stage_label_text v))) items = Inr cols"
    and s': "s' = s\<lparr>approval_stages := fold (insert_or_ignore st_id) (new_stages e b mode pt pv cols) (approval_stages s)\<rparr>"
    using r none by (auto simp: materialize_stages_def ebind_eq_Inr Let_def new_stages_def)
  have "length cols = length items" using emap_Inr_length [OF cols] by simp
  then show thesis using that s' materialize_append [OF ok cf ty none] by simp
qed

lemma approved_use_case_stages:
  assumes "review_inv e s" "u \<in> set (ai_use_cases s)"
  shows "exists_row (of_subject ''review_task'' (intake_task_id e (uc_intake_id u)) 0) (approval_stages s)"
    and "intake_task_id e (uc_intake_id u) \<in> set (map rt_id (review_tasks s))"
proof -
  have "subject_stages (approval_stages s) (intake_task_id e (uc_intake_id u)) \<noteq> []"
    using review_invD(8) [OF assms(1)] assms(2) unfolding approved_ok_def Let_def by blast
  then obtain x where x: "x \<in> set (approval_stages s)" "of_subject ''review_task'' (intake_task_id e (uc_intake_id u)) 0 x"
    unfolding subject_stages_def by (auto simp: filter_empty_conv)
  then show "exists_row (of_subject ''review_task'' (intake_task_id e (uc_intake_id u)) 0) (approval_stages s)"
    by (auto simp: exists_row_def list_ex_iff)
  have "st_subject_id x \<in> fst ` set (map rt_key (review_tasks s))"
    using review_invD(5) [OF assms(1)] x unfolding stages_have_tasks_def of_subject_def by blast
  then show "intake_task_id e (uc_intake_id u) \<in> set (map rt_id (review_tasks s))"
    using x(2) by (auto simp: of_subject_def rt_key_def)
qed

lemma create_intake_eq:
  assumes "create_intake e q s = Inr (s', u)"
  shows "seed_intake_review_task e (intake_id e q) q (intake_tier q)
    (s\<lparr>ai_use_cases := upsert uc_intake_id (merge_use_case e q) (use_case_row e q) (ai_use_cases s)\<rparr>) = Inr s'"
  using assms unfolding create_intake_def Let_def by (auto simp: ebind_eq_Inr split: option.splits)

lemma create_intake_row:
  assumes "create_intake e q s = Inr (s', u)"
  shows "by_key uc_intake_id (intake_id e q) (ai_use_cases s') = Some u"
  using assms unfolding create_intake_def Let_def by (auto simp: ebind_eq_Inr split: option.splits)

lemma resubmit_state:
  assumes inv: "review_inv e s" and u: "u \<in> set (ai_use_cases s)" "uc_intake_id u = intake_id e q"
    and r: "create_intake e q s = Inr (s', u')"
  obtains f where "\<And>x. rt_key (f x) = rt_key x \<and> rt_status (f x) = rt_status x"
    "s' = s\<lparr>ai_use_cases := update_where (\<lambda>x. uc_intake_id x = intake_id e q) (merge_use_case e q) (ai_use_cases s),
       review_tasks := update_where (\<lambda>x. rt_id x = intake_task_id e (intake_id e q)) f (review_tasks s)\<rparr>"
proof -
  note own = approved_use_case_stages [OF inv u(1), unfolded u(2)]
  let ?us = "update_where (\<lambda>x. uc_intake_id x = intake_id e q) (merge_use_case e q) (ai_use_cases s)"
  have "intake_id e q \<in> set (map uc_intake_id (ai_use_cases s))" using u by force
  then have us: "upsert uc_intake_id (merge_use_case e q) (use_case_row e q) (ai_use_cases s) = ?us"
    by (simp add: upsert_def use_case_row_def)
  let ?k = "intake_task_id e (intake_id e q)"
  let ?f = "\<lambda>t. t\<lparr>rt_priority := intake_priority (intake_tier q), rt_title := intake_title q,
                   rt_rationale := intake_rationale q (intake_tier q), rt_updated_at := db_now e\<rparr>"
  have "s' = s\<lparr>ai_use_cases := ?us, review_tasks := update_where (\<lambda>x. rt_id x = ?k) ?f (review_tasks s)\<rparr>"
    using create_intake_eq [OF r] own unfolding us seed_intake_review_task_def materialize_intake_stages_def materialize_stages_def Let_def
    by (auto simp: ebind_eq_Inr upsert_def new_task_def)
  then show thesis using that [of ?f] by (simp add: rt_key_def)
qed

lemma resubmit_inv:
  assumes inv: "review_inv e s" and old: "intake_id e q \<in> set (map uc_intake_id (ai_use_cases s))"
    and r: "create_intake e q s = Inr (s', u)"
  shows "review_inv e s'"
proof -
  obtain u0 where u0: "u0 \<in> set (ai_use_cases s)" "uc_intake_id u0 = intake_id e q" using old by auto
  let ?us = "update_where (\<lambda>x. uc_intake_id x = intake_id e q) (merge_use_case e q) (ai_use_cases s)"
  obtain f where f: "\<And>x. rt_key (f x) = rt_key x \<and> rt_status (f x) = rt_status x" and
    s': "s' = s\<lparr>ai_use_cases := ?us, review_tasks := update_where (\<lambda>x. rt_id x = intake_task_id e (intake_id e q)) f (review_tasks s)\<rparr>"
    by (rule resubmit_state [OF inv u0 r]) (rule that)
  have "keys_kept s s'"
    using f by (simp add: s' keys_kept_def map_key_update uc_key_def merge_use_case_def)
  moreover have "no_approvals s s'"
    unfolding no_approvals_def
  proof (intro ballI impI)
    fix u
    assume "u \<in> set (ai_use_cases s')" and ap: "uc_status u = ''approved''"
    then have "u \<in> set ?us" by (simp add: s')
    then show "\<exists>u0\<in>set (ai_use_cases s). uc_key u0 = uc_key u \<and> uc_status u0 = ''approved''"
    proof (cases rule: update_whereE)
      case (hit y)
      then show ?thesis using ap by (intro bexI [of _ y]) (simp_all add: merge_use_case_def uc_key_def)
    next
      case miss
      then show ?thesis using ap by blast
    qed
  qed
  moreover have "approval_stages s' = approval_stages s" by (simp add: s')
  ultimately show ?thesis using review_inv_frame [OF inv] by blast
qed

lemma tasks_ok_own:
  assumes "tasks_ok e tk ck" "(intake_task_id e i, ty, c) \<in> set tk"
  shows "intake_task_id e i = intake_task_id e c \<and> c \<in> fst ` set ck"
proof -
  have "\<forall>p\<in>set tk. (fst (snd p) = ''intake_review'' \<longleftrightarrow> (\<exists>i. fst p = intake_task_id e i)) \<and>
      (fst (snd p) = ''intake_review'' \<longrightarrow> fst p = intake_task_id e (snd (snd p)) \<and> snd (snd p) \<in> fst ` set ck)"
    using assms(1) unfolding tasks_ok_def case_prod_beta by blast
  from bspec [OF this assms(2)] show ?thesis by auto
qed

lemma fresh_intake_task:
  assumes inv: "review_inv e s" and new: "i \<notin> set (map uc_intake_id (ai_use_cases s))"
  shows "intake_task_id e i \<notin> set (map rt_id (review_tasks s))"
proof
  assume "intake_task_id e i \<in> set (map rt_id (review_tasks s))"
  then obtain ty c where "(intake_task_id e i, ty, c) \<in> set (map rt_key (review_tasks s))" by (auto simp: rt_key_def)
  from tasks_ok_own [OF review_invD(4) [OF inv] this]
  have "c = i" "c \<in> fst ` set (map uc_key (ai_use_cases s))" using intake_task_id_inj [OF review_invD(1) [OF inv], of i c] by simp_all
  then show False using new by (auto simp: uc_key_def)
qed

lemma add_review_inv:
  assumes inv: "review_inv e s" and new: "i \<notin> set (map uc_intake_id (ai_use_cases s))"
    and u: "uc_intake_id u = i" "uc_status u \<noteq> ''approved''"
    and t: "rt_id t = intake_task_id e i" "rt_task_type t = ''intake_review''" "rt_change_id t = i"
    and ok: "stages_ok e (approval_stages s @ xs)" and xs: "xs \<noteq> []"
    and x: "\<And>x. x \<in> set xs \<Longrightarrow> of_subject ''review_task'' (intake_task_id e i) 0 x \<and> st_decided_by x = None"
  shows "review_inv e (s\<lparr>ai_use_cases := ai_use_cases s @ [u], review_tasks := review_tasks s @ [t], approval_stages := approval_stages s @ xs\<rparr>)"
proof -
  let ?k = "intake_task_id e i" and ?tk = "map rt_key (review_tasks s)" and ?ck = "map uc_key (ai_use_cases s)" and ?t = "approval_stages s"
  have i: "i \<notin> fst ` set ?ck" using new by (auto simp: uc_key_def)
  have k: "?k \<notin> fst ` set ?tk" using fresh_intake_task [OF inv new] by (auto simp: rt_key_def)
  have old: "st_subject_id y \<noteq> ?k" if "y \<in> set ?t" "st_subject_type y = ''review_task''" for y
    using review_invD(5) [OF inv] k that unfolding stages_have_tasks_def by metis
  have "tasks_ok e (?tk @ [(?k, ''intake_review'', i)]) (?ck @ [(i, uc_submitted_by u)])"
    by (rule tasks_ok_snoc [OF tasks_ok_case [OF review_invD(4) [OF inv] i] k]) auto
  moreover have "stages_have_tasks (?tk @ [(?k, ''intake_review'', i)]) (?t @ xs)"
    using review_invD(5) [OF inv] x unfolding stages_have_tasks_def by (auto simp: of_subject_def)
  moreover have "four_eyes (?t @ xs)"
    using review_invD(6) [OF inv] x unfolding four_eyes_def by (simp add: ball_Un)
  moreover have "no_self_review e (?ck @ [(i, uc_submitted_by u)]) (?t @ xs)"
    using review_invD(7) [OF inv] x old unfolding no_self_review_def by (auto simp: ball_Un)
  moreover have "approved_ok e (ai_use_cases s @ [u]) (?t @ xs)"
  proof -
    have other: "subject_stages (?t @ xs) (intake_task_id e (uc_intake_id v)) = subject_stages ?t (intake_task_id e (uc_intake_id v))"
      if "v \<in> set (ai_use_cases s)" for v
    proof -
      have "uc_intake_id v \<noteq> i" using new that by auto
      then have "intake_task_id e (uc_intake_id v) \<noteq> ?k" using intake_task_id_inj [OF review_invD(1) [OF inv]] by blast
      then show ?thesis using x by (auto simp: subject_stages_def filter_empty_conv of_subject_def)
    qed
    have "subject_stages (?t @ xs) ?k \<noteq> []" using xs x by (auto simp: subject_stages_def filter_empty_conv neq_Nil_conv)
    then show ?thesis using review_invD(8) [OF inv] u other unfolding approved_ok_def Let_def by simp
  qed
  ultimately show ?thesis
    using inv ok t u unfolding review_inv_def stages_inv_def versions_inv_def by (simp add: rt_key_def uc_key_def)
qed

lemma new_submission_inv:
  assumes inv: "review_inv e s" and new: "intake_id e q \<notin> set (map uc_intake_id (ai_use_cases s))"
    and r: "create_intake e q s = Inr (s', u)"
  shows "review_inv e s'"
proof -
  let ?i = "intake_id e q" and ?k = "intake_task_id e (intake_id e q)"
  let ?b = "\<lparr>sb_type = ''review_task'', sb_id = ?k, sb_round = 0, sb_tenant_id = iq_tenant_id q, sb_project = iq_project q,
            sb_environment = iq_environment q, sb_application_name = iq_application_name q\<rparr>"
  let ?t = "new_task e ?k ?i ''intake_review'' (intake_priority (intake_tier q)) (intake_title q) (intake_rationale q (intake_tier q)) (intake_scope q)"
  let ?s1 = "s\<lparr>ai_use_cases := ai_use_cases s @ [use_case_row e q], review_tasks := review_tasks s @ [?t]\<rparr>"
  note cf = review_invD(1) [OF inv] and ok = review_invD(2) [OF inv]
  have us: "upsert uc_intake_id (merge_use_case e q) (use_case_row e q) (ai_use_cases s) = ai_use_cases s @ [use_case_row e q]"
    using new by (simp add: upsert_def use_case_row_def)
  have k: "?k \<notin> set (map rt_id (review_tasks s))" by (rule fresh_intake_task [OF inv new])
  have none: "\<not> exists_row (of_subject (sb_type ?b) (sb_id ?b) (sb_round ?b)) (approval_stages ?s1)"
  proof
    assume "exists_row (of_subject (sb_type ?b) (sb_id ?b) (sb_round ?b)) (approval_stages ?s1)"
    then obtain x where "x \<in> set (approval_stages s)" "of_subject ''review_task'' ?k 0 x" by (auto simp: exists_row_def list_ex_iff)
    then have "?k \<in> fst ` set (map rt_key (review_tasks s))" using review_invD(5) [OF inv] unfolding stages_have_tasks_def of_subject_def by metis
    then show False using k by (auto simp: rt_key_def)
  qed
  obtain tp where tp: "resolve_tier_policy e (governance_policies s) (iq_tenant_id q) (intake_tier q) = Inr tp" "wf_stages (tp_stages tp)"
      "tp_mode tp \<in> JStr ` set STAGE_MODES"
    using resolve_tier_policy_wf [OF review_invD(3) [OF inv]] by blast
  obtain mode where mode: "tp_mode tp = JStr mode" "mode \<in> {''sequence'', ''parallel''}" using tp(3) by (auto simp: STAGE_MODES_def)
  obtain items where items: "tp_stages tp = JArr items" "items \<noteq> []" using tp(2) unfolding wf_stages_def by blast
  obtain created where m: "materialize_stages e ?b (JArr items) mode (tp_policy_tenant tp) (tp_policy_version tp) ?s1 = Inr (s', created)"
    using create_intake_eq [OF r] k tp(1) mode(1) items(1)
    unfolding us seed_intake_review_task_def materialize_intake_stages_def Let_def
    by (auto simp: upsert_def new_task_def ebind_eq_Inr json_text_def)
  have ok1: "stages_ok e (approval_stages ?s1)" using ok by simp
  obtain cols where cols: "length cols = length items"
    and s': "s' = ?s1\<lparr>approval_stages := approval_stages ?s1 @ new_stages e ?b mode (tp_policy_tenant tp) (tp_policy_version tp) cols\<rparr>"
    by (rule materialize_new [OF ok1 cf _ none m]) (simp_all add: subject_types_def)
  let ?xs = "new_stages e ?b mode (tp_policy_tenant tp) (tp_policy_version tp) cols"
  have "stages_ok e (approval_stages s')" using materialize_stages_ok [OF ok1 cf _ mode(2) m] by (simp add: subject_types_def)
  then have ok': "stages_ok e (approval_stages s @ ?xs)" by (simp add: s')
  have "review_inv e (s\<lparr>ai_use_cases := ai_use_cases s @ [use_case_row e q], review_tasks := review_tasks s @ [?t], approval_stages := approval_stages s @ ?xs\<rparr>)"
  proof (rule add_review_inv [OF inv new _ _ _ _ _ ok'])
    have "length ?xs = length items" using cols by (simp add: new_stages_def)
    then show "?xs \<noteq> []" using items(2) by auto
    show "of_subject ''review_task'' ?k 0 x \<and> st_decided_by x = None" if "x \<in> set ?xs" for x
      using that by (rule new_stages_mem) (simp add: make_stage_simps of_subject_def)
  qed (simp_all add: use_case_row_def new_task_def)
  then show ?thesis by (simp add: s')
qed

lemma submit_inv:
  assumes "review_inv e s" "submit_intake e a q s = Inr (s', u, z)"
  shows "review_inv e s'"
proof -
  obtain q' s1 u1 where c: "create_intake e q' s = Inr (s1, u1)" and s': "s' = refresh_workflow_state e None s1"
    using assms(2) unfolding submit_intake_def by (auto simp: ebind_eq_Inr split: if_splits)
  have "review_inv e s1" using resubmit_inv [OF assms(1) _ c] new_submission_inv [OF assms(1) _ c] by blast
  then show ?thesis unfolding s' by (rule review_inv_refresh)
qed

section \<open>Runs\<close>

text \<open>
  One step of the platform: a request of one of the routes, at some instant, or a pass of the
  background worker. A request that fails leaves the database as it was.
\<close>

datatype review_op =
    RvSubmit int actor_context intake_request
  | RvDecideStage int actor_context string string string
  | RvDecide int actor_context decision_request
  | RvExcept int actor_context string string string string int
  | RvRecertify int actor_context string string
  | RvRetire int actor_context string string
  | RvExpire int
  | RvAge int
  | RvPolicy policy_op

fun review_exec :: "env \<Rightarrow> review_op \<Rightarrow> db \<Rightarrow> (db \<times> unit) res" where
  "review_exec e (RvSubmit t a q) s = ebind (submit_intake (at_time e t) a q s) (\<lambda>(s', _). Inr (s', ()))"
| "review_exec e (RvDecideStage t a sid decision rationale) s =
     ebind (decide_approval_stage (at_time e t) a sid decision rationale s) (\<lambda>(s', _). Inr (s', ()))"
| "review_exec e (RvDecide t a q) s = ebind (create_decision (at_time e t) a q s) (\<lambda>(s', _). Inr (s', ()))"
| "review_exec e (RvExcept t a ty k reason control expiry) s =
     ebind (create_exception_route (at_time e t) a ty k reason control expiry s) (\<lambda>(s', _). Inr (s', ()))"
| "review_exec e (RvRecertify t a i rationale) s = ebind (recertify_intake (at_time e t) a i rationale s) (\<lambda>(s', _). Inr (s', ()))"
| "review_exec e (RvRetire t a i rationale) s = ebind (retire_intake (at_time e t) a i rationale s) (\<lambda>(s', _). Inr (s', ()))"
| "review_exec e (RvExpire t) s = Inr (fst (expire_due_exceptions (at_time e t) s), ())"
| "review_exec e (RvAge t) s = ebind (age_recertifications (at_time e t) s) (\<lambda>(s', _). Inr (s', ()))"
| "review_exec e (RvPolicy op) s = ebind (policy_exec op s) (\<lambda>(s', _). Inr (s', ()))"

lemma review_inv_at_time [simp]: "review_inv (at_time e t) s = review_inv e s"
  by (simp add: review_inv_def stages_inv_def tasks_ok_def no_self_review_def approved_ok_def intake_task_id_def entity_id_def)

lemma policy_exec_frame:
  assumes "policy_exec op s = Inr (s', r)"
  obtains ps where "s' = s\<lparr>governance_policies := ps\<rparr>"
proof (cases op)
  case (CreateDraft e t body actor)
  then show thesis using assms that by (auto simp: create_policy_draft_def ebind_eq_Inr Let_def split: if_splits)
next
  case (Activate e t v actor)
  obtain row reqs where "activate_policy e t v actor s = Inr (s', row, reqs)" using assms Activate by (cases r) auto
  then show thesis
    by (cases rule: activate_policy_success) (use that [of "governance_policies s"] that in auto)
qed

lemma policy_review_inv:
  assumes inv: "review_inv e s" and r: "policy_exec op s = Inr (s', u)"
  shows "review_inv e s'"
proof -
  obtain ps where s': "s' = s\<lparr>governance_policies := ps\<rparr>" by (rule policy_exec_frame [OF r])
  have "versions_inv s" using inv by (simp add: review_inv_def)
  then have "versions_inv s'" using policy_step_inv [of s op] r by simp
  then show ?thesis using inv by (simp add: review_inv_def stages_inv_def s')
qed

lemma create_decision_steps:
  assumes r: "create_decision e a q s = Inr (s', x)"
  obtains t d where "dq_target_type q \<notin> {''deployment_gate'', ''incident'', ''approval_stage''}"
    "load_decision_target s (dq_target_type q) (dq_target_id q) (ac_tenant_id a) = Inr t"
    "enforce_segregation_of_duties s a t = Inr ()" "enforce_stage_policy s a t (dq_decision q) = Inr ()"
    "record_decision e (dq_target_type q) (dq_target_id q) (dq_decision q) (dq_rationale q) (ac_user_ref a) (ac_tenant_id a) s = Inr (s', d)"
proof -
  have ok: "\<not> dq_decision q \<notin> set ALLOWED_DECISIONS" and ty: "\<not> dq_target_type q \<in> {''deployment_gate'', ''incident'', ''approval_stage''}"
    using r unfolding create_decision_def by (auto split: if_splits)
  show thesis
    using r that [OF ty] unfolding create_decision_def if_not_P [OF ok] if_not_P [OF ty] by (auto simp: ebind_eq_Inr)
qed

lemma create_decision_inv:
  assumes inv: "review_inv e0 s" and r: "create_decision e a q s = Inr (s', x)"
  shows "review_inv e0 s'"
  by (rule create_decision_steps [OF r]) (use direct_decision_inv [OF inv] in blast)

lemma create_exception_route_inv:
  assumes inv: "review_inv e0 s" and r: "create_exception_route e a ty k reason control expiry s = Inr (s', x)"
  shows "review_inv e0 s'"
proof -
  obtain y where "create_exception e ty k reason control (isoformat expiry) (ac_user_ref a) (ac_tenant_id a) s = Inr (s', y)"
    using r unfolding create_exception_route_def by (auto simp: ebind_eq_Inr split: if_splits)
  then show ?thesis by (rule exception_inv [OF inv])
qed

lemma review_exec_inv:
  assumes inv: "review_inv e s" and r: "review_exec e op s = Inr (s', u)"
  shows "review_inv e s'"
proof (cases op)
  case (RvSubmit t a q)
  then obtain x where "submit_intake (at_time e t) a q s = Inr (s', x)" using r by (auto simp: ebind_eq_Inr)
  then show ?thesis using submit_inv [of "at_time e t" s a q s' "fst x" "snd x"] inv by simp
next
  case (RvDecideStage t a sid decision rationale)
  then obtain d q where "decide_approval_stage (at_time e t) a sid decision rationale s = Inr (s', d, q)" using r by (auto simp: ebind_eq_Inr)
  then show ?thesis by (rule decide_stage_inv [OF inv])
next
  case (RvDecide t a q)
  then obtain x where "create_decision (at_time e t) a q s = Inr (s', x)" using r by (auto simp: ebind_eq_Inr)
  then show ?thesis by (rule create_decision_inv [OF inv])
next
  case (RvExcept t a ty k reason control expiry)
  then obtain x where "create_exception_route (at_time e t) a ty k reason control expiry s = Inr (s', x)" using r by (auto simp: ebind_eq_Inr)
  then show ?thesis by (rule create_exception_route_inv [OF inv])
next
  case (RvRecertify t a i rationale)
  then obtain x q where "lifecycle_transition (at_time e t) a i rationale ''recertified'' ''lifecycle.recertify'' s = Inr (s', x, q)"
    using r by (auto simp: ebind_eq_Inr recertify_intake_def)
  then show ?thesis by (rule lifecycle_inv [OF inv]) simp
next
  case (RvRetire t a i rationale)
  then obtain x q where "lifecycle_transition (at_time e t) a i rationale ''retired'' ''lifecycle.retire'' s = Inr (s', x, q)"
    using r by (auto simp: ebind_eq_Inr retire_intake_def)
  then show ?thesis by (rule lifecycle_inv [OF inv]) simp
next
  case (RvExpire t)
  then show ?thesis using r expire_inv [OF inv] by auto
next
  case (RvAge t)
  then obtain n where "age_recertifications (at_time e t) s = Inr (s', n)" using r by (auto simp: ebind_eq_Inr)
  then show ?thesis using age_inv [of "at_time e t" s] inv unfolding age_recertifications_def by simp
next
  case (RvPolicy p)
  then obtain x where "policy_exec p s = Inr (s', x)" using r by (auto simp: ebind_eq_Inr)
  then show ?thesis by (rule policy_review_inv [OF inv])
qed

abbreviation review_step :: "env \<Rightarrow> review_op \<Rightarrow> db \<Rightarrow> db" where
  "review_step e \<equiv> committed (review_exec e)"

interpretation review: invariant_ops "review_step e" "review_inv e" for e
proof
  show "review_inv e (review_step e op s)" if "review_inv e s" for op s
    using that review_exec_inv [OF that] by (cases "review_exec e op s") auto
qed

end
