(* ===== verification/Decision_Properties.thy ===== *)
theory Decision_Properties
  imports Review_Run
begin

text \<open>
  Properties of decisions: what an approval over several stages guarantees, the decision log,
  exceptions, and what a decided review still accepts.
\<close>

section \<open>A sample organization\<close>

definition sample_user :: "string \<Rightarrow> platform_user" where
  "sample_user r = \<lparr>pu_user_ref = r, pu_display_name = r, pu_status = ''active'', pu_created_at = 0, pu_updated_at = 0, pu_email = None,
     pu_password_hash = None, pu_must_change_password = False, pu_platform_role = None, pu_tenant_id = Some ''acme'', pu_mfa_secret = None,
     pu_mfa_pending_secret = None, pu_mfa_enabled_at = None, pu_mfa_last_counter = None, pu_external_id = None\<rparr>"

definition sample_grant :: "string \<Rightarrow> string \<Rightarrow> role_assignment" where
  "sample_grant r role = \<lparr>ra_id = r, ra_tenant_id = Some ''acme'', ra_project = None, ra_environment = None, ra_user_ref = r, ra_role = role,
     ra_status = ''active'', ra_created_at = 0, ra_updated_at = 0\<rparr>"

definition sample_actor :: "string \<Rightarrow> actor_context" where
  "sample_actor r = \<lparr>ac_user_ref = r, ac_tenant_id = Some ''acme'', ac_project = None, ac_environment = None, ac_platform_role = None\<rparr>"

definition sample_body :: json where
  "sample_body = JObj [(''schema'', JStr POLICY_SCHEMA), (''intake'', JObj [(''tiers'', JObj [(''limited'',
     JObj [(''stages'', JArr [JObj [(''role'', JStr ''governance_reviewer'')], JObj [(''role'', JStr ''risk_owner'')]]),
           (''mode'', JStr ''sequence'')])])])]"

definition sample_org :: db where
  "sample_org = empty_db\<lparr>
     governance_policies := [\<lparr>gp_tenant_id = ''acme'', gp_version = 1, gp_status = ''active'', gp_body = sample_body, gp_body_hash = [],
       gp_created_by = ''ann'', gp_created_at = 0, gp_activated_at = Some 0\<rparr>],
     platform_users := map sample_user [''ann'', ''bob'', ''cat''],
     role_assignments := [sample_grant ''ann'' ''builder'', sample_grant ''bob'' ''governance_reviewer'', sample_grant ''cat'' ''risk_owner''],
     role_permissions := [\<lparr>rp_role = ''builder'', rp_permission = ''intake.submit''\<rparr>,
       \<lparr>rp_role = ''governance_reviewer'', rp_permission = ''review.decide''\<rparr>, \<lparr>rp_role = ''risk_owner'', rp_permission = ''review.decide''\<rparr>]\<rparr>"

definition sample_request :: intake_request where
  "sample_request = \<lparr>iq_tenant_id = None, iq_project = ''p'', iq_environment = ''prod'', iq_application_name = ''app'', iq_use_case = ''faq'',
     iq_description = ''d'', iq_intended_purpose = ''i'', iq_data_sensitivity = ''public'', iq_autonomy_level = ''assistive'',
     iq_affects_individuals = False, iq_custom_fields = [], iq_submitted_by = []\<rparr>"

definition sample_task_id :: string where
  "sample_task_id = intake_task_id (sample_env 0) (intake_id (sample_env 0) (sample_request\<lparr>iq_tenant_id := Some ''acme''\<rparr>))"

definition sample_run :: "review_op list" where
  "sample_run = [RvSubmit 1 (sample_actor ''ann'') sample_request,
     RvDecideStage 2 (sample_actor ''bob'') (stage_id (sample_env 0) ''review_task'' sample_task_id 0 0) ''approve'' ''ok'',
     RvDecideStage 3 (sample_actor ''cat'') (stage_id (sample_env 0) ''review_task'' sample_task_id 0 1) ''approve'' ''ok'']"

lemma sample_body_wf: "wf_body sample_body"
  by (auto simp: wf_defs sample_body_def default_vendors_def reviewer_stages_def policy_consts)

lemma sample_hash_free: "collision_free (sample_env t)"
  by (simp add: collision_free_def sample_env_def inj_def)

lemma sample_org_inv: "review_inv (sample_env t) sample_org"
  by (simp add: review_inv_def stages_inv_def versions_inv_def sample_hash_free stages_ok_def in_order_def not_stuck_def pk_def one_active_def
      policies_wf_def sample_body_wf tasks_ok_def stages_have_tasks_def four_eyes_def no_self_review_def approved_ok_def sample_org_def empty_db_def)

lemma approved_run_facts:
  "let s = fold (review_step (sample_env 0)) sample_run sample_org; u = hd (ai_use_cases s)
   in map uc_status (ai_use_cases s) = [''approved''] \<and> uc_submitted_by u = ''ann'' \<and>
      map st_decided_by (list_subject_stages s ''review_task'' (intake_task_id (sample_env 0) (uc_intake_id u)) (Some 0)) = [Some ''bob'', Some ''cat'']"
  by code_simp

section \<open>Approval over several stages\<close>

lemma subject_stages_list:
  "mset (list_subject_stages s ''review_task'' k (Some 0)) = mset (subject_stages (approval_stages s) k)"
  by (simp add: list_subject_stages_def subject_stages_def)

lemma decided_iff:
  assumes "stages_ok e t" "x \<in> set t"
  shows "st_decided_by x \<noteq> None \<longleftrightarrow> st_status x \<in> {''approved'', ''rejected''}"
  using stages_okD(2) [OF assms] by (auto simp: stage_ok_def decided_def)

lemma distinct_deciders:
  assumes fe: "four_eyes t" and d: "distinct xs" and xs: "set xs \<subseteq> set (subject_stages t k)" and all: "\<forall>x\<in>set xs. st_decided_by x \<noteq> None"
  shows "distinct (map st_decided_by xs)"
proof -
  have "x = y" if "x \<in> set xs" "y \<in> set xs" "st_decided_by x = st_decided_by y" for x y
  proof (rule ccontr)
    assume "x \<noteq> y"
    moreover have "x \<in> set (subject_stages t k)" "y \<in> set (subject_stages t k)" using that(1,2) xs by blast+
    then have "x \<in> set t" "y \<in> set t" "same_subject x y" by (simp_all add: subject_stages_def same_subject_def of_subject_def)
    ultimately show False using fe all that unfolding four_eyes_def by blast
  qed
  then show ?thesis using d by (simp add: distinct_map inj_on_def)
qed

text \<open>
  C24: whatever sequence of submissions, stage decisions, direct decisions, exceptions, lifecycle
  transitions, policy changes and background passes runs, every use case has an approval checklist, and
  one whose checklist has several stages is approved only with every stage approved, each by a
  different person, and none of them the person who submitted it.
\<close>

theorem multi_stage_approval:
  assumes inv: "review_inv e s" and s': "s' = fold (review_step e) ops s" and u: "u \<in> set (ai_use_cases s')"
    and own: "own = list_subject_stages s' ''review_task'' (intake_task_id e (uc_intake_id u)) (Some 0)"
  shows "own \<noteq> [] \<and>
    (uc_status u = ''approved'' \<and> 2 \<le> length own \<longrightarrow>
      (\<forall>x\<in>set own. st_status x = ''approved'') \<and> distinct (map st_decided_by own) \<and>
      (\<forall>x\<in>set own. st_decided_by x \<noteq> None \<and> (uc_submitted_by u \<noteq> [] \<longrightarrow> st_decided_by x \<noteq> Some (uc_submitted_by u))))"
proof -
  let ?k = "intake_task_id e (uc_intake_id u)" and ?t = "approval_stages s'"
  have inv': "review_inv e s'" unfolding s' by (rule review.run_inv [OF inv])
  note ok = review_invD(2) [OF inv']
  have ms: "mset own = mset (subject_stages ?t ?k)" unfolding own by (rule subject_stages_list)
  then have len: "length own = length (subject_stages ?t ?k)" and set: "set own = set (subject_stages ?t ?k)"
    by (metis size_mset, metis set_mset_mset)
  have A: "subject_stages ?t ?k \<noteq> []" "uc_status u = ''approved'' \<and> 2 \<le> length (subject_stages ?t ?k) \<Longrightarrow>
      \<forall>x\<in>set (subject_stages ?t ?k). st_status x = ''approved''"
    using review_invD(8) [OF inv'] u unfolding approved_ok_def Let_def by blast+
  have "distinct ?t" using stages_okD(1) [OF ok] unfolding pk_def by (simp add: distinct_map)
  then have d: "distinct own" using ms by (metis distinct_filter mset_eq_imp_distinct_iff subject_stages_def)
  have N: "st_decided_by x \<noteq> Some (uc_submitted_by u)" if "x \<in> set own" "uc_submitted_by u \<noteq> []" for x
  proof -
    have "x \<in> set ?t" "st_subject_type x = ''review_task''" "st_subject_id x = ?k"
      using that(1) unfolding set by (auto simp: subject_stages_def of_subject_def)
    moreover have "(uc_intake_id u, uc_submitted_by u) \<in> set (map uc_key (ai_use_cases s'))" using u by (simp add: uc_key_def image_iff) blast
    ultimately show ?thesis using review_invD(7) [OF inv'] that(2) unfolding no_self_review_def by blast
  qed
  have own_t: "set own \<subseteq> set ?t" unfolding set by (auto simp: subject_stages_def)
  show ?thesis
  proof (intro conjI impI)
    show "own \<noteq> []" using A(1) len by auto
    assume c: "uc_status u = ''approved'' \<and> 2 \<le> length own"
    then show app: "\<forall>x\<in>set own. st_status x = ''approved''" using A(2) len set by simp
    then have dec: "\<forall>x\<in>set own. st_decided_by x \<noteq> None" using decided_iff [OF ok] own_t by blast
    show "distinct (map st_decided_by own)" by (rule distinct_deciders [OF review_invD(6) [OF inv'] d]) (use set dec in auto)
    show "\<forall>x\<in>set own. st_decided_by x \<noteq> None \<and> (uc_submitted_by u \<noteq> [] \<longrightarrow> st_decided_by x \<noteq> Some (uc_submitted_by u))"
      using dec N by blast
  qed
qed

theorem multi_stage_approval_witness:
  "let s = fold (review_step (sample_env 0)) sample_run sample_org; u = hd (ai_use_cases s);
       own = list_subject_stages s ''review_task'' (intake_task_id (sample_env 0) (uc_intake_id u)) (Some 0)
   in uc_status u = ''approved'' \<and> length own = 2 \<and> map st_status own = [''approved'', ''approved'']"
proof -
  let ?s = "fold (review_step (sample_env 0)) sample_run sample_org"
  let ?u = "hd (ai_use_cases ?s)"
  let ?own = "list_subject_stages ?s ''review_task'' (intake_task_id (sample_env 0) (uc_intake_id ?u)) (Some 0)"
  have f: "map uc_status (ai_use_cases ?s) = [''approved'']" "map st_decided_by ?own = [Some ''bob'', Some ''cat'']"
    using approved_run_facts unfolding Let_def by blast+
  have u: "?u \<in> set (ai_use_cases ?s)" "uc_status ?u = ''approved''" using f(1) by auto
  have len: "length ?own = 2" using f(2) by (metis length_map length_Cons list.size(3) numeral_2_eq_2)
  have "\<forall>x\<in>set ?own. st_status x = ''approved''"
    using multi_stage_approval [OF sample_org_inv refl u(1) refl] u(2) len by auto
  then have "map st_status ?own = [''approved'', ''approved'']" using len
    by (auto simp: numeral_2_eq_2 length_Suc_conv)
  then show ?thesis using u(2) len unfolding Let_def by blast
qed

end
