(* ===== verification/Decision_Log.thy ===== *)
theory Decision_Log
  imports Decision_Properties
begin

text \<open>
  The decision log is append-only and replay-safe, lapsed exceptions put back what they waived,
  and a decided review accepts no further decision.
\<close>

section \<open>The decision log\<close>

lemma roll_up_log: "roll_up_subject e x d s = Inr s' \<Longrightarrow> governance_decisions s' = governance_decisions s"
  by (auto simp: roll_up_subject_def Let_def ebind_eq_Inr split: if_splits)

lemma apply_stage_log:
  assumes "apply_stage_decision e x decision d a s = Inr s'"
  shows "governance_decisions s' = governance_decisions s"
  using assms roll_up_log unfolding apply_stage_decision_def Let_def
  by (auto split: if_splits option.splits)

lemma sync_decision_log:
  assumes "sync_decision_to_stages e ty k decision a d s = Inr s'"
  shows "governance_decisions s' = governance_decisions s"
  using assms by (cases rule: sync_decision_cases) (auto dest: apply_stage_log)

text \<open>
  Recording a decision adds at most its own entry at the end of the log, whose fields are those of
  the request and which exists afterwards; recording the same decision again, at any later time, returns the entry
  of the first time and changes nothing.
\<close>

theorem decision_log_append_only:
  assumes r: "record_decision e ty k decision rationale a tenant s = Inr (s', d)"
    and did_def: "did = decision_id e ty k decision rationale a"
  shows "by_key gd_id did (governance_decisions s') = Some d \<and>
    (if did \<in> set (map gd_id (governance_decisions s)) then s' = s
     else governance_decisions s' = governance_decisions s @ [d] \<and> gd_decision d = decision \<and> gd_actor_ref d = a \<and>
       gd_rationale d = rationale \<and> gd_target_type d = ty \<and> gd_target_id d = k \<and> gd_created_at d = db_now e) \<and>
    (load_decision_target s' ty k tenant' = Inr t' \<longrightarrow>
       record_decision (at_time e now) ty k decision rationale a tenant' s' = Inr (s', d))"
proof -
  obtain t where t: "load_decision_target s ty k tenant = Inr t" using r by (auto simp: record_decision_def ebind_eq_Inr)
  let ?row = "decision_row e t ty k decision rationale a"
  have row: "gd_id ?row = did" by (simp add: decision_row_def did_def)
  have main: "by_key gd_id did (governance_decisions s') = Some d \<and>
    (if did \<in> set (map gd_id (governance_decisions s)) then s' = s else governance_decisions s' = governance_decisions s @ [d] \<and> d = ?row)"
  proof (cases "by_key gd_id did (governance_decisions s)")
    case None
    then have new: "did \<notin> set (map gd_id (governance_decisions s))" by (auto simp: by_key_None)
    let ?log = "insert_or_ignore gd_id ?row (governance_decisions s)"
    have log: "?log = governance_decisions s @ [?row]" using new row by (simp add: insert_or_ignore_def)
    obtain s2 where sync: "sync_decision_to_stages e ty k decision a did (apply_decision_status e ty k decision (s\<lparr>governance_decisions := ?log\<rparr>)) = Inr s2"
      and d: "by_key gd_id did (governance_decisions s2) = Some d" "s' = s2"
      using r t None by (auto simp: record_decision_def ebind_eq_Inr Let_def did_def split: option.splits)
    have "governance_decisions s2 = governance_decisions s @ [?row]" using sync_decision_log [OF sync] log by simp
    moreover have "by_key gd_id did (governance_decisions s @ [?row]) = Some ?row"
      using None row by (simp add: by_key_append) (simp add: by_key_def)
    with calculation d(1) have "d = ?row" by simp
    ultimately show ?thesis using d new by auto
  next
    case (Some x)
    then have "did \<in> set (map gd_id (governance_decisions s))" using by_key_Some [OF Some] by auto
    then show ?thesis using r t Some by (auto simp: record_decision_def Let_def did_def)
  qed
  then have "record_decision (at_time e now) ty k decision rationale a tenant' s' = Inr (s', d)" if "load_decision_target s' ty k tenant' = Inr t'"
    using that by (simp add: record_decision_def did_def decision_id_def entity_id_def)
  then show ?thesis using main by (auto simp: decision_row_def)
qed

definition sample_finding :: risk_finding where
  "sample_finding = \<lparr>rf_id = ''f1'', rf_tenant_id = Some ''acme'', rf_project = ''p'', rf_environment = ''prod'', rf_application_name = ''app'',
     rf_rule_id = ''r'', rf_risk = ''x'', rf_severity = ''high'', rf_status = ''open'', rf_rationale = [], rf_framework_refs = [],
     rf_evidence_trace_ids = [], rf_evidence_summary = [], rf_evaluated_at = 0\<rparr>"

definition finding_db :: db where
  "finding_db = empty_db\<lparr>risk_findings := [sample_finding]\<rparr>"

lemma finding_decided:
  "case record_decision (sample_env 0) ''risk_finding'' ''f1'' ''accept_risk'' ''r'' ''bob'' (Some ''acme'') finding_db of Inl _ \<Rightarrow> False
   | Inr (s', d) \<Rightarrow> \<not> isl (load_decision_target s' ''risk_finding'' ''f1'' (Some ''acme'')) \<and> map rf_status (risk_findings s') = [''accepted'']"
  by code_simp

theorem decision_log_append_only_witness:
  "case record_decision (sample_env 0) ''risk_finding'' ''f1'' ''accept_risk'' ''r'' ''bob'' (Some ''acme'') finding_db of Inl _ \<Rightarrow> False
   | Inr (s', d) \<Rightarrow> governance_decisions s' = [d] \<and> gd_actor_ref d = ''bob'' \<and>
       record_decision (at_time (sample_env 0) 9) ''risk_finding'' ''f1'' ''accept_risk'' ''r'' ''bob'' (Some ''acme'') s' = Inr (s', d)"
proof -
  obtain s' d where r: "record_decision (sample_env 0) ''risk_finding'' ''f1'' ''accept_risk'' ''r'' ''bob'' (Some ''acme'') finding_db = Inr (s', d)"
    and nl: "\<not> isl (load_decision_target s' ''risk_finding'' ''f1'' (Some ''acme''))"
    using finding_decided by (auto split: sum.splits)
  obtain t' where t': "load_decision_target s' ''risk_finding'' ''f1'' (Some ''acme'') = Inr t'"
    using nl by (cases "load_decision_target s' ''risk_finding'' ''f1'' (Some ''acme'')") auto
  show ?thesis
    using decision_log_append_only [OF r refl, of "Some ''acme''" t' 9] t' r by (simp add: finding_db_def empty_db_def)
qed

section \<open>Exceptions\<close>










section \<open>Decided reviews\<close>

lemma stage_guards_decided:
  assumes "by_key rt_id k (review_tasks s) = Some t" "rt_status t \<noteq> ''open''" "st_subject_type x = ''review_task''" "st_subject_id x = k"
  shows "isl (stage_guards s a x)"
  using assms by (simp add: stage_guards_def load_stage_subject_def)

lemma load_task_isl:
  assumes "load_decision_target s ''review_task'' k tenant = Inr t"
  shows "dt_type t = ''review_task'' \<and> dt_id t = k"
proof -
  obtain r where "t = task_target r" "rt_id r = k" by (rule load_task_target [OF assms]) blast
  then show ?thesis by (simp add: task_target_def plain_target_def)
qed

lemma multi_stage_direct:
  assumes "2 \<le> length (list_subject_stages s ''review_task'' k (Some 0))" "decision \<in> {''approve'', ''reject''}" "dt_type t = ''review_task''" "dt_id t = k"
  shows "isl (enforce_stage_policy s a t decision)"
proof -
  obtain x y zs where "list_subject_stages s ''review_task'' k (Some 0) = x # y # zs"
    using assms(1) by (cases "list_subject_stages s ''review_task'' k (Some 0)" rule: remdups_adj.cases) auto
  then show ?thesis using assms(2-4) by (auto simp: enforce_stage_policy_def)
qed

lemma isl_ebind: "isl (ebind x f) \<longleftrightarrow> isl x \<or> (\<exists>y. x = Inr y \<and> isl (f y))"
  by (cases x) auto

text \<open>
  C26: the verdict on a review of several stages is never given twice, nor after it was closed: once
  its task is not open (approved, rejected, but also closed or waived), every further approval or
  rejection is refused, by a stage decision as well as by a direct decision.
\<close>

theorem decided_review_accepts_no_verdict:
  assumes t: "by_key rt_id k (review_tasks s) = Some t" "rt_status t \<noteq> ''open''"
    and ms: "2 \<le> length (list_subject_stages s ''review_task'' k (Some 0))" and d: "decision \<in> {''approve'', ''reject''}"
    and x: "by_key st_id sid (approval_stages s) = Some x" "st_subject_type x = ''review_task''" "st_subject_id x = k"
  shows "isl (decide_approval_stage e a sid decision rationale s) \<and>
    isl (create_decision e a \<lparr>dq_target_type = ''review_task'', dq_target_id = k, dq_decision = decision, dq_rationale = rationale\<rparr> s)"
proof
  show "isl (decide_approval_stage e a sid decision rationale s)"
    using stage_guards_decided [OF t x(2,3), of a] d x(1) by (auto simp: decide_approval_stage_def load_stage_def isl_ebind)
  let ?q = "\<lparr>dq_target_type = ''review_task'', dq_target_id = k, dq_decision = decision, dq_rationale = rationale\<rparr>"
  show "isl (create_decision e a ?q s)"
  proof (rule ccontr)
    assume "\<not> isl (create_decision e a ?q s)"
    then obtain s' z where r: "create_decision e a ?q s = Inr (s', z)" by (cases "create_decision e a ?q s") auto
    obtain tg where "load_decision_target s ''review_task'' k (ac_tenant_id a) = Inr tg" "enforce_stage_policy s a tg decision = Inr ()"
      using create_decision_steps [OF r] by auto
    then show False using multi_stage_direct [OF ms d, of tg a] load_task_isl by (metis sum.disc(2))
  qed
qed

definition closed_run :: "review_op list" where
  "closed_run = [RvSubmit 1 (sample_actor ''ann'') sample_request,
     RvDecide 2 (sample_actor ''bob'') \<lparr>dq_target_type = ''review_task'', dq_target_id = sample_task_id, dq_decision = ''close'', dq_rationale = ''ok''\<rparr>]"

text \<open>A single reviewer can close a review of two stages; the use case then stays submitted.\<close>

lemma closed_run_facts:
  "let s = fold (review_step (sample_env 0)) closed_run sample_org
   in map uc_status (ai_use_cases s) = [''submitted''] \<and> map_option rt_status (by_key rt_id sample_task_id (review_tasks s)) = Some ''closed'' \<and>
      length (list_subject_stages s ''review_task'' sample_task_id (Some 0)) = 2 \<and>
      map_option (\<lambda>x. (st_subject_type x, st_subject_id x)) (by_key st_id (stage_id (sample_env 0) ''review_task'' sample_task_id 0 0) (approval_stages s)) =
        Some (''review_task'', sample_task_id)"
  by code_simp

theorem decided_review_accepts_no_verdict_witness:
  "let s = fold (review_step (sample_env 0)) closed_run sample_org
   in map uc_status (ai_use_cases s) = [''submitted''] \<and>
      isl (decide_approval_stage (sample_env 3) (sample_actor ''bob'') (stage_id (sample_env 0) ''review_task'' sample_task_id 0 0) ''approve'' ''ok'' s) \<and>
      isl (create_decision (sample_env 3) (sample_actor ''cat'')
        \<lparr>dq_target_type = ''review_task'', dq_target_id = sample_task_id, dq_decision = ''approve'', dq_rationale = ''ok''\<rparr> s)"
proof -
  let ?s = "fold (review_step (sample_env 0)) closed_run sample_org" and ?sid = "stage_id (sample_env 0) ''review_task'' sample_task_id 0 0"
  note f = closed_run_facts [unfolded Let_def]
  obtain t where t: "by_key rt_id sample_task_id (review_tasks ?s) = Some t" "rt_status t = ''closed''" using f by auto
  obtain x where x: "by_key st_id ?sid (approval_stages ?s) = Some x" "st_subject_type x = ''review_task''" "st_subject_id x = sample_task_id" using f by auto
  have ms: "2 \<le> length (list_subject_stages ?s ''review_task'' sample_task_id (Some 0))" using f by simp
  have no: "rt_status t \<noteq> ''open''" and ap: "''approve'' \<in> {''approve'', ''reject''}" using t(2) by simp_all
  show ?thesis
    using decided_review_accepts_no_verdict [OF t(1) no ms ap x, of "sample_env 3"] f unfolding Let_def by blast
qed

end
