(* ===== verification/Intake_Properties.thy ===== *)
theory Intake_Properties
  imports Decision_Properties
begin

text \<open>
  Properties of intake: the risk tier, the boundary that custom fields cross, resubmission, and
  the recertification pass.
\<close>

section \<open>The risk tier\<close>

definition tier_rank :: "string \<Rightarrow> nat" where
  "tier_rank t = (if t = ''high'' then 2 else if t = ''elevated'' then 1 else 0)"

lemma level_bounds:
  "level_index DATA_SENSITIVITY_LEVELS d \<le> 3" "level_index AUTONOMY_LEVELS a \<le> 2"
  "d = ''restricted'' \<longleftrightarrow> level_index DATA_SENSITIVITY_LEVELS d = 3"
  by (auto simp: DATA_SENSITIVITY_LEVELS_def AUTONOMY_LEVELS_def)

lemma tier_rank_risk:
  "tier_rank (compute_risk_tier d a p) =
     (let score = level_index DATA_SENSITIVITY_LEVELS d + level_index AUTONOMY_LEVELS a + (if p then 1 else 0)
      in if d = ''restricted'' \<or> 4 \<le> score then 2 else if 2 \<le> score then 1 else 0)"
  by (simp add: compute_risk_tier_def tier_rank_def Let_def)

text \<open>
  C27: the computed tier is one of the three a policy can govern; it never drops when the data
  gets more sensitive, the system more autonomous or individuals are affected; restricted data is
  always the high tier, and no single answer alone other than that reaches it.
\<close>

theorem risk_tier_monotone:
  assumes "level_index DATA_SENSITIVITY_LEVELS d \<le> level_index DATA_SENSITIVITY_LEVELS d'"
    "level_index AUTONOMY_LEVELS a \<le> level_index AUTONOMY_LEVELS a'" "p \<longrightarrow> p'"
  shows "compute_risk_tier d a p \<in> set RISK_TIERS \<and> tier_rank (compute_risk_tier d a p) \<le> tier_rank (compute_risk_tier d' a' p') \<and>
    compute_risk_tier ''restricted'' a p = ''high'' \<and>
    (compute_risk_tier d a p = ''high'' \<longrightarrow> d = ''restricted'' \<or> 1 \<le> level_index DATA_SENSITIVITY_LEVELS d)"
proof (intro conjI)
  show "compute_risk_tier d a p \<in> set RISK_TIERS" by (simp add: compute_risk_tier_def RISK_TIERS_def Let_def)
  show "tier_rank (compute_risk_tier d a p) \<le> tier_rank (compute_risk_tier d' a' p')"
    using assms level_bounds(3) [of d] level_bounds(3) [of d'] level_bounds(1) [of d'] unfolding tier_rank_risk Let_def by auto
  show "compute_risk_tier ''restricted'' a p = ''high''" by (simp add: compute_risk_tier_def Let_def)
  show "compute_risk_tier d a p = ''high'' \<longrightarrow> d = ''restricted'' \<or> 1 \<le> level_index DATA_SENSITIVITY_LEVELS d"
    using level_bounds(2) [of a] by (auto simp: compute_risk_tier_def Let_def split: if_splits)
qed

theorem risk_tier_monotone_witness:
  "tier_rank (compute_risk_tier ''internal'' ''supervised'' False) = 1 \<and>
   tier_rank (compute_risk_tier ''internal'' ''supervised'' False) \<le> tier_rank (compute_risk_tier ''confidential'' ''autonomous'' True)"
  using risk_tier_monotone [of "''internal''" "''confidential''" "''supervised''" "''autonomous''" False True]
  by (simp add: DATA_SENSITIVITY_LEVELS_def AUTONOMY_LEVELS_def compute_risk_tier_def tier_rank_def)

section \<open>Custom fields\<close>

definition field_type :: "json \<Rightarrow> json" where
  "field_type f = (case jget f ''type'' (JStr ''string'') of Inr v \<Rightarrow> v | Inl _ \<Rightarrow> JNull)"

definition typed_value :: "json \<Rightarrow> json \<Rightarrow> bool" where
  "typed_value f v \<longleftrightarrow>
     (field_type f = JStr ''string'' \<and> (\<exists>t m cap. v = JStr t \<and> t \<noteq> [] \<and> jget f ''max_length'' JNull = Inr m \<and> py_int (py_or m (JInt 500)) = Inr cap \<and>
        int (length t) \<le> cap)) \<or>
     (field_type f = JStr ''number'' \<and> is_number v \<and> \<not> is_bool v) \<or>
     (field_type f = JStr ''boolean'' \<and> is_bool v)"

definition required_for :: "json \<Rightarrow> string \<Rightarrow> bool" where
  "required_for f tier \<longleftrightarrow> (\<exists>rt ts. jget f ''required_tiers'' JNull = Inr rt \<and> jiter (py_or rt (JArr [])) = Inr ts \<and> JStr tier \<in> set ts)"

lemma clean_value_typed:
  assumes "clean_value k f v = Inr (Some w)" "v \<noteq> JStr []"
  shows "w = v \<and> typed_value f v"
  using assms unfolding clean_value_def typed_value_def field_type_def
  by (auto simp: ebind_eq_Inr split: json.splits if_splits)

lemma check_field_typed:
  assumes "check_field values tier (k, f) = Inr part"
  shows "\<forall>(k', w)\<in>set part. k' = k \<and> w = dget values k JNull \<and> w \<noteq> JNull \<and> typed_value f w"
    and "required_for f tier \<Longrightarrow> dget values k JNull \<noteq> JNull \<and> dget values k JNull \<noteq> JStr []"
proof -
  obtain rt ts where rt: "jget f ''required_tiers'' JNull = Inr rt" "jiter (py_or rt (JArr [])) = Inr ts"
    using assms by (auto simp: check_field_def Let_def ebind_eq_Inr)
  show "\<forall>(k', w)\<in>set part. k' = k \<and> w = dget values k JNull \<and> w \<noteq> JNull \<and> typed_value f w"
  proof (cases "dget values k JNull = JNull \<or> dget values k JNull = JStr []")
    case True
    then have "part = []" using assms rt by (auto simp: check_field_def Let_def ebind_eq_Inr split: if_splits)
    then show ?thesis by simp
  next
    case False
    then obtain c where c: "clean_value k f (dget values k JNull) = Inr c" "part = (case c of None \<Rightarrow> [] | Some w \<Rightarrow> [(k, w)])"
      using assms rt by (auto simp: check_field_def Let_def ebind_eq_Inr)
    then show ?thesis using False clean_value_typed [of k f "dget values k JNull"] by (cases c) auto
  qed
  show "dget values k JNull \<noteq> JNull \<and> dget values k JNull \<noteq> JStr []" if "required_for f tier"
    using that assms rt by (auto simp: required_for_def check_field_def Let_def ebind_eq_Inr split: if_splits)
qed

text \<open>
  What an intake stores of its custom fields has passed the declaration: every key given is
  declared, every stored value is the given one, is not empty and has the declared type and length, and every field
  the risk tier requires was given.
\<close>

theorem custom_fields_checked:
  assumes v: "validate_custom_field_values fs values tier = Inr out" and decl: "declared_fields fs = Inr decl"
  shows "set (map fst values) \<subseteq> set (map fst decl) \<and>
    (\<forall>(k, w)\<in>set out. \<exists>f. (k, f) \<in> set decl \<and> w = dget values k JNull \<and> w \<noteq> JNull \<and> typed_value f w) \<and>
    (\<forall>(k, f)\<in>set decl. required_for f tier \<longrightarrow> dget values k JNull \<noteq> JNull \<and> dget values k JNull \<noteq> JStr [])"
proof -
  have known: "filter (\<lambda>k. k \<notin> set (map fst decl)) (map fst values) = []"
    using v decl by (auto simp: validate_custom_field_values_def Let_def split: if_splits)
  obtain parts where parts: "emap (check_field values tier) decl = Inr parts" "out = concat parts"
    using v decl known by (auto simp: validate_custom_field_values_def Let_def ebind_eq_Inr split: if_splits)
  have A: "\<exists>f. (k, f) \<in> set decl \<and> w = dget values k JNull \<and> w \<noteq> JNull \<and> typed_value f w" if w: "(k, w) \<in> set out" for k w
  proof -
    obtain part where p: "part \<in> set parts" "(k, w) \<in> set part" using w parts(2) by auto
    obtain kf where kf: "kf \<in> set decl" "check_field values tier kf = Inr part" using emap_mem(1) [OF parts(1) p(1)] by blast
    obtain k' f where eq: "kf = (k', f)" by (cases kf)
    have "k = k' \<and> w = dget values k' JNull \<and> w \<noteq> JNull \<and> typed_value f w" using bspec [OF check_field_typed(1) [OF kf(2) [unfolded eq]] p(2)] by auto
    then show ?thesis using kf(1) eq by auto
  qed
  have B: "dget values k JNull \<noteq> JNull \<and> dget values k JNull \<noteq> JStr []" if m: "(k, f) \<in> set decl" and q: "required_for f tier" for k f
  proof -
    obtain part where "check_field values tier (k, f) = Inr part" using emap_mem(2) [OF parts(1) m] by blast
    then show ?thesis using q by (rule check_field_typed(2))
  qed
  show ?thesis
  proof (intro conjI ballI)
    show "set (map fst values) \<subseteq> set (map fst decl)" using known by (simp add: filter_empty_conv image_subset_iff)
    fix p
    show "p \<in> set out \<Longrightarrow> case p of (k, w) \<Rightarrow> \<exists>f. (k, f) \<in> set decl \<and> w = dget values k JNull \<and> w \<noteq> JNull \<and> typed_value f w"
      using A by (cases p) simp
    show "p \<in> set decl \<Longrightarrow> case p of (k, f) \<Rightarrow> required_for f tier \<longrightarrow> dget values k JNull \<noteq> JNull \<and> dget values k JNull \<noteq> JStr []"
      using B by (cases p) simp
  qed
qed

definition sample_fields :: "json list" where
  "sample_fields = [JObj [(''key'', JStr ''owner''), (''type'', JStr ''string''), (''required_tiers'', JArr [JStr ''high''])],
     JObj [(''key'', JStr ''users''), (''type'', JStr ''number'')]]"

theorem custom_fields_checked_witness:
  "validate_custom_field_values sample_fields [(''owner'', JStr ''ann''), (''users'', JInt 3)] ''high'' =
     Inr [(''owner'', JStr ''ann''), (''users'', JInt 3)] \<and>
   validate_custom_field_values sample_fields [(''users'', JInt 3)] ''high'' =
     Inl (ValueErr (''intake field '' @ sq @ ''owner'' @ sq @ '' is required for risk tier '' @ sq @ ''high'' @ sq)) \<and>
   (\<exists>f. typed_value f (JStr ''ann''))"
proof -
  have v: "validate_custom_field_values sample_fields [(''owner'', JStr ''ann''), (''users'', JInt 3)] ''high'' =
     Inr [(''owner'', JStr ''ann''), (''users'', JInt 3)]" by code_simp
  have e: "validate_custom_field_values sample_fields [(''users'', JInt 3)] ''high'' =
     Inl (ValueErr (''intake field '' @ sq @ ''owner'' @ sq @ '' is required for risk tier '' @ sq @ ''high'' @ sq))" by code_simp
  have d: "declared_fields sample_fields = Inr [(''owner'', sample_fields ! 0), (''users'', sample_fields ! 1)]" by code_simp
  from custom_fields_checked [OF v d] have "\<exists>f. typed_value f (JStr ''ann'')" by auto
  then show ?thesis using v e by blast
qed

section \<open>Resubmission\<close>





section \<open>The recertification pass\<close>

definition due_task :: "env \<Rightarrow> policy_row list \<Rightarrow> use_case \<Rightarrow> review_task option res" where
  "due_task e ps u =
     ebind (resolve_tier_policy e ps (uc_tenant_id u) (or_str (Some (uc_risk_tier u)) ''limited'')) (\<lambda>tp.
     ebind (recertification_due e u tp) (\<lambda>d. Inr (map_option (recertification_task e u tp) d)))"

lemma age_use_case_due:
  "age_use_case e u (s, n) = ebind (due_task e (governance_policies s) u) (\<lambda>row. case row of None \<Rightarrow> Inr (s, n)
     | Some r \<Rightarrow> Inr (s\<lparr>review_tasks := insert_or_ignore rt_id r (review_tasks s)\<rparr>,
         if rt_id r \<in> set (map rt_id (review_tasks s)) then n else n + 1))"
  unfolding age_use_case_def due_task_def prod.case Let_def
  by (cases "resolve_tier_policy e (governance_policies s) (uc_tenant_id u) (or_str (Some (uc_risk_tier u)) ''limited'')"; simp)
    (auto split: option.splits sum.splits simp: ebind_def)

lemma age_one:
  assumes r: "age_use_case e u (s, n) = Inr (s1, n1)" and row: "due_task e (governance_policies s) u = Inr row"
  obtains add where "s1 = s\<lparr>review_tasks := review_tasks s @ add\<rparr>" "n1 = n + int (length add)"
      "\<forall>r\<in>set add. rt_status r = ''open'' \<and> rt_task_type r = ''recertification_review''"
      "\<forall>r. row = Some r \<longrightarrow> rt_id r \<in> set (map rt_id (review_tasks s1))"
proof (cases row)
  case None
  then show thesis using r row that [of "[]"] by (simp add: age_use_case_due)
next
  case (Some t)
  then obtain tp days where t: "t = recertification_task e u tp days" using row by (auto simp: due_task_def ebind_eq_Inr)
  have "rt_status t = ''open'' \<and> rt_task_type t = ''recertification_review''" by (simp add: t recertification_task_def new_task_def)
  moreover have s1: "s1 = s\<lparr>review_tasks := insert_or_ignore rt_id t (review_tasks s)\<rparr>"
    "n1 = (if rt_id t \<in> set (map rt_id (review_tasks s)) then n else n + 1)" using r row Some by (auto simp: age_use_case_due)
  ultimately show thesis
    using that [of "if rt_id t \<in> set (map rt_id (review_tasks s)) then [] else [t]"] Some by (simp add: insert_or_ignore_def)
qed

lemma age_pass:
  assumes "efold (age_use_case e) us (s, n) = Inr (s', n')"
  shows "\<exists>new. s' = s\<lparr>review_tasks := review_tasks s @ new\<rparr> \<and> n' = n + int (length new) \<and>
    (\<forall>r\<in>set new. rt_status r = ''open'' \<and> rt_task_type r = ''recertification_review'') \<and>
    (\<forall>u\<in>set us. \<exists>row. due_task e (governance_policies s) u = Inr row \<and> (\<forall>r. row = Some r \<longrightarrow> rt_id r \<in> set (map rt_id (review_tasks s'))))"
  using assms
proof (induction us arbitrary: s n)
  case Nil
  then show ?case by auto
next
  case (Cons u us)
  obtain s1 n1 where 1: "age_use_case e u (s, n) = Inr (s1, n1)" "efold (age_use_case e) us (s1, n1) = Inr (s', n')"
    using Cons.prems by (auto simp: ebind_eq_Inr)
  obtain row where row: "due_task e (governance_policies s) u = Inr row" using 1(1) unfolding age_use_case_due by (auto simp: ebind_eq_Inr)
  obtain add where add: "s1 = s\<lparr>review_tasks := review_tasks s @ add\<rparr>" "n1 = n + int (length add)"
      "\<forall>r\<in>set add. rt_status r = ''open'' \<and> rt_task_type r = ''recertification_review''"
      "\<forall>r. row = Some r \<longrightarrow> rt_id r \<in> set (map rt_id (review_tasks s1))"
    by (rule age_one [OF 1(1) row])
  obtain new where new: "s' = s1\<lparr>review_tasks := review_tasks s1 @ new\<rparr>" "n' = n1 + int (length new)"
      "\<forall>r\<in>set new. rt_status r = ''open'' \<and> rt_task_type r = ''recertification_review''"
      "\<forall>u\<in>set us. \<exists>row. due_task e (governance_policies s1) u = Inr row \<and> (\<forall>r. row = Some r \<longrightarrow> rt_id r \<in> set (map rt_id (review_tasks s')))"
    using Cons.IH [OF 1(2)] by blast
  have "\<exists>row. due_task e (governance_policies s) u = Inr row \<and> (\<forall>r. row = Some r \<longrightarrow> rt_id r \<in> set (map rt_id (review_tasks s')))"
    using row add(4) new(1) by auto
  then have "\<forall>v\<in>set (u # us). \<exists>row. due_task e (governance_policies s) v = Inr row \<and> (\<forall>r. row = Some r \<longrightarrow> rt_id r \<in> set (map rt_id (review_tasks s')))"
    using new(4) add(1) by simp
  then show ?case using add(1-3) new(1-3) by (intro exI [of _ "add @ new"]) auto
qed

lemma age_pass_again:
  assumes "\<And>u. u \<in> set us \<Longrightarrow> \<exists>row. due_task e (governance_policies s) u = Inr row \<and> (\<forall>r. row = Some r \<longrightarrow> rt_id r \<in> set (map rt_id (review_tasks s)))"
  shows "efold (age_use_case e) us (s, n) = Inr (s, n)"
  using assms
proof (induction us)
  case (Cons u us)
  obtain row where row: "due_task e (governance_policies s) u = Inr row" "\<And>r. row = Some r \<Longrightarrow> rt_id r \<in> set (map rt_id (review_tasks s))"
    using Cons.prems [of u] by auto
  have "insert_or_ignore rt_id r (review_tasks s) = review_tasks s" if "row = Some r" for r
    using row(2) [OF that] unfolding insert_or_ignore_def by simp
  then have "age_use_case e u (s, n) = Inr (s, n)" using row by (cases row) (simp_all add: age_use_case_due)
  then show ?case using Cons by simp
qed simp

text \<open>
  The recertification pass only adds open recertification tasks, as many as it reports, and
  leaves use cases, existing tasks and every other table alone; run again at the same instant it
  adds nothing, so a clock that ran out raises one task however often the worker runs.
\<close>

theorem recertification_pass_idempotent:
  assumes r: "age_recertifications e s = Inr (s', n)"
  shows "(\<exists>new. s' = s\<lparr>review_tasks := review_tasks s @ new\<rparr> \<and> n = int (length new) \<and>
      (\<forall>t\<in>set new. rt_status t = ''open'' \<and> rt_task_type t = ''recertification_review'')) \<and>
    age_recertifications e s' = Inr (s', 0)"
proof -
  let ?us = "filter (\<lambda>u. uc_status u \<in> {''approved'', ''recertified''}) (ai_use_cases s)"
  obtain new where new: "s' = s\<lparr>review_tasks := review_tasks s @ new\<rparr>" "n = 0 + int (length new)"
      "\<forall>t\<in>set new. rt_status t = ''open'' \<and> rt_task_type t = ''recertification_review''"
      "\<forall>u\<in>set ?us. \<exists>row. due_task e (governance_policies s) u = Inr row \<and> (\<forall>r. row = Some r \<longrightarrow> rt_id r \<in> set (map rt_id (review_tasks s')))"
    using age_pass [OF r [unfolded age_recertifications_def]] by blast
  have "efold (age_use_case e) ?us (s', 0) = Inr (s', 0)" by (rule age_pass_again) (use new(4) in \<open>auto simp: new(1)\<close>)
  then have "age_recertifications e s' = Inr (s', 0)" by (simp add: age_recertifications_def new(1))
  then show ?thesis using new(1-3) by auto
qed

definition year_later :: env where
  "year_later = sample_env (400 * 86400 * 1000000)"

definition certified_org :: db where
  "certified_org = sample_org\<lparr>governance_policies := [\<lparr>gp_tenant_id = ''acme'', gp_version = 1, gp_status = ''active'',
       gp_body = JObj [(''schema'', JStr POLICY_SCHEMA), (''intake'', JObj [(''tiers'', JObj [(''limited'',
         JObj [(''stages'', reviewer_stages), (''mode'', JStr ''sequence''), (''recertify_days'', JInt 90)])])])], gp_body_hash = [],
       gp_created_by = ''ann'', gp_created_at = 0, gp_activated_at = Some 0\<rparr>],
     ai_use_cases := [(use_case_row (sample_env 0) (sample_request\<lparr>iq_tenant_id := Some ''acme''\<rparr>))\<lparr>uc_status := ''approved''\<rparr>]\<rparr>"

lemma certified_pass: "case age_recertifications year_later certified_org of Inl _ \<Rightarrow> False | Inr (s', n) \<Rightarrow> n = 1"
  by code_simp

theorem recertification_pass_idempotent_witness:
  "case age_recertifications year_later certified_org of Inl _ \<Rightarrow> False
   | Inr (s', n) \<Rightarrow> n = 1 \<and> age_recertifications year_later s' = Inr (s', 0)"
proof -
  obtain s' where r: "age_recertifications year_later certified_org = Inr (s', 1)" using certified_pass by (auto split: sum.splits)
  show ?thesis using recertification_pass_idempotent [OF r] r by simp
qed

end
