(* ===== verification/Event_Values.thy ===== *)
theory Event_Values
  imports Json Timestamps
begin

text \<open>
  A telemetry attribute is any JSON value. What the code makes of it: Python's \<open>str\<close>, the
  parts of an identifier (storage/entities.py), and the text a TEXT column of the embedded
  database takes from it. The text of a float is a parameter, once as Python prints it and once as
  the database does. Last, Python's \<open>int\<close> of a text, which the settings go through.
\<close>

section \<open>str and repr\<close>

definition quote_with :: "string \<Rightarrow> char" where
  "quote_with s = (if CHR 0x27 \<in> set s \<and> CHR 0x22 \<notin> set s then CHR 0x22 else CHR 0x27)"

definition repr_char :: "char \<Rightarrow> char \<Rightarrow> string" where
  "repr_char q c =
     (let n = of_char c :: nat in
      if c = q \<or> n = 92 then [CHR 0x5C, c]
      else if n = 9 then [CHR 0x5C, CHR ''t''] else if n = 10 then [CHR 0x5C, CHR ''n''] else if n = 13 then [CHR 0x5C, CHR ''r'']
      else if n < 32 \<or> 127 \<le> n \<and> n \<le> 160 \<or> n = 173 then [CHR 0x5C, CHR ''x'', hex_digit (n div 16), hex_digit (n mod 16)]
      else [c])"

definition repr_text :: "string \<Rightarrow> string" where
  "repr_text s = (let q = quote_with s in q # concat (map (repr_char q) s) @ [q])"

function py_repr :: "(rat \<Rightarrow> string) \<Rightarrow> json \<Rightarrow> string" where
  "py_repr fr JNull = ''None''"
| "py_repr fr (JBool b) = (if b then ''True'' else ''False'')"
| "py_repr fr (JInt i) = str_int i"
| "py_repr fr (JFloat r) = fr r"
| "py_repr fr (JStr s) = repr_text s"
| "py_repr fr (JArr xs) = ''['' @ comma_join (map (py_repr fr) xs) @ '']''"
| "py_repr fr (JObj d) = ''{'' @ comma_join (map (\<lambda>(k, v). repr_text k @ '': '' @ py_repr fr v) d) @ ''}''"
  by pat_completeness auto
termination
  by (relation "measure (size \<circ> snd)") (auto dest: size_json_mem_arr size_json_mem_obj)

definition py_str :: "(rat \<Rightarrow> string) \<Rightarrow> json \<Rightarrow> string" where
  "py_str fr v = (case v of JStr s \<Rightarrow> s | _ \<Rightarrow> py_repr fr v)"

lemma py_str_text [simp]: "py_str fr (JStr s) = s"
  by (simp add: py_str_def)

definition as_object :: "json \<Rightarrow> dict" where
  "as_object v = (case v of JObj d \<Rightarrow> d | _ \<Rightarrow> [])"

lemma as_object_JObj [simp]: "as_object (JObj d) = d"
  by (simp add: as_object_def)

text \<open>A part of an identifier: a missing value is the empty text.\<close>

definition id_part :: "(rat \<Rightarrow> string) \<Rightarrow> json \<Rightarrow> string option" where
  "id_part fr v = (if v = JNull then None else Some (py_str fr v))"

section \<open>Columns\<close>

text \<open>
  A bound parameter of a TEXT column: numbers become text, a list or a dict cannot be bound, nor an
  integer outside 64 bits.
\<close>

definition int64 :: "int \<Rightarrow> bool" where
  "int64 i \<longleftrightarrow> - (2 ^ 63) \<le> i \<and> i < 2 ^ 63"

fun sql_text :: "(rat \<Rightarrow> string) \<Rightarrow> json \<Rightarrow> string option res" where
  "sql_text rt JNull = Inr None"
| "sql_text rt (JBool b) = Inr (Some (if b then ''1'' else ''0''))"
| "sql_text rt (JInt i) = (if int64 i then Inr (Some (str_int i)) else Inl (RuntimeErr ''Python int too large to convert to SQLite INTEGER''))"
| "sql_text rt (JFloat r) = Inr (Some (rt r))"
| "sql_text rt (JStr s) = Inr (Some s)"
| "sql_text rt (JArr xs) = Inl (RuntimeErr ''type is not supported'')"
| "sql_text rt (JObj d) = Inl (RuntimeErr ''type is not supported'')"

definition sql_required :: "(rat \<Rightarrow> string) \<Rightarrow> json \<Rightarrow> string res" where
  "sql_required rt v = ebind (sql_text rt v) (\<lambda>x. case x of None \<Rightarrow> Inl (RuntimeErr ''NOT NULL constraint failed'') | Some t \<Rightarrow> Inr t)"

lemma sql_required_text [simp]: "sql_required rt (JStr s) = Inr s"
  by (simp add: sql_required_def)

text \<open>\<open>d[k]\<close>\<close>

definition dict_at :: "dict \<Rightarrow> string \<Rightarrow> json res" where
  "dict_at d k = (case map_of d k of None \<Rightarrow> Inl KeyErr | Some v \<Rightarrow> Inr v)"

section \<open>int of a text\<close>

text \<open>\<open>int\<close> of a text: blanks around it, a sign, digits with single underscores between them.\<close>

fun digit_groups :: "bool \<Rightarrow> int \<Rightarrow> string \<Rightarrow> int option" where
  "digit_groups after n [] = (if after then Some n else None)"
| "digit_groups after n (c # cs) =
     (if is_digit c then digit_groups True (10 * n + (int (of_char c) - 48)) cs
      else if c = CHR ''_'' \<and> after then digit_groups False n cs else None)"

definition int_of_text :: "string \<Rightarrow> int option" where
  "int_of_text t = (case py_strip t of
     c # cs \<Rightarrow> if c = CHR ''-'' then map_option uminus (digit_groups False 0 cs)
               else if c = CHR ''+'' then digit_groups False 0 cs else digit_groups False 0 (c # cs)
   | [] \<Rightarrow> None)"

end
