(* ===== verification/Attestation.thy ===== *)
theory Attestation
  imports Intake Event_Values
begin

text \<open>
  Attestation keys (storage/attestation_keys.py), the statement a signature covers and its
  verification (services/attestation.py), and what ingestion checks, binds and stamps before an
  event is stored (ingestion/routes.py, schemas/events.py). Decoding of base64, reading a PEM key
  and the Ed25519 signature check are code of other packages, given as the record
  \<open>signature_scheme\<close>.
\<close>

section \<open>Attestation keys\<close>

text \<open>The key id is \<open>"nak_"\<close> and a random token, the token given as a parameter.\<close>

definition create_attestation_key :: "env \<Rightarrow> string \<Rightarrow> string \<Rightarrow> string \<Rightarrow> string \<Rightarrow> string option \<Rightarrow> db \<Rightarrow> (db \<times> attestation_key) res" where
  "create_attestation_key e token tenant name pem created_by s =
     (let kid = ''nak_'' @ token;
          row = \<lparr>ak_key_id = kid, ak_tenant_id = tenant, ak_name = name, ak_algorithm = ''ed25519'', ak_public_key_pem = pem,
            ak_status = ''active'', ak_created_by = created_by, ak_created_at = db_now e, ak_revoked_at = None, ak_last_used_at = None\<rparr>
      in if kid \<in> set (map ak_key_id (attestation_keys s)) then Inl (RuntimeErr ''UNIQUE constraint failed: attestation_keys.key_id'')
         else Inr (s\<lparr>attestation_keys := attestation_keys s @ [row],
                     attestation_requirements := insert_or_ignore at_tenant_id
                       \<lparr>at_tenant_id = tenant, at_enabled_at = db_now e, at_enabled_by = created_by\<rparr> (attestation_requirements s)\<rparr>, row))"

definition list_attestation_keys :: "db \<Rightarrow> string \<Rightarrow> attestation_key list" where
  "list_attestation_keys s tenant =
     (let rows = sort_key ak_key_id (filter (\<lambda>k. ak_tenant_id k = tenant) (attestation_keys s))
      in sort_key (\<lambda>k. - ak_created_at k) rows)"

definition load_active_attestation_key :: "db \<Rightarrow> string \<Rightarrow> string \<Rightarrow> attestation_key option" where
  "load_active_attestation_key s tenant kid =
     find (\<lambda>k. ak_key_id k = kid \<and> ak_tenant_id k = tenant \<and> ak_status k = ''active'') (attestation_keys s)"

definition tenant_requires_attestation :: "db \<Rightarrow> string option \<Rightarrow> bool" where
  "tenant_requires_attestation s tenant \<longleftrightarrow>
     nonempty tenant \<and> list_ex (\<lambda>r. Some (at_tenant_id r) = tenant) (attestation_requirements s)"

definition revoke_attestation_key :: "env \<Rightarrow> string \<Rightarrow> string \<Rightarrow> db \<Rightarrow> (db \<times> attestation_key) res" where
  "revoke_attestation_key e kid tenant s =
     (if \<not> exists_row (\<lambda>k. ak_key_id k = kid \<and> ak_tenant_id k = tenant) (attestation_keys s)
      then Inl (DomainErr ''attestation key not found'')
      else let s1 = s\<lparr>attestation_keys := update_where (\<lambda>k. ak_key_id k = kid \<and> ak_tenant_id k = tenant)
                        (\<lambda>k. k\<lparr>ak_status := ''revoked'', ak_revoked_at := Some (db_now e)\<rparr>) (attestation_keys s)\<rparr>
           in (case by_key ak_key_id kid (attestation_keys s1) of None \<Rightarrow> Inl TypeErr | Some k \<Rightarrow> Inr (s1, k)))"

definition touch_attestation_key :: "env \<Rightarrow> string \<Rightarrow> db \<Rightarrow> db" where
  "touch_attestation_key e kid s =
     s\<lparr>attestation_keys := update_where (\<lambda>k. ak_key_id k = kid) (\<lambda>k. k\<lparr>ak_last_used_at := Some (db_now e)\<rparr>) (attestation_keys s)\<rparr>"

section \<open>The signed statement\<close>

text \<open>
  An event as the schema admits it. \<open>attributes\<close> is any JSON value, so that the checks on it are
  visible; a float is a finite double.
\<close>

record telemetry =
  tm_type :: string
  tm_schema_version :: string
  tm_trace_id :: string
  tm_span_id :: string
  tm_timestamp :: string
  tm_service :: string
  tm_environment :: string
  tm_project :: string
  tm_parent_span_id :: "string option"
  tm_system :: "string option"
  tm_name :: "string option"
  tm_status :: string
  tm_duration_ms :: "rat option"
  tm_attributes :: json

definition STATEMENT_TYPE :: string where "STATEMENT_TYPE = ''norinth.eval.attestation/v1''"
definition MAX_PEM_LENGTH :: nat where "MAX_PEM_LENGTH = 4096"

text \<open>\<open>json.dumps(v, sort_keys=True, separators=(",", ":"))\<close>\<close>

function encode_compact :: "(rat \<Rightarrow> string) \<Rightarrow> json \<Rightarrow> string" where
  "encode_compact fr JNull = ''null''"
| "encode_compact fr (JBool b) = (if b then ''true'' else ''false'')"
| "encode_compact fr (JInt i) = str_int i"
| "encode_compact fr (JFloat r) = fr r"
| "encode_compact fr (JStr s) = json_string s"
| "encode_compact fr (JArr xs) = ''['' @ join_with '','' (map (encode_compact fr) xs) @ '']''"
| "encode_compact fr (JObj d) =
     ''{'' @ join_with '','' (map (\<lambda>(k, v). json_string k @ '':'' @ encode_compact fr v) (sort_key fst d)) @ ''}''"
  by pat_completeness auto
termination
  by (relation "measure (size \<circ> snd)") (auto dest: size_json_mem_arr size_json_mem_obj)

definition eval_statement :: "telemetry \<Rightarrow> json res" where
  "eval_statement v =
     (let attrs = py_or (tm_attributes v) (JObj []) in
      ebind (jget attrs ''metadata'' JNull) (\<lambda>m.
      let meta = py_or m (JObj []) in
      ebind (jget meta ''tenant_id'' JNull) (\<lambda>tenant.
      ebind (jget meta ''application_name'' JNull) (\<lambda>app.
      ebind (jget meta ''workflow_name'' JNull) (\<lambda>workflow.
      ebind (jget attrs ''eval_id'' JNull) (\<lambda>eid. ebind (jget attrs ''eval_name'' JNull) (\<lambda>ename.
      ebind (jget attrs ''passed'' JNull) (\<lambda>passed. ebind (jget attrs ''score'' JNull) (\<lambda>score.
      ebind (jget attrs ''prompt_version'' JNull) (\<lambda>prompt. ebind (jget attrs ''artifact_ref'' JNull) (\<lambda>artifact.
      Inr (JObj [(''type'', JStr STATEMENT_TYPE), (''tenant_id'', tenant), (''application_name'', app), (''workflow_name'', workflow),
        (''eval_id'', py_or eid (py_or ename (case tm_name v of None \<Rightarrow> JNull | Some n \<Rightarrow> JStr n))), (''passed'', JBool (truthy passed)),
        (''score'', score), (''prompt_version'', prompt), (''artifact_ref'', artifact), (''trace_id'', JStr (tm_trace_id v)),
        (''span_id'', JStr (tm_span_id v)), (''timestamp'', JStr (tm_timestamp v))]))))))))))))"

definition build_eval_statement :: "env \<Rightarrow> telemetry \<Rightarrow> string res" where
  "build_eval_statement e v = ebind (eval_statement v) (\<lambda>st. Inr (encode_compact (env_float_repr e) st))"

record signature_scheme =
  sg_b64decode :: "string \<Rightarrow> string option"
  sg_load_pem :: "string \<Rightarrow> string option"
  sg_is_ed25519 :: "string \<Rightarrow> bool"
  sg_verify :: "string \<Rightarrow> string \<Rightarrow> string \<Rightarrow> bool"
  sg_public_bytes :: "string \<Rightarrow> string"

text \<open>An \<open>AttestationError\<close> is the left result, with its text.\<close>

definition load_public_key :: "signature_scheme \<Rightarrow> string \<Rightarrow> string + string" where
  "load_public_key g pem =
     (if MAX_PEM_LENGTH < length pem then Inl ''public key is too long''
      else case sg_load_pem g pem of
             None \<Rightarrow> Inl ''public key is not valid PEM''
           | Some k \<Rightarrow> if sg_is_ed25519 g k then Inr k else Inl ''only Ed25519 attestation keys are supported'')"

definition public_key_fingerprint :: "env \<Rightarrow> signature_scheme \<Rightarrow> string \<Rightarrow> string" where
  "public_key_fingerprint e g pem =
     (case load_public_key g pem of Inl _ \<Rightarrow> ''invalid'' | Inr k \<Rightarrow> ''sha256:'' @ take 32 (env_sha256 e (sg_public_bytes g k)))"

definition verify_eval_attestation :: "env \<Rightarrow> signature_scheme \<Rightarrow> telemetry \<Rightarrow> string \<Rightarrow> string \<Rightarrow> (string + unit) res" where
  "verify_eval_attestation e g v pem signature_b64 =
     (case sg_b64decode g signature_b64 of
        None \<Rightarrow> Inr (Inl ''attestation signature is not valid base64'')
      | Some sig \<Rightarrow>
          (case load_public_key g pem of
             Inl x \<Rightarrow> Inr (Inl x)
           | Inr k \<Rightarrow> ebind (build_eval_statement e v) (\<lambda>st.
               Inr (if sg_verify g k sig st then Inr () else Inl ''attestation signature does not match the eval result''))))"

section \<open>Routes\<close>

definition key_tenant :: "actor_context \<Rightarrow> string res" where
  "key_tenant a =
     (if is_super_admin a then Inl (AuthErr ''Platform super admins do not manage tenant attestation keys'')
      else case ac_tenant_id a of
             None \<Rightarrow> Inl (AuthErr ''User is not bound to an organization'')
           | Some t \<Rightarrow> if t = [] then Inl (AuthErr ''User is not bound to an organization'') else Inr t)"

definition authorize_keys :: "db \<Rightarrow> actor_context \<Rightarrow> string \<Rightarrow> unit res" where
  "authorize_keys s a tenant = require_permission s a ''config.write'' (tenant_target (Some tenant)) False"

definition register_key ::
  "env \<Rightarrow> signature_scheme \<Rightarrow> string \<Rightarrow> actor_context \<Rightarrow> string \<Rightarrow> string \<Rightarrow> db \<Rightarrow> (db \<times> attestation_key \<times> audit_req) res" where
  "register_key e g token a name pem s =
     ebind (key_tenant a) (\<lambda>tenant.
     ebind (authorize_keys s a tenant) (\<lambda>_.
     case load_public_key g pem of
       Inl x \<Rightarrow> Inl (DomainErr x)
     | Inr _ \<Rightarrow>
         ebind (create_attestation_key e token tenant name (py_strip pem) (Some (ac_user_ref a)) s) (\<lambda>(s1, k).
         Inr (s1, k, audit_entry (ac_user_ref a) ''attestation_key.register'' (Some tenant) ''attestation_key'' (ak_key_id k)
           (Some (JObj [(''name'', JStr name), (''fingerprint'', JStr (public_key_fingerprint e g (ak_public_key_pem k)))]))))))"

definition revoke_key :: "env \<Rightarrow> actor_context \<Rightarrow> string \<Rightarrow> db \<Rightarrow> (db \<times> attestation_key \<times> audit_req) res" where
  "revoke_key e a kid s =
     ebind (key_tenant a) (\<lambda>tenant.
     ebind (authorize_keys s a tenant) (\<lambda>_.
     ebind (revoke_attestation_key e kid tenant s) (\<lambda>(s1, k).
     Inr (s1, k, audit_entry (ac_user_ref a) ''attestation_key.revoke'' (Some tenant) ''attestation_key'' kid None))))"

section \<open>Validation\<close>

definition MAX_BATCH_EVENTS :: nat where "MAX_BATCH_EVENTS = 5000"

definition REQUIRED_ATTRIBUTES :: "(string \<times> string list) list" where
  "REQUIRED_ATTRIBUTES = [(''deployment.event'', [''deployment_id'', ''version'', ''artifact_ref'']),
     (''prompt.event'', [''prompt_id'', ''version'', ''artifact_ref''])]"

definition OBJECT_ATTRIBUTES :: "string list" where
  "OBJECT_ATTRIBUTES = [''metadata'', ''prompt'', ''response'', ''usage'', ''template'', ''change_notes'', ''description'', ''attestation'']"

definition NUMERIC_USAGE_FIELDS :: "string list" where "NUMERIC_USAGE_FIELDS = [''input_tokens'', ''output_tokens'']"

text \<open>
  \<open>float(text)\<close>: digits with single underscores between them, a sign, a fraction, an exponent, and
  surrounding white space. \<open>inf\<close> and \<open>nan\<close> are read by Python too, and refused as not finite.
\<close>

fun scan_digits :: "string \<Rightarrow> string \<times> string" where
  "scan_digits (c # u # d # cs) =
     (if is_digit c then
        if u = CHR ''_'' \<and> is_digit d then let (ds, r) = scan_digits (d # cs) in (c # ds, r)
        else let (ds, r) = scan_digits (u # d # cs) in (c # ds, r)
      else ([], c # u # d # cs))"
| "scan_digits [c, d] = (if is_digit c then if is_digit d then ([c, d], []) else ([c], [d]) else ([], [c, d]))"
| "scan_digits [c] = (if is_digit c then ([c], []) else ([], [c]))"
| "scan_digits [] = ([], [])"

definition scan_sign :: "string \<Rightarrow> bool \<times> string" where
  "scan_sign s = (case s of c # cs \<Rightarrow> if c = CHR ''-'' then (True, cs) else if c = CHR ''+'' then (False, cs) else (False, s) | [] \<Rightarrow> (False, []))"

definition scan_exponent :: "string \<Rightarrow> int option" where
  "scan_exponent s =
     (case s of [] \<Rightarrow> Some 0
      | c # cs \<Rightarrow>
          if c = CHR ''e'' \<or> c = CHR ''E'' then
            let (neg, t) = scan_sign cs; (ds, r) = scan_digits t
            in if ds = [] \<or> r \<noteq> [] then None else Some (if neg then - int (decimal_value ds) else int (decimal_value ds))
          else None)"

definition py_float_text :: "string \<Rightarrow> rat option" where
  "py_float_text s =
     (let (neg, t) = scan_sign (py_strip s); (whole, r1) = scan_digits t;
          (frac, r2) = (case r1 of c # cs \<Rightarrow> if c = CHR ''.'' then scan_digits cs else ([], r1) | [] \<Rightarrow> ([], []))
      in if whole = [] \<and> frac = [] then None
         else case scan_exponent r2 of
                None \<Rightarrow> None
              | Some x \<Rightarrow> (let n = of_nat (decimal_value (whole @ frac)); k = x - int (length frac);
                               v = (if 0 \<le> k then n * 10 ^ nat k else n / 10 ^ nat (- k))
                           in Some (if neg then - v else v)))"

definition finite_double :: "rat \<Rightarrow> bool" where
  "finite_double v \<longleftrightarrow> \<bar>v\<bar> < 2 ^ 1024 - 2 ^ 970"

definition usage_number :: "json \<Rightarrow> bool" where
  "usage_number v = (case v of JNull \<Rightarrow> True | JBool _ \<Rightarrow> True | JInt _ \<Rightarrow> True | JFloat _ \<Rightarrow> True
     | JStr t \<Rightarrow> (case py_float_text t of None \<Rightarrow> False | Some x \<Rightarrow> finite_double x) | _ \<Rightarrow> False)"

definition event_ref :: "nat \<Rightarrow> string" where
  "event_ref i = ''events['' @ str_nat i @ '']''"

definition validate_usage :: "nat \<Rightarrow> json \<Rightarrow> unit res" where
  "validate_usage i usage =
     ebind (emap (\<lambda>f. ebind (jget usage f JNull) (\<lambda>v.
        if usage_number v then Inr () else Inl (DomainErr (event_ref i @ ''.attributes.usage.'' @ f @ '' must be a number'')))) NUMERIC_USAGE_FIELDS)
      (\<lambda>_. Inr ())"

definition absent :: "json \<Rightarrow> bool" where
  "absent v \<longleftrightarrow> v = JNull \<or> v = JStr []"

definition validate_event :: "nat \<times> telemetry \<Rightarrow> unit res" where
  "validate_event = (\<lambda>(i, v).
     if tm_attributes v \<noteq> JNull \<and> \<not> is_obj (tm_attributes v) then Inl (DomainErr (event_ref i @ ''.attributes must be an object''))
     else let attrs = py_or (tm_attributes v) (JObj []) in
       ebind (emap (\<lambda>k. ebind (jget attrs k JNull) (\<lambda>x.
          if x \<noteq> JNull \<and> \<not> is_obj x then Inl (DomainErr (event_ref i @ ''.attributes.'' @ k @ '' must be an object'')) else Inr ())) OBJECT_ATTRIBUTES) (\<lambda>_.
       ebind (jget attrs ''usage'' JNull) (\<lambda>u.
       ebind (validate_usage i (py_or u (JObj []))) (\<lambda>_.
       let required = (case map_of REQUIRED_ATTRIBUTES (tm_type v) of None \<Rightarrow> [] | Some fs \<Rightarrow> fs) in
       ebind (emap (\<lambda>f. ebind (jget attrs f JNull) (\<lambda>x. Inr (f, x))) required) (\<lambda>given.
       let missing = map fst (filter (\<lambda>(f, x). absent x) given) in
       if missing = [] then Inr ()
       else Inl (DomainErr (event_ref i @ '' ('' @ tm_type v @ '') is missing required attributes: '' @ comma_join missing)))))))"

definition validate_event_attributes :: "telemetry list \<Rightarrow> unit res" where
  "validate_event_attributes vs = ebind (emap validate_event (enumerate 0 vs)) (\<lambda>_. Inr ())"

section \<open>Binding to the tenant of the key\<close>

definition bind_event :: "string \<Rightarrow> telemetry \<Rightarrow> telemetry res" where
  "bind_event tenant v =
     (case tm_attributes v of
        JObj attrs \<Rightarrow>
          (case dget attrs ''metadata'' (JObj []) of
             JObj meta \<Rightarrow>
               let claimed = dget meta ''tenant_id'' JNull in
               if claimed \<noteq> JNull \<and> \<not> py_eq claimed (JStr tenant)
               then Inl (AuthErr ''event tenant_id does not match the authenticated ingestion key'')
               else Inr (v\<lparr>tm_attributes := JObj (dict_set ''metadata'' (JObj (dict_set ''tenant_id'' (JStr tenant) meta)) attrs)\<rparr>)
           | _ \<Rightarrow> Inl (DomainErr ''event.attributes.metadata must be an object''))
      | _ \<Rightarrow> Inl (DomainErr ''event.attributes must be an object''))"

definition bind_events_to_tenant :: "telemetry list \<Rightarrow> string \<Rightarrow> telemetry list res" where
  "bind_events_to_tenant vs tenant = emap (bind_event tenant) vs"

section \<open>Verification of attestations\<close>

definition dict_pop :: "string \<Rightarrow> dict \<Rightarrow> dict" where
  "dict_pop k d = filter (\<lambda>p. fst p \<noteq> k) d"

definition rejected_audit :: "string \<Rightarrow> telemetry \<Rightarrow> string \<Rightarrow> string \<Rightarrow> audit_req" where
  "rejected_audit tenant v key_id reason =
     \<lparr>aq_actor_ref = ''ingestion:'' @ tenant, aq_action = ''evidence.attestation_rejected'', aq_tenant_id = Some tenant,
      aq_target_type = Some ''eval_result'', aq_target_id = Some (tm_trace_id v @ ''/'' @ tm_span_id v),
      aq_detail = Some (JObj [(''key_id'', JStr key_id), (''reason'', JStr reason)])\<rparr>"

text \<open>
  One event: the event with the platform's own stamp, the database with the key's use noted, and
  the audit entry of a refusal. The checks run outside a transaction of their own, so what was
  noted of earlier events of a refused batch stays.
\<close>

definition verify_event ::
  "env \<Rightarrow> signature_scheme \<Rightarrow> string \<Rightarrow> telemetry \<Rightarrow> db \<Rightarrow> db \<times> audit_req list \<times> telemetry res" where
  "verify_event e g tenant v s =
     (case tm_attributes v of
        JObj attrs0 \<Rightarrow>
          (let attrs = dict_pop ''attested_key_id'' (dict_pop ''attested'' attrs0); cleared = v\<lparr>tm_attributes := JObj attrs\<rparr> in
           if tm_type v \<noteq> ''eval.result'' then (s, [], Inr (v\<lparr>tm_attributes := JObj (dict_pop ''attestation'' attrs)\<rparr>))
           else case dget attrs ''attestation'' JNull of
               JNull \<Rightarrow> (s, [], Inr (v\<lparr>tm_attributes := JObj (dict_set ''attested'' (JBool False) attrs)\<rparr>))
             | JObj a \<Rightarrow>
                 (let key_id = py_str (env_float_repr e) (py_or (dget a ''key_id'' JNull) (JStr []));
                      signature = py_str (env_float_repr e) (py_or (dget a ''signature'' JNull) (JStr []));
                      outcome = (case (if key_id = [] then None else load_active_attestation_key s tenant key_id) of
                          None \<Rightarrow> Inr (Inl ''attestation key is unknown, revoked, or belongs to another organization'')
                        | Some k \<Rightarrow> verify_eval_attestation e g cleared (ak_public_key_pem k) signature)
                  in (case outcome of
                        Inl err \<Rightarrow> (s, [], Inl err)
                      | Inr (Inl reason) \<Rightarrow> (s, [rejected_audit tenant v key_id reason],
                          Inl (DomainErr (''eval attestation rejected for span '' @ tm_span_id v @ '': '' @ reason)))
                      | Inr (Inr _) \<Rightarrow> (touch_attestation_key e key_id s, [],
                          Inr (v\<lparr>tm_attributes := JObj (dict_set ''attested_key_id'' (JStr key_id) (dict_set ''attested'' (JBool True) attrs))\<rparr>))))
             | _ \<Rightarrow> (s, [], Inl (DomainErr ''attestation must be an object {key_id, signature}'')))
      | _ \<Rightarrow> (s, [], Inr v))"

fun verify_eval_attestations ::
  "env \<Rightarrow> signature_scheme \<Rightarrow> string \<Rightarrow> telemetry list \<Rightarrow> db \<Rightarrow> db \<times> audit_req list \<times> telemetry list res" where
  "verify_eval_attestations e g tenant [] s = (s, [], Inr [])"
| "verify_eval_attestations e g tenant (v # vs) s =
     (case verify_event e g tenant v s of
        (s1, q1, Inl err) \<Rightarrow> (s1, q1, Inl err)
      | (s1, q1, Inr w) \<Rightarrow>
          (case verify_eval_attestations e g tenant vs s1 of
             (s2, q2, Inl err) \<Rightarrow> (s2, q1 @ q2, Inl err)
           | (s2, q2, Inr ws) \<Rightarrow> (s2, q1 @ q2, Inr (w # ws))))"

text \<open>What \<open>_ingest\<close> does before the first event is stored.\<close>

definition admit_events ::
  "env \<Rightarrow> signature_scheme \<Rightarrow> telemetry list \<Rightarrow> string \<Rightarrow> db \<Rightarrow> db \<times> audit_req list \<times> telemetry list res" where
  "admit_events e g vs tenant s =
     (case validate_event_attributes vs of
        Inl err \<Rightarrow> (s, [], Inl err)
      | Inr _ \<Rightarrow> (case bind_events_to_tenant vs tenant of
           Inl err \<Rightarrow> (s, [], Inl err)
         | Inr bound \<Rightarrow> verify_eval_attestations e g tenant bound s))"

end
