(* ===== verification/Json_Unique.thy ===== *)
theory Json_Unique
  imports Attestation
begin

text \<open>
  The compact JSON encoding is unambiguous: two values with the same text are the same up to the
  order of object keys. Proved by reading the text back one token at a time.
\<close>

section \<open>Strings\<close>

definition unhex :: "char \<Rightarrow> nat" where
  "unhex c = (let n = of_char c in if n < 58 then n - 48 else n - 87)"

definition unescape :: "char \<Rightarrow> char option" where
  "unescape c = map_of [(CHR 0x22, CHR 0x22), (CHR 0x5C, CHR 0x5C), (CHR ''n'', CHR 0x0A), (CHR ''r'', CHR 0x0D), (CHR ''t'', CHR 0x09),
     (CHR ''f'', CHR 0x0C), (CHR ''b'', CHR 0x08)] c"

fun read_char :: "string \<Rightarrow> (char \<times> string) option" where
  "read_char [] = None"
| "read_char (c # r) =
     (if c = CHR 0x22 then None
      else if c \<noteq> CHR 0x5C then Some (c, r)
      else case r of [] \<Rightarrow> None
           | d # r1 \<Rightarrow> (case unescape d of Some z \<Rightarrow> Some (z, r1)
                | None \<Rightarrow> (case r1 of x # y # h # l # r2 \<Rightarrow> Some (char_of (16 * unhex h + unhex l), r2) | _ \<Rightarrow> None)))"

lemma unhex_hex_digit: "n < 16 \<Longrightarrow> unhex (hex_digit n) = n"
  by (simp add: unhex_def hex_digit_def Let_def)

lemma code_char: "(of_char c :: nat) = of_char d \<Longrightarrow> c = d"
  by simp

lemma read_json_char: "read_char (json_char c @ r) = Some (c, r)"
proof -
  let ?n = "of_char c :: nat"
  have lt: "?n < 256" by simp
  consider "?n = 34" | "?n = 92" | "?n = 10" | "?n = 13" | "?n = 9" | "?n = 12" | "?n = 8"
    | (u) "?n \<notin> {34, 92, 10, 13, 9, 12, 8}" "?n < 32 \<or> 126 < ?n" | (p) "?n \<notin> {34, 92, 10, 13, 9, 12, 8}" "\<not> (?n < 32 \<or> 126 < ?n)" by blast
  then show ?thesis
  proof cases
    case u
    have "?n div 16 < 16" using lt by (intro less_mult_imp_div_less) simp
    then have "char_of (16 * unhex (hex_digit (?n div 16)) + unhex (hex_digit (?n mod 16))) = c" by (simp add: unhex_hex_digit)
    then show ?thesis using u by (simp add: json_char_def Let_def unescape_def)
  next
    case p
    then have "c \<noteq> CHR 0x22" "c \<noteq> CHR 0x5C" by auto
    then show ?thesis using p by (simp add: json_char_def Let_def)
  qed (simp_all add: json_char_def Let_def unescape_def, (rule code_char, simp)+)
qed

lemma json_chars_unique:
  "concat (map json_char s) @ CHR 0x22 # x = concat (map json_char t) @ CHR 0x22 # y \<Longrightarrow> s = t \<and> x = y"
proof (induction s arbitrary: t)
  case Nil
  then show ?case
  proof (cases t)
    case (Cons c u)
    then have "read_char (CHR 0x22 # x) = read_char (json_char c @ concat (map json_char u) @ CHR 0x22 # y)" using Nil by simp
    then show ?thesis by (simp add: read_json_char)
  qed simp
next
  case (Cons c s)
  have eq: "json_char c @ concat (map json_char s) @ CHR 0x22 # x = concat (map json_char t) @ CHR 0x22 # y" using Cons.prems by simp
  show ?case
  proof (cases t)
    case Nil
    then have "read_char (json_char c @ concat (map json_char s) @ CHR 0x22 # x) = read_char (CHR 0x22 # y)" using eq by simp
    then show ?thesis by (simp add: read_json_char)
  next
    case (Cons d u)
    then have "read_char (json_char c @ concat (map json_char s) @ CHR 0x22 # x) = read_char (json_char d @ concat (map json_char u) @ CHR 0x22 # y)"
      using eq by simp
    then have "c = d" "concat (map json_char s) @ CHR 0x22 # x = concat (map json_char u) @ CHR 0x22 # y" by (simp_all add: read_json_char)
    then show ?thesis using Cons.IH Cons by simp
  qed
qed

lemma json_string_unique: "json_string s @ x = json_string t @ y \<Longrightarrow> s = t \<and> x = y"
  using json_chars_unique [of s x t y] by (simp add: json_string_def)

section \<open>Values\<close>

definition ends :: "string \<Rightarrow> bool" where
  "ends x \<longleftrightarrow> x = [] \<or> hd x \<in> set '',]}''"

definition token :: "string \<Rightarrow> bool" where
  "token t \<longleftrightarrow> t \<noteq> [] \<and> set t \<inter> set '',]}[{'' = {} \<and> hd t \<noteq> CHR 0x22"

text \<open>What \<open>repr\<close> of a finite float promises.\<close>

definition float_repr_ok :: "(rat \<Rightarrow> string) \<Rightarrow> bool" where
  "float_repr_ok fr \<longleftrightarrow> inj fr \<and> (\<forall>r. token (fr r) \<and> (hd (fr r) = CHR ''-'' \<or> is_digit (hd (fr r))) \<and> (\<forall>i. fr r \<noteq> str_int i))"

lemma token_unique:
  assumes "token t" "token u" "t @ x = u @ y" "ends x" "ends y"
  shows "t = u \<and> x = y"
proof -
  let ?p = "\<lambda>c. c \<notin> set '',]}''"
  have w: "takeWhile ?p (t @ x) = t" if "token t" "ends x" for t x
  proof -
    have "\<forall>c\<in>set t. ?p c" using that(1) unfolding token_def by auto
    moreover have "takeWhile ?p x = []" using that(2) unfolding ends_def by (cases x) auto
    ultimately show ?thesis by (simp add: takeWhile_append2)
  qed
  have "t = u" using w [OF assms(1,4)] w [OF assms(2,5)] assms(3) by metis
  then show ?thesis using assms(3) by simp
qed

fun is_scalar :: "json \<Rightarrow> bool" where
  "is_scalar (JStr _) = False" | "is_scalar (JArr _) = False" | "is_scalar (JObj _) = False" | "is_scalar _ = True"

lemma str_nat_token: "token (str_nat n)" and hd_str_nat: "is_digit (hd (str_nat n))"
proof -
  have d: "is_digit c" if "c \<in> set (str_nat n)" for c
    using set_str_nat [OF that] by (simp add: is_digit_def)
  have ne: "str_nat n \<noteq> []" by (subst str_nat.simps) simp
  have "c \<notin> set '',]}[{''" "c \<noteq> CHR 0x22" if "c \<in> set (str_nat n)" for c using d [OF that] by (auto simp: is_digit_def)
  then show "token (str_nat n)" unfolding token_def using ne hd_in_set [OF ne] by blast
  show "is_digit (hd (str_nat n))" using d hd_in_set [OF ne] by blast
qed

lemma str_int_token: "token (str_int i)" "hd (str_int i) = CHR ''-'' \<or> is_digit (hd (str_int i))"
  using str_nat_token [of "nat i"] str_nat_token [of "nat (- i)"] hd_str_nat [of "nat i"]
  by (auto simp: str_int_def token_def)

lemma scalar_token: "float_repr_ok fr \<Longrightarrow> is_scalar v \<Longrightarrow> token (encode_compact fr v)"
  using str_int_token by (cases v) (auto simp: token_def float_repr_ok_def)

lemma scalar_unique:
  assumes fr: "float_repr_ok fr" and "is_scalar a" "is_scalar b" "encode_compact fr a = encode_compact fr b"
  shows "a = b"
proof -
  have num: "c \<notin> {CHR ''n'', CHR ''t'', CHR ''f''}" if "c = CHR ''-'' \<or> is_digit c" for c using that by (auto simp: is_digit_def)
  have h: "hd (str_int i) \<notin> {CHR ''n'', CHR ''t'', CHR ''f''}" "hd (fr r) \<notin> {CHR ''n'', CHR ''t'', CHR ''f''}" for i r
    using num [OF str_int_token(2) [of i]] num [of "hd (fr r)"] fr unfolding float_repr_ok_def by blast+
  have f: "fr r \<noteq> str_int i" "fr r = fr q \<longleftrightarrow> r = q" for r q i using fr unfolding float_repr_ok_def by (auto simp: inj_eq)
  have w: "str_int i \<noteq> c # cs" "fr r \<noteq> c # cs" if "c \<in> {CHR ''n'', CHR ''t'', CHR ''f''}" for i r c cs
    using h(1) [of i] h(2) [of r] that by auto
  show ?thesis
    using assms(2-4) str_int_inj [of _ _] f w f(1) [symmetric] w [symmetric]
    by (cases a; cases b) (auto split: if_splits)
qed

lemma hd_encode:
  assumes "float_repr_ok fr"
  shows "encode_compact fr v \<noteq> [] \<and> hd (encode_compact fr v) \<notin> set '',]}''"
proof (cases "is_scalar v")
  case True
  then show ?thesis using scalar_token [OF assms True] hd_in_set unfolding token_def by fastforce
next
  case False
  then show ?thesis by (cases v) (auto simp: json_string_def)
qed

lemma joined_unique:
  assumes one: "\<And>a b x y. a \<in> set xs \<Longrightarrow> f a @ x = f b @ y \<Longrightarrow> ends x \<Longrightarrow> ends y \<Longrightarrow> h a = h b \<and> x = y"
    and first: "\<And>a. f a \<noteq> [] \<and> hd (f a) \<notin> set '',]}''" and c: "c \<in> set '']}''"
    and eq: "join_with '','' (map f xs) @ c # x = join_with '','' (map f ys) @ c # y"
  shows "map h xs = map h ys \<and> x = y"
  using one eq
proof (induction xs arbitrary: ys)
  case Nil
  have "ys = []"
  proof (rule ccontr)
    assume "ys \<noteq> []"
    then obtain b bs where ys: "ys = b # bs" by (cases ys) auto
    obtain z where "join_with '','' (map f ys) = f b @ z" using ys by (cases bs) auto
    then have "c = hd (f b)" using Nil.prems(2) first [of b] by (metis append_Nil append_assoc hd_append2 join_with.simps(1) list.sel(1) list.simps(8))
    then show False using first [of b] c by auto
  qed
  then show ?case using Nil.prems(2) by simp
next
  case (Cons a as)
  have e: "ends (c # z)" "ends (CHR '','' # z)" for z using c by (auto simp: ends_def)
  obtain u where u: "join_with '','' (map f (a # as)) @ c # x = f a @ u" "ends u" "as = [] \<longrightarrow> u = c # x"
      "as \<noteq> [] \<longrightarrow> u = CHR '','' # join_with '','' (map f as) @ c # x"
    using e by (cases as) auto
  show ?case
  proof (cases ys)
    case Nil
    then have "hd (f a) = c" using Cons.prems(2) u(1) first [of a] by (metis append_Nil hd_append2 join_with.simps(1) list.sel(1) list.simps(8))
    then show ?thesis using first [of a] c by auto
  next
    case (Cons b bs)
    obtain w where w: "join_with '','' (map f (b # bs)) @ c # y = f b @ w" "ends w" "bs = [] \<longrightarrow> w = c # y"
        "bs \<noteq> [] \<longrightarrow> w = CHR '','' # join_with '','' (map f bs) @ c # y"
      using e by (cases bs) auto
    have "f a @ u = f b @ w" using Cons.prems(2) u(1) w(1) Cons by simp
    then have hb: "h a = h b" "u = w" using Cons.prems(1) [of a u b w] u(2) w(2) by auto
    show ?thesis
    proof (cases "as = []")
      case True
      then have "bs = [] \<and> x = y" using u(3) w hb(2) c by (cases "bs = []") auto
      then show ?thesis using True Cons hb(1) by simp
    next
      case False
      then have bs: "bs \<noteq> []" "join_with '','' (map f as) @ c # x = join_with '','' (map f bs) @ c # y"
        using u(4) w(3,4) hb(2) c by (cases "bs = []"; auto)+
      have "map h as = map h bs \<and> x = y"
      proof (rule Cons.IH [OF _ bs(2)])
        show "h a' = h b' \<and> x' = y'" if "a' \<in> set as" "f a' @ x' = f b' @ y'" "ends x'" "ends y'" for a' b' x' y'
          using Cons.prems(1) [of a' x' b' y'] that by simp
      qed
      then show ?thesis using hb(1) Cons by simp
    qed
  qed
qed

function canonical :: "json \<Rightarrow> json" where
  "canonical (JArr xs) = JArr (map canonical xs)"
| "canonical (JObj d) = JObj (map (\<lambda>(k, v). (k, canonical v)) (sort_key fst d))"
| "canonical JNull = JNull"
| "canonical (JBool b) = JBool b"
| "canonical (JInt i) = JInt i"
| "canonical (JFloat r) = JFloat r"
| "canonical (JStr s) = JStr s"
  by pat_completeness auto
termination
  by (relation "measure size") (auto dest: size_json_mem_arr size_json_mem_obj)

lemma canonical_scalar: "is_scalar v \<Longrightarrow> canonical v = v"
  by (cases v) auto

theorem encode_compact_unique:
  assumes fr: "float_repr_ok fr"
  shows "encode_compact fr a @ x = encode_compact fr b @ y \<Longrightarrow> ends x \<Longrightarrow> ends y \<Longrightarrow> canonical a = canonical b \<and> x = y"
proof (induction a arbitrary: b x y rule: measure_induct_rule [of size])
  case (less a)
  let ?e = "encode_compact fr"
  show ?case
  proof (cases "is_scalar a \<or> is_scalar b")
    case True
    have hd: "hd (?e v) \<in> {CHR 0x22, CHR ''['', CHR ''{''}" if "\<not> is_scalar v" for v
      using that by (cases v) (auto simp: json_string_def)
    have sc: "hd (?e v) \<notin> {CHR 0x22, CHR ''['', CHR ''{''}" if "is_scalar v" for v
    proof -
      have tok: "?e v \<noteq> []" "set (?e v) \<inter> set '',]}[{'' = {}" "hd (?e v) \<noteq> CHR 0x22" using scalar_token [OF fr that] by (simp_all add: token_def)
      then have "hd (?e v) \<notin> set '',]}[{''" using hd_in_set [OF tok(1)] by blast
      then show ?thesis using tok(3) by simp
    qed
    have "hd (?e a) = hd (?e b)" using less.prems(1) hd_encode [OF fr, of a] hd_encode [OF fr, of b] by (metis hd_append2)
    then have both: "is_scalar a" "is_scalar b" using True hd sc by metis+
    have "?e a = ?e b \<and> x = y" by (rule token_unique [OF scalar_token [OF fr both(1)] scalar_token [OF fr both(2)] less.prems])
    then show ?thesis using scalar_unique [OF fr both] canonical_scalar by simp
  next
    case False
    show ?thesis
    proof (cases a)
      case (JStr s)
      then obtain t where b: "b = JStr t" using less.prems(1) False by (cases b) (auto simp: json_string_def)
      then show ?thesis using JStr less.prems(1) json_string_unique [of s x t y] by simp
    next
      case (JArr xs)
      then obtain ys where b: "b = JArr ys" using less.prems(1) False by (cases b) (auto simp: json_string_def)
      have "map canonical xs = map canonical ys \<and> x = y"
      proof (rule joined_unique [where f = ?e and c = "CHR '']''"])
        show "canonical a' = canonical b' \<and> x' = y'" if "a' \<in> set xs" "?e a' @ x' = ?e b' @ y'" "ends x'" "ends y'" for a' b' x' y'
          using less.IH [of a' x' b' y'] that JArr size_json_mem_arr [OF that(1)] by simp
        show "?e v \<noteq> [] \<and> hd (?e v) \<notin> set '',]}''" for v by (rule hd_encode [OF fr])
        show "join_with '','' (map ?e xs) @ CHR '']'' # x = join_with '','' (map ?e ys) @ CHR '']'' # y" using less.prems(1) JArr b by simp
      qed simp
      then show ?thesis using JArr b by simp
    next
      case (JObj d)
      then obtain f where b: "b = JObj f" using less.prems(1) False by (cases b) (auto simp: json_string_def)
      let ?item = "\<lambda>(k, v). json_string k @ '':'' @ ?e v"
      have "map (\<lambda>(k, v). (k, canonical v)) (sort_key fst d) = map (\<lambda>(k, v). (k, canonical v)) (sort_key fst f) \<and> x = y"
      proof (rule joined_unique [where f = ?item and c = "CHR ''}''"])
        show "(case p of (k, v) \<Rightarrow> (k, canonical v)) = (case q of (k, v) \<Rightarrow> (k, canonical v)) \<and> x' = y'"
          if m: "p \<in> set (sort_key fst d)" and eq: "?item p @ x' = ?item q @ y'" and en: "ends x'" "ends y'" for p q x' y'
        proof -
          obtain k v where p: "p = (k, v)" by (cases p)
          obtain l w where q: "q = (l, w)" by (cases q)
          have "json_string k @ CHR '':'' # ?e v @ x' = json_string l @ CHR '':'' # ?e w @ y'" using eq by (simp add: p q)
          then have 1: "k = l" "?e v @ x' = ?e w @ y'" using json_string_unique by blast+
          have "size v < size a" using m size_json_mem_obj [of k v d] JObj by (simp add: p)
          then show ?thesis using less.IH [OF _ 1(2) en] 1(1) by (simp add: p q)
        qed
        show "?item p \<noteq> [] \<and> hd (?item p) \<notin> set '',]}''" for p by (cases p) (simp add: json_string_def)
        show "join_with '','' (map ?item (sort_key fst d)) @ CHR ''}'' # x = join_with '','' (map ?item (sort_key fst f)) @ CHR ''}'' # y"
          using less.prems(1) JObj b by simp
      qed simp
      then show ?thesis using JObj b by simp
    qed (use False in auto)
  qed
qed

end
