(* ===== verification/Attestation_Properties.thy ===== *)
theory Attestation_Properties
  imports Json_Unique
begin

text \<open>
  Properties of ingestion and attestation: an admitted event belongs to the organization of the key it
  came with, an attestation stamp is the platform's own, and a signature covers one result of
  one run only.
\<close>

section \<open>Admitted events\<close>

lemma map_of_dict_set: "map_of (dict_set k v d) k' = (if k' = k then Some v else map_of d k')"
proof (cases "k \<in> set (map fst d)")
  case True
  have "map_of (map (\<lambda>(a, b). (a, if a = k then v else b)) d) k' = (if k' = k then map_option (\<lambda>_. v) (map_of d k) else map_of d k')"
    by (induction d) auto
  moreover have "map_of d k \<noteq> None" using True by (simp add: map_of_eq_None_iff)
  ultimately show ?thesis using True by (auto simp: dict_set_def)
next
  case False
  then have "map_of d k = None" by (simp add: map_of_eq_None_iff)
  then show ?thesis using False by (auto simp: dict_set_def map_add_def split: option.splits)
qed

lemma dget_dict_set [simp]: "dget (dict_set k v d) k' x = (if k' = k then v else dget d k' x)"
  by (simp add: dget_def map_of_dict_set)

lemma dget_dict_pop [simp]: "dget (dict_pop k d) k' x = (if k' = k then x else dget d k' x)"
proof -
  have "map_of (filter (\<lambda>p. fst p \<noteq> k) d) k' = (if k' = k then None else map_of d k')" by (induction d) auto
  then show ?thesis by (simp add: dget_def dict_pop_def)
qed

definition bound_to :: "string \<Rightarrow> telemetry \<Rightarrow> bool" where
  "bound_to tenant v \<longleftrightarrow> (\<exists>attrs meta. tm_attributes v = JObj attrs \<and> dget attrs ''metadata'' JNull = JObj meta \<and>
     dget meta ''tenant_id'' JNull = JStr tenant)"

lemma bind_event_bound: "bind_event tenant v = Inr w \<Longrightarrow> bound_to tenant w"
  by (auto simp: bind_event_def bound_to_def Let_def split: json.splits if_splits)

definition stamped_attested :: "telemetry \<Rightarrow> bool" where
  "stamped_attested v \<longleftrightarrow> (\<exists>attrs. tm_attributes v = JObj attrs \<and> dget attrs ''attested'' JNull = JBool True)"

text \<open>A signature of an active key of the organization over the statement of the event itself.\<close>

definition genuinely_attested :: "env \<Rightarrow> signature_scheme \<Rightarrow> db \<Rightarrow> string \<Rightarrow> telemetry \<Rightarrow> bool" where
  "genuinely_attested e g s tenant v \<longleftrightarrow> tm_type v = ''eval.result'' \<and>
     (\<exists>k\<in>set (attestation_keys s). ak_tenant_id k = tenant \<and> ak_status k = ''active'' \<and>
        (\<exists>key signature st. sg_load_pem g (ak_public_key_pem k) = Some key \<and> sg_is_ed25519 g key \<and>
           build_eval_statement e v = Inr st \<and> sg_verify g key signature st))"

text \<open>The statement reads nothing of the stamps.\<close>

lemma eval_statement_stamps:
  assumes "tm_attributes v = JObj attrs" "tm_attributes w = JObj attrs'" "w\<lparr>tm_attributes := JNull\<rparr> = v\<lparr>tm_attributes := JNull\<rparr>"
    and same: "\<And>k. k \<notin> {''attested'', ''attested_key_id''} \<Longrightarrow> dget attrs' k JNull = dget attrs k JNull"
  shows "eval_statement w = eval_statement v"
proof -
  have rest: "tm_name w = tm_name v" "tm_trace_id w = tm_trace_id v" "tm_span_id w = tm_span_id v" "tm_timestamp w = tm_timestamp v"
    using assms(3) by (cases v; cases w; simp)+
  show ?thesis unfolding eval_statement_def Let_def assms(1,2) rest by (simp add: same)
qed

lemma touch_keys:
  assumes "k \<in> set (attestation_keys (touch_attestation_key e kid s))"
  shows "\<exists>k0\<in>set (attestation_keys s). ak_tenant_id k0 = ak_tenant_id k \<and> ak_status k0 = ak_status k \<and> ak_public_key_pem k0 = ak_public_key_pem k"
proof -
  have "k \<in> set (update_where (\<lambda>k. ak_key_id k = kid) (\<lambda>k. k\<lparr>ak_last_used_at := Some (db_now e)\<rparr>) (attestation_keys s))"
    using assms by (simp add: touch_attestation_key_def)
  then show ?thesis by (cases rule: update_whereE) (force, blast)
qed

lemma genuinely_attested_touch:
  assumes "genuinely_attested e g (touch_attestation_key e kid s) tenant v"
  shows "genuinely_attested e g s tenant v"
  using assms touch_keys [of _ e kid s] unfolding genuinely_attested_def by metis

lemma verify_eval_attestation_ok:
  assumes "verify_eval_attestation e g v pem b64 = Inr (Inr ())"
  shows "\<exists>key signature st. sg_load_pem g pem = Some key \<and> sg_is_ed25519 g key \<and> build_eval_statement e v = Inr st \<and> sg_verify g key signature st"
  using assms by (auto simp: verify_eval_attestation_def load_public_key_def ebind_eq_Inr split: option.splits sum.splits if_splits)

lemma verify_event_cases:
  assumes "verify_event e g tenant v s = (s1, q, Inr w)"
  obtains (other) "\<And>attrs. tm_attributes v \<noteq> JObj attrs" "w = v" "s1 = s"
    | (plain) attrs where "tm_attributes v = JObj attrs" "s1 = s"
        "w = v\<lparr>tm_attributes := JObj (dict_pop ''attestation'' (dict_pop ''attested_key_id'' (dict_pop ''attested'' attrs)))\<rparr>"
    | (unsigned) attrs where "tm_attributes v = JObj attrs" "s1 = s"
        "w = v\<lparr>tm_attributes := JObj (dict_set ''attested'' (JBool False) (dict_pop ''attested_key_id'' (dict_pop ''attested'' attrs)))\<rparr>"
    | (signed) attrs k key_id b64 where "tm_attributes v = JObj attrs" "tm_type v = ''eval.result''" "s1 = touch_attestation_key e key_id s"
        "load_active_attestation_key s tenant key_id = Some k"
        "verify_eval_attestation e g (v\<lparr>tm_attributes := JObj (dict_pop ''attested_key_id'' (dict_pop ''attested'' attrs))\<rparr>) (ak_public_key_pem k) b64 = Inr (Inr ())"
        "w = v\<lparr>tm_attributes := JObj (dict_set ''attested_key_id'' (JStr key_id) (dict_set ''attested'' (JBool True)
           (dict_pop ''attested_key_id'' (dict_pop ''attested'' attrs))))\<rparr>"
proof (cases "\<exists>attrs. tm_attributes v = JObj attrs")
  case False
  then have ne: "\<And>attrs. tm_attributes v \<noteq> JObj attrs" by blast
  have "w = v \<and> s1 = s" using assms False by (cases "tm_attributes v") (simp_all add: verify_event_def)
  then show thesis using other [OF ne] by blast
next
  case True
  then obtain attrs0 where JObj: "tm_attributes v = JObj attrs0" by blast
  let ?attrs = "dict_pop ''attested_key_id'' (dict_pop ''attested'' attrs0)"
  show thesis
  proof (cases "tm_type v = ''eval.result''")
    case False
    then show thesis using assms JObj plain [OF JObj] by (simp add: verify_event_def Let_def)
  next
    case True
    note t = True
    show thesis
    proof (cases "dget attrs0 ''attestation'' JNull")
      case JNull
      then show thesis using assms JObj True unsigned [OF JObj] by (simp add: verify_event_def Let_def)
    next
      fix a
      assume A: "dget attrs0 ''attestation'' JNull = JObj a"
      let ?kid = "py_str (env_float_repr e) (py_or (dget a ''key_id'' JNull) (JStr []))" and ?sg = "py_str (env_float_repr e) (py_or (dget a ''signature'' JNull) (JStr []))"
      show thesis
      proof (cases "if ?kid = [] then None else load_active_attestation_key s tenant ?kid")
        case None
        then show thesis using assms JObj True A by (simp add: verify_event_def Let_def)
      next
        case (Some k)
        then have k: "load_active_attestation_key s tenant ?kid = Some k" by (simp split: if_splits)
        have "verify_eval_attestation e g (v\<lparr>tm_attributes := JObj ?attrs\<rparr>) (ak_public_key_pem k) ?sg = Inr (Inr ()) \<and>
            s1 = touch_attestation_key e ?kid s \<and>
            w = v\<lparr>tm_attributes := JObj (dict_set ''attested_key_id'' (JStr ?kid) (dict_set ''attested'' (JBool True) ?attrs))\<rparr>"
          using assms JObj True A Some
          by (cases "verify_eval_attestation e g (v\<lparr>tm_attributes := JObj ?attrs\<rparr>) (ak_public_key_pem k) ?sg"; simp add: verify_event_def Let_def split: sum.splits)
        then show thesis using signed [OF JObj t _ k] by blast
      qed
    next
      case (JBool b)
      then show thesis using assms JObj True by (simp add: verify_event_def Let_def)
    next
      case (JInt i)
      then show thesis using assms JObj True by (simp add: verify_event_def Let_def)
    next
      case (JFloat r)
      then show thesis using assms JObj True by (simp add: verify_event_def Let_def)
    next
      case (JStr x)
      then show thesis using assms JObj True by (simp add: verify_event_def Let_def)
    next
      case (JArr xs)
      then show thesis using assms JObj True by (simp add: verify_event_def Let_def)
    qed
  qed
qed

lemma verify_event_ok:
  assumes r: "verify_event e g tenant v s = (s1, q, Inr w)"
  shows "bound_to tenant v \<Longrightarrow> bound_to tenant w" and "stamped_attested w \<Longrightarrow> genuinely_attested e g s tenant w"
    and "genuinely_attested e g s1 tenant u \<Longrightarrow> genuinely_attested e g s tenant u"
proof -
  show "bound_to tenant v \<Longrightarrow> bound_to tenant w" using r by (cases rule: verify_event_cases) (auto simp: bound_to_def)
  show "genuinely_attested e g s1 tenant u \<Longrightarrow> genuinely_attested e g s tenant u"
    using r by (cases rule: verify_event_cases) (auto intro: genuinely_attested_touch)
  assume st: "stamped_attested w"
  from r show "genuinely_attested e g s tenant w"
  proof (cases rule: verify_event_cases)
    case other
    then show ?thesis using st by (simp add: stamped_attested_def)
  next
    case (plain attrs)
    then show ?thesis using st by (simp add: stamped_attested_def)
  next
    case (unsigned attrs)
    then show ?thesis using st by (simp add: stamped_attested_def)
  next
    case (signed attrs k key_id b64)
    let ?a = "dict_pop ''attested_key_id'' (dict_pop ''attested'' attrs)"
    let ?c = "v\<lparr>tm_attributes := JObj ?a\<rparr>"
    have same: "eval_statement w = eval_statement ?c"
      by (rule eval_statement_stamps [of ?c ?a w "dict_set ''attested_key_id'' (JStr key_id) (dict_set ''attested'' (JBool True) ?a)"])
        (simp_all add: signed(6))
    have k: "k \<in> set (attestation_keys s)" "ak_tenant_id k = tenant" "ak_status k = ''active''"
      using find_mem [OF signed(4) [unfolded load_active_attestation_key_def]] by simp_all
    have ty: "tm_type w = ''eval.result''" using signed(2,6) by simp
    show ?thesis
      using verify_eval_attestation_ok [OF signed(5)] k ty unfolding genuinely_attested_def build_eval_statement_def same by blast
  qed
qed

lemma verify_batch_ok:
  assumes "verify_eval_attestations e g tenant vs s = (s1, q, Inr ws)"
  shows "((\<forall>v\<in>set vs. bound_to tenant v) \<longrightarrow> (\<forall>w\<in>set ws. bound_to tenant w)) \<and> length ws = length vs \<and>
    (\<forall>w\<in>set ws. stamped_attested w \<longrightarrow> genuinely_attested e g s tenant w)"
  using assms
proof (induction vs arbitrary: s s1 q ws)
  case (Cons v vs)
  obtain sa qa w where a: "verify_event e g tenant v s = (sa, qa, Inr w)"
    using Cons.prems by (auto split: prod.splits sum.splits)
  obtain sb qb us where b: "verify_eval_attestations e g tenant vs sa = (sb, qb, Inr us)" "ws = w # us"
    using Cons.prems a by (auto split: prod.splits sum.splits)
  show ?case using Cons.IH [OF b(1)] verify_event_ok [OF a] b(2) by auto
qed simp

text \<open>
  C30: every event of a batch that is admitted belongs to the organization of the ingestion key it
  came with, whatever organization it claimed, and carries \<open>attested: true\<close> only when
  it is an evaluation result whose signature, by an active Ed25519 key of that organization, was
  verified over the very statement of the admitted event; a client's own claim of being attested
  is never kept.
\<close>

theorem admitted_events_bound_and_attested:
  assumes "admit_events e g vs tenant s = (s', q, Inr ws)"
  shows "length ws = length vs \<and> (\<forall>w\<in>set ws. bound_to tenant w \<and> (stamped_attested w \<longrightarrow> genuinely_attested e g s tenant w))"
proof -
  obtain bound where b: "bind_events_to_tenant vs tenant = Inr bound" "verify_eval_attestations e g tenant bound s = (s', q, Inr ws)"
    using assms by (auto simp: admit_events_def split: sum.splits)
  have "\<forall>v\<in>set bound. bound_to tenant v"
    using b(1) emap_mem(1) [of "bind_event tenant" vs bound] bind_event_bound unfolding bind_events_to_tenant_def by metis
  moreover have "length bound = length vs" using emap_Inr_length b(1) unfolding bind_events_to_tenant_def by metis
  ultimately show ?thesis using verify_batch_ok [OF b(2)] by simp
qed

definition sample_scheme :: signature_scheme where
  "sample_scheme = \<lparr>sg_b64decode = Some, sg_load_pem = Some, sg_is_ed25519 = (\<lambda>_. True), sg_verify = (\<lambda>k sg st. sg = k @ st), sg_public_bytes = (\<lambda>k. k)\<rparr>"

definition sample_key :: attestation_key where
  "sample_key = \<lparr>ak_key_id = ''k1'', ak_tenant_id = ''acme'', ak_name = ''ci'', ak_algorithm = ''ed25519'', ak_public_key_pem = ''pem'',
     ak_status = ''active'', ak_created_by = None, ak_created_at = 0, ak_revoked_at = None, ak_last_used_at = None\<rparr>"

definition eval_event :: "json \<Rightarrow> telemetry" where
  "eval_event attestation = \<lparr>tm_type = ''eval.result'', tm_schema_version = ''1'', tm_trace_id = ''t'', tm_span_id = ''s'', tm_timestamp = ''now'',
     tm_service = ''svc'', tm_environment = ''prod'', tm_project = ''p'', tm_parent_span_id = None, tm_system = None, tm_name = Some ''e'',
     tm_status = ''success'', tm_duration_ms = None,
     tm_attributes = JObj [(''passed'', JBool True), (''attested'', JBool True), (''metadata'', JObj [(''tenant_id'', JStr ''acme'')]),
       (''attestation'', attestation)]\<rparr>"

definition signed_event :: telemetry where
  "signed_event = eval_event (JObj [(''key_id'', JStr ''k1''),
     (''signature'', JStr (case build_eval_statement (sample_env 0) (eval_event JNull) of Inr st \<Rightarrow> ''pem'' @ st | Inl _ \<Rightarrow> []))])"

lemma signed_event_admitted:
  "case admit_events (sample_env 0) sample_scheme [signed_event, eval_event JNull] ''acme'' (empty_db\<lparr>attestation_keys := [sample_key]\<rparr>) of
     (s', q, Inr ws) \<Rightarrow> map (\<lambda>w. case tm_attributes w of JObj a \<Rightarrow> dget a ''attested'' JNull | _ \<Rightarrow> JNull) ws = [JBool True, JBool False] \<and> q = []
   | _ \<Rightarrow> False"
  by code_simp

text \<open>A signed result and one that only claims to be attested: the first keeps the stamp, the second loses it.\<close>

theorem admitted_events_bound_and_attested_witness:
  "case admit_events (sample_env 0) sample_scheme [signed_event, eval_event JNull] ''acme'' (empty_db\<lparr>attestation_keys := [sample_key]\<rparr>) of
     (s', q, Inr ws) \<Rightarrow> map stamped_attested ws = [True, False] \<and>
       genuinely_attested (sample_env 0) sample_scheme (empty_db\<lparr>attestation_keys := [sample_key]\<rparr>) ''acme'' (hd ws) \<and> bound_to ''acme'' (hd ws)
   | _ \<Rightarrow> False"
proof -
  let ?s = "empty_db\<lparr>attestation_keys := [sample_key]\<rparr>" and ?vs = "[signed_event, eval_event JNull]"
  obtain s' q ws where r: "admit_events (sample_env 0) sample_scheme ?vs ''acme'' ?s = (s', q, Inr ws)"
    and m: "map (\<lambda>w. case tm_attributes w of JObj a \<Rightarrow> dget a ''attested'' JNull | _ \<Rightarrow> JNull) ws = [JBool True, JBool False]"
    using signed_event_admitted by (auto split: prod.splits sum.splits)
  obtain w x where ws: "ws = [w, x]" using m by (auto simp: map_eq_Cons_conv)
  have st: "stamped_attested w \<and> \<not> stamped_attested x" using m by (auto simp: ws stamped_attested_def split: json.splits)
  show ?thesis using admitted_events_bound_and_attested [OF r] st r by (simp add: ws)
qed

section \<open>What a signature covers\<close>

lemma canonical_lookup:
  assumes "distinct (map fst d)"
  shows "map_of (map (\<lambda>(k, v). (k, canonical v)) (sort_key fst d)) k = map_option canonical (map_of d k)"
proof -
  have "distinct (map fst (sort_key fst d))" using assms by (metis distinct_map distinct_sort set_sort)
  then have "map_of (sort_key fst d) = map_of d" using assms map_of_inject_set by (metis set_sort)
  then show ?thesis by (simp add: map_of_map)
qed

lemma canonical_fields:
  assumes "canonical (JObj a) = canonical (JObj b)" "distinct (map fst a)" "distinct (map fst b)"
  shows "canonical (dget a k JNull) = canonical (dget b k JNull)"
proof -
  have "map_option canonical (map_of a k) = map_option canonical (map_of b k)"
    using assms(1) canonical_lookup [OF assms(2), of k] canonical_lookup [OF assms(3), of k] by simp
  then show ?thesis by (cases "map_of a k"; cases "map_of b k") (simp_all add: dget_def)
qed

lemma eval_statement_fields:
  assumes "eval_statement v = Inr st"
  obtains a where "st = JObj a" "distinct (map fst a)" "dget a ''trace_id'' JNull = JStr (tm_trace_id v)"
    "dget a ''span_id'' JNull = JStr (tm_span_id v)" "dget a ''timestamp'' JNull = JStr (tm_timestamp v)"
    "\<And>attrs meta. tm_attributes v = JObj attrs \<Longrightarrow> dget attrs ''metadata'' JNull = JObj meta \<Longrightarrow> meta \<noteq> [] \<Longrightarrow>
       dget a ''tenant_id'' JNull = dget meta ''tenant_id'' JNull"
proof -
  obtain m tn ap wf ei en pa sc pr ar where
    m: "jget (py_or (tm_attributes v) (JObj [])) ''metadata'' JNull = Inr m" and tn: "jget (py_or m (JObj [])) ''tenant_id'' JNull = Inr tn" and
    st: "st = JObj [(''type'', JStr STATEMENT_TYPE), (''tenant_id'', tn), (''application_name'', ap), (''workflow_name'', wf),
        (''eval_id'', py_or ei (py_or en (case tm_name v of None \<Rightarrow> JNull | Some n \<Rightarrow> JStr n))), (''passed'', JBool (truthy pa)),
        (''score'', sc), (''prompt_version'', pr), (''artifact_ref'', ar), (''trace_id'', JStr (tm_trace_id v)),
        (''span_id'', JStr (tm_span_id v)), (''timestamp'', JStr (tm_timestamp v))]"
    using assms unfolding eval_statement_def Let_def ebind_eq_Inr by blast
  have "tn = dget meta ''tenant_id'' JNull"
    if "tm_attributes v = JObj attrs" "dget attrs ''metadata'' JNull = JObj meta" "meta \<noteq> []" for attrs meta
  proof -
    have "attrs \<noteq> []" using that(2) by auto
    then have "m = JObj meta" using m that by (simp add: py_or_def)
    then show ?thesis using tn that(3) by (simp add: py_or_def)
  qed
  then show ?thesis using that st by simp
qed

text \<open>
  C31: a signature is good for one result of one run only. When the statements of two events are the same
  bytes, the events have the same trace, span and time, belong to the same
  organization, and agree (up to the order of object keys) on every signed field: application,
  workflow, evaluation, verdict, score, prompt version and artifact.
\<close>

theorem signed_statement_identifies_result:
  assumes fr: "float_repr_ok (env_float_repr e)"
    and v: "build_eval_statement e v = Inr st" and w: "build_eval_statement e w = Inr st"
    and t: "bound_to t v" "bound_to u w"
  shows "t = u \<and> tm_trace_id v = tm_trace_id w \<and> tm_span_id v = tm_span_id w \<and> tm_timestamp v = tm_timestamp w \<and>
    (case (eval_statement v, eval_statement w) of
       (Inr (JObj a), Inr (JObj b)) \<Rightarrow> \<forall>k. canonical (dget a k JNull) = canonical (dget b k JNull) | _ \<Rightarrow> False)"
proof -
  obtain x where x: "eval_statement v = Inr x" "st = encode_compact (env_float_repr e) x" using v by (auto simp: build_eval_statement_def ebind_eq_Inr)
  obtain y where y: "eval_statement w = Inr y" "st = encode_compact (env_float_repr e) y" using w by (auto simp: build_eval_statement_def ebind_eq_Inr)
  have eq: "canonical x = canonical y"
    using encode_compact_unique [OF fr, of x "[]" y "[]"] x(2) y(2) by (simp add: ends_def)
  obtain a where a: "x = JObj a" "distinct (map fst a)" "dget a ''trace_id'' JNull = JStr (tm_trace_id v)"
    "dget a ''span_id'' JNull = JStr (tm_span_id v)" "dget a ''timestamp'' JNull = JStr (tm_timestamp v)" and
    ta: "\<And>attrs meta. tm_attributes v = JObj attrs \<Longrightarrow> dget attrs ''metadata'' JNull = JObj meta \<Longrightarrow> meta \<noteq> [] \<Longrightarrow>
       dget a ''tenant_id'' JNull = dget meta ''tenant_id'' JNull" by (rule eval_statement_fields [OF x(1)]) (rule that)
  obtain b where b: "y = JObj b" "distinct (map fst b)" "dget b ''trace_id'' JNull = JStr (tm_trace_id w)"
    "dget b ''span_id'' JNull = JStr (tm_span_id w)" "dget b ''timestamp'' JNull = JStr (tm_timestamp w)" and
    tb: "\<And>attrs meta. tm_attributes w = JObj attrs \<Longrightarrow> dget attrs ''metadata'' JNull = JObj meta \<Longrightarrow> meta \<noteq> [] \<Longrightarrow>
       dget b ''tenant_id'' JNull = dget meta ''tenant_id'' JNull" by (rule eval_statement_fields [OF y(1)]) (rule that)
  have f: "canonical (dget a k JNull) = canonical (dget b k JNull)" for k
    by (rule canonical_fields) (use eq a(1,2) b(1,2) in simp_all)
  have "dget a ''tenant_id'' JNull = JStr t" using t(1) ta unfolding bound_to_def by fastforce
  moreover have "dget b ''tenant_id'' JNull = JStr u" using t(2) tb unfolding bound_to_def by fastforce
  ultimately show ?thesis
    using f [of "''tenant_id''"] f [of "''trace_id''"] f [of "''span_id''"] f [of "''timestamp''"] f a(3-5) b(3-5) x(1) y(1) a(1) b(1) by simp
qed

definition ratio_text :: "rat \<Rightarrow> string" where
  "ratio_text r = str_int (fst (quotient_of r)) @ ''.'' @ str_int (snd (quotient_of r))"

lemma dot_not_in_str_int: "CHR ''.'' \<notin> set (str_int i)"
  using set_str_nat [of "CHR ''.''"] unfolding str_int_def by (auto split: if_splits)

lemma ratio_text_ok: "float_repr_ok ratio_text"
proof -
  have "r = q" if "ratio_text r = ratio_text q" for r q
  proof -
    have "str_int (fst (quotient_of r)) = str_int (fst (quotient_of q)) \<and> str_int (snd (quotient_of r)) = str_int (snd (quotient_of q))"
      using split_first_inj [OF dot_not_in_str_int dot_not_in_str_int, of "fst (quotient_of r)" _ "fst (quotient_of q)"] that by (simp add: ratio_text_def)
    then have "quotient_of r = quotient_of q" using str_int_inj by (metis prod.collapse)
    then show ?thesis by (simp add: quotient_of_inject)
  qed
  moreover have "token (ratio_text r) \<and> (hd (ratio_text r) = CHR ''-'' \<or> is_digit (hd (ratio_text r)))" for r
    using str_int_token [of "fst (quotient_of r)"] str_int_token [of "snd (quotient_of r)"] by (auto simp: ratio_text_def token_def)
  moreover have "ratio_text r \<noteq> str_int i" for r i
  proof
    have "CHR ''.'' \<in> set (ratio_text r)" by (simp add: ratio_text_def)
    also assume "ratio_text r = str_int i"
    finally show False by (rule dot_not_in_str_int [THEN notE])
  qed
  ultimately show ?thesis by (auto simp: float_repr_ok_def inj_def)
qed

definition signing_env :: env where
  "signing_env = (sample_env 0)\<lparr>env_float_repr := ratio_text\<rparr>"

definition scored_event :: telemetry where
  "scored_event = (eval_event JNull)\<lparr>tm_attributes := JObj [(''passed'', JBool True), (''score'', JFloat (1 / 2)),
     (''metadata'', JObj [(''tenant_id'', JStr ''acme'')])]\<rparr>"

theorem signed_statement_identifies_result_witness:
  "case eval_statement scored_event of Inr (JObj a) \<Rightarrow> dget a ''score'' JNull = JFloat (1 / 2) \<and> canonical (dget a ''score'' JNull) = JFloat (1 / 2)
   | _ \<Rightarrow> False"
proof -
  obtain st where v: "build_eval_statement signing_env scored_event = Inr st"
    by (simp add: build_eval_statement_def eval_statement_def scored_event_def py_or_def Let_def eval_event_def)
  have b: "bound_to ''acme'' scored_event" by (simp add: bound_to_def scored_event_def eval_event_def)
  have "float_repr_ok (env_float_repr signing_env)" by (simp add: signing_env_def ratio_text_ok)
  from signed_statement_identifies_result [OF this v v b b]
  show ?thesis by (simp add: eval_statement_def scored_event_def eval_event_def py_or_def Let_def)
qed

end
