(* ===== verification/Coverage.thy ===== *)
theory Coverage
  imports Policy_Versions Timestamps
begin

text \<open>
  Control coverage (storage/governance_policy.py): the share of recent traces that carried
  evidence for a control, as the Python code computes it, in IEEE doubles.
\<close>

section \<open>Doubles\<close>

text \<open>
  A double is the rational it denotes. \<open>to_double x\<close> is the double nearest to \<open>x\<close>, ties to the
  even significand, for \<open>0 \<le> x < 2\<^sup>5\<^sup>3\<close>: the significand gets 53 bits by doubling \<open>x\<close> until it
  reaches \<open>2\<^sup>5\<^sup>2\<close>. A ratio of counts below \<open>2\<^sup>6\<^sup>3\<close> needs fewer than 120 doublings; the fuel is the
  exponent range of the format.
\<close>

definition round_half_even :: "rat \<Rightarrow> int" where
  "round_half_even x =
     (let f = \<lfloor>x\<rfloor>; d = x - of_int f in
      if d < 1 / 2 then f else if 1 / 2 < d then f + 1 else if even f then f else f + 1)"

fun doublings :: "nat \<Rightarrow> rat \<Rightarrow> nat" where
  "doublings 0 x = 0"
| "doublings (Suc n) x = (if 2 ^ 52 \<le> x then 0 else Suc (doublings n (2 * x)))"

definition to_double :: "rat \<Rightarrow> rat" where
  "to_double x = (if x = 0 then 0 else let k = doublings 1074 x in of_int (round_half_even (x * 2 ^ k)) / 2 ^ k)"

text \<open>\<open>round(x, 1)\<close>: the exact value rounded to one decimal, then the double nearest to that.\<close>

definition py_round1 :: "rat \<Rightarrow> rat" where
  "py_round1 x = to_double (of_int (round_half_even (10 * x)) / 10)"

definition coverage_pct :: "nat \<Rightarrow> nat \<Rightarrow> rat option" where
  "coverage_pct covered basis =
     (if basis = 0 then None else Some (py_round1 (to_double (100 * of_nat covered / of_nat basis))))"

text \<open>\<open>f"{x:g}"\<close> for \<open>x \<ge> 0\<close>: six significant digits, trailing zeros dropped.\<close>

fun tens :: "nat \<Rightarrow> rat \<Rightarrow> int \<times> rat" where
  "tens 0 x = (0, x)"
| "tens (Suc n) x = (if x < 1 then let (k, y) = tens n (10 * x) in (k - 1, y)
                     else if 10 \<le> x then let (k, y) = tens n (x / 10) in (k + 1, y) else (0, x))"

definition strip_zeros :: "string \<Rightarrow> string" where
  "strip_zeros s = rstrip_by (\<lambda>c. c = CHR ''0'') s"

definition with_fraction :: "string \<Rightarrow> string \<Rightarrow> string" where
  "with_fraction whole rest = (if rest = [] then whole else whole @ ''.'' @ rest)"

definition two_digits :: "int \<Rightarrow> string" where
  "two_digits n = (if n < 10 then ''0'' @ str_int n else str_int n)"

definition format_g :: "rat \<Rightarrow> string" where
  "format_g x =
     (if x = 0 then ''0'' else
      let (k0, y) = tens 400 x; n = round_half_even (y * 100000);
          (k, ds) = (if n = 1000000 then (k0 + 1, ''100000'') else (k0, str_int n))
      in if k < - 4 \<or> 6 \<le> k
         then with_fraction (take 1 ds) (strip_zeros (drop 1 ds)) @ ''e'' @ (if k < 0 then ''-'' else ''+'') @ two_digits \<bar>k\<bar>
         else if 0 \<le> k then with_fraction (take (nat k + 1) ds) (strip_zeros (drop (nat k + 1) ds))
         else with_fraction ''0'' (strip_zeros (replicate (nat (- k) - 1) CHR ''0'' @ ds)))"

section \<open>The control library\<close>

definition library_row :: "db \<Rightarrow> string \<Rightarrow> string \<Rightarrow> control_row option" where
  "library_row s tid cid =
     (case find (\<lambda>c. cl_control_id c = cid \<and> cl_tenant_id c = tid \<and> tid \<noteq> []) (control_library s) of
        Some c \<Rightarrow> Some c
      | None \<Rightarrow> find (\<lambda>c. cl_control_id c = cid \<and> cl_tenant_id c = []) (control_library s))"

definition list_control_library :: "db \<Rightarrow> string option \<Rightarrow> control_row list" where
  "list_control_library s tenant =
     (let tid = or_str tenant [] in
      concat (map (\<lambda>cid. case library_row s tid cid of None \<Rightarrow> [] | Some c \<Rightarrow> [c])
        (sorted_set (map cl_control_id (filter (\<lambda>c. cl_tenant_id c \<in> {[], tid}) (control_library s))))))"

section \<open>Coverage\<close>

record app_context =
  ax_tenant_id :: "string option"
  ax_project :: string
  ax_environment :: string
  ax_application_name :: string

definition same_tenant :: "string option \<Rightarrow> string option \<Rightarrow> bool" where
  "same_tenant wanted stored \<longleftrightarrow> wanted = stored"

definition day_text :: "int \<Rightarrow> string" where
  "day_text t = db_text t"

definition sql_replace_T :: "string \<Rightarrow> string" where
  "sql_replace_T = map (\<lambda>c. if c = CHR ''T'' then CHR '' '' else c)"

definition basis_types :: "control_row \<Rightarrow> string list" where
  "basis_types c = (if nonempty (cl_coverage_basis c) then [or_str (cl_coverage_basis c) []] else cl_evidence_event_types c)"

definition basis_traces :: "db \<Rightarrow> app_context \<Rightarrow> control_row \<Rightarrow> string \<Rightarrow> string list" where
  "basis_traces s ax c cutoff =
     remdups (map sk_trace_id (filter (\<lambda>v. sk_project v = ax_project ax \<and> sk_environment v = ax_environment ax \<and>
        sk_application_name v = Some (ax_application_name ax) \<and> same_tenant (ax_tenant_id ax) (sk_tenant_id v) \<and>
        sk_event_type v \<in> set (basis_types c) \<and> cutoff \<le> sql_replace_T (sk_timestamp v)) (sdk_events s)))"

definition evidence_rows :: "db \<Rightarrow> app_context \<Rightarrow> control_row \<Rightarrow> evidence_trace list" where
  "evidence_rows s ax c =
     filter (\<lambda>r. ct_tenant_id r = or_str (ax_tenant_id ax) [] \<and> ct_project r = ax_project ax \<and> ct_environment r = ax_environment ax \<and>
        ct_application_name r = ax_application_name ax \<and> ct_control_id r = cl_control_id c) (control_evidence_traces s)"

record coverage =
  cv_basis_event_types :: "string list"
  cv_window_days :: int
  cv_basis_traces :: nat
  cv_covered_traces :: nat
  cv_coverage_pct :: "rat option"
  cv_last_evidence_at :: "string option"
  cv_stale_after_days :: int
  cv_stale :: bool

definition latest_evidence :: "evidence_trace list \<Rightarrow> string option" where
  "latest_evidence rs = (if rs = [] then None else Some (foldl max [] (map ct_last_seen rs)))"

definition control_coverage :: "env \<Rightarrow> db \<Rightarrow> app_context \<Rightarrow> control_row \<Rightarrow> int \<Rightarrow> int \<Rightarrow> coverage" where
  "control_coverage e s ax c window_days stale_after_days =
     (let basis = basis_traces s ax c (day_text (add_days (env_now e) (- window_days)));
          rows = evidence_rows s ax c;
          covered = filter (\<lambda>t. t \<in> set (map ct_trace_id rows)) basis;
          latest = latest_evidence rows
      in \<lparr>cv_basis_event_types = basis_types c, cv_window_days = window_days, cv_basis_traces = length basis,
          cv_covered_traces = length covered, cv_coverage_pct = coverage_pct (length covered) (length basis),
          cv_last_evidence_at = latest, cv_stale_after_days = stale_after_days,
          cv_stale = (case latest of None \<Rightarrow> True | Some t \<Rightarrow> t < day_text (add_days (env_now e) (- stale_after_days)))\<rparr>)"

definition undercovered :: "env \<Rightarrow> db \<Rightarrow> app_context \<Rightarrow> evidence_settings \<Rightarrow> rat \<Rightarrow> string \<Rightarrow> bool" where
  "undercovered e s ax st minimum cid =
     (case by_key cl_control_id cid (list_control_library s (ax_tenant_id ax)) of
        None \<Rightarrow> False
      | Some c \<Rightarrow> cl_evidence_event_types c \<noteq> [] \<and>
          (case cv_coverage_pct (control_coverage e s ax c (es_coverage_window_days st) (es_stale_after_days st)) of
             None \<Rightarrow> False | Some p \<Rightarrow> p < minimum))"

definition count_undercovered_controls :: "env \<Rightarrow> db \<Rightarrow> app_context \<Rightarrow> rat \<Rightarrow> int res" where
  "count_undercovered_controls e s ax minimum =
     (let tid = or_str (ax_tenant_id ax) [] in
      ebind (resolve_evidence_policy e (governance_policies s) (if tid = [] then None else Some tid)) (\<lambda>(st, _, _).
      Inr (int (length (filter (\<lambda>r. ca_project r = ax_project ax \<and> ca_environment r = ax_environment ax \<and>
             ca_application_name r = ax_application_name ax \<and> same_tenant (ax_tenant_id ax) (ca_tenant_id r) \<and>
             ca_status r = ''passing'' \<and> undercovered e s ax st minimum (ca_control_id r)) (control_assessments s))))))"

section \<open>Rounding\<close>

text \<open>2499 of 2500 traces covered are reported, and compared with the policy's minimum, as 100 percent.\<close>

lemma doublings_step: "0 < n \<Longrightarrow> doublings n x = (if 2 ^ 52 \<le> x then 0 else Suc (doublings (n - 1) (2 * x)))"
  by (cases n) simp_all

lemma round_half_even_near:
  assumes "\<bar>x - of_int n\<bar> < 1 / 2"
  shows "round_half_even x = n"
proof (cases "of_int n \<le> x")
  case True
  then have f: "\<lfloor>x\<rfloor> = n" using assms by (intro floor_unique) linarith+
  show ?thesis unfolding round_half_even_def Let_def f using assms True by auto
next
  case False
  then have f: "\<lfloor>x\<rfloor> = n - 1" using assms by (intro floor_unique) (auto simp: abs_if split: if_splits)
  show ?thesis unfolding round_half_even_def Let_def f using assms False by (simp add: abs_if split: if_splits)
qed

lemma coverage_rounds_up: "coverage_pct 2499 2500 = Some 100"
proof -
  have 1: "doublings 1074 (2499 / 25) = 46" by (simp add: doublings_step)
  have 2: "doublings 1074 100 = 46" by (simp add: doublings_step)
  have a: "round_half_even (2499 / 25 * 2 ^ 46) = 7034059667999293" by (rule round_half_even_near) simp
  have b: "round_half_even (10 * (7034059667999293 / 2 ^ 46)) = 1000" by (rule round_half_even_near) simp
  have c: "round_half_even (100 * 2 ^ 46) = 100 * 2 ^ 46" by (rule round_half_even_near) simp
  have d: "to_double (2499 / 25) = 7034059667999293 / 2 ^ 46" unfolding to_double_def Let_def 1 a by simp
  have h: "to_double 100 = 100" unfolding to_double_def Let_def 2 c by simp
  have "py_round1 (to_double (2499 / 25)) = 100" unfolding py_round1_def d b using h by simp
  then show ?thesis unfolding coverage_pct_def by simp
qed

end
