(* ===== verification/Deployments.thy ===== *)
theory Deployments
  imports Coverage Attestation Decisions
begin

text \<open>
  Release gates (storage/deployments.py) and the routes that decide them (api/routes.py): a gate per
  deployed version, its blockers recomputed from the findings, controls, changes, prompt versions
  and evaluations of the release, and the human decision on it.
\<close>

section \<open>Deployment events\<close>

definition dp_key :: "deployment \<Rightarrow> string \<times> string \<times> string \<times> string" where
  "dp_key d = (dp_tenant_id d, dp_project d, dp_environment d, dp_deployment_id d)"

definition merge_deployment :: "deployment \<Rightarrow> deployment \<Rightarrow> deployment" where
  "merge_deployment n d = d\<lparr>dp_current_version := dp_current_version n, dp_current_status := dp_current_status n, dp_provider := dp_provider n,
     dp_model := dp_model n, dp_artifact_ref := dp_artifact_ref n, dp_last_seen := dp_last_seen n\<rparr>"

definition merge_version :: "deployment_version \<Rightarrow> deployment_version \<Rightarrow> deployment_version" where
  "merge_version n v = v\<lparr>dv_status := dv_status n, dv_provider := dv_provider n, dv_model := dv_model n, dv_artifact_ref := dv_artifact_ref n,
     dv_prompt_version := dv_prompt_version n, dv_deployed_by := dv_deployed_by n, dv_trace_id := dv_trace_id n, dv_observed_at := dv_observed_at n\<rparr>"

definition deployment_version_id :: "env \<Rightarrow> json \<Rightarrow> string \<Rightarrow> string \<Rightarrow> json \<Rightarrow> json \<Rightarrow> string" where
  "deployment_version_id e tenant project environment deployment version =
     entity_id e [Some ''deployment-version'', id_part (env_float_repr e) tenant, Some project, Some environment,
       id_part (env_float_repr e) deployment, id_part (env_float_repr e) version]"

text \<open>The two rows one event writes, the database's text of a float being \<open>rt\<close>.\<close>

definition upsert_deployment_event :: "env \<Rightarrow> (rat \<Rightarrow> string) \<Rightarrow> telemetry \<Rightarrow> db \<Rightarrow> db res" where
  "upsert_deployment_event e rt v s =
     (let attrs0 = py_or (tm_attributes v) (JObj []) in
      ebind (jget attrs0 ''metadata'' JNull) (\<lambda>m.
      let attrs = as_object attrs0; metadata = as_object m in
      ebind (dict_at attrs ''deployment_id'') (\<lambda>deployment_id.
      ebind (dict_at attrs ''version'') (\<lambda>version.
      let application_name = dget metadata ''application_name'' JNull; workflow_name = dget metadata ''workflow_name'' JNull in
      if \<not> truthy application_name \<or> \<not> truthy workflow_name then Inr s
      else let tenant = py_or (dget metadata ''tenant_id'' JNull) (JStr []);
               version_id = deployment_version_id e tenant (tm_project v) (tm_environment v) deployment_id version in
        ebind (dict_at attrs ''artifact_ref'') (\<lambda>artifact_ref.
        ebind (sql_required rt (py_or (dget attrs ''deployment_status'' JNull) (JStr (tm_status v)))) (\<lambda>status.
        ebind (sql_required rt deployment_id) (\<lambda>dep. ebind (sql_required rt version) (\<lambda>ver.
        ebind (sql_required rt tenant) (\<lambda>tid. ebind (sql_required rt application_name) (\<lambda>app. ebind (sql_required rt workflow_name) (\<lambda>workflow.
        ebind (sql_text rt (dget attrs ''provider'' JNull)) (\<lambda>provider. ebind (sql_text rt (dget attrs ''model'' JNull)) (\<lambda>model.
        ebind (sql_required rt artifact_ref) (\<lambda>artifact. ebind (sql_text rt (dget attrs ''prompt_version'' JNull)) (\<lambda>prompt.
        ebind (sql_text rt (dget attrs ''deployed_by'' JNull)) (\<lambda>deployed_by.
        let d = \<lparr>dp_deployment_id = dep, dp_tenant_id = tid, dp_project = tm_project v, dp_environment = tm_environment v,
                 dp_application_name = app, dp_workflow_name = workflow, dp_current_version = ver, dp_current_status = status,
                 dp_provider = provider, dp_model = model, dp_artifact_ref = artifact, dp_first_seen = tm_timestamp v, dp_last_seen = tm_timestamp v\<rparr>;
            n = \<lparr>dv_version_id = version_id, dv_deployment_id = dep, dv_tenant_id = Some tid, dv_project = tm_project v,
                 dv_environment = tm_environment v, dv_application_name = app, dv_workflow_name = workflow, dv_version = ver, dv_status = status,
                 dv_provider = provider, dv_model = model, dv_artifact_ref = artifact, dv_prompt_version = prompt, dv_deployed_by = deployed_by,
                 dv_trace_id = tm_trace_id v, dv_observed_at = tm_timestamp v\<rparr>
        in Inr (s\<lparr>governance_deployments := upsert dp_key (merge_deployment d) d (governance_deployments s),
                  deployment_versions := upsert dv_version_id (merge_version n) n (deployment_versions s)\<rparr>)))))))))))))))))"

definition process_deployment_events :: "env \<Rightarrow> (rat \<Rightarrow> string) \<Rightarrow> telemetry list \<Rightarrow> db \<Rightarrow> db res" where
  "process_deployment_events e rt vs s =
     efold (upsert_deployment_event e rt) (filter (\<lambda>v. tm_type v = ''deployment.event'') vs) s"

section \<open>Evidence for a release\<close>

text \<open>What the queries of one gate are bound to.\<close>

record gate_scope =
  gs_tenant_id :: "string option"
  gs_project :: string
  gs_environment :: string
  gs_application_name :: string
  gs_workflow_name :: string
  gs_prompt_version :: "string option"
  gs_artifact_ref :: "string option"

definition gate_context :: "gate_scope \<Rightarrow> app_context" where
  "gate_context g = \<lparr>ax_tenant_id = gs_tenant_id g, ax_project = gs_project g, ax_environment = gs_environment g,
     ax_application_name = gs_application_name g\<rparr>"

definition in_scope :: "gate_scope \<Rightarrow> string option \<Rightarrow> string \<Rightarrow> string \<Rightarrow> string \<Rightarrow> bool" where
  "in_scope g tenant project environment application \<longleftrightarrow>
     project = gs_project g \<and> environment = gs_environment g \<and> application = gs_application_name g \<and> same_tenant (gs_tenant_id g) tenant"

definition open_risks :: "db \<Rightarrow> gate_scope \<Rightarrow> risk_finding list" where
  "open_risks s g = filter (\<lambda>r. in_scope g (rf_tenant_id r) (rf_project r) (rf_environment r) (rf_application_name r) \<and>
     rf_status r \<in> {''open'', ''mitigation_required''}) (risk_findings s)"

definition missing_controls :: "db \<Rightarrow> gate_scope \<Rightarrow> control_assessment list" where
  "missing_controls s g = filter (\<lambda>r. in_scope g (ca_tenant_id r) (ca_project r) (ca_environment r) (ca_application_name r) \<and>
     ca_status r = ''missing'') (control_assessments s)"

definition open_changes :: "db \<Rightarrow> gate_scope \<Rightarrow> change_event list" where
  "open_changes s g = filter (\<lambda>r. in_scope g (ce_tenant_id r) (ce_project r) (ce_environment r) (ce_application_name r) \<and>
     ce_status r = ''open'') (change_events s)"

definition find_prompt_version :: "db \<Rightarrow> gate_scope \<Rightarrow> prompt_version option" where
  "find_prompt_version s g =
     (if \<not> nonempty (gs_prompt_version g) then None
      else find (\<lambda>_. True) (rev (sort_key pv_observed_at
             (filter (\<lambda>p. in_scope g (pv_tenant_id p) (pv_project p) (pv_environment p) (pv_application_name p) \<and>
                pv_workflow_name p = gs_workflow_name g \<and> Some (pv_version p) = gs_prompt_version g) (prompt_versions s)))))"

definition names_release :: "json \<Rightarrow> string option \<Rightarrow> bool" where
  "names_release v wanted \<longleftrightarrow> (case wanted of None \<Rightarrow> False | Some t \<Rightarrow> py_eq v (JStr t))"

definition bound_to_release :: "gate_scope \<Rightarrow> json \<Rightarrow> json \<Rightarrow> bool" where
  "bound_to_release g eval_artifact eval_prompt \<longleftrightarrow>
     (if eval_artifact \<noteq> JNull then names_release eval_artifact (gs_artifact_ref g)
      else eval_prompt \<noteq> JNull \<and> names_release eval_prompt (gs_prompt_version g))"

definition counts_as_passing :: "bool \<Rightarrow> gate_scope \<Rightarrow> observed_event \<Rightarrow> bool res" where
  "counts_as_passing attested_only g r =
     ebind (jget (oe_attributes r) ''passed'' JNull) (\<lambda>passed.
     ebind (jget (oe_attributes r) ''attested'' JNull) (\<lambda>attested.
     ebind (jget (oe_attributes r) ''artifact_ref'' JNull) (\<lambda>artifact.
     ebind (jget (oe_attributes r) ''prompt_version'' JNull) (\<lambda>prompt.
     Inr (passed = JBool True \<and> (attested_only \<longrightarrow> attested = JBool True) \<and> bound_to_release g artifact prompt)))))"

definition eval_rows :: "db \<Rightarrow> gate_scope \<Rightarrow> observed_event list" where
  "eval_rows s g = filter (\<lambda>r. oe_entity_type r = ''eval.result'' \<and> oe_project r = gs_project g \<and> oe_environment r = gs_environment g \<and>
     oe_application_name r = Some (gs_application_name g) \<and> oe_workflow_name r = Some (gs_workflow_name g) \<and> oe_status r = ''success'' \<and>
     same_tenant (gs_tenant_id g) (oe_tenant_id r)) (governance_observed_events s)"

definition count_passing_eval_evidence :: "db \<Rightarrow> gate_scope \<Rightarrow> bool \<Rightarrow> int res" where
  "count_passing_eval_evidence s g attested_only =
     ebind (emap (counts_as_passing attested_only g) (eval_rows s g)) (\<lambda>bs. Inr (int (length (filter (\<lambda>b. b) bs))))"

record gate_evidence =
  gv_risk_count :: int
  gv_missing_control_count :: int
  gv_material_change_count :: int
  gv_prompt_version_id :: "string option"
  gv_prompt_evidence_status :: string
  gv_passing_eval_count :: int
  gv_require_attested_evals :: bool
  gv_max_open_material_changes :: int
  gv_min_control_coverage :: rat
  gv_undercovered_control_count :: int
  gv_policy_tenant :: string
  gv_policy_version :: int

definition gate_evidence_counts :: "env \<Rightarrow> gate_scope \<Rightarrow> db \<Rightarrow> gate_evidence res" where
  "gate_evidence_counts e g s =
     ebind (resolve_gate_policy e (governance_policies s) (gs_tenant_id g) (gs_environment g)) (\<lambda>req.
     let attested_only = (gt_require_attested_evals req \<or> tenant_requires_attestation s (gs_tenant_id g));
         prompt = find_prompt_version s g in
     ebind (count_passing_eval_evidence s g attested_only) (\<lambda>evals.
     ebind (if 0 < gt_min_control_coverage req then count_undercovered_controls e s (gate_context g) (gt_min_control_coverage req) else Inr 0) (\<lambda>under.
     Inr \<lparr>gv_risk_count = int (length (open_risks s g)), gv_missing_control_count = int (length (missing_controls s g)),
          gv_material_change_count = int (length (open_changes s g)), gv_prompt_version_id = map_option pv_id prompt,
          gv_prompt_evidence_status = (if prompt = None then ''missing'' else ''linked''), gv_passing_eval_count = evals,
          gv_require_attested_evals = attested_only, gv_max_open_material_changes = gt_max_open_material_changes req,
          gv_min_control_coverage = gt_min_control_coverage req, gv_undercovered_control_count = under,
          gv_policy_tenant = gt_policy_tenant req, gv_policy_version = gt_policy_version req\<rparr>)))"

definition gate_required_reason :: "gate_evidence \<Rightarrow> string" where
  "gate_required_reason v =
     (let parts =
        errs_if (gv_risk_count v \<noteq> 0) (str_int (gv_risk_count v) @ '' open risk findings'') @
        errs_if (gv_missing_control_count v \<noteq> 0) (str_int (gv_missing_control_count v) @ '' missing controls'') @
        errs_if (gv_undercovered_control_count v \<noteq> 0)
          (str_int (gv_undercovered_control_count v) @ '' controls below '' @ format_g (gv_min_control_coverage v) @ ''% coverage'') @
        errs_if (gv_material_change_count v > gv_max_open_material_changes v) (str_int (gv_material_change_count v) @ '' material changes'') @
        errs_if (gv_prompt_evidence_status v \<noteq> ''linked'') ''missing linked prompt version'' @
        errs_if (gv_passing_eval_count v = 0)
          (if gv_require_attested_evals v then ''missing attested passing eval evidence'' else ''missing passing eval evidence'')
      in if parts = [] then ''No blocking governance evidence detected'' else semi_join parts)"

section \<open>Gates\<close>

definition version_scope :: "deployment_version \<Rightarrow> gate_scope" where
  "version_scope v = \<lparr>gs_tenant_id = dv_tenant_id v, gs_project = dv_project v, gs_environment = dv_environment v,
     gs_application_name = dv_application_name v, gs_workflow_name = dv_workflow_name v, gs_prompt_version = dv_prompt_version v,
     gs_artifact_ref = Some (dv_artifact_ref v)\<rparr>"

definition gate_live_scope :: "db \<Rightarrow> gate_row \<Rightarrow> gate_scope" where
  "gate_live_scope s g =
     (let version = by_key dv_version_id (dg_version_id g) (deployment_versions s) in
      \<lparr>gs_tenant_id = dg_tenant_id g, gs_project = dg_project g, gs_environment = dg_environment g,
       gs_application_name = dg_application_name g, gs_workflow_name = dg_workflow_name g,
       gs_prompt_version = (case version of None \<Rightarrow> None | Some v \<Rightarrow> dv_prompt_version v),
       gs_artifact_ref = map_option dv_artifact_ref version\<rparr>)"

definition live_gate_evidence :: "env \<Rightarrow> gate_row \<Rightarrow> db \<Rightarrow> gate_evidence res" where
  "live_gate_evidence e g s = gate_evidence_counts e (gate_live_scope s g) s"

definition gate_id_of :: "env \<Rightarrow> string \<Rightarrow> string" where
  "gate_id_of e version_id = entity_id e [Some ''deployment-gate'', Some version_id]"

text \<open>The evidence columns of a gate.\<close>

definition with_evidence :: "gate_evidence \<Rightarrow> gate_row \<Rightarrow> gate_row" where
  "with_evidence v g = g\<lparr>dg_required_reason := gate_required_reason v, dg_risk_count := gv_risk_count v,
     dg_missing_control_count := gv_missing_control_count v, dg_material_change_count := gv_material_change_count v,
     dg_prompt_version_id := gv_prompt_version_id v, dg_prompt_evidence_status := gv_prompt_evidence_status v,
     dg_passing_eval_count := gv_passing_eval_count v, dg_policy_tenant := Some (gv_policy_tenant v),
     dg_policy_version := Some (gv_policy_version v), dg_undercovered_control_count := gv_undercovered_control_count v\<rparr>"

definition new_gate :: "env \<Rightarrow> deployment_version \<Rightarrow> gate_evidence \<Rightarrow> gate_row" where
  "new_gate e v ev = with_evidence ev
     \<lparr>dg_id = gate_id_of e (dv_version_id v), dg_deployment_id = dv_deployment_id v, dg_version_id = dv_version_id v,
      dg_tenant_id = dv_tenant_id v, dg_project = dv_project v, dg_environment = dv_environment v,
      dg_application_name = dv_application_name v, dg_workflow_name = dv_workflow_name v, dg_status = ''pending_review'',
      dg_required_reason = [], dg_risk_count = 0, dg_missing_control_count = 0, dg_material_change_count = 0, dg_prompt_version_id = None,
      dg_prompt_evidence_status = ''missing'', dg_passing_eval_count = 0, dg_policy_tenant = None, dg_policy_version = None,
      dg_undercovered_control_count = 0, dg_actor_ref = None, dg_rationale = None, dg_submitted_at = db_now e, dg_decided_at = None,
      dg_updated_at = db_now e\<rparr>"

definition gate_decided :: "gate_row \<Rightarrow> bool" where
  "gate_decided g \<longleftrightarrow> dg_status g \<in> {''approved'', ''rejected''}"

definition upsert_deployment_gate :: "env \<Rightarrow> deployment_version \<Rightarrow> db \<Rightarrow> db res" where
  "upsert_deployment_gate e v s =
     ebind (gate_evidence_counts e (version_scope v) s) (\<lambda>ev.
     Inr (s\<lparr>deployment_approval_gates := upsert dg_id
       (\<lambda>g. (with_evidence ev g)\<lparr>dg_status := (if gate_decided g then dg_status g else ''pending_review''), dg_updated_at := db_now e\<rparr>)
       (new_gate e v ev) (deployment_approval_gates s)\<rparr>))"

definition version_app_scope :: "deployment_version \<Rightarrow> app_scope" where
  "version_app_scope v = \<lparr>as_tenant_id = dv_tenant_id v, as_project = dv_project v, as_environment = dv_environment v,
     as_application_name = dv_application_name v\<rparr>"

definition refresh_deployment_gates :: "env \<Rightarrow> app_scope list option \<Rightarrow> db \<Rightarrow> db res" where
  "refresh_deployment_gates e scopes s =
     efold (upsert_deployment_gate e)
       (filter (\<lambda>v. case scopes of None \<Rightarrow> True | Some ss \<Rightarrow> version_app_scope v \<in> set ss)
         (rev (sort_key dv_observed_at (deployment_versions s)))) s"

section \<open>Deciding a gate\<close>

definition gate_blocker :: "gate_evidence \<Rightarrow> err option" where
  "gate_blocker v =
     (if gv_prompt_evidence_status v \<noteq> ''linked'' \<or> gv_passing_eval_count v = 0 then
        Some (DomainErr (if gv_require_attested_evals v
          then ''deployment gate requires a linked prompt version and attested passing eval evidence '' @
               ''bound to this version (the governance policy requires attestation for this environment)''
          else ''deployment gate requires a linked prompt version and passing eval evidence bound to this version''))
      else if 0 < gv_risk_count v then
        Some (DomainErr ''deployment gate cannot be approved while risk findings are open; mitigate or accept them first'')
      else if 0 < gv_missing_control_count v then
        Some (DomainErr ''deployment gate cannot be approved while controls are missing evidence'')
      else if 0 < gv_undercovered_control_count v then
        Some (DomainErr (''deployment gate cannot be approved while '' @ str_int (gv_undercovered_control_count v) @ '' controls '' @
          ''cover less than '' @ format_g (gv_min_control_coverage v) @ ''% of recent traffic '' @
          ''(the governance policy sets this minimum for this environment)''))
      else if gv_max_open_material_changes v < gv_material_change_count v then
        Some (DomainErr ''deployment gate cannot be approved while material changes are unreviewed; review or accept them first'')
      else None)"

definition decide_gate_row :: "env \<Rightarrow> string \<Rightarrow> string \<Rightarrow> string \<Rightarrow> gate_row \<Rightarrow> gate_row" where
  "decide_gate_row e status actor rationale g =
     g\<lparr>dg_status := status, dg_actor_ref := Some actor, dg_rationale := Some rationale, dg_decided_at := Some (db_now e), dg_updated_at := db_now e\<rparr>"

definition set_deployment_gate_status :: "env \<Rightarrow> string \<Rightarrow> string \<Rightarrow> string \<Rightarrow> string \<Rightarrow> db \<Rightarrow> (db \<times> gate_row) res" where
  "set_deployment_gate_status e gid status actor rationale s =
     (case by_key dg_id gid (deployment_approval_gates s) of
        None \<Rightarrow> Inl (NotFound ''deployment gate not found'')
      | Some gate \<Rightarrow>
          if gate_decided gate
          then Inl (DomainErr (''deployment gate has already been '' @ dg_status gate @ '' and cannot be decided again''))
          else ebind (if status = ''approved'' then
                        ebind (live_gate_evidence e gate s) (\<lambda>ev. case gate_blocker ev of Some x \<Rightarrow> Inl x | None \<Rightarrow> Inr (Some ev))
                      else Inr None) (\<lambda>ev.
               if py_strip rationale = [] then Inl (DomainErr ''a decision rationale is required'')
               else let s1 = s\<lparr>deployment_approval_gates := update_where (\<lambda>g. dg_id g = gid)
                          (\<lambda>g. decide_gate_row e status actor rationale (case ev of None \<Rightarrow> g | Some v \<Rightarrow> with_evidence v g))
                          (deployment_approval_gates s)\<rparr>
                    in (case by_key dg_id gid (deployment_approval_gates s1) of None \<Rightarrow> Inl TypeErr | Some g \<Rightarrow> Inr (s1, g))))"

definition load_deployment_gate :: "db \<Rightarrow> string \<Rightarrow> gate_row res" where
  "load_deployment_gate s gid = (case by_key dg_id gid (deployment_approval_gates s) of
     None \<Rightarrow> Inl (NotFound ''deployment gate not found'') | Some g \<Rightarrow> Inr g)"

section \<open>The pipeline's check\<close>

record eligibility =
  el_eligible :: bool
  el_blockers :: "string list"
  el_reason :: string
  el_policy_tenant :: string
  el_policy_version :: int
  el_checked_at :: string

definition evidence_blockers :: "gate_evidence \<Rightarrow> string list" where
  "evidence_blockers v =
     errs_if (gv_risk_count v \<noteq> 0) ''open_risks'' @ errs_if (gv_missing_control_count v \<noteq> 0) ''missing_controls'' @
     errs_if (gv_undercovered_control_count v \<noteq> 0) ''insufficient_coverage'' @
     errs_if (gv_max_open_material_changes v < gv_material_change_count v) ''open_material_changes'' @
     errs_if (gv_prompt_evidence_status v \<noteq> ''linked'') ''missing_prompt'' @
     errs_if (gv_passing_eval_count v = 0) (if gv_require_attested_evals v then ''missing_attested_eval'' else ''missing_eval'')"

definition pending_events :: "db \<Rightarrow> string \<Rightarrow> sdk_event list" where
  "pending_events s tenant = filter (\<lambda>v. sk_tenant_id v = Some tenant \<and> sk_folded_at v = None) (sdk_events s)"

definition current_eligibility :: "env \<Rightarrow> bool \<Rightarrow> gate_row \<Rightarrow> gate_evidence \<Rightarrow> eligibility" where
  "current_eligibility e pending g v =
     (let blockers = errs_if pending ''pending_evidence'' @ evidence_blockers v;
          approved = (dg_status g = ''approved'');
          reasons = errs_if (\<not> approved) ''Release is not approved'' @ errs_if pending ''Telemetry projection is pending'' @
                    errs_if (evidence_blockers v \<noteq> []) (gate_required_reason v)
      in \<lparr>el_eligible = (approved \<and> blockers = []), el_blockers = errs_if (\<not> approved) ''release_not_approved'' @ blockers,
          el_reason = (if reasons = [] then ''No blocking governance evidence detected'' else semi_join reasons),
          el_policy_tenant = gv_policy_tenant v, el_policy_version = gv_policy_version v, el_checked_at = isoformat (env_now e)\<rparr>)"

definition release_gates :: "db \<Rightarrow> string \<Rightarrow> string \<Rightarrow> string \<Rightarrow> string option \<Rightarrow> string option \<Rightarrow> (gate_row \<times> deployment_version) list" where
  "release_gates s tenant deployment version project environment =
     concat (map (\<lambda>g. case by_key dv_version_id (dg_version_id g) (deployment_versions s) of
          None \<Rightarrow> []
        | Some v \<Rightarrow> if dv_deployment_id v = deployment \<and> dv_version v = version \<and> dg_tenant_id g = Some tenant \<and>
                       (project \<noteq> None \<longrightarrow> project = Some (dg_project g)) \<and> (environment \<noteq> None \<longrightarrow> environment = Some (dg_environment g))
                    then [(g, v)] else []) (deployment_approval_gates s))"

definition find_gate_for_release ::
  "env \<Rightarrow> db \<Rightarrow> string \<Rightarrow> string \<Rightarrow> string \<Rightarrow> string option \<Rightarrow> string option \<Rightarrow> (gate_row \<times> deployment_version \<times> eligibility) option res" where
  "find_gate_for_release e s tenant deployment version project environment =
     (case release_gates s tenant deployment version project environment of
        [] \<Rightarrow> Inr None
      | (g, v) # rest \<Rightarrow>
          if rest \<noteq> [] then Inl (DomainErr ''ambiguous release gate; specify project and environment'')
          else ebind (live_gate_evidence e g s) (\<lambda>ev.
               Inr (Some (g, v, current_eligibility e (pending_events s tenant \<noteq> []) g ev))))"

section \<open>Routes\<close>

definition gate_notice :: "env \<Rightarrow> actor_context \<Rightarrow> gate_row \<Rightarrow> string \<Rightarrow> string \<Rightarrow> notice" where
  "gate_notice e a g verb rationale =
     \<lparr>no_tenant = dg_tenant_id g, no_event = ''gate.'' @ verb,
      no_subject = ''Release gate '' @ verb @ '': '' @ dg_application_name g @ '' / '' @ dg_workflow_name g,
      no_text = ac_user_ref a @ '' '' @ verb @ '' the release gate for '' @ dg_application_name g @ '' / '' @ dg_workflow_name g @ ''.'' @
        [CHR 0x0A, CHR 0x0A] @ ''Rationale: '' @ rationale,
      no_data = JObj [(''gate_id'', JStr (dg_id g)), (''application_name'', JStr (dg_application_name g)),
        (''workflow_name'', JStr (dg_workflow_name g)), (''decided_by'', JStr (ac_user_ref a))],
      no_to_users = [], no_to_roles = [''org_admin''], no_link = Some (public_base_url e @ ''/#gate/'' @ dg_id g)\<rparr>"

text \<open>What both routes do once the gate is loaded; \<open>verb\<close> is the new status.\<close>

definition decide_gate ::
  "env \<Rightarrow> actor_context \<Rightarrow> string \<Rightarrow> string \<Rightarrow> string \<Rightarrow> string \<Rightarrow> db \<Rightarrow> (db \<times> gate_row \<times> governance_decision \<times> audit_req) res" where
  "decide_gate e a gid verb decision rationale s =
     ebind (load_deployment_gate s gid) (\<lambda>gate.
     ebind (require_decision s a (auth_target (gate_target gate))) (\<lambda>_.
     ebind (enforce_segregation_of_duties s a (gate_target gate)) (\<lambda>_.
     ebind (set_deployment_gate_status e gid verb (ac_user_ref a) rationale s) (\<lambda>(s1, updated).
     ebind (record_decision e ''deployment_gate'' gid decision rationale (ac_user_ref a) None s1) (\<lambda>(s2, d).
     Inr (emitted e (gate_notice e a gate verb rationale) s2, updated, d,
       audit_entry (ac_user_ref a) (''gate.'' @ decision) (dg_tenant_id gate) ''deployment_gate'' gid None))))))"

definition approve_deployment_gate ::
  "env \<Rightarrow> actor_context \<Rightarrow> string \<Rightarrow> string \<Rightarrow> db \<Rightarrow> (db \<times> gate_row \<times> governance_decision \<times> audit_req) res" where
  "approve_deployment_gate e a gid rationale s =
     decide_gate e a gid ''approved'' ''approve'' rationale (fst (expire_due_exceptions e s))"

definition reject_deployment_gate ::
  "env \<Rightarrow> actor_context \<Rightarrow> string \<Rightarrow> string \<Rightarrow> db \<Rightarrow> (db \<times> gate_row \<times> governance_decision \<times> audit_req) res" where
  "reject_deployment_gate e a gid rationale s = decide_gate e a gid ''rejected'' ''reject'' rationale s"

record gate_answer =
  gw_gate :: gate_row
  gw_version :: deployment_version
  gw_approved :: bool
  gw_blocking :: "string option"
  gw_eligibility :: eligibility

definition gate_check ::
  "env \<Rightarrow> db \<Rightarrow> string \<Rightarrow> string \<Rightarrow> string \<Rightarrow> string option \<Rightarrow> string option \<Rightarrow> gate_answer res" where
  "gate_check e s tenant deployment version project environment =
     ebind (find_gate_for_release e s tenant deployment version project environment) (\<lambda>found.
     case found of
       None \<Rightarrow> Inl (NotFound ''no release gate for that deployment and version (has the deployment.event been ingested?)'')
     | Some (g, v, el) \<Rightarrow>
         Inr \<lparr>gw_gate = g, gw_version = v, gw_approved = (dg_status g = ''approved''),
              gw_blocking = (if dg_status g = ''approved'' then None else Some (dg_required_reason g)), gw_eligibility = el\<rparr>)"

end
