(* ===== verification/Gate_Properties.thy ===== *)
theory Gate_Properties
  imports Deployments Decision_Properties
begin

text \<open>
  Properties of release gates: what an approval requires of the evidence at that moment, that a
  decision on a gate is final whatever is reported, refreshed or decided afterwards, and that the
  pipeline's check agrees with the guard of the approval.
\<close>

section \<open>What leaves the gates alone\<close>

lemma notify_intake_decided_gates [simp]:
  "deployment_approval_gates (notify_intake_decided e i k st s) = deployment_approval_gates s"
  by (simp add: notify_intake_decided_def Let_def split: option.splits)

lemma apply_decision_status_gates [simp]:
  "deployment_approval_gates (apply_decision_status e ty k decision s) = deployment_approval_gates s"
  by (simp add: apply_decision_status_def decide_task_def decide_use_case_def Let_def split: option.splits)

lemma roll_up_subject_gates:
  "roll_up_subject e stage decision s = Inr s' \<Longrightarrow> deployment_approval_gates s' = deployment_approval_gates s"
  by (auto simp: roll_up_subject_def Let_def ebind_eq_Inr split: if_splits)

lemma notify_stage_opened_gates [simp]:
  "deployment_approval_gates (notify_stage_opened e r s) = deployment_approval_gates s"
  by (simp add: notify_stage_opened_def Let_def)

lemma apply_stage_decision_gates:
  "apply_stage_decision e stage decision d a s = Inr s' \<Longrightarrow> deployment_approval_gates s' = deployment_approval_gates s"
  by (auto simp: apply_stage_decision_def Let_def dest!: roll_up_subject_gates split: if_splits option.splits)

lemma sync_decision_gates:
  "sync_decision_to_stages e ty k decision a d s = Inr s' \<Longrightarrow> deployment_approval_gates s' = deployment_approval_gates s"
  by (erule sync_decision_cases) (auto dest: apply_stage_decision_gates)

lemma record_decision_gates:
  assumes "record_decision e ty k decision rationale actor tenant s = Inr (s', d)"
  shows "deployment_approval_gates s' = deployment_approval_gates s"
proof (cases "by_key gd_id (decision_id e ty k decision rationale actor) (governance_decisions s)")
  case None
  then show ?thesis using assms
    by (auto simp: record_decision_def Let_def ebind_eq_Inr dest!: sync_decision_gates split: option.splits)
qed (use assms in \<open>auto simp: record_decision_def Let_def ebind_eq_Inr\<close>)

lemma create_decision_gates:
  "create_decision e a q s = Inr (s', d, x, scopes) \<Longrightarrow> deployment_approval_gates s' = deployment_approval_gates s"
  by (auto simp: create_decision_def ebind_eq_Inr dest: record_decision_gates split: if_splits)

lemma create_exception_route_gates:
  "create_exception_route e a ty k reason control expiry s = Inr (s', x, q) \<Longrightarrow> deployment_approval_gates s' = deployment_approval_gates s"
  by (auto simp: create_exception_route_def create_exception_def ebind_eq_Inr Let_def split: if_splits option.splits)

lemma expire_exception_gates [simp]:
  "deployment_approval_gates (expire_exception e x s) = deployment_approval_gates s"
  by (simp add: expire_exception_def Let_def)

lemma expire_fold_gates [simp]:
  "deployment_approval_gates (fold (expire_exception e) xs s) = deployment_approval_gates s"
  by (induction xs arbitrary: s) simp_all

lemma expire_due_exceptions_gates [simp]:
  "deployment_approval_gates (fst (expire_due_exceptions e s)) = deployment_approval_gates s"
  by (simp add: expire_due_exceptions_def)

lemma upsert_deployment_event_gates:
  "upsert_deployment_event e rt v s = Inr s' \<Longrightarrow> deployment_approval_gates s' = deployment_approval_gates s"
  by (auto simp: upsert_deployment_event_def Let_def ebind_eq_Inr split: if_splits)

lemma process_deployment_events_gates:
  "process_deployment_events e rt vs s = Inr s' \<Longrightarrow> deployment_approval_gates s' = deployment_approval_gates s"
  unfolding process_deployment_events_def
  by (rule efold_frame [where P = "\<lambda>s s'. deployment_approval_gates s' = deployment_approval_gates s"]) (auto dest: upsert_deployment_event_gates)

section \<open>Decisions on gates\<close>

text \<open>
  \<open>gates_rel D\<close>: every gate is still there with the version it stands for and, once decided, with its
  verdict, actor, rationale and time of decision; and a gate is decided only because it was before or by
  one of the decisions \<open>D\<close>.
\<close>

definition verdict :: "gate_row \<Rightarrow> string \<times> string option \<times> string option \<times> int option" where
  "verdict g = (dg_status g, dg_actor_ref g, dg_rationale g, dg_decided_at g)"

definition gates_kept :: "gate_row list \<Rightarrow> gate_row list \<Rightarrow> bool" where
  "gates_kept t u \<longleftrightarrow> (\<forall>g\<in>set t. \<exists>h\<in>set u. dg_id h = dg_id g \<and> dg_version_id h = dg_version_id g \<and> dg_tenant_id h = dg_tenant_id g \<and>
     (gate_decided g \<longrightarrow> verdict h = verdict g))"

type_synonym gate_decision = "string \<times> string \<times> string \<times> string"

definition decided_by_some :: "gate_decision set \<Rightarrow> gate_row list \<Rightarrow> gate_row list \<Rightarrow> bool" where
  "decided_by_some D t u \<longleftrightarrow> (\<forall>h\<in>set u. gate_decided h \<longrightarrow> (\<exists>g\<in>set t. dg_id g = dg_id h \<and> gate_decided g \<and> verdict h = verdict g) \<or>
     (\<exists>(i, status, actor, rationale)\<in>D. dg_id h = i \<and> dg_status h = status \<and> dg_actor_ref h = Some actor \<and> dg_rationale h = Some rationale))"

definition gates_rel :: "gate_decision set \<Rightarrow> db \<Rightarrow> db \<Rightarrow> bool" where
  "gates_rel D s s' \<longleftrightarrow> gates_kept (deployment_approval_gates s) (deployment_approval_gates s') \<and>
     decided_by_some D (deployment_approval_gates s) (deployment_approval_gates s')"

lemma gates_rel_same: "deployment_approval_gates s' = deployment_approval_gates s \<Longrightarrow> gates_rel D s s'"
  unfolding gates_rel_def gates_kept_def decided_by_some_def by auto

lemma verdict_decided: "verdict g = verdict h \<Longrightarrow> gate_decided g \<longleftrightarrow> gate_decided h"
  by (simp add: verdict_def gate_decided_def)

lemma gates_rel_trans:
  assumes "gates_rel D s t" "gates_rel D' t u"
  shows "gates_rel (D \<union> D') s u"
proof -
  have "gates_kept (deployment_approval_gates s) (deployment_approval_gates u)"
    using assms unfolding gates_rel_def gates_kept_def by (metis verdict_decided)
  moreover have "decided_by_some (D \<union> D') (deployment_approval_gates s) (deployment_approval_gates u)"
    unfolding decided_by_some_def
  proof (intro ballI impI)
    fix h assume h: "h \<in> set (deployment_approval_gates u)" "gate_decided h"
    consider (old) g where "g \<in> set (deployment_approval_gates t)" "dg_id g = dg_id h" "gate_decided g" "verdict h = verdict g"
      | (new) x where "x \<in> D'" "case x of (i, status, actor, rationale) \<Rightarrow> dg_id h = i \<and> dg_status h = status \<and> dg_actor_ref h = Some actor \<and> dg_rationale h = Some rationale"
      using assms(2) h unfolding gates_rel_def decided_by_some_def by blast
    then show "(\<exists>g\<in>set (deployment_approval_gates s). dg_id g = dg_id h \<and> gate_decided g \<and> verdict h = verdict g) \<or>
        (\<exists>(i, status, actor, rationale)\<in>D \<union> D'. dg_id h = i \<and> dg_status h = status \<and> dg_actor_ref h = Some actor \<and> dg_rationale h = Some rationale)"
    proof cases
      case old
      consider (older) f where "f \<in> set (deployment_approval_gates s)" "dg_id f = dg_id g" "gate_decided f" "verdict g = verdict f"
        | (made) x where "x \<in> D" "case x of (i, status, actor, rationale) \<Rightarrow> dg_id g = i \<and> dg_status g = status \<and> dg_actor_ref g = Some actor \<and> dg_rationale g = Some rationale"
        using assms(1) old(1,3) unfolding gates_rel_def decided_by_some_def by blast
      then show ?thesis
      proof cases
        case older
        then show ?thesis using old by auto
      next
        case made
        then have "case x of (i, status, actor, rationale) \<Rightarrow> dg_id h = i \<and> dg_status h = status \<and> dg_actor_ref h = Some actor \<and> dg_rationale h = Some rationale"
          using old(2,4) by (cases x) (simp add: verdict_def)
        then show ?thesis using made(1) by blast
      qed
    next
      case new
      then show ?thesis by blast
    qed
  qed
  ultimately show ?thesis by (simp add: gates_rel_def)
qed

lemma with_evidence_cols [simp]:
  "dg_id (with_evidence v g) = dg_id g" "dg_version_id (with_evidence v g) = dg_version_id g" "dg_tenant_id (with_evidence v g) = dg_tenant_id g"
  "dg_status (with_evidence v g) = dg_status g" "verdict (with_evidence v g) = verdict g"
  by (simp_all add: with_evidence_def verdict_def)

lemma upsert_deployment_gate_rel:
  assumes "upsert_deployment_gate e v s = Inr s'"
  shows "gates_rel {} s s'"
proof -
  let ?t = "deployment_approval_gates s" and ?u = "deployment_approval_gates s'"
  obtain ev where u: "?u = upsert dg_id (\<lambda>g. (with_evidence ev g)\<lparr>dg_status := (if gate_decided g then dg_status g else ''pending_review''), dg_updated_at := db_now e\<rparr>)
       (new_gate e v ev) ?t"
    using assms by (auto simp: upsert_deployment_gate_def ebind_eq_Inr)
  let ?f = "\<lambda>g. (with_evidence ev g)\<lparr>dg_status := (if gate_decided g then dg_status g else ''pending_review''), dg_updated_at := db_now e\<rparr>"
  have f: "dg_id (?f g) = dg_id g" "dg_version_id (?f g) = dg_version_id g" "dg_tenant_id (?f g) = dg_tenant_id g"
    "gate_decided g \<Longrightarrow> verdict (?f g) = verdict g" "gate_decided (?f g) = gate_decided g" for g
    by (simp_all add: verdict_def gate_decided_def with_evidence_def)
  have "gates_kept ?t ?u"
    unfolding gates_kept_def
  proof
    fix g assume "g \<in> set ?t"
    then consider "g \<in> set ?u" | "?f g \<in> set ?u" using upsert_keeps [of g ?t dg_id ?f "new_gate e v ev"] unfolding u by blast
    then show "\<exists>h\<in>set ?u. dg_id h = dg_id g \<and> dg_version_id h = dg_version_id g \<and> dg_tenant_id h = dg_tenant_id g \<and> (gate_decided g \<longrightarrow> verdict h = verdict g)"
      by cases (use f in blast)+
  qed
  moreover have "decided_by_some {} ?t ?u"
    unfolding decided_by_some_def
  proof (intro ballI impI)
    fix h assume h: "h \<in> set ?u" "gate_decided h"
    from h(1) have "\<exists>g\<in>set ?t. dg_id g = dg_id h \<and> gate_decided g \<and> verdict h = verdict g"
      unfolding u
    proof (cases rule: upsertE)
      case new
      then show ?thesis using h(2) by (simp add: new_gate_def gate_decided_def with_evidence_def)
    next
      case (merged y)
      then show ?thesis using f h(2) by metis
    qed (use h(2) in blast)
    then show "(\<exists>g\<in>set ?t. dg_id g = dg_id h \<and> gate_decided g \<and> verdict h = verdict g) \<or>
      (\<exists>(i, status, actor, rationale)\<in>{}. dg_id h = i \<and> dg_status h = status \<and> dg_actor_ref h = Some actor \<and> dg_rationale h = Some rationale)" by blast
  qed
  ultimately show ?thesis by (simp add: gates_rel_def)
qed

lemma refresh_deployment_gates_rel: "refresh_deployment_gates e scopes s = Inr s' \<Longrightarrow> gates_rel {} s s'"
  unfolding refresh_deployment_gates_def
  by (rule efold_frame [where P = "gates_rel {}"])
    (auto intro: gates_rel_same upsert_deployment_gate_rel dest: gates_rel_trans)

lemma upsert_deployment_gate_pk:
  "upsert_deployment_gate e v s = Inr s' \<Longrightarrow> pk dg_id (deployment_approval_gates s) \<Longrightarrow> pk dg_id (deployment_approval_gates s')"
  by (auto simp: upsert_deployment_gate_def ebind_eq_Inr intro!: pk_intros)

lemma refresh_deployment_gates_pk:
  "refresh_deployment_gates e scopes s = Inr s' \<Longrightarrow> pk dg_id (deployment_approval_gates s) \<longrightarrow> pk dg_id (deployment_approval_gates s')"
  unfolding refresh_deployment_gates_def
  by (rule efold_frame [where P = "\<lambda>s s'. pk dg_id (deployment_approval_gates s) \<longrightarrow> pk dg_id (deployment_approval_gates s')"])
    (auto intro: upsert_deployment_gate_pk)

section \<open>Deciding\<close>

abbreviation decided_gate :: "env \<Rightarrow> string \<Rightarrow> string \<Rightarrow> string \<Rightarrow> gate_evidence option \<Rightarrow> gate_row \<Rightarrow> gate_row" where
  "decided_gate e status actor rationale ev g \<equiv>
     decide_gate_row e status actor rationale (case ev of None \<Rightarrow> g | Some v \<Rightarrow> with_evidence v g)"

lemma decided_gate_cols [simp]:
  "dg_id (decided_gate e status actor rationale ev g) = dg_id g"
  "dg_version_id (decided_gate e status actor rationale ev g) = dg_version_id g"
  "dg_tenant_id (decided_gate e status actor rationale ev g) = dg_tenant_id g"
  "dg_status (decided_gate e status actor rationale ev g) = status"
  "dg_actor_ref (decided_gate e status actor rationale ev g) = Some actor"
  "dg_rationale (decided_gate e status actor rationale ev g) = Some rationale"
  by (simp_all add: decide_gate_row_def split: option.split)

lemma set_gate_cases:
  assumes "set_deployment_gate_status e gid status actor rationale s = Inr (s', g)"
  obtains gate ev where "by_key dg_id gid (deployment_approval_gates s) = Some gate" "\<not> gate_decided gate" "py_strip rationale \<noteq> []"
    "s' = s\<lparr>deployment_approval_gates := update_where (\<lambda>g. dg_id g = gid) (decided_gate e status actor rationale ev) (deployment_approval_gates s)\<rparr>"
    "g = decided_gate e status actor rationale ev gate"
    "status = ''approved'' \<longrightarrow> (\<exists>v. ev = Some v \<and> live_gate_evidence e gate s = Inr v \<and> gate_blocker v = None)"
proof -
  obtain gate where gate: "by_key dg_id gid (deployment_approval_gates s) = Some gate" "\<not> gate_decided gate"
    using assms by (auto simp: set_deployment_gate_status_def split: option.splits if_splits)
  obtain ev where ev: "status = ''approved'' \<Longrightarrow> \<exists>v. ev = Some v \<and> live_gate_evidence e gate s = Inr v \<and> gate_blocker v = None"
    and r: "(if py_strip rationale = [] then Inl (DomainErr ''a decision rationale is required'')
       else let s1 = s\<lparr>deployment_approval_gates := update_where (\<lambda>g. dg_id g = gid) (decided_gate e status actor rationale ev) (deployment_approval_gates s)\<rparr>
            in (case by_key dg_id gid (deployment_approval_gates s1) of None \<Rightarrow> Inl TypeErr | Some g \<Rightarrow> Inr (s1, g))) = Inr (s', g)"
    using assms gate by (auto simp: set_deployment_gate_status_def ebind_eq_Inr split: if_splits option.splits)
  have id: "dg_id gate = gid" using by_key_Some [OF gate(1)] by simp
  show thesis using that [OF gate, of ev] ev r id gate(1) by (auto simp: Let_def by_key_update_where split: if_splits)
qed

lemma set_gate_rel:
  assumes r: "set_deployment_gate_status e gid status actor rationale s = Inr (s', g)" and u: "pk dg_id (deployment_approval_gates s)"
  shows "gates_rel {(gid, status, actor, rationale)} s s'" and "pk dg_id (deployment_approval_gates s')"
proof -
  let ?t = "deployment_approval_gates s" and ?u = "deployment_approval_gates s'"
  obtain gate ev where x: "by_key dg_id gid ?t = Some gate" "\<not> gate_decided gate"
    "s' = s\<lparr>deployment_approval_gates := update_where (\<lambda>g. dg_id g = gid) (decided_gate e status actor rationale ev) ?t\<rparr>"
    by (rule set_gate_cases [OF r])
  have only: "h = gate" if "h \<in> set ?t" "dg_id h = gid" for h
    using by_key_unique [OF u that(1)] that(2) x(1) by simp
  show "pk dg_id ?u" using x(3) u by (auto intro!: pk_intros)
  have "gates_kept ?t ?u"
    unfolding gates_kept_def
  proof
    fix h assume h: "h \<in> set ?t"
    show "\<exists>k\<in>set ?u. dg_id k = dg_id h \<and> dg_version_id k = dg_version_id h \<and> dg_tenant_id k = dg_tenant_id h \<and> (gate_decided h \<longrightarrow> verdict k = verdict h)"
    proof (cases "dg_id h = gid")
      case True
      then have "decided_gate e status actor rationale ev h \<in> set ?u"
        using update_where_hits [OF h, of "\<lambda>g. dg_id g = gid" "decided_gate e status actor rationale ev"] x(3) by simp
      then show ?thesis using True only [OF h True] x(2)
        by (intro bexI [of _ "decided_gate e status actor rationale ev h"]) (simp_all only: decided_gate_cols simp_thms)
    next
      case False
      then have "h \<in> set ?u" using h x(3) by (simp add: update_where_keeps)
      then show ?thesis by blast
    qed
  qed
  moreover have "decided_by_some {(gid, status, actor, rationale)} ?t ?u"
    unfolding decided_by_some_def
  proof (intro ballI impI)
    fix h assume h: "h \<in> set ?u" "gate_decided h"
    from h(1) have "h \<in> set (update_where (\<lambda>g. dg_id g = gid) (decided_gate e status actor rationale ev) ?t)" using x(3) by simp
    then show "(\<exists>g\<in>set ?t. dg_id g = dg_id h \<and> gate_decided g \<and> verdict h = verdict g) \<or>
      (\<exists>(i, st, ac, ra)\<in>{(gid, status, actor, rationale)}. dg_id h = i \<and> dg_status h = st \<and> dg_actor_ref h = Some ac \<and> dg_rationale h = Some ra)"
      by (cases rule: update_whereE) (use h(2) in auto)
  qed
  ultimately show "gates_rel {(gid, status, actor, rationale)} s s'" by (simp add: gates_rel_def)
qed

lemma decide_gate_steps:
  assumes "decide_gate e a gid verb decision rationale s = Inr (s', g, d, q)"
  obtains gate s1 s2 where "load_deployment_gate s gid = Inr gate" "require_decision s a (auth_target (gate_target gate)) = Inr ()"
    "enforce_segregation_of_duties s a (gate_target gate) = Inr ()"
    "set_deployment_gate_status e gid verb (ac_user_ref a) rationale s = Inr (s1, g)"
    "record_decision e ''deployment_gate'' gid decision rationale (ac_user_ref a) None s1 = Inr (s2, d)"
    "s' = emitted e (gate_notice e a gate verb rationale) s2"
  using assms by (auto simp: decide_gate_def ebind_eq_Inr)

lemma decide_gate_rel:
  assumes r: "decide_gate e a gid verb decision rationale s = Inr (s', g, d, q)" and u: "pk dg_id (deployment_approval_gates s)"
  shows "gates_rel {(gid, verb, ac_user_ref a, rationale)} s s' \<and> pk dg_id (deployment_approval_gates s')"
proof -
  obtain gate s1 s2 where x: "set_deployment_gate_status e gid verb (ac_user_ref a) rationale s = Inr (s1, g)"
    "record_decision e ''deployment_gate'' gid decision rationale (ac_user_ref a) None s1 = Inr (s2, d)"
    "s' = emitted e (gate_notice e a gate verb rationale) s2"
    by (rule decide_gate_steps [OF r])
  have "deployment_approval_gates s' = deployment_approval_gates s1" using record_decision_gates [OF x(2)] x(3) by simp
  then show ?thesis using set_gate_rel [OF x(1) u] by (simp add: gates_rel_def)
qed

section \<open>Runs\<close>

text \<open>
  What can happen around a gate, each at its own time: deployment events, recomputation of the evidence,
  the two gate routes, decisions and exceptions on findings, controls and changes (a decision recomputes the
  gates of its application), and the expiry pass.
\<close>

datatype gate_op =
    GtReport int "telemetry list"
  | GtRefresh int "app_scope list option"
  | GtApprove int actor_context string string
  | GtReject int actor_context string string
  | GtDecide int actor_context decision_request
  | GtExcept int actor_context string string string string int
  | GtExpire int

fun gate_exec :: "env \<Rightarrow> (rat \<Rightarrow> string) \<Rightarrow> gate_op \<Rightarrow> db \<Rightarrow> db res" where
  "gate_exec e rt (GtReport t vs) s = process_deployment_events (at_time e t) rt vs s"
| "gate_exec e rt (GtRefresh t scopes) s = refresh_deployment_gates (at_time e t) scopes s"
| "gate_exec e rt (GtApprove t a gid rationale) s = ebind (approve_deployment_gate (at_time e t) a gid rationale s) (\<lambda>r. Inr (fst r))"
| "gate_exec e rt (GtReject t a gid rationale) s = ebind (reject_deployment_gate (at_time e t) a gid rationale s) (\<lambda>r. Inr (fst r))"
| "gate_exec e rt (GtDecide t a q) s =
     ebind (create_decision (at_time e t) a q s) (\<lambda>(s1, d, x, scopes).
       if scopes = [] then Inr s1 else refresh_deployment_gates (at_time e t) (Some scopes) s1)"
| "gate_exec e rt (GtExcept t a ty k reason control expiry) s =
     ebind (create_exception_route (at_time e t) a ty k reason control expiry s) (\<lambda>r. Inr (fst r))"
| "gate_exec e rt (GtExpire t) s = Inr (fst (expire_due_exceptions (at_time e t) s))"

definition gate_step :: "env \<Rightarrow> (rat \<Rightarrow> string) \<Rightarrow> gate_op \<Rightarrow> db \<Rightarrow> db" where
  "gate_step e rt op s = (case gate_exec e rt op s of Inl _ \<Rightarrow> s | Inr s' \<Rightarrow> s')"

fun decisions_of :: "gate_op \<Rightarrow> gate_decision set" where
  "decisions_of (GtApprove t a gid rationale) = {(gid, ''approved'', ac_user_ref a, rationale)}"
| "decisions_of (GtReject t a gid rationale) = {(gid, ''rejected'', ac_user_ref a, rationale)}"
| "decisions_of _ = {}"

lemma gates_rel_frame: "deployment_approval_gates s1 = deployment_approval_gates s \<Longrightarrow> gates_rel D s1 s' \<Longrightarrow> gates_rel D s s'"
  by (simp add: gates_rel_def)

lemma gate_exec_rel:
  assumes r: "gate_exec e rt op s = Inr s'" and u: "pk dg_id (deployment_approval_gates s)"
  shows "gates_rel (decisions_of op) s s' \<and> pk dg_id (deployment_approval_gates s')"
proof (cases op)
  case (GtReport t vs)
  then have "deployment_approval_gates s' = deployment_approval_gates s" using r by (auto dest: process_deployment_events_gates)
  then show ?thesis using u gates_rel_same by simp
next
  case (GtRefresh t scopes)
  then show ?thesis using r u refresh_deployment_gates_rel refresh_deployment_gates_pk by fastforce
next
  case (GtApprove t a gid rationale)
  then obtain g d q where x: "decide_gate (at_time e t) a gid ''approved'' ''approve'' rationale (fst (expire_due_exceptions (at_time e t) s)) = Inr (s', g, d, q)"
    using r by (auto simp: ebind_eq_Inr approve_deployment_gate_def)
  show ?thesis using decide_gate_rel [OF x] u GtApprove by (simp add: gates_rel_def)
next
  case (GtReject t a gid rationale)
  then show ?thesis using r u by (auto simp: ebind_eq_Inr reject_deployment_gate_def dest: decide_gate_rel)
next
  case (GtDecide t a q)
  then obtain s1 d x scopes where c: "create_decision (at_time e t) a q s = Inr (s1, d, x, scopes)"
    "(if scopes = [] then Inr s1 else refresh_deployment_gates (at_time e t) (Some scopes) s1) = Inr s'"
    using r by (auto simp: ebind_eq_Inr)
  note same = create_decision_gates [OF c(1)]
  show ?thesis
  proof (cases "scopes = []")
    case True
    then show ?thesis using c(2) same u gates_rel_same by simp
  next
    case False
    then have x: "refresh_deployment_gates (at_time e t) (Some scopes) s1 = Inr s'" using c(2) by simp
    show ?thesis using gates_rel_frame [OF same refresh_deployment_gates_rel [OF x]] refresh_deployment_gates_pk [OF x] same u GtDecide by simp
  qed
next
  case (GtExcept t a ty k reason control expiry)
  then have "deployment_approval_gates s' = deployment_approval_gates s" using r by (auto simp: ebind_eq_Inr dest: create_exception_route_gates)
  then show ?thesis using u gates_rel_same by simp
next
  case (GtExpire t)
  then show ?thesis using r u gates_rel_same [of s' s] by (auto simp: expire_due_exceptions_def)
qed

interpretation gates: monotone_ops "gate_step e rt" "\<lambda>s. pk dg_id (deployment_approval_gates s)"
  "\<lambda>s s'. gates_kept (deployment_approval_gates s) (deployment_approval_gates s')" for e rt
proof
  fix s t u :: db and op
  show "gates_kept (deployment_approval_gates s) (deployment_approval_gates s)" by (auto simp: gates_kept_def)
  show "gates_kept (deployment_approval_gates s) (deployment_approval_gates t) \<Longrightarrow> gates_kept (deployment_approval_gates t) (deployment_approval_gates u) \<Longrightarrow>
      gates_kept (deployment_approval_gates s) (deployment_approval_gates u)" unfolding gates_kept_def by (metis verdict_decided)
  assume "pk dg_id (deployment_approval_gates s)"
  then show "pk dg_id (deployment_approval_gates (gate_step e rt op s))"
      "gates_kept (deployment_approval_gates s) (deployment_approval_gates (gate_step e rt op s))"
    using gate_exec_rel [of e rt op s] by (auto simp: gate_step_def gates_rel_def gates_kept_def split: sum.split)
qed

lemma gate_run_rel:
  "pk dg_id (deployment_approval_gates s) \<Longrightarrow> gates_rel (\<Union> (decisions_of ` set ops)) s (fold (gate_step e rt) ops s)"
proof (induction ops arbitrary: s)
  case Nil
  then show ?case by (simp add: gates_rel_same)
next
  case (Cons op ops)
  have "gates_rel (decisions_of op) s (gate_step e rt op s)"
    using gate_exec_rel [OF _ Cons.prems, of e rt op] gates_rel_same [of s s] by (auto simp: gate_step_def split: sum.split)
  then have "gates_rel (decisions_of op \<union> \<Union> (decisions_of ` set ops)) s (fold (gate_step e rt) ops (gate_step e rt op s))"
    using Cons.IH [OF gates.step_inv [OF Cons.prems]] by (rule gates_rel_trans)
  then show ?case by simp
qed

text \<open>
  C33: whatever is reported, refreshed, decided, excepted or expired afterwards, in any order, a decided gate
  keeps its verdict, the person who gave it, the rationale and the time; and no gate is ever decided but by an
  approve or reject request of the run, with exactly that verdict, person and rationale.
\<close>

theorem gate_decisions_final:
  assumes "pk dg_id (deployment_approval_gates s)"
  shows "gates_kept (deployment_approval_gates s) (deployment_approval_gates (fold (gate_step e rt) ops s)) \<and>
    decided_by_some (\<Union> (decisions_of ` set ops)) (deployment_approval_gates s) (deployment_approval_gates (fold (gate_step e rt) ops s))"
  using gates.run_rel [OF assms] gate_run_rel [OF assms] by (simp add: gates_rel_def)

section \<open>What an approval requires\<close>

lemma counted_eval:
  assumes "count_passing_eval_evidence s g attested = Inr n" "n \<noteq> 0"
  shows "\<exists>r\<in>set (eval_rows s g). counts_as_passing attested g r = Inr True"
proof -
  obtain bs where bs: "emap (counts_as_passing attested g) (eval_rows s g) = Inr bs" "filter (\<lambda>b. b) bs \<noteq> []"
    using assms by (auto simp: count_passing_eval_evidence_def ebind_eq_Inr)
  then have "True \<in> set bs" by (metis (full_types) filter_False)
  then show ?thesis using emap_mem(1) [OF bs(1)] by blast
qed

lemma gate_evidence_clean:
  assumes r: "gate_evidence_counts e g s = Inr v" and b: "gate_blocker v = None"
  shows "open_risks s g = []" "missing_controls s g = []" "find_prompt_version s g \<noteq> None"
    "gv_undercovered_control_count v \<le> 0" "int (length (open_changes s g)) \<le> gv_max_open_material_changes v"
    "tenant_requires_attestation s (gs_tenant_id g) \<Longrightarrow> gv_require_attested_evals v"
    "\<exists>r\<in>set (eval_rows s g). counts_as_passing (gv_require_attested_evals v) g r = Inr True"
proof -
  let ?R = "resolve_gate_policy e (governance_policies s) (gs_tenant_id g) (gs_environment g)"
  obtain req where q: "?R = Inr req" using r by (cases ?R) (simp_all add: gate_evidence_counts_def)
  let ?a = "gt_require_attested_evals req \<or> tenant_requires_attestation s (gs_tenant_id g)"
  obtain evals where n: "count_passing_eval_evidence s g ?a = Inr evals"
    using r q by (cases "count_passing_eval_evidence s g ?a") (simp_all add: gate_evidence_counts_def)
  let ?U = "if 0 < gt_min_control_coverage req then count_undercovered_controls e s (gate_context g) (gt_min_control_coverage req) else Inr 0"
  obtain under where u: "?U = Inr under" using r unfolding gate_evidence_counts_def Let_def q ebind_simps n by (cases ?U) simp_all
  note x = r [unfolded gate_evidence_counts_def Let_def q ebind_simps n u, THEN Inr_inject, symmetric]
  have b': "find_prompt_version s g \<noteq> None" "evals \<noteq> 0" "open_risks s g = []" "missing_controls s g = []" "\<not> 0 < under"
    "\<not> gt_max_open_material_changes req < int (length (open_changes s g))"
    using b by (auto simp: gate_blocker_def x split: if_splits)
  show "open_risks s g = []" "missing_controls s g = []" "find_prompt_version s g \<noteq> None" using b' by simp_all
  show "gv_undercovered_control_count v \<le> 0" "int (length (open_changes s g)) \<le> gv_max_open_material_changes v"
    "tenant_requires_attestation s (gs_tenant_id g) \<Longrightarrow> gv_require_attested_evals v" using b' by (simp_all add: x)
  show "\<exists>r\<in>set (eval_rows s g). counts_as_passing (gv_require_attested_evals v) g r = Inr True"
    using counted_eval [OF n b'(2)] by (simp add: x)
qed

lemma gate_live_scope_decided:
  "gate_live_scope s (decided_gate e status actor rationale ev g) = gate_live_scope s g"
  by (simp add: gate_live_scope_def decide_gate_row_def with_evidence_def Let_def split: option.split)

text \<open>
  C32: a release gate is approved only on evidence that is clean at that moment, after lapsed
  exceptions have been reopened: no open risk finding, no missing control, a linked prompt version,
  no more open material changes than the policy allows, and a successful passing evaluation
  of this very artifact or prompt version, with a verified signature when the organization has ever
  registered an attestation key or its policy asks for it. The approver holds the decision permission, gave a
  reason and is not the person who deployed the version.
\<close>

theorem gate_approval_needs_clean_evidence:
  assumes r: "approve_deployment_gate e a gid rationale s = Inr (s', g, d, q)"
    and s0: "s0 = fst (expire_due_exceptions e s)" and sc: "sc = gate_live_scope s0 g"
  shows "g \<in> set (deployment_approval_gates s') \<and> dg_id g = gid \<and> dg_status g = ''approved'' \<and> dg_actor_ref g = Some (ac_user_ref a) \<and>
    py_strip rationale \<noteq> [] \<and> require_decision s0 a (auth_target (gate_target g)) = Inr () \<and>
    (gate_deployer s0 (dg_version_id g) = Some (ac_user_ref a) \<longrightarrow> ac_user_ref a = []) \<and>
    open_risks s0 sc = [] \<and> missing_controls s0 sc = [] \<and> find_prompt_version s0 sc \<noteq> None \<and>
    (\<exists>ev. gate_evidence_counts e sc s0 = Inr ev \<and> int (length (open_changes s0 sc)) \<le> gv_max_open_material_changes ev \<and>
       gv_undercovered_control_count ev \<le> 0 \<and> (tenant_requires_attestation s0 (dg_tenant_id g) \<longrightarrow> gv_require_attested_evals ev) \<and>
       (\<exists>x\<in>set (eval_rows s0 sc). counts_as_passing (gv_require_attested_evals ev) sc x = Inr True))"
proof -
  have r': "decide_gate e a gid ''approved'' ''approve'' rationale s0 = Inr (s', g, d, q)" using r by (simp add: approve_deployment_gate_def s0)
  obtain gate s1 s2 where x: "load_deployment_gate s0 gid = Inr gate" "require_decision s0 a (auth_target (gate_target gate)) = Inr ()"
    "enforce_segregation_of_duties s0 a (gate_target gate) = Inr ()"
    "set_deployment_gate_status e gid ''approved'' (ac_user_ref a) rationale s0 = Inr (s1, g)"
    "record_decision e ''deployment_gate'' gid ''approve'' rationale (ac_user_ref a) None s1 = Inr (s2, d)"
    "s' = emitted e (gate_notice e a gate ''approved'' rationale) s2"
    by (rule decide_gate_steps [OF r'])
  obtain gate' ev where y: "by_key dg_id gid (deployment_approval_gates s0) = Some gate'" "\<not> gate_decided gate'" "py_strip rationale \<noteq> []"
    "s1 = s0\<lparr>deployment_approval_gates := update_where (\<lambda>g. dg_id g = gid) (decided_gate e ''approved'' (ac_user_ref a) rationale ev) (deployment_approval_gates s0)\<rparr>"
    "g = decided_gate e ''approved'' (ac_user_ref a) rationale ev gate'"
    "''approved'' = ''approved'' \<longrightarrow> (\<exists>v. ev = Some v \<and> live_gate_evidence e gate' s0 = Inr v \<and> gate_blocker v = None)"
    by (rule set_gate_cases [OF x(4)]) (rule that)
  have gate: "gate' = gate" "gate \<in> set (deployment_approval_gates s0)" "dg_id gate = gid"
    using x(1) y(1) by_key_Some [OF y(1)] by (auto simp: load_deployment_gate_def)
  have scope: "sc = gate_live_scope s0 gate" using sc y(5) gate(1) gate_live_scope_decided by simp
  have g: "g = decided_gate e ''approved'' (ac_user_ref a) rationale ev gate" using y(5) gate(1) by (simp only:)
  have stored: "g \<in> set (deployment_approval_gates s')"
    using update_where_hits [OF gate(2), of "\<lambda>g. dg_id g = gid" "decided_gate e ''approved'' (ac_user_ref a) rationale ev"]
      record_decision_gates [OF x(5)] x(6) y(4) gate(3) unfolding g by simp
  have cols: "dg_id g = gid" "dg_status g = ''approved''" "dg_actor_ref g = Some (ac_user_ref a)" "dg_version_id g = dg_version_id gate"
    "dg_tenant_id g = dg_tenant_id gate" "dg_project g = dg_project gate" "dg_environment g = dg_environment gate"
    using y(5) gate by (auto simp: decide_gate_row_def with_evidence_def split: option.split)
  have target: "auth_target (gate_target g) = auth_target (gate_target gate)" using cols by (simp add: gate_target_def plain_target_def auth_target_def)
  have maker: "gate_deployer s0 (dg_version_id g) = Some (ac_user_ref a) \<longrightarrow> ac_user_ref a = []"
  proof
    assume m: "gate_deployer s0 (dg_version_id g) = Some (ac_user_ref a)"
    have "dg_version_id g \<noteq> [] \<or> or_str (Some (dg_version_id gate)) [] = dg_version_id gate" by (simp add: or_str_def)
    then show "ac_user_ref a = []" using x(3) m cols(4)
      by (auto simp: enforce_segregation_of_duties_def decision_maker_def gate_target_def plain_target_def or_str_def split: if_splits)
  qed
  obtain v where v: "gate_evidence_counts e sc s0 = Inr v" "gate_blocker v = None" using y(6) scope gate(1) by (auto simp: live_gate_evidence_def)
  have "gs_tenant_id sc = dg_tenant_id g" by (simp add: sc gate_live_scope_def Let_def)
  then show ?thesis using gate_evidence_clean [OF v] v(1) stored cols(1-3) y(3) x(2) target maker by auto
qed

section \<open>The pipeline's check\<close>

lemma evidence_count_nonneg:
  "gate_evidence_counts e g s = Inr v \<Longrightarrow> 0 \<le> gv_risk_count v \<and> 0 \<le> gv_missing_control_count v \<and> 0 \<le> gv_undercovered_control_count v"
  by (auto simp: gate_evidence_counts_def count_undercovered_controls_def Let_def ebind_eq_Inr split: if_splits)

lemma blockers_agree:
  assumes "gate_evidence_counts e g s = Inr v"
  shows "evidence_blockers v = [] \<longleftrightarrow> gate_blocker v = None"
  using evidence_count_nonneg [OF assms] by (auto simp: evidence_blockers_def gate_blocker_def errs_if_def)

text \<open>
  C34: the check a deployment pipeline asks for agrees with the guard of the approval. It answers for the
  one gate of that release in the caller's own organization, and calls it eligible exactly when the gate is
  approved, nothing reported for the organization is still waiting to be projected, and the approval's own guard
  would find no blocker in today's evidence.
\<close>

theorem pipeline_check_agrees:
  assumes "find_gate_for_release e s tenant deployment version project environment = Inr (Some (g, v, el))"
  shows "g \<in> set (deployment_approval_gates s) \<and> dg_tenant_id g = Some tenant \<and> dv_deployment_id v = deployment \<and> dv_version v = version \<and>
    by_key dv_version_id (dg_version_id g) (deployment_versions s) = Some v \<and>
    (el_eligible el \<longleftrightarrow> dg_status g = ''approved'' \<and> pending_events s tenant = [] \<and>
       (\<exists>ev. live_gate_evidence e g s = Inr ev \<and> gate_blocker ev = None)) \<and>
    (el_eligible el \<longleftrightarrow> el_blockers el = [])"
proof -
  obtain ev where x: "release_gates s tenant deployment version project environment = [(g, v)]" "live_gate_evidence e g s = Inr ev"
    "el = current_eligibility e (pending_events s tenant \<noteq> []) g ev"
    using assms by (auto simp: find_gate_for_release_def ebind_eq_Inr split: list.splits if_splits)
  have "(g, v) \<in> set (release_gates s tenant deployment version project environment)" by (simp add: x(1))
  then have "g \<in> set (deployment_approval_gates s) \<and> dg_tenant_id g = Some tenant \<and> dv_deployment_id v = deployment \<and> dv_version v = version \<and>
    by_key dv_version_id (dg_version_id g) (deployment_versions s) = Some v"
    by (auto simp: release_gates_def split: option.splits if_splits)
  moreover have "evidence_blockers ev = [] \<longleftrightarrow> gate_blocker ev = None" using blockers_agree x(2) by (simp add: live_gate_evidence_def)
  ultimately show ?thesis using x(2,3) by (auto simp: current_eligibility_def Let_def errs_if_def)
qed

section \<open>A sample release\<close>

definition release_db :: db where
  "release_db = sample_org\<lparr>
     role_permissions := map (\<lambda>p. \<lparr>rp_role = fst p, rp_permission = snd p\<rparr>)
       [(''builder'', ''gate.decide''), (''governance_reviewer'', ''gate.decide''), (''risk_owner'', ''gate.decide'')],
     prompt_versions := [\<lparr>pv_id = ''pv1'', pv_prompt_id = ''pr'', pv_tenant_id = Some ''acme'', pv_project = ''p'', pv_environment = ''prod'',
       pv_application_name = ''app'', pv_workflow_name = ''chat'', pv_version = ''p1'', pv_status = ''success'', pv_owner_ref = None, pv_artifact_ref = ''r'',
       pv_template_summary = JNull, pv_change_notes_summary = JNull, pv_trace_id = ''t0'', pv_observed_at = ''2026''\<rparr>],
     governance_observed_events := [\<lparr>oe_entity_id = ''e1'', oe_entity_type = ''eval.result'', oe_tenant_id = Some ''acme'', oe_project = ''p'',
       oe_environment = ''prod'', oe_application_name = Some ''app'', oe_workflow_name = Some ''chat'', oe_name = ''eval'', oe_status = ''success'',
       oe_trace_id = ''t1'', oe_duration_ms = None, oe_attributes = JObj [(''passed'', JBool True), (''artifact_ref'', JStr ''img1'')],
       oe_observed_at = ''2026''\<rparr>]\<rparr>"

definition no_reals :: "rat \<Rightarrow> string" where "no_reals r = []"

definition sample_version :: deployment_version where
  "sample_version = \<lparr>dv_version_id = ''v1'', dv_deployment_id = ''d1'', dv_tenant_id = Some ''acme'', dv_project = ''p'', dv_environment = ''prod'',
     dv_application_name = ''app'', dv_workflow_name = ''chat'', dv_version = ''1'', dv_status = ''success'', dv_provider = None, dv_model = None,
     dv_artifact_ref = ''img1'', dv_prompt_version = Some ''p1'', dv_deployed_by = Some ''ann'', dv_trace_id = ''t1'', dv_observed_at = ''2026''\<rparr>"

definition sample_evidence :: gate_evidence where
  "sample_evidence = \<lparr>gv_risk_count = 0, gv_missing_control_count = 0, gv_material_change_count = 0, gv_prompt_version_id = Some ''pv1'',
     gv_prompt_evidence_status = ''linked'', gv_passing_eval_count = 1, gv_require_attested_evals = False, gv_max_open_material_changes = 0,
     gv_min_control_coverage = 0, gv_undercovered_control_count = 0, gv_policy_tenant = ''acme'', gv_policy_version = 1\<rparr>"

definition sample_gate :: gate_row where
  "sample_gate = new_gate (sample_env 0) sample_version sample_evidence"

abbreviation sample_gate_id :: string where "sample_gate_id \<equiv> gate_id_of (sample_env 0) ''v1''"

definition gated_db :: db where
  "gated_db = release_db\<lparr>deployment_versions := [sample_version], deployment_approval_gates := [sample_gate]\<rparr>"

lemma gated_db_pk: "pk dg_id (deployment_approval_gates gated_db)"
  by (simp add: gated_db_def pk_def)

definition gate_run :: "gate_op list" where
  "gate_run = [GtApprove 3 (sample_actor ''ann'') sample_gate_id ''mine'', GtApprove 4 (sample_actor ''bob'') sample_gate_id ''ok'',
     GtReject 5 (sample_actor ''cat'') sample_gate_id ''no'']"

lemma gate_run_facts:
  "map (\<lambda>g. (dg_status g, dg_actor_ref g, dg_rationale g)) (deployment_approval_gates (fold (gate_step (sample_env 0) no_reals) gate_run gated_db)) =
     [(''approved'', Some ''bob'', Some ''ok'')]"
  by code_simp

theorem gate_decisions_final_witness:
  "pk dg_id (deployment_approval_gates gated_db) \<and>
   gates_kept (deployment_approval_gates gated_db) (deployment_approval_gates (fold (gate_step (sample_env 0) no_reals) gate_run gated_db)) \<and>
   map (\<lambda>g. (dg_status g, dg_actor_ref g)) (deployment_approval_gates (fold (gate_step (sample_env 0) no_reals) gate_run gated_db)) =
     [(''approved'', Some ''bob'')]"
  using gate_decisions_final [OF gated_db_pk, of "sample_env 0" no_reals gate_run] gated_db_pk gate_run_facts by auto

lemma sample_approval: "\<not> isl (approve_deployment_gate (sample_env 4) (sample_actor ''bob'') sample_gate_id ''ok'' gated_db)"
  by code_simp

theorem gate_approval_needs_clean_evidence_witness:
  "case approve_deployment_gate (sample_env 4) (sample_actor ''bob'') sample_gate_id ''ok'' gated_db of
     Inr (s', g, d, q) \<Rightarrow> dg_status g = ''approved'' \<and> open_risks (fst (expire_due_exceptions (sample_env 4) gated_db))
       (gate_live_scope (fst (expire_due_exceptions (sample_env 4) gated_db)) g) = [] | Inl _ \<Rightarrow> False"
proof (cases "approve_deployment_gate (sample_env 4) (sample_actor ''bob'') sample_gate_id ''ok'' gated_db")
  case (Inl x)
  then show ?thesis using sample_approval by simp
next
  case (Inr y)
  obtain s' g d q where y: "y = (s', g, d, q)" by (metis prod_cases4)
  show ?thesis using gate_approval_needs_clean_evidence [OF Inr [unfolded y] refl refl] Inr y by simp
qed

definition approved_db :: db where
  "approved_db = release_db\<lparr>deployment_versions := [sample_version],
     deployment_approval_gates := [decide_gate_row (sample_env 4) ''approved'' ''bob'' ''ok'' sample_gate]\<rparr>"

lemma sample_check:
  "case find_gate_for_release (sample_env 9) approved_db ''acme'' ''d1'' ''1'' None (Some ''prod'') of
     Inr (Some (g, v, el)) \<Rightarrow> el_eligible el \<and> dv_artifact_ref v = ''img1'' | _ \<Rightarrow> False"
  by code_simp

theorem pipeline_check_agrees_witness:
  "case find_gate_for_release (sample_env 9) approved_db ''acme'' ''d1'' ''1'' None (Some ''prod'') of
     Inr (Some (g, v, el)) \<Rightarrow> dg_tenant_id g = Some ''acme'' \<and> el_blockers el = [] \<and> dg_status g = ''approved'' | _ \<Rightarrow> False"
proof (cases "find_gate_for_release (sample_env 9) approved_db ''acme'' ''d1'' ''1'' None (Some ''prod'')")
  case (Inl x)
  then show ?thesis using sample_check by simp
next
  case (Inr y)
  then obtain g v el where y: "y = Some (g, v, el)" "el_eligible el" using sample_check by (cases y) auto
  show ?thesis using pipeline_check_agrees [OF Inr [unfolded y(1)]] Inr y by simp
qed

end
