(* ===== verification/Incidents.thy ===== *)
theory Incidents
  imports Attestation Decisions
begin

text \<open>
  Incidents (storage/incidents.py) and the route that closes one (api/routes.py). An incident is
  reported by telemetry under an id the reporting client chose, unique within its organization, project and
  environment; people close it.
\<close>

section \<open>Evidence around an incident\<close>

record incident_scope_row =
  iz_tenant_id :: "string option"
  iz_project :: string
  iz_environment :: string
  iz_application_name :: string
  iz_workflow_name :: string

definition latest_deployment_evidence :: "db \<Rightarrow> incident_scope_row \<Rightarrow> (string \<times> string \<times> string option) option" where
  "latest_deployment_evidence s z =
     (case rev (sort_key dv_observed_at (filter (\<lambda>v. dv_project v = iz_project z \<and> dv_environment v = iz_environment z \<and>
            dv_application_name v = iz_application_name z \<and> dv_workflow_name v = iz_workflow_name z \<and> dv_tenant_id v = iz_tenant_id z)
            (deployment_versions s))) of
        [] \<Rightarrow> None
      | v # _ \<Rightarrow> Some (dv_deployment_id v, dv_version_id v, map_option dg_id (by_key dg_version_id (dv_version_id v) (deployment_approval_gates s))))"

definition incident_evidence_counts :: "db \<Rightarrow> incident_scope_row \<Rightarrow> int \<times> int" where
  "incident_evidence_counts s z =
     (int (length (filter (\<lambda>r. rf_project r = iz_project z \<and> rf_environment r = iz_environment z \<and> rf_application_name r = iz_application_name z \<and>
         rf_status r \<in> {''open'', ''mitigation_required''} \<and> rf_tenant_id r = iz_tenant_id z) (risk_findings s))),
      int (length (filter (\<lambda>r. ca_project r = iz_project z \<and> ca_environment r = iz_environment z \<and> ca_application_name r = iz_application_name z \<and>
         ca_status r = ''missing'' \<and> ca_tenant_id r = iz_tenant_id z) (control_assessments s))))"

section \<open>Reports\<close>

definition ic_key :: "incident \<Rightarrow> string \<times> string \<times> string \<times> string" where
  "ic_key r = (ic_tenant_id r, ic_project r, ic_environment r, ic_id r)"

text \<open>A report about a known incident; the first report's trace and time stay, and so does a closed status.\<close>

definition merge_incident :: "incident \<Rightarrow> incident \<Rightarrow> incident" where
  "merge_incident n r = r\<lparr>ic_title := ic_title n, ic_severity := ic_severity n,
     ic_status := (if ic_status r = ''closed'' then ic_status r else ic_status n),
     ic_description_summary := ic_description_summary n, ic_detected_by := ic_detected_by n, ic_impacted_trace_id := ic_impacted_trace_id n,
     ic_provider := ic_provider n, ic_model := ic_model n, ic_risk_count := ic_risk_count n, ic_missing_control_count := ic_missing_control_count n,
     ic_deployment_id := ic_deployment_id n, ic_deployment_version_id := ic_deployment_version_id n, ic_deployment_gate_id := ic_deployment_gate_id n,
     ic_last_seen := ic_last_seen n\<rparr>"

definition opened_notice :: "env \<Rightarrow> string option \<Rightarrow> dict \<Rightarrow> json \<Rightarrow> json \<Rightarrow> json \<Rightarrow> json \<Rightarrow> notice" where
  "opened_notice e tenant attrs incident_id application_name workflow_name title =
     (let str = py_str (env_float_repr e) in
      \<lparr>no_tenant = tenant, no_event = ''incident.opened'', no_subject = ''Incident opened: '' @ str title,
       no_text = ''Severity '' @ str (py_or (dget attrs ''severity'' JNull) (JStr ''unclassified'')) @ '' incident on '' @ str application_name @
         '' / '' @ str workflow_name @ '', reported by '' @ str (py_or (dget attrs ''detected_by'' JNull) (JStr ''the SDK'')) @ ''.'',
       no_data = JObj [(''incident_id'', incident_id), (''application_name'', application_name), (''workflow_name'', workflow_name),
         (''severity'', dget attrs ''severity'' JNull)],
       no_to_users = [], no_to_roles = [''org_admin'', ''risk_owner'', ''governance_admin''],
       no_link = Some (public_base_url e @ ''/#incident/'' @ str incident_id)\<rparr>)"

text \<open>The row a report asks for, the reported status and the notice of a new incident; none when the application is not named.\<close>

definition incident_report :: "env \<Rightarrow> (rat \<Rightarrow> string) \<Rightarrow> telemetry \<Rightarrow> db \<Rightarrow> (incident \<times> json \<times> notice) option res" where
  "incident_report e rt v s =
     (let attrs0 = py_or (tm_attributes v) (JObj []) in
      ebind (jget attrs0 ''metadata'' JNull) (\<lambda>m.
      let attrs = as_object attrs0; metadata = as_object m;
          application_name = dget metadata ''application_name'' JNull; workflow_name = dget metadata ''workflow_name'' JNull in
      if \<not> truthy application_name \<or> \<not> truthy workflow_name then Inr None
      else
        ebind (sql_text rt (dget metadata ''tenant_id'' JNull)) (\<lambda>tenant.
        ebind (sql_required rt application_name) (\<lambda>app. ebind (sql_required rt workflow_name) (\<lambda>workflow.
        let z = \<lparr>iz_tenant_id = tenant, iz_project = tm_project v, iz_environment = tm_environment v, iz_application_name = app,
                 iz_workflow_name = workflow\<rparr>;
            deployment = latest_deployment_evidence s z; counts = incident_evidence_counts s z;
            incident_id = py_or (dget attrs ''incident_id'' JNull) (JStr (entity_id e [Some ''incident'', Some (tm_trace_id v), Some (tm_span_id v)]));
            status = py_or (dget attrs ''incident_status'' JNull) (JStr (tm_status v));
            title = py_or (dget attrs ''title'' JNull) (py_or (case tm_name v of None \<Rightarrow> JNull | Some n \<Rightarrow> JStr n) incident_id) in
        ebind (sql_required rt incident_id) (\<lambda>iid. ebind (sql_required rt (py_or (dget metadata ''tenant_id'' JNull) (JStr []))) (\<lambda>tid.
        ebind (sql_required rt title) (\<lambda>title_text. ebind (sql_required rt (py_or (dget attrs ''severity'' JNull) (JStr ''unclassified''))) (\<lambda>severity.
        ebind (sql_required rt status) (\<lambda>status_text. ebind (sql_text rt (dget attrs ''detected_by'' JNull)) (\<lambda>detected_by.
        ebind (sql_text rt (dget attrs ''impacted_trace_id'' JNull)) (\<lambda>impacted. ebind (sql_text rt (dget attrs ''provider'' JNull)) (\<lambda>provider.
        ebind (sql_text rt (dget attrs ''model'' JNull)) (\<lambda>model.
        Inr (Some (\<lparr>ic_id = iid, ic_tenant_id = tid, ic_project = tm_project v, ic_environment = tm_environment v, ic_application_name = app,
              ic_workflow_name = workflow, ic_title = title_text, ic_severity = severity, ic_status = status_text,
              ic_description_summary = JObj (as_object (dget attrs ''description'' JNull)), ic_detected_by = detected_by, ic_trace_id = tm_trace_id v,
              ic_impacted_trace_id = impacted, ic_provider = provider, ic_model = model, ic_risk_count = fst counts,
              ic_missing_control_count = snd counts, ic_deployment_id = map_option fst deployment,
              ic_deployment_version_id = map_option (fst \<circ> snd) deployment,
              ic_deployment_gate_id = (case deployment of None \<Rightarrow> None | Some (_, _, g) \<Rightarrow> g), ic_actor_ref = None, ic_resolution_rationale = None,
              ic_first_seen = tm_timestamp v, ic_last_seen = tm_timestamp v, ic_closed_at = None\<rparr>, status,
            opened_notice e tenant attrs incident_id application_name workflow_name title))))))))))))))))"

definition upsert_incident_event :: "env \<Rightarrow> (rat \<Rightarrow> string) \<Rightarrow> telemetry \<Rightarrow> db \<Rightarrow> db res" where
  "upsert_incident_event e rt v s =
     ebind (incident_report e rt v s) (\<lambda>x. case x of
       None \<Rightarrow> Inr s
     | Some (n, status, note) \<Rightarrow>
         let is_new = (by_key ic_key (ic_key n) (governance_incidents s) = None);
             s1 = s\<lparr>governance_incidents := upsert ic_key (merge_incident n) n (governance_incidents s)\<rparr>
         in Inr (if is_new \<and> status \<noteq> JStr ''closed'' then emitted e note s1 else s1))"

definition process_incident_events :: "env \<Rightarrow> (rat \<Rightarrow> string) \<Rightarrow> telemetry list \<Rightarrow> db \<Rightarrow> db res" where
  "process_incident_events e rt vs s = efold (upsert_incident_event e rt) (filter (\<lambda>v. tm_type v = ''incident.event'') vs) s"

section \<open>Reading and closing\<close>

definition incident_row :: "db \<Rightarrow> string \<Rightarrow> string option \<Rightarrow> incident option" where
  "incident_row s iid tenant =
     (if \<not> nonempty tenant then None
      else case rev (sort_key ic_last_seen (filter (\<lambda>r. Some (ic_tenant_id r) = tenant \<and> ic_id r = iid) (governance_incidents s))) of
             [] \<Rightarrow> None | r # _ \<Rightarrow> Some r)"

definition load_incident :: "db \<Rightarrow> string \<Rightarrow> string option \<Rightarrow> incident res" where
  "load_incident s iid tenant = (case incident_row s iid tenant of None \<Rightarrow> Inl (NotFound ''incident not found'') | Some r \<Rightarrow> Inr r)"

definition resolve_incident :: "env \<Rightarrow> string \<Rightarrow> string \<Rightarrow> string \<Rightarrow> incident \<Rightarrow> incident" where
  "resolve_incident e status actor rationale r =
     r\<lparr>ic_status := status, ic_actor_ref := Some actor, ic_resolution_rationale := Some rationale,
       ic_closed_at := (if status = ''closed'' then Some (db_now e) else ic_closed_at r), ic_last_seen := db_text (env_now e)\<rparr>"

definition set_incident_status :: "env \<Rightarrow> string \<Rightarrow> string \<Rightarrow> string \<Rightarrow> string \<Rightarrow> string option \<Rightarrow> db \<Rightarrow> (db \<times> incident) res" where
  "set_incident_status e iid status actor rationale tenant s =
     (case incident_row s iid tenant of
        None \<Rightarrow> Inl (NotFound ''incident not found'')
      | Some _ \<Rightarrow>
          let s1 = s\<lparr>governance_incidents := update_where (\<lambda>r. Some (ic_tenant_id r) = tenant \<and> ic_id r = iid)
                       (resolve_incident e status actor rationale) (governance_incidents s)\<rparr>
          in (case incident_row s1 iid tenant of None \<Rightarrow> Inl TypeErr | Some r \<Rightarrow> Inr (s1, r)))"

definition closed_notice :: "env \<Rightarrow> actor_context \<Rightarrow> incident \<Rightarrow> string \<Rightarrow> string \<Rightarrow> notice" where
  "closed_notice e a r iid rationale =
     \<lparr>no_tenant = Some (ic_tenant_id r), no_event = ''incident.closed'', no_subject = ''Incident closed: '' @ or_str (Some (ic_title r)) iid,
      no_text = ac_user_ref a @ '' closed the incident for '' @ ic_application_name r @ '' / '' @ ic_workflow_name r @ ''.'' @
        [CHR 0x0A, CHR 0x0A] @ ''Rationale: '' @ rationale,
      no_data = JObj [(''incident_id'', JStr iid), (''application_name'', JStr (ic_application_name r)), (''severity'', JStr (ic_severity r)),
        (''closed_by'', JStr (ac_user_ref a))],
      no_to_users = [], no_to_roles = [''org_admin'', ''risk_owner''], no_link = Some (public_base_url e @ ''/#incident/'' @ iid)\<rparr>"

definition close_incident ::
  "env \<Rightarrow> actor_context \<Rightarrow> string \<Rightarrow> string \<Rightarrow> db \<Rightarrow> (db \<times> incident \<times> governance_decision \<times> audit_req) res" where
  "close_incident e a iid rationale s =
     ebind (load_incident s iid (ac_tenant_id a)) (\<lambda>r.
     ebind (require_decision s a (auth_target (incident_target r))) (\<lambda>_.
     ebind (enforce_segregation_of_duties s a (incident_target r)) (\<lambda>_.
     ebind (set_incident_status e iid ''closed'' (ac_user_ref a) rationale (ac_tenant_id a) s) (\<lambda>(s1, updated).
     ebind (record_decision e ''incident'' iid ''close'' rationale (ac_user_ref a) (ac_tenant_id a) s1) (\<lambda>(s2, d).
     Inr (emitted e (closed_notice e a r iid rationale) s2, updated, d,
       audit_entry (ac_user_ref a) ''incident.close'' (Some (ic_tenant_id r)) ''incident'' iid None))))))"

definition incident_owner :: "db \<Rightarrow> incident \<Rightarrow> (string option \<times> string) option" where
  "incident_owner s r =
     (case rev (sort_key oa_updated_at (filter (\<lambda>o'. oa_subject_type o' = ''incident'' \<and> oa_subject_name o' = ic_id r \<and>
            or_str (oa_tenant_id o') [] = ic_tenant_id r \<and> oa_project o' = ic_project r \<and> oa_environment o' = ic_environment r) (owner_assignments s))) of
        [] \<Rightarrow> None | o' # _ \<Rightarrow> Some (oa_owner_ref o', oa_status o'))"

definition readable_description :: "incident \<Rightarrow> json" where
  "readable_description r = (case ic_description_summary r of JObj d \<Rightarrow> dget d ''content'' JNull | _ \<Rightarrow> JNull)"

text \<open>\<open>LIMIT n OFFSET k\<close>\<close>

definition page_of :: "nat option \<Rightarrow> nat \<Rightarrow> 'a list \<Rightarrow> 'a list" where
  "page_of limit offset rows = (case limit of None \<Rightarrow> rows | Some n \<Rightarrow> take n (drop offset rows))"

definition list_incidents ::
  "scope_filter \<Rightarrow> nat option \<Rightarrow> nat \<Rightarrow> db \<Rightarrow> (incident \<times> (string option \<times> string) option \<times> json) list" where
  "list_incidents f limit offset s =
     map (\<lambda>r. (r, incident_owner s r, readable_description r)) (page_of limit offset
       (rev (sort_key ic_last_seen (filter (\<lambda>r. (nonempty (sf_tenant_id f) \<longrightarrow> Some (ic_tenant_id r) = sf_tenant_id f) \<and>
          (nonempty (sf_project f) \<longrightarrow> Some (ic_project r) = sf_project f) \<and>
          (nonempty (sf_environment f) \<longrightarrow> Some (ic_environment r) = sf_environment f)) (governance_incidents s)))))"

end
