(* ===== verification/Incident_Properties.thy ===== *)
theory Incident_Properties
  imports Incidents Decision_Properties
begin

text \<open>
  Properties of incidents: reports never reopen a closed incident nor touch another organization's, and
  what a close request changes.
\<close>

section \<open>What leaves the incidents alone\<close>

lemma notify_intake_decided_incidents [simp]:
  "governance_incidents (notify_intake_decided e i k st s) = governance_incidents s"
  by (simp add: notify_intake_decided_def Let_def split: option.splits)

lemma record_close_incidents:
  assumes "record_decision e ''incident'' k ''close'' rationale actor tenant s = Inr (s', d)"
  shows "governance_incidents s' = governance_incidents s"
proof (cases "by_key gd_id (decision_id e ''incident'' k ''close'' rationale actor) (governance_decisions s)")
  case None
  then show ?thesis using assms
    by (auto simp: record_decision_def Let_def ebind_eq_Inr sync_decision_to_stages_def apply_decision_status_def split: option.splits)
qed (use assms in \<open>auto simp: record_decision_def Let_def ebind_eq_Inr\<close>)

section \<open>Reports and closing as updates of the table\<close>

lemma merge_incident_cols [simp]:
  "ic_key (merge_incident n r) = ic_key r" "ic_trace_id (merge_incident n r) = ic_trace_id r" "ic_first_seen (merge_incident n r) = ic_first_seen r"
  "ic_closed_at (merge_incident n r) = ic_closed_at r" "ic_actor_ref (merge_incident n r) = ic_actor_ref r"
  "ic_resolution_rationale (merge_incident n r) = ic_resolution_rationale r"
  "ic_status (merge_incident n r) = (if ic_status r = ''closed'' then ''closed'' else ic_status n)"
  by (simp_all add: merge_incident_def ic_key_def)

lemma resolve_incident_cols [simp]:
  "ic_key (resolve_incident e st a x r) = ic_key r" "ic_trace_id (resolve_incident e st a x r) = ic_trace_id r"
  "ic_first_seen (resolve_incident e st a x r) = ic_first_seen r" "ic_status (resolve_incident e st a x r) = st"
  by (simp_all add: resolve_incident_def ic_key_def)

lemma report_incident_effect:
  assumes "upsert_incident_event e rt v s = Inr s'"
  obtains (none) "governance_incidents s' = governance_incidents s"
    | (row) n status nt where "incident_report e rt v s = Inr (Some (n, status, nt))"
        "governance_incidents s' = upsert ic_key (merge_incident n) n (governance_incidents s)"
proof (cases "incident_report e rt v s")
  case (Inl x)
  then show thesis using assms by (simp add: upsert_incident_event_def)
next
  case (Inr y)
  show thesis
  proof (cases y)
    case None
    then show thesis using none assms Inr by (simp add: upsert_incident_event_def)
  next
    case (Some p)
    obtain n status nt where p: "p = (n, status, nt)" by (metis prod_cases3)
    show thesis using row [of n status nt] assms Inr Some p by (auto simp: upsert_incident_event_def Let_def split: if_splits)
  qed
qed

lemma incident_report_tenant:
  assumes r: "incident_report e rt v s = Inr (Some (n, status, nt))"
    and a: "tm_attributes v = JObj attrs" "dget attrs ''metadata'' JNull = JObj meta" "dget meta ''tenant_id'' JNull = JStr t"
  shows "ic_tenant_id n = t \<and> ic_closed_at n = None"
proof -
  have "attrs \<noteq> []" "meta \<noteq> []" using a by auto
  then have py: "py_or (tm_attributes v) (JObj []) = JObj attrs" using a(1) by (simp add: py_or_def)
  have "py_or (JStr t) (JStr []) = JStr t" by (simp add: py_or_def)
  then show ?thesis using r unfolding incident_report_def Let_def py jget.simps ebind_simps a(2) as_object_JObj a(3)
    by (auto simp: ebind_eq_Inr split: if_splits)
qed

lemma close_incident_effect:
  assumes "close_incident e a iid rationale s = Inr (s', r, d, q)"
  obtains t old where "ac_tenant_id a = Some t" "t \<noteq> []" "incident_row s iid (Some t) = Some old"
    "require_decision s a (auth_target (incident_target old)) = Inr ()" "enforce_segregation_of_duties s a (incident_target old) = Inr ()"
    "governance_incidents s' = update_where (\<lambda>r. Some (ic_tenant_id r) = Some t \<and> ic_id r = iid)
       (resolve_incident e ''closed'' (ac_user_ref a) rationale) (governance_incidents s)"
proof -
  obtain old s1 s2 where x: "load_incident s iid (ac_tenant_id a) = Inr old" "require_decision s a (auth_target (incident_target old)) = Inr ()"
    "enforce_segregation_of_duties s a (incident_target old) = Inr ()"
    "set_incident_status e iid ''closed'' (ac_user_ref a) rationale (ac_tenant_id a) s = Inr (s1, r)"
    "record_decision e ''incident'' iid ''close'' rationale (ac_user_ref a) (ac_tenant_id a) s1 = Inr (s2, d)"
    "s' = emitted e (closed_notice e a old iid rationale) s2"
    using assms by (auto simp: close_incident_def ebind_eq_Inr)
  obtain t where t: "ac_tenant_id a = Some t" "t \<noteq> []"
    using x(1) by (cases "ac_tenant_id a") (auto simp: load_incident_def incident_row_def split: if_splits)
  have row: "incident_row s iid (Some t) = Some old" using x(1) t by (simp add: load_incident_def split: option.splits)
  have "governance_incidents s1 = update_where (\<lambda>r. Some (ic_tenant_id r) = Some t \<and> ic_id r = iid)
       (resolve_incident e ''closed'' (ac_user_ref a) rationale) (governance_incidents s)"
    using x(4) row t(1) by (auto simp: set_incident_status_def Let_def split: option.splits)
  then show thesis using that [OF t row x(2,3)] record_close_incidents [OF x(5)] x(6) by simp
qed

section \<open>Runs\<close>

datatype incident_op =
    IcReport int "telemetry list"
  | IcClose int actor_context string string

fun incident_exec :: "env \<Rightarrow> (rat \<Rightarrow> string) \<Rightarrow> incident_op \<Rightarrow> db \<Rightarrow> db res" where
  "incident_exec e rt (IcReport t vs) s = process_incident_events (at_time e t) rt vs s"
| "incident_exec e rt (IcClose t a iid rationale) s = ebind (close_incident (at_time e t) a iid rationale s) (\<lambda>r. Inr (fst r))"

definition incident_step :: "env \<Rightarrow> (rat \<Rightarrow> string) \<Rightarrow> incident_op \<Rightarrow> db \<Rightarrow> db" where
  "incident_step e rt op s = (case incident_exec e rt op s of Inl _ \<Rightarrow> s | Inr s' \<Rightarrow> s')"

definition incidents_kept :: "db \<Rightarrow> db \<Rightarrow> bool" where
  "incidents_kept s s' \<longleftrightarrow> (\<forall>r\<in>set (governance_incidents s). \<exists>r'\<in>set (governance_incidents s'). ic_key r' = ic_key r \<and>
     ic_trace_id r' = ic_trace_id r \<and> ic_first_seen r' = ic_first_seen r \<and> (ic_status r = ''closed'' \<longrightarrow> ic_status r' = ''closed''))"

abbreviation incidents_pk :: "db \<Rightarrow> bool" where
  "incidents_pk s \<equiv> pk ic_key (governance_incidents s)"

lemma incidents_kept_refl: "incidents_kept s s"
  by (auto simp: incidents_kept_def)

lemma incidents_kept_trans: "incidents_kept s t \<Longrightarrow> incidents_kept t u \<Longrightarrow> incidents_kept s u"
  unfolding incidents_kept_def by metis

lemma incidents_kept_update:
  assumes "governance_incidents s' = update_where p f (governance_incidents s)"
    and "\<And>r. p r \<Longrightarrow> ic_key (f r) = ic_key r \<and> ic_trace_id (f r) = ic_trace_id r \<and> ic_first_seen (f r) = ic_first_seen r \<and>
      (ic_status r = ''closed'' \<longrightarrow> ic_status (f r) = ''closed'')"
  shows "incidents_kept s s'"
  unfolding incidents_kept_def
proof
  fix r assume r: "r \<in> set (governance_incidents s)"
  show "\<exists>r'\<in>set (governance_incidents s'). ic_key r' = ic_key r \<and>
     ic_trace_id r' = ic_trace_id r \<and> ic_first_seen r' = ic_first_seen r \<and> (ic_status r = ''closed'' \<longrightarrow> ic_status r' = ''closed'')"
  proof (cases "p r")
    case True
    then show ?thesis using update_where_hits [of r _ p f, OF r True] assms by metis
  next
    case False
    then show ?thesis using update_where_keeps [of r _ p f, OF r False] assms(1) by metis
  qed
qed

lemma report_kept:
  assumes "upsert_incident_event e rt v s = Inr s'"
  shows "incidents_kept s s' \<and> (incidents_pk s \<longrightarrow> incidents_pk s')"
  using assms
proof (cases rule: report_incident_effect)
  case none
  then show ?thesis by (auto simp: incidents_kept_def)
next
  case (row n status nt)
  have "incidents_kept s s'"
  proof (cases "ic_key n \<in> set (map ic_key (governance_incidents s))")
    case True
    then show ?thesis
      using row(2) incidents_kept_update [of s' "\<lambda>x. ic_key x = ic_key n" "merge_incident n" s] by (simp add: upsert_def)
  next
    case False
    then show ?thesis using row(2) by (auto simp: upsert_def incidents_kept_def)
  qed
  then show ?thesis using row(2) pk_upsert [of ic_key "governance_incidents s" "merge_incident n" n] by simp
qed

lemma incident_exec_kept:
  assumes "incident_exec e rt op s = Inr s'"
  shows "incidents_kept s s' \<and> (incidents_pk s \<longrightarrow> incidents_pk s')"
proof (cases op)
  case (IcReport t vs)
  then have r: "efold (upsert_incident_event (at_time e t) rt) (filter (\<lambda>v. tm_type v = ''incident.event'') vs) s = Inr s'"
    using assms by (simp add: process_incident_events_def)
  show ?thesis
    by (rule efold_frame [OF _ _ _ r, where P = "\<lambda>s s'. incidents_kept s s' \<and> (incidents_pk s \<longrightarrow> incidents_pk s')"])
      (auto dest: report_kept incidents_kept_trans simp: incidents_kept_refl)
next
  case (IcClose t a iid rationale)
  then obtain r d q where c: "close_incident (at_time e t) a iid rationale s = Inr (s', r, d, q)" using assms by (auto simp: ebind_eq_Inr)
  show ?thesis
    by (rule close_incident_effect [OF c]) (auto intro!: incidents_kept_update pk_update_where)
qed

interpretation incidents: monotone_ops "incident_step e rt" incidents_pk incidents_kept for e rt
proof
  fix s t u :: db and op
  show "incidents_kept s s" by (rule incidents_kept_refl)
  show "incidents_kept s t \<Longrightarrow> incidents_kept t u \<Longrightarrow> incidents_kept s u" by (rule incidents_kept_trans)
  assume "incidents_pk s"
  then show "incidents_pk (incident_step e rt op s)" "incidents_kept s (incident_step e rt op s)"
    using incident_exec_kept [of e rt op s] by (auto simp: incident_step_def incidents_kept_refl split: sum.split)
qed

text \<open>
  C37: over any sequence of incident reports and close requests, an incident keeps its identity, first
  trace and first time, incidents stay unique in their organization, project and environment, and a closed one is
  never reopened, whatever status later telemetry reports.
\<close>

theorem closed_incident_stays_closed:
  assumes "incidents_pk s"
  shows "incidents_kept s (fold (incident_step e rt) ops s) \<and> incidents_pk (fold (incident_step e rt) ops s)"
  using incidents.run_rel [OF assms] incidents.run_inv [OF assms] by blast

section \<open>Incidents with the same id\<close>

text \<open>
  The status change is bound to the organization and the id, so a close request closes the incidents of
  that id in every project and environment, although the permission was checked for one of them.
\<close>

definition reported_incident :: "string \<Rightarrow> telemetry" where
  "reported_incident project = \<lparr>tm_type = ''incident.event'', tm_schema_version = ''1'', tm_trace_id = ''t1'', tm_span_id = project,
     tm_timestamp = ''2026-01-01T00:00:00Z'', tm_service = ''svc'', tm_environment = ''prod'', tm_project = project, tm_parent_span_id = None,
     tm_system = None, tm_name = None, tm_status = ''open'', tm_duration_ms = None,
     tm_attributes = JObj [(''incident_id'', JStr ''INC-1''), (''metadata'', JObj [(''tenant_id'', JStr ''acme''), (''application_name'', JStr ''app''),
       (''workflow_name'', JStr ''chat'')])]\<rparr>"

definition incident_org :: db where
  "incident_org = empty_db\<lparr>platform_users := [sample_user ''bob''],
     role_assignments := [(sample_grant ''bob'' ''risk_owner'')\<lparr>ra_project := Some ''p2''\<rparr>],
     role_permissions := [\<lparr>rp_role = ''risk_owner'', rp_permission = ''incident.close''\<rparr>]\<rparr>"

definition incident_run :: "incident_op list" where
  "incident_run = [IcReport 1 [reported_incident ''p1'', reported_incident ''p2''], IcClose 2 (sample_actor ''bob'') ''INC-1'' ''fixed'',
     IcReport 3 [reported_incident ''p1'']]"

lemma namesakes_closed:
  "map (\<lambda>r. (ic_project r, ic_status r, ic_actor_ref r)) (governance_incidents (fold (incident_step (sample_env 0) (\<lambda>_. [])) incident_run incident_org)) =
     [(''p1'', ''closed'', Some ''bob''), (''p2'', ''closed'', Some ''bob'')]"
  by code_simp

theorem closed_incident_stays_closed_witness:
  "incidents_kept incident_org (fold (incident_step (sample_env 0) (\<lambda>_. [])) incident_run incident_org) \<and>
   map ic_status (governance_incidents (fold (incident_step (sample_env 0) (\<lambda>_. [])) incident_run incident_org)) = [''closed'', ''closed'']"
proof -
  have "incidents_pk incident_org" by (simp add: incident_org_def empty_db_def pk_def)
  from closed_incident_stays_closed [OF this] namesakes_closed show ?thesis by auto
qed

end
