(* ===== verification/Time_Text.thy ===== *)
theory Time_Text
  imports Timestamps
begin

text \<open>
  Reading an instant back: \<open>datetime.fromisoformat\<close> on the texts that \<open>isoformat\<close> writes for an UTC instant, and that
  it gives the instant again.
\<close>

definition clock_of :: "string \<Rightarrow> int option" where
  "clock_of s =
     (case (digits (substr s 0 2), digits (substr s 3 2), digits (substr s 6 2)) of
        (Some h, Some m, Some sec) \<Rightarrow>
          if length s = 8 \<and> s ! 2 = CHR '':'' \<and> s ! 5 = CHR '':'' \<and> h < 24 \<and> m < 60 \<and> sec < 60 then Some (h * 3600 + m * 60 + sec) else None
      | _ \<Rightarrow> None)"

definition instant_of :: "string \<Rightarrow> int option" where
  "instant_of s =
     (case (date_fromisoformat (substr s 0 10), clock_of (substr s 11 8)) of
        (Some d, Some sec) \<Rightarrow>
          (let whole = ((d - epoch_day) * 86400 + sec) * usec_per_sec; rest = drop 19 s in
           if s ! 10 \<noteq> CHR ''T'' then None
           else if rest = ''+00:00'' then Some whole
           else if length rest = 13 \<and> hd rest = CHR ''.'' \<and> drop 7 rest = ''+00:00''
                then map_option (\<lambda>us. whole + us) (digits (substr rest 1 6)) else None)
      | _ \<Rightarrow> None)"

section \<open>The calendar\<close>

lemma month_day_spec:
  assumes "ls \<noteq> []" "0 \<le> n" "n < sum_list ls" "\<forall>l\<in>set ls. 0 < l"
  shows "\<exists>i < length ls. month_day ls m n = (m + int i, n - sum_list (take i ls) + 1) \<and> 0 \<le> n - sum_list (take i ls) \<and> n - sum_list (take i ls) < ls ! i"
  using assms
proof (induction ls arbitrary: m n)
  case (Cons l ls)
  show ?case
  proof (cases "n < l")
    case True
    then show ?thesis using Cons.prems by (intro exI [of _ 0]) simp
  next
    case False
    then have ne: "ls \<noteq> []" using Cons.prems by auto
    then obtain i where i: "i < length ls" "month_day ls (m + 1) (n - l) = (m + 1 + int i, n - l - sum_list (take i ls) + 1)"
      "0 \<le> n - l - sum_list (take i ls)" "n - l - sum_list (take i ls) < ls ! i"
      using Cons.IH [of "n - l" "m + 1"] Cons.prems False by auto
    then show ?thesis using False ne by (intro exI [of _ "Suc i"]) auto
  qed
qed simp

lemma month_lengths_facts: "length (month_lengths b) = 12" "sum_list (month_lengths b) = (if b then 366 else 365)" "\<forall>l\<in>set (month_lengths b). 0 < l"
  by (auto simp: month_lengths_def)

lemma cycle_year:
  fixes a b c d :: int
  assumes "0 \<le> b" "b \<le> 3" "0 \<le> c" "c \<le> 24" "0 \<le> d" "d \<le> 3"
  shows "days_before_year (a * 400 + b * 100 + c * 4 + d + 1) = 146097 * a + 36524 * b + 1461 * c + 365 * d"
    and "d = 3 \<Longrightarrow> c < 24 \<or> b = 3 \<Longrightarrow> is_leap (a * 400 + b * 100 + c * 4 + d + 1)"
proof -
  let ?k = "a * 400 + b * 100 + c * 4 + d"
  have 4: "?k div 4 = a * 100 + b * 25 + c" using assms by linarith
  have 100: "?k div 100 = a * 4 + b" using assms by linarith
  have 400: "?k div 400 = a" using assms by linarith
  show "days_before_year (?k + 1) = 146097 * a + 36524 * b + 1461 * c + 365 * d"
    unfolding days_before_year_def Let_def add_diff_cancel_right' 4 100 400 by simp
  assume d: "d = 3" and cb: "c < 24 \<or> b = 3"
  have "(?k + 1) mod 4 = 0" using d by presburger
  moreover have "(?k + 1) mod 100 \<noteq> 0" if "c < 24"
  proof -
    have eq: "?k + 1 = c * 4 + 4 + (a * 4 + b) * 100" using d by simp
    have rest: "(c * 4 + 4 + (a * 4 + b) * 100) mod 100 = c * 4 + 4"
      unfolding mod_mult_self1 using that assms by (intro mod_pos_pos_trivial) linarith+
    show ?thesis unfolding eq rest using assms by linarith
  qed
  moreover have "(?k + 1) mod 400 = 0" if "b = 3" "c = 24" using that d by presburger
  ultimately show "is_leap (?k + 1)" using cb assms(4) unfolding is_leap_def by (metis order_le_less)
qed

lemma ord2ymd_inverse:
  assumes "0 \<le> n" "ord2ymd n = (y, m, d)"
  shows "days_before_year y + days_before_month y m + d - 1 = n" "1 \<le> m" "m \<le> 12" "1 \<le> d" "d \<le> month_lengths (is_leap y) ! nat (m - 1)"
    "1 \<le> y" "n \<le> MAX_DAY \<Longrightarrow> y \<le> 9999"
proof -
  define a where "a = n div 146097"
  define r where "r = n mod 146097"
  define b where "b = min (r div 36524) 3"
  define r1 where "r1 = r - b * 36524"
  define c where "c = r1 div 1461"
  define r2 where "r2 = r1 mod 1461"
  define k where "k = min (r2 div 365) 3"
  define r3 where "r3 = r2 - k * 365"
  have y: "y = a * 400 + b * 100 + c * 4 + k + 1" and md: "month_day (month_lengths (is_leap y)) 1 r3 = (m, d)"
    using assms(2) unfolding ord2ymd_def Let_def a_def b_def c_def k_def r_def r1_def r2_def r3_def by (auto split: prod.splits)
  have n: "n = 146097 * a + r" and r: "0 \<le> r" "r < 146097" by (simp_all add: a_def r_def)
  have b: "0 \<le> b" "b \<le> 3" using r by (simp_all add: b_def pos_imp_zdiv_nonneg_iff)
  have r1: "0 \<le> r1" "r1 \<le> 36524" "r1 = 36524 \<longrightarrow> b = 3"
  proof -
    have "0 \<le> r mod 36524" "r mod 36524 < 36524" by simp_all
    then have "r div 36524 * 36524 \<le> r" "r < (r div 36524 + 1) * 36524" using div_mult_mod_eq [of r 36524] unfolding distrib_right by linarith+
    then show "0 \<le> r1" "r1 \<le> 36524" "r1 = 36524 \<longrightarrow> b = 3" using r unfolding r1_def b_def by (auto simp: min_def split: if_splits)
  qed
  have c: "0 \<le> c" "c \<le> 24" using r1 unfolding c_def by linarith+
  have r1': "r1 = 1461 * c + r2" and r2: "0 \<le> r2" "r2 < 1461" by (simp_all add: c_def r2_def)
  have k: "0 \<le> k" "k \<le> 3" using r2 by (simp_all add: k_def pos_imp_zdiv_nonneg_iff)
  have r3: "0 \<le> r3" "r3 \<le> 365" "r3 = 365 \<longrightarrow> k = 3 \<and> r2 = 1460"
  proof -
    have "0 \<le> r2 mod 365" "r2 mod 365 < 365" by simp_all
    then have "r2 div 365 * 365 \<le> r2" "r2 < (r2 div 365 + 1) * 365" using div_mult_mod_eq [of r2 365] unfolding distrib_right by linarith+
    then show "0 \<le> r3" "r3 \<le> 365" "r3 = 365 \<longrightarrow> k = 3 \<and> r2 = 1460" using r2 unfolding r3_def k_def by (auto simp: min_def split: if_splits)
  qed
  have year: "days_before_year y + r3 = n"
    using cycle_year(1) [OF b c k, of a] n r1' unfolding y r1_def r3_def by simp
  have "r3 < sum_list (month_lengths (is_leap y))"
  proof (cases "r3 = 365")
    case True
    then have "k = 3" "c < 24 \<or> b = 3" using r3(3) r1 r1' c(2) by auto
    then have "is_leap y" using cycle_year(2) [OF b c k] unfolding y by blast
    then show ?thesis using True by (simp add: month_lengths_facts)
  qed (use r3 in \<open>simp add: month_lengths_facts\<close>)
  then obtain i where i: "i < 12" "m = 1 + int i" "d = r3 - sum_list (take i (month_lengths (is_leap y))) + 1"
    "0 \<le> r3 - sum_list (take i (month_lengths (is_leap y)))" "r3 - sum_list (take i (month_lengths (is_leap y))) < month_lengths (is_leap y) ! i"
    using month_day_spec [of "month_lengths (is_leap y)" r3 1] r3(1) md month_lengths_facts [of "is_leap y"] by (auto simp: month_lengths_def)
  then have idx: "nat (m - 1) = i" by simp
  show "days_before_year y + days_before_month y m + d - 1 = n" "1 \<le> m" "m \<le> 12" "1 \<le> d" "d \<le> month_lengths (is_leap y) ! nat (m - 1)"
    using i year by (simp_all add: days_before_month_def idx)
  show "1 \<le> y" unfolding y using b c k assms(1) by (simp add: a_def pos_imp_zdiv_nonneg_iff)
  show "y \<le> 9999" if "n \<le> MAX_DAY"
  proof (rule ccontr)
    assume "\<not> y \<le> 9999"
    then have "10000 \<le> a * 400 + b * 100 + c * 4 + k + 1" unfolding y by simp
    then have "3652059 \<le> 146097 * a + 36524 * b + 1461 * c + 365 * k" using b c k by linarith
    then show False using that n r1(1) r1' r2 r3 unfolding MAX_DAY_def r1_def r3_def by linarith
  qed
qed

section \<open>Numbers\<close>

lemma digit_char_facts: "is_digit (digit_char n)" "int (of_char (digit_char n)) - 48 = int n mod 10"
proof -
  have "n mod 10 \<le> 9" by simp
  then show "is_digit (digit_char n)" unfolding is_digit_def of_char_digit_char by linarith
  show "int (of_char (digit_char n)) - 48 = int n mod 10"
    unfolding of_char_digit_char by (simp add: zmod_int)
qed

lemma pad_nat_facts: "length (pad_nat w n) = w" "list_all is_digit (pad_nat w n)"
  by (induction w n rule: pad_nat.induct) (simp_all add: digit_char_facts del: digit_char.simps)

lemma pad_nat_value: "n < 10 ^ w \<Longrightarrow> foldl (\<lambda>k c. k * 10 + (int (of_char c) - 48)) 0 (pad_nat w n) = int n"
proof (induction w n rule: pad_nat.induct)
  case (2 w n)
  then have "n div 10 < 10 ^ w" by (simp add: less_mult_imp_div_less mult.commute)
  then show ?case using 2(1) by (simp add: digit_char_facts zdiv_int zmod_int del: digit_char.simps of_char_digit_char)
qed simp

lemma length_pad [simp]: "length (pad w i) = w"
  by (simp add: pad_def pad_nat_facts)

lemma digits_pad: "0 < w \<Longrightarrow> 0 \<le> i \<Longrightarrow> i < 10 ^ w \<Longrightarrow> digits (pad w i) = Some i"
  unfolding digits_def pad_def using pad_nat_facts [of w "nat i"] pad_nat_value [of "nat i" w]
  by (auto simp: nat_less_iff)

lemma digit_not_W: "CHR ''W'' \<notin> set (pad w i)"
  using pad_nat_facts(2) [of w "nat i"] by (auto simp: pad_def list_all_iff is_digit_def)

section \<open>The round trip\<close>

lemma substr_append: "substr (xs @ ys) i n = (if i < length xs then take n (drop i xs) @ take (n - (length xs - i)) ys else substr ys (i - length xs) n)"
  by (simp add: substr_def)

lemma date_text_read:
  assumes "0 \<le> y" "y \<le> 9999" "0 \<le> m" "m < 100" "0 \<le> d" "d < 100"
  shows "date_fromisoformat (pad 4 y @ ''-'' @ pad 2 m @ ''-'' @ pad 2 d) = make_date y m d"
proof -
  have W: "take (Suc 0) (pad 2 m) \<noteq> ''W''" using digit_not_W [of 2 m] by (metis in_set_takeD list.set_intros(1))
  show ?thesis using assms W
    unfolding date_fromisoformat_def by (simp add: substr_append digits_pad substr_def Let_def)
qed

lemma clock_text_read:
  assumes "0 \<le> h" "h < 24" "0 \<le> m" "m < 60" "0 \<le> s" "s < 60"
  shows "clock_of (pad 2 h @ '':'' @ pad 2 m @ '':'' @ pad 2 s) = Some (h * 3600 + m * 60 + s)"
  using assms unfolding clock_of_def by (simp add: substr_append digits_pad substr_def nth_append)

lemma instant_read:
  assumes "0 \<le> t div (86400 * usec_per_sec) + epoch_day" "t div (86400 * usec_per_sec) + epoch_day \<le> MAX_DAY"
  shows "instant_of (isoformat t) = Some t"
proof -
  define day where "day = t div usec_per_sec div 86400"
  define sod where "sod = t div usec_per_sec mod 86400"
  obtain y m d where ymd: "ord2ymd (day + epoch_day) = (y, m, d)" by (metis prod_cases3)
  have day: "0 \<le> day + epoch_day" "day + epoch_day \<le> MAX_DAY"
    using assms by (simp_all add: day_def zdiv_zmult2_eq [symmetric])
  note inv = ord2ymd_inverse [OF day(1) ymd]
  have "month_lengths (is_leap y) ! nat (m - 1) \<le> 31"
  proof -
    have "nat (m - 1) < length (month_lengths (is_leap y))" using inv(2,3) by (simp add: month_lengths_facts)
    then have "month_lengths (is_leap y) ! nat (m - 1) \<in> set (month_lengths (is_leap y))" by simp
    moreover have "\<forall>l\<in>set (month_lengths b). l \<le> 31" for b by (simp add: month_lengths_def)
    ultimately show ?thesis by blast
  qed
  then have small: "d \<le> 31" using inv(5) by linarith
  have date: "date_fromisoformat (pad 4 y @ ''-'' @ pad 2 m @ ''-'' @ pad 2 d) = Some (day + epoch_day)"
    using inv day(2) small by (subst date_text_read) (simp_all add: make_date_def)
  have sod: "0 \<le> sod" "sod < 86400" by (simp_all add: sod_def)
  have "sod mod 60 = sod mod 3600 mod 60" by (simp add: mod_mod_cancel)
  then have hms: "sod div 3600 * 3600 + sod mod 3600 div 60 * 60 + sod mod 60 = sod"
    by (metis add.assoc div_mult_mod_eq)
  have "sod mod 3600 < 3600" "0 \<le> sod mod 3600" by simp_all
  then have h: "0 \<le> sod div 3600" "sod div 3600 < 24" "0 \<le> sod mod 3600 div 60" "sod mod 3600 div 60 < 60"
    using sod by linarith+
  have clock: "clock_of (clock_text (civil_of t)) = Some sod"
    unfolding clock_text_def civil_of_def Let_def day_def [symmetric] sod_def [symmetric] ymd
    by simp (use clock_text_read [OF h, of "sod mod 60"] hms in simp)
  have parts: "date_text (civil_of t) = pad 4 y @ ''-'' @ pad 2 m @ ''-'' @ pad 2 d" "cv_micro (civil_of t) = t mod usec_per_sec"
    unfolding date_text_def civil_of_def Let_def day_def [symmetric] sod_def [symmetric] ymd by simp_all
  have lens: "length (date_text c) = 10" "length (clock_text c) = 8" for c
    by (simp_all add: date_text_def clock_text_def)
  have whole: "(day * 86400 + sod) * usec_per_sec + t mod usec_per_sec = t"
    unfolding day_def sod_def div_mult_mod_eq ..
  show ?thesis
    using date clock whole unfolding instant_of_def isoformat_def iso_civil_def parts(1) [symmetric]
    by (simp add: substr_append lens) (simp add: Let_def lens nth_append parts(2) substr_def digits_pad)
qed

end
