(* ===== verification/Audit_Log.thy ===== *)
theory Audit_Log
  imports Attestation Time_Text
begin

text \<open>
  The audit log (storage/audit.py) and its checkpoint journal (storage/audit_checkpoint.py): rows
  chained by a hash of their content and of the row before, signed with a key outside the database, and
  signed heads of the chain in a file outside the database. SHA-256 and HMAC are the functions of the
  environment.
\<close>

section \<open>State\<close>

record audit_row =
  al_id :: int
  al_created_at :: string
  al_actor_ref :: string
  al_tenant_id :: "string option"
  al_action :: string
  al_target_type :: "string option"
  al_target_id :: "string option"
  al_detail :: "string option"
  al_prev_hash :: "string option"
  al_row_hash :: "string option"
  al_row_hmac :: "string option"
  al_hmac_key_id :: "string option"
  al_hash_version :: "int option"

text \<open>
  The journal as its lines are read back: each a JSON value, and how the file ends. A file that does not exist
  is None. \<open>au_seq\<close> is the largest row id given out.
\<close>

datatype journal_end = Complete | MissingNewline | Torn

record journal =
  jn_lines :: "json list"
  jn_end :: journal_end

record audit_store =
  au_rows :: "audit_row list"
  au_seq :: int
  au_journal :: "journal option"

text \<open>
  The configuration: the variables \<open>NORINTH_SECRET_KEY\<close>, \<open>NORINTH_AUDIT_HMAC_KEYS\<close> (as it reads as JSON, None
  inside when it does not), \<open>NORINTH_AUDIT_HMAC_PRIMARY\<close>, and whether \<open>NORINTH_AUDIT_CHECKPOINT_PATH\<close> is set.
\<close>

record audit_config =
  cf_secret_key :: "string option"
  cf_hmac_keys :: "json option option"
  cf_hmac_primary :: "string option"
  cf_checkpoint_path :: bool

section \<open>Keys\<close>

type_synonym keyring = "(string \<times> string) list"

definition ring_set :: "string \<Rightarrow> string \<Rightarrow> keyring \<Rightarrow> keyring" where
  "ring_set k v ring = (k, v) # filter (\<lambda>p. fst p \<noteq> k) ring"

definition add_key :: "string \<times> json \<Rightarrow> keyring \<Rightarrow> keyring res" where
  "add_key = (\<lambda>(kid, value) ring.
     if kid = [] then Inl (RuntimeErr ''audit hmac key ids must be non-empty strings'')
     else case value of JStr v \<Rightarrow> Inr (ring_set kid v ring) | _ \<Rightarrow> Inl AttributeErr)"

definition audit_keyring :: "audit_config \<Rightarrow> keyring res" where
  "audit_keyring c =
     (let ring = (if nonempty (cf_secret_key c) then [(''legacy'', or_str (cf_secret_key c) [])] else []) in
      case cf_hmac_keys c of
        None \<Rightarrow> Inr ring
      | Some None \<Rightarrow> Inl (RuntimeErr ''NORINTH_AUDIT_HMAC_KEYS is not valid JSON'')
      | Some (Some (JObj entries)) \<Rightarrow>
          if entries = [] then Inl (RuntimeErr ''NORINTH_AUDIT_HMAC_KEYS must be a non-empty JSON object of {id: secret}'')
          else efold add_key entries ring
      | Some (Some _) \<Rightarrow> Inl (RuntimeErr ''NORINTH_AUDIT_HMAC_KEYS must be a non-empty JSON object of {id: secret}''))"

definition audit_primary_id :: "audit_config \<Rightarrow> string option res" where
  "audit_primary_id c =
     ebind (audit_keyring c) (\<lambda>ring.
     if nonempty (cf_hmac_primary c) then
       (let explicit = or_str (cf_hmac_primary c) [] in
        if map_of ring explicit = None
        then Inl (RuntimeErr (''NORINTH_AUDIT_HMAC_PRIMARY '' @ sq @ explicit @ sq @ '' is not in the audit hmac keyring''))
        else Inr (Some explicit))
     else if cf_hmac_keys c \<noteq> None
     then Inl (RuntimeErr ''NORINTH_AUDIT_HMAC_KEYS is set; also set NORINTH_AUDIT_HMAC_PRIMARY to name the active key'')
     else Inr (if map_of ring ''legacy'' \<noteq> None then Some ''legacy'' else None))"

section \<open>Hashes\<close>

definition GENESIS_HASH :: string where "GENESIS_HASH = replicate 64 CHR ''0''"

definition CURRENT_HASH_VERSION :: int where "CURRENT_HASH_VERSION = 1"

text \<open>The hashed content of a row.\<close>

record audit_content =
  ac_created_at :: string
  ac_actor_ref :: string
  ac_tenant :: "string option"
  ac_action :: string
  ac_target_type :: "string option"
  ac_target_id :: "string option"
  ac_detail :: "string option"

definition row_content :: "audit_row \<Rightarrow> audit_content" where
  "row_content r = \<lparr>ac_created_at = al_created_at r, ac_actor_ref = al_actor_ref r, ac_tenant = al_tenant_id r, ac_action = al_action r,
     ac_target_type = al_target_type r, ac_target_id = al_target_id r, ac_detail = al_detail r\<rparr>"

definition text_or_null :: "string option \<Rightarrow> json" where
  "text_or_null x = (case x of None \<Rightarrow> JNull | Some s \<Rightarrow> JStr s)"

definition hash_payload :: "env \<Rightarrow> string \<Rightarrow> audit_content \<Rightarrow> string" where
  "hash_payload e prev_hash k =
     encode_compact (env_float_repr e) (JArr [JStr prev_hash, JStr (ac_created_at k), JStr (ac_actor_ref k), text_or_null (ac_tenant k),
       JStr (ac_action k), text_or_null (ac_target_type k), text_or_null (ac_target_id k), text_or_null (ac_detail k)])"

definition hash_v1 :: "env \<Rightarrow> string \<Rightarrow> audit_content \<Rightarrow> string" where
  "hash_v1 e prev_hash k = env_sha256 e (hash_payload e prev_hash k)"

definition compute_row_hash :: "env \<Rightarrow> int \<Rightarrow> string \<Rightarrow> audit_content \<Rightarrow> string option" where
  "compute_row_hash e version prev_hash k = (if version = 1 then Some (hash_v1 e prev_hash k) else None)"

definition compute_row_hmac :: "env \<Rightarrow> audit_config \<Rightarrow> string \<Rightarrow> (string option \<times> string option) res" where
  "compute_row_hmac e c row_hash =
     ebind (audit_primary_id c) (\<lambda>primary.
     case primary of
       None \<Rightarrow> Inr (None, None)
     | Some p \<Rightarrow> ebind (audit_keyring c) (\<lambda>ring.
         case map_of ring p of None \<Rightarrow> Inl KeyErr | Some key \<Rightarrow> Inr (Some (env_hmac e key row_hash), Some p)))"

section \<open>The checkpoint journal\<close>

definition ascii :: "string \<Rightarrow> bool" where
  "ascii s = list_all (\<lambda>ch. (of_char ch :: nat) < 128) s"

text \<open>\<open>hmac.compare_digest(a, b)\<close> for texts: both have to be ASCII.\<close>

definition compare_digest :: "string \<Rightarrow> string \<Rightarrow> bool res" where
  "compare_digest a b = (if ascii a \<and> ascii b then Inr (a = b) else Inl TypeErr)"

definition seal_of :: "env \<Rightarrow> string \<Rightarrow> dict \<Rightarrow> string" where
  "seal_of e key d = env_hmac e key (encode_compact (env_float_repr e) (JObj d))"

text \<open>
  A line split into its seal and the rest, with the key the rest names: the lookups raise as the
  dictionary does.
\<close>

definition split_seal :: "json \<Rightarrow> (json \<times> dict) res" where
  "split_seal v =
     (case v of
        JObj d \<Rightarrow> ebind (dict_at d ''seal'') (\<lambda>seal. Inr (seal, dict_pop ''seal'' d))
      | JArr _ \<Rightarrow> Inl TypeErr
      | _ \<Rightarrow> Inl AttributeErr)"

definition record_key :: "keyring \<Rightarrow> dict \<Rightarrow> string option res" where
  "record_key ring d =
     ebind (dict_at d ''key_id'') (\<lambda>kid.
     if hashable kid then Inr (case kid of JStr k \<Rightarrow> map_of ring k | _ \<Rightarrow> None) else Inl TypeErr)"

definition seal_matches :: "env \<Rightarrow> string \<Rightarrow> json \<Rightarrow> dict \<Rightarrow> bool res" where
  "seal_matches e key seal d = (case seal of JStr sl \<Rightarrow> compare_digest sl (seal_of e key d) | _ \<Rightarrow> Inl TypeErr)"

definition last_seal :: "dict list \<Rightarrow> json" where
  "last_seal recs = (if recs = [] then JStr (replicate 64 CHR ''0'') else dget (last recs) ''seal'' JNull)"

text \<open>The order of a record after the previous one; a count is a number.\<close>

definition in_sequence :: "dict \<Rightarrow> dict \<Rightarrow> bool res" where
  "in_sequence prior d =
     (if py_eq (dget d ''kind'' JNull) (JStr ''reconcile'') then
        ebind (dict_at d ''epoch'') (\<lambda>ep. ebind (dict_at prior ''epoch'') (\<lambda>pep.
        Inr (\<not> py_eq ep pep \<and> py_eq (dget d ''previous_epoch'' JNull) pep)))
      else
        ebind (dict_at d ''epoch'') (\<lambda>ep. ebind (dict_at prior ''epoch'') (\<lambda>pep.
        if \<not> py_eq ep pep then Inr False
        else ebind (dict_at d ''count'') (\<lambda>n. ebind (dict_at prior ''count'') (\<lambda>m. json_gt n m)))))"

text \<open>One line: the records so far with this one, or the verdict on the journal. Errors are of \<open>read_line\<close>'s caller.\<close>

definition read_line :: "env \<Rightarrow> keyring \<Rightarrow> dict list \<Rightarrow> json \<Rightarrow> (string + dict list) res" where
  "read_line e ring recs v =
     ebind (split_seal v) (\<lambda>(seal, d).
     ebind (record_key ring d) (\<lambda>key.
     case key of
       None \<Rightarrow> Inr (Inl ''checkpoint_chain'')
     | Some k \<Rightarrow>
         ebind (dict_at d ''previous_seal'') (\<lambda>p.
         if \<not> py_eq p (last_seal recs) then Inr (Inl ''checkpoint_chain'')
         else ebind (seal_matches e k seal d) (\<lambda>ok.
           if \<not> ok then Inr (Inl ''checkpoint_hmac'')
           else ebind (if recs = [] then Inr True else in_sequence (last recs) d) (\<lambda>seq.
             if \<not> seq then Inr (Inl ''checkpoint_order'')
             else Inr (Inr (recs @ [dict_set ''seal'' seal d])))))))"

text \<open>The exceptions the reader turns into a verdict; any other leaves it.\<close>

fun caught :: "err \<Rightarrow> bool" where
  "caught TypeErr = True" | "caught KeyErr = True" | "caught (ValueErr _) = True" | "caught _ = False"

fun read_lines :: "env \<Rightarrow> keyring \<Rightarrow> dict list \<Rightarrow> json list \<Rightarrow> (string + dict list) res" where
  "read_lines e ring recs [] = Inr (Inr recs)"
| "read_lines e ring recs (v # vs) =
     (case read_line e ring recs v of
        Inl x \<Rightarrow> if caught x then Inr (Inl ''checkpoint_unreadable'') else Inl x
      | Inr (Inl verdict) \<Rightarrow> Inr (Inl verdict)
      | Inr (Inr recs') \<Rightarrow> read_lines e ring recs' vs)"

definition read_checkpoints :: "env \<Rightarrow> audit_config \<Rightarrow> keyring \<Rightarrow> journal option \<Rightarrow> (dict list \<times> string option) res" where
  "read_checkpoints e c ring j =
     (case (if cf_checkpoint_path c then j else None) of
        None \<Rightarrow> Inr ([], Some ''unavailable'')
      | Some jn \<Rightarrow>
          if ring = [] then Inr ([], Some ''verification_key_unavailable'')
          else ebind (read_lines e ring [] (jn_lines jn)) (\<lambda>r. Inr (case r of
                 Inl verdict \<Rightarrow> ([], Some verdict)
               | Inr recs \<Rightarrow> if jn_end jn = Torn then ([], Some ''checkpoint_unreadable'')
                              else if recs = [] then ([], Some ''unavailable'') else (recs, None))))"

definition latest_checkpoint :: "env \<Rightarrow> audit_config \<Rightarrow> keyring \<Rightarrow> journal option \<Rightarrow> dict option res" where
  "latest_checkpoint e c ring j =
     (case (if cf_checkpoint_path c then j else None) of
        None \<Rightarrow> Inr None
      | Some jn \<Rightarrow>
          if jn_end jn \<noteq> Complete then Inl (RuntimeErr ''Audit checkpoint journal ends with an incomplete record'')
          else if jn_lines jn = [] then Inr None
          else ebind (split_seal (last (jn_lines jn))) (\<lambda>(seal, d).
               ebind (record_key ring d) (\<lambda>key.
               case key of
                 None \<Rightarrow> Inl (RuntimeErr ''Latest audit checkpoint cannot be authenticated'')
               | Some k \<Rightarrow> ebind (seal_matches e k seal d) (\<lambda>ok.
                   if ok then Inr (Some (dict_set ''seal'' seal d))
                   else Inl (RuntimeErr ''Latest audit checkpoint cannot be authenticated'')))))"

text \<open>A number of entries in a checkpoint, as \<open>append_checkpoint\<close> and \<open>reconcile_checkpoint\<close> write it.\<close>

definition count_at :: "dict \<Rightarrow> string \<Rightarrow> int res" where
  "count_at d k = ebind (dict_at d k) (\<lambda>v. case v of JInt i \<Rightarrow> Inr i | _ \<Rightarrow> Inl TypeErr)"

text \<open>The keys of an entry in the order the file has them; \<open>epoch\<close> is the random identifier of a new journal.\<close>

definition head_entry :: "env \<Rightarrow> int \<Rightarrow> json \<Rightarrow> int \<Rightarrow> string \<Rightarrow> string \<Rightarrow> json \<Rightarrow> dict" where
  "head_entry e anchored_from epoch n head_hash key_id previous_seal =
     [(''anchored_from'', JInt anchored_from), (''count'', JInt n), (''created_at'', JStr (isoformat (env_now e))), (''epoch'', epoch),
      (''head_hash'', JStr head_hash), (''key_id'', JStr key_id), (''kind'', JStr ''head''), (''previous_seal'', previous_seal)]"

definition write_entry :: "env \<Rightarrow> string \<Rightarrow> dict \<Rightarrow> journal option \<Rightarrow> journal option" where
  "write_entry e key d j =
     Some \<lparr>jn_lines = (case j of None \<Rightarrow> [] | Some jn \<Rightarrow> jn_lines jn) @ [JObj (d @ [(''seal'', JStr (seal_of e key d))])], jn_end = Complete\<rparr>"

definition append_checkpoint ::
  "env \<Rightarrow> audit_config \<Rightarrow> string \<Rightarrow> int \<Rightarrow> string \<Rightarrow> string \<Rightarrow> string \<Rightarrow> keyring \<Rightarrow> journal option \<Rightarrow> journal option res" where
  "append_checkpoint e c uid n head_hash key_id key ring j =
     (if \<not> cf_checkpoint_path c then Inr j
      else ebind (latest_checkpoint e c ring j) (\<lambda>previous.
        case previous of
          None \<Rightarrow> Inr (write_entry e key (head_entry e n (JStr uid) n head_hash key_id (JStr (replicate 64 CHR ''0''))) j)
        | Some p \<Rightarrow>
            ebind (count_at p ''count'') (\<lambda>m.
            if n \<le> m then Inl (RuntimeErr ''Audit checkpoint count did not advance'')
            else ebind (dict_at p ''epoch'') (\<lambda>epoch. ebind (dict_at p ''seal'') (\<lambda>seal. ebind (count_at p ''anchored_from'') (\<lambda>anchored.
              Inr (write_entry e key (head_entry e anchored epoch n head_hash key_id seal) j)))))))"

definition reconcile_checkpoint ::
  "env \<Rightarrow> audit_config \<Rightarrow> string \<Rightarrow> int \<Rightarrow> string \<Rightarrow> string \<Rightarrow> string \<Rightarrow> string \<Rightarrow> string \<Rightarrow> keyring \<Rightarrow> journal option \<Rightarrow> journal option res" where
  "reconcile_checkpoint e c uid n head_hash reason expected_seal key_id key ring j =
     (if \<not> cf_checkpoint_path c then Inl (RuntimeErr ''Audit checkpoint path is not configured'')
      else ebind (read_checkpoints e c ring j) (\<lambda>(recs, verdict).
        if verdict \<noteq> None \<or> recs = []
        then Inl (RuntimeErr (''Cannot reconcile checkpoint journal: '' @ (case verdict of None \<Rightarrow> ''None'' | Some v \<Rightarrow> v)))
        else let p = last recs in
          ebind (dict_at p ''seal'') (\<lambda>seal.
          ebind (case seal of JStr sl \<Rightarrow> compare_digest sl expected_seal | _ \<Rightarrow> Inl TypeErr) (\<lambda>ok.
          if \<not> ok then Inl (RuntimeErr ''Expected checkpoint seal does not match current journal'')
          else if py_strip reason = [] then Inl (RuntimeErr ''A restore reason is required'')
          else ebind (dict_at p ''epoch'') (\<lambda>epoch. ebind (dict_at p ''count'') (\<lambda>pn. ebind (dict_at p ''head_hash'') (\<lambda>ph.
            Inr (write_entry e key
              [(''anchored_from'', JInt n), (''count'', JInt n), (''created_at'', JStr (isoformat (env_now e))), (''epoch'', JStr uid),
               (''head_hash'', JStr head_hash), (''key_id'', JStr key_id), (''kind'', JStr ''reconcile''), (''previous_count'', pn),
               (''previous_epoch'', epoch), (''previous_head_hash'', ph), (''previous_seal'', seal), (''reason'', JStr (py_strip reason))] j))))))))"

section \<open>Appending\<close>

definition chain_head :: "audit_row list \<Rightarrow> string" where
  "chain_head rows = (if rows = [] then GENESIS_HASH else or_str (al_row_hash (last rows)) GENESIS_HASH)"

definition contradicts :: "err" where
  "contradicts = RuntimeErr ''Audit database contradicts the retained checkpoint''"

text \<open>The retained checkpoint has to lie on the chain.\<close>

definition check_anchor :: "dict option \<Rightarrow> audit_row list \<Rightarrow> unit res" where
  "check_anchor checkpoint rows =
     (case checkpoint of
        None \<Rightarrow> Inr ()
      | Some p \<Rightarrow>
          ebind (count_at p ''count'') (\<lambda>n.
          if int (length rows) < n then Inl (RuntimeErr ''Audit database is shorter than the retained checkpoint'')
          else if n = 0 then Inr ()
          else ebind (dict_at p ''head_hash'') (\<lambda>h.
               if length rows \<le> nat (n - 1) \<or> \<not> py_eq (text_or_null (al_row_hash (rows ! nat (n - 1)))) h
               then Inl contradicts else Inr ())))"

definition audit_row_of :: "env \<Rightarrow> int \<Rightarrow> string \<Rightarrow> audit_content \<Rightarrow> string \<Rightarrow> string option \<times> string option \<Rightarrow> audit_row" where
  "audit_row_of e i prev_hash k row_hash sig =
     \<lparr>al_id = i, al_created_at = ac_created_at k, al_actor_ref = ac_actor_ref k, al_tenant_id = ac_tenant k, al_action = ac_action k,
      al_target_type = ac_target_type k, al_target_id = ac_target_id k, al_detail = ac_detail k, al_prev_hash = Some prev_hash,
      al_row_hash = Some row_hash, al_row_hmac = fst sig, al_hmac_key_id = snd sig, al_hash_version = Some CURRENT_HASH_VERSION\<rparr>"

definition content_of :: "env \<Rightarrow> audit_req \<Rightarrow> audit_content" where
  "content_of e q = \<lparr>ac_created_at = db_text (env_now e), ac_actor_ref = aq_actor_ref q, ac_tenant = aq_tenant_id q, ac_action = aq_action q,
     ac_target_type = aq_target_type q, ac_target_id = aq_target_id q, ac_detail = map_option (encode_json (env_float_repr e)) (aq_detail q)\<rparr>"

definition append_row :: "env \<Rightarrow> audit_config \<Rightarrow> audit_req \<Rightarrow> audit_store \<Rightarrow> (audit_store \<times> int \<times> string \<times> string option) res" where
  "append_row e c q st =
     (let rows = au_rows st; prev_hash = chain_head rows in
      ebind (audit_keyring c) (\<lambda>ring.
      ebind (latest_checkpoint e c ring (au_journal st)) (\<lambda>checkpoint.
      ebind (check_anchor checkpoint rows) (\<lambda>_.
      case compute_row_hash e CURRENT_HASH_VERSION prev_hash (content_of e q) of
        None \<Rightarrow> Inl (RuntimeErr (''no audit hasher registered for version '' @ str_int CURRENT_HASH_VERSION))
      | Some h \<Rightarrow>
          ebind (compute_row_hmac e c h) (\<lambda>sig.
          Inr (st\<lparr>au_rows := rows @ [audit_row_of e (au_seq st + 1) prev_hash (content_of e q) h sig], au_seq := au_seq st + 1\<rparr>,
               int (length rows) + 1, h, snd sig))))))"

text \<open>
  The checkpoint of a committed row: its number, hash and key id. \<open>uid\<close> is the random identifier a first checkpoint would get.
\<close>

type_synonym pending_head = "int \<times> string \<times> string option"

definition checkpoint_after :: "env \<Rightarrow> audit_config \<Rightarrow> string \<Rightarrow> pending_head \<Rightarrow> audit_store \<Rightarrow> audit_store res" where
  "checkpoint_after e c uid = (\<lambda>(n, h, kid) st.
     case kid of
       None \<Rightarrow> Inr st
     | Some k \<Rightarrow> ebind (audit_keyring c) (\<lambda>ring. case map_of ring k of
           None \<Rightarrow> Inl KeyErr
         | Some key \<Rightarrow> ebind (append_checkpoint e c uid n h k key ring (au_journal st)) (\<lambda>j. Inr (st\<lparr>au_journal := j\<rparr>))))"

text \<open>
  A lone \<open>record_audit\<close>: the row is committed before the journal is written, so a failure of the journal leaves
  the row.
\<close>

definition record_audit :: "env \<Rightarrow> audit_config \<Rightarrow> string \<Rightarrow> audit_req \<Rightarrow> audit_store \<Rightarrow> audit_store \<times> unit res" where
  "record_audit e c uid q st =
     (case append_row e c q st of
        Inl x \<Rightarrow> (st, Inl x)
      | Inr (st1, head) \<Rightarrow>
          (case checkpoint_after e c uid head st1 of
             Inl x \<Rightarrow> (st1, Inl x)
           | Inr st2 \<Rightarrow> (st2, Inr ())))"

text \<open>
  Inside a unit of work the row is appended in the unit's transaction and its checkpoint waits for the commit
  (storage/unit_of_work.py). The block changes the other tables and asks for audit entries; an exception of the block or of an append rolls
  everything back, and the checkpoints follow the commit in order.
\<close>

definition record_in_unit :: "env \<Rightarrow> audit_config \<Rightarrow> audit_req \<Rightarrow> audit_store \<times> pending_head list \<Rightarrow> (audit_store \<times> pending_head list) res" where
  "record_in_unit e c q = (\<lambda>(st, waiting). ebind (append_row e c q st) (\<lambda>(st1, head). Inr (st1, waiting @ [head])))"

fun after_commit :: "env \<Rightarrow> audit_config \<Rightarrow> string \<Rightarrow> pending_head list \<Rightarrow> audit_store \<Rightarrow> audit_store \<times> unit res" where
  "after_commit e c uid [] st = (st, Inr ())"
| "after_commit e c uid (h # hs) st =
     (case checkpoint_after e c uid h st of Inl x \<Rightarrow> (st, Inl x) | Inr st1 \<Rightarrow> after_commit e c uid hs st1)"

definition unit_of_work ::
  "env \<Rightarrow> audit_config \<Rightarrow> string \<Rightarrow> ('s \<Rightarrow> ('s \<times> audit_req list \<times> 'r) res) \<Rightarrow> 's \<Rightarrow> audit_store \<Rightarrow> 's \<times> audit_store \<times> 'r res" where
  "unit_of_work e c uid block s st =
     (case ebind (block s) (\<lambda>(s1, reqs, r). ebind (efold (record_in_unit e c) reqs (st, [])) (\<lambda>(st1, waiting). Inr (s1, r, st1, waiting))) of
        Inl x \<Rightarrow> (s, st, Inl x)
      | Inr (s1, r, st1, waiting) \<Rightarrow>
          (case after_commit e c uid waiting st1 of (st2, done) \<Rightarrow> (s1, st2, map_sum id (\<lambda>_. r) done)))"

section \<open>Verification\<close>

text \<open>The chain from an expected previous hash: the first broken row and why, or the last hash.\<close>

definition row_signed :: "env \<Rightarrow> keyring \<Rightarrow> audit_row \<Rightarrow> (string + unit) res" where
  "row_signed e ring r =
     (if ring = [] then Inr (Inr ())
      else case al_row_hmac r of
             None \<Rightarrow> Inr (Inl ''hmac missing'')
           | Some sig \<Rightarrow>
               (case map_of ring (or_str (al_hmac_key_id r) ''legacy'') of
                  None \<Rightarrow> Inr (Inl ''hmac'')
                | Some key \<Rightarrow> ebind (compare_digest sig (env_hmac e key (or_str (al_row_hash r) []))) (\<lambda>ok.
                    Inr (if ok then Inr () else Inl ''hmac''))))"

fun verify_rows :: "env \<Rightarrow> keyring \<Rightarrow> string \<Rightarrow> audit_row list \<Rightarrow> (int \<times> string + string) res" where
  "verify_rows e ring expected_prev [] = Inr (Inr expected_prev)"
| "verify_rows e ring expected_prev (r # rs) =
     (let version = (case al_hash_version r of None \<Rightarrow> CURRENT_HASH_VERSION | Some v \<Rightarrow> v) in
      case compute_row_hash e version expected_prev (row_content r) of
        None \<Rightarrow> Inr (Inl (al_id r, ''unknown hash version '' @ str_int version))
      | Some h \<Rightarrow>
          if al_prev_hash r \<noteq> Some expected_prev \<or> al_row_hash r \<noteq> Some h then Inr (Inl (al_id r, ''hash chain''))
          else ebind (row_signed e ring r) (\<lambda>sig. case sig of
                 Inl reason \<Rightarrow> Inr (Inl (al_id r, reason))
               | Inr _ \<Rightarrow> verify_rows e ring h rs))"

record audit_report =
  rp_ok :: bool
  rp_entries :: int
  rp_broken_at :: "int option"
  rp_reason :: "string option"
  rp_completeness_ok :: "bool option"
  rp_checkpoint_status :: "string option"
  rp_unanchored :: "int option"
  rp_unanchored_prior :: "int option"

definition report :: "bool \<Rightarrow> nat \<Rightarrow> int option \<Rightarrow> string option \<Rightarrow> bool option \<Rightarrow> string option \<Rightarrow> audit_report" where
  "report ok n broken reason full status =
     \<lparr>rp_ok = ok, rp_entries = int n, rp_broken_at = broken, rp_reason = reason, rp_completeness_ok = full, rp_checkpoint_status = status,
      rp_unanchored = None, rp_unanchored_prior = None\<rparr>"

text \<open>\<open>rows[i]\<close>, negative indices counting from the end.\<close>

definition py_nth :: "'a list \<Rightarrow> int \<Rightarrow> 'a res" where
  "py_nth xs i =
     (if 0 \<le> i \<and> i < int (length xs) then Inr (xs ! nat i)
      else if - int (length xs) \<le> i \<and> i < 0 then Inr (xs ! nat (int (length xs) + i))
      else Inl (RuntimeErr ''list index out of range''))"

definition anchored_report :: "env \<Rightarrow> nat \<Rightarrow> dict list \<Rightarrow> dict \<Rightarrow> int \<Rightarrow> audit_report res" where
  "anchored_report e entries recs latest unanchored =
     ebind (dict_at latest ''created_at'') (\<lambda>stamp. case stamp of
       JStr t \<Rightarrow>
         (case instant_of t of
            None \<Rightarrow> Inl (ValueErr (''Invalid isoformat string: '' @ sq @ t @ sq))
          | Some u \<Rightarrow>
              let fresh = (env_now e - u \<le> 24 * 3600 * usec_per_sec) in
              ebind (count_at latest ''anchored_from'') (\<lambda>n.
              let prior = n - 1; reconciled = list_ex (\<lambda>d. py_eq (dget d ''kind'' JNull) (JStr ''reconcile'')) recs;
                  current = (fresh \<and> unanchored = 0 \<and> prior = 0 \<and> \<not> reconciled);
                  status = (if prior \<noteq> 0 \<or> reconciled then ''partial_history'' else if current then ''current'' else ''stale'')
              in Inr ((report True entries None None (Some current) (Some status))\<lparr>rp_unanchored := Some unanchored, rp_unanchored_prior := Some prior\<rparr>)))
     | _ \<Rightarrow> Inl TypeErr)"

definition mismatch :: "nat \<Rightarrow> audit_report" where
  "mismatch entries = report False entries None (Some ''checkpoint mismatch'') (Some False) (Some ''mismatch'')"

definition verify_checkpoint :: "env \<Rightarrow> audit_config \<Rightarrow> keyring \<Rightarrow> audit_row list \<Rightarrow> string \<Rightarrow> journal option \<Rightarrow> audit_report res" where
  "verify_checkpoint e c ring rows head j =
     (let entries = length rows in
      ebind (read_checkpoints e c ring j) (\<lambda>(recs, verdict).
      if verdict \<notin> {None, Some ''unavailable'', Some ''verification_key_unavailable''}
      then Inr (report False entries None verdict (Some False) (Some ''invalid''))
      else if recs = []
      then Inr ((report True entries None None None (Some (or_str verdict ''unavailable'')))\<lparr>rp_unanchored := Some (int entries)\<rparr>)
      else let latest = last recs in
        ebind (count_at latest ''count'') (\<lambda>n.
        ebind (dict_at latest ''head_hash'') (\<lambda>h.
        if int entries < n \<or> int entries = n \<and> \<not> py_eq (JStr head) h then Inr (mismatch entries)
        else let unanchored = int entries - n in
          ebind (if unanchored = 0 then Inr False
                 else ebind (py_nth rows (n - 1)) (\<lambda>r. Inr (\<not> py_eq (text_or_null (al_row_hash r)) h))) (\<lambda>bad.
          if bad then Inr (mismatch entries) else anchored_report e entries recs latest unanchored)))))"

definition verify_audit_chain :: "env \<Rightarrow> audit_config \<Rightarrow> bool \<Rightarrow> audit_store \<Rightarrow> audit_report res" where
  "verify_audit_chain e c check_checkpoint st =
     (let rows = au_rows st in
      ebind (audit_keyring c) (\<lambda>ring.
      ebind (verify_rows e ring GENESIS_HASH rows) (\<lambda>v. case v of
        Inl (i, reason) \<Rightarrow> Inr (report False (length rows) (Some i) (Some reason) None None)
      | Inr head \<Rightarrow>
          if check_checkpoint then verify_checkpoint e c ring rows head (au_journal st)
          else Inr (report True (length rows) None None None None))))"

definition validate_audit_at_startup :: "env \<Rightarrow> audit_config \<Rightarrow> audit_store \<Rightarrow> unit res" where
  "validate_audit_at_startup e c st =
     ebind (audit_primary_id c) (\<lambda>_.
     ebind (verify_audit_chain e c True st) (\<lambda>r.
     if rp_ok r then Inr ()
     else Inl (RuntimeErr (''Audit integrity check failed at entry '' @ (case rp_broken_at r of None \<Rightarrow> ''None'' | Some i \<Rightarrow> str_int i) @ '': '' @
       or_str (rp_reason r) [] @ ''. Audit history was not repaired. Investigate tampering or missing verification keys.''))))"

definition reconcile_audit_after_restore :: "env \<Rightarrow> audit_config \<Rightarrow> string \<Rightarrow> string \<Rightarrow> string \<Rightarrow> audit_store \<Rightarrow> (audit_store \<times> audit_report) res" where
  "reconcile_audit_after_restore e c uid reason expected_seal st =
     ebind (verify_audit_chain e c False st) (\<lambda>r.
     if \<not> rp_ok r then Inl (RuntimeErr (''Restored audit chain is invalid: '' @ or_str (rp_reason r) []))
     else ebind (audit_primary_id c) (\<lambda>primary. case primary of
       None \<Rightarrow> Inl (RuntimeErr ''Audit HMAC key is required for checkpoint reconciliation'')
     | Some p \<Rightarrow> ebind (audit_keyring c) (\<lambda>ring. case map_of ring p of
           None \<Rightarrow> Inl KeyErr
         | Some key \<Rightarrow>
             ebind (reconcile_checkpoint e c uid (rp_entries r) (chain_head (au_rows st)) reason expected_seal p key ring (au_journal st)) (\<lambda>j.
             let st1 = st\<lparr>au_journal := j\<rparr> in ebind (verify_audit_chain e c True st1) (\<lambda>r1. Inr (st1, r1))))))"

section \<open>Reading\<close>

definition audit_filter :: "string option \<Rightarrow> string option \<Rightarrow> string option \<Rightarrow> audit_row \<Rightarrow> bool" where
  "audit_filter tenant actor action r \<longleftrightarrow> (nonempty tenant \<longrightarrow> al_tenant_id r = tenant) \<and>
     (nonempty actor \<longrightarrow> Some (al_actor_ref r) = actor) \<and> (nonempty action \<longrightarrow> Some (al_action r) = action)"

definition count_audit_logs :: "string option \<Rightarrow> string option \<Rightarrow> string option \<Rightarrow> audit_store \<Rightarrow> int" where
  "count_audit_logs tenant actor action st = int (length (filter (audit_filter tenant actor action) (au_rows st)))"

definition list_audit_logs :: "string option \<Rightarrow> string option \<Rightarrow> string option \<Rightarrow> nat \<Rightarrow> nat \<Rightarrow> audit_store \<Rightarrow> audit_row list" where
  "list_audit_logs tenant actor action limit offset st =
     take limit (drop offset (rev (sort_key al_id (filter (audit_filter tenant actor action) (au_rows st)))))"

end
