(* ===== verification/Audit_Chain.thy ===== *)
theory Audit_Chain
  imports Audit_Log Attestation_Properties
begin

text \<open>
  What the chain of the audit log proves: the log is the list of what was recorded, verification accepts it, and
  a chain that verifies and ends in a known hash can have no other content.
\<close>

section \<open>The clock does not matter to the hashes\<close>

lemma hash_v1_at_time [simp]: "hash_v1 (at_time e t) p k = hash_v1 e p k"
  by (simp add: hash_v1_def hash_payload_def)

lemma compute_row_hash_at_time [simp]: "compute_row_hash (at_time e t) v p k = compute_row_hash e v p k"
  by (simp add: compute_row_hash_def)

lemma row_signed_at_time [simp]: "row_signed (at_time e t) ring r = row_signed e ring r"
  by (simp add: row_signed_def split: option.split)

lemma verify_rows_at_time [simp]: "verify_rows (at_time e t) ring p rs = verify_rows e ring p rs"
  by (induction rs arbitrary: p) (simp_all add: Let_def split: option.split sum.split cong: if_cong)

lemma seal_of_at_time [simp]: "seal_of (at_time e t) key d = seal_of e key d"
  by (simp add: seal_of_def)

lemma seal_matches_at_time [simp]: "seal_matches (at_time e t) = seal_matches e"
  by (simp add: seal_matches_def fun_eq_iff split: json.split)

lemma read_line_at_time [simp]: "read_line (at_time e t) ring recs v = read_line e ring recs v"
  unfolding read_line_def seal_matches_at_time ..

lemma read_lines_at_time [simp]: "read_lines (at_time e t) ring recs vs = read_lines e ring recs vs"
  by (induction vs arbitrary: recs) (simp_all split: sum.split)

lemma latest_checkpoint_at_time [simp]: "latest_checkpoint (at_time e t) c ring j = latest_checkpoint e c ring j"
  unfolding latest_checkpoint_def seal_matches_at_time ..

section \<open>The chain\<close>

lemma verify_rows_append:
  "verify_rows e ring p (rs @ qs) =
     ebind (verify_rows e ring p rs) (\<lambda>v. case v of Inl b \<Rightarrow> Inr (Inl b) | Inr h \<Rightarrow> verify_rows e ring h qs)"
proof (induction rs arbitrary: p)
  case (Cons x xs)
  show ?case
    by (cases "compute_row_hash e (case al_hash_version x of None \<Rightarrow> CURRENT_HASH_VERSION | Some v \<Rightarrow> v) p (row_content x)";
        cases "row_signed e ring x") (auto simp: Let_def Cons.IH split: sum.split)
qed simp

lemma verify_row_ok:
  "verify_rows e ring p [r] = Inr (Inr h) \<longleftrightarrow>
     al_prev_hash r = Some p \<and> al_row_hash r = Some h \<and> h = hash_v1 e p (row_content r) \<and> al_hash_version r \<in> {None, Some 1} \<and>
     row_signed e ring r = Inr (Inr ())"
  by (cases "row_signed e ring r")
    (auto simp: compute_row_hash_def CURRENT_HASH_VERSION_def Let_def split: option.splits if_splits sum.splits)

lemma verify_rows_snoc:
  "verify_rows e ring p (rs @ [r]) = Inr (Inr h) \<longleftrightarrow>
     (\<exists>g. verify_rows e ring p rs = Inr (Inr g) \<and> verify_rows e ring g [r] = Inr (Inr h))"
  unfolding verify_rows_append by (cases "verify_rows e ring p rs") (auto split: sum.splits)

text \<open>
  SHA-256 taken as free of collisions, the anchor of the chain not being a digest. This is the documented
  expectation on the hash function.
\<close>

definition collisions_excluded :: "env \<Rightarrow> bool" where
  "collisions_excluded e \<longleftrightarrow> inj (env_sha256 e) \<and> GENESIS_HASH \<notin> range (env_sha256 e)"

lemma text_or_null_encoding: "encode_compact fr (text_or_null x) = encode_compact ratio_text (text_or_null x)"
  by (simp add: text_or_null_def split: option.split)

lemma text_or_null_inj: "text_or_null x = text_or_null y \<longleftrightarrow> x = y"
  by (auto simp: text_or_null_def split: option.splits)

lemma canonical_text_or_null: "canonical (text_or_null x) = text_or_null x"
  by (simp add: text_or_null_def canonical_scalar split: option.split)

lemma hash_payload_unique:
  assumes "hash_payload e p k = hash_payload e q l"
  shows "p = q \<and> k = l"
proof -
  let ?js = "\<lambda>p k. [JStr p, JStr (ac_created_at k), JStr (ac_actor_ref k), text_or_null (ac_tenant k),
       JStr (ac_action k), text_or_null (ac_target_type k), text_or_null (ac_target_id k), text_or_null (ac_detail k)]"
  have fr: "encode_compact (env_float_repr e) (JArr (?js p k)) = encode_compact ratio_text (JArr (?js p k))" for p k
    using text_or_null_encoding [of "env_float_repr e"] by simp
  have "encode_compact ratio_text (JArr (?js p k)) = encode_compact ratio_text (JArr (?js q l))"
    using assms unfolding hash_payload_def fr .
  then have "canonical (JArr (?js p k)) = canonical (JArr (?js q l))"
    using encode_compact_unique [OF ratio_text_ok, of "JArr (?js p k)" "[]" "JArr (?js q l)" "[]"] by (simp add: ends_def)
  then show ?thesis by (cases k; cases l) (simp add: canonical_text_or_null text_or_null_inj)
qed

lemma hash_v1_unique: "collisions_excluded e \<Longrightarrow> hash_v1 e p k = hash_v1 e q l \<Longrightarrow> p = q \<and> k = l"
  unfolding hash_v1_def collisions_excluded_def using hash_payload_unique by (metis injD)

lemma chain_unique:
  assumes c: "collisions_excluded e"
  shows "verify_rows e ring GENESIS_HASH rs = Inr (Inr h) \<Longrightarrow> verify_rows e ring' GENESIS_HASH rs' = Inr (Inr h) \<Longrightarrow>
    map row_content rs = map row_content rs'"
proof (induction rs arbitrary: h rs' rule: rev_induct)
  case Nil
  then have h: "h = GENESIS_HASH" by simp
  show ?case
  proof (cases rs' rule: rev_cases)
    case (snoc ys y)
    then obtain g where "h = hash_v1 e g (row_content y)" using Nil.prems(2) unfolding snoc verify_rows_snoc verify_row_ok by blast
    then show ?thesis using c h by (metis collisions_excluded_def hash_v1_def rangeI)
  qed simp
next
  case (snoc x xs)
  note IH = snoc.IH and prems = snoc.prems
  obtain g where g: "verify_rows e ring GENESIS_HASH xs = Inr (Inr g)" "h = hash_v1 e g (row_content x)"
    using snoc.prems(1) unfolding verify_rows_snoc verify_row_ok by blast
  show ?case
  proof (cases rs' rule: rev_cases)
    case Nil
    then have "hash_v1 e g (row_content x) = GENESIS_HASH" using snoc.prems(2) g(2) by simp
    then show ?thesis using c by (metis collisions_excluded_def hash_v1_def rangeI)
  next
    case (snoc ys y)
    then obtain g' where g': "verify_rows e ring' GENESIS_HASH ys = Inr (Inr g')" "h = hash_v1 e g' (row_content y)"
      using prems(2) unfolding snoc verify_rows_snoc verify_row_ok by blast
    have "g = g' \<and> row_content x = row_content y" using hash_v1_unique [OF c] g(2) g'(2) by metis
    then show ?thesis using IH [OF g(1), of ys] g'(1) snoc by simp
  qed
qed

lemma verify_rows_take:
  assumes "verify_rows e ring p rs = Inr (Inr h)" "n \<le> length rs"
  obtains g where "verify_rows e ring p (take n rs) = Inr (Inr g)" "0 < n \<longrightarrow> al_row_hash (rs ! (n - 1)) = Some g" "n = length rs \<longrightarrow> g = h"
proof -
  have "verify_rows e ring p (take n rs @ drop n rs) = Inr (Inr h)" using assms(1) by simp
  then obtain g where g: "verify_rows e ring p (take n rs) = Inr (Inr g)"
    unfolding verify_rows_append by (cases "verify_rows e ring p (take n rs)") (auto split: sum.splits)
  moreover have "al_row_hash (rs ! (n - 1)) = Some g" if "0 < n"
  proof -
    from that obtain m where m: "n = Suc m" unfolding gr0_conv_Suc ..
    then have "take n rs = take m rs @ [rs ! m]" using assms(2) by (simp add: take_Suc_conv_app_nth)
    then have "verify_rows e ring p (take m rs @ [rs ! m]) = Inr (Inr g)" using g by simp
    then have "al_row_hash (rs ! m) = Some g" unfolding verify_rows_snoc verify_row_ok by blast
    then show ?thesis using m by simp
  qed
  moreover have "n = length rs \<longrightarrow> g = h" using g assms(1) by auto
  ultimately show thesis using that [of g] by blast
qed

lemma py_eq_text [simp]: "py_eq (JStr a) (JStr b) \<longleftrightarrow> a = b" "py_eq (text_or_null x) (JStr b) \<longleftrightarrow> x = Some b"
  by (simp_all add: py_eq.simps text_or_null_def split: option.split)

lemma read_checkpoints_ok:
  assumes "read_checkpoints e c ring j = Inr (recs, None)"
  obtains jn where "cf_checkpoint_path c" "j = Some jn" "ring \<noteq> []" "read_lines e ring [] (jn_lines jn) = Inr (Inr recs)" "recs \<noteq> []"
proof (cases "if cf_checkpoint_path c then j else None")
  case None
  then show thesis using assms by (simp add: read_checkpoints_def)
next
  case (Some jn)
  show thesis
  proof (cases "read_lines e ring [] (jn_lines jn)")
    case (Inl x)
    then show thesis using assms Some by (simp add: read_checkpoints_def split: if_splits)
  next
    case (Inr y)
    then show thesis using assms Some that [of jn] by (cases y) (auto simp: read_checkpoints_def split: if_splits)
  qed
qed

lemma anchored_chain:
  assumes v: "verify_checkpoint e c ring rows head j = Inr r" "rp_ok r"
    and cp: "read_checkpoints e c ring j = Inr (recs, None)" "count_at (last recs) ''count'' = Inr n" "dict_at (last recs) ''head_hash'' = Inr (JStr h)"
    and n: "0 < n" and head: "verify_rows e ring GENESIS_HASH rows = Inr (Inr head)"
  shows "n \<le> int (length rows) \<and> verify_rows e ring GENESIS_HASH (take (nat n) rows) = Inr (Inr h)"
proof (cases "recs = []")
  case True
  then show ?thesis using read_checkpoints_ok [OF cp(1)] by blast
next
  case False
  let ?m = "length rows"
  have k: "n \<le> int ?m" and eq: "n = int ?m \<longrightarrow> head = h"
    using v cp False by (auto simp: verify_checkpoint_def mismatch_def report_def Let_def split: if_splits)
  have less: "al_row_hash (rows ! nat (n - 1)) = Some h" if "n < int ?m"
    using v cp False that k n by (auto simp: verify_checkpoint_def mismatch_def report_def Let_def py_nth_def split: if_splits)
  obtain g where g: "verify_rows e ring GENESIS_HASH (take (nat n) rows) = Inr (Inr g)" "al_row_hash (rows ! (nat n - 1)) = Some g" "nat n = ?m \<longrightarrow> g = head"
    using verify_rows_take [OF head, of "nat n"] k n by (metis nat_le_iff zero_less_nat_eq)
  have "nat (n - 1) = nat n - 1" using n by simp
  then have "g = h" using g(2,3) eq less k by (cases "n = int ?m") auto
  then show ?thesis using g(1) k by simp
qed

text \<open>
  A checkpoint of no entries, which \<open>reconcile_audit_after_restore\<close> writes when the restored database is empty, is met
  by no log with entries: the verifier compares \<open>rows[-1]\<close> with the anchor of the chain, where after any
  other checkpoint it reports the later entries as not yet anchored.
\<close>

lemma entry_after_empty_checkpoint_mismatch:
  assumes c: "collisions_excluded e" and head: "verify_rows e ring GENESIS_HASH rows = Inr (Inr head)" "rows \<noteq> []"
    and cp: "read_checkpoints e cfg ring j = Inr (recs, None)" "count_at (last recs) ''count'' = Inr 0" "dict_at (last recs) ''head_hash'' = Inr (JStr GENESIS_HASH)"
  shows "verify_checkpoint e cfg ring rows head j = Inr (mismatch (length rows))"
proof -
  obtain rs r where rs: "rows = rs @ [r]" using head(2) by (meson rev_exhaust)
  then obtain g where "al_row_hash r = Some (hash_v1 e g (row_content r))" using head(1) unfolding rs verify_rows_snoc verify_row_ok by blast
  then have "al_row_hash r \<noteq> Some GENESIS_HASH" using c by (metis collisions_excluded_def hash_v1_def option.inject rangeI)
  moreover have "recs \<noteq> []" using read_checkpoints_ok [OF cp(1)] by blast
  ultimately show ?thesis using cp rs by (simp add: verify_checkpoint_def py_nth_def Let_def)
qed

end
