(* ===== verification/Audit_Run.thy ===== *)
theory Audit_Run
  imports Audit_Chain
begin

text \<open>
  Runs of the audit log: from an empty log, with a signing key and a checkpoint journal configured, recording
  refines the append-only list of entries, and verification accepts every log so built as complete.
\<close>

section \<open>The append-only log\<close>

text \<open>
  The contract of a log: an invariant that every append keeps, and a content that every append extends by one
  entry, whatever the log held.
\<close>

locale append_log = invariant_ops step inv
  for step :: "'op \<Rightarrow> 's \<Rightarrow> 's" and inv :: "'s \<Rightarrow> bool" +
  fixes contents :: "'s \<Rightarrow> 'r list" and entry :: "'op \<Rightarrow> 'r"
  assumes appends: "inv s \<Longrightarrow> contents (step op s) = contents s @ [entry op]"
begin

lemma run_contents: "inv s \<Longrightarrow> contents (fold step ops s) = contents s @ map entry ops"
  by (induction ops arbitrary: s) (simp_all add: appends step_inv)

end

section \<open>The journal\<close>

text \<open>\<open>hexdigest\<close> gives a non-empty ASCII text.\<close>

definition digests_ascii :: "env \<Rightarrow> bool" where
  "digests_ascii e \<longleftrightarrow> (\<forall>s. env_sha256 e s \<noteq> []) \<and> (\<forall>k s. ascii (env_hmac e k s))"

definition sealed_head :: "env \<Rightarrow> keyring \<Rightarrow> int \<Rightarrow> string \<Rightarrow> int \<Rightarrow> dict \<Rightarrow> bool" where
  "sealed_head e ring n head t d \<longleftrightarrow> (\<exists>u p key prev. map_of ring p = Some key \<and>
     (let b = head_entry (at_time e t) 1 (JStr u) n head p prev in d = b @ [(''seal'', JStr (seal_of e key b))]))"

definition all_heads :: "dict list \<Rightarrow> bool" where
  "all_heads recs \<longleftrightarrow> (\<forall>d\<in>set recs. dget d ''kind'' JNull = JStr ''head'')"

definition journal_ok :: "env \<Rightarrow> keyring \<Rightarrow> int \<Rightarrow> string \<Rightarrow> int \<Rightarrow> journal option \<Rightarrow> bool" where
  "journal_ok e ring n head t j \<longleftrightarrow>
     (case j of
        None \<Rightarrow> n = 0
      | Some jn \<Rightarrow> jn_end jn = Complete \<and> (\<exists>recs. jn_lines jn = map JObj recs \<and> read_lines e ring [] (jn_lines jn) = Inr (Inr recs) \<and>
          all_heads recs \<and> (if recs = [] then n = 0 else sealed_head e ring n head t (last recs))))"

lemma read_lines_append:
  "read_lines e ring recs (vs @ ws) =
     ebind (read_lines e ring recs vs) (\<lambda>r. case r of Inl v \<Rightarrow> Inr (Inl v) | Inr recs' \<Rightarrow> read_lines e ring recs' ws)"
  by (induction vs arbitrary: recs) (auto split: sum.split)

lemma head_fields [simp]:
  "dget (head_entry e a u n h p s @ [(''seal'', x)]) ''kind'' v = JStr ''head''"
  "dict_at (head_entry e a u n h p s @ [(''seal'', x)]) ''epoch'' = Inr u"
  "dict_at (head_entry e a u n h p s @ [(''seal'', x)]) ''seal'' = Inr x"
  "dget (head_entry e a u n h p s @ [(''seal'', x)]) ''seal'' v = x"
  "count_at (head_entry e a u n h p s @ [(''seal'', x)]) ''count'' = Inr n"
  "count_at (head_entry e a u n h p s @ [(''seal'', x)]) ''anchored_from'' = Inr a"
  "dict_at (head_entry e a u n h p s @ [(''seal'', x)]) ''head_hash'' = Inr (JStr h)"
  "dict_at (head_entry e a u n h p s @ [(''seal'', x)]) ''count'' = Inr (JInt n)"
  "dict_at (head_entry e a u n h p s @ [(''seal'', x)]) ''created_at'' = Inr (JStr (isoformat (env_now e)))"
  by (simp_all add: head_entry_def dget_def dict_at_def count_at_def)

lemma head_entry_facts:
  "split_seal (JObj (head_entry e a u n h p s @ [(''seal'', x)])) = Inr (x, head_entry e a u n h p s)"
  "dict_set ''seal'' x (head_entry e a u n h p s) = head_entry e a u n h p s @ [(''seal'', x)]"
  "map_of ring p = Some key \<Longrightarrow> record_key ring (head_entry e a u n h p s) = Inr (Some key)"
  "dict_at (head_entry e a u n h p s) ''previous_seal'' = Inr s"
  "dget (head_entry e a u n h p s) ''kind'' JNull = JStr ''head''"
  "dict_at (head_entry e a u n h p s) ''epoch'' = Inr u"
  "dict_at (head_entry e a u n h p s) ''count'' = Inr (JInt n)"
  by (simp_all add: head_entry_def split_seal_def dict_at_def dict_pop_def dict_set_def record_key_def dget_def)

lemma seal_matches_own: "digests_ascii e \<Longrightarrow> seal_matches e key (JStr (seal_of e key d)) d = Inr True"
  by (simp add: seal_matches_def compare_digest_def digests_ascii_def seal_of_def)

text \<open>The records of a journal, and that its last line is its latest checkpoint.\<close>

lemma journal_records:
  assumes e: "digests_ascii e" and c: "cf_checkpoint_path c" and j: "journal_ok e ring n head t j"
  obtains recs where "(case j of None \<Rightarrow> [] | Some jn \<Rightarrow> jn_lines jn) = map JObj recs" "read_lines e ring [] (map JObj recs) = Inr (Inr recs)" "all_heads recs"
    "if recs = [] then n = 0 else sealed_head e ring n head t (last recs)"
    "latest_checkpoint e c ring j = Inr (if recs = [] then None else Some (last recs))"
    "recs \<noteq> [] \<longrightarrow> (\<exists>jn. j = Some jn \<and> jn_end jn = Complete \<and> jn_lines jn = map JObj recs)"
proof (cases j)
  case None
  then show thesis using assms that [of "[]"] by (simp add: latest_checkpoint_def journal_ok_def all_heads_def)
next
  case (Some jn)
  then obtain recs where jn: "jn_end jn = Complete" "jn_lines jn = map JObj recs" "if recs = [] then n = 0 else sealed_head e ring n head t (last recs)"
    "read_lines e ring [] (map JObj recs) = Inr (Inr recs)" "all_heads recs"
    using j by (auto simp: journal_ok_def)
  have "latest_checkpoint e c ring j = Inr (if recs = [] then None else Some (last recs))"
  proof (cases "recs = []")
    case True
    then show ?thesis using jn c Some by (simp add: latest_checkpoint_def)
  next
    case False
    then obtain u p key prev where "map_of ring p = Some key"
      "last recs = head_entry (at_time e t) 1 (JStr u) n head p prev @ [(''seal'', JStr (seal_of e key (head_entry (at_time e t) 1 (JStr u) n head p prev)))]"
      using jn(3) unfolding sealed_head_def Let_def by auto
    then show ?thesis using Some jn(1,2) False e c
      by (simp add: latest_checkpoint_def last_map head_entry_facts seal_matches_own)
  qed
  then show thesis using that [of recs] jn Some by simp
qed

lemma write_entry_at_time [simp]: "write_entry (at_time e t) key d j = write_entry e key d j"
  by (simp add: write_entry_def)

text \<open>A head written after the records of a journal is read back as its next record.\<close>

lemma read_next:
  assumes "digests_ascii e" "map_of ring p = Some key" "last_seal recs = s" "s = JStr x"
    and seq: "recs \<noteq> [] \<Longrightarrow> sealed_head e ring n head t (last recs) \<and> n < n' \<and> dict_at (last recs) ''epoch'' = Inr u"
  shows "read_line e ring recs (JObj (head_entry e' 1 u n' h p s @ [(''seal'', JStr (seal_of e key (head_entry e' 1 u n' h p s)))])) =
    Inr (Inr (recs @ [head_entry e' 1 u n' h p s @ [(''seal'', JStr (seal_of e key (head_entry e' 1 u n' h p s)))]]))"
proof -
  have "in_sequence (last recs) (head_entry e' 1 u n' h p s) = Inr True" if "recs \<noteq> []"
    using seq [OF that] by (auto simp: in_sequence_def head_entry_facts sealed_head_def Let_def json_gt_def)
  then show ?thesis
    using assms(1,2) by (simp add: read_line_def head_entry_facts seal_matches_own assms(3,4))
qed

lemma append_checkpoint_ok:
  assumes e: "digests_ascii e" and c: "cf_checkpoint_path c" and j: "journal_ok e ring n head t j"
    and key: "map_of ring p = Some key" and n: "0 \<le> n"
  obtains j' where "append_checkpoint (at_time e t') c uid (n + 1) h p key ring j = Inr j'" "journal_ok e ring (n + 1) h t' j'"
proof -
  obtain recs where recs: "(case j of None \<Rightarrow> [] | Some jn \<Rightarrow> jn_lines jn) = map JObj recs" "read_lines e ring [] (map JObj recs) = Inr (Inr recs)" "all_heads recs"
    "if recs = [] then n = 0 else sealed_head e ring n head t (last recs)"
    "latest_checkpoint e c ring j = Inr (if recs = [] then None else Some (last recs))"
    using journal_records [OF e c j] by metis
  have ok: "journal_ok e ring (n + 1) h t' (write_entry e key d j)"
    if d: "d = head_entry (at_time e t') 1 (JStr u) (n + 1) h p s" and line: "read_line e ring recs (JObj (d @ [(''seal'', JStr (seal_of e key d))])) = Inr (Inr (recs @ [d @ [(''seal'', JStr (seal_of e key d))]]))"
    for d u s
  proof -
    have "read_lines e ring [] (map JObj (recs @ [d @ [(''seal'', JStr (seal_of e key d))]])) = Inr (Inr (recs @ [d @ [(''seal'', JStr (seal_of e key d))]]))"
      by (simp add: read_lines_append recs(2) line)
    then show ?thesis using recs key unfolding journal_ok_def write_entry_def
      by (auto simp: all_heads_def d sealed_head_def Let_def intro!: exI [of _ "recs @ [d @ [(''seal'', JStr (seal_of e key d))]]"])
  qed
  show thesis
  proof (cases "recs = []")
    case True
    have "last_seal recs = JStr (replicate 64 CHR ''0'')" using True by (simp add: last_seal_def)
    from ok [OF refl read_next [OF e key this refl]] show thesis
      using that True recs(4,5) c by (simp add: append_checkpoint_def)
  next
    case False
    then obtain u x where d: "sealed_head e ring n head t (last recs)" "dict_at (last recs) ''epoch'' = Inr (JStr u)" "last_seal recs = JStr x"
      "dict_at (last recs) ''seal'' = Inr (JStr x)" "count_at (last recs) ''count'' = Inr n" "count_at (last recs) ''anchored_from'' = Inr 1"
      using recs(4) unfolding sealed_head_def Let_def last_seal_def by auto
    from ok [OF refl read_next [OF e key d(3) refl, of n head t]] show thesis
      using that False recs(5) c d by (simp add: append_checkpoint_def)
  qed
qed

section \<open>Recording\<close>

definition signing :: "env \<Rightarrow> audit_config \<Rightarrow> keyring \<Rightarrow> string \<Rightarrow> string \<Rightarrow> bool" where
  "signing e c ring p key \<longleftrightarrow> digests_ascii e \<and> cf_checkpoint_path c \<and> audit_keyring c = Inr ring \<and> audit_primary_id c = Inr (Some p) \<and>
     map_of ring p = Some key"

text \<open>The log verifies and the journal's latest checkpoint, of the instant \<open>t\<close>, is its head.\<close>

definition log_ok :: "env \<Rightarrow> keyring \<Rightarrow> int \<Rightarrow> audit_store \<Rightarrow> bool" where
  "log_ok e ring t st \<longleftrightarrow> verify_rows e ring GENESIS_HASH (au_rows st) = Inr (Inr (chain_head (au_rows st))) \<and>
     journal_ok e ring (int (length (au_rows st))) (chain_head (au_rows st)) t (au_journal st)"

lemma anchor_holds:
  assumes "signing e c ring p key" "log_ok e ring t st"
  obtains cp where "latest_checkpoint e c ring (au_journal st) = Inr cp" "check_anchor cp (au_rows st) = Inr ()"
proof -
  have e: "digests_ascii e" "cf_checkpoint_path c" using assms(1) by (simp_all add: signing_def)
  have j: "journal_ok e ring (int (length (au_rows st))) (chain_head (au_rows st)) t (au_journal st)"
    and v: "verify_rows e ring GENESIS_HASH (au_rows st) = Inr (Inr (chain_head (au_rows st)))" using assms(2) by (simp_all add: log_ok_def)
  obtain recs where recs: "if recs = [] then int (length (au_rows st)) = 0 else sealed_head e ring (int (length (au_rows st))) (chain_head (au_rows st)) t (last recs)"
    "latest_checkpoint e c ring (au_journal st) = Inr (if recs = [] then None else Some (last recs))"
    using journal_records [OF e j] by metis
  have "check_anchor (if recs = [] then None else Some (last recs)) (au_rows st) = Inr ()"
  proof (cases "recs = [] \<or> au_rows st = []")
    case True
    then show ?thesis using recs(1) by (auto simp: check_anchor_def sealed_head_def Let_def)
  next
    case False
    then obtain rs r where rs: "au_rows st = rs @ [r]" by (meson rev_exhaust)
    then have "al_row_hash r = Some (chain_head (au_rows st))" using v unfolding rs verify_rows_snoc verify_row_ok by blast
    then show ?thesis using False recs(1) rs by (auto simp: check_anchor_def sealed_head_def Let_def)
  qed
  then show thesis using that recs(2) by metis
qed

lemma row_of_facts:
  "row_content (audit_row_of e i prev k h sig) = k" "al_row_hash (audit_row_of e i prev k h sig) = Some h"
  "al_prev_hash (audit_row_of e i prev k h sig) = Some prev" "al_hash_version (audit_row_of e i prev k h sig) = Some 1"
  "al_row_hmac (audit_row_of e i prev k h sig) = fst sig" "al_hmac_key_id (audit_row_of e i prev k h sig) = snd sig"
  by (simp_all add: row_content_def audit_row_of_def CURRENT_HASH_VERSION_def)

lemma primary_key:
  assumes "audit_primary_id c = Inr (Some p)"
  obtains ring key where "audit_keyring c = Inr ring" "map_of ring p = Some key" "p \<noteq> []"
  using assms unfolding audit_primary_id_def
  by (cases "audit_keyring c") (auto simp: or_str_def split: if_splits option.splits)

lemma verify_recorded:
  assumes "signing e c ring p key" "h = hash_v1 e prev k"
  shows "verify_rows e ring prev [audit_row_of e' i prev k h (Some (env_hmac e key h), Some p)] = Inr (Inr h)"
proof -
  have "p \<noteq> []" "map_of ring p = Some key" "digests_ascii e" using assms(1) primary_key [of c p] by (auto simp: signing_def)
  then show ?thesis
    unfolding verify_row_ok
    by (simp add: row_of_facts assms(2) row_signed_def or_str_def compare_digest_def digests_ascii_def hash_v1_def)
qed

lemma record_audit_ok:
  assumes g: "signing e c ring p key" and ok: "log_ok e ring t0 st"
  obtains st' where "record_audit (at_time e t) c uid q st = (st', Inr ())" "log_ok e ring t st'"
    "map row_content (au_rows st') = map row_content (au_rows st) @ [content_of (at_time e t) q]"
proof -
  define k where "k = content_of (at_time e t) q"
  define h where "h = hash_v1 e (chain_head (au_rows st)) k"
  define row where "row = audit_row_of (at_time e t) (au_seq st + 1) (chain_head (au_rows st)) k h (Some (env_hmac e key h), Some p)"
  define st1 where "st1 = st\<lparr>au_rows := au_rows st @ [row], au_seq := au_seq st + 1\<rparr>"
  have cfg: "digests_ascii e" "cf_checkpoint_path c" "audit_keyring c = Inr ring" "audit_primary_id c = Inr (Some p)" "map_of ring p = Some key"
    using g by (simp_all add: signing_def)
  obtain cp where cp: "latest_checkpoint e c ring (au_journal st) = Inr cp" "check_anchor cp (au_rows st) = Inr ()"
    using anchor_holds [OF g ok] .
  have app: "append_row (at_time e t) c q st = Inr (st1, int (length (au_rows st)) + 1, h, Some p)"
    using cfg cp by (simp add: append_row_def compute_row_hash_def compute_row_hmac_def CURRENT_HASH_VERSION_def Let_def k_def h_def row_def st1_def)
  have head: "chain_head (au_rows st1) = h" using cfg(1) by (simp add: st1_def chain_head_def row_def row_of_facts or_str_def h_def hash_v1_def digests_ascii_def)
  have rows: "verify_rows e ring GENESIS_HASH (au_rows st1) = Inr (Inr h)"
    using ok verify_recorded [OF g h_def] unfolding st1_def log_ok_def row_def by (simp add: verify_rows_append)
  have "journal_ok e ring (int (length (au_rows st))) (chain_head (au_rows st)) t0 (au_journal st)" using ok by (simp add: log_ok_def)
  from append_checkpoint_ok [OF cfg(1,2) this cfg(5)]
  obtain j' where j': "append_checkpoint (at_time e t) c uid (int (length (au_rows st)) + 1) h p key ring (au_journal st) = Inr j'"
    "journal_ok e ring (int (length (au_rows st)) + 1) h t j'" by (metis of_nat_0_le_iff)
  have "record_audit (at_time e t) c uid q st = (st1\<lparr>au_journal := j'\<rparr>, Inr ())"
    using app cfg j' by (simp add: record_audit_def checkpoint_after_def st1_def)
  moreover have "log_ok e ring t (st1\<lparr>au_journal := j'\<rparr>)" using rows head j'(2) by (simp add: log_ok_def st1_def add.commute)
  moreover have "map row_content (au_rows (st1\<lparr>au_journal := j'\<rparr>)) = map row_content (au_rows st) @ [k]"
    by (simp add: st1_def row_def row_of_facts)
  ultimately show thesis using that unfolding k_def by blast
qed

section \<open>Runs\<close>

text \<open>A call of \<open>record_audit\<close>: its instant, the identifier a new journal would get, and the request.\<close>

type_synonym audit_call = "int \<times> string \<times> audit_req"

definition record_step :: "env \<Rightarrow> audit_config \<Rightarrow> audit_call \<Rightarrow> audit_store \<Rightarrow> audit_store" where
  "record_step e c = (\<lambda>(t, uid, q) st. fst (record_audit (at_time e t) c uid q st))"

definition entry_of :: "env \<Rightarrow> audit_call \<Rightarrow> audit_content" where
  "entry_of e = (\<lambda>(t, uid, q). content_of (at_time e t) q)"

definition empty_log :: audit_store where
  "empty_log = \<lparr>au_rows = [], au_seq = 0, au_journal = None\<rparr>"

definition log_inv :: "env \<Rightarrow> audit_config \<Rightarrow> audit_store \<Rightarrow> bool" where
  "log_inv e c st \<longleftrightarrow> (\<exists>ring p key t. signing e c ring p key \<and> log_ok e ring t st)"

interpretation audit: append_log "record_step e c" "log_inv e c" "\<lambda>st. map row_content (au_rows st)" "entry_of e" for e c
proof
  fix st :: audit_store and op :: audit_call
  assume "log_inv e c st"
  then obtain ring p key t where g: "signing e c ring p key" "log_ok e ring t st" unfolding log_inv_def by blast
  obtain t' uid q where op: "op = (t', uid, q)" by (metis prod_cases3)
  obtain st' where "record_audit (at_time e t') c uid q st = (st', Inr ())" "log_ok e ring t' st'"
    "map row_content (au_rows st') = map row_content (au_rows st) @ [content_of (at_time e t') q]"
    using record_audit_ok [OF g] .
  then show "log_inv e c (record_step e c op st)"
    "map row_content (au_rows (record_step e c op st)) = map row_content (au_rows st) @ [entry_of e op]"
    using g(1) unfolding op record_step_def entry_of_def log_inv_def by auto
qed

lemma empty_log_inv: "signing e c ring p key \<Longrightarrow> log_inv e c empty_log"
  unfolding log_inv_def log_ok_def by (auto simp: empty_log_def chain_head_def journal_ok_def)

section \<open>Units of work\<close>







section \<open>Verification of a run\<close>

definition current_report :: "nat \<Rightarrow> bool \<Rightarrow> audit_report" where
  "current_report n fresh = (report True n None None (Some fresh) (Some (if fresh then ''current'' else ''stale'')))\<lparr>rp_unanchored := Some 0, rp_unanchored_prior := Some 0\<rparr>"

lemma read_checkpoints_at_time [simp]: "read_checkpoints (at_time e t) c ring j = read_checkpoints e c ring j"
  unfolding read_checkpoints_def read_lines_at_time ..

lemma journal_read:
  assumes g: "signing e c ring p key" and ok: "log_ok e ring t st" and rows: "au_rows st \<noteq> []"
  obtains recs where "read_checkpoints e c ring (au_journal st) = Inr (recs, None)" "recs \<noteq> []" "all_heads recs"
    "count_at (last recs) ''count'' = Inr (int (length (au_rows st)))" "dict_at (last recs) ''head_hash'' = Inr (JStr (chain_head (au_rows st)))"
    "count_at (last recs) ''anchored_from'' = Inr 1" "dict_at (last recs) ''created_at'' = Inr (JStr (isoformat t))"
proof -
  have cfg: "digests_ascii e" "cf_checkpoint_path c" "ring \<noteq> []" using g by (auto simp: signing_def)
  have j: "journal_ok e ring (int (length (au_rows st))) (chain_head (au_rows st)) t (au_journal st)" using ok by (simp add: log_ok_def)
  obtain recs where recs: "read_lines e ring [] (map JObj recs) = Inr (Inr recs)" "all_heads recs"
    "if recs = [] then int (length (au_rows st)) = 0 else sealed_head e ring (int (length (au_rows st))) (chain_head (au_rows st)) t (last recs)"
    "recs \<noteq> [] \<longrightarrow> (\<exists>jn. au_journal st = Some jn \<and> jn_end jn = Complete \<and> jn_lines jn = map JObj recs)"
    using journal_records [OF cfg(1,2) j] by metis
  have ne: "recs \<noteq> []" using recs(3) rows by auto
  then have "read_checkpoints e c ring (au_journal st) = Inr (recs, None)"
    using recs(1,4) cfg(2,3) by (auto simp: read_checkpoints_def)
  then show thesis using that [of recs] recs(2,3) ne by (auto simp: sealed_head_def Let_def)
qed

lemma log_verifies:
  assumes g: "signing e c ring p key" and ok: "log_ok e ring t st" and rows: "au_rows st \<noteq> []"
    and t: "0 \<le> t div (86400 * usec_per_sec) + epoch_day" "t div (86400 * usec_per_sec) + epoch_day \<le> MAX_DAY"
  shows "verify_audit_chain (at_time e now) c True st = Inr (current_report (length (au_rows st)) (now - t \<le> 24 * 3600 * usec_per_sec))"
proof -
  have cfg: "audit_keyring c = Inr ring" using g by (simp add: signing_def)
  have v: "verify_rows e ring GENESIS_HASH (au_rows st) = Inr (Inr (chain_head (au_rows st)))" using ok by (simp add: log_ok_def)
  obtain recs where read: "read_checkpoints e c ring (au_journal st) = Inr (recs, None)" "recs \<noteq> []" "all_heads recs"
    "count_at (last recs) ''count'' = Inr (int (length (au_rows st)))" "dict_at (last recs) ''head_hash'' = Inr (JStr (chain_head (au_rows st)))"
    "count_at (last recs) ''anchored_from'' = Inr 1" "dict_at (last recs) ''created_at'' = Inr (JStr (isoformat t))"
    using journal_read [OF g ok rows] .
  have heads: "\<not> list_ex (\<lambda>d. py_eq (dget d ''kind'' JNull) (JStr ''reconcile'')) recs"
    using read(3) by (auto simp: all_heads_def list_ex_iff)
  show ?thesis
    using cfg v read heads instant_read [OF t]
    by (simp add: verify_audit_chain_def verify_checkpoint_def anchored_report_def Let_def current_report_def)
qed

text \<open>
  C39: recording refines the append-only log. From an empty database, with a signing key and a checkpoint journal configured,
  every call of \<open>record_audit\<close> succeeds, the rows are the requests with the instants they were made at, in order, and
  verification at any later instant accepts the log as complete: every entry counted, none without an anchor, and current as long as the last
  entry is no older than a day.
\<close>

theorem audit_run_verifies:
  assumes "digests_ascii e" "cf_checkpoint_path c" "audit_primary_id c = Inr (Some p)"
    and "0 \<le> t div (86400 * usec_per_sec) + epoch_day" "t div (86400 * usec_per_sec) + epoch_day \<le> MAX_DAY"
    and "record_audit (at_time e t) c uid q (fold (record_step e c) calls empty_log) = (st, r)"
  shows "r = Inr () \<and> map row_content (au_rows st) = map (entry_of e) (calls @ [(t, uid, q)]) \<and>
    verify_audit_chain (at_time e now) c True st = Inr (current_report (length calls + 1) (now - t \<le> 24 * 3600 * usec_per_sec))"
proof -
  obtain ring key where g: "signing e c ring p key" using primary_key [OF assms(3)] assms(1-3) unfolding signing_def by metis
  have inv: "log_inv e c (fold (record_step e c) calls empty_log)" using audit.run_inv [OF empty_log_inv [OF g]] .
  have body: "map row_content (au_rows (fold (record_step e c) calls empty_log)) = map (entry_of e) calls"
    using audit.run_contents [OF empty_log_inv [OF g]] by (simp add: empty_log_def)
  obtain t0 where t0: "log_ok e ring t0 (fold (record_step e c) calls empty_log)"
    using inv g unfolding log_inv_def signing_def by auto
  have st: "r = Inr ()" "log_ok e ring t st" "map row_content (au_rows st) = map (entry_of e) (calls @ [(t, uid, q)])"
    using record_audit_ok [OF g t0] assms(6) body by (auto simp: entry_of_def) (metis Pair_inject)+
  moreover from this(3) have "length (au_rows st) = length calls + 1" by (metis length_append_singleton length_map Suc_eq_plus1)
  moreover from this have "au_rows st \<noteq> []" by auto
  ultimately show ?thesis using log_verifies [OF g st(2) _ assms(4,5), of now] by simp
qed

section \<open>A concrete log\<close>

definition digest_env :: env where
  "digest_env = \<lparr>env_now = 1700000000000000, env_sha256 = (\<lambda>s. ''h'' @ s), env_hmac = (\<lambda>k s. ''m''), env_getenv = (\<lambda>_. None), env_float_repr = ratio_text\<rparr>"

definition audit_cfg :: audit_config where
  "audit_cfg = \<lparr>cf_secret_key = Some ''k'', cf_hmac_keys = None, cf_hmac_primary = None, cf_checkpoint_path = True\<rparr>"

definition session_request :: "string \<Rightarrow> audit_req" where
  "session_request a = \<lparr>aq_actor_ref = ''ada'', aq_action = a, aq_tenant_id = Some ''t1'', aq_target_type = None, aq_target_id = None, aq_detail = None\<rparr>"



lemma audit_cfg_signing: "signing digest_env audit_cfg [(''legacy'', ''k'')] ''legacy'' ''k''"
  by (simp add: signing_def digests_ascii_def digest_env_def audit_cfg_def audit_primary_id_def audit_keyring_def or_str_def ascii_def)

theorem audit_run_verifies_witness:
  "snd (record_audit (at_time digest_env 1700000000000000) audit_cfg ''v'' (session_request ''logout'')
      (fold (record_step digest_env audit_cfg) [(0, ''u'', session_request ''login'')] empty_log)) = Inr ()"
  using audit_run_verifies [of digest_env audit_cfg "''legacy''" 1700000000000000 "''v''" "session_request ''logout''" "[(0, ''u'', session_request ''login'')]"
      "fst (record_audit (at_time digest_env 1700000000000000) audit_cfg ''v'' (session_request ''logout'')
         (fold (record_step digest_env audit_cfg) [(0, ''u'', session_request ''login'')] empty_log))"] audit_cfg_signing
  by (simp add: signing_def epoch_day_def MAX_DAY_def)


section \<open>History\<close>



end
