(* ===== verification/Raw_Events.thy ===== *)
theory Raw_Events
  imports Attestation Coverage
begin

text \<open>
  The raw telemetry of storage/raw_events.py: the row of an event, the insertion that ignores an event already stored, and the
  ledger of the fold (pending, folded, counted and quarantined rows). The body is stored as the JSON value it is written from; that
  it may be encrypted at rest is left out.
\<close>

section \<open>Usage counters\<close>

text \<open>
  \<open>float(text)\<close>: the double nearest to the number written. Below \<open>2\<^sup>5\<^sup>3\<close> it is \<open>to_double\<close>; above, the significand
  is found by halving, at most 1024 times for a finite double.
\<close>

fun halvings :: "nat \<Rightarrow> rat \<Rightarrow> nat" where
  "halvings 0 x = 0"
| "halvings (Suc n) x = (if x < 2 ^ 53 then 0 else Suc (halvings n (x / 2)))"

definition nearest_double :: "rat \<Rightarrow> rat" where
  "nearest_double x =
     (let a = \<bar>x\<bar>; k = halvings 1024 a;
          v = (if k = 0 then to_double a else of_int (round_half_even (a / 2 ^ k)) * 2 ^ k)
      in if x < 0 then - v else v)"

text \<open>\<open>int(x)\<close> of a float: towards zero.\<close>

definition truncated :: "rat \<Rightarrow> int" where
  "truncated x = (if 0 \<le> x then \<lfloor>x\<rfloor> else - \<lfloor>- x\<rfloor>)"

fun as_int :: "json \<Rightarrow> int" where
  "as_int (JInt i) = i"
| "as_int (JFloat r) = truncated r"
| "as_int (JStr t) = (case py_float_text t of None \<Rightarrow> 0 | Some x \<Rightarrow> if finite_double x then truncated (nearest_double x) else 0)"
| "as_int _ = 0"

text \<open>An integer column takes 64 bits.\<close>

definition sql_int :: "int \<Rightarrow> int res" where
  "sql_int i = (if int64 i then Inr i else Inl (RuntimeErr ''Python int too large to convert to SQLite INTEGER''))"

section \<open>The event as it is stored\<close>

definition opt_string :: "string option \<Rightarrow> json" where
  "opt_string x = (case x of None \<Rightarrow> JNull | Some t \<Rightarrow> JStr t)"

definition serialize_raw_event :: "telemetry \<Rightarrow> json" where
  "serialize_raw_event v =
     JObj [(''type'', JStr (tm_type v)), (''schema_version'', JStr (tm_schema_version v)), (''trace_id'', JStr (tm_trace_id v)),
       (''span_id'', JStr (tm_span_id v)), (''timestamp'', JStr (tm_timestamp v)), (''service'', JStr (tm_service v)),
       (''environment'', JStr (tm_environment v)), (''project'', JStr (tm_project v)), (''parent_span_id'', opt_string (tm_parent_span_id v)),
       (''system'', opt_string (tm_system v)), (''name'', opt_string (tm_name v)), (''status'', JStr (tm_status v)),
       (''duration_ms'', (case tm_duration_ms v of None \<Rightarrow> JNull | Some r \<Rightarrow> JFloat r)), (''attributes'', tm_attributes v)]"

definition text_at :: "dict \<Rightarrow> string \<Rightarrow> string res" where
  "text_at d k = ebind (dict_at d k) (\<lambda>v. case v of JStr t \<Rightarrow> Inr t | _ \<Rightarrow> Inl TypeErr)"

definition opt_text_at :: "dict \<Rightarrow> string \<Rightarrow> string option res" where
  "opt_text_at d k = (case dget d k JNull of JNull \<Rightarrow> Inr None | JStr t \<Rightarrow> Inr (Some t) | _ \<Rightarrow> Inl TypeErr)"

definition deserialize_raw_event :: "json \<Rightarrow> telemetry res" where
  "deserialize_raw_event raw =
     (let d = as_object raw in
      ebind (text_at d ''type'') (\<lambda>ty. ebind (text_at d ''schema_version'') (\<lambda>sv. ebind (text_at d ''trace_id'') (\<lambda>tr.
      ebind (text_at d ''span_id'') (\<lambda>sp. ebind (text_at d ''timestamp'') (\<lambda>ts. ebind (text_at d ''service'') (\<lambda>service.
      ebind (text_at d ''environment'') (\<lambda>environment. ebind (text_at d ''project'') (\<lambda>project.
      ebind (opt_text_at d ''parent_span_id'') (\<lambda>parent. ebind (opt_text_at d ''system'') (\<lambda>system. ebind (opt_text_at d ''name'') (\<lambda>name.
      ebind (text_at d ''status'') (\<lambda>status.
      ebind (case dget d ''duration_ms'' JNull of JNull \<Rightarrow> Inr None | JFloat r \<Rightarrow> Inr (Some r) | _ \<Rightarrow> Inl TypeErr) (\<lambda>duration.
      ebind (dict_at d ''attributes'') (\<lambda>attributes.
      Inr \<lparr>tm_type = ty, tm_schema_version = sv, tm_trace_id = tr, tm_span_id = sp, tm_timestamp = ts, tm_service = service,
           tm_environment = environment, tm_project = project, tm_parent_span_id = parent, tm_system = system, tm_name = name, tm_status = status,
           tm_duration_ms = duration, tm_attributes = attributes\<rparr>)))))))))))))))"

lemma deserialize_serialize [simp]: "deserialize_raw_event (serialize_raw_event v) = Inr v"
  by (cases v)
    (simp add: deserialize_raw_event_def serialize_raw_event_def text_at_def opt_text_at_def dict_at_def dget_def opt_string_def Let_def split: option.split)

definition event_attributes :: "telemetry \<Rightarrow> dict" where
  "event_attributes v = as_object (tm_attributes v)"

definition event_metadata :: "telemetry \<Rightarrow> dict" where
  "event_metadata v = as_object (dget (event_attributes v) ''metadata'' JNull)"

definition event_usage :: "telemetry \<Rightarrow> dict" where
  "event_usage v = as_object (dget (event_attributes v) ''usage'' JNull)"

text \<open>The row of an event; the identity is given on insertion. A list or an object cannot be bound to a column.\<close>

definition event_to_row :: "(rat \<Rightarrow> string) \<Rightarrow> telemetry \<Rightarrow> sdk_event res" where
  "event_to_row rt v =
     (let attributes = event_attributes v; metadata = event_metadata v; usage = event_usage v in
      ebind (sql_text rt (dget metadata ''tenant_id'' JNull)) (\<lambda>tenant. ebind (sql_text rt (dget metadata ''user_id'' JNull)) (\<lambda>user.
      ebind (sql_text rt (dget metadata ''application_name'' JNull)) (\<lambda>app. ebind (sql_text rt (dget metadata ''workflow_name'' JNull)) (\<lambda>workflow.
      ebind (sql_text rt (dget metadata ''use_case'' JNull)) (\<lambda>use_case. ebind (sql_text rt (dget metadata ''model_purpose'' JNull)) (\<lambda>purpose.
      ebind (sql_text rt (dget attributes ''provider'' JNull)) (\<lambda>provider. ebind (sql_text rt (dget attributes ''model'' JNull)) (\<lambda>model.
      ebind (sql_text rt (dget attributes ''operation'' JNull)) (\<lambda>operation.
      ebind (sql_int (as_int (dget usage ''input_tokens'' JNull))) (\<lambda>inp. ebind (sql_int (as_int (dget usage ''output_tokens'' JNull))) (\<lambda>outp.
      Inr \<lparr>sk_id = 0, sk_event_type = tm_type v, sk_schema_version = tm_schema_version v, sk_trace_id = tm_trace_id v, sk_span_id = tm_span_id v,
           sk_parent_span_id = tm_parent_span_id v, sk_timestamp = tm_timestamp v, sk_service = tm_service v, sk_environment = tm_environment v,
           sk_project = tm_project v, sk_system = tm_system v, sk_name = tm_name v, sk_status = tm_status v, sk_duration_ms = tm_duration_ms v,
           sk_tenant_id = tenant, sk_user_id = user, sk_application_name = app, sk_workflow_name = workflow, sk_use_case = use_case,
           sk_model_purpose = purpose, sk_provider = provider, sk_model = model, sk_operation = operation, sk_input_tokens = inp,
           sk_output_tokens = outp, sk_raw_event = serialize_raw_event v, sk_ingested_at = None, sk_folded_at = None, sk_counted_at = None,
           sk_fold_attempts = 0, sk_fold_error = None\<rparr>))))))))))))"

section \<open>Insertion\<close>

type_synonym span_key = "string option \<times> string \<times> string"

definition sk_key :: "sdk_event \<Rightarrow> span_key" where
  "sk_key r = (sk_tenant_id r, sk_trace_id r, sk_span_id r)"

text \<open>\<open>INSERT OR IGNORE\<close> under the unique index on (tenant, trace, span): rows without a tenant never conflict.\<close>

definition span_taken :: "span_key \<Rightarrow> sdk_event list \<Rightarrow> bool" where
  "span_taken k rows \<longleftrightarrow> fst k \<noteq> None \<and> k \<in> set (map sk_key rows)"

definition insert_event_row :: "env \<Rightarrow> sdk_event \<Rightarrow> db \<times> span_key list \<Rightarrow> db \<times> span_key list" where
  "insert_event_row e r = (\<lambda>(s, keys).
     if span_taken (sk_key r) (sdk_events s) then (s, keys)
     else (s\<lparr>sdk_events := sdk_events s @ [r\<lparr>sk_id := events_seq s + 1, sk_ingested_at := Some (db_text (env_now e))\<rparr>],
             events_seq := events_seq s + 1\<rparr>, keys @ [sk_key r]))"

text \<open>The first event of each key the database inserted, in order.\<close>

fun first_inserted :: "span_key list \<Rightarrow> (telemetry \<times> sdk_event) list \<Rightarrow> telemetry list" where
  "first_inserted keys [] = []"
| "first_inserted keys ((v, r) # rest) =
     (if sk_key r \<in> set keys then v # first_inserted (filter (\<lambda>k. k \<noteq> sk_key r) keys) rest else first_inserted keys rest)"

definition insert_events :: "env \<Rightarrow> (rat \<Rightarrow> string) \<Rightarrow> telemetry list \<Rightarrow> db \<Rightarrow> (db \<times> telemetry list) res" where
  "insert_events e rt vs s =
     ebind (emap (event_to_row rt) vs) (\<lambda>rows.
     let (s', keys) = fold (insert_event_row e) rows (s, []) in Inr (s', first_inserted keys (zip vs rows)))"

section \<open>The fold ledger\<close>

definition claim_unfolded :: "string \<Rightarrow> nat \<Rightarrow> int option \<Rightarrow> db \<Rightarrow> (int \<times> telemetry) list res" where
  "claim_unfolded tenant limit budget s =
     emap (\<lambda>r. ebind (deserialize_raw_event (sk_raw_event r)) (\<lambda>v. Inr (sk_id r, v)))
       (take limit (sort_key sk_id (filter (\<lambda>r. sk_folded_at r = None \<and> sk_tenant_id r = Some tenant \<and>
          (case budget of None \<Rightarrow> True | Some m \<Rightarrow> sk_fold_attempts r < m)) (sdk_events s))))"

definition mark_folded :: "env \<Rightarrow> int list \<Rightarrow> db \<Rightarrow> db" where
  "mark_folded e ids s =
     s\<lparr>sdk_events := update_where (\<lambda>r. sk_folded_at r = None \<and> sk_id r \<in> set ids) (\<lambda>r. r\<lparr>sk_folded_at := Some (db_text (env_now e))\<rparr>) (sdk_events s)\<rparr>"

definition record_fold_attempt :: "int list \<Rightarrow> string \<Rightarrow> db \<Rightarrow> db" where
  "record_fold_attempt ids error s =
     s\<lparr>sdk_events := update_where (\<lambda>r. sk_folded_at r = None \<and> sk_id r \<in> set ids)
        (\<lambda>r. r\<lparr>sk_fold_attempts := sk_fold_attempts r + 1, sk_fold_error := Some (take 500 error)\<rparr>) (sdk_events s)\<rparr>"

definition tenants_with_unfolded :: "db \<Rightarrow> string list" where
  "tenants_with_unfolded s = remdups (List.map_filter sk_tenant_id (filter (\<lambda>r. sk_folded_at r = None) (sdk_events s)))"

definition count_unfolded :: "string option \<Rightarrow> db \<Rightarrow> nat" where
  "count_unfolded tenant s = length (filter (\<lambda>r. sk_folded_at r = None \<and> (case tenant of None \<Rightarrow> True | Some t \<Rightarrow> sk_tenant_id r = Some t)) (sdk_events s))"

definition count_quarantined :: "int \<Rightarrow> db \<Rightarrow> nat" where
  "count_quarantined budget s = length (filter (\<lambda>r. sk_folded_at r = None \<and> budget \<le> sk_fold_attempts r) (sdk_events s))"

end
