(* ===== verification/Inventory.thy ===== *)
theory Inventory
  imports Raw_Events
begin

text \<open>
  The inventory of storage/entities.py: applications, workflows, models, providers, observed events, observed risks and captured
  controls, folded from the raw rows. It is the one projection that counts, and it counts each raw row once. The counters are kept as
  integers; a sum beyond 64 bits, where the database changes to floating point, is not modelled.
\<close>

section \<open>Helpers\<close>

definition RUNTIME_EVENT_TYPES :: "string list" where
  "RUNTIME_EVENT_TYPES = [''model.call'', ''agent.run'', ''tool.call'', ''retrieval.call'', ''guardrail.decision'', ''trace.completed'', ''sdk.health'']"

text \<open>One column of \<open>merge_sets\<close>: the values so far with the text of a truthy new one, sorted.\<close>

definition merge_set :: "env \<Rightarrow> string list \<Rightarrow> json \<Rightarrow> string list" where
  "merge_set e existing v = sorted_set (if truthy v then existing @ [py_str (env_float_repr e) v] else existing)"

definition row_set :: "('r \<Rightarrow> string list) \<Rightarrow> 'r option \<Rightarrow> string list" where
  "row_set col row = (case row of None \<Rightarrow> [] | Some r \<Rightarrow> col r)"

definition id_at :: "env \<Rightarrow> dict \<Rightarrow> string \<Rightarrow> string option" where
  "id_at e d k = id_part (env_float_repr e) (dget d k JNull)"

definition error_count :: "telemetry \<Rightarrow> int" where
  "error_count v = (if tm_status v = ''error'' then 1 else 0)"

section \<open>Applications and workflows\<close>

definition merge_application :: "application \<Rightarrow> application \<Rightarrow> application" where
  "merge_application n r =
     r\<lparr>ga_use_cases := ga_use_cases n, ga_model_purposes := ga_model_purposes n, ga_providers := ga_providers n, ga_models := ga_models n,
       ga_model_calls := ga_model_calls r + ga_model_calls n, ga_errors := ga_errors r + ga_errors n,
       ga_input_tokens := ga_input_tokens r + ga_input_tokens n, ga_output_tokens := ga_output_tokens r + ga_output_tokens n,
       ga_last_seen := ga_last_seen n\<rparr>"

definition upsert_application :: "env \<Rightarrow> (rat \<Rightarrow> string) \<Rightarrow> bool \<Rightarrow> telemetry \<Rightarrow> db \<Rightarrow> db res" where
  "upsert_application e rt is_model_call v s =
     (let attrs = event_attributes v; metadata = event_metadata v; usage = event_usage v;
          application_name = dget metadata ''application_name'' JNull in
      if \<not> truthy application_name then Inr s
      else let key = entity_id e [Some ''application'', id_at e metadata ''tenant_id'', Some (tm_project v), Some (tm_environment v), id_at e metadata ''application_name''];
               row = by_key ga_entity_id key (governance_applications s) in
        ebind (sql_text rt (dget metadata ''tenant_id'' JNull)) (\<lambda>tenant. ebind (sql_required rt application_name) (\<lambda>app.
        ebind (sql_int (as_int (dget usage ''input_tokens'' JNull))) (\<lambda>inp. ebind (sql_int (as_int (dget usage ''output_tokens'' JNull))) (\<lambda>outp.
        let n = \<lparr>ga_entity_id = key, ga_tenant_id = tenant, ga_project = tm_project v, ga_environment = tm_environment v, ga_application_name = app,
                 ga_use_cases = merge_set e (row_set ga_use_cases row) (dget metadata ''use_case'' JNull),
                 ga_model_purposes = merge_set e (row_set ga_model_purposes row) (dget metadata ''model_purpose'' JNull),
                 ga_providers = merge_set e (row_set ga_providers row) (dget attrs ''provider'' JNull),
                 ga_models = merge_set e (row_set ga_models row) (dget attrs ''model'' JNull),
                 ga_model_calls = (if is_model_call then 1 else 0), ga_errors = error_count v, ga_input_tokens = inp, ga_output_tokens = outp,
                 ga_first_seen = tm_timestamp v, ga_last_seen = tm_timestamp v\<rparr>
        in Inr (s\<lparr>governance_applications := upsert ga_entity_id (merge_application n) n (governance_applications s)\<rparr>))))))"

definition merge_workflow :: "workflow_row \<Rightarrow> workflow_row \<Rightarrow> workflow_row" where
  "merge_workflow n r =
     r\<lparr>gw_applications := gw_applications n, gw_providers := gw_providers n, gw_models := gw_models n,
       gw_model_calls := gw_model_calls r + gw_model_calls n, gw_errors := gw_errors r + gw_errors n,
       gw_input_tokens := gw_input_tokens r + gw_input_tokens n, gw_output_tokens := gw_output_tokens r + gw_output_tokens n,
       gw_last_seen := gw_last_seen n\<rparr>"

text \<open>A model call without a workflow falls back to its span name; other events join only a workflow they declare.\<close>

definition workflow_name_of :: "bool \<Rightarrow> telemetry \<Rightarrow> json option" where
  "workflow_name_of is_model_call v =
     (let declared = dget (event_metadata v) ''workflow_name'' JNull in
      if truthy declared then Some declared
      else if is_model_call then Some (py_or (opt_string (tm_name v)) (JStr ''unknown'')) else None)"

definition upsert_workflow :: "env \<Rightarrow> (rat \<Rightarrow> string) \<Rightarrow> bool \<Rightarrow> telemetry \<Rightarrow> db \<Rightarrow> db res" where
  "upsert_workflow e rt is_model_call v s =
     (let attrs = event_attributes v; metadata = event_metadata v; usage = event_usage v in
      case workflow_name_of is_model_call v of
        None \<Rightarrow> Inr s
      | Some workflow_name \<Rightarrow>
          let key = entity_id e [Some ''workflow'', id_at e metadata ''tenant_id'', Some (tm_project v), Some (tm_environment v), id_part (env_float_repr e) workflow_name];
              row = by_key gw_entity_id key (governance_workflows s) in
          ebind (sql_text rt (dget metadata ''tenant_id'' JNull)) (\<lambda>tenant. ebind (sql_required rt workflow_name) (\<lambda>workflow.
          ebind (sql_int (as_int (dget usage ''input_tokens'' JNull))) (\<lambda>inp. ebind (sql_int (as_int (dget usage ''output_tokens'' JNull))) (\<lambda>outp.
          let n = \<lparr>gw_entity_id = key, gw_tenant_id = tenant, gw_project = tm_project v, gw_environment = tm_environment v, gw_workflow_name = workflow,
                   gw_applications = merge_set e (row_set gw_applications row) (dget metadata ''application_name'' JNull),
                   gw_providers = merge_set e (row_set gw_providers row) (dget attrs ''provider'' JNull),
                   gw_models = merge_set e (row_set gw_models row) (dget attrs ''model'' JNull),
                   gw_model_calls = (if is_model_call then 1 else 0), gw_errors = error_count v, gw_input_tokens = inp, gw_output_tokens = outp,
                   gw_first_seen = tm_timestamp v, gw_last_seen = tm_timestamp v\<rparr>
          in Inr (s\<lparr>governance_workflows := upsert gw_entity_id (merge_workflow n) n (governance_workflows s)\<rparr>))))))"

section \<open>Models and providers\<close>

definition merge_model :: "model_row \<Rightarrow> model_row \<Rightarrow> model_row" where
  "merge_model n r =
     r\<lparr>gm_operations := gm_operations n, gm_applications := gm_applications n, gm_model_calls := gm_model_calls r + 1,
       gm_errors := gm_errors r + gm_errors n, gm_input_tokens := gm_input_tokens r + gm_input_tokens n,
       gm_output_tokens := gm_output_tokens r + gm_output_tokens n, gm_last_seen := gm_last_seen n\<rparr>"

definition upsert_model :: "env \<Rightarrow> (rat \<Rightarrow> string) \<Rightarrow> telemetry \<Rightarrow> db \<Rightarrow> db res" where
  "upsert_model e rt v s =
     (let attrs = event_attributes v; metadata = event_metadata v; usage = event_usage v;
          provider = py_or (dget attrs ''provider'' JNull) (JStr ''unknown''); model = py_or (dget attrs ''model'' JNull) (JStr ''unknown'');
          key = entity_id e [Some ''model'', id_at e metadata ''tenant_id'', Some (tm_project v), Some (tm_environment v),
                  id_part (env_float_repr e) provider, id_part (env_float_repr e) model];
          row = by_key gm_entity_id key (governance_models s) in
      ebind (sql_text rt (dget metadata ''tenant_id'' JNull)) (\<lambda>tenant. ebind (sql_required rt provider) (\<lambda>p. ebind (sql_required rt model) (\<lambda>m.
      ebind (sql_int (as_int (dget usage ''input_tokens'' JNull))) (\<lambda>inp. ebind (sql_int (as_int (dget usage ''output_tokens'' JNull))) (\<lambda>outp.
      let n = \<lparr>gm_entity_id = key, gm_tenant_id = tenant, gm_project = tm_project v, gm_environment = tm_environment v, gm_provider = p, gm_model = m,
               gm_operations = merge_set e (row_set gm_operations row) (dget attrs ''operation'' JNull),
               gm_applications = merge_set e (row_set gm_applications row) (dget metadata ''application_name'' JNull),
               gm_model_calls = 1, gm_errors = error_count v, gm_input_tokens = inp, gm_output_tokens = outp,
               gm_first_seen = tm_timestamp v, gm_last_seen = tm_timestamp v\<rparr>
      in Inr (s\<lparr>governance_models := upsert gm_entity_id (merge_model n) n (governance_models s)\<rparr>)))))))"

definition merge_provider :: "provider_row \<Rightarrow> provider_row \<Rightarrow> provider_row" where
  "merge_provider n r =
     r\<lparr>gv_models := gv_models n, gv_applications := gv_applications n, gv_model_calls := gv_model_calls r + 1,
       gv_errors := gv_errors r + gv_errors n, gv_last_seen := gv_last_seen n\<rparr>"

definition upsert_provider :: "env \<Rightarrow> (rat \<Rightarrow> string) \<Rightarrow> telemetry \<Rightarrow> db \<Rightarrow> db res" where
  "upsert_provider e rt v s =
     (let attrs = event_attributes v; metadata = event_metadata v; provider = dget attrs ''provider'' JNull in
      if \<not> truthy provider then Inr s
      else let key = entity_id e [Some ''provider'', id_at e metadata ''tenant_id'', Some (tm_project v), Some (tm_environment v), id_at e attrs ''provider''];
               row = by_key gv_entity_id key (governance_providers s) in
        ebind (sql_text rt (dget metadata ''tenant_id'' JNull)) (\<lambda>tenant. ebind (sql_required rt provider) (\<lambda>p.
        let n = \<lparr>gv_entity_id = key, gv_tenant_id = tenant, gv_project = tm_project v, gv_environment = tm_environment v, gv_provider = p,
                 gv_models = merge_set e (row_set gv_models row) (dget attrs ''model'' JNull),
                 gv_applications = merge_set e (row_set gv_applications row) (dget metadata ''application_name'' JNull),
                 gv_model_calls = 1, gv_errors = error_count v, gv_first_seen = tm_timestamp v, gv_last_seen = tm_timestamp v\<rparr>
        in Inr (s\<lparr>governance_providers := upsert gv_entity_id (merge_provider n) n (governance_providers s)\<rparr>))))"

section \<open>Observed events\<close>

definition first_truthy :: "json list \<Rightarrow> json" where
  "first_truthy vs = (case filter truthy vs of [] \<Rightarrow> (if vs = [] then JNull else last vs) | v # _ \<Rightarrow> v)"

definition observed_name :: "telemetry \<Rightarrow> json" where
  "observed_name v =
     (let attrs = event_attributes v in
      first_truthy (map (\<lambda>k. dget attrs k JNull) [''retriever'', ''tool_name'', ''guardrail_name'', ''eval_name'', ''agent_name''] @
        [opt_string (tm_name v), JStr ''unknown'']))"

text \<open>\<open>INSERT OR REPLACE\<close>: the old row of the key goes, the new one comes last.\<close>

definition insert_or_replace :: "('r \<Rightarrow> 'k) \<Rightarrow> 'r \<Rightarrow> 'r list \<Rightarrow> 'r list" where
  "insert_or_replace key r t = delete_where (\<lambda>x. key x = key r) t @ [r]"

definition upsert_observed_event :: "env \<Rightarrow> (rat \<Rightarrow> string) \<Rightarrow> telemetry \<Rightarrow> db \<Rightarrow> db res" where
  "upsert_observed_event e rt v s =
     (let attrs = event_attributes v; metadata = event_metadata v; name = observed_name v;
          key = entity_id e [Some (tm_type v), id_part (env_float_repr e) (py_or (dget metadata ''tenant_id'' JNull) (JStr [])), Some (tm_project v),
                  Some (tm_environment v), Some (tm_trace_id v), Some (tm_span_id v), id_part (env_float_repr e) name] in
      ebind (sql_text rt (dget metadata ''tenant_id'' JNull)) (\<lambda>tenant. ebind (sql_text rt (dget metadata ''application_name'' JNull)) (\<lambda>app.
      ebind (sql_text rt (dget metadata ''workflow_name'' JNull)) (\<lambda>workflow. ebind (sql_required rt name) (\<lambda>name_text.
      Inr (s\<lparr>governance_observed_events := insert_or_replace oe_entity_id
        \<lparr>oe_entity_id = key, oe_entity_type = tm_type v, oe_tenant_id = tenant, oe_project = tm_project v, oe_environment = tm_environment v,
         oe_application_name = app, oe_workflow_name = workflow, oe_name = name_text, oe_status = tm_status v, oe_trace_id = tm_trace_id v,
         oe_duration_ms = tm_duration_ms v, oe_attributes = JObj attrs, oe_observed_at = tm_timestamp v\<rparr> (governance_observed_events s)\<rparr>))))))"

section \<open>Observed risks and captured controls\<close>

definition RISK_EVIDENCE_CAP :: nat where "RISK_EVIDENCE_CAP = 200"

text \<open>
  The evidence of a risk is a bounded sample of traces: once it is full a new event changes the state and the recency of the row and not
  the sample.
\<close>

definition upsert_risk :: "env \<Rightarrow> (rat \<Rightarrow> string) \<Rightarrow> telemetry \<Rightarrow> string \<Rightarrow> string \<Rightarrow> string \<Rightarrow> string \<Rightarrow> db \<Rightarrow> db res" where
  "upsert_risk e rt v risk severity evidence source s =
     (let metadata = event_metadata v; application_name = py_or (dget metadata ''application_name'' JNull) (JStr ''unknown'');
          key = entity_id e [Some ''risk'', id_at e metadata ''tenant_id'', Some (tm_project v), Some (tm_environment v),
                  id_part (env_float_repr e) application_name, Some risk, Some source];
          existing = row_set gk_evidence_trace_ids (by_key gk_entity_id key (governance_risks s)) in
      if RISK_EVIDENCE_CAP \<le> length existing then
        Inr (s\<lparr>governance_risks := update_where (\<lambda>r. gk_entity_id r = key)
               (\<lambda>r. r\<lparr>gk_severity := severity, gk_evidence := evidence, gk_status := ''open'', gk_last_seen := tm_timestamp v\<rparr>) (governance_risks s)\<rparr>)
      else
        ebind (sql_text rt (dget metadata ''tenant_id'' JNull)) (\<lambda>tenant. ebind (sql_required rt application_name) (\<lambda>app.
        let ids = sorted_set (existing @ [tm_trace_id v]);
            n = \<lparr>gk_entity_id = key, gk_tenant_id = tenant, gk_project = tm_project v, gk_environment = tm_environment v, gk_application_name = app,
                 gk_risk = risk, gk_severity = severity, gk_evidence = evidence, gk_evidence_trace_ids = ids, gk_status = ''open'', gk_source = source,
                 gk_first_seen = tm_timestamp v, gk_last_seen = tm_timestamp v\<rparr>
        in Inr (s\<lparr>governance_risks := upsert gk_entity_id
             (\<lambda>r. r\<lparr>gk_severity := severity, gk_evidence := evidence, gk_evidence_trace_ids := ids, gk_status := ''open'', gk_last_seen := tm_timestamp v\<rparr>)
             n (governance_risks s)\<rparr>))))"

fun contains_text :: "string \<Rightarrow> string \<Rightarrow> bool" where
  "contains_text sub [] \<longleftrightarrow> sub = []"
| "contains_text sub (c # cs) \<longleftrightarrow> take (length sub) (c # cs) = sub \<or> contains_text sub cs"

definition upsert_model_risks :: "env \<Rightarrow> (rat \<Rightarrow> string) \<Rightarrow> telemetry \<Rightarrow> db \<Rightarrow> db res" where
  "upsert_model_risks e rt v s =
     (let attrs = event_attributes v; metadata = event_metadata v; usage = event_usage v; provider = dget attrs ''provider'' JNull;
          use_case = py_str (env_float_repr e) (py_or (dget metadata ''use_case'' JNull) (JStr [])) in
      if \<not> truthy (dget metadata ''application_name'' JNull) then Inr s
      else
        ebind (if truthy provider then upsert_risk e rt v ''Third-party AI dependency'' ''Medium''
                 (''Observed provider: '' @ py_str (env_float_repr e) provider) ''model.call'' s else Inr s) (\<lambda>s1.
        ebind (if tm_status v = ''error'' then upsert_risk e rt v ''Operational reliability failures'' ''High'' ''Failed model call observed'' ''model.call'' s1
               else Inr s1) (\<lambda>s2.
        ebind (if 1000 < as_int (dget usage ''input_tokens'' JNull) + as_int (dget usage ''output_tokens'' JNull)
               then upsert_risk e rt v ''High-volume model usage'' ''Medium'' ''Single model call exceeded 1000 total tokens'' ''model.call'' s2 else Inr s2) (\<lambda>s3.
        if list_ex (\<lambda>term. contains_text term (py_lower use_case)) [''claim'', ''insurance'', ''customer'', ''support'']
        then upsert_risk e rt v ''Potential sensitive business process'' ''Medium'' (''Observed use case: '' @ use_case) ''model.call'' s3 else Inr s3))))"

text \<open>\<open>attrs.get(key, event.get("name"))\<close> as a formatted value.\<close>

definition named_value :: "env \<Rightarrow> telemetry \<Rightarrow> string \<Rightarrow> string" where
  "named_value e v k = py_str (env_float_repr e) (dget (event_attributes v) k (opt_string (tm_name v)))"

definition upsert_guardrail_risk :: "env \<Rightarrow> (rat \<Rightarrow> string) \<Rightarrow> telemetry \<Rightarrow> db \<Rightarrow> db res" where
  "upsert_guardrail_risk e rt v s =
     (let decision = dget (event_attributes v) ''decision'' JNull in
      if \<not> hashable decision then Inl TypeErr
      else if decision \<in> {JStr ''warn'', JStr ''block''}
      then upsert_risk e rt v ''Guardrail warning'' (if decision = JStr ''block'' then ''High'' else ''Medium'')
             (named_value e v ''guardrail_name'' @ '' decision: '' @ py_str (env_float_repr e) decision) ''guardrail.decision'' s
      else Inr s)"

definition upsert_eval_risk :: "env \<Rightarrow> (rat \<Rightarrow> string) \<Rightarrow> telemetry \<Rightarrow> db \<Rightarrow> db res" where
  "upsert_eval_risk e rt v s =
     (let attrs = event_attributes v in
      if dget attrs ''passed'' JNull = JBool False
      then upsert_risk e rt v ''Evaluation failed'' ''High''
             (named_value e v ''eval_name'' @ '' scored '' @ py_str (env_float_repr e) (dget attrs ''score'' JNull) @ '' below '' @
              py_str (env_float_repr e) (dget attrs ''threshold'' JNull)) ''eval.result'' s
      else Inr s)"

definition upsert_control :: "env \<Rightarrow> (rat \<Rightarrow> string) \<Rightarrow> telemetry \<Rightarrow> string \<Rightarrow> string \<Rightarrow> db \<Rightarrow> db res" where
  "upsert_control e rt v control event_type s =
     (let metadata = event_metadata v;
          key = entity_id e [Some ''control'', id_at e metadata ''tenant_id'', Some (tm_project v), Some (tm_environment v), Some control];
          n = (case by_key gc_entity_id key (governance_controls s) of None \<Rightarrow> 1 | Some r \<Rightarrow> gc_evidence_count r + 1);
          evidence = str_int n @ '' '' @ event_type @ '' events recorded'' in
      ebind (sql_text rt (dget metadata ''tenant_id'' JNull)) (\<lambda>tenant.
      Inr (s\<lparr>governance_controls := upsert gc_entity_id
        (\<lambda>r. r\<lparr>gc_status := ''passing'', gc_evidence := evidence, gc_evidence_event_type := event_type, gc_evidence_count := n, gc_last_seen := tm_timestamp v\<rparr>)
        \<lparr>gc_entity_id = key, gc_tenant_id = tenant, gc_project = tm_project v, gc_environment = tm_environment v, gc_control = control,
         gc_status = ''passing'', gc_evidence = evidence, gc_evidence_event_type = event_type, gc_evidence_count = n,
         gc_first_seen = tm_timestamp v, gc_last_seen = tm_timestamp v\<rparr> (governance_controls s)\<rparr>)))"

section \<open>One event, and a claimed set of rows\<close>

definition observed_control :: "string \<Rightarrow> string option" where
  "observed_control = map_of
     [(''retrieval.call'', ''Retrieval evidence is captured''), (''tool.call'', ''Tool execution evidence is captured''),
      (''guardrail.decision'', ''Guardrail decisions are captured''), (''eval.result'', ''Evaluation results are captured''),
      (''agent.run'', ''Agent run evidence is captured'')]"

definition if_so :: "bool \<Rightarrow> (db \<Rightarrow> db res) \<Rightarrow> db \<Rightarrow> db res" where
  "if_so b f s = (if b then f s else Inr s)"

text \<open>The writes one event makes, in order.\<close>

definition event_steps :: "env \<Rightarrow> (rat \<Rightarrow> string) \<Rightarrow> telemetry \<Rightarrow> (db \<Rightarrow> db res) list" where
  "event_steps e rt v =
     (let ty = tm_type v; is_model_call = (ty = ''model.call'');
          runs = (ty \<in> set RUNTIME_EVENT_TYPES \<and> (is_model_call \<or> truthy (dget (event_metadata v) ''application_name'' JNull))) in
        [if_so runs (upsert_application e rt is_model_call v), if_so runs (upsert_workflow e rt is_model_call v),
         if_so is_model_call (upsert_model e rt v), if_so is_model_call (upsert_provider e rt v), if_so is_model_call (upsert_model_risks e rt v),
         if_so is_model_call (upsert_control e rt v ''Provider and model usage is inventoried'' ''model.call''),
         if_so (ty = ''trace.completed'') (upsert_control e rt v ''Workflow traces are captured'' ''trace.completed''),
         if_so (ty = ''sdk.health'') (upsert_control e rt v ''SDK fail-open health is visible'' ''sdk.health''),
         (\<lambda>s. case observed_control ty of
            None \<Rightarrow> Inr s
          | Some control \<Rightarrow> ebind (upsert_observed_event e rt v s) (upsert_control e rt v control ty)),
         if_so (ty = ''guardrail.decision'') (upsert_guardrail_risk e rt v), if_so (ty = ''eval.result'') (upsert_eval_risk e rt v)])"

definition process_event :: "env \<Rightarrow> (rat \<Rightarrow> string) \<Rightarrow> telemetry \<Rightarrow> db \<Rightarrow> db res" where
  "process_event e rt v s = efold (\<lambda>step. step) (event_steps e rt v) s"

definition uncounted_ids :: "int list \<Rightarrow> db \<Rightarrow> int list" where
  "uncounted_ids ids s = map sk_id (filter (\<lambda>r. sk_counted_at r = None \<and> sk_id r \<in> set ids) (sdk_events s))"

definition stamp_counted :: "env \<Rightarrow> int list \<Rightarrow> db \<Rightarrow> db" where
  "stamp_counted e ids s =
     s\<lparr>sdk_events := update_where (\<lambda>r. sk_id r \<in> set ids) (\<lambda>r. r\<lparr>sk_counted_at := Some (db_text (env_now e))\<rparr>) (sdk_events s)\<rparr>"

text \<open>One transaction: an error leaves neither a count nor a stamp.\<close>

definition process_events :: "env \<Rightarrow> (rat \<Rightarrow> string) \<Rightarrow> (int \<times> telemetry) list \<Rightarrow> db \<Rightarrow> db res" where
  "process_events e rt pending s =
     (if pending = [] then Inr s
      else let uncounted = uncounted_ids (map fst pending) s in
        ebind (efold (\<lambda>(i, v). if_so (i \<in> set uncounted) (process_event e rt v)) pending s) (\<lambda>s1. Inr (stamp_counted e uncounted s1)))"

end
