(* ===== verification/Lifecycle.thy ===== *)
theory Lifecycle
  imports Inventory
begin

text \<open>
  Change detection (storage/lifecycle.py): a fingerprint of the labels (models, tools, guardrails, ...) an application and each of its
  workflows has been seen with. A batch is folded into the stored fingerprint; a new label is a material change, with a
  change event and a review task.
\<close>

section \<open>The labels of a set of events\<close>

type_synonym payload = "(string \<times> string list) list"

definition MATERIAL_FIELDS :: "string list" where
  "MATERIAL_FIELDS = [''agents'', ''eval_thresholds'', ''evals'', ''guardrails'', ''models'', ''providers'', ''retrievers'', ''tools'', ''workflows'']"

definition HIGH_RISK_FIELDS :: "string list" where
  "HIGH_RISK_FIELDS = [''eval_thresholds'', ''guardrails'', ''models'', ''providers'', ''tools'']"

definition label_of :: "env \<Rightarrow> json \<Rightarrow> string list" where
  "label_of e v = (if v = JNull \<or> v = JStr [] then [] else [py_str (env_float_repr e) v])"

definition attribute_values :: "env \<Rightarrow> string \<Rightarrow> telemetry list \<Rightarrow> string list" where
  "attribute_values e field vs = concat (map (\<lambda>v. label_of e (dget (event_attributes v) field JNull)) vs)"

definition metadata_values :: "env \<Rightarrow> string \<Rightarrow> telemetry list \<Rightarrow> string list" where
  "metadata_values e field vs = concat (map (\<lambda>v. label_of e (dget (event_metadata v) field JNull)) vs)"

definition event_attributes_for_type :: "telemetry list \<Rightarrow> string \<Rightarrow> dict list" where
  "event_attributes_for_type vs ty = map event_attributes (filter (\<lambda>v. tm_type v = ty) vs)"

definition pair_label :: "env \<Rightarrow> json \<Rightarrow> json \<Rightarrow> string" where
  "pair_label e a b = py_str (env_float_repr e) a @ '':'' @ py_str (env_float_repr e) b"

definition eval_thresholds :: "env \<Rightarrow> telemetry list \<Rightarrow> string list" where
  "eval_thresholds e vs = concat (map (\<lambda>d. let n = dget d ''eval_name'' JNull; t = dget d ''threshold'' JNull in
     if truthy n \<and> t \<noteq> JNull then [pair_label e n t] else []) (event_attributes_for_type vs ''eval.result''))"

definition model_labels :: "env \<Rightarrow> telemetry list \<Rightarrow> string list" where
  "model_labels e vs = concat (map (\<lambda>d. let p = dget d ''provider'' JNull; m = dget d ''model'' JNull in
     if truthy p \<and> truthy m then [pair_label e p m] else []) (event_attributes_for_type vs ''model.call''))"

definition fingerprint_payload :: "env \<Rightarrow> telemetry list \<Rightarrow> payload" where
  "fingerprint_payload e vs =
     [(''agents'', sorted_set (attribute_values e ''agent_name'' vs)), (''eval_thresholds'', sorted_set (eval_thresholds e vs)),
      (''evals'', sorted_set (attribute_values e ''eval_name'' vs)), (''guardrails'', sorted_set (attribute_values e ''guardrail_name'' vs)),
      (''models'', sorted_set (model_labels e vs)), (''providers'', sorted_set (attribute_values e ''provider'' vs)),
      (''retrievers'', sorted_set (attribute_values e ''retriever'' vs)), (''tools'', sorted_set (attribute_values e ''tool_name'' vs)),
      (''workflows'', sorted_set (metadata_values e ''workflow_name'' vs))]"

definition labels_at :: "payload \<Rightarrow> string \<Rightarrow> string list" where
  "labels_at p k = (case map_of p k of None \<Rightarrow> [] | Some xs \<Rightarrow> xs)"

definition merge_payload :: "payload \<Rightarrow> payload \<Rightarrow> payload" where
  "merge_payload stored fresh =
     map (\<lambda>k. (k, sorted_set (labels_at stored k @ labels_at fresh k))) (sorted_set (map fst stored @ map fst fresh))"

definition payload_json :: "payload \<Rightarrow> json" where
  "payload_json p = JObj (map (\<lambda>(k, xs). (k, JArr (map JStr xs))) p)"

definition hash_fingerprint :: "env \<Rightarrow> payload \<Rightarrow> string" where
  "hash_fingerprint e p = env_sha256 e (encode_json (env_float_repr e) (payload_json p))"

definition changed_material_fields :: "payload \<Rightarrow> payload \<Rightarrow> string list" where
  "changed_material_fields prev cur = sort (filter (\<lambda>k. set (labels_at prev k) \<noteq> set (labels_at cur k)) MATERIAL_FIELDS)"

section \<open>Subjects\<close>

text \<open>
  The application a group of events belongs to. The values come from the metadata of an event; the database compares them as text.
\<close>

record event_scope =
  es_tenant :: json
  es_project :: string
  es_environment :: string
  es_application :: json

definition scope_of :: "telemetry \<Rightarrow> event_scope" where
  "scope_of v = \<lparr>es_tenant = dget (event_metadata v) ''tenant_id'' JNull, es_project = tm_project v, es_environment = tm_environment v,
     es_application = dget (event_metadata v) ''application_name'' JNull\<rparr>"

definition same_scope :: "event_scope \<Rightarrow> event_scope \<Rightarrow> bool" where
  "same_scope a b \<longleftrightarrow> py_eq (es_tenant a) (es_tenant b) \<and> es_project a = es_project b \<and> es_environment a = es_environment b \<and>
     py_eq (es_application a) (es_application b)"

fun group_event :: "telemetry \<Rightarrow> (event_scope \<times> telemetry list) list \<Rightarrow> (event_scope \<times> telemetry list) list" where
  "group_event v [] = [(scope_of v, [v])]"
| "group_event v ((c, vs) # gs) = (if same_scope c (scope_of v) then (c, vs @ [v]) # gs else (c, vs) # group_event v gs)"

definition add_event :: "telemetry \<Rightarrow> (event_scope \<times> telemetry list) list \<Rightarrow> (event_scope \<times> telemetry list) list res" where
  "add_event v gs =
     (let c = scope_of v in
      if \<not> truthy (es_application c) then Inr gs
      else if hashable (es_tenant c) \<and> hashable (es_application c) then Inr (group_event v gs) else Inl TypeErr)"

definition events_by_app_scope :: "telemetry list \<Rightarrow> (event_scope \<times> telemetry list) list res" where
  "events_by_app_scope vs = efold add_event vs []"

definition application_is_registered :: "(rat \<Rightarrow> string) \<Rightarrow> event_scope \<Rightarrow> db \<Rightarrow> bool res" where
  "application_is_registered rt c s =
     ebind (sql_text rt (es_tenant c)) (\<lambda>tenant. ebind (sql_text rt (es_application c)) (\<lambda>app.
     Inr (exists_row (\<lambda>r. ga_project r = es_project c \<and> ga_environment r = es_environment c \<and> Some (ga_application_name r) = app \<and>
       ga_tenant_id r = tenant) (governance_applications s))))"

record fingerprint =
  fp_subject_type :: string
  fp_subject_name :: json
  fp_payload :: payload
  fp_trace_ids :: "string list"
  fp_observed_at :: string

definition trace_ids :: "telemetry list \<Rightarrow> string list" where
  "trace_ids vs = sorted_set (filter (\<lambda>t. t \<noteq> []) (map tm_trace_id vs))"

definition latest_timestamp :: "telemetry list \<Rightarrow> string" where
  "latest_timestamp vs = fold max (map tm_timestamp vs) []"

definition subject_fingerprint :: "env \<Rightarrow> string \<Rightarrow> json \<Rightarrow> telemetry list \<Rightarrow> fingerprint" where
  "subject_fingerprint e ty name vs =
     \<lparr>fp_subject_type = ty, fp_subject_name = name, fp_payload = fingerprint_payload e vs, fp_trace_ids = trace_ids vs,
      fp_observed_at = latest_timestamp vs\<rparr>"

definition workflow_events :: "string \<Rightarrow> telemetry list \<Rightarrow> telemetry list" where
  "workflow_events w vs = filter (\<lambda>v. py_eq (dget (event_metadata v) ''workflow_name'' JNull) (JStr w)) vs"

definition build_fingerprints :: "env \<Rightarrow> event_scope \<Rightarrow> telemetry list \<Rightarrow> fingerprint list" where
  "build_fingerprints e c vs =
     subject_fingerprint e ''application'' (es_application c) vs #
     map (\<lambda>w. subject_fingerprint e ''workflow'' (JStr w) (workflow_events w vs)) (labels_at (fingerprint_payload e vs) ''workflows'')"

definition fingerprint_id :: "env \<Rightarrow> event_scope \<Rightarrow> fingerprint \<Rightarrow> string" where
  "fingerprint_id e c f =
     entity_id e [Some ''lifecycle-fingerprint'', id_part (env_float_repr e) (es_tenant c), Some (es_project c), Some (es_environment c),
       id_part (env_float_repr e) (es_application c), Some (fp_subject_type f), id_part (env_float_repr e) (fp_subject_name f)]"

section \<open>Change events\<close>

definition change_id :: "env \<Rightarrow> event_scope \<Rightarrow> fingerprint \<Rightarrow> string \<Rightarrow> string \<Rightarrow> string" where
  "change_id e c f previous_hash current_hash =
     entity_id e [Some ''change-event'', id_part (env_float_repr e) (es_tenant c), Some (es_project c), Some (es_environment c),
       id_part (env_float_repr e) (es_application c), Some (fp_subject_type f), id_part (env_float_repr e) (fp_subject_name f),
       Some previous_hash, Some current_hash]"

definition change_severity :: "string list \<Rightarrow> string" where
  "change_severity changed = (if set changed \<inter> set HIGH_RISK_FIELDS \<noteq> {} then ''High'' else ''Medium'')"

definition change_rationale :: "fingerprint \<Rightarrow> string list \<Rightarrow> string" where
  "change_rationale f changed = ''Material '' @ fp_subject_type f @ '' change detected in: '' @ comma_join changed"

definition change_task :: "env \<Rightarrow> string \<Rightarrow> fingerprint \<Rightarrow> string \<Rightarrow> string \<Rightarrow> app_scope \<Rightarrow> review_task" where
  "change_task e cid f severity rationale c =
     new_task e (entity_id e [Some ''review-task'', Some cid]) cid ''material_change_review'' (if severity = ''High'' then ''high'' else ''medium'')
       (''Review '' @ fp_subject_type f @ '' change: '' @ py_str (env_float_repr e) (fp_subject_name f)) rationale c"

definition upsert_review_task :: "env \<Rightarrow> review_task \<Rightarrow> review_task list \<Rightarrow> review_task list" where
  "upsert_review_task e n tasks =
     upsert rt_id (\<lambda>r. r\<lparr>rt_priority := rt_priority n, rt_title := rt_title n, rt_rationale := rt_rationale n, rt_updated_at := db_now e\<rparr>) n tasks"

definition insert_change_event ::
  "env \<Rightarrow> event_scope \<Rightarrow> app_scope \<Rightarrow> string \<Rightarrow> fingerprint \<Rightarrow> lifecycle_fingerprint \<Rightarrow> string \<Rightarrow> string list \<Rightarrow> db \<Rightarrow> db" where
  "insert_change_event e c a subject f prev current_hash changed s =
     (let cid = change_id e c f (lf_hash prev) current_hash; severity = change_severity changed; rationale = change_rationale f changed;
          n = \<lparr>ce_id = cid, ce_tenant_id = as_tenant_id a, ce_project = as_project a, ce_environment = as_environment a,
               ce_application_name = as_application_name a, ce_subject_type = fp_subject_type f, ce_subject_name = subject,
               ce_change_type = ''material_change'', ce_severity = severity, ce_status = ''open'', ce_previous_hash = lf_hash prev,
               ce_current_hash = current_hash, ce_previous_payload = lf_payload prev, ce_current_payload = fp_payload f, ce_changed_fields = changed,
               ce_evidence_trace_ids = fp_trace_ids f, ce_rationale = rationale, ce_detected_at = fp_observed_at f\<rparr>
      in s\<lparr>change_events := insert_or_ignore ce_id n (change_events s),
           review_tasks := upsert_review_task e (change_task e cid f severity rationale a) (review_tasks s)\<rparr>)"

section \<open>Storing a fingerprint\<close>

definition bound_scope :: "(rat \<Rightarrow> string) \<Rightarrow> event_scope \<Rightarrow> app_scope res" where
  "bound_scope rt c =
     ebind (sql_text rt (es_tenant c)) (\<lambda>tenant. ebind (sql_required rt (es_application c)) (\<lambda>app.
     Inr \<lparr>as_tenant_id = tenant, as_project = es_project c, as_environment = es_environment c, as_application_name = app\<rparr>))"

definition upsert_fingerprint :: "env \<Rightarrow> (rat \<Rightarrow> string) \<Rightarrow> event_scope \<Rightarrow> fingerprint \<Rightarrow> db \<Rightarrow> db res" where
  "upsert_fingerprint e rt c f s =
     (let h = hash_fingerprint e (fp_payload f); fid = fingerprint_id e c f in
      ebind (bound_scope rt c) (\<lambda>a. ebind (sql_required rt (fp_subject_name f)) (\<lambda>subject.
      let s1 = (case by_key lf_id fid (lifecycle_fingerprints s) of
                  None \<Rightarrow> s
                | Some prev \<Rightarrow>
                    if lf_hash prev = h then s
                    else let changed = changed_material_fields (lf_payload prev) (fp_payload f)
                         in if changed = [] then s else insert_change_event e c a subject f prev h changed s);
          n = \<lparr>lf_id = fid, lf_tenant_id = as_tenant_id a, lf_project = es_project c, lf_environment = es_environment c,
               lf_application_name = as_application_name a, lf_subject_type = fp_subject_type f, lf_subject_name = subject, lf_hash = h,
               lf_payload = fp_payload f, lf_first_seen = fp_observed_at f, lf_last_seen = fp_observed_at f\<rparr>
      in Inr (s1\<lparr>lifecycle_fingerprints := upsert lf_id
           (\<lambda>r. r\<lparr>lf_hash := h, lf_payload := fp_payload f, lf_last_seen := fp_observed_at f\<rparr>) n (lifecycle_fingerprints s1)\<rparr>))))"

text \<open>The loop body of \<open>fold_batch_fingerprints\<close>: the union with what is stored.\<close>

definition merge_stored :: "env \<Rightarrow> event_scope \<Rightarrow> db \<Rightarrow> fingerprint \<Rightarrow> fingerprint" where
  "merge_stored e c s f =
     (case by_key lf_id (fingerprint_id e c f) (lifecycle_fingerprints s) of
        None \<Rightarrow> f
      | Some r \<Rightarrow> f\<lparr>fp_payload := merge_payload (lf_payload r) (fp_payload f), fp_observed_at := max (lf_last_seen r) (fp_observed_at f)\<rparr>)"

definition fold_fingerprint :: "env \<Rightarrow> (rat \<Rightarrow> string) \<Rightarrow> event_scope \<Rightarrow> fingerprint \<Rightarrow> db \<Rightarrow> db res" where
  "fold_fingerprint e rt c f s = upsert_fingerprint e rt c (merge_stored e c s f) s"

definition fold_group :: "env \<Rightarrow> (rat \<Rightarrow> string) \<Rightarrow> event_scope \<times> telemetry list \<Rightarrow> db \<Rightarrow> db res" where
  "fold_group e rt = (\<lambda>(c, vs) s. ebind (application_is_registered rt c s) (\<lambda>reg.
     if reg then efold (fold_fingerprint e rt c) (build_fingerprints e c vs) s else Inr s))"

definition fold_batch_fingerprints :: "env \<Rightarrow> (rat \<Rightarrow> string) \<Rightarrow> telemetry list \<Rightarrow> db \<Rightarrow> db res" where
  "fold_batch_fingerprints e rt vs s = ebind (events_by_app_scope vs) (\<lambda>gs. efold (fold_group e rt) gs s)"

section \<open>Rebuilding from all history\<close>

definition stored_scope :: "application \<Rightarrow> event_scope" where
  "stored_scope r = \<lparr>es_tenant = opt_string (ga_tenant_id r), es_project = ga_project r, es_environment = ga_environment r,
     es_application = JStr (ga_application_name r)\<rparr>"

definition applications_in_scope :: "db \<Rightarrow> event_scope list option \<Rightarrow> event_scope list" where
  "applications_in_scope s scopes =
     (let rows = remdups (map stored_scope (governance_applications s)) in
      case scopes of None \<Rightarrow> rows | Some wanted \<Rightarrow> filter (\<lambda>c. list_ex (same_scope c) wanted) rows)"

definition list_application_events :: "event_scope \<Rightarrow> db \<Rightarrow> telemetry list res" where
  "list_application_events c s =
     emap (\<lambda>r. deserialize_raw_event (sk_raw_event r))
       (sort_key sk_id (filter (\<lambda>r. sk_project r = es_project c \<and> sk_environment r = es_environment c \<and>
          opt_string (sk_application_name r) = es_application c \<and> opt_string (sk_tenant_id r) = es_tenant c) (sdk_events s)))"

definition refresh_application :: "env \<Rightarrow> (rat \<Rightarrow> string) \<Rightarrow> event_scope \<Rightarrow> db \<Rightarrow> db res" where
  "refresh_application e rt c s =
     ebind (list_application_events c s) (\<lambda>vs. efold (upsert_fingerprint e rt c) (build_fingerprints e c vs) s)"

definition refresh_lifecycle_state :: "env \<Rightarrow> (rat \<Rightarrow> string) \<Rightarrow> event_scope list option \<Rightarrow> db \<Rightarrow> db res" where
  "refresh_lifecycle_state e rt scopes s = efold (refresh_application e rt) (applications_in_scope s scopes) s"

end
