(* ===== verification/Assessments.thy ===== *)
theory Assessments
  imports Lifecycle
begin

text \<open>
  Assessments (storage/governance_policy.py): the control library and the risk rules with an organization's own laid over the
  platform's, the status of each control and the finding of each rule for an application, folded from a batch or rebuilt from all
  history, the traces that carried evidence, and the customization of controls and rules.
\<close>

section \<open>Defaults\<close>

definition DEFAULT_CONTROLS :: "control_row list" where
  "DEFAULT_CONTROLS =
    [\<lparr>cl_tenant_id = [], cl_control_id = ''AI-INV-001'', cl_name = ''AI system inventory is maintained from runtime usage'',
       cl_framework_refs = [''NIST AI RMF MAP 1.1'', ''ISO/IEC 42001 A.5.2''], cl_evidence_event_types = [''model.call''],
       cl_required_fields = [''application_name'', ''provider'', ''model'', ''workflow_name''],
       cl_rationale = ''An AI inventory must be grounded in observed application, model, provider, and workflow usage.'', cl_coverage_basis = None\<rparr>,
     \<lparr>cl_tenant_id = [], cl_control_id = ''AI-LOG-001'', cl_name = ''AI requests are traceable to workflow and actor context'',
       cl_framework_refs = [''NIST AI RMF GOVERN 1.6'', ''EU AI Act Art 26'', ''SOC 2 CC7.2''], cl_evidence_event_types = [''trace.completed''],
       cl_required_fields = [''trace_id'', ''workflow_name'', ''user_id''],
       cl_rationale = ''Governance review requires traceable request context, actor metadata, and workflow linkage.'', cl_coverage_basis = Some ''model.call''\<rparr>,
     \<lparr>cl_tenant_id = [], cl_control_id = ''AI-DATA-001'', cl_name = ''Prompt and response content is summarized or hashed by default'',
       cl_framework_refs = [''NIST AI RMF MEASURE 2.6'', ''SOC 2 CC6.1''], cl_evidence_event_types = [''model.call''],
       cl_required_fields = [''prompt.hash'', ''response.hash''],
       cl_rationale = ''Runtime evidence should support auditability while limiting raw content capture by default.'', cl_coverage_basis = None\<rparr>,
     \<lparr>cl_tenant_id = [], cl_control_id = ''AI-RAG-001'', cl_name = ''Retrieval context is linked to AI workflow traces'',
       cl_framework_refs = [''NIST AI RMF MAP 2.3'', ''NIST AI RMF MEASURE 2.7''], cl_evidence_event_types = [''retrieval.call''],
       cl_required_fields = [''retriever'', ''document_count'', ''trace_id''],
       cl_rationale = ''RAG systems require evidence of retrieved sources and trace linkage.'', cl_coverage_basis = None\<rparr>,
     \<lparr>cl_tenant_id = [], cl_control_id = ''AI-TOOL-001'', cl_name = ''Tool execution is recorded for agentic workflows'',
       cl_framework_refs = [''NIST AI RMF GOVERN 6.1'', ''NIST AI RMF MANAGE 2.3''], cl_evidence_event_types = [''tool.call''],
       cl_required_fields = [''tool_name'', ''trace_id'', ''status''],
       cl_rationale = ''Agentic systems require auditable tool-use evidence.'', cl_coverage_basis = None\<rparr>,
     \<lparr>cl_tenant_id = [], cl_control_id = ''AI-GRD-001'', cl_name = ''Guardrail decisions are captured for monitored AI workflows'',
       cl_framework_refs = [''NIST AI RMF MANAGE 1.3'', ''ISO/IEC 42001 A.8.2''], cl_evidence_event_types = [''guardrail.decision''],
       cl_required_fields = [''guardrail_name'', ''decision'', ''matched_rules''],
       cl_rationale = ''Policy, safety, and privacy controls require recorded guardrail decisions and matched rules.'', cl_coverage_basis = Some ''model.call''\<rparr>,
     \<lparr>cl_tenant_id = [], cl_control_id = ''AI-EVAL-001'', cl_name = ''Evaluation results are captured for AI workflow quality evidence'',
       cl_framework_refs = [''NIST AI RMF MEASURE 2.1'', ''NIST AI RMF MEASURE 2.5''], cl_evidence_event_types = [''eval.result''],
       cl_required_fields = [''eval_name'', ''score'', ''threshold'', ''passed''],
       cl_rationale = ''AI quality and safety claims require measurable eval results and thresholds.'', cl_coverage_basis = None\<rparr>,
     \<lparr>cl_tenant_id = [], cl_control_id = ''AI-AGT-001'', cl_name = ''Agent runs are summarized with ordered steps and outcomes'',
       cl_framework_refs = [''NIST AI RMF MAP 5.1'', ''NIST AI RMF MANAGE 2.4''], cl_evidence_event_types = [''agent.run''],
       cl_required_fields = [''agent_name'', ''step_count'', ''outcome''],
       cl_rationale = ''Agent governance requires run-level evidence, ordered steps, and outcomes.'', cl_coverage_basis = None\<rparr>,
     \<lparr>cl_tenant_id = [], cl_control_id = ''AI-OPS-001'', cl_name = ''SDK telemetry health and fail-open operation are visible'',
       cl_framework_refs = [''SOC 2 CC7.2'', ''NIST AI RMF GOVERN 1.5''], cl_evidence_event_types = [''sdk.health''],
       cl_required_fields = [''mode'', ''fail_open'', ''failed_sends''],
       cl_rationale = ''Governance telemetry must itself be observable, including delivery failures and fail-open behavior.'', cl_coverage_basis = None\<rparr>]"

definition DEFAULT_RISK_RULES :: "risk_rule list" where
  "DEFAULT_RISK_RULES =
    [\<lparr>rr_tenant_id = [], rr_rule_id = ''RISK-TPD-001'', rr_name = ''Third-party AI dependency'', rr_signal = ''provider_dependency'', rr_severity = ''Medium'',
       rr_framework_refs = [''NIST AI RMF MAP 3.2'', ''NIST AI RMF GOVERN 6.1''],
       rr_rationale = ''Observed external model provider usage creates vendor and third-party AI dependency risk.'', rr_mode = ''enforce''\<rparr>,
     \<lparr>rr_tenant_id = [], rr_rule_id = ''RISK-CTL-001'', rr_name = ''Missing guardrail evidence'', rr_signal = ''missing_guardrail'', rr_severity = ''High'',
       rr_framework_refs = [''NIST AI RMF MANAGE 1.3''],
       rr_rationale = ''Applications with model usage but no guardrail evidence lack runtime safety-control support.'', rr_mode = ''enforce''\<rparr>,
     \<lparr>rr_tenant_id = [], rr_rule_id = ''RISK-EVL-001'', rr_name = ''Missing evaluation evidence'', rr_signal = ''missing_eval'', rr_severity = ''High'',
       rr_framework_refs = [''NIST AI RMF MEASURE 2.1''],
       rr_rationale = ''Applications with model usage but no eval results lack measurable quality evidence.'', rr_mode = ''enforce''\<rparr>,
     \<lparr>rr_tenant_id = [], rr_rule_id = ''RISK-EVL-002'', rr_name = ''Failed evaluation'', rr_signal = ''failed_eval'', rr_severity = ''High'',
       rr_framework_refs = [''NIST AI RMF MEASURE 2.1'', ''NIST AI RMF MEASURE 2.5''],
       rr_rationale = ''An evaluation reported a result below its threshold. The system did not meet its own quality or safety bar and needs review before release.'', rr_mode = ''enforce''\<rparr>,
     \<lparr>rr_tenant_id = [], rr_rule_id = ''RISK-AGT-001'', rr_name = ''Agentic workflow without agent run evidence'', rr_signal = ''missing_agent_run'', rr_severity = ''High'',
       rr_framework_refs = [''NIST AI RMF MAP 5.1'', ''NIST AI RMF MANAGE 2.4''],
       rr_rationale = ''Agentic use cases require agent run evidence and step traceability.'', rr_mode = ''enforce''\<rparr>,
     \<lparr>rr_tenant_id = [], rr_rule_id = ''RISK-OPS-001'', rr_name = ''Operational reliability failures'', rr_signal = ''operational_errors'', rr_severity = ''High'',
       rr_framework_refs = [''NIST AI RMF MANAGE 4.1'', ''SOC 2 CC7.2''],
       rr_rationale = ''Failed model or workflow events are operational reliability evidence.'', rr_mode = ''enforce''\<rparr>,
     \<lparr>rr_tenant_id = [], rr_rule_id = ''RISK-LCY-001'', rr_name = ''Telemetry observed from a retired system'', rr_signal = ''retired_system_telemetry'', rr_severity = ''High'',
       rr_framework_refs = [''NIST AI RMF GOVERN 1.7''],
       rr_rationale = ''A system recorded as retired is still emitting production telemetry: either the retirement record is wrong or the system was never actually shut down. Decommissioning must be verifiable.'', rr_mode = ''enforce''\<rparr>,
     \<lparr>rr_tenant_id = [], rr_rule_id = ''RISK-EVD-001'', rr_name = ''Evidence delivery is not durable'', rr_signal = ''evidence_delivery_not_durable'', rr_severity = ''High'',
       rr_framework_refs = [''SOC 2 CC7.2'', ''NIST AI RMF GOVERN 1.5''],
       rr_rationale = ''The SDK reported that it has no spool for undelivered batches, or that it has already dropped events. A batch the SDK drops is a gap in the audit record that nothing else can fill.'', rr_mode = ''enforce''\<rparr>]"

definition AGENT_RISK_RULES :: "risk_rule list" where
  "AGENT_RISK_RULES =
    [\<lparr>rr_tenant_id = [], rr_rule_id = ''RISK-AGT-SHADOW'', rr_name = ''Unregistered (shadow) agent observed at runtime'', rr_signal = ''unregistered_agent'', rr_severity = ''High'',
       rr_framework_refs = [''OWASP Agentic ASI10'', ''NIST AI RMF MAP 1.1'', ''ISO/IEC 42001 A.6.2.6''],
       rr_rationale = ''An agent acting in production that no one registered has no accountable owner, autonomy bound, or tool allow-list -- rogue-agent risk.'', rr_mode = ''enforce''\<rparr>,
     \<lparr>rr_tenant_id = [], rr_rule_id = ''RISK-AGT-TOOL'', rr_name = ''Agent used a tool outside its allow-list'', rr_signal = ''unauthorized_tool'', rr_severity = ''High'',
       rr_framework_refs = [''OWASP Agentic ASI02'', ''OWASP Agentic ASI03'', ''NIST AI RMF MANAGE 2.3''],
       rr_rationale = ''Tool use beyond the sanctioned allow-list is the primary agentic privilege-escalation and tool-misuse vector.'', rr_mode = ''enforce''\<rparr>,
     \<lparr>rr_tenant_id = [], rr_rule_id = ''RISK-AGT-TRIFECTA'', rr_name = ''Agent holds the lethal trifecta without a human checkpoint'', rr_signal = ''agent_trifecta'', rr_severity = ''Critical'',
       rr_framework_refs = [''OWASP Agentic ASI01'', ''OWASP Agentic ASI09'', ''NIST AI RMF MANAGE 1.3''],
       rr_rationale = ''Untrusted input + sensitive data access + external action in one agent lets a single injected instruction exfiltrate data; Meta'' @ sq @ ''s Rule of Two says no more than two of the three may coexist without human supervision.'', rr_mode = ''enforce''\<rparr>,
     \<lparr>rr_tenant_id = [], rr_rule_id = ''RISK-AGT-AUTONOMY'', rr_name = ''High-autonomy agent without human oversight checkpoint'', rr_signal = ''autonomy_without_oversight'', rr_severity = ''High'',
       rr_framework_refs = [''OWASP Agentic ASI09'', ''EU AI Act Art 14'', ''NIST AI RMF GOVERN 1.5''],
       rr_rationale = ''Agents at autonomy level 3+ act within bounds on their own; without a declared human checkpoint there is no way to interrupt or override (EU AI Act Art 14 human oversight).'', rr_mode = ''enforce''\<rparr>,
     \<lparr>rr_tenant_id = [], rr_rule_id = ''RISK-AGT-INTAKE'', rr_name = ''Agent is more autonomous than its system'' @ sq @ ''s intake declares'', rr_signal = ''agent_autonomy_exceeds_intake'', rr_severity = ''High'',
       rr_framework_refs = [''NIST AI RMF MAP 1.1'', ''ISO/IEC 42001 A.5.2''],
       rr_rationale = ''The intake'' @ sq @ ''s autonomy level sets the system'' @ sq @ ''s risk tier and the approvals it needs. An agent registered at a higher autonomy than the intake declares means the system was reviewed at a lower tier than it runs at.'', rr_mode = ''enforce''\<rparr>]"

definition VENDOR_RISK_RULES :: "risk_rule list" where
  "VENDOR_RISK_RULES =
    [\<lparr>rr_tenant_id = [], rr_rule_id = ''RISK-VND-001'', rr_name = ''Unreviewed AI vendor observed in production'', rr_signal = ''unreviewed_vendor'', rr_severity = ''High'',
       rr_framework_refs = [''NIST AI RMF GOVERN 6.1'', ''NIST AI RMF MAP 3.2'', ''ISO/IEC 42001 A.10.2'', ''EU AI Act Art 25''],
       rr_rationale = ''Runtime telemetry names every model provider actually in use. A provider with no approved vendor entry, or a model outside a vendor'' @ sq @ ''s approved list, is third-party AI running without vendor review.'', rr_mode = ''enforce''\<rparr>]"

definition cl_key :: "control_row \<Rightarrow> string \<times> string" where "cl_key c = (cl_tenant_id c, cl_control_id c)"

definition rr_key :: "risk_rule \<Rightarrow> string \<times> string" where "rr_key r = (rr_tenant_id r, rr_rule_id r)"

text \<open>Seeding does not write the coverage basis; a migration adds that column and fills it for the defaults.\<close>

definition seed_governance_policy :: "db \<Rightarrow> db" where
  "seed_governance_policy s =
     s\<lparr>control_library := fold (insert_or_ignore cl_key) (map (\<lambda>c. c\<lparr>cl_coverage_basis := None\<rparr>) DEFAULT_CONTROLS) (control_library s),
       risk_rules := fold (insert_or_ignore rr_key) (DEFAULT_RISK_RULES @ AGENT_RISK_RULES @ VENDOR_RISK_RULES) (risk_rules s)\<rparr>"

definition list_risk_rules :: "db \<Rightarrow> string option \<Rightarrow> risk_rule list" where
  "list_risk_rules s tenant = overlay rr_rule_id rr_tenant_id tenant (risk_rules s)"

text \<open>The status to write: a human decision is kept.\<close>

definition preserve_decided_status :: "string option \<Rightarrow> string \<Rightarrow> string list \<Rightarrow> string" where
  "preserve_decided_status existing computed computed_statuses =
     (case existing of None \<Rightarrow> computed | Some st \<Rightarrow> if st \<noteq> [] \<and> st \<notin> set computed_statuses then st else computed)"

section \<open>Times\<close>

definition remove_suffix :: "string \<Rightarrow> string \<Rightarrow> string" where
  "remove_suffix suf s = (if length suf \<le> length s \<and> drop (length s - length suf) s = suf then take (length s - length suf) s else s)"

definition normalize_ts :: "string \<Rightarrow> string" where
  "normalize_ts value = (if value = [] then [] else
     remove_suffix ''+00:00'' (remove_suffix ''Z'' (map (\<lambda>c. if c = CHR '' '' then CHR ''T'' else c) (py_strip value))))"

definition normalized_event_time :: "string \<Rightarrow> string" where
  "normalized_event_time value = take 19 (sql_replace_T (normalize_ts value))"

definition ts_after :: "string \<Rightarrow> string \<Rightarrow> bool" where
  "ts_after t boundary \<longleftrightarrow> normalize_ts boundary < normalize_ts t"

section \<open>Evidence for a control\<close>

definition field_value :: "telemetry \<Rightarrow> string \<Rightarrow> json" where
  "field_value v field =
     (let attrs = event_attributes v; metadata = event_metadata v in
      if field = ''trace_id'' then JStr (tm_trace_id v)
      else if field = ''status'' then JStr (tm_status v)
      else if field \<in> {''workflow_name'', ''application_name'', ''user_id''} then dget metadata field JNull
      else if field \<in> {''provider'', ''model'', ''retriever'', ''document_count'', ''tool_name'', ''guardrail_name'', ''decision'', ''matched_rules'',
         ''eval_name'', ''score'', ''threshold'', ''passed'', ''agent_name'', ''step_count'', ''outcome'', ''mode'', ''fail_open'', ''failed_sends''}
      then dget attrs field JNull
      else if field = ''prompt.hash'' then dget (as_object (dget attrs ''prompt'' JNull)) ''hash'' JNull
      else if field = ''response.hash'' then dget (as_object (dget attrs ''response'' JNull)) ''hash'' JNull
      else JNull)"

definition event_satisfies_required_fields :: "telemetry \<Rightarrow> string list \<Rightarrow> bool" where
  "event_satisfies_required_fields v required = list_all (\<lambda>f. field_value v f \<notin> {JNull, JStr [], JArr []}) required"

definition control_evidence :: "control_row \<Rightarrow> telemetry list \<Rightarrow> telemetry list" where
  "control_evidence c vs = filter (\<lambda>v. tm_type v \<in> set (cl_evidence_event_types c) \<and> event_satisfies_required_fields v (cl_required_fields c)) vs"

text \<open>The latest time per trace, in the order the traces come.\<close>

definition note_trace :: "telemetry \<Rightarrow> (string \<times> string) list \<Rightarrow> (string \<times> string) list" where
  "note_trace v latest =
     (let seen = normalized_event_time (tm_timestamp v) in
      if tm_trace_id v = [] then latest
      else if (case map_of latest (tm_trace_id v) of None \<Rightarrow> [] | Some t \<Rightarrow> t) < seen then dict_set (tm_trace_id v) seen latest else latest)"

definition ct_key :: "evidence_trace \<Rightarrow> string \<times> string \<times> string \<times> string \<times> string \<times> string" where
  "ct_key r = (ct_tenant_id r, ct_project r, ct_environment r, ct_application_name r, ct_control_id r, ct_trace_id r)"

definition record_control_evidence :: "app_scope \<Rightarrow> control_row \<Rightarrow> telemetry list \<Rightarrow> db \<Rightarrow> db" where
  "record_control_evidence a c evidence s =
     s\<lparr>control_evidence_traces := fold (\<lambda>(trace, seen).
          upsert ct_key (\<lambda>r. r\<lparr>ct_last_seen := max (ct_last_seen r) seen\<rparr>)
            \<lparr>ct_tenant_id = or_str (as_tenant_id a) [], ct_project = as_project a, ct_environment = as_environment a,
             ct_application_name = as_application_name a, ct_control_id = cl_control_id c, ct_trace_id = trace, ct_last_seen = seen\<rparr>)
        (fold note_trace evidence []) (control_evidence_traces s)\<rparr>"

section \<open>Assessing controls\<close>

definition EVIDENCE_TRACE_CAP :: nat where "EVIDENCE_TRACE_CAP = 200"

definition assessment_id :: "env \<Rightarrow> event_scope \<Rightarrow> control_row \<Rightarrow> string" where
  "assessment_id e x c =
     entity_id e [Some ''control-assessment'', id_part (env_float_repr e) (es_tenant x), Some (es_project x), Some (es_environment x),
       id_part (env_float_repr e) (es_application x), Some (cl_control_id c)]"

definition write_assessment :: "env \<Rightarrow> event_scope \<Rightarrow> app_scope \<Rightarrow> control_row \<Rightarrow> string \<Rightarrow> string list \<Rightarrow> int \<Rightarrow> db \<Rightarrow> db" where
  "write_assessment e x a c computed traces evidence_count s =
     (let i = assessment_id e x c;
          status = preserve_decided_status (map_option ca_status (by_key ca_id i (control_assessments s))) computed [''passing'', ''missing'']
      in s\<lparr>control_assessments := insert_or_replace ca_id
           \<lparr>ca_id = i, ca_tenant_id = as_tenant_id a, ca_project = as_project a, ca_environment = as_environment a,
            ca_application_name = as_application_name a, ca_control_id = cl_control_id c, ca_control_name = cl_name c, ca_status = status,
            ca_framework_refs = cl_framework_refs c, ca_evidence_event_types = cl_evidence_event_types c, ca_required_fields = cl_required_fields c,
            ca_evidence_trace_ids = take EVIDENCE_TRACE_CAP traces, ca_evidence_count = evidence_count, ca_rationale = cl_rationale c,
            ca_evaluated_at = db_now e\<rparr> (control_assessments s)\<rparr>)"

text \<open>The rebuild, over all events.\<close>

definition assess_control :: "env \<Rightarrow> event_scope \<Rightarrow> app_scope \<Rightarrow> telemetry list \<Rightarrow> control_row \<Rightarrow> db \<Rightarrow> db" where
  "assess_control e x a vs c s =
     (let evidence = control_evidence c vs; s1 = record_control_evidence a c evidence s
      in write_assessment e x a c (if evidence \<noteq> [] then ''passing'' else ''missing'') (trace_ids evidence) (int (length evidence)) s1)"

definition assess_controls :: "env \<Rightarrow> event_scope \<Rightarrow> app_scope \<Rightarrow> control_row list \<Rightarrow> telemetry list \<Rightarrow> db \<Rightarrow> db" where
  "assess_controls e x a cs vs s = fold (assess_control e x a vs) cs s"

text \<open>The fold, from the batch alone.\<close>

definition fold_control :: "env \<Rightarrow> event_scope \<Rightarrow> app_scope \<Rightarrow> telemetry list \<Rightarrow> control_row \<Rightarrow> db \<Rightarrow> db" where
  "fold_control e x a vs c s =
     (let evidence = control_evidence c vs; s1 = record_control_evidence a c evidence s;
          existing = by_key ca_id (assessment_id e x c) (control_assessments s1)
      in if evidence = [] then (if existing = None then write_assessment e x a c ''missing'' [] 0 s1 else s1)
         else write_assessment e x a c ''passing''
                (sorted_set (row_set ca_evidence_trace_ids existing @ filter (\<lambda>t. t \<noteq> []) (map tm_trace_id evidence)))
                ((case existing of None \<Rightarrow> 0 | Some r \<Rightarrow> ca_evidence_count r) + int (length evidence)) s1)"

definition fold_controls :: "env \<Rightarrow> event_scope \<Rightarrow> app_scope \<Rightarrow> control_row list \<Rightarrow> telemetry list \<Rightarrow> db \<Rightarrow> db" where
  "fold_controls e x a cs vs s = fold (fold_control e x a vs) cs s"

section \<open>Risk rules\<close>

definition finding_id :: "env \<Rightarrow> event_scope \<Rightarrow> risk_rule \<Rightarrow> string" where
  "finding_id e x r =
     entity_id e [Some ''risk-finding'', id_part (env_float_repr e) (es_tenant x), Some (es_project x), Some (es_environment x),
       id_part (env_float_repr e) (es_application x), Some (rr_rule_id r)]"

definition write_rule_finding :: "env \<Rightarrow> event_scope \<Rightarrow> app_scope \<Rightarrow> risk_rule \<Rightarrow> string list \<Rightarrow> string \<Rightarrow> db \<Rightarrow> db" where
  "write_rule_finding e x a r traces summary s =
     (let i = finding_id e x r; computed = (if rr_mode r = ''observe'' then ''observed'' else ''open'');
          status = preserve_decided_status (map_option rf_status (by_key rf_id i (risk_findings s))) computed [''open'', ''observed'']
      in s\<lparr>risk_findings := insert_or_replace rf_id
           \<lparr>rf_id = i, rf_tenant_id = as_tenant_id a, rf_project = as_project a, rf_environment = as_environment a,
            rf_application_name = as_application_name a, rf_rule_id = rr_rule_id r, rf_risk = rr_name r, rf_severity = rr_severity r, rf_status = status,
            rf_rationale = rr_rationale r, rf_framework_refs = rr_framework_refs r, rf_evidence_trace_ids = take EVIDENCE_TRACE_CAP traces,
            rf_evidence_summary = summary, rf_evaluated_at = db_now e\<rparr> (risk_findings s)\<rparr>)"

definition upsert_rule_finding :: "env \<Rightarrow> event_scope \<Rightarrow> app_scope \<Rightarrow> risk_rule \<Rightarrow> string list \<Rightarrow> string \<Rightarrow> db \<Rightarrow> db" where
  "upsert_rule_finding e x a r traces summary s = write_rule_finding e x a r (sorted_set (filter (\<lambda>t. t \<noteq> []) traces)) summary s"

text \<open>
  The whole-word agentic terms. A word is a maximal run of letters, digits and underscores, of the Latin-1 letters too.
\<close>

definition word_char :: "char \<Rightarrow> bool" where
  "word_char c \<longleftrightarrow> (let n = (of_char c :: nat) in 48 \<le> n \<and> n \<le> 57 \<or> 65 \<le> n \<and> n \<le> 90 \<or> n = 95 \<or> 97 \<le> n \<and> n \<le> 122 \<or>
     n \<in> {170, 178, 179, 181, 185, 186, 188, 189, 190} \<or> 192 \<le> n \<and> n \<noteq> 215 \<and> n \<noteq> 247)"

fun words_from :: "string \<Rightarrow> string \<Rightarrow> string list" where
  "words_from cur [] = (if cur = [] then [] else [rev cur])"
| "words_from cur (c # cs) = (if word_char c then words_from (c # cur) cs else (if cur = [] then [] else [rev cur]) @ words_from [] cs)"

definition agentic_word :: "string \<Rightarrow> bool" where
  "agentic_word w \<longleftrightarrow> w \<in> {''agent'', ''agents'', ''agentic'', ''tool'', ''tools''} \<or> (starts_with ''orchestrat'' w \<and> 10 < length w)"

definition agentic_terms :: "string \<Rightarrow> bool" where
  "agentic_terms t = list_ex agentic_word (words_from [] t)"

definition undurable_health_events :: "telemetry list \<Rightarrow> telemetry list" where
  "undurable_health_events vs = filter (\<lambda>v. tm_type v = ''sdk.health'' \<and>
     (0 < as_int (dget (event_attributes v) ''dropped'' JNull) \<or> dget (event_attributes v) ''spool_configured'' JNull = JBool False)) vs"

definition delivery_summary :: "telemetry list \<Rightarrow> string" where
  "delivery_summary vs =
     (let dropped = (if vs = [] then 0 else Max (set (map (\<lambda>v. as_int (dget (event_attributes v) ''dropped'' JNull)) vs))) in
      if dropped \<noteq> 0 then ''SDK reports '' @ str_int dropped @ '' event(s) dropped without a spool to hold them''
      else ''SDK reports no spool for undelivered batches, so a delivery failure loses evidence'')"

definition failed_eval_summary :: "nat \<Rightarrow> string" where
  "failed_eval_summary n = str_nat n @ '' evaluation result(s) below threshold''"

text \<open>When the headline stage of the application is retired, the time of the latest retirement record.\<close>

definition retired_since :: "app_scope \<Rightarrow> db \<Rightarrow> string option" where
  "retired_since a s =
     (let rows = filter (\<lambda>u. uc_application_name u = as_application_name a \<and> uc_tenant_id u = as_tenant_id a \<and>
                   uc_project u = as_project a \<and> uc_environment u = as_environment a) (ai_use_cases s);
          retired = filter (\<lambda>u. uc_status u = ''retired'') rows
      in if list_ex (\<lambda>u. or_str (Some (uc_status u)) ''submitted'' \<in> {''submitted'', ''approved'', ''recertified''}) rows \<or> retired = [] then None
         else Some (fold max (map (\<lambda>u. db_text (uc_updated_at u)) retired) []))"

section \<open>Rules from the columns\<close>

definition scope_rows :: "app_scope \<Rightarrow> db \<Rightarrow> sdk_event list" where
  "scope_rows a s = filter (\<lambda>r. sk_project r = as_project a \<and> sk_environment r = as_environment a \<and>
     sk_application_name r = Some (as_application_name a) \<and> sk_tenant_id r = as_tenant_id a) (sdk_events s)"

definition count_type :: "string \<Rightarrow> sdk_event list \<Rightarrow> nat" where
  "count_type ty rows = length (filter (\<lambda>r. sk_event_type r = ty) rows)"

definition VERDICT_EVENT_TYPES :: "string list" where "VERDICT_EVENT_TYPES = [''eval.result'']"

definition recent_trace_ids :: "(sdk_event \<Rightarrow> bool) \<Rightarrow> app_scope \<Rightarrow> db \<Rightarrow> string list" where
  "recent_trace_ids p a s =
     (let rows = take (EVIDENCE_TRACE_CAP * 2) (rev (sort_key sk_id (filter p (scope_rows a s))))
      in take EVIDENCE_TRACE_CAP (rev (remdups (rev (filter (\<lambda>t. t \<noteq> []) (map sk_trace_id rows))))))"

definition observed_providers :: "app_scope \<Rightarrow> db \<Rightarrow> string list" where
  "observed_providers a s = sorted_set (filter (\<lambda>p. p \<noteq> []) (List.map_filter sk_provider (filter (\<lambda>r. sk_event_type r = ''model.call'') (scope_rows a s))))"

definition observed_use_cases :: "app_scope \<Rightarrow> db \<Rightarrow> string list" where
  "observed_use_cases a s = remdups (filter (\<lambda>u. u \<noteq> []) (List.map_filter sk_use_case (scope_rows a s)))"

definition late_event :: "string \<Rightarrow> sdk_event \<Rightarrow> bool" where
  "late_event since r \<longleftrightarrow> sql_replace_T since < sql_replace_T (sk_timestamp r)"

definition assess_rule :: "env \<Rightarrow> event_scope \<Rightarrow> app_scope \<Rightarrow> string \<Rightarrow> telemetry list \<Rightarrow> risk_rule \<Rightarrow> db \<Rightarrow> db" where
  "assess_rule e x a app_text vs r s =
     (let signal = rr_signal r; rows = scope_rows a s; model_calls = count_type ''model.call'' rows; is_call = (\<lambda>r. sk_event_type r = ''model.call'');
          write = write_rule_finding e x a r in
      if signal = ''provider_dependency'' then
        (if observed_providers a s = [] then s
         else write (recent_trace_ids is_call a s) (''Observed providers: '' @ comma_join (observed_providers a s)) s)
      else if signal = ''missing_guardrail'' then
        (if model_calls \<noteq> 0 \<and> count_type ''guardrail.decision'' rows = 0
         then write (recent_trace_ids is_call a s) ''Model calls observed without guardrail decision evidence'' s else s)
      else if signal = ''missing_eval'' then
        (if model_calls \<noteq> 0 \<and> count_type ''eval.result'' rows = 0
         then write (recent_trace_ids is_call a s) ''Model calls observed without evaluation result evidence'' s else s)
      else if signal = ''missing_agent_run'' then
        (let tools = count_type ''tool.call'' rows \<noteq> 0 in
         if count_type ''agent.run'' rows = 0 \<and> (tools \<or> agentic_terms app_text)
         then write (recent_trace_ids (\<lambda>_. True) a s)
                (if tools then ''Tool-call telemetry observed without agent run evidence''
                 else ''Agentic term in the application name or use-case without agent run evidence'') s
         else s)
      else if signal = ''operational_errors'' then
        (let failed = (\<lambda>r. sk_status r = ''error'' \<and> sk_event_type r \<notin> set VERDICT_EVENT_TYPES) in
         if filter failed rows = [] then s
         else write (recent_trace_ids failed a s) (str_nat (length (filter failed rows)) @ '' error events observed'') s)
      else if signal = ''failed_eval'' then
        (let failed = (\<lambda>r. sk_event_type r = ''eval.result'' \<and> sk_status r = ''error'') in
         if filter failed rows = [] then s else write (recent_trace_ids failed a s) (failed_eval_summary (length (filter failed rows))) s)
      else if signal = ''retired_system_telemetry'' then
        (case retired_since a s of
           None \<Rightarrow> s
         | Some since \<Rightarrow>
             if since = [] \<or> filter (late_event since) rows = [] then s
             else write (recent_trace_ids (late_event since) a s)
                    (str_nat (length (filter (late_event since) rows)) @ '' event(s) observed after the system was retired at '' @ since) s)
      else if signal = ''evidence_delivery_not_durable'' then
        (let undurable = undurable_health_events vs in
         if undurable = [] then s else upsert_rule_finding e x a r (map tm_trace_id undurable) (delivery_summary undurable) s)
      else s)"

text \<open>The text is read once; an application name that is not a text makes the join raise.\<close>

definition assess_rules_from_columns :: "env \<Rightarrow> event_scope \<Rightarrow> app_scope \<Rightarrow> risk_rule list \<Rightarrow> telemetry list \<Rightarrow> db \<Rightarrow> db res" where
  "assess_rules_from_columns e x a rules vs s =
     (case es_application x of
        JStr name \<Rightarrow> Inr (fold (assess_rule e x a (py_lower (join_with '' '' (name # observed_use_cases a s))) vs) rules s)
      | _ \<Rightarrow> Inl TypeErr)"

definition assess_group :: "env \<Rightarrow> (rat \<Rightarrow> string) \<Rightarrow> event_scope \<times> telemetry list \<Rightarrow> db \<Rightarrow> db res" where
  "assess_group e rt = (\<lambda>(x, vs) s. ebind (application_is_registered rt x s) (\<lambda>reg.
     if \<not> reg then Inr s
     else ebind (bound_scope rt x) (\<lambda>a.
       let tenant = as_tenant_id a in
       assess_rules_from_columns e x a (list_risk_rules s tenant) vs (fold_controls e x a (list_control_library s tenant) vs s))))"

definition fold_batch_assessments :: "env \<Rightarrow> (rat \<Rightarrow> string) \<Rightarrow> telemetry list \<Rightarrow> db \<Rightarrow> db res" where
  "fold_batch_assessments e rt vs s = ebind (events_by_app_scope vs) (\<lambda>gs. efold (assess_group e rt) gs s)"

section \<open>Rebuilding from all history\<close>

text \<open>All events of the application, and every SDK health event of its project and environment.\<close>

definition list_evidence_events :: "app_scope \<Rightarrow> db \<Rightarrow> telemetry list res" where
  "list_evidence_events a s =
     emap (\<lambda>r. deserialize_raw_event (sk_raw_event r))
       (sort_key sk_id (filter (\<lambda>r. sk_project r = as_project a \<and> sk_environment r = as_environment a \<and> sk_tenant_id r = as_tenant_id a \<and>
          (sk_application_name r = Some (as_application_name a) \<or> sk_event_type r = ''sdk.health'')) (sdk_events s)))"

definition of_type :: "string \<Rightarrow> telemetry list \<Rightarrow> telemetry list" where
  "of_type ty vs = filter (\<lambda>v. tm_type v = ty) vs"

definition text_providers :: "telemetry list \<Rightarrow> string list" where
  "text_providers vs = sorted_set (List.map_filter (\<lambda>v. case dget (event_attributes v) ''provider'' JNull of JStr p \<Rightarrow> Some p | _ \<Rightarrow> None) (of_type ''model.call'' vs))"

definition assess_event_rule :: "env \<Rightarrow> event_scope \<Rightarrow> app_scope \<Rightarrow> string \<Rightarrow> telemetry list \<Rightarrow> risk_rule \<Rightarrow> db \<Rightarrow> db" where
  "assess_event_rule e x a app_text vs r s =
     (let signal = rr_signal r; write = (\<lambda>evs. upsert_rule_finding e x a r (map tm_trace_id evs)); calls = of_type ''model.call'' vs in
      if signal = ''provider_dependency'' then
        (if text_providers vs = [] then s
         else write (filter (\<lambda>v. truthy (dget (event_attributes v) ''provider'' JNull)) calls) (''Observed providers: '' @ comma_join (text_providers vs)) s)
      else if signal = ''missing_guardrail'' then
        (if calls \<noteq> [] \<and> of_type ''guardrail.decision'' vs = [] then write calls ''Model calls observed without guardrail decision evidence'' s else s)
      else if signal = ''missing_eval'' then
        (if calls \<noteq> [] \<and> of_type ''eval.result'' vs = [] then write calls ''Model calls observed without evaluation result evidence'' s else s)
      else if signal = ''missing_agent_run'' then
        (let tools = of_type ''tool.call'' vs \<noteq> [] in
         if of_type ''agent.run'' vs = [] \<and> (tools \<or> agentic_terms app_text)
         then write vs (if tools then ''Tool-call telemetry observed without agent run evidence''
                        else ''Agentic term in the application name or use-case without agent run evidence'') s
         else s)
      else if signal = ''operational_errors'' then
        (let failed = filter (\<lambda>v. tm_status v = ''error'' \<and> tm_type v \<notin> set VERDICT_EVENT_TYPES) vs in
         if failed = [] then s else write failed (str_nat (length failed) @ '' error events observed'') s)
      else if signal = ''failed_eval'' then
        (let failed = filter (\<lambda>v. tm_status v = ''error'') (of_type ''eval.result'' vs) in
         if failed = [] then s else write failed (failed_eval_summary (length failed)) s)
      else if signal = ''retired_system_telemetry'' then
        (case retired_since a s of
           None \<Rightarrow> s
         | Some since \<Rightarrow>
             let late = filter (\<lambda>v. ts_after (tm_timestamp v) since) vs in
             if since = [] \<or> late = [] then s
             else write late (str_nat (length late) @ '' event(s) observed after the system was retired at '' @ since) s)
      else if signal = ''evidence_delivery_not_durable'' then
        (let undurable = undurable_health_events vs in if undurable = [] then s else write undurable (delivery_summary undurable) s)
      else s)"

definition use_case_text :: "telemetry \<Rightarrow> string res" where
  "use_case_text v = (case dget (event_metadata v) ''use_case'' (JStr []) of JStr t \<Rightarrow> Inr t | _ \<Rightarrow> Inl TypeErr)"

definition assess_risk_rules :: "env \<Rightarrow> event_scope \<Rightarrow> app_scope \<Rightarrow> risk_rule list \<Rightarrow> telemetry list \<Rightarrow> db \<Rightarrow> db res" where
  "assess_risk_rules e x a rules vs s =
     ebind (emap use_case_text vs) (\<lambda>texts.
     Inr (fold (assess_event_rule e x a (py_lower (as_application_name a @ '' '' @ join_with '' '' texts)) vs) rules s))"

definition refresh_assessment :: "env \<Rightarrow> (rat \<Rightarrow> string) \<Rightarrow> event_scope \<Rightarrow> db \<Rightarrow> db res" where
  "refresh_assessment e rt x s =
     ebind (bound_scope rt x) (\<lambda>a. ebind (list_evidence_events a s) (\<lambda>vs.
     assess_risk_rules e x a (list_risk_rules s (as_tenant_id a)) vs (assess_controls e x a (list_control_library s (as_tenant_id a)) vs s)))"

definition refresh_governance_assessments :: "env \<Rightarrow> (rat \<Rightarrow> string) \<Rightarrow> event_scope list option \<Rightarrow> db \<Rightarrow> db res" where
  "refresh_governance_assessments e rt scopes s = efold (refresh_assessment e rt) (applications_in_scope s scopes) s"

section \<open>Customization\<close>

text \<open>An event type: words of small letters, digits and underscores, each starting with a letter, joined by dots; at least two.\<close>

definition small_letter :: "char \<Rightarrow> bool" where
  "small_letter c \<longleftrightarrow> 97 \<le> (of_char c :: nat) \<and> (of_char c :: nat) \<le> 122"

fun dotted_words :: "nat \<Rightarrow> bool \<Rightarrow> string \<Rightarrow> bool" where
  "dotted_words n start [] \<longleftrightarrow> \<not> start \<and> 2 \<le> n"
| "dotted_words n start (c # cs) \<longleftrightarrow>
     (if start then small_letter c \<and> dotted_words n False cs
      else if c = CHR ''.'' then dotted_words (Suc n) True cs
      else if cs = [] \<and> c = CHR 0x0A then 2 \<le> n
      else (small_letter c \<or> is_digit c \<or> c = CHR ''_'') \<and> dotted_words n False cs)"

definition event_type_match :: "string \<Rightarrow> bool" where
  "event_type_match s = dotted_words 1 True s"

definition upsert_control_definition :: "control_row \<Rightarrow> string \<Rightarrow> db \<Rightarrow> (db \<times> control_row) res" where
  "upsert_control_definition c tenant s =
     (if tenant = [] then Inl (DomainErr ''a tenant_id is required to customize the control library'')
      else let basis = (if nonempty (cl_coverage_basis c) then cl_coverage_basis c else None) in
        if (case basis of None \<Rightarrow> False | Some b \<Rightarrow> \<not> event_type_match b)
        then Inl (DomainErr ''coverage_basis must be an event type such as model.call'')
        else let n = c\<lparr>cl_tenant_id := tenant, cl_coverage_basis := basis\<rparr>
             in Inr (s\<lparr>control_library := upsert cl_key (\<lambda>_. n) n (control_library s)\<rparr>, n))"

definition SUPPORTED_RISK_SIGNALS :: "string list" where
  "SUPPORTED_RISK_SIGNALS = [''provider_dependency'', ''missing_guardrail'', ''missing_eval'', ''failed_eval'', ''missing_agent_run'', ''operational_errors'',
     ''retired_system_telemetry'', ''evidence_delivery_not_durable'', ''unregistered_agent'', ''unauthorized_tool'', ''agent_trifecta'',
     ''autonomy_without_oversight'', ''agent_autonomy_exceeds_intake'', ''unreviewed_vendor'']"

definition RULE_MODES :: "string list" where "RULE_MODES = [''observe'', ''enforce'']"

definition built_in_rule_ids :: "string list" where
  "built_in_rule_ids = map rr_rule_id (DEFAULT_RISK_RULES @ AGENT_RISK_RULES @ VENDOR_RISK_RULES)"

text \<open>The rule of an organization; the result has the mode it had before and the number of findings opened.\<close>

definition upsert_risk_rule :: "env \<Rightarrow> risk_rule \<Rightarrow> string \<Rightarrow> db \<Rightarrow> (db \<times> risk_rule \<times> string option \<times> nat) res" where
  "upsert_risk_rule e r tenant s =
     (let mode = or_str (Some (rr_mode r)) ''enforce''; n = r\<lparr>rr_tenant_id := tenant, rr_mode := mode\<rparr> in
      if rr_signal r \<notin> set SUPPORTED_RISK_SIGNALS then Inl (DomainErr (''unsupported risk signal: '' @ rr_signal r))
      else if tenant = [] then Inl (DomainErr ''a tenant_id is required to customize risk rules'')
      else if mode \<notin> set RULE_MODES then Inl (DomainErr (''mode must be one of '' @ comma_join RULE_MODES))
      else if mode = ''observe'' \<and> rr_rule_id r \<in> set built_in_rule_ids
      then Inl (DomainErr ''built-in rules always enforce; observe mode is for your own rules'')
      else let previous = map_option rr_mode (by_key rr_key (tenant, rr_rule_id r) (risk_rules s)) in
        if previous = Some ''enforce'' \<and> mode = ''observe''
        then Inl (DomainErr ''an enforced rule cannot return to observe mode, because that would relax release gates'')
        else let s1 = s\<lparr>risk_rules := upsert rr_key (\<lambda>_. n) n (risk_rules s)\<rparr>;
                 p = (\<lambda>f. rf_tenant_id f = Some tenant \<and> rf_rule_id f = rr_rule_id r \<and> rf_status f = ''observed'')
             in if previous = Some ''observe'' \<and> mode = ''enforce''
                then Inr (s1\<lparr>risk_findings := update_where p (\<lambda>f. f\<lparr>rf_status := ''open'', rf_evaluated_at := db_now e\<rparr>) (risk_findings s1)\<rparr>,
                          n, previous, length (filter p (risk_findings s1)))
                else Inr (s1, n, previous, 0))"

end
