(* ===== verification/Agents.thy ===== *)
theory Agents
  imports Assessments
begin

text \<open>
  The agent registry and what telemetry says against it (storage/agents.py, api/agents.py): agents observed without an active
  registration, tools outside the allow-list, dangerous combinations without a human checkpoint, autonomy beyond what the
  intake of the system declares. The findings go to the risk register.
\<close>

section \<open>The registry\<close>

definition INTAKE_AUTONOMY_FOR_LEVEL :: "int \<Rightarrow> string option" where
  "INTAKE_AUTONOMY_FOR_LEVEL n = (if n = 0 then Some ''assistive'' else if n \<in> {1, 2} then Some ''supervised'' else if n \<in> {3, 4} then Some ''autonomous'' else None)"

definition merge_agent :: "env \<Rightarrow> agent_row \<Rightarrow> agent_row \<Rightarrow> agent_row" where
  "merge_agent e n r =
     r\<lparr>ag_application_name := ag_application_name n, ag_description := ag_description n, ag_owner_ref := ag_owner_ref n,
       ag_autonomy_level := ag_autonomy_level n, ag_allowed_tools := ag_allowed_tools n, ag_processes_untrusted_input := ag_processes_untrusted_input n,
       ag_accesses_sensitive_data := ag_accesses_sensitive_data n, ag_can_act_externally := ag_can_act_externally n,
       ag_human_checkpoint := ag_human_checkpoint n, ag_status := ''active'', ag_updated_at := db_now e\<rparr>"

record agent_request =
  aw_agent_name :: string
  aw_owner_ref :: string
  aw_autonomy_level :: int
  aw_allowed_tools :: "string list"
  aw_processes_untrusted_input :: bool
  aw_accesses_sensitive_data :: bool
  aw_can_act_externally :: bool
  aw_human_checkpoint :: bool
  aw_application_name :: "string option"
  aw_description :: "string option"

definition agent_id_of :: "env \<Rightarrow> string \<Rightarrow> string \<Rightarrow> string" where
  "agent_id_of e tenant name = entity_id e [Some ''agent'', Some tenant, Some name]"

definition register_agent :: "env \<Rightarrow> string \<Rightarrow> agent_request \<Rightarrow> string option \<Rightarrow> db \<Rightarrow> (db \<times> agent_row) res" where
  "register_agent e tenant q created_by s =
     (let i = agent_id_of e tenant (aw_agent_name q);
          n = \<lparr>ag_agent_id = i, ag_tenant_id = tenant, ag_agent_name = aw_agent_name q, ag_application_name = aw_application_name q,
               ag_description = aw_description q, ag_owner_ref = aw_owner_ref q, ag_autonomy_level = aw_autonomy_level q,
               ag_allowed_tools = sorted_set (aw_allowed_tools q), ag_processes_untrusted_input = aw_processes_untrusted_input q,
               ag_accesses_sensitive_data = aw_accesses_sensitive_data q, ag_can_act_externally = aw_can_act_externally q,
               ag_human_checkpoint = aw_human_checkpoint q, ag_status = ''active'', ag_created_by = created_by, ag_created_at = db_now e,
               ag_updated_at = db_now e\<rparr>;
          s1 = s\<lparr>agent_registry := upsert ag_agent_id (merge_agent e n) n (agent_registry s)\<rparr>
      in case by_key ag_agent_id i (agent_registry s1) of None \<Rightarrow> Inl TypeErr | Some r \<Rightarrow> Inr (s1, r))"

definition list_registered_agents :: "db \<Rightarrow> string \<Rightarrow> agent_row list" where
  "list_registered_agents s tenant = sort_key ag_agent_name (filter (\<lambda>r. ag_tenant_id r = tenant) (agent_registry s))"

definition load_registered_agent :: "db \<Rightarrow> string \<Rightarrow> string \<Rightarrow> agent_row option" where
  "load_registered_agent s i tenant = find (\<lambda>r. ag_agent_id r = i \<and> ag_tenant_id r = tenant) (agent_registry s)"

definition retire_agent :: "env \<Rightarrow> string \<Rightarrow> string \<Rightarrow> db \<Rightarrow> (db \<times> agent_row) res" where
  "retire_agent e i tenant s =
     (if load_registered_agent s i tenant = None then Inl (DomainErr ''agent not found in this organization'')
      else let s1 = s\<lparr>agent_registry := update_where (\<lambda>r. ag_agent_id r = i) (\<lambda>r. r\<lparr>ag_status := ''retired'', ag_updated_at := db_now e\<rparr>) (agent_registry s)\<rparr>
           in case by_key ag_agent_id i (agent_registry s1) of None \<Rightarrow> Inl TypeErr | Some r \<Rightarrow> Inr (s1, r))"

section \<open>Observed activity\<close>

record activity =
  av_name :: string
  av_application_name :: "string option"
  av_project :: string
  av_environment :: string
  av_run_count :: nat
  av_trace_ids :: "string list"
  av_tools_used :: "string list"
  av_last_seen :: "string option"

definition runs_of :: "string \<Rightarrow> string \<Rightarrow> db \<Rightarrow> observed_event list" where
  "runs_of ty tenant s = filter (\<lambda>r. oe_entity_type r = ty \<and> oe_tenant_id r = Some tenant) (governance_observed_events s)"

definition tools_on_trace :: "string \<Rightarrow> db \<Rightarrow> string \<Rightarrow> string list" where
  "tools_on_trace tenant s trace = map oe_name (filter (\<lambda>r. oe_trace_id r = trace) (runs_of ''tool.call'' tenant s))"

text \<open>The tools the steps of a run name.\<close>

definition step_tool :: "env \<Rightarrow> json \<Rightarrow> string list" where
  "step_tool e step = (case step of JObj d \<Rightarrow> (let t = dget d ''tool'' JNull in if truthy t then [py_str (env_float_repr e) t] else []) | _ \<Rightarrow> [])"

definition step_tools :: "env \<Rightarrow> observed_event \<Rightarrow> string list res" where
  "step_tools e r = ebind (jget (oe_attributes r) ''steps'' JNull) (\<lambda>steps.
     ebind (jiter (py_or steps (JArr []))) (\<lambda>xs. Inr (concat (map (step_tool e) xs))))"

definition note_run :: "env \<Rightarrow> string \<Rightarrow> db \<Rightarrow> observed_event \<Rightarrow> activity list \<Rightarrow> activity list res" where
  "note_run e tenant s r acts =
     ebind (step_tools e r) (\<lambda>steps.
     let tools = tools_on_trace tenant s (oe_trace_id r) @ steps;
         fresh = \<lparr>av_name = oe_name r, av_application_name = oe_application_name r, av_project = oe_project r, av_environment = oe_environment r,
                  av_run_count = 1, av_trace_ids = [oe_trace_id r], av_tools_used = tools, av_last_seen = Some (oe_observed_at r)\<rparr>
     in Inr (upsert av_name (\<lambda>x. x\<lparr>av_run_count := av_run_count x + 1, av_trace_ids := av_trace_ids x @ [oe_trace_id r],
          av_tools_used := av_tools_used x @ tools,
          av_last_seen := (case av_last_seen x of None \<Rightarrow> Some (oe_observed_at r) | Some t \<Rightarrow> Some (max t (oe_observed_at r)))\<rparr>) fresh acts))"

definition observed_agent_activity :: "env \<Rightarrow> string \<Rightarrow> db \<Rightarrow> activity list res" where
  "observed_agent_activity e tenant s = efold (note_run e tenant s) (runs_of ''agent.run'' tenant s) []"

definition declared_intake_autonomy :: "string \<Rightarrow> db \<Rightarrow> string \<Rightarrow> string \<Rightarrow> string \<Rightarrow> nat option" where
  "declared_intake_autonomy tenant s project environment app =
     (let rows = filter (\<lambda>u. uc_tenant_id u = Some tenant \<and> uc_status u \<notin> {''retired'', ''rejected''} \<and> uc_autonomy_level u \<in> set AUTONOMY_LEVELS \<and>
            uc_project u = project \<and> uc_environment u = environment \<and> uc_application_name u = app) (ai_use_cases s)
      in if rows = [] then None else Some (Max (set (map (\<lambda>u. nat (level_index AUTONOMY_LEVELS (uc_autonomy_level u))) rows))))"

section \<open>Posture\<close>

text \<open>A finding of the reconciliation: the rule, the activity it is about and the summary.\<close>

record agent_finding =
  af_rule_id :: string
  af_obs :: activity
  af_summary :: string

definition agent_named :: "string \<Rightarrow> db \<Rightarrow> string \<Rightarrow> agent_row option" where
  "agent_named tenant s name = find (\<lambda>r. ag_agent_name r = name) (rev (list_registered_agents s tenant))"

definition active_agent :: "string \<Rightarrow> db \<Rightarrow> string \<Rightarrow> agent_row option" where
  "active_agent tenant s name = (case agent_named tenant s name of Some r \<Rightarrow> if ag_status r = ''active'' then Some r else None | None \<Rightarrow> None)"

definition unauthorized_tools :: "activity \<Rightarrow> agent_row \<Rightarrow> string list" where
  "unauthorized_tools obs r = sorted_set (filter (\<lambda>t. t \<notin> set (ag_allowed_tools r)) (av_tools_used obs))"

definition agent_trifecta :: "agent_row \<Rightarrow> bool" where
  "agent_trifecta r \<longleftrightarrow> ag_processes_untrusted_input r \<and> ag_accesses_sensitive_data r \<and> ag_can_act_externally r \<and> \<not> ag_human_checkpoint r"

definition autonomy_without_oversight :: "agent_row \<Rightarrow> bool" where
  "autonomy_without_oversight r \<longleftrightarrow> 3 \<le> ag_autonomy_level r \<and> \<not> ag_human_checkpoint r"

definition agent_band :: "agent_row \<Rightarrow> string" where
  "agent_band r = (case INTAKE_AUTONOMY_FOR_LEVEL (ag_autonomy_level r) of None \<Rightarrow> ''autonomous'' | Some b \<Rightarrow> b)"

text \<open>The system of the agent and what its intake declares, when the agent is beyond it.\<close>

definition agent_system :: "activity \<Rightarrow> agent_row \<Rightarrow> string option" where
  "agent_system obs r = (if nonempty (ag_application_name r) then ag_application_name r else av_application_name obs)"

definition exceeds_intake :: "string \<Rightarrow> db \<Rightarrow> activity \<Rightarrow> agent_row \<Rightarrow> (string \<times> nat) option" where
  "exceeds_intake tenant s obs r =
     (case agent_system obs r of
        None \<Rightarrow> None
      | Some system \<Rightarrow>
          (case declared_intake_autonomy tenant s (av_project obs) (av_environment obs) system of
             None \<Rightarrow> None
           | Some i \<Rightarrow> if i < level_index AUTONOMY_LEVELS (agent_band r) then Some (system, i) else None))"

definition shadow_finding :: "activity \<Rightarrow> agent_finding" where
  "shadow_finding obs = \<lparr>af_rule_id = ''RISK-AGT-SHADOW'', af_obs = obs,
     af_summary = ''Agent '' @ sq @ av_name obs @ sq @ '' ran '' @ str_nat (av_run_count obs) @ ''x but is not registered''\<rparr>"

definition registered_findings :: "string \<Rightarrow> db \<Rightarrow> activity \<Rightarrow> agent_row \<Rightarrow> agent_finding list" where
  "registered_findings tenant s obs r =
     (let mk = (\<lambda>rule t. \<lparr>af_rule_id = rule, af_obs = obs, af_summary = ''Agent '' @ sq @ av_name obs @ sq @ t\<rparr>);
          un = unauthorized_tools obs r in
      (if un = [] then [] else [mk ''RISK-AGT-TOOL'' ('' used tools outside its allow-list: '' @ comma_join un)]) @
      (if agent_trifecta r
       then [mk ''RISK-AGT-TRIFECTA'' '' combines untrusted input, sensitive data, and external action with no human checkpoint''] else []) @
      (if autonomy_without_oversight r
       then [mk ''RISK-AGT-AUTONOMY'' ('' is autonomy level '' @ str_int (ag_autonomy_level r) @ '' with no human checkpoint'')] else []) @
      (case exceeds_intake tenant s obs r of
         None \<Rightarrow> []
       | Some (system, i) \<Rightarrow> [mk ''RISK-AGT-INTAKE'' ('' is autonomy level '' @ str_int (ag_autonomy_level r) @ '' ('' @ agent_band r @
            ''); the intake for '' @ sq @ system @ sq @ '' declares '' @ AUTONOMY_LEVELS ! i)]))"

definition agent_findings :: "string \<Rightarrow> db \<Rightarrow> activity \<Rightarrow> agent_finding list" where
  "agent_findings tenant s obs =
     (case active_agent tenant s (av_name obs) of None \<Rightarrow> [shadow_finding obs] | Some r \<Rightarrow> registered_findings tenant s obs r)"

text \<open>The entries of the posture: an observed agent with its issues, then the registered agents never observed.\<close>

record agent_entry =
  ae_agent_name :: string
  ae_application_name :: "string option"
  ae_registered :: bool
  ae_run_count :: nat
  ae_tools_used :: "string list"
  ae_last_seen :: "string option"
  ae_owner_ref :: "string option"
  ae_autonomy_level :: "int option"
  ae_unauthorized_tools :: "string list"
  ae_issues :: "string list"

definition agent_issues :: "string \<Rightarrow> db \<Rightarrow> activity \<Rightarrow> agent_row \<Rightarrow> string list" where
  "agent_issues tenant s obs r =
     (if unauthorized_tools obs r = [] then [] else [''unauthorized_tool'']) @
     (if agent_trifecta r then [''agent_trifecta''] else []) @
     (if autonomy_without_oversight r then [''autonomy_without_oversight''] else []) @
     (if exceeds_intake tenant s obs r = None then [] else [''agent_autonomy_exceeds_intake''])"

definition observed_entry :: "string \<Rightarrow> db \<Rightarrow> activity \<Rightarrow> agent_entry" where
  "observed_entry tenant s obs =
     (let reg = active_agent tenant s (av_name obs) in
      \<lparr>ae_agent_name = av_name obs, ae_application_name = av_application_name obs, ae_registered = (reg \<noteq> None),
       ae_run_count = av_run_count obs, ae_tools_used = sorted_set (av_tools_used obs), ae_last_seen = av_last_seen obs,
       ae_owner_ref = map_option ag_owner_ref reg, ae_autonomy_level = map_option ag_autonomy_level reg,
       ae_unauthorized_tools = (case reg of None \<Rightarrow> [] | Some r \<Rightarrow> unauthorized_tools obs r),
       ae_issues = (case reg of None \<Rightarrow> [''unregistered_agent''] | Some r \<Rightarrow> agent_issues tenant s obs r)\<rparr>)"

definition dormant_entry :: "agent_row \<Rightarrow> agent_entry" where
  "dormant_entry r = \<lparr>ae_agent_name = ag_agent_name r, ae_application_name = ag_application_name r, ae_registered = True, ae_run_count = 0,
     ae_tools_used = [], ae_last_seen = None, ae_owner_ref = Some (ag_owner_ref r), ae_autonomy_level = Some (ag_autonomy_level r),
     ae_unauthorized_tools = [], ae_issues = []\<rparr>"

record agent_posture =
  ap_agents :: "agent_entry list"
  ap_observed :: nat
  ap_registered :: nat
  ap_shadow :: nat
  ap_with_issues :: nat
  ap_findings :: "agent_finding list"

definition compute_agent_posture :: "env \<Rightarrow> string \<Rightarrow> db \<Rightarrow> agent_posture res" where
  "compute_agent_posture e tenant s =
     ebind (observed_agent_activity e tenant s) (\<lambda>acts.
     let active = filter (\<lambda>r. ag_status r = ''active'') (list_registered_agents s tenant);
         agents = map (observed_entry tenant s) acts @ map dormant_entry (filter (\<lambda>r. ag_agent_name r \<notin> set (map av_name acts)) active)
     in Inr \<lparr>ap_agents = sort_key ae_agent_name agents, ap_observed = length acts, ap_registered = length active,
          ap_shadow = length (filter (\<lambda>a. ''unregistered_agent'' \<in> set (ae_issues a)) agents),
          ap_with_issues = length (filter (\<lambda>a. ae_issues a \<noteq> []) agents),
          ap_findings = concat (map (agent_findings tenant s) acts)\<rparr>)"

definition agent_rule :: "agent_finding \<Rightarrow> risk_rule option" where
  "agent_rule f = map_option (\<lambda>r. r\<lparr>rr_rule_id := rr_rule_id r @ '':'' @ av_name (af_obs f)\<rparr>) (by_key rr_rule_id (af_rule_id f) AGENT_RISK_RULES)"

definition write_agent_finding :: "env \<Rightarrow> string \<Rightarrow> agent_finding \<Rightarrow> db \<Rightarrow> db res" where
  "write_agent_finding e tenant f s =
     (let obs = af_obs f; app = or_str (av_application_name obs) (av_name obs);
          x = \<lparr>es_tenant = JStr tenant, es_project = av_project obs, es_environment = av_environment obs, es_application = JStr app\<rparr>;
          a = \<lparr>as_tenant_id = Some tenant, as_project = av_project obs, as_environment = av_environment obs, as_application_name = app\<rparr>
      in case agent_rule f of
           None \<Rightarrow> Inl TypeErr
         | Some r \<Rightarrow> Inr (upsert_rule_finding e x a r (sorted_set (av_trace_ids obs)) (af_summary f) s))"

definition agent_tenants :: "string list option \<Rightarrow> db \<Rightarrow> string list" where
  "agent_tenants only s =
     filter (\<lambda>t. case only of None \<Rightarrow> True | Some ts \<Rightarrow> t \<in> set ts)
       (remdups (List.map_filter oe_tenant_id (filter (\<lambda>r. oe_entity_type r = ''agent.run'') (governance_observed_events s))))"

definition refresh_agent_posture :: "env \<Rightarrow> string list option \<Rightarrow> db \<Rightarrow> db res" where
  "refresh_agent_posture e only s =
     efold (\<lambda>tenant s. ebind (compute_agent_posture e tenant s) (\<lambda>p. efold (write_agent_finding e tenant) (ap_findings p) s)) (agent_tenants only s) s"

section \<open>Routes\<close>

definition tenant_actor :: "db \<Rightarrow> actor_context \<Rightarrow> string \<Rightarrow> string res" where
  "tenant_actor s a permission =
     (if is_super_admin a \<or> \<not> nonempty (ac_tenant_id a) then Inl (AuthErr ''Tenant user required'')
      else ebind (require_permission s a permission (tenant_target (ac_tenant_id a)) False) (\<lambda>_. Inr (the (ac_tenant_id a))))"

definition register_agent_route :: "env \<Rightarrow> actor_context \<Rightarrow> agent_request \<Rightarrow> db \<Rightarrow> (db \<times> agent_row \<times> audit_req) res" where
  "register_agent_route e a q s =
     ebind (tenant_actor s a ''config.write'') (\<lambda>tenant.
     ebind (register_agent e tenant q (Some (ac_user_ref a)) s) (\<lambda>(s1, r).
     Inr (s1, r, audit_entry (ac_user_ref a) ''agent.register'' (Some tenant) ''agent'' (ag_agent_id r)
       (Some (JObj [(''agent_name'', JStr (aw_agent_name q)), (''autonomy_level'', JInt (aw_autonomy_level q)),
                    (''allowed_tools'', JArr (map JStr (sorted_set (aw_allowed_tools q))))])))))"

definition retire_agent_route :: "env \<Rightarrow> actor_context \<Rightarrow> string \<Rightarrow> db \<Rightarrow> (db \<times> agent_row \<times> audit_req) res" where
  "retire_agent_route e a i s =
     ebind (tenant_actor s a ''lifecycle.manage'') (\<lambda>tenant.
     if load_registered_agent s i tenant = None then Inl (NotFound ''agent not found in this organization'')
     else ebind (retire_agent e i tenant s) (\<lambda>(s1, r). Inr (s1, r, audit_entry (ac_user_ref a) ''agent.retire'' (Some tenant) ''agent'' i None)))"

end
