(* ===== verification/Vendors.thy ===== *)
theory Vendors
  imports Assessments
begin

text \<open>
  The vendor registry (storage/policy_engine.py, api/policy.py): a vendor names the providers it covers, is reviewed in rounds of
  approval stages, and loses its approval when its window or one of its evidence references lapses (storage/vendor_evidence.py).
  The telemetry is joined to the registry: a provider in use without an approved vendor is a finding.
\<close>

section \<open>The registry\<close>

record vendor_request =
  vq_tenant_id :: string
  vq_name :: string
  vq_providers :: "string list"
  vq_approved_models :: "string list option"
  vq_notes_ref :: "string option"
  vq_created_by :: string

definition stripped_nonempty :: "string list \<Rightarrow> string list" where
  "stripped_nonempty xs = filter (\<lambda>x. x \<noteq> []) (map py_strip xs)"

definition normalized_providers :: "vendor_request \<Rightarrow> string list" where
  "normalized_providers q = sorted_set (map py_lower (stripped_nonempty (vq_providers q)))"

text \<open>No list and an empty list both mean every model; a list of blanks means none.\<close>

definition normalized_models :: "vendor_request \<Rightarrow> string list option" where
  "normalized_models q = (case vq_approved_models q of None \<Rightarrow> None | Some [] \<Rightarrow> None | Some ms \<Rightarrow> Some (sorted_set (stripped_nonempty ms)))"

definition vendor_id_of :: "env \<Rightarrow> string \<Rightarrow> string \<Rightarrow> string" where
  "vendor_id_of e tenant name = entity_id e [Some ''vendor'', Some tenant, Some name]"

definition new_vendor :: "env \<Rightarrow> vendor_request \<Rightarrow> vendor_row" where
  "new_vendor e q =
     \<lparr>vr_id = vendor_id_of e (vq_tenant_id q) (vq_name q), vr_tenant_id = vq_tenant_id q, vr_name = vq_name q,
      vr_providers = normalized_providers q, vr_status = ''draft'', vr_approved_models = normalized_models q, vr_notes_ref = vq_notes_ref q,
      vr_review_round = 0, vr_created_by = vq_created_by q, vr_submitted_by = None, vr_created_at = db_now e, vr_updated_at = db_now e,
      vr_reviewed_at = None\<rparr>"

definition merge_vendor :: "env \<Rightarrow> vendor_request \<Rightarrow> vendor_row \<Rightarrow> vendor_row" where
  "merge_vendor e q v =
     (let changed = vr_providers v \<noteq> normalized_providers q \<or> vr_approved_models v \<noteq> normalized_models q in
      v\<lparr>vr_providers := normalized_providers q, vr_approved_models := normalized_models q, vr_notes_ref := vq_notes_ref q,
        vr_status := (if changed \<and> vr_status v \<in> {''approved'', ''recertify_due''} then ''draft'' else vr_status v), vr_updated_at := db_now e\<rparr>)"

definition read_vendor :: "string \<Rightarrow> db \<Rightarrow> (db \<times> vendor_row) res" where
  "read_vendor i s = (case by_key vr_id i (vendor_registry s) of None \<Rightarrow> Inl TypeErr | Some v \<Rightarrow> Inr (s, v))"

definition upsert_vendor :: "env \<Rightarrow> vendor_request \<Rightarrow> db \<Rightarrow> (db \<times> vendor_row) res" where
  "upsert_vendor e q s =
     (if vq_tenant_id q = [] then Inl (ValueErr ''a tenant_id is required to register a vendor'')
      else if vq_providers q = [] then Inl (ValueErr ''a vendor must name at least one provider'')
      else read_vendor (vr_id (new_vendor e q)) (s\<lparr>vendor_registry := upsert vr_id (merge_vendor e q) (new_vendor e q) (vendor_registry s)\<rparr>))"

definition list_vendors :: "db \<Rightarrow> string \<Rightarrow> vendor_row list" where
  "list_vendors s tenant = sort_key vr_name (filter (\<lambda>v. vr_tenant_id v = tenant) (vendor_registry s))"

definition load_vendor :: "db \<Rightarrow> string \<Rightarrow> string \<Rightarrow> vendor_row option" where
  "load_vendor s i tenant = find (\<lambda>v. vr_id v = i \<and> vr_tenant_id v = tenant) (vendor_registry s)"

definition review_subject :: "vendor_row \<Rightarrow> string \<Rightarrow> int \<Rightarrow> subject_ref" where
  "review_subject v tenant rd =
     \<lparr>sb_type = ''vendor_review'', sb_id = vr_id v, sb_round = rd, sb_tenant_id = Some tenant, sb_project = ''vendor-registry'',
      sb_environment = ''global'', sb_application_name = vr_name v\<rparr>"

definition first_open_stage :: "string \<Rightarrow> int \<Rightarrow> db \<Rightarrow> stage_row option" where
  "first_open_stage i rd s = find (\<lambda>r. st_status r = ''open'') (list_subject_stages s ''vendor_review'' i (Some rd))"

definition submit_vendor_review :: "env \<Rightarrow> string \<Rightarrow> string \<Rightarrow> string \<Rightarrow> db \<Rightarrow> (db \<times> vendor_row) res" where
  "submit_vendor_review e i tenant actor s =
     (case load_vendor s i tenant of
        None \<Rightarrow> Inl (NotFound ''vendor not found in this organization'')
      | Some v \<Rightarrow>
          if vr_status v = ''under_review'' then Inr (s, v)
          else if vr_status v = ''retired'' then Inl (ValueErr ''a retired vendor cannot be submitted for review'')
          else ebind (require_no_expired_evidence s i (vr_name v)) (\<lambda>_.
               ebind (resolve_vendor_policy e (governance_policies s) (Some tenant)) (\<lambda>vp.
               let rd = vr_review_round v + 1;
                   s1 = s\<lparr>vendor_registry := update_where (\<lambda>w. vr_id w = i)
                     (\<lambda>w. w\<lparr>vr_status := ''under_review'', vr_review_round := rd, vr_submitted_by := Some actor, vr_updated_at := db_now e\<rparr>) (vendor_registry s)\<rparr>
               in ebind (materialize_stages e (review_subject v tenant rd) (vp_stages vp) ''sequence'' (vp_policy_tenant vp) (vp_policy_version vp) s1) (\<lambda>(s2, created).
                  read_vendor i (case first_open_stage i rd s2 of None \<Rightarrow> s2 | Some r \<Rightarrow> notify_stage_opened e r s2)))))"

definition retire_vendor :: "env \<Rightarrow> string \<Rightarrow> string \<Rightarrow> db \<Rightarrow> (db \<times> vendor_row) res" where
  "retire_vendor e i tenant s =
     (if load_vendor s i tenant = None then Inl (NotFound ''vendor not found in this organization'')
      else read_vendor i (s\<lparr>vendor_registry := update_where (\<lambda>w. vr_id w = i) (\<lambda>w. w\<lparr>vr_status := ''retired'', vr_updated_at := db_now e\<rparr>) (vendor_registry s)\<rparr>))"

definition make_due :: "env \<Rightarrow> string \<Rightarrow> db \<Rightarrow> db \<times> bool" where
  "make_due e i s =
     (s\<lparr>vendor_registry := update_where (\<lambda>w. vr_id w = i \<and> vr_status w = ''approved'')
          (\<lambda>w. w\<lparr>vr_status := ''recertify_due'', vr_updated_at := db_now e\<rparr>) (vendor_registry s)\<rparr>,
      exists_row (\<lambda>w. vr_id w = i \<and> vr_status w = ''approved'') (vendor_registry s))"

definition vendors_link :: "env \<Rightarrow> string option" where
  "vendors_link e = Some (public_base_url e @ ''/#vendors'')"

section \<open>Ageing\<close>

definition recertify_notice :: "env \<Rightarrow> vendor_row \<Rightarrow> json \<Rightarrow> notice" where
  "recertify_notice e v days =
     \<lparr>no_tenant = Some (vr_tenant_id v), no_event = ''vendor.recertify_due'', no_subject = ''Vendor recertification due: '' @ vr_name v,
      no_text = ''The approval of vendor '' @ sq @ vr_name v @ sq @ '' is older than the '' @ py_str (env_float_repr e) days @
        ''-day recertification window the governance policy requires. Until it is re-reviewed, its providers count as unreviewed in the risk register.'',
      no_data = JObj [(''vendor_id'', JStr (vr_id v)), (''recertify_days'', days)], no_to_users = [],
      no_to_roles = [''org_admin'', ''governance_reviewer''], no_link = vendors_link e\<rparr>"

definition recertify_audit :: "vendor_row \<Rightarrow> audit_req" where
  "recertify_audit v = audit_entry ''system:policy'' ''vendor.recertify_due'' (Some (vr_tenant_id v)) ''vendor'' (vr_id v) (Some (JObj [(''name'', JStr (vr_name v))]))"

definition age_vendor :: "env \<Rightarrow> vendor_row \<Rightarrow> db \<times> vendor_row list \<Rightarrow> (db \<times> vendor_row list) res" where
  "age_vendor e v = (\<lambda>(s, due).
     ebind (resolve_vendor_policy e (governance_policies s) (Some (vr_tenant_id v))) (\<lambda>vp.
     if \<not> truthy (vp_recertify_days vp) then Inr (s, due)
     else ebind (py_int (vp_recertify_days vp)) (\<lambda>days.
       case vr_reviewed_at v of
         None \<Rightarrow> Inr (s, due)
       | Some reviewed \<Rightarrow>
           if env_now e \<le> add_days reviewed days then Inr (s, due)
           else let (s1, moved) = make_due e (vr_id v) s in
             if moved then Inr (emitted e (recertify_notice e v (vp_recertify_days vp)) s1, due @ [v]) else Inr (s1, due))))"

definition age_vendor_recertifications :: "env \<Rightarrow> db \<Rightarrow> (db \<times> vendor_row list) res" where
  "age_vendor_recertifications e s =
     efold (age_vendor e) (filter (\<lambda>v. vr_status v = ''approved'' \<and> vr_reviewed_at v \<noteq> None) (vendor_registry s)) (s, [])"

text \<open>The pass over the expiry dates: what it collects, and one reference with the name of its vendor.\<close>

record evidence_pass =
  ep_db :: db
  ep_expired :: "(evidence_ref \<times> string) list"
  ep_flipped :: "(evidence_ref \<times> string) list"
  ep_warned :: "(evidence_ref \<times> string) list"

definition evidence_notice :: "env \<Rightarrow> evidence_ref \<times> string \<Rightarrow> bool \<Rightarrow> notice" where
  "evidence_notice e = (\<lambda>(r, vendor) lapsed.
     \<lparr>no_tenant = Some (ev_tenant_id r), no_event = (if lapsed then ''vendor.evidence_expired'' else ''vendor.evidence_expiring''),
      no_subject = (if lapsed then ''Vendor evidence expired: '' else ''Vendor evidence expires soon: '') @ vendor @ '' '' @ kind_label r,
      no_text = ''The '' @ kind_label r @ '' '' @ sq @ ev_name r @ sq @ '' for vendor '' @ sq @ vendor @ sq @ '' '' @
        (if lapsed
         then ''expired on '' @ date_iso (ev_expires_at r) @ ''. Until a current reference is recorded and the vendor is re-reviewed, its providers count as unreviewed in the risk register.''
         else ''expires on '' @ date_iso (ev_expires_at r) @ ''. Arrange the renewal and record the new reference before then, or the vendor'' @ sq @ ''s approval lapses.''),
      no_data = JObj [(''vendor_id'', JStr (ev_vendor_id r)), (''reference_id'', JStr (ev_id r)), (''kind'', JStr (ev_kind r)),
        (''expires_at'', JStr (date_iso (ev_expires_at r)))],
      no_to_users = [], no_to_roles = (if lapsed then [''org_admin'', ''governance_reviewer''] else [''org_admin'']), no_link = vendors_link e\<rparr>)"

definition expire_reference :: "env \<Rightarrow> string \<Rightarrow> db \<Rightarrow> db" where
  "expire_reference e i s = s\<lparr>vendor_evidence_references := update_where (\<lambda>r. ev_id r = i \<and> ev_status r = ''current'')
     (\<lambda>r. r\<lparr>ev_status := ''expired'', ev_expired_at := Some (db_now e), ev_updated_at := db_now e\<rparr>) (vendor_evidence_references s)\<rparr>"

definition mark_noticed :: "env \<Rightarrow> string \<Rightarrow> db \<Rightarrow> db" where
  "mark_noticed e i s = s\<lparr>vendor_evidence_references := update_where (\<lambda>r. ev_id r = i)
     (\<lambda>r. r\<lparr>ev_expiry_notice_sent_at := Some (db_now e)\<rparr>) (vendor_evidence_references s)\<rparr>"

definition age_reference :: "env \<Rightarrow> evidence_ref \<times> string \<Rightarrow> evidence_pass \<Rightarrow> evidence_pass" where
  "age_reference e rv p =
     (let r = fst rv; s = ep_db p in
      if ev_expires_at r < today e then
        let (s1, moved) = make_due e (ev_vendor_id r) (expire_reference e (ev_id r) s) in
        p\<lparr>ep_db := emitted e (evidence_notice e rv True) s1, ep_expired := ep_expired p @ [rv],
          ep_flipped := (if moved then ep_flipped p @ [rv] else ep_flipped p)\<rparr>
      else if ev_expiry_notice_sent_at r = None then
        p\<lparr>ep_db := emitted e (evidence_notice e rv False) (mark_noticed e (ev_id r) s), ep_warned := ep_warned p @ [rv]\<rparr>
      else p)"

definition due_references :: "env \<Rightarrow> db \<Rightarrow> (evidence_ref \<times> string) list" where
  "due_references e s =
     sort_key (\<lambda>(r, _). (ev_tenant_id r, ev_vendor_id r, ev_kind r))
       (concat (map (\<lambda>r. map (\<lambda>v. (r, vr_name v)) (filter (\<lambda>v. vr_id v = ev_vendor_id r) (vendor_registry s)))
          (filter (\<lambda>r. ev_status r = ''current'' \<and> ev_expires_at r \<le> today e + EXPIRY_NOTICE_DAYS) (vendor_evidence_references s))))"

definition expired_audit :: "evidence_ref \<times> string \<Rightarrow> audit_req" where
  "expired_audit = (\<lambda>(r, _). audit_entry ''system:policy'' ''vendor.evidence_expired'' (Some (ev_tenant_id r)) ''vendor_evidence'' (ev_id r)
     (Some (JObj [(''vendor_id'', JStr (ev_vendor_id r)), (''kind'', JStr (ev_kind r)), (''expires_at'', JStr (date_iso (ev_expires_at r)))])))"

definition flipped_audit :: "evidence_ref \<times> string \<Rightarrow> audit_req" where
  "flipped_audit = (\<lambda>(r, vendor). audit_entry ''system:policy'' ''vendor.recertify_due'' (Some (ev_tenant_id r)) ''vendor'' (ev_vendor_id r)
     (Some (JObj [(''name'', JStr vendor), (''reason'', JStr ''evidence_expired''), (''reference_id'', JStr (ev_id r))])))"

section \<open>Posture\<close>

record provider_usage =
  pu_project :: string
  pu_environment :: string
  pu_application_name :: string
  pu_provider :: string
  pu_model :: "string option"

definition usage_of :: "sdk_event \<Rightarrow> provider_usage option" where
  "usage_of r =
     (if sk_event_type r = ''model.call'' \<and> nonempty (sk_provider r) \<and> nonempty (sk_application_name r)
      then Some \<lparr>pu_project = sk_project r, pu_environment = sk_environment r, pu_application_name = the (sk_application_name r),
                 pu_provider = the (sk_provider r), pu_model = sk_model r\<rparr>
      else None)"

definition observed_provider_usage :: "string \<Rightarrow> db \<Rightarrow> provider_usage list" where
  "observed_provider_usage tenant s = rev (remdups (rev (List.map_filter usage_of (filter (\<lambda>r. sk_tenant_id r = Some tenant) (sdk_events s)))))"

definition provider_trace_ids :: "string \<Rightarrow> provider_usage \<Rightarrow> db \<Rightarrow> string list" where
  "provider_trace_ids tenant u s =
     filter (\<lambda>t. t \<noteq> []) (take 50 (sorted_set (map sk_trace_id (filter (\<lambda>r. sk_tenant_id r = Some tenant \<and> sk_event_type r = ''model.call'' \<and>
       sk_provider r = Some (pu_provider u) \<and> sk_project r = pu_project u \<and> sk_environment r = pu_environment u \<and>
       sk_application_name r = Some (pu_application_name u)) (sdk_events s)))))"

definition provider_key :: "provider_usage \<Rightarrow> string" where
  "provider_key u = py_lower (py_strip (pu_provider u))"

text \<open>The dictionary built over a list of vendors: the last vendor that names the provider.\<close>

definition vendor_of_provider :: "vendor_row list \<Rightarrow> string \<Rightarrow> vendor_row option" where
  "vendor_of_provider vs provider = find (\<lambda>v. provider \<in> set (vr_providers v)) (rev vs)"

definition model_disallowed :: "vendor_row \<Rightarrow> provider_usage \<Rightarrow> bool" where
  "model_disallowed v u \<longleftrightarrow> (case vr_approved_models v of None \<Rightarrow> False | Some ms \<Rightarrow> nonempty (pu_model u) \<and> the (pu_model u) \<notin> set ms)"

record coverage_entry =
  pc_provider :: string
  pc_models :: "string list"
  pc_applications :: "string list"
  pc_vendor :: "string option"
  pc_vendor_status :: "string option"
  pc_covered :: bool
  pc_disallowed_models :: "string list"

definition coverage_of :: "vendor_row list \<Rightarrow> provider_usage list \<Rightarrow> string \<Rightarrow> coverage_entry" where
  "coverage_of vs usage provider =
     (let us = filter (\<lambda>u. provider_key u = provider) usage; reg = vendor_of_provider vs provider;
          models = (\<lambda>us. sorted_set (filter (\<lambda>m. m \<noteq> []) (List.map_filter pu_model us))) in
      \<lparr>pc_provider = provider, pc_models = models us, pc_applications = sorted_set (map pu_application_name us),
       pc_vendor = map_option vr_name reg, pc_vendor_status = map_option vr_status reg,
       pc_covered = (case reg of None \<Rightarrow> False | Some v \<Rightarrow> vr_status v = ''approved''),
       pc_disallowed_models = (case reg of None \<Rightarrow> []
         | Some v \<Rightarrow> if vr_status v = ''approved'' then models (filter (model_disallowed v) us) else [])\<rparr>)"

record vendor_posture =
  vc_providers :: "coverage_entry list"
  vc_covered :: nat
  vc_uncovered :: nat
  vc_registered_vendors :: nat

definition vendor_coverage :: "string \<Rightarrow> db \<Rightarrow> vendor_posture" where
  "vendor_coverage tenant s =
     (let usage = observed_provider_usage tenant s; vs = list_vendors s tenant;
          entries = map (coverage_of vs usage) (sorted_set (map provider_key usage)) in
      \<lparr>vc_providers = entries, vc_covered = length (filter pc_covered entries), vc_uncovered = length (filter (\<lambda>x. \<not> pc_covered x) entries),
       vc_registered_vendors = length vs\<rparr>)"

text \<open>What a use raises, if anything: the suffix of the rule and the summary.\<close>

definition usage_finding :: "vendor_row list \<Rightarrow> provider_usage \<Rightarrow> (string \<times> string) option" where
  "usage_finding vs u =
     (let provider = provider_key u in
      case vendor_of_provider vs provider of
        None \<Rightarrow> Some (provider, ''Provider '' @ sq @ provider @ sq @ '' observed in production with no approved vendor entry'')
      | Some v \<Rightarrow>
          if vr_status v \<noteq> ''approved''
          then Some (provider, ''Provider '' @ sq @ provider @ sq @ '' observed in production; vendor '' @ sq @ vr_name v @ sq @ '' is '' @ vr_status v @ '', not approved'')
          else if model_disallowed v u
          then Some (provider @ '':'' @ the (pu_model u), ''Model '' @ sq @ the (pu_model u) @ sq @ '' from provider '' @ sq @ provider @ sq @
                 '' is outside vendor '' @ sq @ vr_name v @ sq @ ''s approved model list'')
          else None)"

definition vendor_rule :: "string \<Rightarrow> risk_rule" where
  "vendor_rule suffix = (let r = VENDOR_RISK_RULES ! 0 in r\<lparr>rr_rule_id := rr_rule_id r @ '':'' @ suffix\<rparr>)"

definition usage_scope :: "string \<Rightarrow> provider_usage \<Rightarrow> app_scope" where
  "usage_scope tenant u = \<lparr>as_tenant_id = Some tenant, as_project = pu_project u, as_environment = pu_environment u, as_application_name = pu_application_name u\<rparr>"

definition usage_event_scope :: "string \<Rightarrow> provider_usage \<Rightarrow> event_scope" where
  "usage_event_scope tenant u = \<lparr>es_tenant = JStr tenant, es_project = pu_project u, es_environment = pu_environment u, es_application = JStr (pu_application_name u)\<rparr>"

definition write_usage_finding :: "env \<Rightarrow> string \<Rightarrow> vendor_row list \<Rightarrow> provider_usage \<Rightarrow> db \<Rightarrow> db" where
  "write_usage_finding e tenant vs u s =
     (case usage_finding vs u of
        None \<Rightarrow> s
      | Some (suffix, summary) \<Rightarrow>
          write_rule_finding e (usage_event_scope tenant u) (usage_scope tenant u) (vendor_rule suffix) (provider_trace_ids tenant u s) summary s)"

definition tenant_vendors :: "string \<Rightarrow> db \<Rightarrow> vendor_row list" where
  "tenant_vendors tenant s = filter (\<lambda>v. vr_tenant_id v = tenant) (vendor_registry s)"

definition refresh_tenant_vendors :: "env \<Rightarrow> string \<Rightarrow> db \<Rightarrow> db" where
  "refresh_tenant_vendors e tenant s = fold (write_usage_finding e tenant (tenant_vendors tenant s)) (observed_provider_usage tenant s) s"

definition vendor_tenants :: "string list option \<Rightarrow> db \<Rightarrow> string list" where
  "vendor_tenants only s =
     filter (\<lambda>t. case only of None \<Rightarrow> True | Some ts \<Rightarrow> t \<in> set ts)
       (remdups (filter (\<lambda>t. t \<noteq> []) (List.map_filter sk_tenant_id (filter (\<lambda>r. sk_event_type r = ''model.call'') (sdk_events s)))))"

definition refresh_vendor_posture :: "env \<Rightarrow> string list option \<Rightarrow> db \<Rightarrow> db" where
  "refresh_vendor_posture e only s = fold (refresh_tenant_vendors e) (vendor_tenants only s) s"

definition age_evidence_references :: "env \<Rightarrow> db \<Rightarrow> evidence_pass" where
  "age_evidence_references e s =
     (let p = fold (age_reference e) (due_references e s) \<lparr>ep_db = s, ep_expired = [], ep_flipped = [], ep_warned = []\<rparr>
      in if ep_flipped p = [] then p
         else p\<lparr>ep_db := refresh_vendor_posture e (Some (sorted_set (map (\<lambda>(r, _). ev_tenant_id r) (ep_flipped p)))) (ep_db p)\<rparr>)"

definition evidence_pass_audits :: "evidence_pass \<Rightarrow> audit_req list" where
  "evidence_pass_audits p = map expired_audit (ep_expired p) @ map flipped_audit (ep_flipped p)"

section \<open>Routes\<close>

definition member_tenant :: "actor_context \<Rightarrow> string res" where
  "member_tenant a = (if is_super_admin a \<or> \<not> nonempty (ac_tenant_id a) then Inl (AuthErr ''Tenant user required'') else Inr (the (ac_tenant_id a)))"

definition config_tenant :: "db \<Rightarrow> actor_context \<Rightarrow> string res" where
  "config_tenant s a = ebind (member_tenant a) (\<lambda>tenant.
     ebind (require_permission s a ''config.write'' (tenant_target (Some tenant)) False) (\<lambda>_. Inr tenant))"

text \<open>A plain \<open>ValueError\<close> of the storage is answered 400 with its message.\<close>

fun bad_request :: "'a res \<Rightarrow> 'a res" where
  "bad_request (Inl (ValueErr m)) = Inl (DomainErr m)"
| "bad_request r = r"

definition record_vendor_evidence :: "env \<Rightarrow> actor_context \<Rightarrow> string \<Rightarrow> evidence_request \<Rightarrow> db \<Rightarrow> (db \<times> evidence_ref \<times> audit_req) res" where
  "record_vendor_evidence e a i q s =
     ebind (config_tenant s a) (\<lambda>tenant.
     ebind (record_evidence_reference e (q\<lparr>er_tenant_id := tenant, er_vendor_id := i, er_actor_ref := ac_user_ref a\<rparr>) s) (\<lambda>(s1, r).
     Inr (s1, r, audit_entry (ac_user_ref a) ''vendor.evidence.record'' (Some tenant) ''vendor_evidence'' (ev_id r)
       (Some (JObj [(''vendor_id'', JStr i), (''kind'', JStr (ev_kind r)), (''identifier'', opt_json (ev_identifier r)),
         (''issued_at'', JStr (date_iso (ev_issued_at r))), (''expires_at'', JStr (date_iso (ev_expires_at r))),
         (''document_hash'', opt_json (ev_document_hash r))])))))"

definition withdraw_vendor_evidence :: "env \<Rightarrow> actor_context \<Rightarrow> string \<Rightarrow> string \<Rightarrow> db \<Rightarrow> (db \<times> evidence_ref \<times> audit_req) res" where
  "withdraw_vendor_evidence e a i rid s =
     ebind (config_tenant s a) (\<lambda>tenant.
     ebind (withdraw_evidence_reference e rid tenant s) (\<lambda>(s1, r).
     if ev_vendor_id r \<noteq> i then Inl (NotFound ''evidence reference not found for this vendor'')
     else Inr (s1, r, audit_entry (ac_user_ref a) ''vendor.evidence.withdraw'' (Some tenant) ''vendor_evidence'' rid
       (Some (JObj [(''vendor_id'', JStr i), (''kind'', JStr (ev_kind r)), (''expires_at'', JStr (date_iso (ev_expires_at r)))])))))"

definition create_vendor :: "env \<Rightarrow> actor_context \<Rightarrow> vendor_request \<Rightarrow> db \<Rightarrow> (db \<times> vendor_row \<times> audit_req) res" where
  "create_vendor e a q s =
     ebind (config_tenant s a) (\<lambda>tenant.
     ebind (bad_request (upsert_vendor e (q\<lparr>vq_tenant_id := tenant, vq_created_by := ac_user_ref a\<rparr>) s)) (\<lambda>(s1, v).
     Inr (s1, v, audit_entry (ac_user_ref a) ''vendor.upsert'' (Some tenant) ''vendor'' (vr_id v)
       (Some (JObj [(''name'', JStr (vr_name v)), (''providers'', JArr (map JStr (vr_providers v))), (''status'', JStr (vr_status v))])))))"

definition submit_vendor_for_review :: "env \<Rightarrow> actor_context \<Rightarrow> string \<Rightarrow> db \<Rightarrow> (db \<times> vendor_row \<times> audit_req) res" where
  "submit_vendor_for_review e a i s =
     ebind (config_tenant s a) (\<lambda>tenant.
     ebind (bad_request (submit_vendor_review e i tenant (ac_user_ref a) s)) (\<lambda>(s1, v).
     Inr (s1, v, audit_entry (ac_user_ref a) ''vendor.submit_review'' (Some tenant) ''vendor'' i
       (Some (JObj [(''name'', JStr (vr_name v)), (''review_round'', JInt (vr_review_round v))])))))"

definition retire_vendor_route :: "env \<Rightarrow> actor_context \<Rightarrow> string \<Rightarrow> db \<Rightarrow> (db \<times> vendor_row \<times> audit_req) res" where
  "retire_vendor_route e a i s =
     ebind (member_tenant a) (\<lambda>tenant.
     ebind (require_permission s a ''lifecycle.manage'' (tenant_target (Some tenant)) False) (\<lambda>_.
     if load_vendor s i tenant = None then Inl (NotFound ''vendor not found in this organization'')
     else ebind (retire_vendor e i tenant s) (\<lambda>(s1, v).
       Inr (s1, v, audit_entry (ac_user_ref a) ''vendor.retire'' (Some tenant) ''vendor'' i (Some (JObj [(''name'', JStr (vr_name v))]))))))"

end
