(* ===== verification/Prompts.thy ===== *)
theory Prompts
  imports Raw_Events
begin

text \<open>
  Prompt templates and their versions (storage/prompts.py), folded from the prompt events of a batch.
\<close>

definition pt_key :: "prompt_template \<Rightarrow> string \<times> string \<times> string \<times> string" where
  "pt_key r = (pt_tenant_id r, pt_project r, pt_environment r, pt_prompt_id r)"

definition prompt_version_key :: "env \<Rightarrow> string option \<Rightarrow> string \<Rightarrow> string \<Rightarrow> string option \<Rightarrow> string option \<Rightarrow> string" where
  "prompt_version_key e tenant project environment prompt_id version =
     entity_id e [Some ''prompt-version'', tenant, Some project, Some environment, prompt_id, version]"

definition merge_prompt_template :: "prompt_template \<Rightarrow> prompt_template \<Rightarrow> prompt_template" where
  "merge_prompt_template n r =
     r\<lparr>pt_current_version := pt_current_version n, pt_current_status := pt_current_status n, pt_owner_ref := pt_owner_ref n,
       pt_artifact_ref := pt_artifact_ref n, pt_last_seen := pt_last_seen n\<rparr>"

definition merge_prompt_version :: "prompt_version \<Rightarrow> prompt_version \<Rightarrow> prompt_version" where
  "merge_prompt_version n r =
     r\<lparr>pv_status := pv_status n, pv_owner_ref := pv_owner_ref n, pv_artifact_ref := pv_artifact_ref n, pv_template_summary := pv_template_summary n,
       pv_change_notes_summary := pv_change_notes_summary n, pv_trace_id := pv_trace_id n, pv_observed_at := pv_observed_at n\<rparr>"

definition upsert_prompt_event :: "env \<Rightarrow> (rat \<Rightarrow> string) \<Rightarrow> telemetry \<Rightarrow> db \<Rightarrow> db res" where
  "upsert_prompt_event e rt v s =
     (let attrs = event_attributes v; metadata = event_metadata v; application_name = dget metadata ''application_name'' JNull;
          workflow_name = dget metadata ''workflow_name'' JNull; tenant = dget metadata ''tenant_id'' JNull in
      if \<not> truthy application_name \<or> \<not> truthy workflow_name then Inr s
      else
        ebind (dict_at attrs ''prompt_id'') (\<lambda>prompt_id. ebind (dict_at attrs ''version'') (\<lambda>version.
        let version_id = prompt_version_key e (id_part (env_float_repr e) tenant) (tm_project v) (tm_environment v)
              (id_part (env_float_repr e) prompt_id) (id_part (env_float_repr e) version);
            status = py_or (dget attrs ''prompt_status'' JNull) (JStr (tm_status v)) in
        ebind (dict_at attrs ''artifact_ref'') (\<lambda>artifact_ref.
        ebind (sql_required rt prompt_id) (\<lambda>pid. ebind (sql_required rt (py_or tenant (JStr []))) (\<lambda>tid. ebind (sql_required rt application_name) (\<lambda>app.
        ebind (sql_required rt workflow_name) (\<lambda>workflow. ebind (sql_required rt version) (\<lambda>ver. ebind (sql_required rt status) (\<lambda>status_text.
        ebind (sql_text rt (dget attrs ''owner_ref'' JNull)) (\<lambda>owner. ebind (sql_required rt artifact_ref) (\<lambda>artifact.
        let t = \<lparr>pt_prompt_id = pid, pt_tenant_id = tid, pt_project = tm_project v, pt_environment = tm_environment v, pt_application_name = app,
                 pt_workflow_name = workflow, pt_current_version = ver, pt_current_status = status_text, pt_owner_ref = owner, pt_artifact_ref = artifact,
                 pt_first_seen = tm_timestamp v, pt_last_seen = tm_timestamp v\<rparr>;
            w = \<lparr>pv_id = version_id, pv_prompt_id = pid, pv_tenant_id = Some tid, pv_project = tm_project v, pv_environment = tm_environment v,
                 pv_application_name = app, pv_workflow_name = workflow, pv_version = ver, pv_status = status_text, pv_owner_ref = owner,
                 pv_artifact_ref = artifact, pv_template_summary = JObj (as_object (dget attrs ''template'' JNull)),
                 pv_change_notes_summary = JObj (as_object (dget attrs ''change_notes'' JNull)), pv_trace_id = tm_trace_id v, pv_observed_at = tm_timestamp v\<rparr>
        in Inr (s\<lparr>prompt_templates := upsert pt_key (merge_prompt_template t) t (prompt_templates s),
                  prompt_versions := upsert pv_id (merge_prompt_version w) w (prompt_versions s)\<rparr>)))))))))))))"

definition process_prompt_events :: "env \<Rightarrow> (rat \<Rightarrow> string) \<Rightarrow> telemetry list \<Rightarrow> db \<Rightarrow> db res" where
  "process_prompt_events e rt vs s = efold (upsert_prompt_event e rt) (filter (\<lambda>v. tm_type v = ''prompt.event'') vs) s"

end
