(* ===== verification/Fold.thy ===== *)
theory Fold
  imports Agents Vendors Prompts Deployments Incidents Decisions
begin

text \<open>
  Folding the raw rows into derived state (storage/fold.py, services/fold_sweeper.py, the end of \<open>_ingest\<close> in ingestion/routes.py).
  Each projection commits on its own, so a failure keeps what was reached before it; the rows stay pending until a fold completes.
  The text of an exception, kept with the failed rows, is the parameter \<open>rp\<close>. Metrics and logging are left out.
\<close>

section \<open>Settings\<close>

definition positive_setting :: "env \<Rightarrow> string \<Rightarrow> int \<Rightarrow> int" where
  "positive_setting e name dflt =
     (case env_getenv e name of None \<Rightarrow> dflt | Some t \<Rightarrow> (case int_of_text t of None \<Rightarrow> dflt | Some n \<Rightarrow> if 0 < n then n else dflt))"

definition DEFAULT_CLAIM_LIMIT :: int where "DEFAULT_CLAIM_LIMIT = 10000"

definition DEFAULT_MAX_ATTEMPTS :: int where "DEFAULT_MAX_ATTEMPTS = 5"

definition claim_limit :: "env \<Rightarrow> int" where
  "claim_limit e = positive_setting e ''NORINTH_FOLD_CLAIM_LIMIT'' DEFAULT_CLAIM_LIMIT"

definition fold_max_attempts :: "env \<Rightarrow> int" where
  "fold_max_attempts e = positive_setting e ''NORINTH_FOLD_MAX_ATTEMPTS'' DEFAULT_MAX_ATTEMPTS"

section \<open>The scopes a batch touches\<close>

definition add_scope :: "telemetry \<Rightarrow> event_scope list \<Rightarrow> event_scope list res" where
  "add_scope v xs =
     (let c = scope_of v in
      if \<not> truthy (es_application c) then Inr xs
      else if \<not> (hashable (es_tenant c) \<and> hashable (es_application c)) then Inl TypeErr
      else if exists_row (same_scope c) xs then Inr xs else Inr (xs @ [c]))"

definition batch_scopes :: "telemetry list \<Rightarrow> event_scope list res" where
  "batch_scopes vs = efold add_scope vs []"

text \<open>The scopes that can equal a stored row, whose columns are texts, and the tenants.\<close>

definition json_tenant :: "json \<Rightarrow> string option option" where
  "json_tenant v = (case v of JNull \<Rightarrow> Some None | JStr t \<Rightarrow> Some (Some t) | _ \<Rightarrow> None)"

definition text_scope :: "event_scope \<Rightarrow> app_scope option" where
  "text_scope c = (case (json_tenant (es_tenant c), es_application c) of
     (Some tenant, JStr app) \<Rightarrow> Some \<lparr>as_tenant_id = tenant, as_project = es_project c, as_environment = es_environment c, as_application_name = app\<rparr>
   | _ \<Rightarrow> None)"

definition refresh_touched_workflow :: "env \<Rightarrow> event_scope list \<Rightarrow> db \<Rightarrow> db" where
  "refresh_touched_workflow e cs s =
     (let wanted = Some (List.map_filter text_scope cs);
          s1 = apply_to_subjects e wanted ''application'' (application_subjects s) s;
          s2 = apply_to_subjects e wanted ''risk_finding'' (finding_subjects s1) s1;
          s3 = apply_to_subjects e wanted ''control_assessment'' (assessment_subjects s2) s2;
          s4 = apply_to_subjects e wanted ''incident'' (incident_subjects s3) s3
      in refresh_review_queue e (Some (List.map_filter (\<lambda>c. json_tenant (es_tenant c)) cs)) s4)"

lemma refresh_touched_text:
  assumes "\<forall>c\<in>set cs. text_scope c \<noteq> None"
  shows "refresh_touched_workflow e cs s = refresh_workflow_state e (Some (map (\<lambda>c. the (text_scope c)) cs)) s"
proof -
  have "List.map_filter text_scope cs = map (\<lambda>c. the (text_scope c)) cs"
    "List.map_filter (\<lambda>c. json_tenant (es_tenant c)) cs = map as_tenant_id (map (\<lambda>c. the (text_scope c)) cs)"
    using assms by (induction cs) (auto simp: map_filter_simps text_scope_def split: option.splits json.splits)
  then show ?thesis by (simp add: refresh_touched_workflow_def refresh_workflow_state_def Let_def)
qed

section \<open>One fold\<close>

text \<open>Steps run in order, each keeping what the ones before it committed; the first error stops them.\<close>

fun run_steps :: "(db \<Rightarrow> db res) list \<Rightarrow> db \<Rightarrow> db \<times> err option" where
  "run_steps [] s = (s, None)"
| "run_steps (f # fs) s = (case f s of Inl x \<Rightarrow> (s, Some x) | Inr s' \<Rightarrow> run_steps fs s')"

definition fold_steps :: "env \<Rightarrow> (rat \<Rightarrow> string) \<Rightarrow> string \<Rightarrow> (int \<times> telemetry) list \<Rightarrow> (db \<Rightarrow> db res) list" where
  "fold_steps e rt tenant pending =
     (let vs = map snd pending in
      [process_events e rt pending, process_prompt_events e rt vs, process_deployment_events e rt vs, process_incident_events e rt vs,
       (\<lambda>s. Inr (fst (expire_due_exceptions e s))), (\<lambda>s. ebind (batch_scopes vs) (\<lambda>_. Inr s)),
       fold_batch_fingerprints e rt vs, fold_batch_assessments e rt vs, refresh_agent_posture e (Some [tenant]),
       (\<lambda>s. Inr (refresh_vendor_posture e (Some [tenant]) s)),
       (\<lambda>s. ebind (batch_scopes vs) (\<lambda>cs. Inr (refresh_touched_workflow e cs s))),
       (\<lambda>s. ebind (batch_scopes vs) (\<lambda>cs. refresh_deployment_gates e (Some (List.map_filter text_scope cs)) s))])"

definition fold_rows :: "env \<Rightarrow> (rat \<Rightarrow> string) \<Rightarrow> string \<Rightarrow> (int \<times> telemetry) list \<Rightarrow> db \<Rightarrow> db \<times> err option" where
  "fold_rows e rt tenant pending = run_steps (fold_steps e rt tenant pending)"

definition fold_claimed :: "env \<Rightarrow> (rat \<Rightarrow> string) \<Rightarrow> (err \<Rightarrow> string) \<Rightarrow> string \<Rightarrow> (int \<times> telemetry) list \<Rightarrow> db \<Rightarrow> db \<times> err option" where
  "fold_claimed e rt rp tenant pending s =
     (case fold_rows e rt tenant pending s of
        (s1, None) \<Rightarrow> (mark_folded e (map fst pending) s1, None)
      | (s1, Some x) \<Rightarrow> (record_fold_attempt (map fst pending) (rp x) s1, Some x))"

definition fold_pending :: "env \<Rightarrow> (rat \<Rightarrow> string) \<Rightarrow> (err \<Rightarrow> string) \<Rightarrow> string \<Rightarrow> bool \<Rightarrow> int option \<Rightarrow> db \<Rightarrow> db \<times> nat res" where
  "fold_pending e rt rp tenant include_quarantined limit s =
     (case claim_unfolded tenant (nat (case limit of None \<Rightarrow> claim_limit e | Some n \<Rightarrow> n)) (if include_quarantined then None else Some (fold_max_attempts e)) s of
        Inl x \<Rightarrow> (s, Inl x)
      | Inr [] \<Rightarrow> (s, Inr 0)
      | Inr pending \<Rightarrow>
          (case fold_claimed e rt rp tenant pending s of
             (s1, None) \<Rightarrow> (s1, Inr (length pending))
           | (s1, Some x) \<Rightarrow> (s1, Inl x)))"

section \<open>The sweeper\<close>

text \<open>Row by row: the state, the rows folded and the rows that failed.\<close>

definition sweep_row :: "env \<Rightarrow> (rat \<Rightarrow> string) \<Rightarrow> (err \<Rightarrow> string) \<Rightarrow> string \<Rightarrow> int \<times> telemetry \<Rightarrow> db \<times> nat \<times> nat \<Rightarrow> db \<times> nat \<times> nat" where
  "sweep_row e rt rp tenant row = (\<lambda>(s, folded, failed).
     (case fold_claimed e rt rp tenant [row] s of
        (s1, None) \<Rightarrow> (s1, folded + 1, failed) | (s1, Some _) \<Rightarrow> (s1, folded, failed + 1)))"

definition sweep_tenant :: "env \<Rightarrow> (rat \<Rightarrow> string) \<Rightarrow> (err \<Rightarrow> string) \<Rightarrow> string \<Rightarrow> db \<Rightarrow> (db \<times> nat \<times> nat) res" where
  "sweep_tenant e rt rp tenant s =
     ebind (claim_unfolded tenant (nat (claim_limit e)) None s) (\<lambda>pending.
     if pending = [] then Inr (s, 0, 0)
     else case fold_rows e rt tenant pending s of
       (s1, None) \<Rightarrow> Inr (mark_folded e (map fst pending) s1, length pending, 0)
     | (s1, Some _) \<Rightarrow> Inr (fold (sweep_row e rt rp tenant) pending (s1, 0, 0)))"

definition sweep_one :: "env \<Rightarrow> (rat \<Rightarrow> string) \<Rightarrow> (err \<Rightarrow> string) \<Rightarrow> string \<Rightarrow> db \<times> nat \<times> nat \<Rightarrow> db \<times> nat \<times> nat" where
  "sweep_one e rt rp tenant = (\<lambda>(s, folded, failed).
     (case sweep_tenant e rt rp tenant s of Inl _ \<Rightarrow> (s, folded, failed) | Inr (s1, f, x) \<Rightarrow> (s1, folded + f, failed + x)))"

definition sweep_pass :: "env \<Rightarrow> (rat \<Rightarrow> string) \<Rightarrow> (err \<Rightarrow> string) \<Rightarrow> db \<Rightarrow> db \<times> nat \<times> nat" where
  "sweep_pass e rt rp s = fold (sweep_one e rt rp) (tenants_with_unfolded s) (s, 0, 0)"

section \<open>Ingestion\<close>

definition ingest :: "env \<Rightarrow> signature_scheme \<Rightarrow> (rat \<Rightarrow> string) \<Rightarrow> (err \<Rightarrow> string) \<Rightarrow> telemetry list \<Rightarrow> string \<Rightarrow> db \<Rightarrow> db \<times> audit_req list \<times> nat res" where
  "ingest e g rt rp vs tenant s =
     (case admit_events e g vs tenant s of
        (s1, q, Inl x) \<Rightarrow> (s1, q, Inl x)
      | (s1, q, Inr ws) \<Rightarrow>
          (case insert_events e rt ws s1 of
             Inl x \<Rightarrow> (s1, q, Inl x)
           | Inr (s2, inserted) \<Rightarrow>
               (case fold_pending e rt rp tenant False None s2 of
                  (s3, Inl x) \<Rightarrow> (s3, q, Inl x) | (s3, Inr _) \<Rightarrow> (s3, q, Inr (length inserted)))))"

end
