(* ===== verification/Fold_Frames.thy ===== *)
theory Fold_Frames
  imports Fold
begin

text \<open>
  What the projections leave alone: the raw rows with their ledger, and, for every projection but the counting one, the application
  inventory. \<open>quiet\<close> is that frame; \<open>quietly\<close> lifts it to the operations that may fail.
\<close>

definition quiet :: "db \<Rightarrow> db \<Rightarrow> bool" where
  "quiet s s' \<longleftrightarrow> sdk_events s' = sdk_events s \<and> events_seq s' = events_seq s \<and> governance_applications s' = governance_applications s"

definition quietly :: "db \<Rightarrow> db res \<Rightarrow> bool" where
  "quietly s m \<longleftrightarrow> (\<forall>s'. m = Inr s' \<longrightarrow> quiet s s')"

named_theorems quiet_intros

lemma quiet_refl [simp, quiet_intros]: "quiet s s" by (simp add: quiet_def)

lemma quiet_trans: "quiet s t \<Longrightarrow> quiet t u \<Longrightarrow> quiet s u" by (simp add: quiet_def)

lemma quietly_Inr [quiet_intros]: "quiet s s' \<Longrightarrow> quietly s (Inr s')" by (simp add: quietly_def)

lemma quietly_Inl [quiet_intros]: "quietly s (Inl x)" by (simp add: quietly_def)

lemma quietly_if [quiet_intros]: "(b \<Longrightarrow> quietly s x) \<Longrightarrow> (\<not> b \<Longrightarrow> quietly s y) \<Longrightarrow> quietly s (if b then x else y)"
  by simp

lemma quietly_option [quiet_intros]: "quietly s x \<Longrightarrow> (\<And>a. quietly s (f a)) \<Longrightarrow> quietly s (case z of None \<Rightarrow> x | Some a \<Rightarrow> f a)"
  by (cases z) simp_all

lemma quietly_read: "(\<And>x. quietly s (f x)) \<Longrightarrow> quietly s (ebind m f)"
  by (cases m) (simp_all add: quietly_def)

lemma quietly_bind: "quietly s m \<Longrightarrow> (\<And>t. quietly t (f t)) \<Longrightarrow> quietly s (ebind m f)"
  by (cases m) (auto simp: quietly_def intro: quiet_trans)

lemma quietly_efold: "(\<And>x t. quietly t (f x t)) \<Longrightarrow> quietly s (efold f xs s)"
  by (induction xs arbitrary: s) (auto intro: quietly_bind quietly_Inr)

lemma quiet_fold: "(\<And>x t. quiet t (f x t)) \<Longrightarrow> quiet s (fold f xs s)"
proof (induction xs arbitrary: s)
  case (Cons x xs)
  then show ?case using quiet_trans by (simp, blast)
qed simp

lemma quiet_emitted [quiet_intros]: "quiet s (emitted e n s)" by (simp add: quiet_def)

lemma quiet_if [quiet_intros]: "quiet s x \<Longrightarrow> quiet s y \<Longrightarrow> quiet s (if b then x else y)" by simp

lemma quiet_option: "quiet s x \<Longrightarrow> (\<And>a. quiet s (f a)) \<Longrightarrow> quiet s (case z of None \<Rightarrow> x | Some a \<Rightarrow> f a)"
  by (cases z) simp_all

section \<open>The inventory beside the applications\<close>

lemma upsert_workflow_quiet: "quietly s (upsert_workflow e rt b v s)"
  unfolding upsert_workflow_def Let_def by (intro quietly_read quiet_intros) (simp add: quiet_def)

lemma upsert_model_quiet: "quietly s (upsert_model e rt v s)"
  unfolding upsert_model_def Let_def by (intro quietly_read quiet_intros) (simp add: quiet_def)

lemma upsert_provider_quiet: "quietly s (upsert_provider e rt v s)"
  unfolding upsert_provider_def Let_def by (intro quietly_read quiet_intros) (simp_all add: quiet_def)

lemma upsert_observed_event_quiet: "quietly s (upsert_observed_event e rt v s)"
  unfolding upsert_observed_event_def Let_def by (intro quietly_read quiet_intros) (simp_all add: quiet_def)

lemma upsert_risk_quiet [quiet_intros]: "quietly s (upsert_risk e rt v risk sev ev src s)"
  unfolding upsert_risk_def Let_def by (intro quietly_read quiet_intros) (simp_all add: quiet_def)

lemma upsert_model_risks_quiet: "quietly s (upsert_model_risks e rt v s)"
  unfolding upsert_model_risks_def Let_def by (intro quietly_bind quiet_intros)

lemma upsert_guardrail_risk_quiet: "quietly s (upsert_guardrail_risk e rt v s)"
  unfolding upsert_guardrail_risk_def Let_def by (intro quiet_intros)

lemma upsert_eval_risk_quiet: "quietly s (upsert_eval_risk e rt v s)"
  unfolding upsert_eval_risk_def Let_def by (intro quiet_intros)

lemma upsert_control_quiet: "quietly s (upsert_control e rt v c ty s)"
  unfolding upsert_control_def Let_def by (intro quietly_read quiet_intros) (simp_all add: quiet_def)

section \<open>The other projections\<close>

lemma process_prompt_events_quiet: "quietly s (process_prompt_events e rt vs s)"
proof -
  have "quietly s (upsert_prompt_event e rt v s)" for v s
    unfolding upsert_prompt_event_def Let_def by (intro quietly_read quiet_intros) (simp_all add: quiet_def)
  then show ?thesis unfolding process_prompt_events_def by (rule quietly_efold)
qed

lemma process_deployment_events_quiet: "quietly s (process_deployment_events e rt vs s)"
proof -
  have "quietly s (upsert_deployment_event e rt v s)" for v s
    unfolding upsert_deployment_event_def Let_def by (intro quietly_read quiet_intros) (simp_all add: quiet_def)
  then show ?thesis unfolding process_deployment_events_def by (rule quietly_efold)
qed

lemma quiet_incidents: "quiet s (s\<lparr>governance_incidents := t\<rparr>)" by (simp add: quiet_def)

lemma process_incident_events_quiet: "quietly s (process_incident_events e rt vs s)"
proof -
  have "quietly s (upsert_incident_event e rt v s)" for v s
    unfolding upsert_incident_event_def Let_def
    by (intro quietly_read) (auto intro!: quietly_Inr simp: quiet_def split: option.split)
  then show ?thesis unfolding process_incident_events_def by (rule quietly_efold)
qed

lemma expire_due_exceptions_quiet: "quiet s (fst (expire_due_exceptions e s))"
proof -
  have "quiet s (expire_exception e x s)" for x s by (simp add: expire_exception_def Let_def quiet_def)
  then show ?thesis unfolding expire_due_exceptions_def fst_conv by (rule quiet_fold)
qed

lemma upsert_fingerprint_quiet: "quietly s (upsert_fingerprint e rt c f s)"
  unfolding upsert_fingerprint_def Let_def
  by (intro quietly_read quietly_Inr) (simp add: quiet_def insert_change_event_def Let_def split: option.split)

lemma fold_batch_fingerprints_quiet: "quietly s (fold_batch_fingerprints e rt vs s)"
proof -
  have "quietly s (fold_fingerprint e rt c f s)" for c f s unfolding fold_fingerprint_def by (rule upsert_fingerprint_quiet)
  then have "quietly s (fold_group e rt g s)" for g s
    unfolding fold_group_def by (cases g) (auto intro!: quietly_read quietly_if quietly_efold quietly_Inr)
  then show ?thesis unfolding fold_batch_fingerprints_def by (intro quietly_read quietly_efold)
qed

lemma write_rule_finding_quiet: "quiet s (write_rule_finding e x a r ts t s)"
  by (simp add: write_rule_finding_def quiet_def Let_def)

lemma upsert_rule_finding_quiet: "quiet s (upsert_rule_finding e x a r ts t s)"
  unfolding upsert_rule_finding_def by (rule write_rule_finding_quiet)

lemmas rule_finding_quiet = write_rule_finding_quiet upsert_rule_finding_quiet

lemma assess_rule_quiet: "quiet s (assess_rule e x a t vs r s)"
  unfolding assess_rule_def Let_def by (intro quiet_if quiet_option rule_finding_quiet quiet_refl)

lemma fold_controls_quiet: "quiet s (fold_controls e x a cs vs s)"
proof -
  have "quiet s (fold_control e x a vs c s)" for c s
    by (simp add: fold_control_def write_assessment_def record_control_evidence_def quiet_def Let_def)
  then show ?thesis unfolding fold_controls_def by (rule quiet_fold)
qed

lemma fold_batch_assessments_quiet: "quietly s (fold_batch_assessments e rt vs s)"
proof -
  have "quietly s (assess_rules_from_columns e x a rules vs (fold_controls e x a cs vs s))" for x a rules cs vs s
    unfolding assess_rules_from_columns_def
    by (auto intro!: quietly_Inl quietly_Inr intro: quiet_trans [OF fold_controls_quiet] quiet_fold assess_rule_quiet split: json.split)
  then have "quietly s (assess_group e rt g s)" for g s
    unfolding assess_group_def Let_def by (cases g) (auto intro!: quietly_read quietly_if quietly_Inr)
  then show ?thesis unfolding fold_batch_assessments_def by (intro quietly_read quietly_efold)
qed

lemma refresh_agent_posture_quiet: "quietly s (refresh_agent_posture e only s)"
proof -
  have "quietly s (write_agent_finding e tenant f s)" for tenant f s
    unfolding write_agent_finding_def Let_def by (auto intro!: quietly_Inl quietly_Inr upsert_rule_finding_quiet split: option.split)
  then show ?thesis unfolding refresh_agent_posture_def by (intro quietly_efold quietly_read)
qed

lemma refresh_vendor_posture_quiet: "quiet s (refresh_vendor_posture e only s)"
proof -
  have "quiet s (write_usage_finding e tenant vs u s)" for tenant vs u s
    unfolding write_usage_finding_def by (auto intro: write_rule_finding_quiet split: option.split)
  then have "quiet s (refresh_tenant_vendors e tenant s)" for tenant s unfolding refresh_tenant_vendors_def by (rule quiet_fold)
  then show ?thesis unfolding refresh_vendor_posture_def by (rule quiet_fold)
qed

lemma quiet_queue_frame: "queue_frame s s' \<Longrightarrow> quiet s s'"
  unfolding queue_frame_def quiet_def by (cases s; cases s') simp

lemma refresh_touched_workflow_quiet: "quiet s (refresh_touched_workflow e cs s)"
  unfolding refresh_touched_workflow_def Let_def
  by (intro quiet_queue_frame queue_frame_trans [OF queue_frame_trans [OF queue_frame_trans [OF queue_frame_trans
      [OF queue_frame_subjects queue_frame_subjects] queue_frame_subjects] queue_frame_subjects] queue_frame_refresh_queue])

lemma refresh_deployment_gates_quiet: "quietly s (refresh_deployment_gates e scopes s)"
proof -
  have "quietly s (upsert_deployment_gate e v s)" for v s
    unfolding upsert_deployment_gate_def Let_def by (intro quietly_read quietly_Inr) (simp add: quiet_def)
  then show ?thesis unfolding refresh_deployment_gates_def by (rule quietly_efold)
qed

text \<open>Every step of a fold but the first is quiet.\<close>

lemma fold_steps_quiet: "\<forall>f\<in>set (tl (fold_steps e rt tenant pending)). quietly s (f s)"
  unfolding fold_steps_def Let_def
  by (auto intro!: process_prompt_events_quiet process_deployment_events_quiet process_incident_events_quiet expire_due_exceptions_quiet
    fold_batch_fingerprints_quiet fold_batch_assessments_quiet refresh_agent_posture_quiet refresh_vendor_posture_quiet
    refresh_touched_workflow_quiet refresh_deployment_gates_quiet quietly_read quietly_Inr)

lemma run_steps_quiet:
  assumes "\<And>f t. f \<in> set fs \<Longrightarrow> quietly t (f t)"
  shows "quiet s (fst (run_steps fs s))"
  using assms
proof (induction fs arbitrary: s)
  case (Cons f fs)
  show ?case
  proof (cases "f s")
    case (Inr t)
    then have "quiet s t" using Cons.prems [of f s] by (simp add: quietly_def)
    moreover have "quiet t (fst (run_steps fs t))" using Cons by simp
    ultimately show ?thesis using Inr quiet_trans by simp
  qed simp
qed simp

text \<open>So a fold either fails to count and changes neither rows nor applications, or has counted when anything later fails.\<close>

lemma fold_rows_cases:
  obtains (uncounted) x where "process_events e rt pending s = Inl x" "fold_rows e rt tenant pending s = (s, Some x)"
    | (counted) s1 where "process_events e rt pending s = Inr s1" "quiet s1 (fst (fold_rows e rt tenant pending s))"
proof (cases "process_events e rt pending s")
  case (Inl x)
  then show thesis by (intro uncounted) (simp_all add: fold_rows_def fold_steps_def Let_def)
next
  case (Inr s1)
  have "fold_steps e rt tenant pending = process_events e rt pending # tl (fold_steps e rt tenant pending)" by (simp add: fold_steps_def Let_def)
  then have "fold_rows e rt tenant pending s = run_steps (tl (fold_steps e rt tenant pending)) s1"
    unfolding fold_rows_def by (metis (no_types) Inr run_steps.simps(2) sum.case(2))
  moreover have "quiet s1 (fst (run_steps (tl (fold_steps e rt tenant pending)) s1))"
    by (rule run_steps_quiet) (use fold_steps_quiet in blast)
  ultimately show thesis using Inr by (intro counted) simp_all
qed

end
