(* ===== verification/Fold_Properties.thy ===== *)
theory Fold_Properties
  imports Fold_Frames Attestation_Properties
begin

text \<open>
  The counters of the application inventory agree with the raw record: each is the sum, over the raw rows that are stamped as counted,
  of what the row contributes, whatever failed and was folded again.
\<close>

section \<open>What a row contributes\<close>

definition app_key :: "env \<Rightarrow> telemetry \<Rightarrow> string option" where
  "app_key e v =
     (if tm_type v \<in> set RUNTIME_EVENT_TYPES \<and> truthy (dget (event_metadata v) ''application_name'' JNull)
      then Some (entity_id e [Some ''application'', id_at e (event_metadata v) ''tenant_id'', Some (tm_project v), Some (tm_environment v),
             id_at e (event_metadata v) ''application_name''])
      else None)"

definition row_event :: "sdk_event \<Rightarrow> telemetry option" where
  "row_event r = (case deserialize_raw_event (sk_raw_event r) of Inl _ \<Rightarrow> None | Inr v \<Rightarrow> Some v)"

definition share :: "env \<Rightarrow> (telemetry \<Rightarrow> int) \<Rightarrow> string \<Rightarrow> telemetry \<Rightarrow> int" where
  "share e w k v = (if app_key e v = Some k then w v else 0)"

definition row_share :: "env \<Rightarrow> (telemetry \<Rightarrow> int) \<Rightarrow> string \<Rightarrow> sdk_event \<Rightarrow> int" where
  "row_share e w k r = (case row_event r of None \<Rightarrow> 0 | Some v \<Rightarrow> share e w k v)"

definition counted_total :: "env \<Rightarrow> (telemetry \<Rightarrow> int) \<Rightarrow> string \<Rightarrow> db \<Rightarrow> int" where
  "counted_total e w k s = (\<Sum>r\<leftarrow>sdk_events s. if sk_counted_at r = None then 0 else row_share e w k r)"

definition column_total :: "(application \<Rightarrow> int) \<Rightarrow> string \<Rightarrow> db \<Rightarrow> int" where
  "column_total get k s = (\<Sum>a\<leftarrow>governance_applications s. if ga_entity_id a = k then get a else 0)"

text \<open>The four counters and the contribution of one event to each.\<close>

definition calls_of :: "telemetry \<Rightarrow> int" where "calls_of v = (if tm_type v = ''model.call'' then 1 else 0)"

definition input_tokens_of :: "telemetry \<Rightarrow> int" where "input_tokens_of v = as_int (dget (event_usage v) ''input_tokens'' JNull)"

definition output_tokens_of :: "telemetry \<Rightarrow> int" where "output_tokens_of v = as_int (dget (event_usage v) ''output_tokens'' JNull)"

definition named :: "telemetry \<Rightarrow> bool" where
  "named v \<longleftrightarrow> truthy (dget (event_metadata v) ''application_name'' JNull)"

definition first_step :: "env \<Rightarrow> (rat \<Rightarrow> string) \<Rightarrow> telemetry \<Rightarrow> db \<Rightarrow> db res" where
  "first_step e rt v = if_so (tm_type v \<in> set RUNTIME_EVENT_TYPES \<and> (tm_type v = ''model.call'' \<or> named v)) (upsert_application e rt (tm_type v = ''model.call'') v)"

lemma quietly_if_so: "(\<And>s. quietly s (f s)) \<Longrightarrow> quietly s (if_so b f s)"
  by (simp add: if_so_def quietly_Inr)

lemma quietly_steps: "(\<And>f t. f \<in> set fs \<Longrightarrow> quietly t (f t)) \<Longrightarrow> quietly t (efold (\<lambda>step. step) fs t)"
  by (induction fs arbitrary: t) (auto intro: quietly_bind quietly_Inr)

text \<open>Of the steps of one event only the first writes an application.\<close>

lemma later_steps_quiet: "f \<in> set (tl (event_steps e rt v)) \<Longrightarrow> quietly t (f t)"
proof -
  have observed: "quietly s (case observed_control ty of None \<Rightarrow> Inr s | Some c \<Rightarrow> ebind (upsert_observed_event e rt v s) (upsert_control e rt v c ty))" for ty s
    by (intro quietly_option quietly_bind upsert_observed_event_quiet upsert_control_quiet quietly_Inr quiet_refl)
  show "f \<in> set (tl (event_steps e rt v)) \<Longrightarrow> quietly t (f t)"
    unfolding event_steps_def Let_def
    by (auto intro!: quietly_if_so upsert_workflow_quiet upsert_model_quiet upsert_provider_quiet upsert_model_risks_quiet upsert_control_quiet
      upsert_guardrail_risk_quiet upsert_eval_risk_quiet observed)
qed

lemma process_event_split:
  assumes "process_event e rt v s = Inr s'"
  shows "\<exists>s1. first_step e rt v s = Inr s1 \<and> quiet s1 s'"
proof -
  have "process_event e rt v s = ebind (first_step e rt v s) (efold (\<lambda>step. step) (tl (event_steps e rt v)))"
    by (simp only: process_event_def event_steps_def first_step_def named_def Let_def efold.simps list.sel)
  with assms have "ebind (first_step e rt v s) (efold (\<lambda>step. step) (tl (event_steps e rt v))) = Inr s'" by simp
  then obtain s1 where s1: "first_step e rt v s = Inr s1" "efold (\<lambda>step. step) (tl (event_steps e rt v)) s1 = Inr s'"
    unfolding ebind_eq_Inr by blast
  have "quietly s1 (efold (\<lambda>step. step) (tl (event_steps e rt v)) s1)" by (rule quietly_steps) (rule later_steps_quiet)
  then have "quiet s1 s'" using s1(2) by (simp add: quietly_def)
  then show ?thesis using s1(1) by blast
qed

definition new_application :: "env \<Rightarrow> telemetry \<Rightarrow> bool \<Rightarrow> string option \<Rightarrow> string \<Rightarrow> int \<Rightarrow> int \<Rightarrow> db \<Rightarrow> application" where
  "new_application e v b tenant app inp outp s =
     (let attrs = event_attributes v; metadata = event_metadata v; usage = event_usage v;
          key = entity_id e [Some ''application'', id_at e metadata ''tenant_id'', Some (tm_project v), Some (tm_environment v), id_at e metadata ''application_name''];
          row = by_key ga_entity_id key (governance_applications s) in
      \<lparr>ga_entity_id = key, ga_tenant_id = tenant, ga_project = tm_project v, ga_environment = tm_environment v, ga_application_name = app,
       ga_use_cases = merge_set e (row_set ga_use_cases row) (dget metadata ''use_case'' JNull),
       ga_model_purposes = merge_set e (row_set ga_model_purposes row) (dget metadata ''model_purpose'' JNull),
       ga_providers = merge_set e (row_set ga_providers row) (dget attrs ''provider'' JNull),
       ga_models = merge_set e (row_set ga_models row) (dget attrs ''model'' JNull),
       ga_model_calls = (if b then 1 else 0), ga_errors = error_count v, ga_input_tokens = inp, ga_output_tokens = outp,
       ga_first_seen = tm_timestamp v, ga_last_seen = tm_timestamp v\<rparr>)"

lemma upsert_application_unfold:
  "upsert_application e rt b v s =
     (if \<not> named v then Inr s
      else ebind (sql_text rt (dget (event_metadata v) ''tenant_id'' JNull)) (\<lambda>tenant. ebind (sql_required rt (dget (event_metadata v) ''application_name'' JNull)) (\<lambda>app.
        ebind (sql_int (input_tokens_of v)) (\<lambda>inp. ebind (sql_int (output_tokens_of v)) (\<lambda>outp.
        Inr (s\<lparr>governance_applications := upsert ga_entity_id (merge_application (new_application e v b tenant app inp outp s))
          (new_application e v b tenant app inp outp s) (governance_applications s)\<rparr>))))))"
  unfolding upsert_application_def new_application_def named_def input_tokens_of_def output_tokens_of_def Let_def by (rule refl)

lemma upsert_application_new:
  assumes "upsert_application e rt b v s = Inr s'" "named v"
  shows "\<exists>n. s' = s\<lparr>governance_applications := upsert ga_entity_id (merge_application n) n (governance_applications s)\<rparr> \<and>
    ga_entity_id n = entity_id e [Some ''application'', id_at e (event_metadata v) ''tenant_id'', Some (tm_project v), Some (tm_environment v),
      id_at e (event_metadata v) ''application_name''] \<and>
    ga_model_calls n = (if b then 1 else 0) \<and> ga_errors n = error_count v \<and> ga_input_tokens n = input_tokens_of v \<and> ga_output_tokens n = output_tokens_of v"
proof -
  have same: "j = i" if "sql_int i = Inr j" for i j using that by (auto simp: sql_int_def split: if_splits)
  obtain tenant app inp outp where io: "sql_int (input_tokens_of v) = Inr inp" "sql_int (output_tokens_of v) = Inr outp" and
    s': "s' = s\<lparr>governance_applications := upsert ga_entity_id (merge_application (new_application e v b tenant app inp outp s))
       (new_application e v b tenant app inp outp s) (governance_applications s)\<rparr>"
    using assms by (auto simp: upsert_application_unfold ebind_eq_Inr)
  show ?thesis using same [OF io(1)] same [OF io(2)] s'
    by (intro exI [of _ "new_application e v b tenant app inp outp s"]) (simp add: new_application_def Let_def)
qed

section \<open>The ledger of raw rows\<close>

definition ledger :: "db \<Rightarrow> (int \<times> json) list \<times> int" where
  "ledger s = (map (\<lambda>r. (sk_id r, sk_raw_event r)) (sdk_events s), events_seq s)"

text \<open>Claimed rows: each names a stored row and carries its event.\<close>

definition pending_ok :: "(int \<times> telemetry) list \<Rightarrow> db \<Rightarrow> bool" where
  "pending_ok pending s \<longleftrightarrow> distinct (map fst pending) \<and> (\<forall>(i, v)\<in>set pending. \<exists>r\<in>set (sdk_events s). sk_id r = i \<and> row_event r = Some v)"

lemma pending_ok_ledger:
  assumes "ledger s' = ledger s"
  shows "pending_ok pending s' = pending_ok pending s"
proof -
  have one: "\<exists>r\<in>set (sdk_events b). sk_id r = i \<and> row_event r = Some v"
    if "ledger b = ledger a" "r \<in> set (sdk_events a)" "sk_id r = i" "row_event r = Some v" for a b r i v
  proof -
    have "(sk_id r, sk_raw_event r) \<in> set (map (\<lambda>r. (sk_id r, sk_raw_event r)) (sdk_events b))"
      using that(1,2) by (auto simp: ledger_def)
    then show ?thesis using that(3,4) by (auto simp: row_event_def)
  qed
  show ?thesis unfolding pending_ok_def using one [OF assms] one [OF assms [symmetric]] by blast
qed

lemma pk_ledger: "ledger s' = ledger s \<Longrightarrow> pk sk_id (sdk_events s') = pk sk_id (sdk_events s)"
proof -
  have ids: "map sk_id (sdk_events t) = map fst (fst (ledger t))" for t by (simp add: ledger_def comp_def)
  show "ledger s' = ledger s \<Longrightarrow> pk sk_id (sdk_events s') = pk sk_id (sdk_events s)" by (simp add: pk_def ids)
qed

text \<open>The identifiers come from the sequence.\<close>

definition seq_bound :: "db \<Rightarrow> bool" where
  "seq_bound s \<longleftrightarrow> (\<forall>r\<in>set (sdk_events s). sk_id r \<le> events_seq s)"

lemma seq_ledger: "ledger s' = ledger s \<Longrightarrow> seq_bound s' = seq_bound s"
proof -
  have "seq_bound t \<longleftrightarrow> (\<forall>p\<in>set (fst (ledger t)). fst p \<le> snd (ledger t))" for t by (simp add: ledger_def seq_bound_def)
  then show "ledger s' = ledger s \<Longrightarrow> seq_bound s' = seq_bound s" by simp
qed

lemma stamp_ledger [simp]: "ledger (stamp_counted e ids s) = ledger s"
  by (auto simp: ledger_def stamp_counted_def update_where_def)

lemma mark_ledger [simp]: "ledger (mark_folded e ids s) = ledger s"
  by (auto simp: ledger_def mark_folded_def update_where_def)

lemma attempt_ledger [simp]: "ledger (record_fold_attempt ids t s) = ledger s"
  by (auto simp: ledger_def record_fold_attempt_def update_where_def)

lemma quiet_ledger: "quiet s s' \<Longrightarrow> ledger s' = ledger s" by (simp add: quiet_def ledger_def)

text \<open>Sums over rows with distinct identifiers.\<close>

lemma sum_at:
  fixes f :: "sdk_event \<Rightarrow> int"
  assumes "pk sk_id rows" "r \<in> set rows"
  shows "(\<Sum>x\<leftarrow>rows. if sk_id x = sk_id r then f x else 0) = f r"
  using assms
proof (induction rows)
  case (Cons a rows)
  have none: "(\<Sum>x\<leftarrow>rows. if sk_id x = i then f x else 0) = 0" if "i \<notin> sk_id ` set rows" for i
    using that by (induction rows) auto
  show ?case using Cons none [of "sk_id a"] by (cases "r = a") (auto simp: pk_def)
qed simp

lemma sum_swap:
  fixes f :: "sdk_event \<Rightarrow> int"
  assumes "finite U"
  shows "(\<Sum>i\<in>U. \<Sum>x\<leftarrow>rows. if sk_id x = i then f x else 0) = (\<Sum>x\<leftarrow>rows. if sk_id x \<in> U then f x else 0)"
  by (induction rows) (simp_all add: sum.distrib sum.delta' [OF assms])

lemma pending_sum:
  assumes ok: "pending_ok pending s" and pk: "pk sk_id (sdk_events s)" and U: "U \<subseteq> fst ` set pending"
  shows "(\<Sum>(i, v)\<leftarrow>pending. if i \<in> U then share e w k v else 0) = (\<Sum>r\<leftarrow>sdk_events s. if sk_id r \<in> U then row_share e w k r else 0)"
proof -
  let ?g = "\<lambda>i. \<Sum>r\<leftarrow>sdk_events s. if sk_id r = i then row_share e w k r else 0"
  have fin: "finite U" using U by (rule finite_subset) simp
  have at: "share e w k v = ?g i" if p: "(i, v) \<in> set pending" for i v
  proof -
    obtain r where "r \<in> set (sdk_events s)" "sk_id r = i" "row_event r = Some v" using ok p unfolding pending_ok_def by fast
    then show ?thesis using sum_at [OF pk, of r "row_share e w k"] by (simp add: row_share_def)
  qed
  have "(\<Sum>(i, v)\<leftarrow>pending. if i \<in> U then share e w k v else 0) = (\<Sum>i\<leftarrow>map fst pending. if i \<in> U then ?g i else 0)"
    using at by (auto simp: comp_def split_beta intro!: arg_cong [where f = sum_list] map_cong)
  also have "\<dots> = (\<Sum>i\<in>fst ` set pending. if i \<in> U then ?g i else 0)"
    using sum_list_distinct_conv_sum_set [of "map fst pending" "\<lambda>i. if i \<in> U then ?g i else 0"] ok
    by (simp add: pending_ok_def del: map_map)
  also have "\<dots> = (\<Sum>i\<in>U. ?g i)" using U by (simp add: sum.inter_restrict [symmetric] Int_absorb1)
  also have "\<dots> = (\<Sum>r\<leftarrow>sdk_events s. if sk_id r \<in> U then row_share e w k r else 0)" by (rule sum_swap [OF fin])
  finally show ?thesis .
qed

lemma counted_stamp:
  assumes pk: "pk sk_id (sdk_events s)"
  shows "counted_total e w k (stamp_counted e' (uncounted_ids ids s) s) =
    counted_total e w k s + (\<Sum>r\<leftarrow>sdk_events s. if sk_id r \<in> set (uncounted_ids ids s) then row_share e w k r else 0)"
proof -
  let ?U = "set (uncounted_ids ids s)"
  have un: "sk_counted_at r = None" if "r \<in> set (sdk_events s)" "sk_id r \<in> ?U" for r
    using that pk unfolding uncounted_ids_def pk_def by (auto dest: distinct_map [THEN iffD1, THEN conjunct2, THEN inj_onD])
  have share: "row_share e w k (r\<lparr>sk_counted_at := x\<rparr>) = row_share e w k r" for r x by (simp add: row_share_def row_event_def)
  have "counted_total e w k (stamp_counted e' (uncounted_ids ids s) s) =
      (\<Sum>r\<leftarrow>sdk_events s. (if sk_counted_at r = None then 0 else row_share e w k r) + (if sk_id r \<in> ?U then row_share e w k r else 0))"
    unfolding counted_total_def stamp_counted_def using un
    by (auto simp: update_where_def share comp_def intro!: arg_cong [where f = sum_list] map_cong)
  then show ?thesis by (simp add: counted_total_def sum_list_addf)
qed

lemma counted_total_cong:
  assumes "map (\<lambda>r. (sk_counted_at r, sk_raw_event r)) (sdk_events s') = map (\<lambda>r. (sk_counted_at r, sk_raw_event r)) (sdk_events s)"
  shows "counted_total e w k s' = counted_total e w k s"
proof -
  have total: "counted_total e w k t = sum_list (map (\<lambda>(c, j). if c = None then 0
      else case deserialize_raw_event j of Inl _ \<Rightarrow> 0 | Inr v \<Rightarrow> share e w k v) (map (\<lambda>r. (sk_counted_at r, sk_raw_event r)) (sdk_events t)))" for t
    unfolding counted_total_def row_share_def row_event_def
    by (auto simp: comp_def intro!: arg_cong [where f = sum_list] map_cong split: sum.split)
  show ?thesis unfolding total assms ..
qed

text \<open>A row that is folded is counted.\<close>

definition folded_counted :: "db \<Rightarrow> bool" where
  "folded_counted s \<longleftrightarrow> (\<forall>r\<in>set (sdk_events s). sk_folded_at r \<noteq> None \<longrightarrow> sk_counted_at r \<noteq> None)"

definition all_counted :: "int list \<Rightarrow> db \<Rightarrow> bool" where
  "all_counted ids s \<longleftrightarrow> (\<forall>r\<in>set (sdk_events s). sk_id r \<in> set ids \<longrightarrow> sk_counted_at r \<noteq> None)"

lemma stamp_folded: "folded_counted s \<Longrightarrow> folded_counted (stamp_counted e ids s)"
  unfolding folded_counted_def stamp_counted_def by (auto simp: update_where_def)

lemma stamp_all: "all_counted ids (stamp_counted e (uncounted_ids ids s) s)"
  unfolding all_counted_def stamp_counted_def uncounted_ids_def by (auto simp: update_where_def)

lemma mark_folded_counted: "folded_counted s \<Longrightarrow> all_counted ids s \<Longrightarrow> folded_counted (mark_folded e ids s)"
  unfolding folded_counted_def all_counted_def mark_folded_def by (auto simp: update_where_def)

lemma attempt_folded: "folded_counted s \<Longrightarrow> folded_counted (record_fold_attempt ids t s)"
  unfolding folded_counted_def record_fold_attempt_def by (auto simp: update_where_def)

section \<open>One counter\<close>

text \<open>A column of the applications that adds what a new row brings.\<close>

locale application_counter =
  fixes get :: "application \<Rightarrow> int" and w :: "telemetry \<Rightarrow> int"
  assumes get_merge: "get (merge_application n r) = get r + get n"
    and get_new: "upsert_application e rt (tm_type v = ''model.call'') v s = Inr s' \<Longrightarrow> named v \<Longrightarrow>
      \<exists>n. get n = w v \<and> ga_entity_id n = entity_id e [Some ''application'', id_at e (event_metadata v) ''tenant_id'', Some (tm_project v),
        Some (tm_environment v), id_at e (event_metadata v) ''application_name''] \<and>
        s' = s\<lparr>governance_applications := upsert ga_entity_id (merge_application n) n (governance_applications s)\<rparr>"
begin

lemma column_upsert:
  assumes "pk ga_entity_id t"
  shows "(\<Sum>a\<leftarrow>upsert ga_entity_id (merge_application n) n t. if ga_entity_id a = k then get a else 0) =
    (\<Sum>a\<leftarrow>t. if ga_entity_id a = k then get a else 0) + (if ga_entity_id n = k then get n else 0)"
  using assms
proof (induction t)
  case Nil
  then show ?case by (simp add: upsert_def)
next
  case (Cons a t)
  let ?f = "merge_application n"
  have key: "ga_entity_id (?f a) = ga_entity_id a" by (simp add: merge_application_def)
  have pk: "pk ga_entity_id t" "ga_entity_id a \<notin> ga_entity_id ` set t" using Cons.prems by (auto simp: pk_def)
  show ?case
  proof (cases "ga_entity_id a = ga_entity_id n")
    case True
    then have "update_where (\<lambda>x. ga_entity_id x = ga_entity_id n) ?f t = t"
      using pk(2) unfolding update_where_def by (intro map_idI) (metis image_eqI)
    then show ?thesis using True by (simp add: upsert_def update_where_def key get_merge)
  next
    case False
    then show ?thesis using Cons.IH [OF pk(1)] by (auto simp: upsert_def update_where_def split: if_splits)
  qed
qed

lemma first_step_column:
  assumes pk: "pk ga_entity_id (governance_applications s)" and first: "first_step e rt v s = Inr s1"
  shows "column_total get k s1 = column_total get k s + share e w k v \<and> pk ga_entity_id (governance_applications s1) \<and>
    sdk_events s1 = sdk_events s \<and> events_seq s1 = events_seq s"
proof (cases "tm_type v \<in> set RUNTIME_EVENT_TYPES \<and> named v")
  case True
  then have up: "upsert_application e rt (tm_type v = ''model.call'') v s = Inr s1" using first by (simp add: first_step_def if_so_def)
  obtain n where n: "get n = w v" "s1 = s\<lparr>governance_applications := upsert ga_entity_id (merge_application n) n (governance_applications s)\<rparr>"
    "app_key e v = Some (ga_entity_id n)" using get_new [OF up] True unfolding app_key_def named_def by auto
  have "pk ga_entity_id (upsert ga_entity_id (merge_application n) n (governance_applications s))"
    using pk by (rule pk_upsert) (simp add: merge_application_def)
  then show ?thesis using n column_upsert [OF pk, where n = n and k = k] by (simp add: column_total_def share_def)
next
  case False
  then have "s1 = s"
    using first by (auto simp: first_step_def if_so_def upsert_application_unfold split: if_splits)
  moreover have "app_key e v = None" using False unfolding app_key_def named_def by simp
  ultimately show ?thesis using pk by (simp add: share_def)
qed

lemma process_event_column:
  assumes "pk ga_entity_id (governance_applications s)" "process_event e rt v s = Inr s'"
  shows "column_total get k s' = column_total get k s + share e w k v" "pk ga_entity_id (governance_applications s')"
    "sdk_events s' = sdk_events s" "events_seq s' = events_seq s"
proof -
  obtain s1 where s1: "first_step e rt v s = Inr s1" "quiet s1 s'" using process_event_split [OF assms(2)] by blast
  show "column_total get k s' = column_total get k s + share e w k v" "pk ga_entity_id (governance_applications s')"
    "sdk_events s' = sdk_events s" "events_seq s' = events_seq s"
    using first_step_column [OF assms(1) s1(1), of k] s1(2) by (simp_all add: quiet_def column_total_def)
qed

lemma pending_column:
  assumes "efold (\<lambda>(i, v). if_so (i \<in> U) (process_event e rt v)) pending s = Inr s'" "pk ga_entity_id (governance_applications s)"
  shows "column_total get k s' = column_total get k s + (\<Sum>(i, v)\<leftarrow>pending. if i \<in> U then share e w k v else 0)"
    "pk ga_entity_id (governance_applications s')" "sdk_events s' = sdk_events s" "events_seq s' = events_seq s"
proof -
  have "column_total get k s' = column_total get k s + (\<Sum>(i, v)\<leftarrow>pending. if i \<in> U then share e w k v else 0) \<and>
      pk ga_entity_id (governance_applications s') \<and> sdk_events s' = sdk_events s \<and> events_seq s' = events_seq s"
    using assms
  proof (induction pending arbitrary: s)
    case (Cons p pending)
    obtain i v where p: "p = (i, v)" by (cases p)
    obtain s1 where s1: "if_so (i \<in> U) (process_event e rt v) s = Inr s1"
      "efold (\<lambda>(i, v). if_so (i \<in> U) (process_event e rt v)) pending s1 = Inr s'" using Cons.prems(1) by (auto simp: p ebind_eq_Inr)
    have one: "column_total get k s1 = column_total get k s + (if i \<in> U then share e w k v else 0) \<and>
        pk ga_entity_id (governance_applications s1) \<and> sdk_events s1 = sdk_events s \<and> events_seq s1 = events_seq s"
    proof (cases "i \<in> U")
      case True
      then have "process_event e rt v s = Inr s1" using s1(1) by (simp add: if_so_def)
      then show ?thesis using True process_event_column [OF Cons.prems(2)] by simp
    next
      case False
      then show ?thesis using s1(1) Cons.prems(2) by (simp add: if_so_def)
    qed
    show ?case using Cons.IH [OF s1(2)] one by (simp add: p)
  qed simp
  then show "column_total get k s' = column_total get k s + (\<Sum>(i, v)\<leftarrow>pending. if i \<in> U then share e w k v else 0)"
    "pk ga_entity_id (governance_applications s')" "sdk_events s' = sdk_events s" "events_seq s' = events_seq s" by blast+
qed

text \<open>The column agrees with the counted rows.\<close>

definition tally :: "env \<Rightarrow> db \<Rightarrow> bool" where
  "tally e s \<longleftrightarrow> pk ga_entity_id (governance_applications s) \<and> pk sk_id (sdk_events s) \<and> seq_bound s \<and> folded_counted s \<and>
     (\<forall>k. column_total get k s = counted_total e w k s)"

lemma tally_quiet: "tally e s \<Longrightarrow> quiet s s' \<Longrightarrow> tally e s'"
  by (simp add: tally_def quiet_def column_total_def counted_total_def folded_counted_def seq_bound_def)

lemma process_events_tally:
  assumes inv: "tally e s" and ok: "pending_ok pending s" and r: "process_events e rt pending s = Inr s'"
  shows "tally e s'" "ledger s' = ledger s" "all_counted (map fst pending) s'"
proof -
  have "tally e s' \<and> ledger s' = ledger s \<and> all_counted (map fst pending) s'"
  proof (cases "pending = []")
    case True
    then show ?thesis using r inv by (simp add: process_events_def all_counted_def)
  next
    case False
    let ?U = "uncounted_ids (map fst pending) s"
    obtain s1 where s1: "efold (\<lambda>(i, v). if_so (i \<in> set ?U) (process_event e rt v)) pending s = Inr s1" "s' = stamp_counted e ?U s1"
      using r False by (auto simp: process_events_def ebind_eq_Inr Let_def)
    have pks: "pk ga_entity_id (governance_applications s)" "pk sk_id (sdk_events s)" using inv by (simp_all add: tally_def)
    note col = pending_column [OF s1(1) pks(1)]
    have U: "set ?U \<subseteq> fst ` set pending" by (auto simp: uncounted_ids_def)
    have same: "uncounted_ids (map fst pending) s1 = ?U" by (simp add: uncounted_ids_def col(3))
    have "counted_total e w k s' = counted_total e w k s + (\<Sum>(i, v)\<leftarrow>pending. if i \<in> set ?U then share e w k v else 0)" for k
      using counted_stamp [of s1 e w k e "map fst pending"] pending_sum [OF ok pks(2) U, of e w k] pks(2)
      by (simp add: s1(2) same col(3) counted_total_def)
    moreover have "column_total get k s' = column_total get k s1" for k by (simp add: s1(2) stamp_counted_def column_total_def)
    moreover have "pk sk_id (sdk_events s')" using pks(2) pk_ledger [of s' s1] by (simp add: s1(2) col(3))
    moreover have "ledger s' = ledger s" by (simp add: s1(2)) (simp add: ledger_def col(3,4))
    moreover have "folded_counted s'" using inv stamp_folded [of s1 e ?U] by (simp add: tally_def s1(2) folded_counted_def col(3))
    moreover have "all_counted (map fst pending) s'" using stamp_all [of "map fst pending" e s1] by (simp add: s1(2) same)
    moreover from calculation have "seq_bound s'" using inv seq_ledger [of s' s] by (simp add: tally_def)
    ultimately show ?thesis using inv col(1,2) by (simp add: tally_def s1(2) stamp_counted_def)
  qed
  then show "tally e s'" "ledger s' = ledger s" "all_counted (map fst pending) s'" by simp_all
qed

lemma fold_rows_tally:
  assumes inv: "tally e s" and ok: "pending_ok pending s"
  shows "tally e (fst (fold_rows e rt tenant pending s))" "ledger (fst (fold_rows e rt tenant pending s)) = ledger s"
    "snd (fold_rows e rt tenant pending s) = None \<Longrightarrow> all_counted (map fst pending) (fst (fold_rows e rt tenant pending s))"
proof -
  have "tally e (fst (fold_rows e rt tenant pending s)) \<and> ledger (fst (fold_rows e rt tenant pending s)) = ledger s \<and>
      (snd (fold_rows e rt tenant pending s) = None \<longrightarrow> all_counted (map fst pending) (fst (fold_rows e rt tenant pending s)))"
  proof (cases rule: fold_rows_cases [of e rt pending s tenant])
    case (uncounted x)
    then show ?thesis using inv by simp
  next
    case (counted s1)
    note p = process_events_tally [OF inv ok counted(1)]
    have "all_counted (map fst pending) (fst (fold_rows e rt tenant pending s))" using p(3) counted(2) by (simp add: all_counted_def quiet_def)
    then show ?thesis using p(2) tally_quiet [OF p(1) counted(2)] quiet_ledger [OF counted(2)] by simp
  qed
  then show "tally e (fst (fold_rows e rt tenant pending s))" "ledger (fst (fold_rows e rt tenant pending s)) = ledger s"
    "snd (fold_rows e rt tenant pending s) = None \<Longrightarrow> all_counted (map fst pending) (fst (fold_rows e rt tenant pending s))" by simp_all
qed

lemma mark_tally:
  assumes "tally e s" "all_counted ids s"
  shows "tally e (mark_folded e' ids s)"
proof -
  have "counted_total e w k (mark_folded e' ids s) = counted_total e w k s" for k
    by (rule counted_total_cong) (auto simp: mark_folded_def update_where_def)
  then show ?thesis using assms pk_ledger [OF mark_ledger [of e' ids s]] seq_ledger [OF mark_ledger [of e' ids s]] mark_folded_counted [of s ids e']
    by (simp add: tally_def column_total_def) (simp add: mark_folded_def)
qed

lemma attempt_tally:
  assumes "tally e s"
  shows "tally e (record_fold_attempt ids t s)"
proof -
  have "counted_total e w k (record_fold_attempt ids t s) = counted_total e w k s" for k
    by (rule counted_total_cong) (auto simp: record_fold_attempt_def update_where_def)
  then show ?thesis using assms pk_ledger [OF attempt_ledger [of ids t s]] seq_ledger [OF attempt_ledger [of ids t s]] attempt_folded [of s ids t]
    by (simp add: tally_def column_total_def) (simp add: record_fold_attempt_def)
qed

lemma fold_claimed_tally:
  assumes "tally e s" "pending_ok pending s"
  shows "tally e (fst (fold_claimed e rt rp tenant pending s))" "ledger (fst (fold_claimed e rt rp tenant pending s)) = ledger s"
proof -
  obtain s1 x where s1: "fold_rows e rt tenant pending s = (s1, x)" by (cases "fold_rows e rt tenant pending s")
  show "tally e (fst (fold_claimed e rt rp tenant pending s))" "ledger (fst (fold_claimed e rt rp tenant pending s)) = ledger s"
    using fold_rows_tally [OF assms, of rt tenant] by (cases x; simp add: fold_claimed_def s1 mark_tally attempt_tally)+
qed

lemma sweep_rows_tally:
  assumes "tally e s" "pending_ok pending s"
  shows "tally e (fst (fold (sweep_row e rt rp tenant) pending (s, a, b)))" "ledger (fst (fold (sweep_row e rt rp tenant) pending (s, a, b))) = ledger s"
proof -
  have "tally e (fst (fold (sweep_row e rt rp tenant) pending (s, a, b))) \<and> ledger (fst (fold (sweep_row e rt rp tenant) pending (s, a, b))) = ledger s"
    using assms
  proof (induction pending arbitrary: s a b)
    case (Cons row pending)
    have ok: "pending_ok [row] s" "pending_ok pending s" using Cons.prems(2) by (auto simp: pending_ok_def)
    obtain s1 a1 b1 where s1: "sweep_row e rt rp tenant row (s, a, b) = (s1, a1, b1)" by (cases "sweep_row e rt rp tenant row (s, a, b)") blast
    then have "s1 = fst (fold_claimed e rt rp tenant [row] s)" by (auto simp: sweep_row_def split: prod.splits option.splits)
    then have "tally e s1" "ledger s1 = ledger s" using fold_claimed_tally [OF Cons.prems(1) ok(1)] by simp_all
    then show ?case using Cons.IH [of s1 a1 b1] ok(2) s1 pending_ok_ledger [of s1 s] by simp
  qed simp
  then show "tally e (fst (fold (sweep_row e rt rp tenant) pending (s, a, b)))"
    "ledger (fst (fold (sweep_row e rt rp tenant) pending (s, a, b))) = ledger s" by simp_all
qed

end

section \<open>Claims\<close>

lemma emap_Inr: "emap f xs = Inr ys \<Longrightarrow> length ys = length xs \<and> (\<forall>i<length xs. f (xs ! i) = Inr (ys ! i))"
  by (induction xs arbitrary: ys) (auto simp: ebind_eq_Inr nth_Cons split: nat.split)

lemma claim_rows:
  assumes "claim_unfolded tenant limit budget s = Inr pending"
  obtains rs where "rs = take limit (sort_key sk_id (filter (\<lambda>r. sk_folded_at r = None \<and> sk_tenant_id r = Some tenant \<and>
      (case budget of None \<Rightarrow> True | Some m \<Rightarrow> sk_fold_attempts r < m)) (sdk_events s)))"
    "map fst pending = map sk_id rs" "\<forall>(i, v)\<in>set pending. \<exists>r\<in>set rs. sk_id r = i \<and> row_event r = Some v"
proof -
  define rs where "rs = take limit (sort_key sk_id (filter (\<lambda>r. sk_folded_at r = None \<and> sk_tenant_id r = Some tenant \<and>
      (case budget of None \<Rightarrow> True | Some m \<Rightarrow> sk_fold_attempts r < m)) (sdk_events s)))"
  let ?f = "\<lambda>r. ebind (deserialize_raw_event (sk_raw_event r)) (\<lambda>v. Inr (sk_id r, v))"
  have "length pending = length rs \<and> (\<forall>i<length rs. ?f (rs ! i) = Inr (pending ! i))"
    using assms unfolding claim_unfolded_def rs_def [symmetric] by (rule emap_Inr)
  then have len: "length pending = length rs" and each: "\<And>i. i < length rs \<Longrightarrow> ?f (rs ! i) = Inr (pending ! i)" by simp_all
  have at: "fst (pending ! i) = sk_id (rs ! i) \<and> row_event (rs ! i) = Some (snd (pending ! i))" if "i < length rs" for i
    using each [OF that] unfolding ebind_eq_Inr sum.inject by (metis (no_types, lifting) fst_conv row_event_def snd_conv sum.case(2))
  have "map fst pending = map sk_id rs" by (rule nth_equalityI) (simp_all add: len at)
  moreover have "\<forall>(i, v)\<in>set pending. \<exists>r\<in>set rs. sk_id r = i \<and> row_event r = Some v"
  proof (clarify)
    fix i v
    assume "(i, v) \<in> set pending"
    then obtain j where "j < length rs" "pending ! j = (i, v)" unfolding in_set_conv_nth len by blast
    then show "\<exists>r\<in>set rs. sk_id r = i \<and> row_event r = Some v" using at [of j] by (intro bexI [of _ "rs ! j"]) simp_all
  qed
  ultimately show thesis by (rule that [OF rs_def])
qed

lemma claim_pending_ok:
  assumes "claim_unfolded tenant limit budget s = Inr pending" "pk sk_id (sdk_events s)"
  shows "pending_ok pending s"
proof -
  obtain rs where rs: "rs = take limit (sort_key sk_id (filter (\<lambda>r. sk_folded_at r = None \<and> sk_tenant_id r = Some tenant \<and>
      (case budget of None \<Rightarrow> True | Some m \<Rightarrow> sk_fold_attempts r < m)) (sdk_events s)))"
    "map fst pending = map sk_id rs" "\<forall>(i, v)\<in>set pending. \<exists>r\<in>set rs. sk_id r = i \<and> row_event r = Some v"
    using claim_rows [OF assms(1)] .
  have sub: "set rs \<subseteq> set (sdk_events s)" by (auto simp: rs(1) dest: in_set_takeD)
  have "distinct (map sk_id (filter p (sdk_events s)))" for p using assms(2) by (simp add: pk_def distinct_map_filter)
  then have "distinct (map sk_id rs)" unfolding rs(1) take_map [symmetric] by (simp add: distinct_map)
  then show ?thesis using rs(2,3) sub unfolding pending_ok_def by fastforce
qed

section \<open>Folds, sweeps and batches\<close>

lemma verify_event_quiet: "quiet s (fst (verify_event e g tenant v s))"
proof -
  have touch: "quiet s (touch_attestation_key e k s)" for k s by (simp add: touch_attestation_key_def quiet_def)
  show ?thesis unfolding verify_event_def Let_def by (auto intro: touch split: json.split sum.split option.split)
qed

lemma verify_all_quiet: "quiet s (fst (verify_eval_attestations e g tenant vs s))"
proof (induction vs arbitrary: s)
  case (Cons v vs)
  obtain s1 q1 w1 where v: "verify_event e g tenant v s = (s1, q1, w1)" by (cases "verify_event e g tenant v s") blast
  then have s1: "quiet s s1" using verify_event_quiet [of s e g tenant v] by simp
  then have "quiet s (fst (verify_eval_attestations e g tenant vs s1))" using Cons.IH quiet_trans by blast
  then show ?case using v s1 by (auto split: sum.split prod.split)
qed simp

lemma admit_quiet: "quiet s (fst (admit_events e g vs tenant s))"
  using verify_all_quiet by (auto simp: admit_events_def split: sum.split)

context application_counter
begin

lemma fold_pending_tally:
  assumes "tally e s"
  shows "tally e (fst (fold_pending e rt rp tenant q limit s))"
proof (cases "claim_unfolded tenant (nat (case limit of None \<Rightarrow> claim_limit e | Some n \<Rightarrow> n)) (if q then None else Some (fold_max_attempts e)) s")
  case (Inl x)
  then show ?thesis using assms by (simp add: fold_pending_def)
next
  case (Inr pending)
  have "pending_ok pending s" using claim_pending_ok [OF Inr] assms by (simp add: tally_def)
  then have "tally e (fst (fold_claimed e rt rp tenant pending s))" by (rule fold_claimed_tally [OF assms])
  then show ?thesis using assms Inr by (auto simp: fold_pending_def split: list.split prod.split option.split)
qed

lemma sweep_tenant_tally:
  assumes "tally e s" "sweep_tenant e rt rp tenant s = Inr (s', a, b)"
  shows "tally e s'"
proof -
  obtain pending where p: "claim_unfolded tenant (nat (claim_limit e)) None s = Inr pending" using assms(2) by (auto simp: sweep_tenant_def ebind_eq_Inr)
  have ok: "pending_ok pending s" using claim_pending_ok [OF p] assms(1) by (simp add: tally_def)
  obtain s1 x where s1: "fold_rows e rt tenant pending s = (s1, x)" by (cases "fold_rows e rt tenant pending s")
  have t1: "tally e s1" "pending_ok pending s1" using fold_rows_tally [OF assms(1) ok, of rt tenant] s1 ok pending_ok_ledger [of s1 s] by simp_all
  consider "s' = s" | "x = None" "s' = mark_folded e (map fst pending) s1" | "s' = fst (fold (sweep_row e rt rp tenant) pending (s1, 0, 0))"
    using assms(2) p s1 by (cases x) (auto simp: sweep_tenant_def split: if_splits)
  then show ?thesis using assms(1) t1(1) sweep_rows_tally [OF t1] fold_rows_tally(3) [OF assms(1) ok, of rt tenant] s1 by cases (auto intro: mark_tally)
qed

lemma sweep_pass_tally:
  assumes "tally e s"
  shows "tally e (fst (sweep_pass e rt rp s))"
proof -
  have one: "tally e (fst (sweep_one e rt rp tenant p))" if "tally e (fst p)" for tenant p
    using that sweep_tenant_tally by (cases p) (auto simp: sweep_one_def split: sum.split prod.split)
  have "tally e (fst (fold (sweep_one e rt rp) ts p))" if "tally e (fst p)" for ts p
    using that one by (induction ts arbitrary: p) simp_all
  then show ?thesis using assms by (simp add: sweep_pass_def)
qed

lemma insert_row_tally:
  assumes inv: "tally e s" and new: "sk_counted_at r = None" "sk_folded_at r = None"
  shows "tally e (fst (insert_event_row e' r (s, ks)))"
proof (cases "span_taken (sk_key r) (sdk_events s)")
  case True
  then show ?thesis using inv by (simp add: insert_event_row_def)
next
  case False
  have fresh: "events_seq s + 1 \<notin> sk_id ` set (sdk_events s)" using inv by (fastforce simp: tally_def seq_bound_def)
  let ?s = "fst (insert_event_row e' r (s, ks))"
  have rows: "sdk_events ?s = sdk_events s @ [r\<lparr>sk_id := events_seq s + 1, sk_ingested_at := Some (db_text (env_now e'))\<rparr>]"
    "events_seq ?s = events_seq s + 1" "governance_applications ?s = governance_applications s" using False by (simp_all add: insert_event_row_def)
  have "pk sk_id (sdk_events ?s)" using inv fresh by (simp add: tally_def pk_def rows)
  moreover have "seq_bound ?s" using inv by (auto simp: tally_def seq_bound_def rows)
  moreover have "folded_counted ?s" using inv new by (auto simp: tally_def folded_counted_def rows)
  moreover have "counted_total e w k ?s = counted_total e w k s" for k using new by (simp add: counted_total_def rows)
  ultimately show ?thesis using inv by (simp add: tally_def column_total_def rows(3))
qed

lemma insert_events_tally:
  assumes inv: "tally e s" and r: "insert_events e' rt vs s = Inr (s', ins)"
  shows "tally e s'"
proof -
  obtain rows where rows: "emap (event_to_row rt) vs = Inr rows" "s' = fst (fold (insert_event_row e') rows (s, []))"
    using r by (auto simp: insert_events_def ebind_eq_Inr split_beta Let_def)
  have one: "sk_counted_at x = None \<and> sk_folded_at x = None" if "event_to_row rt v = Inr x" for v x
    using that by (auto simp: event_to_row_def ebind_eq_Inr Let_def)
  have new: "\<forall>x\<in>set rows. sk_counted_at x = None \<and> sk_folded_at x = None"
    using emap_Inr [OF rows(1)] one by (metis in_set_conv_nth)
  have "tally e (fst (fold (insert_event_row e') xs (t, ks)))" if "tally e t" "\<forall>x\<in>set xs. sk_counted_at x = None \<and> sk_folded_at x = None" for xs t ks
    using that
  proof (induction xs arbitrary: t ks)
    case (Cons x xs)
    obtain t1 ks1 where "insert_event_row e' x (t, ks) = (t1, ks1)" by (cases "insert_event_row e' x (t, ks)")
    then show ?case using Cons insert_row_tally [of e t x e' ks] by simp
  qed simp
  then show ?thesis using inv new rows(2) by simp
qed

lemma ingest_tally:
  assumes inv: "tally e s"
  shows "tally e (fst (ingest e g rt rp vs tenant s))"
proof -
  obtain s1 q ws where a: "admit_events e g vs tenant s = (s1, q, ws)" by (cases "admit_events e g vs tenant s") blast
  have t1: "tally e s1" using tally_quiet [OF inv] admit_quiet [of s e g vs tenant] a by simp
  show ?thesis
  proof (cases ws)
    case (Inl x)
    then show ?thesis using a t1 by (simp add: ingest_def)
  next
    case (Inr xs)
    show ?thesis
    proof (cases "insert_events e rt xs s1")
      case ins: (Inl x)
      then show ?thesis using a t1 Inr by (simp add: ingest_def)
    next
      case ins: (Inr p)
      then have "tally e (fst p)" using insert_events_tally [OF t1] by (cases p) simp
      then have "tally e (fst (fold_pending e rt rp tenant False None (fst p)))" by (rule fold_pending_tally)
      then show ?thesis using a Inr ins by (cases p) (auto simp: ingest_def split: prod.split sum.split)
    qed
  qed
qed

end

interpretation calls: application_counter ga_model_calls calls_of
proof
  show "ga_model_calls (merge_application n r) = ga_model_calls r + ga_model_calls n" for n r by (simp add: merge_application_def)
  fix e rt v s s'
  assume "upsert_application e rt (tm_type v = ''model.call'') v s = Inr s'" "named v"
  from upsert_application_new [OF this] show "\<exists>n. ga_model_calls n = calls_of v \<and> ga_entity_id n = entity_id e [Some ''application'',
      id_at e (event_metadata v) ''tenant_id'', Some (tm_project v), Some (tm_environment v), id_at e (event_metadata v) ''application_name''] \<and>
      s' = s\<lparr>governance_applications := upsert ga_entity_id (merge_application n) n (governance_applications s)\<rparr>" by (auto simp: calls_of_def)
qed

interpretation errs: application_counter ga_errors error_count
proof
  show "ga_errors (merge_application n r) = ga_errors r + ga_errors n" for n r by (simp add: merge_application_def)
  fix e rt v s s'
  assume "upsert_application e rt (tm_type v = ''model.call'') v s = Inr s'" "named v"
  from upsert_application_new [OF this] show "\<exists>n. ga_errors n = error_count v \<and> ga_entity_id n = entity_id e [Some ''application'',
      id_at e (event_metadata v) ''tenant_id'', Some (tm_project v), Some (tm_environment v), id_at e (event_metadata v) ''application_name''] \<and>
      s' = s\<lparr>governance_applications := upsert ga_entity_id (merge_application n) n (governance_applications s)\<rparr>" by auto
qed

interpretation inputs: application_counter ga_input_tokens input_tokens_of
proof
  show "ga_input_tokens (merge_application n r) = ga_input_tokens r + ga_input_tokens n" for n r by (simp add: merge_application_def)
  fix e rt v s s'
  assume "upsert_application e rt (tm_type v = ''model.call'') v s = Inr s'" "named v"
  from upsert_application_new [OF this] show "\<exists>n. ga_input_tokens n = input_tokens_of v \<and> ga_entity_id n = entity_id e [Some ''application'',
      id_at e (event_metadata v) ''tenant_id'', Some (tm_project v), Some (tm_environment v), id_at e (event_metadata v) ''application_name''] \<and>
      s' = s\<lparr>governance_applications := upsert ga_entity_id (merge_application n) n (governance_applications s)\<rparr>" by auto
qed

interpretation outputs: application_counter ga_output_tokens output_tokens_of
proof
  show "ga_output_tokens (merge_application n r) = ga_output_tokens r + ga_output_tokens n" for n r by (simp add: merge_application_def)
  fix e rt v s s'
  assume "upsert_application e rt (tm_type v = ''model.call'') v s = Inr s'" "named v"
  from upsert_application_new [OF this] show "\<exists>n. ga_output_tokens n = output_tokens_of v \<and> ga_entity_id n = entity_id e [Some ''application'',
      id_at e (event_metadata v) ''tenant_id'', Some (tm_project v), Some (tm_environment v), id_at e (event_metadata v) ''application_name''] \<and>
      s' = s\<lparr>governance_applications := upsert ga_entity_id (merge_application n) n (governance_applications s)\<rparr>" by auto
qed

section \<open>Every run\<close>

text \<open>The same installation at another time and with other settings: the identifiers are computed alike.\<close>

definition same_ids :: "env \<Rightarrow> env \<Rightarrow> bool" where
  "same_ids e e' \<longleftrightarrow> env_sha256 e' = env_sha256 e \<and> env_float_repr e' = env_float_repr e"

inductive fold_step :: "env \<Rightarrow> db \<Rightarrow> db \<Rightarrow> bool" for e where
  ingested: "same_ids e e' \<Longrightarrow> fold_step e s (fst (ingest e' g rt rp vs tenant s))"
| folded: "same_ids e e' \<Longrightarrow> fold_step e s (fst (fold_pending e' rt rp tenant q limit s))"
| swept: "same_ids e e' \<Longrightarrow> fold_step e s (fst (sweep_pass e' rt rp s))"

lemma counted_total_same: "same_ids e e' \<Longrightarrow> counted_total e' w k s = counted_total e w k s"
proof -
  assume "same_ids e e'"
  then have "app_key e' v = app_key e v" for v by (simp add: same_ids_def app_key_def id_at_def entity_id_def)
  then have "share e' w k v = share e w k v" for v by (simp add: share_def)
  then have "row_share e' w k r = row_share e w k r" for r by (simp add: row_share_def split: option.split)
  then show "counted_total e' w k s = counted_total e w k s" by (simp add: counted_total_def cong: if_cong)
qed

context application_counter
begin

lemma tally_same: "same_ids e e' \<Longrightarrow> tally e' s = tally e s"
  by (simp add: tally_def counted_total_same)

lemma step_tally: "fold_step e s s' \<Longrightarrow> tally e s \<Longrightarrow> tally e s'"
  by (induction rule: fold_step.induct) (metis tally_same ingest_tally fold_pending_tally sweep_pass_tally)+

lemma run_tally: "(fold_step e)\<^sup>*\<^sup>* s s' \<Longrightarrow> tally e s \<Longrightarrow> tally e s'"
  by (induction rule: rtranclp_induct) (auto intro: step_tally)

lemma empty_tally: "sdk_events s = [] \<Longrightarrow> governance_applications s = [] \<Longrightarrow> tally e s"
  by (simp add: tally_def pk_def seq_bound_def folded_counted_def column_total_def counted_total_def)

lemma column_of_row:
  assumes "tally e s" "a \<in> set (governance_applications s)"
  shows "get a = counted_total e w (ga_entity_id a) s"
proof -
  have at: "(\<Sum>x\<leftarrow>t. if ga_entity_id x = ga_entity_id a then get x else 0) = get a" if "pk ga_entity_id t" "a \<in> set t" for t
    using that
  proof (induction t)
    case (Cons b t)
    have none: "(\<Sum>x\<leftarrow>t. if ga_entity_id x = i then get x else 0) = 0" if "i \<notin> ga_entity_id ` set t" for i
      using that by (induction t) auto
    show ?case using Cons none [of "ga_entity_id b"] by (cases "a = b") (auto simp: pk_def)
  qed simp
  show ?thesis using assms at [of "governance_applications s"] unfolding tally_def column_total_def by metis
qed

end

text \<open>
  C3: Whatever batches are ingested, folds fail and are retried and sweeps run, each at its own time: the four counters of every
  application are the sums, over the raw rows stamped as counted, of what each row contributes once; and a row marked as folded has
  been counted.
\<close>

theorem counters_agree_with_raw_rows:
  assumes "sdk_events s0 = []" "governance_applications s0 = []" "(fold_step e)\<^sup>*\<^sup>* s0 s"
  shows "(\<forall>a\<in>set (governance_applications s).
      ga_model_calls a = counted_total e calls_of (ga_entity_id a) s \<and> ga_errors a = counted_total e error_count (ga_entity_id a) s \<and>
      ga_input_tokens a = counted_total e input_tokens_of (ga_entity_id a) s \<and> ga_output_tokens a = counted_total e output_tokens_of (ga_entity_id a) s) \<and>
    (\<forall>r\<in>set (sdk_events s). sk_folded_at r \<noteq> None \<longrightarrow> sk_counted_at r \<noteq> None)"
proof -
  have "calls.tally e s" "errs.tally e s" "inputs.tally e s" "outputs.tally e s"
    using calls.run_tally [OF assms(3)] errs.run_tally [OF assms(3)] inputs.run_tally [OF assms(3)] outputs.run_tally [OF assms(3)]
      calls.empty_tally errs.empty_tally inputs.empty_tally outputs.empty_tally assms(1,2) by blast+
  then show ?thesis using calls.column_of_row errs.column_of_row inputs.column_of_row outputs.column_of_row
    unfolding calls.tally_def folded_counted_def by blast
qed

definition call_event :: telemetry where
  "call_event = \<lparr>tm_type = ''model.call'', tm_schema_version = ''1'', tm_trace_id = ''t1'', tm_span_id = ''s1'', tm_timestamp = ''2026-01-01T00:00:00+00:00'',
     tm_service = ''svc'', tm_environment = ''prod'', tm_project = ''p'', tm_parent_span_id = None, tm_system = None, tm_name = Some ''answer'',
     tm_status = ''ok'', tm_duration_ms = None,
     tm_attributes = JObj [(''provider'', JStr ''openai''), (''model'', JStr ''gpt''), (''usage'', JObj [(''input_tokens'', JInt 7), (''output_tokens'', JInt 5)]),
       (''metadata'', JObj [(''application_name'', JStr ''bot'')])]\<rparr>"

text \<open>The batch is ingested and then sent again: the second time it stores and counts nothing.\<close>

definition ingested_twice :: db where
  "ingested_twice = fst (ingest (sample_env 1) sample_scheme (\<lambda>_. []) (\<lambda>_. []) [call_event] ''acme''
     (fst (ingest (sample_env 0) sample_scheme (\<lambda>_. []) (\<lambda>_. []) [call_event] ''acme'' empty_db)))"

lemma ingested_twice_counts: "map (\<lambda>a. (ga_model_calls a, ga_input_tokens a)) (governance_applications ingested_twice) = [(1, 7)]"
  by code_simp

theorem counters_agree_with_raw_rows_witness:
  "\<exists>a. governance_applications ingested_twice = [a] \<and> ga_model_calls a = 1 \<and> counted_total (sample_env 0) calls_of (ga_entity_id a) ingested_twice = 1"
proof -
  obtain a where a: "governance_applications ingested_twice = [a]" "ga_model_calls a = 1" using ingested_twice_counts by auto
  have "same_ids (sample_env 0) (sample_env t)" for t by (simp add: same_ids_def sample_env_def)
  then have "(fold_step (sample_env 0))\<^sup>*\<^sup>* empty_db ingested_twice"
    unfolding ingested_twice_def by (meson fold_step.ingested r_into_rtranclp rtranclp.rtrancl_into_rtrancl)
  then show ?thesis using counters_agree_with_raw_rows [of empty_db "sample_env 0" ingested_twice] a by (auto simp: empty_db_def)
qed

end
