(* ===== verification/Vendor_Properties.thy ===== *)
theory Vendor_Properties
  imports Vendors Decisions
begin

text \<open>
  An approved vendor never holds a lapsed evidence reference, whatever sequence of registry edits, reviews, decisions and ageing
  passes led to the state; and the findings the telemetry raises against the registry are exactly the ones the coverage shows.
\<close>

section \<open>Vendors and their references\<close>

definition approved_ids :: "db \<Rightarrow> string set" where
  "approved_ids s = vr_id ` {v \<in> set (vendor_registry s). vr_status v = ''approved''}"

definition lapsed_ids :: "db \<Rightarrow> string set" where
  "lapsed_ids s = ev_vendor_id ` {r \<in> set (vendor_evidence_references s). ev_status r = ''expired''}"

definition vendor_inv :: "db \<Rightarrow> bool" where
  "vendor_inv s \<longleftrightarrow> approved_ids s \<inter> lapsed_ids s = {}"

lemma vendor_inv_iff:
  "vendor_inv s \<longleftrightarrow> (\<forall>v\<in>set (vendor_registry s). vr_status v = ''approved'' \<longrightarrow>
     (\<forall>r\<in>set (vendor_evidence_references s). ev_vendor_id r = vr_id v \<longrightarrow> ev_status r \<noteq> ''expired''))"
  by (auto simp: vendor_inv_def approved_ids_def lapsed_ids_def)

text \<open>A change that approves no vendor and lapses no reference.\<close>

definition no_new :: "db \<Rightarrow> db \<Rightarrow> bool" where
  "no_new s s' \<longleftrightarrow> approved_ids s' \<subseteq> approved_ids s \<and> lapsed_ids s' \<subseteq> lapsed_ids s"

lemma no_new_inv: "vendor_inv s \<Longrightarrow> no_new s s' \<Longrightarrow> vendor_inv s'"
  unfolding vendor_inv_def no_new_def by blast

lemma no_new_same [simp]: "vendor_registry s' = vendor_registry s \<Longrightarrow> vendor_evidence_references s' = vendor_evidence_references s \<Longrightarrow> no_new s s'"
  by (simp add: no_new_def approved_ids_def lapsed_ids_def)

lemma approved_ids_update:
  assumes "\<And>v. vr_id (f v) = vr_id v" "\<And>v. p v \<Longrightarrow> vr_status (f v) = ''approved'' \<Longrightarrow> vr_status v = ''approved''"
  shows "approved_ids (s\<lparr>vendor_registry := update_where p f (vendor_registry s)\<rparr>) \<subseteq> approved_ids s"
proof
  fix i
  assume "i \<in> approved_ids (s\<lparr>vendor_registry := update_where p f (vendor_registry s)\<rparr>)"
  then obtain v where v: "v \<in> set (update_where p f (vendor_registry s))" "vr_status v = ''approved''" "i = vr_id v"
    by (auto simp: approved_ids_def)
  from v(1) show "i \<in> approved_ids s"
  proof (cases rule: update_whereE)
    case (hit w)
    then show ?thesis using v(2,3) assms unfolding approved_ids_def by force
  next
    case miss
    then show ?thesis using v(2,3) unfolding approved_ids_def by blast
  qed
qed

lemma lapsed_ids_same [simp]: "lapsed_ids (s\<lparr>vendor_registry := t\<rparr>) = lapsed_ids s" by (simp add: lapsed_ids_def)

lemma approved_ids_same [simp]: "approved_ids (s\<lparr>vendor_evidence_references := t\<rparr>) = approved_ids s" by (simp add: approved_ids_def)

lemma no_new_update:
  assumes "\<And>v. vr_id (f v) = vr_id v" "\<And>v. p v \<Longrightarrow> vr_status (f v) = ''approved'' \<Longrightarrow> vr_status v = ''approved''"
  shows "no_new s (s\<lparr>vendor_registry := update_where p f (vendor_registry s)\<rparr>)"
  using approved_ids_update [of f p s, OF assms] by (simp add: no_new_def)

lemma no_new_trans: "no_new s t \<Longrightarrow> no_new t u \<Longrightarrow> no_new s u"
  unfolding no_new_def by blast

section \<open>The operations\<close>

lemma read_vendor_Inr: "read_vendor i s = Inr (s', v) \<Longrightarrow> s' = s"
  by (auto simp: read_vendor_def split: option.splits)

lemma upsert_vendor_no_new:
  assumes "upsert_vendor e q s = Inr (s', v)"
  shows "no_new s s'"
proof -
  let ?t = "upsert vr_id (merge_vendor e q) (new_vendor e q) (vendor_registry s)"
  have s': "s' = s\<lparr>vendor_registry := ?t\<rparr>"
    using assms by (auto simp: upsert_vendor_def dest: read_vendor_Inr split: if_splits)
  show ?thesis
  proof (cases "vr_id (new_vendor e q) \<in> set (map vr_id (vendor_registry s))")
    case True
    then show ?thesis unfolding s' upsert_def
      by (simp only: if_True) (rule no_new_update; simp add: merge_vendor_def Let_def split: if_splits)
  next
    case False
    then show ?thesis by (auto simp: s' no_new_def approved_ids_def upsert_def new_vendor_def)
  qed
qed

lemma materialize_vendors:
  assumes "materialize_stages e b st m pt pv s = Inr (s', c)"
  shows "vendor_registry s' = vendor_registry s" "vendor_evidence_references s' = vendor_evidence_references s"
  using assms by (auto simp: materialize_stages_def ebind_eq_Inr Let_def split: if_splits)

lemma notify_stage_opened_evidence [simp]: "vendor_evidence_references (notify_stage_opened e r s) = vendor_evidence_references s"
  by (simp add: notify_stage_opened_def Let_def)

lemma submit_vendor_review_no_new:
  assumes "submit_vendor_review e i tenant actor s = Inr (s', v)"
  shows "no_new s s'"
proof -
  let ?f = "\<lambda>rd w. w\<lparr>vr_status := ''under_review'', vr_review_round := rd, vr_submitted_by := Some actor, vr_updated_at := db_now e\<rparr>"
  consider "s' = s" | rd s2 b st pt pv c where
    "materialize_stages e b st ''sequence'' pt pv (s\<lparr>vendor_registry := update_where (\<lambda>w. vr_id w = i) (?f rd) (vendor_registry s)\<rparr>) = Inr (s2, c)"
    "s' = (case first_open_stage i rd s2 of None \<Rightarrow> s2 | Some r \<Rightarrow> notify_stage_opened e r s2)"
    using assms by (cases "load_vendor s i tenant") (auto simp: submit_vendor_review_def Let_def ebind_eq_Inr dest!: read_vendor_Inr split: if_splits)
  then show ?thesis
  proof cases
    case 2
    have "no_new s (s\<lparr>vendor_registry := update_where (\<lambda>w. vr_id w = i) (?f rd) (vendor_registry s)\<rparr>)"
      by (rule no_new_update) simp_all
    moreover have "no_new (s\<lparr>vendor_registry := update_where (\<lambda>w. vr_id w = i) (?f rd) (vendor_registry s)\<rparr>) s'"
      using materialize_vendors [OF 2(1)] by (intro no_new_same) (simp_all add: 2(2) split: option.splits)
    ultimately show ?thesis by (rule no_new_trans)
  qed simp
qed

lemma retire_vendor_no_new:
  assumes "retire_vendor e i tenant s = Inr (s', v)"
  shows "no_new s s'"
proof -
  have s': "s' = s\<lparr>vendor_registry := update_where (\<lambda>w. vr_id w = i) (\<lambda>w. w\<lparr>vr_status := ''retired'', vr_updated_at := db_now e\<rparr>) (vendor_registry s)\<rparr>"
    using assms by (auto simp: retire_vendor_def dest: read_vendor_Inr split: if_splits)
  show ?thesis unfolding s' by (rule no_new_update) simp_all
qed

lemma make_due_effect:
  "approved_ids (fst (make_due e i s)) \<subseteq> approved_ids s - {i}" "lapsed_ids (fst (make_due e i s)) = lapsed_ids s"
proof -
  have kept: "approved_ids (fst (make_due e i s)) \<subseteq> approved_ids s"
    unfolding make_due_def fst_conv by (rule approved_ids_update) (simp, simp)
  have "vr_status v \<noteq> ''approved''" if "v \<in> set (vendor_registry (fst (make_due e i s)))" "vr_id v = i" for v
  proof -
    have "v \<in> set (update_where (\<lambda>w. vr_id w = i \<and> vr_status w = ''approved'')
        (\<lambda>w. w\<lparr>vr_status := ''recertify_due'', vr_updated_at := db_now e\<rparr>) (vendor_registry s))"
      using that(1) by (simp add: make_due_def)
    then show ?thesis by (cases rule: update_whereE) (use that(2) in auto)
  qed
  then have fresh: "i \<notin> approved_ids (fst (make_due e i s))" unfolding approved_ids_def by blast
  from kept fresh show "approved_ids (fst (make_due e i s)) \<subseteq> approved_ids s - {i}" by blast
  show "lapsed_ids (fst (make_due e i s)) = lapsed_ids s" by (simp add: make_due_def)
qed

lemma emitted_no_new [simp]: "approved_ids (emitted e n s) = approved_ids s" "lapsed_ids (emitted e n s) = lapsed_ids s"
  by (simp_all add: approved_ids_def lapsed_ids_def)

lemma age_vendor_cases:
  assumes "age_vendor e v (s, ds) = Inr (s', ds')"
  obtains "s' = s" | "s' = fst (make_due e (vr_id v) s)" | n where "s' = emitted e n (fst (make_due e (vr_id v) s))"
  using assms by (auto simp: age_vendor_def ebind_eq_Inr Let_def split: if_splits option.splits prod.splits)

lemma age_vendor_no_new:
  assumes "age_vendor e v (s, ds) = Inr (s', ds')"
  shows "no_new s s'"
proof -
  have made: "no_new s (fst (make_due e (vr_id v) s))" using make_due_effect [of e "vr_id v" s] by (auto simp: no_new_def)
  from assms show ?thesis by (cases rule: age_vendor_cases) (use made in \<open>auto simp: no_new_def\<close>)
qed

lemma age_vendors_no_new:
  assumes "age_vendor_recertifications e s = Inr (s', ds)"
  shows "no_new s s'"
proof -
  have "no_new (fst p) (fst p')" if "efold (age_vendor e) vs p = Inr p'" for vs p p'
    using that by (rule efold_frame [where P = "\<lambda>p p'. no_new (fst p) (fst p')", rotated -1])
      (auto intro: age_vendor_no_new no_new_trans)
  from this [OF assms [unfolded age_vendor_recertifications_def]] show ?thesis by simp
qed

lemma record_evidence_no_new:
  assumes "record_evidence_reference e q s = Inr (s', r)"
  shows "no_new s s'"
proof -
  obtain row where s': "s' = s\<lparr>vendor_evidence_references := store_evidence e row (vendor_evidence_references s)\<rparr>"
    and cur: "ev_status row = ''current''"
    using record_evidence_cases [OF assms] evidence_row_simps(4) by metis
  have "lapsed_ids s' \<subseteq> lapsed_ids s"
    unfolding s' lapsed_ids_def store_evidence_def upsert_def supersede_def
    by (auto simp: cur elim!: update_whereE split: if_splits)
  then show ?thesis by (simp add: no_new_def s')
qed

lemma withdraw_evidence_no_new:
  assumes "withdraw_evidence_reference e rid tenant s = Inr (s', r)"
  shows "no_new s s'"
  using assms by (auto simp: withdraw_evidence_reference_def no_new_def lapsed_ids_def Let_def elim!: update_whereE split: option.splits)

text \<open>The ageing pass over the references lapses references, and takes the approval of the vendors it lapses them for.\<close>

lemma expire_reference_effect: "approved_ids (expire_reference e i s) = approved_ids s"
  by (simp add: expire_reference_def)

lemma age_reference_inv:
  assumes inv: "vendor_inv (ep_db p)" and key: "\<forall>r\<in>set (vendor_evidence_references (ep_db p)). ev_id r = ev_id (fst rv) \<longrightarrow> ev_vendor_id r = ev_vendor_id (fst rv)"
  shows "vendor_inv (ep_db (age_reference e rv p))"
proof (cases "ev_expires_at (fst rv) < today e")
  case True
  let ?i = "ev_vendor_id (fst rv)" and ?s1 = "expire_reference e (ev_id (fst rv)) (ep_db p)"
  have lapsed: "lapsed_ids ?s1 \<subseteq> insert ?i (lapsed_ids (ep_db p))"
    using key unfolding expire_reference_def lapsed_ids_def by (auto elim!: update_whereE)
  have "vendor_inv (fst (make_due e ?i ?s1))"
    using inv lapsed make_due_effect [of e ?i ?s1] unfolding vendor_inv_def expire_reference_effect by blast
  moreover have "\<exists>n. ep_db (age_reference e rv p) = emitted e n (fst (make_due e ?i ?s1))"
    using True by (auto simp: age_reference_def Let_def split: prod.splits)
  ultimately show ?thesis by (auto simp: vendor_inv_def)
next
  case False
  have "lapsed_ids (mark_noticed e i (ep_db p)) \<subseteq> lapsed_ids (ep_db p)" for i
    unfolding mark_noticed_def lapsed_ids_def by (auto elim!: update_whereE)
  moreover have "approved_ids (mark_noticed e i (ep_db p)) = approved_ids (ep_db p)" for i by (simp add: mark_noticed_def)
  ultimately show ?thesis using inv False by (simp add: age_reference_def vendor_inv_def Let_def) blast
qed

lemma age_reference_keys:
  "map (\<lambda>r. (ev_id r, ev_vendor_id r)) (vendor_evidence_references (ep_db (age_reference e rv p))) =
     map (\<lambda>r. (ev_id r, ev_vendor_id r)) (vendor_evidence_references (ep_db p))"
  by (auto simp: age_reference_def make_due_def expire_reference_def mark_noticed_def update_where_def Let_def split: prod.splits)

lemma age_reference_ids [simp]:
  "map ev_id (vendor_evidence_references (ep_db (age_reference e rv p))) = map ev_id (vendor_evidence_references (ep_db p))"
  by (auto simp: age_reference_def make_due_def expire_reference_def mark_noticed_def update_where_def Let_def split: prod.splits)

lemma age_references_inv:
  assumes "vendor_inv (ep_db p)" "pk ev_id (vendor_evidence_references (ep_db p))"
    and "\<forall>rv\<in>set rvs. (ev_id (fst rv), ev_vendor_id (fst rv)) \<in> set (map (\<lambda>r. (ev_id r, ev_vendor_id r)) (vendor_evidence_references (ep_db p)))"
  shows "vendor_inv (ep_db (fold (age_reference e) rvs p))"
  using assms
proof (induction rvs arbitrary: p)
  case (Cons rv rvs)
  let ?p = "age_reference e rv p"
  have "vendor_inv (ep_db ?p)"
  proof (rule age_reference_inv [OF Cons.prems(1)], intro ballI impI)
    fix r
    assume r: "r \<in> set (vendor_evidence_references (ep_db p))" "ev_id r = ev_id (fst rv)"
    obtain r' where "r' \<in> set (vendor_evidence_references (ep_db p))" "ev_id r' = ev_id (fst rv)" "ev_vendor_id r' = ev_vendor_id (fst rv)"
      using Cons.prems(3) by auto
    then show "ev_vendor_id r = ev_vendor_id (fst rv)" using r Cons.prems(2) unfolding pk_def by (metis distinct_map inj_onD)
  qed
  moreover have "pk ev_id (vendor_evidence_references (ep_db ?p))" using Cons.prems(2) by (simp add: pk_def)
  ultimately show ?case using Cons.IH [of ?p] Cons.prems(3) by (simp only: fold.simps comp_apply age_reference_keys list.set_intros(2) ball_simps) simp
qed simp

text \<open>The findings are another table.\<close>

lemma fold_field:
  assumes "\<And>x s. g (f x s) = g s"
  shows "g (fold f xs s) = g s"
  using assms by (induction xs arbitrary: s) simp_all

lemma write_usage_finding_frame [simp]:
  "vendor_registry (write_usage_finding e tenant vs u s) = vendor_registry s"
  "vendor_evidence_references (write_usage_finding e tenant vs u s) = vendor_evidence_references s"
  "sdk_events (write_usage_finding e tenant vs u s) = sdk_events s"
  by (simp_all add: write_usage_finding_def write_rule_finding_def Let_def split: option.splits prod.splits)

lemma refresh_tenant_frame [simp]:
  "vendor_registry (refresh_tenant_vendors e tenant s) = vendor_registry s"
  "vendor_evidence_references (refresh_tenant_vendors e tenant s) = vendor_evidence_references s"
  "sdk_events (refresh_tenant_vendors e tenant s) = sdk_events s"
  unfolding refresh_tenant_vendors_def by (rule fold_field; simp)+

lemma refresh_vendor_posture_frame [simp]:
  "vendor_registry (refresh_vendor_posture e only s) = vendor_registry s"
  "vendor_evidence_references (refresh_vendor_posture e only s) = vendor_evidence_references s"
  unfolding refresh_vendor_posture_def by (rule fold_field; simp)+

definition vendor_state :: "db \<Rightarrow> bool" where
  "vendor_state s \<longleftrightarrow> vendor_inv s \<and> pk ev_id (vendor_evidence_references s)"

lemma due_references_rows:
  "\<forall>rv\<in>set (due_references e s). (ev_id (fst rv), ev_vendor_id (fst rv)) \<in> set (map (\<lambda>r. (ev_id r, ev_vendor_id r)) (vendor_evidence_references s))"
  by (auto simp: due_references_def)

lemma age_references_pk:
  "map ev_id (vendor_evidence_references (ep_db (fold (age_reference e) rvs p))) = map ev_id (vendor_evidence_references (ep_db p))"
  by (induction rvs arbitrary: p) simp_all

lemma age_evidence_state:
  assumes "vendor_state s"
  shows "vendor_state (ep_db (age_evidence_references e s))"
proof -
  let ?p = "\<lparr>ep_db = s, ep_expired = [], ep_flipped = [], ep_warned = []\<rparr>"
  have "vendor_inv (ep_db (fold (age_reference e) (due_references e s) ?p))"
    using assms due_references_rows by (intro age_references_inv) (simp_all add: vendor_state_def)
  moreover have "pk ev_id (vendor_evidence_references (ep_db (fold (age_reference e) (due_references e s) ?p)))"
    using assms age_references_pk [of e "due_references e s" ?p] by (simp add: vendor_state_def pk_def)
  ultimately show ?thesis
    by (auto simp: age_evidence_references_def vendor_state_def vendor_inv_def approved_ids_def lapsed_ids_def Let_def)
qed

section \<open>Decisions\<close>

lemma decision_evidence_frame [simp]:
  "vendor_evidence_references (notify_intake_decided e i k st s) = vendor_evidence_references s"
  "vendor_evidence_references (decide_use_case e task st s) = vendor_evidence_references s"
  "vendor_evidence_references (decide_task e k st s) = vendor_evidence_references s"
  "vendor_evidence_references (apply_decision_status e ty k d s) = vendor_evidence_references s"
proof -
  show a: "vendor_evidence_references (notify_intake_decided e i k st s) = vendor_evidence_references s" for i k st s
    by (simp add: notify_intake_decided_def Let_def split: option.splits)
  show b: "vendor_evidence_references (decide_use_case e task st s) = vendor_evidence_references s" for task st s
    by (simp add: decide_use_case_def a Let_def)
  show c: "vendor_evidence_references (decide_task e k st s) = vendor_evidence_references s" for k st s
    by (simp add: decide_task_def b Let_def split: option.splits)
  show "vendor_evidence_references (apply_decision_status e ty k d s) = vendor_evidence_references s"
    by (simp add: apply_decision_status_def c split: option.splits)
qed

lemma approved_ids_cong: "vendor_registry s' = vendor_registry s \<Longrightarrow> approved_ids s' = approved_ids s"
  by (simp add: approved_ids_def)

lemma no_expired_not_lapsed: "require_no_expired_evidence s i name = Inr u \<Longrightarrow> i \<notin> lapsed_ids s"
  using require_no_expired_iff [of s i name] by (auto simp: lapsed_ids_def)

lemma roll_up_state:
  assumes inv: "vendor_inv s" and r: "roll_up_subject e stage d s = Inr s'"
  shows "vendor_inv s'" "vendor_evidence_references s' = vendor_evidence_references s"
proof -
  let ?i = "st_subject_id stage" and ?p = "\<lambda>v. vr_id v = st_subject_id stage \<and> vr_review_round v = st_review_round stage \<and> vr_status v = ''under_review''"
  let ?f = "\<lambda>status v. v\<lparr>vr_status := status, vr_reviewed_at := Some (db_now e), vr_updated_at := db_now e\<rparr>"
  consider (same) "vendor_registry s' = vendor_registry s" "vendor_evidence_references s' = vendor_evidence_references s"
    | (decided) status where "s' = s\<lparr>vendor_registry := update_where ?p (?f status) (vendor_registry s)\<rparr>" "status = ''approved'' \<Longrightarrow> ?i \<notin> lapsed_ids s"
  proof (cases "st_subject_type stage = ''vendor_review''")
    case True
    then have "s' = s\<lparr>vendor_registry := update_where ?p (?f (if d = ''approve'' then ''approved'' else ''rejected'')) (vendor_registry s)\<rparr>"
      "d = ''approve'' \<Longrightarrow> ?i \<notin> lapsed_ids s"
      using r by (auto simp: roll_up_subject_def Let_def ebind_eq_Inr dest: no_expired_not_lapsed)
    then show thesis by (intro decided) (auto split: if_splits)
  next
    case False
    then show thesis using r by (intro same) (auto simp: roll_up_subject_def split: if_splits)
  qed
  then have "vendor_inv s' \<and> vendor_evidence_references s' = vendor_evidence_references s"
  proof cases
    case same
    then show ?thesis using inv by (simp add: vendor_inv_def approved_ids_def lapsed_ids_def)
  next
    case decided
    have "j \<in> approved_ids s \<union> (if status = ''approved'' then {?i} else {})" if "j \<in> approved_ids s'" for j
    proof -
      from that obtain v where v: "v \<in> set (update_where ?p (?f status) (vendor_registry s))" "vr_status v = ''approved''" "j = vr_id v"
        by (auto simp: decided(1) approved_ids_def)
      from v(1) show ?thesis by (cases rule: update_whereE) (use v(2,3) in \<open>auto simp: approved_ids_def\<close>)
    qed
    then have "approved_ids s' \<subseteq> approved_ids s \<union> (if status = ''approved'' then {?i} else {})" by blast
    moreover have "lapsed_ids s' = lapsed_ids s" "vendor_evidence_references s' = vendor_evidence_references s" by (simp_all add: decided(1))
    ultimately show ?thesis using inv decided(2) unfolding vendor_inv_def by (cases "status = ''approved''") auto
  qed
  then show "vendor_inv s'" "vendor_evidence_references s' = vendor_evidence_references s" by simp_all
qed

lemma vendor_inv_stages [simp]: "vendor_inv (s\<lparr>approval_stages := t\<rparr>) = vendor_inv s" "vendor_inv (s\<lparr>governance_decisions := d\<rparr>) = vendor_inv s"
  by (simp_all add: vendor_inv_def approved_ids_def lapsed_ids_def)

lemma vendor_inv_notify [simp]: "vendor_inv (notify_stage_opened e r s) = vendor_inv s" "vendor_inv (apply_decision_status e ty k d s) = vendor_inv s"
  by (simp_all add: vendor_inv_def approved_ids_def lapsed_ids_def)

lemma apply_stage_state:
  assumes "vendor_inv s" "apply_stage_decision e stage d did actor s = Inr s'"
  shows "vendor_inv s' \<and> vendor_evidence_references s' = vendor_evidence_references s"
proof -
  consider (rolled) t x where "roll_up_subject e stage x (s\<lparr>approval_stages := t\<rparr>) = Inr s'" | (kept) t where "s' = s\<lparr>approval_stages := t\<rparr>"
    | (opened) t r where "s' = notify_stage_opened e r (s\<lparr>approval_stages := t\<rparr>)"
    using assms(2) unfolding apply_stage_decision_def Let_def by (simp split: if_splits option.splits) blast+
  then show ?thesis
  proof cases
    case rolled
    then show ?thesis using roll_up_state [OF _ rolled] assms(1) by simp
  qed (use assms(1) in simp_all)
qed

lemma record_decision_state:
  assumes st: "vendor_state s" and r: "record_decision e ty k d rationale actor tenant s = Inr (s', row)"
  shows "vendor_state s'"
proof -
  have sync: "vendor_inv t' \<and> vendor_evidence_references t' = vendor_evidence_references t"
    if "vendor_inv t" "sync_decision_to_stages e ty k d actor did t = Inr t'" for t t' did
    using that by (auto simp: sync_decision_to_stages_def dest: apply_stage_state split: if_splits option.splits list.splits)
  consider "s' = s" | gd did where "sync_decision_to_stages e ty k d actor did (apply_decision_status e ty k d (s\<lparr>governance_decisions := gd\<rparr>)) = Inr s'"
    using r by (auto simp: record_decision_def Let_def ebind_eq_Inr split: option.splits)
  then show ?thesis
  proof cases
    case 2
    then show ?thesis using sync [OF _ 2] st by (simp add: vendor_state_def)
  qed (use st in simp)
qed

section \<open>Every run\<close>

text \<open>One step of the platform on vendors, at any time and by anyone.\<close>

inductive vendor_step :: "db \<Rightarrow> db \<Rightarrow> bool" where
  edited: "upsert_vendor e q s = Inr (s', v) \<Longrightarrow> vendor_step s s'"
| submitted: "submit_vendor_review e i tenant actor s = Inr (s', v) \<Longrightarrow> vendor_step s s'"
| retired: "retire_vendor e i tenant s = Inr (s', v) \<Longrightarrow> vendor_step s s'"
| recorded: "record_evidence_reference e r s = Inr (s', x) \<Longrightarrow> vendor_step s s'"
| withdrawn: "withdraw_evidence_reference e rid tenant s = Inr (s', x) \<Longrightarrow> vendor_step s s'"
| decided: "record_decision e ty k d rationale actor ten s = Inr (s', row) \<Longrightarrow> vendor_step s s'"
| aged: "age_vendor_recertifications e s = Inr (s', ds) \<Longrightarrow> vendor_step s s'"
| lapsed: "s' = ep_db (age_evidence_references e s) \<Longrightarrow> vendor_step s s'"

lemma upsert_vendor_refs: "upsert_vendor e q s = Inr (s', v) \<Longrightarrow> vendor_evidence_references s' = vendor_evidence_references s"
  by (auto simp: upsert_vendor_def dest: read_vendor_Inr split: if_splits)

lemma submit_vendor_refs: "submit_vendor_review e i tenant actor s = Inr (s', v) \<Longrightarrow> vendor_evidence_references s' = vendor_evidence_references s"
  by (cases "load_vendor s i tenant")
    (auto simp: submit_vendor_review_def Let_def ebind_eq_Inr dest!: read_vendor_Inr materialize_vendors(2) split: if_splits option.split)

lemma retire_vendor_refs: "retire_vendor e i tenant s = Inr (s', v) \<Longrightarrow> vendor_evidence_references s' = vendor_evidence_references s"
  by (auto simp: retire_vendor_def dest: read_vendor_Inr split: if_splits)

lemma age_vendors_refs: "age_vendor_recertifications e s = Inr (s', ds) \<Longrightarrow> vendor_evidence_references s' = vendor_evidence_references s"
proof -
  have step: "vendor_evidence_references (fst p') = vendor_evidence_references (fst p)" if "age_vendor e v p = Inr p'" for v p p'
    using that by (cases p; cases p') (auto elim!: age_vendor_cases simp: make_due_def)
  have "vendor_evidence_references (fst p') = vendor_evidence_references (fst p)" if "efold (age_vendor e) vs p = Inr p'" for vs p p'
    using that by (rule efold_frame [where P = "\<lambda>p p'. vendor_evidence_references (fst p') = vendor_evidence_references (fst p)", rotated -1])
      (simp_all add: step)
  then show "age_vendor_recertifications e s = Inr (s', ds) \<Longrightarrow> vendor_evidence_references s' = vendor_evidence_references s"
    unfolding age_vendor_recertifications_def by fastforce
qed

lemma record_evidence_pk:
  assumes "pk ev_id (vendor_evidence_references s)" "record_evidence_reference e q s = Inr (s', r)"
  shows "pk ev_id (vendor_evidence_references s')"
proof -
  obtain row where s': "s' = s\<lparr>vendor_evidence_references := store_evidence e row (vendor_evidence_references s)\<rparr>"
    using record_evidence_cases [OF assms(2)] by metis
  have "pk ev_id (supersede e v k rid (vendor_evidence_references s))" for v k rid using assms(1) by (simp add: pk_def supersede_keys)
  then show ?thesis by (simp add: s' store_evidence_def pk_upsert)
qed

lemma withdraw_evidence_pk:
  assumes "pk ev_id (vendor_evidence_references s)" "withdraw_evidence_reference e rid tenant s = Inr (s', r)"
  shows "pk ev_id (vendor_evidence_references s')"
proof -
  have "s' = s\<lparr>vendor_evidence_references := update_where (\<lambda>r. ev_id r = rid)
      (\<lambda>r. r\<lparr>ev_status := ''withdrawn'', ev_updated_at := db_now e\<rparr>) (vendor_evidence_references s)\<rparr>"
    using assms(2) by (auto simp: withdraw_evidence_reference_def Let_def split: option.splits)
  then show ?thesis using assms(1) by (simp add: pk_def map_key_update_where)
qed

lemma vendor_step_state: "vendor_step s s' \<Longrightarrow> vendor_state s \<Longrightarrow> vendor_state s'"
proof (induction rule: vendor_step.induct)
  case (edited e q s s' v)
  then show ?case using upsert_vendor_no_new upsert_vendor_refs no_new_inv unfolding vendor_state_def by metis
next
  case (submitted e i tenant actor s s' v)
  then show ?case using submit_vendor_review_no_new submit_vendor_refs no_new_inv unfolding vendor_state_def by metis
next
  case (retired e i tenant s s' v)
  then show ?case using retire_vendor_no_new retire_vendor_refs no_new_inv unfolding vendor_state_def by metis
next
  case (recorded e r s s' x)
  then show ?case using record_evidence_no_new record_evidence_pk no_new_inv unfolding vendor_state_def by metis
next
  case (withdrawn e rid tenant s s' x)
  then show ?case using withdraw_evidence_no_new withdraw_evidence_pk no_new_inv unfolding vendor_state_def by metis
next
  case (decided e ty k d rationale actor ten s s' row)
  then show ?case by (rule record_decision_state [rotated])
next
  case (aged e s s' ds)
  then show ?case using age_vendors_no_new age_vendors_refs no_new_inv unfolding vendor_state_def by metis
next
  case (lapsed s' e s)
  then show ?case by (simp add: age_evidence_state)
qed

lemma vendor_run_state: "vendor_step\<^sup>*\<^sup>* s s' \<Longrightarrow> vendor_state s \<Longrightarrow> vendor_state s'"
  by (induction rule: rtranclp_induct) (auto intro: vendor_step_state)

text \<open>
  C22: Start from a registry without vendors and references and run any sequence of edits, submissions, retirements, recorded and
  withdrawn references, decisions and ageing passes, each at its own time. No reference of a vendor that is approved has the
  status expired: a lapse takes the approval, and no approval is given over a lapse.
\<close>

theorem approved_vendor_holds_no_lapsed_evidence:
  assumes "vendor_registry s0 = []" "vendor_evidence_references s0 = []" "vendor_step\<^sup>*\<^sup>* s0 s"
    and "v \<in> set (vendor_registry s)" "vr_status v = ''approved''"
    and "r \<in> set (vendor_evidence_references s)" "ev_vendor_id r = vr_id v"
  shows "ev_status r \<noteq> ''expired''"
proof -
  have "vendor_state s0" using assms(1,2) by (simp add: vendor_state_def vendor_inv_iff)
  then have "vendor_inv s" using vendor_run_state [OF assms(3)] by (simp add: vendor_state_def)
  then show ?thesis using assms(4-7) by (simp add: vendor_inv_iff)
qed

definition mistral_request :: vendor_request where
  "mistral_request = \<lparr>vq_tenant_id = ''acme'', vq_name = ''Mistral'', vq_providers = ['' Mistral ''], vq_approved_models = None, vq_notes_ref = None, vq_created_by = ''ann''\<rparr>"

definition mistral_dpa :: evidence_request where
  "mistral_dpa = \<lparr>er_tenant_id = ''acme'', er_vendor_id = vendor_id_of (sample_env 0) ''acme'' ''Mistral'', er_kind = ''dpa'', er_name = ''DPA'', er_identifier = None,
     er_issued_at = ''1969-12-01'', er_expires_at = ''1970-06-01'', er_document_hash = None, er_actor_ref = ''ann''\<rparr>"

definition mistral_reviewed :: "db res" where
  "mistral_reviewed =
     ebind (upsert_vendor (sample_env 0) mistral_request empty_db) (\<lambda>(s1, v).
     ebind (record_evidence_reference (sample_env 0) mistral_dpa s1) (\<lambda>(s2, r).
     ebind (submit_vendor_review (sample_env 0) (vr_id v) ''acme'' ''ann'' s2) (\<lambda>(s3, v3).
     ebind (record_decision (sample_env 0) ''approval_stage'' (stage_id (sample_env 0) ''vendor_review'' (vr_id v) 1 0) ''approve'' ''checked'' ''bob'' (Some ''acme'') s3)
       (\<lambda>(s4, d). Inr s4))))"

lemma mistral_run:
  assumes "mistral_reviewed = Inr s"
  shows "vendor_step\<^sup>*\<^sup>* empty_db s"
proof -
  obtain s1 v s2 r s3 v3 d where "upsert_vendor (sample_env 0) mistral_request empty_db = Inr (s1, v)"
    "record_evidence_reference (sample_env 0) mistral_dpa s1 = Inr (s2, r)"
    "submit_vendor_review (sample_env 0) (vr_id v) ''acme'' ''ann'' s2 = Inr (s3, v3)"
    "record_decision (sample_env 0) ''approval_stage'' (stage_id (sample_env 0) ''vendor_review'' (vr_id v) 1 0) ''approve'' ''checked'' ''bob'' (Some ''acme'') s3 = Inr (s, d)"
    using assms unfolding mistral_reviewed_def by (auto simp: ebind_eq_Inr)
  then have "vendor_step empty_db s1" "vendor_step s1 s2" "vendor_step s2 s3" "vendor_step s3 s" by (blast intro: vendor_step.intros)+
  then show ?thesis by (meson converse_rtranclp_into_rtranclp rtranclp.rtrancl_refl)
qed

lemma mistral_approved:
  "case mistral_reviewed of Inl _ \<Rightarrow> False | Inr s \<Rightarrow> map vr_status (vendor_registry s) = [''approved''] \<and>
     map ev_vendor_id (vendor_evidence_references s) = map vr_id (vendor_registry s)"
  by code_simp

theorem approved_vendor_holds_no_lapsed_evidence_witness:
  "case mistral_reviewed of Inl _ \<Rightarrow> False
   | Inr s \<Rightarrow> (\<exists>v r. vendor_registry s = [v] \<and> vr_status v = ''approved'' \<and> vendor_evidence_references s = [r] \<and> ev_vendor_id r = vr_id v \<and> ev_status r \<noteq> ''expired'')"
proof -
  obtain s where s: "mistral_reviewed = Inr s" "map vr_status (vendor_registry s) = [''approved'']"
    "map ev_vendor_id (vendor_evidence_references s) = map vr_id (vendor_registry s)"
    using mistral_approved by (auto split: sum.splits)
  then obtain v where v: "vendor_registry s = [v]" "vr_status v = ''approved''" by auto
  with s(3) obtain r where r: "vendor_evidence_references s = [r]" "ev_vendor_id r = vr_id v" by auto
  have "ev_status r \<noteq> ''expired''"
    by (rule approved_vendor_holds_no_lapsed_evidence [of empty_db s v]) (use v r mistral_run [OF s(1)] in \<open>simp_all add: empty_db_def\<close>)
  then show ?thesis unfolding s(1) sum.case using v r by blast
qed

section \<open>Findings and coverage\<close>























text \<open>
  An edit of the providers or models leaves a vendor that is under review under review: the stages already approved stand, and the
  last one approves a surface they were not decided on.
\<close>

lemma edit_under_review_keeps_review:
  "vr_status v = ''under_review'' \<Longrightarrow> vr_status (merge_vendor e q v) = ''under_review'' \<and> vr_review_round (merge_vendor e q v) = vr_review_round v \<and>
     vr_providers (merge_vendor e q v) = normalized_providers q"
  by (simp add: merge_vendor_def Let_def)

text \<open>The check for a provider is made before the blanks are dropped.\<close>

lemma blank_provider_accepted:
  "case upsert_vendor (sample_env 0) (mistral_request\<lparr>vq_providers := ['' '']\<rparr>) empty_db of Inl _ \<Rightarrow> False | Inr (s, v) \<Rightarrow> vr_providers v = []"
  by code_simp

end
