(* ===== verification/Credentials.thy ===== *)
theory Credentials
  imports Audit_Log
begin

text \<open>
  Credentials: password hashes (services/auth.py), one-time codes (services/totp.py) and the encryption of stored secrets
  under a ring of keys (services/secrets.py). A byte is a character. The key derivation PBKDF2, HMAC-SHA1 and AES-GCM are the
  functions of the record \<open>crypto\<close>; they take texts where the code encodes a text as UTF-8 first. Random bytes are arguments. The base 32
  and base 64 codecs and \<open>bytes.fromhex\<close> are the standard library's and are written out.
\<close>

record crypto =
  cr_pbkdf2 :: "string \<Rightarrow> string \<Rightarrow> string \<Rightarrow> int \<Rightarrow> string"
  cr_hmac_sha1 :: "string \<Rightarrow> string \<Rightarrow> string"
  cr_seal :: "string \<Rightarrow> string \<Rightarrow> string \<Rightarrow> string \<Rightarrow> string"
  cr_open :: "string \<Rightarrow> string \<Rightarrow> string \<Rightarrow> string \<Rightarrow> string option"
  cr_iterations :: int

abbreviation byte :: "char \<Rightarrow> nat" where "byte c \<equiv> of_char c"

section \<open>Base 64\<close>

definition b64_char :: "nat \<Rightarrow> char" where
  "b64_char k = (if k < 26 then char_of (k + 65) else if k < 52 then char_of (k + 71) else if k < 62 then char_of (k - 4)
     else if k = 62 then CHR ''-'' else CHR ''_'')"

definition b64_value :: "char \<Rightarrow> nat option" where
  "b64_value c = (let n = byte c in
     if 65 \<le> n \<and> n \<le> 90 then Some (n - 65) else if 97 \<le> n \<and> n \<le> 122 then Some (n - 71)
     else if 48 \<le> n \<and> n \<le> 57 then Some (n + 4) else if n = 43 \<or> n = 45 then Some 62 else if n = 47 \<or> n = 95 then Some 63 else None)"

fun urlsafe_b64encode :: "string \<Rightarrow> string" where
  "urlsafe_b64encode [] = []"
| "urlsafe_b64encode [a] = [b64_char (byte a div 4), b64_char (byte a mod 4 * 16), CHR ''='', CHR ''='']"
| "urlsafe_b64encode [a, b] = [b64_char (byte a div 4), b64_char (byte a mod 4 * 16 + byte b div 16), b64_char (byte b mod 16 * 4), CHR ''='']"
| "urlsafe_b64encode (a # b # c # rest) =
     b64_char (byte a div 4) # b64_char (byte a mod 4 * 16 + byte b div 16) # b64_char (byte b mod 16 * 4 + byte c div 64) #
     b64_char (byte c mod 64) # urlsafe_b64encode rest"

text \<open>
  The decoder reads a character at a time with its place in the group of four, the bits left over and the padding seen; characters
  outside the alphabet are skipped, complete padding ends the text.
\<close>

fun b64_scan :: "nat \<Rightarrow> nat \<Rightarrow> nat \<Rightarrow> string \<Rightarrow> string option" where
  "b64_scan quad left pads [] = (if quad = 0 then Some [] else None)"
| "b64_scan quad left pads (c # cs) =
     (if c = CHR ''='' then
        (if 2 \<le> quad \<and> 4 \<le> quad + (pads + 1) then Some [] else b64_scan quad left (if 2 \<le> quad then pads + 1 else pads) cs)
      else case b64_value c of
        None \<Rightarrow> b64_scan quad left pads cs
      | Some v \<Rightarrow>
          if quad = 0 then b64_scan 1 v 0 cs
          else if quad = 1 then map_option (Cons (char_of (left * 4 + v div 16))) (b64_scan 2 (v mod 16) 0 cs)
          else if quad = 2 then map_option (Cons (char_of (left * 16 + v div 4))) (b64_scan 3 (v mod 4) 0 cs)
          else map_option (Cons (char_of (left * 64 + v))) (b64_scan 0 0 0 cs))"

definition urlsafe_b64decode :: "string \<Rightarrow> string option" where
  "urlsafe_b64decode s = (if ascii s then b64_scan 0 0 0 s else None)"

section \<open>Base 32 and hexadecimal\<close>

fun groups8 :: "string \<Rightarrow> string list" where
  "groups8 (a # b # c # d # e # f # g # h # rest) = [a, b, c, d, e, f, g, h] # groups8 rest"
| "groups8 [] = []"
| "groups8 xs = [xs]"

definition ascii_upper :: "char \<Rightarrow> char" where
  "ascii_upper c = (let n = byte c in if 97 \<le> n \<and> n \<le> 122 then char_of (n - 32) else c)"

definition b32_value :: "char \<Rightarrow> int option" where
  "b32_value c = (let n = of_char c in if 65 \<le> n \<and> n \<le> 90 then Some (n - 65) else if 50 \<le> n \<and> n \<le> 55 then Some (n - 24) else None)"

definition b32_quantum :: "string \<Rightarrow> int option" where
  "b32_quantum q = map_option (foldl (\<lambda>acc v. acc * 32 + v) 0) (those (map b32_value q))"

definition big_endian :: "nat \<Rightarrow> int \<Rightarrow> string" where
  "big_endian w n = map (\<lambda>i. char_of (n div 256 ^ i mod 256)) (rev [0..<w])"

definition b32decode :: "string \<Rightarrow> string option" where
  "b32decode s =
     (let t = map ascii_upper s; u = rstrip_by (\<lambda>c. c = CHR ''='') t; pads = length t - length u in
      if \<not> ascii s \<or> length s mod 8 \<noteq> 0 \<or> pads \<notin> {0, 1, 3, 4, 6} then None
      else case those (map b32_quantum (groups8 u)) of
        None \<Rightarrow> None
      | Some accs \<Rightarrow>
          Some (if pads = 0 \<or> accs = [] then concat (map (big_endian 5) accs)
                else concat (map (big_endian 5) (butlast accs)) @ take ((43 - 5 * pads) div 8) (big_endian 5 (last accs * 32 ^ pads))))"

definition hex_value :: "char \<Rightarrow> nat option" where
  "hex_value c = (let n = byte c in if 48 \<le> n \<and> n \<le> 57 then Some (n - 48) else if 97 \<le> n \<and> n \<le> 102 then Some (n - 87)
     else if 65 \<le> n \<and> n \<le> 70 then Some (n - 55) else None)"

fun fromhex :: "string \<Rightarrow> string option" where
  "fromhex [] = Some []"
| "fromhex (c # cs) =
     (if byte c \<in> {9, 10, 11, 12, 13, 32} then fromhex cs
      else case (hex_value c, cs) of
        (Some h, d # ds) \<Rightarrow> (case hex_value d of None \<Rightarrow> None | Some l \<Rightarrow> map_option (Cons (char_of (h * 16 + l))) (fromhex ds))
      | _ \<Rightarrow> None)"

definition hex_text :: "string \<Rightarrow> string" where
  "hex_text bs = concat (map (\<lambda>b. [hex_digit (byte b div 16), hex_digit (byte b mod 16)]) bs)"

section \<open>Password hashes\<close>

fun split_on :: "char \<Rightarrow> string \<Rightarrow> string list" where
  "split_on d [] = [[]]"
| "split_on d (c # cs) = (if c = d then [] # split_on d cs else (case split_on d cs of [] \<Rightarrow> [[c]] | p # ps \<Rightarrow> (c # p) # ps))"

definition PBKDF2_ALGORITHM :: string where "PBKDF2_ALGORITHM = ''sha256''"

definition ALLOWED_ALGORITHMS :: "string list" where "ALLOWED_ALGORITHMS = [''sha256'', ''sha512'']"

definition hash_password :: "crypto \<Rightarrow> string \<Rightarrow> string \<Rightarrow> string res" where
  "hash_password cr salt password =
     (if password = [] then Inl (DomainErr ''password must not be empty'')
      else Inr (join_with ''$'' [''pbkdf2_'' @ PBKDF2_ALGORITHM, str_int (cr_iterations cr), hex_text salt,
                  hex_text (cr_pbkdf2 cr PBKDF2_ALGORITHM password salt (cr_iterations cr))]))"

text \<open>A stored hash whose salt is no hexadecimal text, or whose round count is out of range, is an error of the library call.\<close>

definition verify_password :: "crypto \<Rightarrow> string \<Rightarrow> string option \<Rightarrow> bool res" where
  "verify_password cr password stored =
     (if \<not> nonempty stored then Inr False
      else case split_on (CHR ''$'') (the stored) of
        [scheme, iterations, salt_hex, expected_hex] \<Rightarrow>
          (if \<not> starts_with ''pbkdf2_'' scheme then Inr False
           else let algorithm = drop 7 scheme in
             if algorithm \<notin> set ALLOWED_ALGORITHMS then Inr False
             else case int_of_text iterations of
               None \<Rightarrow> Inr False
             | Some rounds \<Rightarrow>
                 (case fromhex salt_hex of
                    None \<Rightarrow> Inl (ValueErr ''non-hexadecimal number found in fromhex() arg'')
                  | Some salt \<Rightarrow>
                      if rounds < 1 then Inl (ValueErr ''iteration value must be greater than 0.'')
                      else if 2147483647 < rounds then Inl (RuntimeErr ''OverflowError'')
                      else compare_digest (hex_text (cr_pbkdf2 cr algorithm password salt rounds)) expected_hex))
      | _ \<Rightarrow> Inr False)"

definition needs_rehash :: "crypto \<Rightarrow> string option \<Rightarrow> bool" where
  "needs_rehash cr stored =
     (\<not> nonempty stored \<or>
      (case split_on (CHR ''$'') (the stored) of
         [scheme, iterations, _, _] \<Rightarrow>
           \<not> starts_with ''pbkdf2_'' scheme \<or> drop 7 scheme \<noteq> PBKDF2_ALGORITHM \<or>
           (case int_of_text iterations of None \<Rightarrow> True | Some n \<Rightarrow> n < cr_iterations cr)
       | _ \<Rightarrow> True))"

section \<open>One-time codes\<close>

definition STEP_SECONDS :: int where "STEP_SECONDS = 30"

definition DIGITS :: nat where "DIGITS = 6"

definition DRIFT_STEPS :: int where "DRIFT_STEPS = 1"

text \<open>The six digits of a code, with leading zeros.\<close>

definition code_text :: "int \<Rightarrow> string" where
  "code_text n = map (\<lambda>i. char_of (48 + n div 10 ^ i mod 10)) (rev [0..<DIGITS])"

definition hotp :: "crypto \<Rightarrow> string \<Rightarrow> int \<Rightarrow> string" where
  "hotp cr key counter =
     (let digest = cr_hmac_sha1 cr key (big_endian 8 counter); offset = byte (last digest) mod 16;
          n = foldl (\<lambda>acc b. acc * 256 + (of_char b :: int)) 0 (take 4 (drop offset digest))
      in code_text (n mod 2 ^ 31 mod 10 ^ DIGITS))"

definition current_counter :: "env \<Rightarrow> int" where
  "current_counter e = env_now e div (STEP_SECONDS * usec_per_sec)"

text \<open>\<open>str.isdigit\<close>: the superscript digits count as well.\<close>

definition py_isdigit :: "char \<Rightarrow> bool" where
  "py_isdigit c \<longleftrightarrow> is_digit c \<or> byte c \<in> {178, 179, 185}"

fun match_counter :: "crypto \<Rightarrow> string \<Rightarrow> string \<Rightarrow> int \<Rightarrow> int list \<Rightarrow> int option res" where
  "match_counter cr key code lowest [] = Inr None"
| "match_counter cr key code lowest (k # ks) =
     (if k \<le> lowest then match_counter cr key code lowest ks
      else ebind (compare_digest (hotp cr key k) code) (\<lambda>same. if same then Inr (Some k) else match_counter cr key code lowest ks))"

definition verify_code :: "crypto \<Rightarrow> env \<Rightarrow> string \<Rightarrow> string \<Rightarrow> int option \<Rightarrow> int option res" where
  "verify_code cr e secret_b32 code last_counter =
     (let code1 = filter (\<lambda>c. c \<noteq> CHR '' '') (py_strip code) in
      if length code1 \<noteq> DIGITS \<or> \<not> list_all py_isdigit code1 then Inr None
      else case b32decode secret_b32 of
        None \<Rightarrow> Inr None
      | Some key \<Rightarrow>
          match_counter cr key code1 (case last_counter of None \<Rightarrow> - 1 | Some c \<Rightarrow> c)
            [current_counter e - DRIFT_STEPS..current_counter e + DRIFT_STEPS])"

section \<open>Stored secrets\<close>

text \<open>The settings, read; the ring is the parsed text, \<open>Some None\<close> when it is no JSON.\<close>

record secret_config =
  sc_key :: "string option"
  sc_keys :: "json option option"
  sc_primary :: "string option"
  sc_allow_plaintext :: "string option"

definition decode_key :: "json \<Rightarrow> string \<Rightarrow> string res" where
  "decode_key raw label =
     (case raw of
        JStr t \<Rightarrow>
          (case urlsafe_b64decode (t @ replicate (nat ((- int (length t)) mod 4)) (CHR ''='')) of
             None \<Rightarrow> Inl (RuntimeErr (label @ '' is not valid base64''))
           | Some key \<Rightarrow> if length key \<noteq> 32 then Inl (RuntimeErr (label @ '' must decode to exactly 32 bytes'')) else Inr key)
      | _ \<Rightarrow> Inl (RuntimeErr (label @ '' is not valid base64'')))"

text \<open>\<open>ring[kid] = key\<close>: the place of an id already there is kept.\<close>

fun ring_put :: "string \<Rightarrow> string \<Rightarrow> keyring \<Rightarrow> keyring" where
  "ring_put kid key [] = [(kid, key)]"
| "ring_put kid key ((k, v) # ring) = (if k = kid then (k, key) # ring else (k, v) # ring_put kid key ring)"

definition add_secret_key :: "string \<times> json \<Rightarrow> keyring \<Rightarrow> keyring res" where
  "add_secret_key = (\<lambda>(kid, value) ring.
     if CHR '':'' \<in> set kid \<or> kid = [] then Inl (RuntimeErr (''secret key ids must be non-empty strings without '' @ sq @ '':'' @ sq))
     else ebind (decode_key value (''NORINTH_SECRET_KEYS['' @ sq @ kid @ sq @ '']'')) (\<lambda>key. Inr (ring_put kid key ring)))"

definition secret_keyring :: "secret_config \<Rightarrow> keyring res" where
  "secret_keyring c =
     ebind (if nonempty (sc_key c) then ebind (decode_key (JStr (the (sc_key c))) ''NORINTH_SECRET_KEY'') (\<lambda>key. Inr [(''legacy'', key)]) else Inr [])
       (\<lambda>ring. case sc_keys c of
          None \<Rightarrow> Inr ring
        | Some None \<Rightarrow> Inl (RuntimeErr ''NORINTH_SECRET_KEYS is not valid JSON'')
        | Some (Some (JObj entries)) \<Rightarrow>
            if entries = [] then Inl (RuntimeErr ''NORINTH_SECRET_KEYS must be a non-empty JSON object of {id: base64 key}'')
            else efold add_secret_key entries ring
        | Some (Some _) \<Rightarrow> Inl (RuntimeErr ''NORINTH_SECRET_KEYS must be a non-empty JSON object of {id: base64 key}''))"

definition primary_key_id :: "secret_config \<Rightarrow> string option res" where
  "primary_key_id c =
     ebind (secret_keyring c) (\<lambda>ring.
     if nonempty (sc_primary c) then
       (let explicit = the (sc_primary c) in
        if map_of ring explicit = None
        then Inl (RuntimeErr (''NORINTH_SECRET_PRIMARY '' @ sq @ explicit @ sq @ '' is not present in the keyring'')) else Inr (Some explicit))
     else if sc_keys c \<noteq> None
     then Inl (RuntimeErr ''NORINTH_SECRET_KEYS is set; also set NORINTH_SECRET_PRIMARY to name the active key'')
     else Inr (if map_of ring ''legacy'' \<noteq> None then Some ''legacy'' else None))"

definition master_key :: "secret_config \<Rightarrow> string option res" where
  "master_key c =
     ebind (primary_key_id c) (\<lambda>primary. case primary of
       None \<Rightarrow> Inr None
     | Some p \<Rightarrow> ebind (secret_keyring c) (\<lambda>ring. case map_of ring p of None \<Rightarrow> Inl KeyErr | Some key \<Rightarrow> Inr (Some key)))"

definition encryption_enabled :: "secret_config \<Rightarrow> bool res" where
  "encryption_enabled c = ebind (master_key c) (\<lambda>k. Inr (k \<noteq> None))"

definition plaintext_allowed :: "secret_config \<Rightarrow> bool" where
  "plaintext_allowed c \<longleftrightarrow> py_lower (case sc_allow_plaintext c of None \<Rightarrow> ''0'' | Some t \<Rightarrow> t) \<in> {''1'', ''true'', ''yes''}"

definition aesgcm_decrypt :: "crypto \<Rightarrow> string \<Rightarrow> string \<Rightarrow> string \<Rightarrow> string \<Rightarrow> string option" where
  "aesgcm_decrypt cr key nonce_b64 ct_b64 associated_data =
     (case (urlsafe_b64decode nonce_b64, urlsafe_b64decode ct_b64) of
        (Some nonce, Some ciphertext) \<Rightarrow> cr_open cr key nonce ciphertext associated_data
      | _ \<Rightarrow> None)"

definition require_binding :: "string \<Rightarrow> unit res" where
  "require_binding associated_data =
     (if associated_data = [] then Inl (ValueErr ''associated_data must be a non-empty context binding (e.g. the tenant id or record key)'')
      else Inr ())"

definition encrypt :: "crypto \<Rightarrow> secret_config \<Rightarrow> string \<Rightarrow> string \<Rightarrow> string \<Rightarrow> string res" where
  "encrypt cr c nonce value associated_data =
     ebind (require_binding associated_data) (\<lambda>_. ebind (primary_key_id c) (\<lambda>primary.
     case primary of
       None \<Rightarrow> if plaintext_allowed c then Inr value else Inl (RuntimeErr
           (''Refusing to store a secret without encryption. Set NORINTH_SECRET_KEY (or NORINTH_SECRET_KEYS + NORINTH_SECRET_PRIMARY), '' @
            ''or set NORINTH_ALLOW_PLAINTEXT_SECRETS=1 to allow plaintext (development only).''))
     | Some p \<Rightarrow> ebind (secret_keyring c) (\<lambda>ring.
         case map_of ring p of
           None \<Rightarrow> Inl KeyErr
         | Some key \<Rightarrow> Inr (''enc:v2:'' @ p @ '':'' @ urlsafe_b64encode nonce @ '':'' @
             urlsafe_b64encode (cr_seal cr key nonce value associated_data)))))"

fun partition_at :: "char \<Rightarrow> string \<Rightarrow> string \<times> string" where
  "partition_at d [] = ([], [])"
| "partition_at d (c # cs) = (if c = d then ([], cs) else let (a, b) = partition_at d cs in (c # a, b))"

definition decrypt_failed :: err where
  "decrypt_failed = RuntimeErr ''stored secret could not be decrypted (wrong key or corrupted value)''"

fun first_key :: "crypto \<Rightarrow> string \<Rightarrow> string \<Rightarrow> string \<Rightarrow> string list \<Rightarrow> string res" where
  "first_key cr nonce ct associated_data [] = Inl decrypt_failed"
| "first_key cr nonce ct associated_data (k # ks) =
     (case aesgcm_decrypt cr k nonce ct associated_data of Some v \<Rightarrow> Inr v | None \<Rightarrow> first_key cr nonce ct associated_data ks)"

definition decrypt :: "crypto \<Rightarrow> secret_config \<Rightarrow> string \<Rightarrow> string \<Rightarrow> string res" where
  "decrypt cr c stored associated_data =
     ebind (require_binding associated_data) (\<lambda>_.
     if starts_with ''enc:v2:'' stored then
       ebind (secret_keyring c) (\<lambda>ring.
         let (kid, tail) = partition_at (CHR '':'') (drop 7 stored); (nonce, ct) = partition_at (CHR '':'') tail in
         case map_of ring kid of
           None \<Rightarrow> Inl (RuntimeErr (''a stored secret was encrypted under key '' @ sq @ kid @ sq @ '', which is not in the configured keyring''))
         | Some key \<Rightarrow> (case aesgcm_decrypt cr key nonce ct associated_data of None \<Rightarrow> Inl decrypt_failed | Some v \<Rightarrow> Inr v))
     else if starts_with ''enc:v1:'' stored then
       ebind (secret_keyring c) (\<lambda>ring.
         if ring = [] then Inl (RuntimeErr ''a stored secret is encrypted but no secret key is configured'')
         else let (nonce, ct) = partition_at (CHR '':'') (drop 7 stored) in first_key cr nonce ct associated_data (map snd ring))
     else Inr stored)"

section \<open>The codecs read back what they write\<close>

lemma byte_b64_char:
  "k < 64 \<Longrightarrow> byte (b64_char k) = (if k < 26 then k + 65 else if k < 52 then k + 71 else if k < 62 then k - 4 else if k = 62 then 45 else 95)"
  by (simp add: b64_char_def of_char_of)

lemma b64_char_facts:
  assumes "k < 64"
  shows "b64_value (b64_char k) = Some k" "b64_char k \<noteq> CHR ''=''" "b64_char k \<noteq> CHR '':''" "byte (b64_char k) < 128"
proof -
  note b = byte_b64_char [OF assms]
  show "b64_value (b64_char k) = Some k" using assms unfolding b64_value_def b Let_def by auto
  have "byte (b64_char k) \<noteq> byte CHR ''=''" "byte (b64_char k) \<noteq> byte CHR '':''" unfolding b by auto
  then show "b64_char k \<noteq> CHR ''=''" "b64_char k \<noteq> CHR '':''" by metis+
  show "byte (b64_char k) < 128" unfolding b using assms by auto
qed

lemma byte_less: "byte c < 256"
  by (metis nat_of_char_less_256)

lemma b64_parts:
  "byte a div 4 < 64" "byte a mod 4 * 16 + byte b div 16 < 64" "byte b mod 16 * 4 + byte c div 64 < 64" "byte c mod 64 < 64"
  "byte a mod 4 * 16 < 64" "byte b mod 16 * 4 < 64"
proof -
  have "byte b div 16 < 16" "byte c div 64 < 4" "byte a div 4 < 64"
    using byte_less [of a] byte_less [of b] byte_less [of c] by (simp_all add: less_mult_imp_div_less)
  moreover have "byte a mod 4 \<le> 3" "byte b mod 16 \<le> 15" by simp_all
  ultimately show "byte a div 4 < 64" "byte a mod 4 * 16 + byte b div 16 < 64" "byte b mod 16 * 4 + byte c div 64 < 64"
    "byte c mod 64 < 64" "byte a mod 4 * 16 < 64" "byte b mod 16 * 4 < 64" by linarith+
qed

lemma b64_bytes:
  "char_of (byte a div 4 * 4 + (byte a mod 4 * 16 + byte b div 16) div 16) = a"
  "char_of ((byte a mod 4 * 16 + byte b div 16) mod 16 * 16 + (byte b mod 16 * 4 + byte c div 64) div 4) = b"
  "char_of ((byte b mod 16 * 4 + byte c div 64) mod 4 * 64 + byte c mod 64) = c"
proof -
  have b: "byte b div 16 < 16" and c: "byte c div 64 < 4"
    using byte_less [of b] byte_less [of c] by (simp_all add: less_mult_imp_div_less)
  have "byte a div 4 * 4 + (byte a mod 4 * 16 + byte b div 16) div 16 = byte a"
    using b by (simp add: div_mult_self4 div_mult_mod_eq)
  then show "char_of (byte a div 4 * 4 + (byte a mod 4 * 16 + byte b div 16) div 16) = a" by simp
  have "(byte a mod 4 * 16 + byte b div 16) mod 16 * 16 + (byte b mod 16 * 4 + byte c div 64) div 4 = byte b"
    using b c by (simp add: div_mult_mod_eq)
  then show "char_of ((byte a mod 4 * 16 + byte b div 16) mod 16 * 16 + (byte b mod 16 * 4 + byte c div 64) div 4) = b" by simp
  have "(byte b mod 16 * 4 + byte c div 64) mod 4 * 64 + byte c mod 64 = byte c"
    using c by (simp add: div_mult_mod_eq)
  then show "char_of ((byte b mod 16 * 4 + byte c div 64) mod 4 * 64 + byte c mod 64) = c" by simp
qed

lemma b64_scan_encode: "b64_scan 0 0 0 (urlsafe_b64encode bs) = Some bs"
proof (induction bs rule: urlsafe_b64encode.induct)
  case (2 a)
  show ?case using b64_bytes(1) [of a "char_of (0::nat)"] b64_parts(1,5) [of a]
    by (simp add: b64_char_facts)
next
  case (3 a b)
  show ?case using b64_bytes(1) [of a b] b64_bytes(2) [of a b "char_of (0::nat)"] b64_parts(1) [of a] b64_parts(2) [of a b] b64_parts(6) [of b]
    by (simp add: b64_char_facts)
next
  case (4 a b c rest)
  then show ?case using b64_bytes(1) [of a b] b64_bytes(2) [of a b c] b64_bytes(3) [of b c] b64_parts(1) [of a] b64_parts(2) [of a b] b64_parts(3) [of b c] b64_parts(4) [of c] by (simp add: b64_char_facts)
qed simp

lemma b64_encode_chars: "ch \<in> set (urlsafe_b64encode bs) \<Longrightarrow> byte ch < 128 \<and> ch \<noteq> CHR '':''"
  by (induction bs rule: urlsafe_b64encode.induct) (auto simp: b64_char_facts b64_parts)

theorem b64_roundtrip: "urlsafe_b64decode (urlsafe_b64encode bs) = Some bs"
  using b64_scan_encode [of bs] b64_encode_chars [of _ bs] by (simp add: urlsafe_b64decode_def ascii_def list_all_iff)

lemma partition_at_first: "d \<notin> set a \<Longrightarrow> partition_at d (a @ d # b) = (a, b)"
  by (induction a) auto

end
