(* ===== verification/Sign_In.thy ===== *)
theory Sign_In
  imports Credentials
begin

text \<open>
  Signing in (api/auth.py) and its second factor (storage/mfa.py): the password step, the challenge it leaves on an enrolled account, the
  code or recovery code that redeems it, enrolment and its end, password changes and invitations. The statements of a route commit one by one, so a refused request keeps what it wrote; a
  reply is the state after it, the audit entries it asked for and the answer. A session cookie is its token, the client's address is what the
  request carries, tokens, salts and nonces are arguments. The profile that an answer shows and the flags of the cookie are left out.
\<close>

type_synonym 'a reply = "db \<times> audit_req list \<times> 'a res"

section \<open>storage/mfa.py\<close>

definition hash_opaque :: "env \<Rightarrow> string \<Rightarrow> string" where
  "hash_opaque e value = env_sha256 e value"

definition set_pending_secret :: "env \<Rightarrow> string \<Rightarrow> string \<Rightarrow> db \<Rightarrow> db" where
  "set_pending_secret e user_ref secret = update_user user_ref (\<lambda>u. u\<lparr>pu_mfa_pending_secret := Some secret, pu_updated_at := db_now e\<rparr>)"

definition activate_mfa :: "env \<Rightarrow> string \<Rightarrow> db \<Rightarrow> db" where
  "activate_mfa e user_ref s =
     s\<lparr>platform_users := update_where (\<lambda>u. pu_user_ref u = user_ref \<and> pu_mfa_pending_secret u \<noteq> None)
       (\<lambda>u. u\<lparr>pu_mfa_secret := pu_mfa_pending_secret u, pu_mfa_pending_secret := None, pu_mfa_enabled_at := Some (env_now e),
              pu_mfa_last_counter := None, pu_updated_at := db_now e\<rparr>) (platform_users s)\<rparr>"

definition clear_mfa :: "env \<Rightarrow> string \<Rightarrow> db \<Rightarrow> db" where
  "clear_mfa e user_ref s =
     (update_user user_ref (\<lambda>u. u\<lparr>pu_mfa_secret := None, pu_mfa_pending_secret := None, pu_mfa_enabled_at := None,
        pu_mfa_last_counter := None, pu_updated_at := db_now e\<rparr>) s)
       \<lparr>mfa_recovery_codes := delete_where (\<lambda>r. mr_user_ref r = user_ref) (mfa_recovery_codes s),
        mfa_challenges := delete_where (\<lambda>r. mc_user_ref r = user_ref) (mfa_challenges s)\<rparr>"

definition record_used_counter :: "string \<Rightarrow> int \<Rightarrow> db \<Rightarrow> db" where
  "record_used_counter user_ref counter s =
     s\<lparr>platform_users := update_where
       (\<lambda>u. pu_user_ref u = user_ref \<and> (case pu_mfa_last_counter u of None \<Rightarrow> True | Some c \<Rightarrow> c < counter))
       (\<lambda>u. u\<lparr>pu_mfa_last_counter := Some counter\<rparr>) (platform_users s)\<rparr>"

definition code_key :: "recovery_code \<Rightarrow> string \<times> string" where
  "code_key r = (mr_user_ref r, mr_code_hash r)"

definition insert_code :: "env \<Rightarrow> string \<Rightarrow> string \<Rightarrow> recovery_code list \<Rightarrow> recovery_code list res" where
  "insert_code e user_ref h rows =
     (if (user_ref, h) \<in> set (map code_key rows) then Inl (RuntimeErr ''IntegrityError'')
      else Inr (rows @ [\<lparr>mr_user_ref = user_ref, mr_code_hash = h, mr_created_at = env_now e, mr_used_at = None\<rparr>]))"

definition replace_recovery_codes :: "env \<Rightarrow> string \<Rightarrow> string list \<Rightarrow> db \<Rightarrow> db res" where
  "replace_recovery_codes e user_ref code_hashes s =
     ebind (efold (insert_code e user_ref) code_hashes (delete_where (\<lambda>r. mr_user_ref r = user_ref) (mfa_recovery_codes s)))
       (\<lambda>rows. Inr (s\<lparr>mfa_recovery_codes := rows\<rparr>))"

definition unused_code :: "string \<Rightarrow> string \<Rightarrow> recovery_code \<Rightarrow> bool" where
  "unused_code user_ref h r \<longleftrightarrow> mr_user_ref r = user_ref \<and> mr_code_hash r = h \<and> mr_used_at r = None"

definition consume_recovery_code :: "env \<Rightarrow> string \<Rightarrow> string \<Rightarrow> db \<Rightarrow> db \<times> bool" where
  "consume_recovery_code e user_ref h s =
     (s\<lparr>mfa_recovery_codes := update_where (unused_code user_ref h) (\<lambda>r. r\<lparr>mr_used_at := Some (env_now e)\<rparr>) (mfa_recovery_codes s)\<rparr>,
      exists_row (unused_code user_ref h) (mfa_recovery_codes s))"

definition count_unused_recovery_codes :: "string \<Rightarrow> db \<Rightarrow> int" where
  "count_unused_recovery_codes user_ref s =
     int (length (filter (\<lambda>r. mr_user_ref r = user_ref \<and> mr_used_at r = None) (mfa_recovery_codes s)))"

definition create_challenge :: "env \<Rightarrow> string \<Rightarrow> string \<Rightarrow> int \<Rightarrow> db \<Rightarrow> db res" where
  "create_challenge e token_hash user_ref expires_at s =
     (let rows = delete_where (\<lambda>r. mc_expires_at r \<le> env_now e) (delete_where (\<lambda>r. mc_user_ref r = user_ref) (mfa_challenges s)) in
      if token_hash \<in> set (map mc_token rows) then Inl (RuntimeErr ''IntegrityError'')
      else Inr (s\<lparr>mfa_challenges := rows @ [\<lparr>mc_token = token_hash, mc_user_ref = user_ref, mc_attempts = 0,
             mc_created_at = env_now e, mc_expires_at = expires_at\<rparr>]\<rparr>))"

definition load_challenge :: "env \<Rightarrow> string \<Rightarrow> db \<Rightarrow> mfa_challenge option" where
  "load_challenge e token_hash s = find (\<lambda>r. mc_token r = token_hash \<and> env_now e < mc_expires_at r) (mfa_challenges s)"

definition register_challenge_attempt :: "string \<Rightarrow> int \<Rightarrow> db \<Rightarrow> db" where
  "register_challenge_attempt token_hash cap s =
     s\<lparr>mfa_challenges := delete_where (\<lambda>r. mc_token r = token_hash \<and> cap \<le> mc_attempts r)
        (update_where (\<lambda>r. mc_token r = token_hash) (\<lambda>r. r\<lparr>mc_attempts := mc_attempts r + 1\<rparr>) (mfa_challenges s))\<rparr>"

definition consume_challenge :: "string \<Rightarrow> db \<Rightarrow> db" where
  "consume_challenge token_hash s = s\<lparr>mfa_challenges := delete_where (\<lambda>r. mc_token r = token_hash) (mfa_challenges s)\<rparr>"

section \<open>The request and the settings\<close>

definition MFA_CHALLENGE_TTL_MINUTES :: int where "MFA_CHALLENGE_TTL_MINUTES = 5"

definition MFA_CHALLENGE_MAX_ATTEMPTS :: int where "MFA_CHALLENGE_MAX_ATTEMPTS = 5"

definition RECOVERY_CODE_COUNT :: nat where "RECOVERY_CODE_COUNT = 10"

definition MFA_AAD_PREFIX :: string where "MFA_AAD_PREFIX = ''mfa-totp:''"

record auth_platform =
  ap_crypto :: crypto
  ap_auth :: auth_cfg
  ap_secrets :: secret_config

record http_request =
  hr_forwarded_for :: "string option"
  hr_client_host :: "string option"

definition client_ip :: "env \<Rightarrow> http_request \<Rightarrow> string option res" where
  "client_ip e q =
     (let parts = filter (\<lambda>p. p \<noteq> []) (map py_strip (split_on (CHR '','') (or_str (hr_forwarded_for q) []))) in
      if py_lower (case env_getenv e ''NORINTH_TRUST_PROXY'' of None \<Rightarrow> ''0'' | Some t \<Rightarrow> t) \<in> {''1'', ''true'', ''yes''} \<and>
         nonempty (hr_forwarded_for q) \<and> parts \<noteq> [] then
        (case int_of_text (case env_getenv e ''NORINTH_TRUSTED_PROXY_HOPS'' of None \<Rightarrow> ''1'' | Some t \<Rightarrow> t) of
           None \<Rightarrow> Inl (ValueErr ''invalid literal for int() with base 10'')
         | Some n \<Rightarrow> Inr (Some (parts ! (length parts - nat (max 1 n)))))
      else Inr (hr_client_host q))"

definition source_detail :: "string option \<Rightarrow> json" where
  "source_detail ip = JObj [(''source_ip'', opt_json ip)]"

definition entry :: "string \<Rightarrow> string \<Rightarrow> string option \<Rightarrow> json option \<Rightarrow> audit_req" where
  "entry who action tenant detail =
     \<lparr>aq_actor_ref = who, aq_action = action, aq_tenant_id = tenant, aq_target_type = None, aq_target_id = None, aq_detail = detail\<rparr>"

definition active_user :: "db \<Rightarrow> string \<Rightarrow> platform_user option" where
  "active_user s user_ref =
     (case load_platform_user s user_ref of None \<Rightarrow> None | Some u \<Rightarrow> if pu_status u = ''active'' then Some u else None)"

definition has_factor :: "platform_user \<Rightarrow> bool" where
  "has_factor u \<longleftrightarrow> pu_mfa_enabled_at u \<noteq> None \<and> nonempty (pu_mfa_secret u)"

section \<open>Signing in\<close>

datatype signed_in = MfaRequired string | SessionFor string string

definition finish_login :: "auth_platform \<Rightarrow> env \<Rightarrow> string \<Rightarrow> platform_user \<Rightarrow> string option \<Rightarrow> db \<Rightarrow> signed_in reply" where
  "finish_login p e session_token u mfa_method s =
     (case create_session e (ap_auth p) session_token (pu_user_ref u) s of
        Inl x \<Rightarrow> (purge_expired_sessions e s, [], Inl x)
      | Inr (s1, cookie) \<Rightarrow>
          (s1, [entry (pu_user_ref u) ''auth.login'' (pu_tenant_id u) (map_option (\<lambda>m. JObj [(''mfa'', JStr m)]) mfa_method)],
           Inr (SessionFor cookie (pu_user_ref u))))"

record login_request =
  lq_email :: string
  lq_password :: string
  lq_from :: http_request

record login_random =
  lr_session :: string
  lr_challenge :: string
  lr_salt :: string

definition login_failed :: "auth_platform \<Rightarrow> env \<Rightarrow> login_request \<Rightarrow> string option \<Rightarrow> platform_user option \<Rightarrow> db \<Rightarrow> signed_in reply" where
  "login_failed p e q ip user s =
     (let account = email_subject (lq_email q); source = ip_subject ip;
          (s1, locked1) = register_failure e (ap_auth p) account s;
          (s2, locked2) = register_failure e (ap_auth p) source s1;
          newly = (if locked1 then [account] else []) @ (if locked2 then [source] else []);
          attempted = normalize_email (lq_email q); tenant = Option.bind user pu_tenant_id
      in (s2, entry attempted ''auth.login_failed'' tenant (Some (JObj [(''source_ip'', opt_json ip), (''account_exists'', JBool (user \<noteq> None))])) #
             (if newly = [] then [] else [entry attempted ''auth.lockout'' tenant
                (Some (JObj [(''subjects'', JArr (map JStr newly)), (''source_ip'', opt_json ip)]))]),
          Inl (AuthErr ''Invalid email or password'')))"

definition after_password :: "auth_platform \<Rightarrow> env \<Rightarrow> login_random \<Rightarrow> platform_user \<Rightarrow> db \<Rightarrow> signed_in reply" where
  "after_password p e rnd u s =
     (if has_factor u then
        (case create_challenge e (hash_opaque e (lr_challenge rnd)) (pu_user_ref u) (env_now e + minutes MFA_CHALLENGE_TTL_MINUTES) s of
           Inl x \<Rightarrow> (s, [], Inl x)
         | Inr s1 \<Rightarrow> (s1, [], Inr (MfaRequired (lr_challenge rnd))))
      else finish_login p e (lr_session rnd) u None s)"

definition login_accepted :: "auth_platform \<Rightarrow> env \<Rightarrow> login_random \<Rightarrow> login_request \<Rightarrow> platform_user \<Rightarrow> db \<Rightarrow> signed_in reply" where
  "login_accepted p e rnd q u s =
     (let s1 = clear_attempts (email_subject (lq_email q)) s in
      if needs_rehash (ap_crypto p) (pu_password_hash u) then
        (case hash_password (ap_crypto p) (lr_salt rnd) (lq_password q) of
           Inl x \<Rightarrow> (s1, [], Inl x)
         | Inr h \<Rightarrow> after_password p e rnd u (upgrade_password_hash e (pu_user_ref u) h s1))
      else after_password p e rnd u s1)"

definition login :: "auth_platform \<Rightarrow> env \<Rightarrow> login_random \<Rightarrow> login_request \<Rightarrow> db \<Rightarrow> signed_in reply" where
  "login p e rnd q s =
     (case client_ip e (lq_from q) of
        Inl x \<Rightarrow> (s, [], Inl x)
      | Inr ip \<Rightarrow>
          if is_locked e (email_subject (lq_email q)) s \<or> is_locked e (ip_subject ip) s
          then (s, [], Inl (DomainErr ''Too many failed login attempts. Try again later.''))
          else let user = get_user_by_email s (lq_email q) in
            (case user of
               None \<Rightarrow> login_failed p e q ip user s
             | Some u \<Rightarrow>
                 if pu_status u \<noteq> ''active'' then login_failed p e q ip user s
                 else case verify_password (ap_crypto p) (lq_password q) (pu_password_hash u) of
                   Inl x \<Rightarrow> (s, [], Inl x)
                 | Inr False \<Rightarrow> login_failed p e q ip user s
                 | Inr True \<Rightarrow> login_accepted p e rnd q u s))"

section \<open>The second factor\<close>

definition decrypt_secret :: "auth_platform \<Rightarrow> string \<Rightarrow> string option \<Rightarrow> string option" where
  "decrypt_secret p user_ref stored =
     (if \<not> nonempty stored then None
      else case decrypt (ap_crypto p) (ap_secrets p) (the stored) (MFA_AAD_PREFIX @ user_ref) of Inl _ \<Rightarrow> None | Inr v \<Rightarrow> Some v)"

record verify_request =
  mv_challenge :: string
  mv_code :: "string option"
  mv_recovery_code :: "string option"
  mv_from :: http_request

text \<open>The code of a request against the secret the user is enrolled with.\<close>

definition accepted_counter :: "auth_platform \<Rightarrow> env \<Rightarrow> platform_user \<Rightarrow> string \<Rightarrow> int option res" where
  "accepted_counter p e u code =
     (case decrypt_secret p (pu_user_ref u) (pu_mfa_secret u) of
        Some secret \<Rightarrow> if secret = [] then Inr None else verify_code (ap_crypto p) e secret code (pu_mfa_last_counter u)
      | None \<Rightarrow> Inr None)"

definition mfa_refused :: "env \<Rightarrow> verify_request \<Rightarrow> platform_user \<Rightarrow> db \<Rightarrow> signed_in reply" where
  "mfa_refused e q u s =
     (let s1 = register_challenge_attempt (hash_opaque e (mv_challenge q)) MFA_CHALLENGE_MAX_ATTEMPTS s in
      case client_ip e (mv_from q) of
        Inl x \<Rightarrow> (s1, [], Inl x)
      | Inr ip \<Rightarrow> (s1, [entry (pu_user_ref u) ''auth.mfa_failed'' (pu_tenant_id u) (Some (source_detail ip))],
                   Inl (AuthErr ''That code was not accepted'')))"

definition add_entries :: "audit_req list \<Rightarrow> 'a reply \<Rightarrow> 'a reply" where
  "add_entries es = (\<lambda>(s, fs, r). (s, es @ fs, r))"

definition mfa_verify :: "auth_platform \<Rightarrow> env \<Rightarrow> string \<Rightarrow> verify_request \<Rightarrow> db \<Rightarrow> signed_in reply" where
  "mfa_verify p e session_token q s =
     (let h = hash_opaque e (mv_challenge q) in
      case load_challenge e h s of
        None \<Rightarrow> (s, [], Inl (AuthErr ''Challenge is invalid or expired; sign in again''))
      | Some challenge \<Rightarrow>
          (case active_user s (mc_user_ref challenge) of
             None \<Rightarrow> (consume_challenge h s, [], Inl (AuthErr ''This account is not active''))
           | Some u \<Rightarrow>
               if nonempty (mv_recovery_code q) then
                 let (s1, burned) = consume_recovery_code e (pu_user_ref u) (hash_opaque e (py_lower (py_strip (the (mv_recovery_code q))))) s in
                 if burned then
                   let s2 = consume_challenge h s1 in
                   add_entries [entry (pu_user_ref u) ''auth.mfa_recovery_used'' (pu_tenant_id u)
                       (Some (JObj [(''remaining'', JInt (count_unused_recovery_codes (pu_user_ref u) s2))]))]
                     (finish_login p e session_token u (Some ''recovery_code'') s2)
                 else mfa_refused e q u s1
               else if nonempty (mv_code q) then
                 (case accepted_counter p e u (the (mv_code q)) of
                    Inl x \<Rightarrow> (s, [], Inl x)
                  | Inr (Some counter) \<Rightarrow>
                      finish_login p e session_token u (Some ''totp'') (consume_challenge h (record_used_counter (pu_user_ref u) counter s))
                  | Inr None \<Rightarrow> mfa_refused e q u s)
               else mfa_refused e q u s))"

section \<open>Enrolment\<close>

definition mfa_setup :: "auth_platform \<Rightarrow> env \<Rightarrow> string \<Rightarrow> string \<Rightarrow> actor_context \<Rightarrow> db \<Rightarrow> string reply" where
  "mfa_setup p e secret nonce a s =
     (if (case load_platform_user s (ac_user_ref a) of None \<Rightarrow> False | Some u \<Rightarrow> has_factor u)
      then (s, [], Inl (DomainErr ''MFA is already enabled; disable it before re-enrolling''))
      else case encryption_enabled (ap_secrets p) of
        Inl x \<Rightarrow> (s, [], Inl x)
      | Inr enabled \<Rightarrow>
          if \<not> enabled \<and> \<not> nonempty (sc_allow_plaintext (ap_secrets p))
          then (s, [], Inl (DomainErr ''The server has no NORINTH_SECRET_KEY configured, so an MFA secret cannot be stored securely''))
          else case encrypt (ap_crypto p) (ap_secrets p) nonce secret (MFA_AAD_PREFIX @ ac_user_ref a) of
            Inl x \<Rightarrow> (s, [], Inl x)
          | Inr c \<Rightarrow> (set_pending_secret e (ac_user_ref a) c s, [], Inr secret))"

definition mfa_enable :: "auth_platform \<Rightarrow> env \<Rightarrow> string list \<Rightarrow> string \<Rightarrow> actor_context \<Rightarrow> db \<Rightarrow> string list reply" where
  "mfa_enable p e codes code a s =
     (case decrypt_secret p (ac_user_ref a) (Option.bind (load_platform_user s (ac_user_ref a)) pu_mfa_pending_secret) of
        None \<Rightarrow> (s, [], Inl (DomainErr ''No pending MFA enrollment; call setup first''))
      | Some secret \<Rightarrow>
          (case verify_code (ap_crypto p) e secret code None of
             Inl x \<Rightarrow> (s, [], Inl x)
           | Inr None \<Rightarrow> (s, [], Inl (DomainErr ''That code was not accepted; check the authenticator and try again''))
           | Inr (Some counter) \<Rightarrow>
               let s1 = record_used_counter (ac_user_ref a) counter (activate_mfa e (ac_user_ref a) s) in
               (case replace_recovery_codes e (ac_user_ref a) (map (hash_opaque e) codes) s1 of
                  Inl x \<Rightarrow> (s1, [], Inl x)
                | Inr s2 \<Rightarrow> (s2, [entry (ac_user_ref a) ''auth.mfa_enabled'' (ac_tenant_id a) None], Inr codes))))"

definition mfa_status :: "actor_context \<Rightarrow> db \<Rightarrow> bool \<times> int option \<times> int" where
  "mfa_status a s =
     (let u = load_platform_user s (ac_user_ref a); enabled = (case u of None \<Rightarrow> False | Some v \<Rightarrow> has_factor v) in
      (enabled, Option.bind u pu_mfa_enabled_at, if enabled then count_unused_recovery_codes (ac_user_ref a) s else 0))"

record disable_request =
  dq_password :: string
  dq_code :: "string option"
  dq_recovery_code :: "string option"
  dq_from :: http_request

definition mfa_disable_subject :: "string \<Rightarrow> string" where
  "mfa_disable_subject user_ref = ''mfa-disable:'' @ py_lower (py_strip user_ref)"

text \<open>Whether both factors were shown, and the state with a recovery code burned.\<close>

definition both_factors :: "auth_platform \<Rightarrow> env \<Rightarrow> disable_request \<Rightarrow> string \<Rightarrow> db \<Rightarrow> (db \<times> bool) res" where
  "both_factors p e q user_ref s =
     (case load_platform_user s user_ref of
        None \<Rightarrow> Inr (s, False)
      | Some u \<Rightarrow>
          ebind (verify_password (ap_crypto p) (dq_password q) (pu_password_hash u)) (\<lambda>known.
          if \<not> known then Inr (s, False)
          else if nonempty (dq_recovery_code q)
          then Inr (consume_recovery_code e user_ref (hash_opaque e (py_lower (py_strip (the (dq_recovery_code q))))) s)
          else if nonempty (dq_code q) then ebind (accepted_counter p e u (the (dq_code q))) (\<lambda>k. Inr (s, k \<noteq> None))
          else Inr (s, False)))"

definition mfa_disable :: "auth_platform \<Rightarrow> env \<Rightarrow> disable_request \<Rightarrow> actor_context \<Rightarrow> db \<Rightarrow> unit reply" where
  "mfa_disable p e q a s =
     (let subj = mfa_disable_subject (ac_user_ref a) in
      if is_locked e subj s then (s, [], Inl (DomainErr ''Too many failed attempts. Try again later.''))
      else case both_factors p e q (ac_user_ref a) s of
        Inl x \<Rightarrow> (s, [], Inl x)
      | Inr (s1, True) \<Rightarrow>
          (clear_mfa e (ac_user_ref a) (clear_attempts subj s1), [entry (ac_user_ref a) ''auth.mfa_disabled'' (ac_tenant_id a) None], Inr ())
      | Inr (s1, False) \<Rightarrow>
          let s2 = fst (register_failure e (ap_auth p) subj s1) in
          (case client_ip e (dq_from q) of
             Inl x \<Rightarrow> (s2, [], Inl x)
           | Inr ip \<Rightarrow> (s2, [entry (ac_user_ref a) ''auth.mfa_disable_failed'' (ac_tenant_id a) (Some (source_detail ip))],
                        Inl (AuthErr ''The password and a valid authenticator or recovery code are required''))))"

section \<open>Passwords, invitations and sign-out\<close>

definition logout :: "env \<Rightarrow> string option \<Rightarrow> db \<Rightarrow> db" where
  "logout e cookie s = end_session e cookie s"

definition reissue :: "auth_platform \<Rightarrow> env \<Rightarrow> string \<Rightarrow> string \<Rightarrow> audit_req \<Rightarrow> db \<Rightarrow> string reply" where
  "reissue p e session_token user_ref done_entry s =
     (let s1 = end_all_sessions user_ref s in
      case create_session e (ap_auth p) session_token user_ref s1 of
        Inl x \<Rightarrow> (purge_expired_sessions e s1, [], Inl x)
      | Inr (s2, cookie) \<Rightarrow> (s2, [done_entry], Inr cookie))"

definition change_password :: "auth_platform \<Rightarrow> env \<Rightarrow> string \<Rightarrow> string \<Rightarrow> string \<Rightarrow> string \<Rightarrow> actor_context \<Rightarrow> db \<Rightarrow> string reply" where
  "change_password p e session_token salt current new a s =
     (case load_platform_user s (ac_user_ref a) of
        None \<Rightarrow> (s, [], Inl (AuthErr ''Current password is incorrect''))
      | Some u \<Rightarrow>
          (case verify_password (ap_crypto p) current (pu_password_hash u) of
             Inl x \<Rightarrow> (s, [], Inl x)
           | Inr False \<Rightarrow> (s, [], Inl (AuthErr ''Current password is incorrect''))
           | Inr True \<Rightarrow>
               if new = current then (s, [], Inl (DomainErr ''New password must differ from the current password''))
               else case hash_password (ap_crypto p) salt new of
                 Inl x \<Rightarrow> (s, [], Inl x)
               | Inr h \<Rightarrow> reissue p e session_token (ac_user_ref a) (entry (ac_user_ref a) ''auth.change_password'' (ac_tenant_id a) None)
                     (set_user_password e (ac_user_ref a) h s)))"

definition invalid_invite :: err where
  "invalid_invite = NotFound ''This invite link is invalid, expired, or already used''"

definition invite_preview :: "env \<Rightarrow> string \<Rightarrow> db \<Rightarrow> (string \<times> string option \<times> string) res" where
  "invite_preview e invite_token s =
     (case peek_invite e invite_token s of
        None \<Rightarrow> Inl invalid_invite
      | Some i \<Rightarrow> Inr (iv_user_ref i, map_option pu_display_name (load_platform_user s (iv_user_ref i)),
          or_str (map_option og_name (load_organization s (iv_tenant_id i))) (iv_tenant_id i)))"

definition accept_invite :: "auth_platform \<Rightarrow> env \<Rightarrow> string \<Rightarrow> string \<Rightarrow> string \<Rightarrow> string \<Rightarrow> db \<Rightarrow> string reply" where
  "accept_invite p e session_token salt invite_token password s =
     (case peek_invite e invite_token s of
        None \<Rightarrow> (s, [], Inl invalid_invite)
      | Some i0 \<Rightarrow>
          if active_user s (iv_user_ref i0) = None
          then (s, [], Inl (AuthErr ''This account is not active''))
          else (case consume_invite e invite_token s of
             (s1, None) \<Rightarrow> (s1, [], Inl invalid_invite)
           | (s1, Some i) \<Rightarrow>
               (case hash_password (ap_crypto p) salt password of
                  Inl x \<Rightarrow> (s1, [], Inl x)
                | Inr h \<Rightarrow>
                    reissue p e session_token (iv_user_ref i)
                      \<lparr>aq_actor_ref = iv_user_ref i, aq_action = ''auth.accept_invite'', aq_tenant_id = Some (iv_tenant_id i),
                       aq_target_type = Some ''user'', aq_target_id = Some (iv_user_ref i), aq_detail = None\<rparr>
                      (set_user_password e (iv_user_ref i) h s1))))"

end
