(* ===== verification/Account_Admin.thy ===== *)
theory Account_Admin
  imports Sign_In
begin

text \<open>
  Administration of accounts (api/admin.py): users of an organization, one-time passwords issued by an operator or an administrator, the
  reset of a second factor, the organization's requirement of one, and the status of organizations. Each route is one transaction, so
  a refused request changes nothing. A generated one-time password and its salt are arguments.
\<close>

definition status_message :: string where
  "status_message = ''status must be '' @ sq @ ''active'' @ sq @ '' or '' @ sq @ ''suspended'' @ sq"

definition update_organization_status :: "env \<Rightarrow> actor_context \<Rightarrow> string \<Rightarrow> string \<Rightarrow> db \<Rightarrow> (db \<times> audit_req) res" where
  "update_organization_status e a tenant status s =
     ebind (require_super_admin a) (\<lambda>_.
     if status \<notin> {''active'', ''suspended''} then Inl (DomainErr status_message)
     else case set_organization_status e tenant status s of
       Inl (DomainErr m) \<Rightarrow> Inl (NotFound m)
     | Inl x \<Rightarrow> Inl x
     | Inr s1 \<Rightarrow> Inr (s1, audit_entry (ac_user_ref a) ''org.status'' (Some tenant) ''organization'' tenant (Some (JObj [(''status'', JStr status)]))))"

text \<open>The guard of the routes on an organization's users.\<close>

definition user_manager :: "db \<Rightarrow> actor_context \<Rightarrow> string res" where
  "user_manager s a =
     ebind (require_tenant a) (\<lambda>tenant. ebind (require_permission s a ''user.manage'' (tenant_target (Some tenant)) False) (\<lambda>_. Inr tenant))"

definition own_user :: "db \<Rightarrow> string \<Rightarrow> string \<Rightarrow> platform_user res" where
  "own_user s tenant user_ref =
     (case load_platform_user s user_ref of
        None \<Rightarrow> Inl (NotFound ''User not found in this organization'')
      | Some u \<Rightarrow> if pu_tenant_id u \<noteq> Some tenant then Inl (NotFound ''User not found in this organization'') else Inr u)"

section \<open>Users of an organization\<close>

record user_request =
  uq_email :: string
  uq_display_name :: string
  uq_password :: "string option"
  uq_status :: string

definition invite_notice :: "env \<Rightarrow> actor_context \<Rightarrow> string \<Rightarrow> string \<Rightarrow> string \<Rightarrow> string \<Rightarrow> notice" where
  "invite_notice e a tenant organization email invite_url =
     \<lparr>no_tenant = Some tenant, no_event = ''user.invited'', no_subject = ''You have been invited to Norinth by '' @ organization,
      no_text = ac_user_ref a @ '' invited you to '' @ organization @ sq @ ''s AI governance workspace.'' @ [CHR 0x0A, CHR 0x0A] @
        ''Set your password and sign in with this link (valid for '' @ str_int INVITE_TTL_DAYS @ '' days):'',
      no_data = JObj [(''user_ref'', JStr email), (''invited_by'', JStr (ac_user_ref a))],
      no_to_users = [email], no_to_roles = [], no_link = Some invite_url\<rparr>"

definition create_org_user ::
  "auth_platform \<Rightarrow> env \<Rightarrow> string \<Rightarrow> string \<Rightarrow> string \<Rightarrow> actor_context \<Rightarrow> user_request \<Rightarrow> db \<Rightarrow> (db \<times> audit_req \<times> string) res" where
  "create_org_user p e generated salt invite_random a q s =
     ebind (user_manager s a) (\<lambda>tenant.
     if uq_status q \<notin> {''active'', ''suspended''} then Inl (DomainErr status_message)
     else let email = normalize_email (uq_email q) in
       if get_user_by_email s email \<noteq> None then Inl (DomainErr ''A user with that email already exists'')
       else ebind (hash_password (ap_crypto p) salt (or_str (uq_password q) generated)) (\<lambda>h.
         let s1 = create_platform_user e
               \<lparr>nu_user_ref = email, nu_display_name = uq_display_name q, nu_email = email, nu_password_hash = h, nu_status = uq_status q,
                nu_platform_role = None, nu_tenant_id = Some tenant, nu_must_change_password = True\<rparr> s in
         ebind (create_invite e invite_random email tenant (Some (ac_user_ref a)) s1) (\<lambda>(s2, invite).
           let invite_url = public_base_url e @ ''/#invite/'' @ invite;
               organization = or_str (map_option og_name (load_organization s2 tenant)) tenant in
           Inr (emitted e (invite_notice e a tenant organization email invite_url) s2,
                audit_entry (ac_user_ref a) ''user.create'' (Some tenant) ''user'' email None, invite_url))))"

definition update_org_user_status :: "env \<Rightarrow> actor_context \<Rightarrow> string \<Rightarrow> string \<Rightarrow> db \<Rightarrow> (db \<times> audit_req) res" where
  "update_org_user_status e a user_ref status s =
     ebind (user_manager s a) (\<lambda>tenant.
     if status \<notin> {''active'', ''suspended''} then Inl (DomainErr status_message)
     else ebind (own_user s tenant user_ref) (\<lambda>_.
       if user_ref = ac_user_ref a then Inl (DomainErr ''You cannot change your own account status'')
       else ebind (set_user_status e user_ref status s) (\<lambda>(s1, _).
         Inr (s1, audit_entry (ac_user_ref a) ''user.status'' (Some tenant) ''user'' user_ref (Some (JObj [(''status'', JStr status)]))))))"

section \<open>One-time passwords\<close>

text \<open>The reset itself: a new hash that has to be changed, and no session left.\<close>

definition issue_password :: "auth_platform \<Rightarrow> env \<Rightarrow> string \<Rightarrow> string \<Rightarrow> string \<Rightarrow> db \<Rightarrow> db res" where
  "issue_password p e salt temp user_ref s =
     ebind (hash_password (ap_crypto p) salt temp) (\<lambda>h. Inr (end_all_sessions user_ref (reset_user_password e user_ref h s)))"

definition operator_reset_notice :: "env \<Rightarrow> actor_context \<Rightarrow> string \<Rightarrow> string \<Rightarrow> notice" where
  "operator_reset_notice e a tenant user_ref =
     \<lparr>no_tenant = Some tenant, no_event = ''account.reset_by_operator'', no_subject = ''A platform operator reset the password for '' @ user_ref,
      no_text = ''A platform operator ('' @ ac_user_ref a @ '') issued a one-time password reset for '' @ user_ref @
        '' in your organization. If this was not expected, review the account and rotate its credentials.'',
      no_data = JObj [(''user_ref'', JStr user_ref), (''reset_by'', JStr (ac_user_ref a))],
      no_to_users = [], no_to_roles = [''org_admin''], no_link = Some (public_base_url e @ ''/#users'')\<rparr>"

definition reset_account_password :: "auth_platform \<Rightarrow> env \<Rightarrow> string \<Rightarrow> string \<Rightarrow> actor_context \<Rightarrow> string \<Rightarrow> db \<Rightarrow> (db \<times> audit_req) res" where
  "reset_account_password p e salt temp a user_ref s =
     ebind (require_super_admin a) (\<lambda>_.
     case load_platform_user s user_ref of
       None \<Rightarrow> Inl (NotFound ''User not found'')
     | Some u \<Rightarrow> ebind (issue_password p e salt temp user_ref s) (\<lambda>s1.
         Inr (if nonempty (pu_tenant_id u) then emitted e (operator_reset_notice e a (the (pu_tenant_id u)) user_ref) s1 else s1,
              audit_entry (ac_user_ref a) ''account.reset_password'' (pu_tenant_id u) ''user'' user_ref None)))"

definition decision_roles_of :: "db \<Rightarrow> string \<Rightarrow> string \<Rightarrow> string list" where
  "decision_roles_of s tenant user_ref =
     sorted_set (filter (\<lambda>r. r \<in> set DECISION_ROLES) (active_roles s tenant user_ref))"

definition admin_reset_notice :: "env \<Rightarrow> actor_context \<Rightarrow> string \<Rightarrow> string \<Rightarrow> notice" where
  "admin_reset_notice e a tenant user_ref =
     \<lparr>no_tenant = Some tenant, no_event = ''account.reset_by_admin'', no_subject = ''Your Norinth password was reset by an administrator'',
      no_text = ac_user_ref a @ '' issued a one-time password for your account and ended your open sessions. '' @
        ''If you did not ask for this, tell another administrator before signing in again.'',
      no_data = JObj [(''user_ref'', JStr user_ref), (''reset_by'', JStr (ac_user_ref a))],
      no_to_users = [user_ref], no_to_roles = [], no_link = Some (public_base_url e @ ''/#login'')\<rparr>"

definition decision_holder_notice :: "env \<Rightarrow> actor_context \<Rightarrow> string \<Rightarrow> string \<Rightarrow> string list \<Rightarrow> notice" where
  "decision_holder_notice e a tenant user_ref roles =
     \<lparr>no_tenant = Some tenant, no_event = ''account.decision_holder_reset'',
      no_subject = ac_user_ref a @ '' reset the password of '' @ user_ref @ '' ('' @ comma_join roles @ '')'',
      no_text = ac_user_ref a @ '' issued a one-time password for '' @ user_ref @ '', who holds '' @ comma_join roles @ ''. Until '' @ user_ref @
        '' signs in and changes it, the administrator holds that account'' @ sq @ ''s credentials. If this was not expected, review the account.'',
      no_data = JObj [(''user_ref'', JStr user_ref), (''reset_by'', JStr (ac_user_ref a)), (''decision_roles'', JArr (map JStr roles))],
      no_to_users = [], no_to_roles = [''org_admin''], no_link = Some (public_base_url e @ ''/#users'')\<rparr>"

definition reset_org_user_password :: "auth_platform \<Rightarrow> env \<Rightarrow> string \<Rightarrow> string \<Rightarrow> actor_context \<Rightarrow> string \<Rightarrow> db \<Rightarrow> (db \<times> audit_req) res" where
  "reset_org_user_password p e salt temp a user_ref s =
     ebind (user_manager s a) (\<lambda>tenant. ebind (own_user s tenant user_ref) (\<lambda>_.
     ebind (issue_password p e salt temp user_ref s) (\<lambda>s1.
       let roles = decision_roles_of s1 tenant user_ref;
           s2 = emitted e (admin_reset_notice e a tenant user_ref) s1 in
       Inr (if roles = [] then s2 else emitted e (decision_holder_notice e a tenant user_ref roles) s2,
            audit_entry (ac_user_ref a) ''user.reset_password'' (Some tenant) ''user'' user_ref
              (Some (JObj [(''decision_roles'', JArr (map JStr roles)), (''sessions_ended'', JBool True)]))))))"

section \<open>The second factor of an organization\<close>

definition set_security_policy :: "actor_context \<Rightarrow> bool \<Rightarrow> db \<Rightarrow> (db \<times> audit_req) res" where
  "set_security_policy a require s =
     ebind (user_manager s a) (\<lambda>tenant.
     if require \<and> (case load_platform_user s (ac_user_ref a) of None \<Rightarrow> False | Some u \<Rightarrow> nonempty (pu_password_hash u) \<and> \<not> has_factor u)
     then Inl (DomainErr ''Enroll your own second factor (Security, in the header) before requiring it for the organization'')
     else Inr (set_organization_require_mfa tenant require s,
               audit_entry (ac_user_ref a) ''org.security_policy'' (Some tenant) ''organization'' tenant
                 (Some (JObj [(''require_mfa'', JBool require)]))))"

definition reset_org_user_mfa :: "env \<Rightarrow> actor_context \<Rightarrow> string \<Rightarrow> db \<Rightarrow> (db \<times> audit_req) res" where
  "reset_org_user_mfa e a user_ref s =
     ebind (user_manager s a) (\<lambda>tenant.
     if user_ref = ac_user_ref a then Inl (DomainErr ''Use the MFA disable flow for your own account'')
     else ebind (own_user s tenant user_ref) (\<lambda>_.
       Inr (end_all_sessions user_ref (clear_mfa e user_ref s),
            audit_entry (ac_user_ref a) ''user.mfa_reset'' (Some tenant) ''user'' user_ref None)))"

end
