(* ===== verification/Sign_In_Properties.thy ===== *)
theory Sign_In_Properties
  imports Account_Admin
begin

text \<open>
  What the second factor guarantees. Every route of signing in and of account administration is a sequence of a few kinds of writes (\<open>move\<close>); the
  kinds that matter, a new session and a changed enrolment, carry the user they concern. Two facts about a user's factor are kept by all other
  moves: that an enrolled user has no session, and that a spent code stays spent.
\<close>

section \<open>The routes as operations\<close>

datatype member_request =
    Setup string string
  | Enable "string list" string
  | Disable disable_request
  | ChangePassword string string string string

fun member_route :: "auth_platform \<Rightarrow> env \<Rightarrow> actor_context \<Rightarrow> member_request \<Rightarrow> db \<Rightarrow> db" where
  "member_route p e a (Setup secret nonce) s = fst (mfa_setup p e secret nonce a s)"
| "member_route p e a (Enable codes code) s = fst (mfa_enable p e codes code a s)"
| "member_route p e a (Disable q) s = fst (mfa_disable p e q a s)"
| "member_route p e a (ChangePassword tok salt current new) s = fst (change_password p e tok salt current new a s)"

datatype admin_request =
    CreateUser string string string user_request
  | UserStatus string string
  | AccountStatus string string
  | OrgStatus string string
  | ResetPassword string string string
  | ResetOrgPassword string string string
  | SecurityPolicy bool
  | ResetMfa string

definition state_after :: "db \<Rightarrow> (db \<times> 'a) res \<Rightarrow> db" where
  "state_after s r = (case r of Inl _ \<Rightarrow> s | Inr (s', _) \<Rightarrow> s')"

fun admin_route :: "auth_platform \<Rightarrow> env \<Rightarrow> actor_context \<Rightarrow> admin_request \<Rightarrow> db \<Rightarrow> db" where
  "admin_route p e a (CreateUser gen salt rnd q) s = state_after s (create_org_user p e gen salt rnd a q s)"
| "admin_route p e a (UserStatus v status) s = state_after s (update_org_user_status e a v status s)"
| "admin_route p e a (AccountStatus v status) s = state_after s (update_account_status e a v status s)"
| "admin_route p e a (OrgStatus tenant status) s = state_after s (update_organization_status e a tenant status s)"
| "admin_route p e a (ResetPassword salt temp v) s = state_after s (reset_account_password p e salt temp a v s)"
| "admin_route p e a (ResetOrgPassword salt temp v) s = state_after s (reset_org_user_password p e salt temp a v s)"
| "admin_route p e a (SecurityPolicy require) s = state_after s (set_security_policy a require s)"
| "admin_route p e a (ResetMfa v) s = state_after s (reset_org_user_mfa e a v s)"

datatype auth_op =
    Login login_random login_request
  | Verify string verify_request
  | Logout "string option"
  | AcceptInvite string string string string
  | Member string "string option" member_request
  | Admin actor_context admin_request
  | Elsewhere "db \<Rightarrow> db"

fun auth_step :: "auth_platform \<Rightarrow> env \<Rightarrow> auth_op \<Rightarrow> db \<Rightarrow> db" where
  "auth_step p e (Login rnd q) s = fst (login p e rnd q s)"
| "auth_step p e (Verify tok q) s = fst (mfa_verify p e tok q s)"
| "auth_step p e (Logout cookie) s = logout e cookie s"
| "auth_step p e (AcceptInvite tok salt invite password) s = fst (accept_invite p e tok salt invite password s)"
| "auth_step p e (Member path cookie req) s =
     (case current_actor e (ap_auth p) path cookie s of (s1, Inl _) \<Rightarrow> s1 | (s1, Inr a) \<Rightarrow> member_route p e a req s1)"
| "auth_step p e (Admin a req) s = admin_route p e a req s"
| "auth_step p e (Elsewhere f) s = f s"

text \<open>A run, each operation at its own time, in which every operation is admissible where it happens.\<close>

inductive auth_run :: "auth_platform \<Rightarrow> (env \<Rightarrow> auth_op \<Rightarrow> db \<Rightarrow> bool) \<Rightarrow> db \<Rightarrow> db \<Rightarrow> bool" for p admissible where
  start: "auth_run p admissible s s"
| more: "auth_run p admissible s t \<Longrightarrow> admissible e op t \<Longrightarrow> auth_run p admissible s (auth_step p e op t)"

section \<open>The kinds of writes\<close>

datatype effect = NewSession string | Reenrolled string

definition factor_of :: "platform_user \<Rightarrow> string \<times> string option \<times> int option \<times> int option" where
  "factor_of r = (pu_user_ref r, pu_mfa_secret r, pu_mfa_enabled_at r, pu_mfa_last_counter r)"

definition session_users :: "db \<Rightarrow> string set" where
  "session_users s = se_user_ref ` set (sessions s)"

inductive move :: "(effect \<Rightarrow> bool) \<Rightarrow> db \<Rightarrow> db \<Rightarrow> bool" for ok where
  plain: "platform_users s' = platform_users s \<Longrightarrow> mfa_recovery_codes s' = mfa_recovery_codes s \<Longrightarrow>
     session_users s' \<subseteq> session_users s \<Longrightarrow> move ok s s'"
| new_session: "ok (NewSession v) \<Longrightarrow> platform_users s' = platform_users s \<Longrightarrow> mfa_recovery_codes s' = mfa_recovery_codes s \<Longrightarrow>
     session_users s' \<subseteq> insert v (session_users s) \<Longrightarrow> move ok s s'"
| edit: "platform_users s' = update_where P f (platform_users s) \<Longrightarrow> (\<And>r. P r \<Longrightarrow> factor_of (f r) = factor_of r) \<Longrightarrow>
     mfa_recovery_codes s' = mfa_recovery_codes s \<Longrightarrow> session_users s' \<subseteq> session_users s \<Longrightarrow> move ok s s'"
| join: "platform_users s' = upsert pu_user_ref f r0 (platform_users s) \<Longrightarrow> (\<And>r. factor_of (f r) = factor_of r) \<Longrightarrow>
     mfa_recovery_codes s' = mfa_recovery_codes s \<Longrightarrow> session_users s' \<subseteq> session_users s \<Longrightarrow> move ok s s'"
| counted: "move ok s (record_used_counter v c s)"
| code_used: "move ok s (fst (consume_recovery_code e v h s))"
| reenrolled: "ok (Reenrolled v) \<Longrightarrow>
     filter (\<lambda>r. pu_user_ref r \<noteq> v) (platform_users s') = filter (\<lambda>r. pu_user_ref r \<noteq> v) (platform_users s) \<Longrightarrow>
     filter (\<lambda>r. mr_user_ref r \<noteq> v) (mfa_recovery_codes s') = filter (\<lambda>r. mr_user_ref r \<noteq> v) (mfa_recovery_codes s) \<Longrightarrow>
     session_users s' \<subseteq> session_users s \<Longrightarrow> move ok s s'"

abbreviation moves :: "(effect \<Rightarrow> bool) \<Rightarrow> db \<Rightarrow> db \<Rightarrow> bool" where
  "moves ok \<equiv> (move ok)\<^sup>*\<^sup>*"

section \<open>What the moves keep\<close>

text \<open>A fact about all rows of a user.\<close>

definition of_user :: "(platform_user \<Rightarrow> bool) \<Rightarrow> string \<Rightarrow> db \<Rightarrow> bool" where
  "of_user Q u s \<longleftrightarrow> u \<in> pu_user_ref ` set (platform_users s) \<and> (\<forall>r\<in>set (platform_users s). pu_user_ref r = u \<longrightarrow> Q r)"

lemma of_user_update:
  assumes "of_user Q u s" "platform_users s' = update_where P f (platform_users s)"
    and ref: "\<And>r. P r \<Longrightarrow> pu_user_ref (f r) = pu_user_ref r" and "\<And>r. P r \<Longrightarrow> Q r \<Longrightarrow> Q (f r)"
  shows "of_user Q u s'"
proof -
  have "pu_user_ref ` set (platform_users s') = pu_user_ref ` set (platform_users s)"
    unfolding assms(2) using map_key_update_where [of P pu_user_ref f] ref by (metis list.set_map)
  moreover have "\<forall>r\<in>set (platform_users s'). pu_user_ref r = u \<longrightarrow> Q r"
  proof (intro ballI impI)
    fix r assume r: "r \<in> set (platform_users s')" "pu_user_ref r = u"
    from r(1) [unfolded assms(2)] consider (same) "r \<in> set (platform_users s)" | (changed) y where "y \<in> set (platform_users s)" "P y" "r = f y"
      by (auto simp: set_update_where)
    then show "Q r"
    proof cases
      case same
      then show ?thesis using assms(1) r(2) by (simp add: of_user_def)
    next
      case changed
      then show ?thesis using assms(1,4) r(2) ref [OF changed(2)] by (simp add: of_user_def)
    qed
  qed
  ultimately show ?thesis using assms(1) by (simp add: of_user_def)
qed

lemma of_user_same: "of_user Q u s \<Longrightarrow> platform_users s' = platform_users s \<Longrightarrow> of_user Q u s'"
  by (simp add: of_user_def)

lemma factor_ofD:
  assumes "factor_of r' = factor_of r"
  shows "pu_user_ref r' = pu_user_ref r" "has_factor r' = has_factor r" "pu_mfa_last_counter r' = pu_mfa_last_counter r"
  using assms by (simp_all add: factor_of_def has_factor_def)

text \<open>A fact that reads only the columns of the factor and survives a higher counter is kept by every move that does not enrol the user anew.\<close>

locale factor_fact =
  fixes Q :: "platform_user \<Rightarrow> bool"
  assumes stable: "factor_of r' = factor_of r \<Longrightarrow> Q r \<Longrightarrow> Q r'"
    and raised: "Q r \<Longrightarrow> (\<And>k. pu_mfa_last_counter r = Some k \<Longrightarrow> k < c) \<Longrightarrow> Q (r\<lparr>pu_mfa_last_counter := Some c\<rparr>)"
begin

lemma move_keeps:
  assumes "move ok s s'" "\<not> ok (Reenrolled u)" "of_user Q u s"
  shows "of_user Q u s'"
  using assms
proof cases
  case (edit P f)
  show ?thesis using assms(3) edit(1)
    by (rule of_user_update) (use edit(2) factor_ofD(1) stable in blast)+
next
  case (join f r0)
  show ?thesis
  proof (cases "pu_user_ref r0 \<in> set (map pu_user_ref (platform_users s))")
    case True
    then have "platform_users s' = update_where (\<lambda>x. pu_user_ref x = pu_user_ref r0) f (platform_users s)" using join(1) by (simp add: upsert_def)
    then show ?thesis by (rule of_user_update [OF assms(3)]) (use join(2) factor_ofD(1) stable in blast)+
  next
    case False
    then have "platform_users s' = platform_users s @ [r0]" using join(1) by (simp only: upsert_def if_False)
    then show ?thesis using assms(3) False by (force simp: of_user_def)
  qed
next
  case (counted v c)
  let ?P = "\<lambda>r. pu_user_ref r = v \<and> (case pu_mfa_last_counter r of None \<Rightarrow> True | Some k \<Rightarrow> k < c)"
  have "platform_users s' = update_where ?P (\<lambda>r. r\<lparr>pu_mfa_last_counter := Some c\<rparr>) (platform_users s)"
    unfolding counted by (simp add: record_used_counter_def)
  then show ?thesis by (rule of_user_update [OF assms(3)]) (auto split: option.splits intro: raised)
next
  case (reenrolled v)
  then have v: "v \<noteq> u" using assms(2) by auto
  have "filter (\<lambda>r. pu_user_ref r = u) (platform_users s') = filter (\<lambda>r. pu_user_ref r = u) (platform_users s)"
    using arg_cong [OF reenrolled(2), of "filter (\<lambda>r. pu_user_ref r = u)"] v by (simp add: conj_commute cong: conj_cong)
  then have "{r \<in> set (platform_users s'). pu_user_ref r = u} = {r \<in> set (platform_users s). pu_user_ref r = u}"
    by (metis set_filter)
  then show ?thesis using assms(3) by (force simp: of_user_def)
qed (auto simp: of_user_def consume_recovery_code_def)

lemma moves_keep: "moves ok s s' \<Longrightarrow> \<not> ok (Reenrolled u) \<Longrightarrow> of_user Q u s \<Longrightarrow> of_user Q u s'"
  by (induction rule: rtranclp_induct) (auto intro: move_keeps)

end

definition counter_from :: "int \<Rightarrow> platform_user \<Rightarrow> bool" where
  "counter_from c r \<longleftrightarrow> (\<exists>k. pu_mfa_last_counter r = Some k \<and> c \<le> k)"

interpretation factor: factor_fact has_factor
  by unfold_locales (auto simp: factor_of_def has_factor_def)

interpretation counter: factor_fact "counter_from c" for c
  by unfold_locales (force simp: factor_of_def counter_from_def)+

definition code_spent :: "string \<Rightarrow> string \<Rightarrow> db \<Rightarrow> bool" where
  "code_spent u h s \<longleftrightarrow> (\<forall>r\<in>set (mfa_recovery_codes s). mr_user_ref r = u \<and> mr_code_hash r = h \<longrightarrow> mr_used_at r \<noteq> None)"

lemma move_code_spent:
  assumes "move ok s s'" "\<not> ok (Reenrolled u)" "code_spent u h s"
  shows "code_spent u h s'"
  using assms
proof cases
  case (reenrolled v)
  then have v: "v \<noteq> u" using assms(2) by auto
  have "filter (\<lambda>r. mr_user_ref r = u) (mfa_recovery_codes s') = filter (\<lambda>r. mr_user_ref r = u) (mfa_recovery_codes s)"
    using arg_cong [OF reenrolled(3), of "filter (\<lambda>r. mr_user_ref r = u)"] v by (simp add: conj_commute cong: conj_cong)
  then have "{r \<in> set (mfa_recovery_codes s'). mr_user_ref r = u} = {r \<in> set (mfa_recovery_codes s). mr_user_ref r = u}"
    by (metis set_filter)
  then show ?thesis using assms(3) by (force simp: code_spent_def)
next
  case (code_used e v k)
  show ?thesis unfolding code_used using assms(3) by (force simp: code_spent_def consume_recovery_code_def set_update_where)
qed (simp_all add: code_spent_def record_used_counter_def)

lemma moves_code_spent: "moves ok s s' \<Longrightarrow> \<not> ok (Reenrolled u) \<Longrightarrow> code_spent u h s \<Longrightarrow> code_spent u h s'"
  by (induction rule: rtranclp_induct) (auto intro: move_code_spent)

lemma move_session_users: "move ok s s' \<Longrightarrow> \<not> ok (NewSession u) \<Longrightarrow> u \<notin> session_users s \<Longrightarrow> u \<notin> session_users s'"
  by (erule move.cases) (auto simp: record_used_counter_def consume_recovery_code_def session_users_def)

lemma moves_session_users: "moves ok s s' \<Longrightarrow> \<not> ok (NewSession u) \<Longrightarrow> u \<notin> session_users s \<Longrightarrow> u \<notin> session_users s'"
  by (induction rule: rtranclp_induct) (auto dest: move_session_users)

section \<open>The writes of the routes\<close>

lemma move_plain: "platform_users s' = platform_users s \<Longrightarrow> mfa_recovery_codes s' = mfa_recovery_codes s \<Longrightarrow> sessions s' = sessions s \<Longrightarrow> move ok s s'"
  by (rule move.plain) (simp_all add: session_users_def)

lemma move_register [intro]: "move ok s (fst (register_failure e cfg subj s))"
  by (rule move_plain) (simp_all add: register_failure_def Let_def split_beta)

lemma move_clear [intro]: "move ok s (clear_attempts subj s)"
  by (rule move_plain) (simp_all add: clear_attempts_def)

lemma move_challenge [intro]:
  "move ok s (consume_challenge h s)" "move ok s (register_challenge_attempt h cap s)" "create_challenge e h v t s = Inr s' \<Longrightarrow> move ok s s'"
  by (rule move_plain; auto simp: consume_challenge_def register_challenge_attempt_def create_challenge_def Let_def split: if_splits)+

lemma move_purge [intro]: "move ok s (purge_expired_sessions e s)"
  by (rule move.plain) (auto simp: purge_expired_sessions_def delete_where_def session_users_def)

lemma move_end [intro]: "move ok s (end_all_sessions v s)" "move ok s (logout e cookie s)"
  by (rule move.plain; auto simp: end_all_sessions_def delete_sessions_for_user_def delete_where_def session_users_def logout_def
        end_session_def delete_session_def)+

lemma move_create_session:
  assumes "create_session e cfg tok v s = Inr (s', cookie)" "ok (NewSession v)"
  shows "move ok s s'"
proof -
  have "session_users s' \<subseteq> insert v (session_users s)" "platform_users s' = platform_users s" "mfa_recovery_codes s' = mfa_recovery_codes s"
    using assms(1) by (auto simp: create_session_def insert_session_def purge_expired_sessions_def ebind_eq_Inr delete_where_def session_users_def
        split: if_splits)
  then show ?thesis using assms(2) move.new_session by metis
qed

lemma move_edit:
  assumes "\<And>r. factor_of (f r) = factor_of r"
  shows "move ok s (update_user v f s)"
  by (rule move.edit [where P = "\<lambda>r. pu_user_ref r = v" and f = f]) (simp_all add: update_user_def session_users_def assms)

lemma move_password [intro]:
  "move ok s (set_user_password e v h s)" "move ok s (upgrade_password_hash e v h s)" "move ok s (reset_user_password e v h s)"
  "move ok s (set_pending_secret e v c s)"
  by (simp_all add: set_user_password_def upgrade_password_hash_def reset_user_password_def set_pending_secret_def move_edit factor_of_def)

lemma moves_finish:
  assumes "finish_login p e tok r m s = (s', es, x)" "\<And>t. x = Inr (SessionFor t (pu_user_ref r)) \<Longrightarrow> ok (NewSession (pu_user_ref r))"
  shows "move ok s s'"
  using assms move_create_session [of e "ap_auth p" tok "pu_user_ref r" s s'] by (auto simp: finish_login_def split: sum.splits)

lemma moves_login:
  assumes "login p e rnd q s = (s', es, x)"
    and "\<And>r. r \<in> set (platform_users s) \<Longrightarrow> \<not> has_factor r \<Longrightarrow> ok (NewSession (pu_user_ref r))"
  shows "moves ok s s'"
proof -
  have failed: "moves ok s (fst (login_failed p e q ip user s))" for ip user
  proof -
    have "move ok s1 (fst (register_failure e (ap_auth p) b s1))" for b s1 by (rule move_register)
    then have "moves ok s (fst (register_failure e (ap_auth p) b (fst (register_failure e (ap_auth p) a s))))" for a b
      by (meson converse_rtranclp_into_rtranclp r_into_rtranclp)
    then show ?thesis by (simp add: login_failed_def Let_def split_beta)
  qed
  have accepted: "moves ok s (fst (login_accepted p e rnd q r s))" if r: "r \<in> set (platform_users s)" for r
  proof -
    let ?s1 = "clear_attempts (email_subject (lq_email q)) s"
    have 1: "moves ok s ?s1" by (rule r_into_rtranclp) (rule move_clear)
    have up: "moves ok s (upgrade_password_hash e v h ?s1)" for v h
      using 1 by (rule rtranclp.rtrancl_into_rtrancl) (rule move_password)
    have rest: "moves ok s (fst (after_password p e rnd r s2))" if s2: "moves ok s s2" for s2
    proof (cases "has_factor r")
      case True
      then show ?thesis using s2 move_challenge(3) by (auto simp: after_password_def split: sum.splits intro: rtranclp.rtrancl_into_rtrancl)
    next
      case False
      obtain s3 es x where f: "finish_login p e (lr_session rnd) r None s2 = (s3, es, x)" by (metis prod_cases3)
      have "move ok s2 s3" by (rule moves_finish [OF f]) (rule assms(2) [OF r False])
      then show ?thesis using s2 False f by (simp add: after_password_def rtranclp.rtrancl_into_rtrancl)
    qed
    show ?thesis
      using 1 rest [OF 1] rest [OF up] by (simp add: login_accepted_def Let_def split: sum.split)
  qed
  have mem: "r \<in> set (platform_users s)" if "get_user_by_email s m = Some r" for m r
    using find_mem [OF that [unfolded get_user_by_email_def]] by simp
  show ?thesis using assms(1) failed accepted mem unfolding login_def Let_def
    by (auto split: sum.splits if_splits option.splits bool.splits) (metis fst_conv)+
qed

lemma filter_update_other: "(\<And>r. P r \<Longrightarrow> pu_user_ref r = v \<and> pu_user_ref (f r) = v) \<Longrightarrow>
    filter (\<lambda>r. pu_user_ref r \<noteq> v) (update_where P f rows) = filter (\<lambda>r. pu_user_ref r \<noteq> v) rows"
  by (induction rows) (auto simp: update_where_def)

lemma moves_snoc: "moves ok s t \<Longrightarrow> move ok t v \<Longrightarrow> moves ok s v"
  by (rule rtranclp.rtrancl_into_rtrancl)

lemma moves_one: "move ok s t \<Longrightarrow> moves ok s t"
  by (rule r_into_rtranclp)

lemma moves_two: "move ok s t \<Longrightarrow> move ok t v \<Longrightarrow> moves ok s v"
  by (meson moves_one moves_snoc)

lemma move_refused: "move ok s (fst (mfa_refused e q r s))"
  by (auto simp: mfa_refused_def Let_def split: sum.split)

lemma active_userD: "active_user s v = Some r \<Longrightarrow> r \<in> set (platform_users s) \<and> pu_user_ref r = v"
  by (auto simp: active_user_def load_platform_user_def dest: by_key_Some split: option.splits if_splits)

abbreviation recovery_hash :: "env \<Rightarrow> verify_request \<Rightarrow> string" where
  "recovery_hash e q \<equiv> hash_opaque e (py_lower (py_strip (the (mv_recovery_code q))))"

abbreviation challenge_hash :: "env \<Rightarrow> verify_request \<Rightarrow> string" where
  "challenge_hash e q \<equiv> hash_opaque e (mv_challenge q)"

lemma refused_error: "mfa_refused e q r s = (s', es, x) \<Longrightarrow> isl x"
  by (auto simp: mfa_refused_def Let_def split: sum.splits)

text \<open>The ways a challenge is answered.\<close>

lemma mfa_verify_cases:
  assumes v: "mfa_verify p e tok q s = (s', es, x)"
  obtains (refused) r t where "isl x" "s' = s \<or> s' = consume_challenge (challenge_hash e q) s \<or> s' = fst (mfa_refused e q r t)"
      "t = s \<or> (\<exists>c. t = fst (consume_recovery_code e (pu_user_ref r) c s))"
  | (recovery) ch r es' where "load_challenge e (challenge_hash e q) s = Some ch" "active_user s (mc_user_ref ch) = Some r"
      "nonempty (mv_recovery_code q)" "snd (consume_recovery_code e (pu_user_ref r) (recovery_hash e q) s)"
      "finish_login p e tok r (Some ''recovery_code'')
         (consume_challenge (challenge_hash e q) (fst (consume_recovery_code e (pu_user_ref r) (recovery_hash e q) s))) = (s', es', x)"
  | (code) ch r k where "load_challenge e (challenge_hash e q) s = Some ch" "active_user s (mc_user_ref ch) = Some r"
      "\<not> nonempty (mv_recovery_code q)" "accepted_counter p e r (the (mv_code q)) = Inr (Some k)"
      "finish_login p e tok r (Some ''totp'') (consume_challenge (challenge_hash e q) (record_used_counter (pu_user_ref r) k s)) = (s', es, x)"
proof (cases "load_challenge e (challenge_hash e q) s")
  case None
  then show ?thesis using v refused [of _ s] by (auto simp: mfa_verify_def Let_def)
next
  case (Some ch)
  note ch = this
  show ?thesis
  proof (cases "active_user s (mc_user_ref ch)")
    case None
    then show ?thesis using v ch refused [of _ s] by (auto simp: mfa_verify_def Let_def)
  next
    case (Some r)
    show ?thesis
    proof (cases "nonempty (mv_recovery_code q)")
      case True
      let ?c = "consume_recovery_code e (pu_user_ref r) (recovery_hash e q) s"
      obtain s3 es3 y where f: "finish_login p e tok r (Some ''recovery_code'') (consume_challenge (challenge_hash e q) (fst ?c)) = (s3, es3, y)"
        by (metis prod_cases3)
      show ?thesis
      proof (cases "snd ?c")
        case b: True
        then have "s3 = s'" "y = x" using v ch Some True f by (simp_all add: mfa_verify_def Let_def split_beta add_entries_def)
        then show ?thesis using recovery [OF ch Some True b] f by blast
      next
        case False
        then have m: "mfa_refused e q r (fst ?c) = (s', es, x)" using v ch Some True by (simp add: mfa_verify_def Let_def split_beta)
        show ?thesis by (rule refused [of r "fst ?c"]) (use m refused_error [OF m] in auto)
      qed
    next
      case False
      then show ?thesis using v ch Some code [OF ch Some False] refused [of r s] refused_error [of e q r s s' es x]
        by (auto simp: mfa_verify_def Let_def split: if_splits sum.splits option.splits)
    qed
  qed
qed

lemma moves_verify:
  assumes v: "mfa_verify p e tok q s = (s', es, x)" and ok: "\<And>t v. x = Inr (SessionFor t v) \<Longrightarrow> ok (NewSession v)"
  shows "moves ok s s'"
  using v
proof (cases rule: mfa_verify_cases)
  case (refused r t)
  have "moves ok s t" using refused(3) move.code_used [of ok s] by (metis r_into_rtranclp rtranclp.rtrancl_refl)
  then have "moves ok s (fst (mfa_refused e q r t))" by (rule moves_snoc) (rule move_refused)
  then show ?thesis using refused(2) move_challenge(1) by (metis r_into_rtranclp rtranclp.rtrancl_refl)
next
  case (recovery ch r es')
  show ?thesis
    by (rule moves_snoc [OF moves_two [OF move.code_used move_challenge(1)] moves_finish [OF recovery(5)]]) (use ok in auto)
next
  case (code ch r k)
  show ?thesis
    by (rule moves_snoc [OF moves_two [OF move.counted move_challenge(1)] moves_finish [OF code(5)]]) (use ok in auto)
qed

lemma moves_reissue:
  assumes "ok (NewSession v)" "moves ok s t"
  shows "moves ok s (fst (reissue p e tok v d t))"
proof -
  have 1: "moves ok s (end_all_sessions v t)" by (rule moves_snoc [OF assms(2) move_end(1)])
  show ?thesis
  proof (cases "create_session e (ap_auth p) tok v (end_all_sessions v t)")
    case (Inl x)
    then show ?thesis using moves_snoc [OF 1 move_purge] by (simp add: reissue_def Let_def)
  next
    case (Inr y)
    then show ?thesis using moves_snoc [OF 1 move_create_session [of e "ap_auth p" tok v _ "fst y" "snd y"]] assms(1)
      by (simp add: reissue_def Let_def split_beta)
  qed
qed

lemma moves_accept:
  assumes "\<And>i. peek_invite e invite s = Some i \<Longrightarrow> ok (NewSession (iv_user_ref i))"
  shows "moves ok s (fst (accept_invite p e tok salt invite password s))"
proof (cases "peek_invite e invite s")
  case None
  then show ?thesis by (simp add: accept_invite_def)
next
  case (Some i)
  have plain: "moves ok s (fst (consume_invite e invite s))"
    by (rule r_into_rtranclp, rule move_plain) (auto simp: consume_invite_def Let_def split: option.splits)
  have same: "j = i" if "consume_invite e invite s = (s1, Some j)" for s1 j
    using that Some by (auto simp: consume_invite_def Let_def split: if_splits)
  show ?thesis
  proof (cases "consume_invite e invite s")
    case (Pair s1 j)
    then have s1: "moves ok s s1" using plain by simp
    show ?thesis
    proof (cases j)
      case None
      then show ?thesis using Some Pair s1 by (simp add: accept_invite_def)
    next
      case (Some k)
      then have "k = i" using same Pair by blast
      then show ?thesis using Some Pair s1 \<open>peek_invite e invite s = Some i\<close>
          moves_reissue [OF assms [OF \<open>peek_invite e invite s = Some i\<close>] moves_snoc [OF s1 move_password(1)]]
        by (simp add: accept_invite_def split: sum.split)
    qed
  qed
qed

lemma move_actor: "move ok s (fst (current_actor e cfg path cookie s))"
proof (rule move.plain)
  show "session_users (fst (current_actor e cfg path cookie s)) \<subseteq> session_users s"
    by (auto simp: current_actor_def resolve_session_def Let_def split_beta session_users_def touch_session_def delete_session_def delete_where_def
        set_update_where split: option.split)
qed (simp_all add: current_actor_def resolve_session_def Let_def split_beta touch_session_def delete_session_def split: option.split)

lemma actor_has_session:
  assumes "current_actor e cfg path cookie s = (s1, Inr a)"
  shows "ac_user_ref a \<in> session_users s"
proof -
  obtain s2 w where r: "resolve_session e cfg cookie s = (s2, w)" by (metis surj_pair)
  then have w: "nonempty w" "ac_user_ref a = the w"
    using assms by (auto simp: current_actor_def Let_def split: if_splits option.splits)
  then obtain v where v: "w = Some v" by (cases w) auto
  obtain tok where "cookie = Some tok" using r v by (cases cookie) (auto simp: resolve_session_def)
  then show ?thesis using resolve_session_live [of e cfg tok s s2 v] r v w by (force simp: session_users_def)
qed

lemma move_clear_mfa:
  assumes "ok (Reenrolled v)"
  shows "move ok s (clear_mfa e v s)"
  by (rule move.reenrolled [of ok v]) (auto simp: assms clear_mfa_def update_user_def delete_where_def session_users_def filter_update_other)

lemma move_activate:
  assumes "ok (Reenrolled v)"
  shows "move ok s (activate_mfa e v s)"
proof (rule move.reenrolled [of ok v, OF assms])
  show "filter (\<lambda>r. pu_user_ref r \<noteq> v) (platform_users (activate_mfa e v s)) = filter (\<lambda>r. pu_user_ref r \<noteq> v) (platform_users s)"
    unfolding activate_mfa_def by (simp, rule filter_update_other) simp
qed (simp_all add: activate_mfa_def session_users_def)

lemma efold_insert_code:
  "efold (insert_code e v) hs rows = Inr rows' \<Longrightarrow> filter (\<lambda>r. mr_user_ref r \<noteq> v) rows' = filter (\<lambda>r. mr_user_ref r \<noteq> v) rows"
  by (induction hs arbitrary: rows) (auto simp: insert_code_def ebind_eq_Inr split: if_splits)

lemma move_new_codes:
  assumes "ok (Reenrolled v)" "replace_recovery_codes e v hs s = Inr s'"
  shows "move ok s s'"
proof (rule move.reenrolled [of ok v, OF assms(1)])
  obtain rows where rows: "efold (insert_code e v) hs (delete_where (\<lambda>r. mr_user_ref r = v) (mfa_recovery_codes s)) = Inr rows" "s' = s\<lparr>mfa_recovery_codes := rows\<rparr>"
    using assms(2) by (auto simp: replace_recovery_codes_def ebind_eq_Inr)
  show "filter (\<lambda>r. mr_user_ref r \<noteq> v) (mfa_recovery_codes s') = filter (\<lambda>r. mr_user_ref r \<noteq> v) (mfa_recovery_codes s)"
    using efold_insert_code [OF rows(1)] rows(2) by (simp add: delete_where_def)
  show "filter (\<lambda>r. pu_user_ref r \<noteq> v) (platform_users s') = filter (\<lambda>r. pu_user_ref r \<noteq> v) (platform_users s)" "session_users s' \<subseteq> session_users s"
    using rows(2) by (simp_all add: session_users_def)
qed

lemma moves_enable:
  assumes "ok (Reenrolled (ac_user_ref a))"
  shows "moves ok s (fst (mfa_enable p e codes code a s))"
proof -
  have 1: "moves ok s (record_used_counter (ac_user_ref a) k (activate_mfa e (ac_user_ref a) s))" for k
    using moves_two [OF move_activate [of ok, OF assms] move.counted] .
  have 2: "moves ok s s2" if "replace_recovery_codes e (ac_user_ref a) hs (record_used_counter (ac_user_ref a) k (activate_mfa e (ac_user_ref a) s)) = Inr s2" for hs k s2
    by (rule moves_snoc [OF 1 move_new_codes [of ok, OF assms that]])
  show ?thesis using 1 2 by (auto simp: mfa_enable_def Let_def split: option.split sum.split)
qed

lemma moves_disable:
  assumes "ok (Reenrolled (ac_user_ref a))"
  shows "moves ok s (fst (mfa_disable p e q a s))"
proof (cases "both_factors p e q (ac_user_ref a) s")
  case (Inr y)
  then obtain s1 proved where y: "both_factors p e q (ac_user_ref a) s = Inr (s1, proved)" by (cases y) auto
  then have "s1 = s \<or> (\<exists>h. s1 = fst (consume_recovery_code e (ac_user_ref a) h s))"
    by (auto simp: both_factors_def ebind_eq_Inr consume_recovery_code_def split: option.splits if_splits)
  then have 1: "moves ok s s1" using move.code_used [of ok s] by (metis moves_one rtranclp.rtrancl_refl)
  have "moves ok s (clear_mfa e (ac_user_ref a) (clear_attempts subj s1))" "moves ok s (fst (register_failure e (ap_auth p) subj s1))" for subj
    using moves_snoc [OF moves_snoc [OF 1 move_clear] move_clear_mfa [of ok, OF assms]] moves_snoc [OF 1 move_register] by blast+
  then show ?thesis using y by (auto simp: mfa_disable_def Let_def split: sum.split bool.split)
qed (simp add: mfa_disable_def Let_def)

lemma moves_change_password:
  assumes "ok (NewSession (ac_user_ref a))"
  shows "moves ok s (fst (change_password p e tok salt current new a s))"
  using moves_reissue [of ok, OF assms moves_one [OF move_password(1)]]
  by (auto simp: change_password_def split: option.split sum.split bool.split)

lemma moves_setup: "moves ok s (fst (mfa_setup p e secret nonce a s))"
  using move_password(4) by (auto simp: mfa_setup_def split: sum.split)

lemma move_emitted: "move ok s (emitted e n s)"
  by (rule move_plain) simp_all

lemma moves_status: "set_user_status e v st s = Inr (s', r) \<Longrightarrow> move ok s s'"
  by (auto simp: set_user_status_def Let_def factor_of_def intro!: move_edit split: option.splits)

lemma moves_issue: "issue_password p e salt temp v s = Inr s' \<Longrightarrow> moves ok s s'"
  by (auto simp: issue_password_def ebind_eq_Inr intro: moves_two [OF move_password(3) move_end(1)])

lemma moves_create_user:
  assumes "create_org_user p e gen salt rnd a q s = Inr (s', y)"
  shows "moves ok s s'"
proof -
  obtain n v tenant who s2 invite m where 1: "create_invite e rnd v tenant who (create_platform_user e n s) = Inr (s2, invite)"
    and 2: "s' = emitted e m s2"
    using assms by (auto simp: create_org_user_def Let_def ebind_eq_Inr split: if_splits)
  have "move ok s (create_platform_user e n s)"
    by (rule move.join [where f = "\<lambda>u. u\<lparr>pu_display_name := nu_display_name n, pu_status := nu_status n, pu_email := Some (nu_email n),
            pu_password_hash := Some (nu_password_hash n), pu_must_change_password := nu_must_change_password n,
            pu_platform_role := nu_platform_role n, pu_tenant_id := nu_tenant_id n, pu_updated_at := db_now e\<rparr>"])
      (simp_all add: create_platform_user_def Let_def factor_of_def session_users_def)
  moreover have "move ok (create_platform_user e n s) s2"
    by (rule move_plain) (use 1 in \<open>auto simp: create_invite_def Let_def split: if_splits\<close>)
  ultimately show ?thesis using 2 moves_snoc [OF moves_two move_emitted] by blast
qed

lemma moves_admin:
  assumes "\<And>v. req = ResetMfa v \<Longrightarrow> ok (Reenrolled v)"
  shows "moves ok s (admin_route p e a req s)"
proof (cases req)
  case (CreateUser gen salt rnd q)
  then show ?thesis using moves_create_user by (auto simp: state_after_def split: sum.split)
next
  case (UserStatus v st)
  then show ?thesis
    by (auto simp: state_after_def update_org_user_status_def ebind_eq_Inr split: sum.split if_splits intro: moves_one moves_status)
next
  case (AccountStatus v st)
  then show ?thesis
    by (auto simp: state_after_def update_account_status_def ebind_eq_Inr split: sum.split if_splits option.splits intro: moves_one moves_status)
next
  case (OrgStatus tenant st)
  then show ?thesis
    by (auto simp: state_after_def update_organization_status_def set_organization_status_def ebind_eq_Inr
        split: sum.splits err.splits if_splits option.splits intro!: moves_one move_plain)
next
  case (ResetPassword salt temp v)
  then show ?thesis
    by (auto simp: state_after_def reset_account_password_def ebind_eq_Inr split: sum.split if_splits option.splits
        intro: moves_issue moves_snoc [OF moves_issue move_emitted])
next
  case (ResetOrgPassword salt temp v)
  then show ?thesis
    by (auto simp: state_after_def reset_org_user_password_def ebind_eq_Inr Let_def split: sum.split if_splits
        intro: moves_snoc [OF moves_issue move_emitted] moves_snoc [OF moves_snoc [OF moves_issue move_emitted] move_emitted])
next
  case (SecurityPolicy require)
  then show ?thesis
    by (auto simp: state_after_def set_security_policy_def set_organization_require_mfa_def ebind_eq_Inr split: sum.split if_splits
        intro!: moves_one move_plain)
next
  case (ResetMfa v)
  then show ?thesis using moves_two [OF move_clear_mfa move_end(1)] assms
    by (auto simp: state_after_def reset_org_user_mfa_def ebind_eq_Inr split: sum.split if_splits)
qed

section \<open>The effects of an operation\<close>

fun member_effects :: "string \<Rightarrow> member_request \<Rightarrow> effect \<Rightarrow> bool" where
  "member_effects v (Setup secret nonce) x \<longleftrightarrow> False"
| "member_effects v (Enable codes code) x \<longleftrightarrow> x = Reenrolled v"
| "member_effects v (Disable q) x \<longleftrightarrow> x = Reenrolled v"
| "member_effects v (ChangePassword tok salt current new) x \<longleftrightarrow> x = NewSession v"

fun effects :: "auth_platform \<Rightarrow> env \<Rightarrow> auth_op \<Rightarrow> db \<Rightarrow> effect \<Rightarrow> bool" where
  "effects p e (Login rnd q) s x \<longleftrightarrow> (\<exists>r\<in>set (platform_users s). \<not> has_factor r \<and> x = NewSession (pu_user_ref r))"
| "effects p e (Verify tok q) s x \<longleftrightarrow> (\<exists>t v. snd (snd (mfa_verify p e tok q s)) = Inr (SessionFor t v) \<and> x = NewSession v)"
| "effects p e (Logout cookie) s x \<longleftrightarrow> False"
| "effects p e (AcceptInvite tok salt invite password) s x \<longleftrightarrow> (\<exists>i. peek_invite e invite s = Some i \<and> x = NewSession (iv_user_ref i))"
| "effects p e (Member path cookie req) s x \<longleftrightarrow>
     (\<exists>s1 a. current_actor e (ap_auth p) path cookie s = (s1, Inr a) \<and> member_effects (ac_user_ref a) req x)"
| "effects p e (Admin a req) s x \<longleftrightarrow> (\<exists>v. req = ResetMfa v \<and> x = Reenrolled v)"
| "effects p e (Elsewhere f) s x \<longleftrightarrow> False"

text \<open>Code outside these routes does not write accounts, sessions or recovery codes.\<close>

fun elsewhere_ok :: "auth_op \<Rightarrow> db \<Rightarrow> bool" where
  "elsewhere_ok (Elsewhere f) s \<longleftrightarrow>
     platform_users (f s) = platform_users s \<and> sessions (f s) = sessions s \<and> mfa_recovery_codes (f s) = mfa_recovery_codes s"
| "elsewhere_ok _ s \<longleftrightarrow> True"

lemma moves_member:
  assumes "\<And>x. member_effects (ac_user_ref a) req x \<Longrightarrow> ok x"
  shows "moves ok s (member_route p e a req s)"
  using assms moves_setup moves_enable [of ok] moves_disable [of ok] moves_change_password [of ok] by (cases req) auto

lemma moves_step:
  assumes "elsewhere_ok op s"
  shows "moves (effects p e op s) s (auth_step p e op s)"
proof (cases op)
  case (Login rnd q)
  then show ?thesis using moves_login [of p e rnd q s "fst (login p e rnd q s)" _ _ "effects p e op s"] by (cases "login p e rnd q s") auto
next
  case (Verify tok q)
  then show ?thesis using moves_verify [of p e tok q s _ _ _ "effects p e op s"] by (cases "mfa_verify p e tok q s") auto
next
  case (Logout cookie)
  then show ?thesis using move_end(2) by auto
next
  case (AcceptInvite tok salt invite password)
  then show ?thesis using moves_accept [of e invite s "effects p e op s"] by auto
next
  case (Member path cookie req)
  obtain s1 r where c: "current_actor e (ap_auth p) path cookie s = (s1, r)" by (metis surj_pair)
  have 1: "moves (effects p e op s) s s1" using move_actor [of _ s e "ap_auth p" path cookie] c by auto
  have "moves (effects p e op s) s1 (member_route p e a req s1)" if "r = Inr a" for a
    by (rule moves_member) (use c that Member in auto)
  then show ?thesis using Member c 1 by (cases r) (auto intro: rtranclp_trans)
next
  case (Admin a req)
  then show ?thesis using moves_admin [of req "effects p e op s"] by auto
next
  case (Elsewhere f)
  then show ?thesis using assms by (auto intro!: moves_one move_plain)
qed

text \<open>
  A run leaves a user without a session and with the factor as long as no operation redeems the factor for the user, accepts an
  invitation of the user, or resets the factor on the user's behalf.
\<close>

definition without_factor :: "auth_platform \<Rightarrow> string \<Rightarrow> env \<Rightarrow> auth_op \<Rightarrow> db \<Rightarrow> bool" where
  "without_factor p u e op s \<longleftrightarrow> elsewhere_ok op s \<and>
     (case op of
        Verify tok q \<Rightarrow> (\<forall>t. snd (snd (mfa_verify p e tok q s)) \<noteq> Inr (SessionFor t u))
      | AcceptInvite tok salt invite password \<Rightarrow> (case peek_invite e invite s of None \<Rightarrow> True | Some i \<Rightarrow> iv_user_ref i \<noteq> u)
      | Admin a (ResetMfa v) \<Rightarrow> v \<noteq> u
      | _ \<Rightarrow> True)"

lemma without_factor_effects:
  assumes "without_factor p u e op s" "u \<notin> session_users s" "of_user has_factor u s"
  shows "\<not> effects p e op s (NewSession u)" "\<not> effects p e op s (Reenrolled u)"
proof -
  have "ac_user_ref a \<noteq> u" if "current_actor e (ap_auth p) path cookie s = (s1, Inr a)" for path cookie s1 a
    using actor_has_session [OF that] assms(2) by auto
  then have m: "\<not> member_effects (ac_user_ref a) req (NewSession u) \<and> \<not> member_effects (ac_user_ref a) req (Reenrolled u)"
    if "current_actor e (ap_auth p) path cookie s = (s1, Inr a)" for path cookie s1 a req
    using that by (cases req) auto
  show "\<not> effects p e op s (NewSession u)" "\<not> effects p e op s (Reenrolled u)"
    using assms(1,3) m by (cases op; auto simp: without_factor_def of_user_def split: admin_request.splits)+
qed

lemma guarded_run:
  assumes "auth_run p (without_factor p u) s s'" "u \<notin> session_users s" "of_user has_factor u s"
  shows "u \<notin> session_users s' \<and> of_user has_factor u s'"
  using assms
proof (induction rule: auth_run.induct)
  case (more s t e op)
  then have t: "u \<notin> session_users t" "of_user has_factor u t" by blast+
  have m: "moves (effects p e op t) t (auth_step p e op t)" using more.hyps(2) by (intro moves_step) (simp add: without_factor_def)
  show ?case using moves_session_users [OF m] factor.moves_keep [OF m] without_factor_effects [OF more.hyps(2) t] t by blast
qed blast

text \<open>
  C14: The second factor is not bypassed. Take a user who is enrolled and signed out, and any sequence of sign-ins (with whatever password, also one
  an operator or administrator has just issued), answered challenges of others, enrolments, password changes, administration and other work,
  each at its own time. As long as no challenge of the user is answered with a valid code, no invitation of the user is accepted and no
  administrator resets the factor, no cookie resolves to the user, and the user stays enrolled. The steps are those of the password
  sign-in; a sign-in through an identity provider is not one of them and leaves the factor to the provider.
\<close>

theorem second_factor_not_bypassed:
  assumes "u \<in> set (map pu_user_ref (platform_users s))" "list_all (\<lambda>r. pu_user_ref r = u \<longrightarrow> has_factor r) (platform_users s)"
    and "u \<notin> set (map se_user_ref (sessions s))" and "auth_run p (without_factor p u) s s'"
  shows "snd (resolve_session e (ap_auth p) cookie s') \<noteq> Some u \<and> list_all (\<lambda>r. pu_user_ref r = u \<longrightarrow> has_factor r) (platform_users s')"
proof -
  have "u \<notin> session_users s' \<and> of_user has_factor u s'"
    using assms by (intro guarded_run) (auto simp: session_users_def of_user_def list_all_iff)
  moreover have "u \<in> session_users s'" if w: "snd (resolve_session e (ap_auth p) cookie s') = Some u"
  proof -
    obtain s2 where r: "resolve_session e (ap_auth p) cookie s' = (s2, Some u)" using w by (metis prod.collapse)
    then obtain tok where "cookie = Some tok" by (cases cookie) (auto simp: resolve_session_def)
    then show ?thesis using resolve_session_live [of e "ap_auth p" tok s' s2 u] r by (force simp: session_users_def)
  qed
  ultimately show ?thesis by (auto simp: of_user_def list_all_iff)
qed

definition demo_platform :: auth_platform where
  "demo_platform = \<lparr>ap_crypto = \<lparr>cr_pbkdf2 = (\<lambda>alg pw salt n. pw), cr_hmac_sha1 = (\<lambda>k m. replicate 20 (CHR ''a'')),
       cr_seal = (\<lambda>k n v a. v), cr_open = (\<lambda>k n c a. Some c), cr_iterations = 1\<rparr>,
     ap_auth = default_auth_cfg, ap_secrets = \<lparr>sc_key = None, sc_keys = None, sc_primary = None, sc_allow_plaintext = None\<rparr>\<rparr>"

definition bob_account :: platform_user where
  "bob_account = (blank_user (sample_env 0) ''bob'' ''Bob'' ''active'')\<lparr>pu_email := Some ''bob@x'', pu_password_hash := Some ''pbkdf2_sha256$1$00$6f6c64'',
     pu_tenant_id := Some ''acme'', pu_mfa_secret := Some ''JBSWY3DPEHPK3PXP'', pu_mfa_enabled_at := Some 0\<rparr>"

definition factor_db :: db where
  "factor_db = empty_db\<lparr>platform_users := [bob_account],
     mfa_challenges := [\<lparr>mc_token = ''h:challenge1'', mc_user_ref = ''bob'', mc_attempts = 0, mc_created_at = 0, mc_expires_at = minutes 5\<rparr>]\<rparr>"

definition operator :: actor_context where
  "operator = \<lparr>ac_user_ref = ''root'', ac_tenant_id = None, ac_project = None, ac_environment = None, ac_platform_role = Some ''super_admin''\<rparr>"

definition reset_then :: db where
  "reset_then = auth_step demo_platform (sample_env 1) (Admin operator (ResetPassword [CHR 0x00] ''temporary'' ''bob'')) factor_db"

definition temp_login :: login_request where
  "temp_login = \<lparr>lq_email = ''bob@x'', lq_password = ''temporary'', lq_from = \<lparr>hr_forwarded_for = None, hr_client_host = None\<rparr>\<rparr>"

definition demo_random :: login_random where
  "demo_random = \<lparr>lr_session = ''session1'', lr_challenge = ''challenge2'', lr_salt = [CHR 0x00]\<rparr>"

theorem second_factor_not_bypassed_witness:
  "snd (snd (login demo_platform (sample_env 2) demo_random temp_login reset_then)) = Inr (MfaRequired ''challenge2'') \<and>
   snd (resolve_session (sample_env 3) (ap_auth demo_platform) (Some ''session1'') (fst (login demo_platform (sample_env 2) demo_random temp_login reset_then))) \<noteq> Some ''bob''"
proof -
  have "snd (snd (login demo_platform (sample_env 2) demo_random temp_login reset_then)) = Inr (MfaRequired ''challenge2'')" by code_simp
  moreover have "auth_run demo_platform (without_factor demo_platform ''bob'') factor_db reset_then"
    unfolding reset_then_def by (rule auth_run.more [OF auth_run.start]) (simp add: without_factor_def)
  then have "auth_run demo_platform (without_factor demo_platform ''bob'') factor_db
      (auth_step demo_platform (sample_env 2) (Login demo_random temp_login) reset_then)"
    by (rule auth_run.more) (simp add: without_factor_def)
  then have "snd (resolve_session (sample_env 3) (ap_auth demo_platform) (Some ''session1'')
      (auth_step demo_platform (sample_env 2) (Login demo_random temp_login) reset_then)) \<noteq> Some ''bob''"
    using second_factor_not_bypassed [of "''bob''" factor_db demo_platform _ "sample_env 3" "Some ''session1''"]
    by (simp add: factor_db_def empty_db_def bob_account_def blank_user_def has_factor_def)
  ultimately show ?thesis by simp
qed

text \<open>An open invitation is not held to the second factor: here it signs in a user who has enrolled since it was sent.\<close>

definition invited_db :: db where
  "invited_db = factor_db\<lparr>invites := [\<lparr>iv_token_hash = ''h:invite1'', iv_user_ref = ''bob'', iv_tenant_id = ''acme'', iv_created_by = None,
     iv_created_at = 0, iv_expires_at = minutes 60, iv_used_at = None\<rparr>]\<rparr>"

lemma invite_skips_factor:
  "has_factor bob_account"
  "snd (snd (accept_invite demo_platform (sample_env 1) ''session1'' [CHR 0x00] ''invite1'' ''longpassword'' invited_db)) = Inr ''session1''"
  "snd (resolve_session (sample_env 2) (ap_auth demo_platform) (Some ''session1'')
     (fst (accept_invite demo_platform (sample_env 1) ''session1'' [CHR 0x00] ''invite1'' ''longpassword'' invited_db))) = Some ''bob''"
  by code_simp+

section \<open>A spent factor stays spent\<close>

lemma match_counter_above: "match_counter cr key code lo ks = Inr (Some k) \<Longrightarrow> lo < k"
  by (induction ks) (auto simp: ebind_eq_Inr split: if_splits)

lemma accepted_counter_above:
  assumes "accepted_counter p e r code = Inr (Some k)" "counter_from c r"
  shows "c < k"
  using assms match_counter_above
  by (fastforce simp: accepted_counter_def verify_code_def counter_from_def Let_def split: option.splits if_splits)

definition keeps_enrolment :: "auth_platform \<Rightarrow> string \<Rightarrow> env \<Rightarrow> auth_op \<Rightarrow> db \<Rightarrow> bool" where
  "keeps_enrolment p u e op s \<longleftrightarrow> elsewhere_ok op s \<and> \<not> effects p e op s (Reenrolled u)"

lemma spent_run:
  assumes "auth_run p (keeps_enrolment p u) s s'"
  shows "of_user (counter_from c) u s \<Longrightarrow> of_user (counter_from c) u s'" "code_spent u h s \<Longrightarrow> code_spent u h s'"
  using assms
proof (induction rule: auth_run.induct)
  case (more s t e op)
  have m: "moves (effects p e op t) t (auth_step p e op t)" "\<not> effects p e op t (Reenrolled u)"
    using more.hyps(2) by (auto simp: keeps_enrolment_def intro: moves_step)
  {
    case 1
    then show ?case using counter.moves_keep [OF m] more.IH(1) by blast
  next
    case 2
    then show ?case using moves_code_spent [OF m] more.IH(2) by blast
  }
qed blast+

lemma finish_login_state:
  assumes "finish_login p e tok r m s = (s', es, Inr (SessionFor t u))"
  shows "u = pu_user_ref r" "platform_users s' = platform_users s" "mfa_recovery_codes s' = mfa_recovery_codes s"
  using assms by (auto simp: finish_login_def create_session_def insert_session_def purge_expired_sessions_def ebind_eq_Inr split: sum.splits if_splits)

lemma counted_from:
  assumes "r \<in> set (platform_users s)"
  shows "of_user (counter_from c) (pu_user_ref r) (record_used_counter (pu_user_ref r) c s)"
proof -
  let ?P = "\<lambda>u. pu_user_ref u = pu_user_ref r \<and> (case pu_mfa_last_counter u of None \<Rightarrow> True | Some k \<Rightarrow> k < c)"
  let ?f = "\<lambda>u. u\<lparr>pu_mfa_last_counter := Some c\<rparr>"
  have rows: "platform_users (record_used_counter (pu_user_ref r) c s) = update_where ?P ?f (platform_users s)"
    by (simp add: record_used_counter_def)
  have "pu_user_ref ` set (update_where ?P ?f (platform_users s)) = pu_user_ref ` set (platform_users s)"
    using map_key_update_where [of ?P pu_user_ref ?f "platform_users s"] by (metis (no_types, lifting) list.set_map platform_user.select_convs(1) platform_user.surjective platform_user.update_convs(14))
  moreover have "counter_from c (if ?P y then ?f y else y)" if "pu_user_ref (if ?P y then ?f y else y) = pu_user_ref r" for y
    using that by (cases "pu_mfa_last_counter y") (auto simp: counter_from_def split: if_splits)
  ultimately show ?thesis using assms unfolding of_user_def rows by (auto simp only: set_update_where)
qed

text \<open>
  C15: Each proof of the second factor is good for one sign-in. When a challenge was answered, then after any sequence of later operations, each at its
  own time, short of the user's own new enrolment: the recovery code that was used is refused, and a code is accepted for the user only at a later time
  step than the one that was used.
\<close>

theorem second_factor_single_use:
  assumes v: "mfa_verify p e tok q s = (s1, es, Inr (SessionFor t u))" and run: "auth_run p (keeps_enrolment p u) s1 s2"
  shows "if nonempty (mv_recovery_code q)
    then \<not> snd (consume_recovery_code e2 u (hash_opaque e (py_lower (py_strip (the (mv_recovery_code q))))) s2)
    else \<exists>c. (\<exists>r\<in>set (platform_users s). pu_user_ref r = u \<and> accepted_counter p e r (the (mv_code q)) = Inr (Some c)) \<and>
      (\<forall>r\<in>set (platform_users s2). pu_user_ref r = u \<longrightarrow> (\<forall>e2 code k. accepted_counter p e2 r code = Inr (Some k) \<longrightarrow> c < k))"
  using v
proof (cases rule: mfa_verify_cases)
  case (recovery ch r es')
  have "code_spent u (recovery_hash e q) s1"
    using finish_login_state [OF recovery(5)]
    by (auto simp: code_spent_def consume_challenge_def consume_recovery_code_def set_update_where unused_code_def)
  then have "code_spent u (recovery_hash e q) s2" by (rule spent_run(2) [OF run])
  then show ?thesis using recovery(3) by (auto simp: code_spent_def consume_recovery_code_def exists_row_def list_ex_iff unused_code_def)
next
  case (code ch r k)
  have r: "r \<in> set (platform_users s)" using active_userD [OF code(2)] by simp
  have "of_user (counter_from k) u s1"
    using counted_from [OF r, of k] finish_login_state [OF code(5)] by (simp add: of_user_def consume_challenge_def)
  then have "of_user (counter_from k) u s2" by (rule spent_run(1) [OF run])
  then have later: "\<forall>r\<in>set (platform_users s2). pu_user_ref r = u \<longrightarrow> (\<forall>e2 code j. accepted_counter p e2 r code = Inr (Some j) \<longrightarrow> k < j)"
    using accepted_counter_above by (auto simp: of_user_def)
  have "\<exists>r\<in>set (platform_users s). pu_user_ref r = u \<and> accepted_counter p e r (the (mv_code q)) = Inr (Some k)"
    using r code(4) finish_login_state(1) [OF code(5)] by blast
  then show ?thesis using later code(3) by auto
qed simp

definition code_answer :: verify_request where
  "code_answer = \<lparr>mv_challenge = ''challenge1'', mv_code = Some ''771 873'', mv_recovery_code = None,
     mv_from = \<lparr>hr_forwarded_for = None, hr_client_host = None\<rparr>\<rparr>"

definition answered_db :: db where
  "answered_db = fst (mfa_verify demo_platform (sample_env 60000000) ''session1'' code_answer factor_db)"

theorem second_factor_single_use_witness:
  "snd (snd (mfa_verify demo_platform (sample_env 60000000) ''session1'' code_answer factor_db)) = Inr (SessionFor ''session1'' ''bob'') \<and>
   map pu_user_ref (platform_users answered_db) = [''bob''] \<and>
   accepted_counter demo_platform (sample_env 60000001) (hd (platform_users answered_db)) ''771873'' \<noteq> Inr (Some 1)"
proof -
  let ?v = "mfa_verify demo_platform (sample_env 60000000) ''session1'' code_answer factor_db"
  have r: "snd (snd ?v) = Inr (SessionFor ''session1'' ''bob'')" by code_simp
  then have v: "?v = (answered_db, fst (snd ?v), Inr (SessionFor ''session1'' ''bob''))" unfolding answered_db_def by (metis prod.collapse)
  have refs: "map pu_user_ref (platform_users answered_db) = [''bob'']" by code_simp
  have rows: "platform_users factor_db = [bob_account]" by (simp add: factor_db_def)
  have one: "accepted_counter demo_platform (sample_env 60000000) bob_account ''771 873'' = Inr (Some 1)" by code_simp
  obtain r0 where r0: "platform_users answered_db = [r0]" "pu_user_ref r0 = ''bob''" using refs by auto
  have q: "\<not> nonempty (mv_recovery_code code_answer)" "the (mv_code code_answer) = ''771 873''" by (simp_all add: code_answer_def)
  obtain c where c: "accepted_counter demo_platform (sample_env 60000000) bob_account ''771 873'' = Inr (Some c)"
    and later: "\<forall>r\<in>set [r0]. pu_user_ref r = ''bob'' \<longrightarrow> (\<forall>e2 code k. accepted_counter demo_platform e2 r code = Inr (Some k) \<longrightarrow> c < k)"
    using second_factor_single_use [OF v auth_run.start, of undefined, unfolded rows r0(1) q(2)] q(1) by (simp only: if_False list.set) blast
  have "c = 1" using c one by simp
  then have "accepted_counter demo_platform (sample_env 60000001) r0 ''771873'' \<noteq> Inr (Some 1)"
    using later r0(2) by (metis less_irrefl list.set_intros(1))
  then show ?thesis using r refs r0 by simp
qed

end
