(* ===== verification/Retention.thy ===== *)
theory Retention
  imports Account_Admin Fold
begin

text \<open>
  Retention and erasure (storage/retention.py), the routes that ask for them (api/admin.py, api/routes.py) and the periodic
  pass over everything that turns on the clock (services/maintenance.py). The two tables of portable packets are not in the state. The advisory lock and the loop of the worker thread are left out.
\<close>

section \<open>Erasing an organization\<close>

definition keep_rows :: "('r \<Rightarrow> string option) \<Rightarrow> string \<Rightarrow> 'r list \<Rightarrow> 'r list" where
  "keep_rows f t rows = filter (\<lambda>r. f r \<noteq> Some t) rows"

text \<open>The organizations of the rows of each table that is erased, in the order of the list in the code.\<close>

definition tenant_columns :: "db \<Rightarrow> (string \<times> string option list) list" where
  "tenant_columns s =
     [(''sdk_events'', map sk_tenant_id (sdk_events s)), (''governance_applications'', map ga_tenant_id (governance_applications s)),
      (''governance_workflows'', map gw_tenant_id (governance_workflows s)), (''governance_models'', map gm_tenant_id (governance_models s)),
      (''governance_providers'', map gv_tenant_id (governance_providers s)),
      (''governance_observed_events'', map oe_tenant_id (governance_observed_events s)),
      (''governance_risks'', map gk_tenant_id (governance_risks s)), (''governance_controls'', map gc_tenant_id (governance_controls s)),
      (''control_assessments'', map ca_tenant_id (control_assessments s)),
      (''control_evidence_traces'', map (Some \<circ> ct_tenant_id) (control_evidence_traces s)),
      (''risk_findings'', map rf_tenant_id (risk_findings s)), (''lifecycle_fingerprints'', map lf_tenant_id (lifecycle_fingerprints s)),
      (''change_events'', map ce_tenant_id (change_events s)), (''review_tasks'', map rt_tenant_id (review_tasks s)),
      (''prompt_templates'', map (Some \<circ> pt_tenant_id) (prompt_templates s)), (''prompt_versions'', map pv_tenant_id (prompt_versions s)),
      (''governance_deployments'', map (Some \<circ> dp_tenant_id) (governance_deployments s)),
      (''deployment_versions'', map dv_tenant_id (deployment_versions s)),
      (''deployment_approval_gates'', map dg_tenant_id (deployment_approval_gates s)),
      (''governance_incidents'', map (Some \<circ> ic_tenant_id) (governance_incidents s)), (''ai_use_cases'', map uc_tenant_id (ai_use_cases s)),
      (''governance_decisions'', map gd_tenant_id (governance_decisions s)), (''governance_exceptions'', map ge_tenant_id (governance_exceptions s)),
      (''owner_assignments'', map oa_tenant_id (owner_assignments s)), (''role_assignments'', map ra_tenant_id (role_assignments s)),
      (''ingestion_keys'', map (Some \<circ> ik_tenant_id) (ingestion_keys s)), (''agent_registry'', map (Some \<circ> ag_tenant_id) (agent_registry s)),
      (''attestation_keys'', map (Some \<circ> ak_tenant_id) (attestation_keys s)), (''invites'', map (Some \<circ> iv_tenant_id) (invites s)),
      (''notification_outbox'', map ob_tenant_id (notification_outbox s)), (''webhooks'', map (Some \<circ> wh_tenant_id) (webhooks s)),
      (''saml_configurations'', map (Some \<circ> sm_tenant_id) (saml_configurations s)), (''saml_requests'', map (Some \<circ> sr_tenant_id) (saml_requests s)),
      (''scim_tokens'', map (Some \<circ> stk_tenant_id) (scim_tokens s)), (''sso_configurations'', map (Some \<circ> sg_tenant_id) (sso_configurations s)),
      (''sso_login_states'', map (Some \<circ> sn_tenant_id) (sso_login_states s)),
      (''control_library'', map (Some \<circ> cl_tenant_id) (control_library s)), (''risk_rules'', map (Some \<circ> rr_tenant_id) (risk_rules s)),
      (''review_queue_policies'', map (Some \<circ> qp_tenant_id) (review_queue_policies s)),
      (''owner_assignment_policies'', map (Some \<circ> op_tenant_id) (owner_assignment_policies s)),
      (''platform_users'', map pu_tenant_id (platform_users s))]"

definition erase_tables :: "string \<Rightarrow> db \<Rightarrow> db" where
  "erase_tables t s =
     s\<lparr>sdk_events := keep_rows sk_tenant_id t (sdk_events s), governance_applications := keep_rows ga_tenant_id t (governance_applications s),
       governance_workflows := keep_rows gw_tenant_id t (governance_workflows s), governance_models := keep_rows gm_tenant_id t (governance_models s),
       governance_providers := keep_rows gv_tenant_id t (governance_providers s),
       governance_observed_events := keep_rows oe_tenant_id t (governance_observed_events s),
       governance_risks := keep_rows gk_tenant_id t (governance_risks s), governance_controls := keep_rows gc_tenant_id t (governance_controls s),
       control_assessments := keep_rows ca_tenant_id t (control_assessments s),
       control_evidence_traces := keep_rows (Some \<circ> ct_tenant_id) t (control_evidence_traces s),
       risk_findings := keep_rows rf_tenant_id t (risk_findings s), lifecycle_fingerprints := keep_rows lf_tenant_id t (lifecycle_fingerprints s),
       change_events := keep_rows ce_tenant_id t (change_events s), review_tasks := keep_rows rt_tenant_id t (review_tasks s),
       prompt_templates := keep_rows (Some \<circ> pt_tenant_id) t (prompt_templates s), prompt_versions := keep_rows pv_tenant_id t (prompt_versions s),
       governance_deployments := keep_rows (Some \<circ> dp_tenant_id) t (governance_deployments s),
       deployment_versions := keep_rows dv_tenant_id t (deployment_versions s),
       deployment_approval_gates := keep_rows dg_tenant_id t (deployment_approval_gates s),
       governance_incidents := keep_rows (Some \<circ> ic_tenant_id) t (governance_incidents s), ai_use_cases := keep_rows uc_tenant_id t (ai_use_cases s),
       governance_decisions := keep_rows gd_tenant_id t (governance_decisions s),
       governance_exceptions := keep_rows ge_tenant_id t (governance_exceptions s),
       owner_assignments := keep_rows oa_tenant_id t (owner_assignments s), role_assignments := keep_rows ra_tenant_id t (role_assignments s),
       ingestion_keys := keep_rows (Some \<circ> ik_tenant_id) t (ingestion_keys s), agent_registry := keep_rows (Some \<circ> ag_tenant_id) t (agent_registry s),
       attestation_keys := keep_rows (Some \<circ> ak_tenant_id) t (attestation_keys s), invites := keep_rows (Some \<circ> iv_tenant_id) t (invites s),
       notification_outbox := keep_rows ob_tenant_id t (notification_outbox s), webhooks := keep_rows (Some \<circ> wh_tenant_id) t (webhooks s),
       saml_configurations := keep_rows (Some \<circ> sm_tenant_id) t (saml_configurations s), saml_requests := keep_rows (Some \<circ> sr_tenant_id) t (saml_requests s),
       scim_tokens := keep_rows (Some \<circ> stk_tenant_id) t (scim_tokens s), sso_configurations := keep_rows (Some \<circ> sg_tenant_id) t (sso_configurations s),
       sso_login_states := keep_rows (Some \<circ> sn_tenant_id) t (sso_login_states s),
       control_library := keep_rows (Some \<circ> cl_tenant_id) t (control_library s), risk_rules := keep_rows (Some \<circ> rr_tenant_id) t (risk_rules s),
       review_queue_policies := keep_rows (Some \<circ> qp_tenant_id) t (review_queue_policies s),
       owner_assignment_policies := keep_rows (Some \<circ> op_tenant_id) t (owner_assignment_policies s),
       platform_users := keep_rows pu_tenant_id t (platform_users s)\<rparr>"

definition erase_users :: "platform_user list \<Rightarrow> db \<Rightarrow> db" where
  "erase_users users s =
     s\<lparr>sessions := filter (\<lambda>x. se_user_ref x \<notin> set (map pu_user_ref users)) (sessions s),
       login_throttle := filter (\<lambda>x. lt_subject x \<notin> set (map email_subject (filter (\<lambda>m. m \<noteq> []) (List.map_filter pu_email users)))) (login_throttle s)\<rparr>"

definition purge_tenant_data :: "string \<Rightarrow> db \<Rightarrow> db \<times> (string \<times> int) list" where
  "purge_tenant_data t s =
     (let users = filter (\<lambda>u. pu_tenant_id u = Some t) (platform_users s);
          s1 = erase_users users s;
          s2 = (erase_tables t s1)\<lparr>organizations := filter (\<lambda>o1. og_tenant_id o1 \<noteq> t) (organizations s)\<rparr>
      in (s2, (if users = [] then [] else [(''sessions'', int (length (sessions s)) - int (length (sessions s1)))]) @
              map (\<lambda>(n, ts). (n, int (count_list ts (Some t)))) (tenant_columns s) @
              [(''organizations'', int (length (filter (\<lambda>o1. og_tenant_id o1 = t) (organizations s))))]))"

definition tenant_data_summary :: "string \<Rightarrow> db \<Rightarrow> (string \<times> int) list \<times> int" where
  "tenant_data_summary t s =
     (let counts = filter (\<lambda>p. snd p \<noteq> 0) (map (\<lambda>(n, ts). (n, int (count_list ts (Some t)))) (tenant_columns s))
      in (counts, sum_list (map snd counts)))"

section \<open>Ageing out raw events\<close>

text \<open>Both columns are compared as texts. A window that reaches back before the year 1 is an error of the date type.\<close>

definition purge_events_older_than :: "env \<Rightarrow> int \<Rightarrow> string option \<Rightarrow> db \<Rightarrow> (db \<times> int) res" where
  "purge_events_older_than e retention_days tenant s =
     (if day_of (env_now e) < retention_days then Inl (RuntimeErr ''OverflowError'')
      else let cutoff = isoformat (add_days (env_now e) (- retention_days));
          old = (\<lambda>r. (sk_timestamp r < cutoff \<or> (case sk_ingested_at r of None \<Rightarrow> False | Some t \<Rightarrow> t < cutoff)) \<and>
                     (tenant = None \<or> sk_tenant_id r = tenant))
      in Inr (s\<lparr>sdk_events := filter (\<lambda>r. \<not> old r) (sdk_events s)\<rparr>, int (length (filter old (sdk_events s)))))"

definition MIN_RETENTION_DAYS :: int where "MIN_RETENTION_DAYS = 7"

definition set_retention_days :: "env \<Rightarrow> string \<Rightarrow> int option \<Rightarrow> db \<Rightarrow> db res" where
  "set_retention_days e tenant days s =
     (if (case days of None \<Rightarrow> False | Some d \<Rightarrow> d < MIN_RETENTION_DAYS)
      then Inl (DomainErr (''retention_days must be at least '' @ str_int MIN_RETENTION_DAYS @ '', or null to keep everything''))
      else if (case days of None \<Rightarrow> False | Some d \<Rightarrow> \<not> int64 d) then Inl (RuntimeErr ''OverflowError'')
      else if \<not> exists_row (\<lambda>o1. og_tenant_id o1 = tenant) (organizations s) then Inl (DomainErr ''organization not found'')
      else Inr (s\<lparr>organizations := update_where (\<lambda>o1. og_tenant_id o1 = tenant)
             (\<lambda>o1. o1\<lparr>og_retention_days := days, og_updated_at := db_now e\<rparr>) (organizations s)\<rparr>))"

definition retention_days_for :: "db \<Rightarrow> string \<Rightarrow> int option" where
  "retention_days_for s tenant = Option.bind (load_organization s tenant) og_retention_days"

definition tenants_with_retention_window :: "db \<Rightarrow> (string \<times> int) list" where
  "tenants_with_retention_window s =
     List.map_filter (\<lambda>o1. if og_status o1 = ''active'' then map_option (\<lambda>d. (og_tenant_id o1, d)) (og_retention_days o1) else None) (organizations s)"

section \<open>Routes\<close>

definition purge_organization :: "actor_context \<Rightarrow> string \<Rightarrow> string \<Rightarrow> db \<Rightarrow> (db \<times> audit_req) res" where
  "purge_organization a tenant confirm s =
     ebind (require_super_admin a) (\<lambda>_.
     if confirm \<noteq> tenant then Inl (DomainErr ''confirm_tenant_id must match the tenant being purged'')
     else if load_organization s tenant = None then Inl (NotFound ''organization not found'')
     else let (s1, counts) = purge_tenant_data tenant s in
       Inr (s1, audit_entry (ac_user_ref a) ''org.purge'' (Some tenant) ''organization'' tenant
              (Some (JObj [(''row_counts'', JObj (map (\<lambda>(n, k). (n, JInt k)) counts))]))))"

definition tenant_data_preview :: "actor_context \<Rightarrow> string \<Rightarrow> db \<Rightarrow> (audit_req \<times> (string \<times> int) list \<times> int) res" where
  "tenant_data_preview a tenant s =
     ebind (require_super_admin a) (\<lambda>_.
     Inr (audit_entry (ac_user_ref a) ''access.tenant_data_preview'' (Some tenant) ''organization'' tenant None, tenant_data_summary tenant s))"

definition purge_old_events :: "env \<Rightarrow> actor_context \<Rightarrow> int \<Rightarrow> string option \<Rightarrow> bool \<Rightarrow> db \<Rightarrow> (db \<times> audit_req) res" where
  "purge_old_events e a retention_days tenant all_tenants s =
     ebind (require_super_admin a) (\<lambda>_.
     if nonempty tenant = all_tenants then Inl (DomainErr ''specify tenant_id, or set all_tenants true to age out every organization'')
     else ebind (purge_events_older_than e retention_days tenant s) (\<lambda>(s1, deleted).
       Inr (s1, audit_entry (ac_user_ref a) ''retention.purge_events'' tenant ''retention'' (str_int retention_days)
              (Some (JObj [(''deleted'', JInt deleted), (''retention_days'', JInt retention_days), (''scope'', JStr (or_str tenant ''all_tenants''))])))))"

definition require_tenant_for_config :: "actor_context \<Rightarrow> string res" where
  "require_tenant_for_config a =
     (if is_super_admin a \<or> \<not> nonempty (ac_tenant_id a) then Inl (AuthErr ''Configuration changes are made within an organization'')
      else Inr (the (ac_tenant_id a)))"

definition configure_retention_policy :: "env \<Rightarrow> actor_context \<Rightarrow> int option \<Rightarrow> db \<Rightarrow> (db \<times> audit_req) res" where
  "configure_retention_policy e a days s =
     ebind (require_config_write s a (tenant_target None)) (\<lambda>_. ebind (require_tenant_for_config a) (\<lambda>tenant.
     ebind (set_retention_days e tenant days s) (\<lambda>s1.
       Inr (s1, audit_entry (ac_user_ref a) ''retention.configure'' (Some tenant) ''retention'' tenant
              (Some (JObj [(''retention_days'', case days of None \<Rightarrow> JNull | Some d \<Rightarrow> JInt d)]))))))"

section \<open>The maintenance pass\<close>

definition retention_entry :: "string \<Rightarrow> int \<Rightarrow> int \<Rightarrow> audit_req" where
  "retention_entry tenant days deleted =
     audit_entry ''system:retention'' ''retention.purge_events'' (Some tenant) ''retention'' (str_int days)
       (Some (JObj [(''deleted_events'', JInt deleted), (''retention_days'', JInt days)]))"

text \<open>A window that raises is logged and the next organization follows.\<close>

definition enforce_retention :: "env \<Rightarrow> db \<Rightarrow> db \<times> audit_req list" where
  "enforce_retention e s =
     fold (\<lambda>(tenant, days) (s1, es).
        case purge_events_older_than e days (Some tenant) s1 of
          Inl _ \<Rightarrow> (s1, es)
        | Inr (s2, deleted) \<Rightarrow> (s2, if deleted = 0 then es else es @ [retention_entry tenant days deleted])) (tenants_with_retention_window s) (s, [])"

text \<open>The steps commit one by one; one that raises ends the pass with what was reached.\<close>

definition maintenance_pass :: "env \<Rightarrow> db \<Rightarrow> db \<times> audit_req list res" where
  "maintenance_pass e s =
     (let (s1, _) = expire_due_exceptions e s in
      case age_recertifications e s1 of
        Inl x \<Rightarrow> (s1, Inl x)
      | Inr (s2, _) \<Rightarrow>
          (case age_vendor_recertifications e s2 of
             Inl x \<Rightarrow> (s2, Inl x)
           | Inr (s3, lapsed) \<Rightarrow>
               let pass = age_evidence_references e s3;
                   (s5, purges) = enforce_retention e (refresh_workflow_state e None (ep_db pass)) in
               (s5, Inr (map recertify_audit lapsed @ evidence_pass_audits pass @ purges))))"

end
