(* ===== verification/Retention_Properties.thy ===== *)
theory Retention_Properties
  imports Retention
begin

text \<open>
  Erasing an organization removes its rows and nobody else's; what the retention window removes.
\<close>

text \<open>What an organization has in the database: its rows, the sessions of its users; failed sign-ins are left out.\<close>

definition of_tenant :: "string \<Rightarrow> db \<Rightarrow> db" where
  "of_tenant t s =
     s\<lparr>sdk_events := filter (\<lambda>r. sk_tenant_id r = Some t) (sdk_events s),
       governance_applications := filter (\<lambda>r. ga_tenant_id r = Some t) (governance_applications s),
       governance_workflows := filter (\<lambda>r. gw_tenant_id r = Some t) (governance_workflows s),
       governance_models := filter (\<lambda>r. gm_tenant_id r = Some t) (governance_models s),
       governance_providers := filter (\<lambda>r. gv_tenant_id r = Some t) (governance_providers s),
       governance_observed_events := filter (\<lambda>r. oe_tenant_id r = Some t) (governance_observed_events s),
       governance_risks := filter (\<lambda>r. gk_tenant_id r = Some t) (governance_risks s),
       governance_controls := filter (\<lambda>r. gc_tenant_id r = Some t) (governance_controls s),
       control_assessments := filter (\<lambda>r. ca_tenant_id r = Some t) (control_assessments s),
       control_evidence_traces := filter (\<lambda>r. (Some \<circ> ct_tenant_id) r = Some t) (control_evidence_traces s),
       risk_findings := filter (\<lambda>r. rf_tenant_id r = Some t) (risk_findings s),
       lifecycle_fingerprints := filter (\<lambda>r. lf_tenant_id r = Some t) (lifecycle_fingerprints s),
       change_events := filter (\<lambda>r. ce_tenant_id r = Some t) (change_events s),
       review_tasks := filter (\<lambda>r. rt_tenant_id r = Some t) (review_tasks s),
       prompt_templates := filter (\<lambda>r. (Some \<circ> pt_tenant_id) r = Some t) (prompt_templates s),
       prompt_versions := filter (\<lambda>r. pv_tenant_id r = Some t) (prompt_versions s),
       governance_deployments := filter (\<lambda>r. (Some \<circ> dp_tenant_id) r = Some t) (governance_deployments s),
       deployment_versions := filter (\<lambda>r. dv_tenant_id r = Some t) (deployment_versions s),
       deployment_approval_gates := filter (\<lambda>r. dg_tenant_id r = Some t) (deployment_approval_gates s),
       governance_incidents := filter (\<lambda>r. (Some \<circ> ic_tenant_id) r = Some t) (governance_incidents s),
       ai_use_cases := filter (\<lambda>r. uc_tenant_id r = Some t) (ai_use_cases s),
       governance_decisions := filter (\<lambda>r. gd_tenant_id r = Some t) (governance_decisions s),
       governance_exceptions := filter (\<lambda>r. ge_tenant_id r = Some t) (governance_exceptions s),
       owner_assignments := filter (\<lambda>r. oa_tenant_id r = Some t) (owner_assignments s),
       role_assignments := filter (\<lambda>r. ra_tenant_id r = Some t) (role_assignments s),
       ingestion_keys := filter (\<lambda>r. (Some \<circ> ik_tenant_id) r = Some t) (ingestion_keys s),
       agent_registry := filter (\<lambda>r. (Some \<circ> ag_tenant_id) r = Some t) (agent_registry s),
       attestation_keys := filter (\<lambda>r. (Some \<circ> ak_tenant_id) r = Some t) (attestation_keys s),
       invites := filter (\<lambda>r. (Some \<circ> iv_tenant_id) r = Some t) (invites s),
       notification_outbox := filter (\<lambda>r. ob_tenant_id r = Some t) (notification_outbox s),
       webhooks := filter (\<lambda>r. (Some \<circ> wh_tenant_id) r = Some t) (webhooks s),
       saml_configurations := filter (\<lambda>r. (Some \<circ> sm_tenant_id) r = Some t) (saml_configurations s),
       saml_requests := filter (\<lambda>r. (Some \<circ> sr_tenant_id) r = Some t) (saml_requests s),
       scim_tokens := filter (\<lambda>r. (Some \<circ> stk_tenant_id) r = Some t) (scim_tokens s),
       sso_configurations := filter (\<lambda>r. (Some \<circ> sg_tenant_id) r = Some t) (sso_configurations s),
       sso_login_states := filter (\<lambda>r. (Some \<circ> sn_tenant_id) r = Some t) (sso_login_states s),
       control_library := filter (\<lambda>r. (Some \<circ> cl_tenant_id) r = Some t) (control_library s),
       risk_rules := filter (\<lambda>r. (Some \<circ> rr_tenant_id) r = Some t) (risk_rules s),
       review_queue_policies := filter (\<lambda>r. (Some \<circ> qp_tenant_id) r = Some t) (review_queue_policies s),
       owner_assignment_policies := filter (\<lambda>r. (Some \<circ> op_tenant_id) r = Some t) (owner_assignment_policies s),
       platform_users := filter (\<lambda>r. pu_tenant_id r = Some t) (platform_users s), organizations := filter (\<lambda>o1. og_tenant_id o1 = t) (organizations s),
       sessions := filter (\<lambda>x. se_user_ref x \<in> pu_user_ref ` {u \<in> set (platform_users s). pu_tenant_id u = Some t}) (sessions s),
       login_throttle := []\<rparr>"

lemma keep_rows_other: "t \<noteq> u \<Longrightarrow> filter (\<lambda>r. f r = Some u) (keep_rows f t rows) = filter (\<lambda>r. f r = Some u) rows"
  by (induction rows) (auto simp: keep_rows_def)

lemma keep_rows_other_plain: "t \<noteq> u \<Longrightarrow> filter (\<lambda>r. f r = u) (keep_rows (Some \<circ> f) t rows) = filter (\<lambda>r. f r = u) rows"
  by (induction rows) (auto simp: keep_rows_def)

lemma keep_rows_gone: "Some t \<notin> set (map f (keep_rows f t rows))"
  by (auto simp: keep_rows_def)

lemma sessions_kept:
  assumes "pk pu_user_ref rows" "t \<noteq> u"
  shows "filter (\<lambda>x. se_user_ref x \<in> pu_user_ref ` {r \<in> set (keep_rows pu_tenant_id t rows). pu_tenant_id r = Some u})
      (filter (\<lambda>x. se_user_ref x \<notin> set (map pu_user_ref (filter (\<lambda>r. pu_tenant_id r = Some t) rows))) xs) =
    filter (\<lambda>x. se_user_ref x \<in> pu_user_ref ` {r \<in> set rows. pu_tenant_id r = Some u}) xs"
proof -
  have apart: "pu_user_ref b \<noteq> pu_user_ref a" if "a \<in> set rows" "b \<in> set rows" "pu_tenant_id a = Some u" "pu_tenant_id b = Some t" for a b
    using assms that by (metis distinct_map inj_onD option.inject pk_def)
  have same: "{r \<in> set (keep_rows pu_tenant_id t rows). pu_tenant_id r = Some u} = {r \<in> set rows. pu_tenant_id r = Some u}"
    using assms(2) by (auto simp: keep_rows_def)
  show ?thesis unfolding same filter_filter by (rule filter_cong) (use apart in auto)
qed

text \<open>
  C35: Erasing an organization erases it and nothing else: afterwards no row of the erased tables, no account and no session of its users is left, and every
  other organization has exactly the rows, accounts and sessions it had.
\<close>

theorem purge_erases_one_organization:
  assumes "pk pu_user_ref (platform_users s)"
  shows "list_all (\<lambda>(n, ts). Some t \<notin> set ts) (tenant_columns (fst (purge_tenant_data t s))) \<and>
    load_organization (fst (purge_tenant_data t s)) t = None \<and>
    list_all (\<lambda>u. pu_tenant_id u = Some t \<longrightarrow> pu_user_ref u \<notin> set (map se_user_ref (sessions (fst (purge_tenant_data t s))))) (platform_users s) \<and>
    (\<forall>u. u \<noteq> t \<longrightarrow> of_tenant u (fst (purge_tenant_data t s)) = of_tenant u s)"
proof (intro conjI allI impI)
  show "list_all (\<lambda>(n, ts). Some t \<notin> set ts) (tenant_columns (fst (purge_tenant_data t s)))"
    by (simp add: purge_tenant_data_def Let_def tenant_columns_def erase_tables_def keep_rows_gone del: set_map)
  show "load_organization (fst (purge_tenant_data t s)) t = None"
    by (auto simp: purge_tenant_data_def Let_def load_organization_def by_key_None)
  show "list_all (\<lambda>u. pu_tenant_id u = Some t \<longrightarrow> pu_user_ref u \<notin> set (map se_user_ref (sessions (fst (purge_tenant_data t s))))) (platform_users s)"
    unfolding list_all_iff
  proof (intro ballI impI)
    fix u assume "u \<in> set (platform_users s)" "pu_tenant_id u = Some t"
    then have "pu_user_ref u \<in> pu_user_ref ` {x \<in> set (platform_users s). pu_tenant_id x = Some t}" by blast
    then show "pu_user_ref u \<notin> set (map se_user_ref (sessions (fst (purge_tenant_data t s))))"
      by (auto simp: purge_tenant_data_def Let_def erase_tables_def erase_users_def simp del: image_iff)
  qed
  fix u assume "u \<noteq> t"
  then have tu: "t \<noteq> u" by simp
  have "filter (\<lambda>o1. og_tenant_id o1 = u) (filter (\<lambda>o1. og_tenant_id o1 \<noteq> t) (organizations s)) = filter (\<lambda>o1. og_tenant_id o1 = u) (organizations s)"
    using tu by (auto intro!: filter_cong)
  then show "of_tenant u (fst (purge_tenant_data t s)) = of_tenant u s"
    using sessions_kept [OF assms tu, of "sessions s"]
    by (simp add: of_tenant_def purge_tenant_data_def Let_def erase_tables_def erase_users_def keep_rows_other [OF tu] keep_rows_other_plain [OF tu])
qed

definition two_organizations :: db where
  "two_organizations = empty_db\<lparr>
     organizations := map (\<lambda>t. \<lparr>og_tenant_id = t, og_name = t, og_status = ''active'', og_created_by = ''root'', og_created_at = 0, og_updated_at = 0,
         og_require_mfa = False, og_retention_days = Some 7\<rparr>) [''acme'', ''globex''],
     platform_users := map (\<lambda>(u, t). (blank_user (sample_env 0) u u ''active'')\<lparr>pu_email := Some u, pu_tenant_id := Some t\<rparr>) [(''ann'', ''acme''), (''gus'', ''globex'')],
     sessions := map (\<lambda>u. \<lparr>se_token = ''h:'' @ u, se_user_ref = u, se_created_at = 0, se_expires_at = hours 12, se_last_seen_at = Some 0\<rparr>) [''ann'', ''gus'']\<rparr>"

theorem purge_erases_one_organization_witness:
  "pk pu_user_ref (platform_users two_organizations) \<and>
   map se_user_ref (sessions (fst (purge_tenant_data ''acme'' two_organizations))) = [''gus''] \<and>
   of_tenant ''globex'' (fst (purge_tenant_data ''acme'' two_organizations)) = of_tenant ''globex'' two_organizations"
proof -
  have p: "pk pu_user_ref (platform_users two_organizations)" by code_simp
  have "map se_user_ref (sessions (fst (purge_tenant_data ''acme'' two_organizations))) = [''gus'']" by code_simp
  moreover have "of_tenant ''globex'' (fst (purge_tenant_data ''acme'' two_organizations)) = of_tenant ''globex'' two_organizations"
    by (rule purge_erases_one_organization [OF p, of "''acme''", THEN conjunct2, THEN conjunct2, THEN conjunct2, rule_format]) simp
  ultimately show ?thesis using p by blast
qed

text \<open>The policies, the approval stages, the vendors and their evidence, the attestation requirements and the recovery codes of an erased organization stay.\<close>

lemma purge_leaves:
  "governance_policies (fst (purge_tenant_data t s)) = governance_policies s \<and> approval_stages (fst (purge_tenant_data t s)) = approval_stages s \<and>
   vendor_registry (fst (purge_tenant_data t s)) = vendor_registry s \<and>
   vendor_evidence_references (fst (purge_tenant_data t s)) = vendor_evidence_references s \<and>
   attestation_requirements (fst (purge_tenant_data t s)) = attestation_requirements s \<and>
   mfa_recovery_codes (fst (purge_tenant_data t s)) = mfa_recovery_codes s \<and> mfa_challenges (fst (purge_tenant_data t s)) = mfa_challenges s"
  by (simp add: purge_tenant_data_def Let_def erase_tables_def erase_users_def)

section \<open>The retention window\<close>

text \<open>
  The time of ingestion is written with a blank before the clock, the bound of the window with a T, and a blank sorts before a T: an
  event ingested on the day of the bound is deleted at any hour of that day. Here the window is seven days and the event is six days and two hours old.
\<close>

definition recent_row :: sdk_event where
  "recent_row = \<lparr>sk_id = 1, sk_event_type = ''model.call'', sk_schema_version = ''1'', sk_trace_id = ''t1'', sk_span_id = ''s1'', sk_parent_span_id = None,
     sk_timestamp = ''2024-01-08T22:00:00+00:00'', sk_service = ''svc'', sk_environment = ''prod'', sk_project = ''p'', sk_system = None, sk_name = None,
     sk_status = ''success'', sk_duration_ms = None, sk_tenant_id = Some ''acme'', sk_user_id = None, sk_application_name = None, sk_workflow_name = None,
     sk_use_case = None, sk_model_purpose = None, sk_provider = None, sk_model = None, sk_operation = None, sk_input_tokens = 0, sk_output_tokens = 0,
     sk_raw_event = JNull, sk_ingested_at = Some ''2024-01-08 22:00:00'', sk_folded_at = None, sk_counted_at = None, sk_fold_attempts = 0, sk_fold_error = None\<rparr>"

lemma recent_event_deleted:
  "map_sum id snd (purge_events_older_than (sample_env 1705276800000000) 7 None (empty_db\<lparr>sdk_events := [recent_row]\<rparr>)) = Inr 1"
  by code_simp

end
