(* ===== verification/Credential_Properties.thy ===== *)
theory Credential_Properties
  imports Credentials
begin

text \<open>
  Stored credentials read back: a password hash accepts the passwords with the same derived key and no others, and a secret encrypted under
  the primary key of one configuration is read under every later ring that still holds that key.
\<close>

section \<open>Numbers\<close>

lemma lstrip_none: "list_all (\<lambda>c. \<not> p c) s \<Longrightarrow> lstrip_by p s = s"
  by (cases s) auto

lemma py_strip_none: "list_all (\<lambda>c. \<not> py_space c) s \<Longrightarrow> py_strip s = s"
  by (simp add: py_strip_def rstrip_by_def lstrip_none)

lemma digit_groups_value:
  "list_all is_digit cs \<Longrightarrow> cs \<noteq> [] \<or> after \<Longrightarrow> digit_groups after (int n) cs = Some (int (foldl (\<lambda>n c. n * 10 + (of_char c - 48)) n cs))"
proof (induction cs arbitrary: after n)
  case (Cons c cs)
  have "10 * int n + (int (of_char c) - 48) = int (n * 10 + (of_char c - 48))"
    using Cons.prems(1) by (simp add: is_digit_def of_nat_diff)
  moreover have "digit_groups True (int (n * 10 + (of_char c - 48))) cs = Some (int (foldl (\<lambda>n c. n * 10 + (of_char c - 48)) (n * 10 + (of_char c - 48)) cs))"
    by (rule Cons.IH) (use Cons.prems in simp_all)
  ultimately show ?case using Cons.prems(1) by (simp only: digit_groups.simps list.pred_inject foldl_Cons if_True)
qed simp

lemma str_nat_digits: "list_all is_digit (str_nat n)"
  using set_str_nat [of _ n] by (auto simp: list_all_iff is_digit_def)

lemma str_nat_not_Nil: "str_nat n \<noteq> []"
  by (subst str_nat.simps) simp

lemma digit_not_space: "is_digit c \<Longrightarrow> \<not> py_space c"
  by (auto simp: is_digit_def py_space_def)

lemma int_of_text_str_int:
  assumes "0 \<le> i"
  shows "int_of_text (str_int i) = Some i"
proof -
  have d: "list_all is_digit (str_nat (nat i))" and ne: "str_nat (nat i) \<noteq> []" by (rule str_nat_digits, rule str_nat_not_Nil)
  have strip: "py_strip (str_nat (nat i)) = str_nat (nat i)"
    by (rule py_strip_none) (use d digit_not_space in \<open>auto simp: list_all_iff\<close>)
  obtain c cs where c: "str_nat (nat i) = c # cs" using ne by (cases "str_nat (nat i)") auto
  have "c \<noteq> CHR ''-''" "c \<noteq> CHR ''+''" using d c by (auto simp: is_digit_def)
  moreover have "digit_groups False 0 (str_nat (nat i)) = Some i"
    using digit_groups_value [OF d, of False 0] ne decimal_value_str_nat [of "nat i"] assms by (simp add: decimal_value_def del: str_nat.simps)
  ultimately show ?thesis using assms strip by (simp add: int_of_text_def str_int_def c del: str_nat.simps)
qed

section \<open>Hexadecimal\<close>

lemma byte_hex_digit: "k < 16 \<Longrightarrow> byte (hex_digit k) = (if k < 10 then 48 + k else 87 + k)"
  by (simp add: hex_digit_def of_char_of)

lemma hex_digit_facts:
  assumes "k < 16"
  shows "hex_value (hex_digit k) = Some k" "byte (hex_digit k) \<notin> {9, 10, 11, 12, 13, 32}" "byte (hex_digit k) < 128" "hex_digit k \<noteq> CHR ''$''"
proof -
  note b = byte_hex_digit [OF assms]
  show "hex_value (hex_digit k) = Some k" using assms unfolding hex_value_def b Let_def by auto
  show "byte (hex_digit k) \<notin> {9, 10, 11, 12, 13, 32}" "byte (hex_digit k) < 128" unfolding b using assms by auto
  have "byte (hex_digit k) \<noteq> byte CHR ''$''" unfolding b by auto
  then show "hex_digit k \<noteq> CHR ''$''" by metis
qed

lemma nibbles: "byte b div 16 < 16" "byte b mod 16 < 16"
  using byte_less [of b] by (simp_all add: less_mult_imp_div_less)

lemma fromhex_hex_text: "fromhex (hex_text bs) = Some bs"
proof (induction bs)
  case (Cons b bs)
  have "char_of (byte b div 16 * 16 + byte b mod 16) = b" by (simp add: div_mult_mod_eq)
  moreover have "fromhex (hex_text (b # bs)) = map_option (Cons (char_of (byte b div 16 * 16 + byte b mod 16))) (fromhex (hex_text bs))"
    using hex_digit_facts(1) [OF nibbles(1) [of b]] hex_digit_facts(2) [OF nibbles(1) [of b]] hex_digit_facts(1) [OF nibbles(2) [of b]]
    by (simp add: hex_text_def)
  ultimately show ?case using Cons by simp
qed (simp add: hex_text_def)

lemma hex_text_inj: "hex_text a = hex_text b \<longleftrightarrow> a = b"
  by (metis fromhex_hex_text option.inject)

lemma hex_text_chars: "ch \<in> set (hex_text bs) \<Longrightarrow> byte ch < 128 \<and> ch \<noteq> CHR ''$''"
  using hex_digit_facts(3,4) nibbles by (auto simp: hex_text_def)

lemma hex_text_ascii: "ascii (hex_text bs)"
  using hex_text_chars by (auto simp: ascii_def list_all_iff)

section \<open>Password hashes\<close>

lemma split_on_none: "d \<notin> set x \<Longrightarrow> split_on d x = [x]"
  by (induction x) auto

lemma split_on_first: "d \<notin> set x \<Longrightarrow> split_on d (x @ d # rest) = x # split_on d rest"
  by (induction x) auto

lemma hash_text:
  assumes "hash_password cr salt pw = Inr h"
  shows "split_on (CHR ''$'') h = [''pbkdf2_sha256'', str_int (cr_iterations cr), hex_text salt,
      hex_text (cr_pbkdf2 cr ''sha256'' pw salt (cr_iterations cr))]" "h \<noteq> []"
proof -
  let ?d = "hex_text (cr_pbkdf2 cr ''sha256'' pw salt (cr_iterations cr))"
  have h: "h = ''pbkdf2_sha256'' @ CHR ''$'' # str_int (cr_iterations cr) @ CHR ''$'' # hex_text salt @ CHR ''$'' # ?d"
    using assms by (auto simp: hash_password_def PBKDF2_ALGORITHM_def split: if_splits)
  have i: "CHR ''$'' \<notin> set (str_int (cr_iterations cr))"
    using set_str_nat [of "CHR ''$''"] unfolding str_int_def by (auto split: if_splits)
  have x: "CHR ''$'' \<notin> set (hex_text bs)" for bs using hex_text_chars by blast
  have p: "CHR ''$'' \<notin> set ''pbkdf2_sha256''" by simp
  show "split_on (CHR ''$'') h = [''pbkdf2_sha256'', str_int (cr_iterations cr), hex_text salt, ?d]"
    unfolding h split_on_first [OF p] split_on_first [OF i] split_on_first [OF x] split_on_none [OF x] by (rule refl)
  show "h \<noteq> []" unfolding h by simp
qed

text \<open>
  A hash written for a password accepts exactly the passwords whose derived key under the stored salt and round count is the same, raises for
  none, and is not due for rehashing.
\<close>

theorem password_hash_roundtrip:
  assumes "hash_password cr salt pw = Inr h" "1 \<le> cr_iterations cr" "cr_iterations cr \<le> 2147483647"
  shows "verify_password cr pw1 (Some h) =
      Inr (cr_pbkdf2 cr ''sha256'' pw1 salt (cr_iterations cr) = cr_pbkdf2 cr ''sha256'' pw salt (cr_iterations cr)) \<and>
    \<not> needs_rehash cr (Some h)"
  using assms hash_text [OF assms(1)]
  by (simp add: verify_password_def needs_rehash_def nonempty_def Let_def ALLOWED_ALGORITHMS_def PBKDF2_ALGORITHM_def
      int_of_text_str_int fromhex_hex_text compare_digest_def hex_text_ascii hex_text_inj)

definition toy_open :: "string \<Rightarrow> string \<Rightarrow> string \<Rightarrow> string \<Rightarrow> string option" where
  "toy_open key nonce ct ad =
     (let p = partition_at (CHR ''.'') ct; xs = fst p; rest = snd p in
      if length xs = length ad \<and> take (length ad) rest = ad then Some (drop (length ad) rest) else None)"

definition toy_crypto :: crypto where
  "toy_crypto = \<lparr>cr_pbkdf2 = (\<lambda>alg pw salt n. pw @ salt), cr_hmac_sha1 = (\<lambda>k m. k @ m),
     cr_seal = (\<lambda>key nonce v ad. replicate (length ad) (CHR ''x'') @ CHR ''.'' # ad @ v), cr_open = toy_open, cr_iterations = 600\<rparr>"

theorem password_hash_roundtrip_witness:
  "hash_password toy_crypto ''ab'' ''pw'' = Inr ''pbkdf2_sha256$600$6162$70776162'' \<and>
   verify_password toy_crypto ''pw'' (Some ''pbkdf2_sha256$600$6162$70776162'') = Inr True \<and>
   verify_password toy_crypto ''px'' (Some ''pbkdf2_sha256$600$6162$70776162'') = Inr False"
proof -
  have h: "hash_password toy_crypto ''ab'' ''pw'' = Inr ''pbkdf2_sha256$600$6162$70776162''" by code_simp
  have i: "1 \<le> cr_iterations toy_crypto" "cr_iterations toy_crypto \<le> 2147483647" by (simp_all add: toy_crypto_def)
  show ?thesis using h password_hash_roundtrip [OF h i, of "''pw''"] password_hash_roundtrip [OF h i, of "''px''"]
    by (simp add: toy_crypto_def)
qed

section \<open>Encrypted secrets\<close>

lemma ring_put_ids: "fst ` set (ring_put kid key ring) = insert kid (fst ` set ring)"
proof (induction ring)
  case (Cons x ring)
  then show ?case by (cases x) auto
qed simp

lemma ring_ids_plain:
  assumes "secret_keyring c = Inr ring" "kid \<in> fst ` set ring"
  shows "CHR '':'' \<notin> set kid"
proof -
  let ?plain = "\<lambda>ring. \<forall>k \<in> fst ` set ring. CHR '':'' \<notin> set k"
  have step: "?plain r1" if "add_secret_key x r = Inr r1" "?plain r" for x r r1
  proof -
    have "\<exists>kid key. CHR '':'' \<notin> set kid \<and> r1 = ring_put kid key r"
      using that(1) unfolding add_secret_key_def by (cases x) (simp add: ebind_eq_Inr split: if_splits, blast)
    then show ?thesis using that(2) by (metis insertE ring_put_ids)
  qed
  have run: "?plain r1" if "efold add_secret_key xs r = Inr r1" "?plain r" for xs r r1
    using that
  proof (induction xs arbitrary: r)
    case (Cons x xs)
    then obtain r2 where r2: "add_secret_key x r = Inr r2" "efold add_secret_key xs r2 = Inr r1" by (auto simp: ebind_eq_Inr)
    show ?case by (rule Cons.IH [OF r2(2) step [OF r2(1) Cons.prems(2)]])
  qed simp
  obtain r where b: "(if nonempty (sc_key c) then ebind (decode_key (JStr (the (sc_key c))) ''NORINTH_SECRET_KEY'') (\<lambda>key. Inr [(''legacy'', key)]) else Inr []) = Inr r"
    and f: "(case sc_keys c of None \<Rightarrow> Inr r
        | Some None \<Rightarrow> Inl (RuntimeErr ''NORINTH_SECRET_KEYS is not valid JSON'')
        | Some (Some (JObj entries)) \<Rightarrow>
            if entries = [] then Inl (RuntimeErr ''NORINTH_SECRET_KEYS must be a non-empty JSON object of {id: base64 key}'')
            else efold add_secret_key entries r
        | Some (Some _) \<Rightarrow> Inl (RuntimeErr ''NORINTH_SECRET_KEYS must be a non-empty JSON object of {id: base64 key}'')) = Inr ring"
    using assms(1) unfolding secret_keyring_def ebind_eq_Inr [of "if _ then _ else _"] by blast
  have r: "?plain r" using b by (auto simp: ebind_eq_Inr split: if_splits)
  have e: "ring = r \<or> (\<exists>xs. efold add_secret_key xs r = Inr ring)"
    using f by (cases "sc_keys c"; cases "the (sc_keys c)"; cases "the (the (sc_keys c))") (auto split: if_splits)
  have "?plain ring" using e run [OF _ r] r by blast
  then show ?thesis using assms(2) by blast
qed

lemma encrypt_text:
  assumes "encrypt cr c nonce v ad = Inr st" "primary_key_id c = Inr (Some p)"
  obtains ring key where "secret_keyring c = Inr ring" "map_of ring p = Some key" "CHR '':'' \<notin> set p" "ad \<noteq> []"
    "st = ''enc:v2:'' @ p @ CHR '':'' # urlsafe_b64encode nonce @ CHR '':'' # urlsafe_b64encode (cr_seal cr key nonce v ad)"
proof -
  obtain ring key where r: "secret_keyring c = Inr ring" "map_of ring p = Some key"
    and st: "ad \<noteq> []" "st = ''enc:v2:'' @ p @ '':'' @ urlsafe_b64encode nonce @ '':'' @ urlsafe_b64encode (cr_seal cr key nonce v ad)"
    using assms by (auto simp: encrypt_def require_binding_def ebind_eq_Inr split: if_splits option.splits)
  have "p \<in> fst ` set ring" using r(2) by (metis fst_conv image_eqI map_of_SomeD)
  then show ?thesis using that r st ring_ids_plain [OF r(1)] by simp
qed

lemma decrypt_text:
  assumes "secret_keyring c = Inr ring" "map_of ring p = Some key" "CHR '':'' \<notin> set p" "ad \<noteq> []"
  shows "decrypt cr c (''enc:v2:'' @ p @ CHR '':'' # urlsafe_b64encode nonce @ CHR '':'' # urlsafe_b64encode ct) ad =
    (case cr_open cr key nonce ct ad of None \<Rightarrow> Inl decrypt_failed | Some v \<Rightarrow> Inr v)"
proof -
  have n: "CHR '':'' \<notin> set (urlsafe_b64encode nonce)" using b64_encode_chars by blast
  show ?thesis
    using assms by (simp add: decrypt_def require_binding_def partition_at_first [OF assms(3)] partition_at_first [OF n]
        aesgcm_decrypt_def b64_roundtrip)
qed

text \<open>
  C36: Key rotation loses no secret and moves none: with an authenticated cipher, a secret encrypted under the primary key of one configuration decrypts, for
  the binding it was written with, under every configuration whose ring maps that id to that key, whichever key is primary there; read for another
  binding it is refused.
\<close>

theorem secret_survives_rotation:
  assumes "\<And>key nonce v ad. cr_open cr key nonce (cr_seal cr key nonce v ad) ad = Some v"
    and "\<And>key nonce v ad ad1. ad1 \<noteq> ad \<Longrightarrow> cr_open cr key nonce (cr_seal cr key nonce v ad) ad1 = None"
    and "primary_key_id c = Inr (Some p)" "encrypt cr c nonce v ad = Inr st"
    and "secret_keyring c = Inr ring" "secret_keyring c1 = Inr ring1" "map_of ring1 p = map_of ring p"
  shows "decrypt cr c1 st ad1 =
    (if ad1 = [] then Inl (ValueErr ''associated_data must be a non-empty context binding (e.g. the tenant id or record key)'')
     else if ad1 = ad then Inr v else Inl decrypt_failed)"
proof -
  obtain key where k: "map_of ring p = Some key" "CHR '':'' \<notin> set p" "ad \<noteq> []"
    and st: "st = ''enc:v2:'' @ p @ CHR '':'' # urlsafe_b64encode nonce @ CHR '':'' # urlsafe_b64encode (cr_seal cr key nonce v ad)"
    using encrypt_text [OF assms(4,3)] assms(5) by (metis sum.inject(2))
  show ?thesis
  proof (cases "ad1 = []")
    case True
    then show ?thesis by (simp add: decrypt_def require_binding_def)
  next
    case False
    then show ?thesis using decrypt_text [OF assms(6) _ k(2) False, of key] assms(1,2,7) k(1) st by simp
  qed
qed

definition old_ring :: secret_config where
  "old_ring = \<lparr>sc_key = None, sc_keys = Some (Some (JObj [(''k1'', JStr (replicate 42 (CHR ''A'') @ ''A''))])), sc_primary = Some ''k1'',
     sc_allow_plaintext = None\<rparr>"

definition new_ring :: secret_config where
  "new_ring = old_ring\<lparr>sc_keys := Some (Some (JObj [(''k2'', JStr (replicate 42 (CHR ''B'') @ ''A'')), (''k1'', JStr (replicate 42 (CHR ''A'') @ ''A''))])),
     sc_primary := Some ''k2''\<rparr>"

lemma toy_partition: "partition_at (CHR ''.'') (replicate n (CHR ''x'') @ CHR ''.'' # r) = (replicate n (CHR ''x''), r)"
  by (rule partition_at_first) simp

lemma toy_opens: "cr_open toy_crypto key nonce (cr_seal toy_crypto key nonce v ad) ad = Some v"
  by (simp add: toy_crypto_def toy_open_def toy_partition)

lemma toy_bound: "ad1 \<noteq> ad \<Longrightarrow> cr_open toy_crypto key nonce (cr_seal toy_crypto key nonce v ad) ad1 = None"
  by (auto simp: toy_crypto_def toy_open_def toy_partition)

theorem secret_survives_rotation_witness:
  "primary_key_id old_ring = Inr (Some ''k1'') \<and> primary_key_id new_ring = Inr (Some ''k2'') \<and>
   encrypt toy_crypto old_ring ''n'' ''secret'' ''acme'' = Inr ''enc:v2:k1:bg==:eHh4eC5hY21lc2VjcmV0'' \<and>
   decrypt toy_crypto new_ring ''enc:v2:k1:bg==:eHh4eC5hY21lc2VjcmV0'' ''acme'' = Inr ''secret'' \<and>
   decrypt toy_crypto new_ring ''enc:v2:k1:bg==:eHh4eC5hY21lc2VjcmV0'' ''globex'' = Inl decrypt_failed"
proof -
  have p: "primary_key_id old_ring = Inr (Some ''k1'')" "primary_key_id new_ring = Inr (Some ''k2'')" by code_simp+
  have e: "encrypt toy_crypto old_ring ''n'' ''secret'' ''acme'' = Inr ''enc:v2:k1:bg==:eHh4eC5hY21lc2VjcmV0''" by code_simp
  obtain r r1 where r: "secret_keyring old_ring = Inr r" "secret_keyring new_ring = Inr r1" "map_of r1 ''k1'' = map_of r ''k1''"
  proof
    show "secret_keyring old_ring = Inr [(''k1'', replicate 32 (CHR 0x00))]" by code_simp
    show "secret_keyring new_ring = Inr [(''k2'', concat (replicate 10 [CHR 0x04, CHR 0x10, CHR 0x41]) @ [CHR 0x04, CHR 0x10]), (''k1'', replicate 32 (CHR 0x00))]"
      by code_simp
    show "map_of [(''k2'', concat (replicate 10 [CHR 0x04, CHR 0x10, CHR 0x41]) @ [CHR 0x04, CHR 0x10]), (''k1'', replicate 32 (CHR 0x00))] ''k1'' =
        map_of [(''k1'', replicate 32 (CHR 0x00))] ''k1''" by simp
  qed
  note d = secret_survives_rotation [OF toy_opens toy_bound p(1) e r]
  show ?thesis using p e d [of "''acme''"] d [of "''globex''"] by simp
qed

end
