(* ===== verification/Url.thy ===== *)
theory Url
  imports Credentials
begin

text \<open>
  \<open>urllib.parse.urlsplit\<close> and \<open>datetime.fromisoformat\<close>, as far as the identity code uses them: the scheme, the network location with its host,
  port and user, the path, and the check of a host in brackets; a timestamp as the instant it names.
\<close>

section \<open>Cutting texts\<close>

text \<open>\<open>str.partition\<close>: the part before the first separator, and the rest if there is one. \<open>str.rpartition\<close> cuts at the last one.\<close>

definition cut_at :: "char \<Rightarrow> string \<Rightarrow> string \<times> string option" where
  "cut_at d s = (takeWhile (\<lambda>c. c \<noteq> d) s, case dropWhile (\<lambda>c. c \<noteq> d) s of [] \<Rightarrow> None | _ # r \<Rightarrow> Some r)"

definition cut_last :: "char \<Rightarrow> string \<Rightarrow> string option \<times> string" where
  "cut_last d s = (case cut_at d (rev s) of (a, b) \<Rightarrow> (map_option rev b, rev a))"

definition after_cut :: "string \<times> string option \<Rightarrow> string" where
  "after_cut p = (case snd p of None \<Rightarrow> [] | Some r \<Rightarrow> r)"

definition ends_with :: "string \<Rightarrow> string \<Rightarrow> bool" where
  "ends_with t s = starts_with (rev t) (rev s)"

section \<open>Addresses in brackets\<close>

definition is_hex :: "char \<Rightarrow> bool" where
  "is_hex c \<longleftrightarrow> hex_value c \<noteq> None"

definition octet_ok :: "string \<Rightarrow> bool" where
  "octet_ok o1 \<longleftrightarrow> o1 \<noteq> [] \<and> length o1 \<le> 3 \<and> list_all is_digit o1 \<and> (o1 = ''0'' \<or> hd o1 \<noteq> CHR ''0'') \<and>
     (case digits o1 of None \<Rightarrow> False | Some n \<Rightarrow> n \<le> 255)"

definition ipv4_ok :: "string \<Rightarrow> bool" where
  "ipv4_ok t \<longleftrightarrow> (let os = split_on (CHR ''.'') t in length os = 4 \<and> list_all octet_ok os)"

definition hextet_ok :: "string \<Rightarrow> bool" where
  "hextet_ok h \<longleftrightarrow> h \<noteq> [] \<and> length h \<le> 4 \<and> list_all is_hex h"

text \<open>The groups of an address; a dotted tail counts as two groups, one empty group inside stands for the run of zeros.\<close>

definition ipv6_groups :: "string list \<Rightarrow> bool" where
  "ipv6_groups ps \<longleftrightarrow>
     (let n = length ps; gaps = filter (\<lambda>i. ps ! i = []) [1..<n - 1] in
      n \<le> 9 \<and>
      (case gaps of
         [] \<Rightarrow> n = 8 \<and> list_all hextet_ok ps
       | [g] \<Rightarrow>
           (let hi = (if hd ps = [] then g - 1 else g); lo = (if last ps = [] then n - g - 2 else n - g - 1) in
            (hd ps = [] \<longrightarrow> hi = 0) \<and> (last ps = [] \<longrightarrow> lo = 0) \<and> hi + lo < 8 \<and>
            list_all hextet_ok (take hi ps) \<and> list_all hextet_ok (drop (n - lo) ps))
       | _ \<Rightarrow> False))"

definition ipv6_ok :: "string \<Rightarrow> bool" where
  "ipv6_ok t \<longleftrightarrow>
     (case cut_at (CHR ''%'') t of (a, zone) \<Rightarrow>
        CHR ''/'' \<notin> set t \<and> zone \<noteq> Some [] \<and> (case zone of None \<Rightarrow> True | Some z \<Rightarrow> CHR ''%'' \<notin> set z) \<and>
        (let ps = split_on (CHR '':'') a in
         3 \<le> length ps \<and>
         (if CHR ''.'' \<in> set (last ps) then ipv4_ok (last ps) \<and> ipv6_groups (butlast ps @ [''0'', ''0'']) else ipv6_groups ps)))"

definition future_ok :: "string \<Rightarrow> bool" where
  "future_ok t \<longleftrightarrow> (let h = takeWhile is_hex (tl t); r = dropWhile is_hex (tl t) in
     h \<noteq> [] \<and> 2 \<le> length r \<and> hd r = CHR ''.'' \<and> CHR 0x0A \<notin> set r)"

definition bracketed_ok :: "string \<Rightarrow> bool" where
  "bracketed_ok t = (if starts_with ''v'' t then future_ok t else ipv6_ok t)"

section \<open>Splitting an address\<close>

record url =
  ur_scheme :: string
  ur_netloc :: string
  ur_path :: string
  ur_query :: string
  ur_fragment :: string

definition ascii_letter :: "char \<Rightarrow> bool" where
  "ascii_letter c \<longleftrightarrow> (let n = byte c in 65 \<le> n \<and> n \<le> 90 \<or> 97 \<le> n \<and> n \<le> 122)"

definition scheme_char :: "char \<Rightarrow> bool" where
  "scheme_char c \<longleftrightarrow> ascii_letter c \<or> is_digit c \<or> c \<in> {CHR ''+'', CHR ''-'', CHR ''.''}"

definition split_scheme :: "string \<Rightarrow> string \<times> string" where
  "split_scheme t =
     (case cut_at (CHR '':'') t of
        (a, Some r) \<Rightarrow> if a \<noteq> [] \<and> ascii_letter (hd a) \<and> list_all scheme_char a then (py_lower a, r) else ([], t)
      | (a, None) \<Rightarrow> ([], t))"

definition split_netloc :: "string \<Rightarrow> string \<times> string" where
  "split_netloc t =
     (if starts_with ''//'' t
      then let r = drop 2 t; inside = (\<lambda>c. c \<notin> {CHR ''/'', CHR ''?'', CHR ''#''}) in (takeWhile inside r, dropWhile inside r) else ([], t))"

definition netloc_ok :: "string \<Rightarrow> bool" where
  "netloc_ok n \<longleftrightarrow> (CHR ''['' \<in> set n) = (CHR '']'' \<in> set n) \<and>
     (CHR ''['' \<in> set n \<longrightarrow> bracketed_ok (fst (cut_at (CHR '']'') (after_cut (cut_at (CHR ''['') n)))))"

definition urlsplit :: "string \<Rightarrow> url res" where
  "urlsplit t0 =
     (let t = filter (\<lambda>c. byte c \<notin> {9, 10, 13}) (lstrip_by (\<lambda>c. byte c \<le> 32) t0);
          (scheme, r1) = split_scheme t; (netloc, r2) = split_netloc r1;
          f = cut_at (CHR ''#'') r2; q = cut_at (CHR ''?'') (fst f)
      in if netloc_ok netloc
         then Inr \<lparr>ur_scheme = scheme, ur_netloc = netloc, ur_path = fst q, ur_query = after_cut q, ur_fragment = after_cut f\<rparr>
         else Inl (ValueErr ''Invalid IPv6 URL''))"

definition hostinfo :: "url \<Rightarrow> string \<times> string" where
  "hostinfo u =
     (let h = snd (cut_last (CHR ''@'') (ur_netloc u)) in
      case cut_at (CHR ''['') h of
        (_, Some b) \<Rightarrow> (let c = cut_at (CHR '']'') b in (fst c, after_cut (cut_at (CHR '':'') (after_cut c))))
      | (_, None) \<Rightarrow> (let c = cut_at (CHR '':'') h in (fst c, after_cut c)))"

definition hostname :: "url \<Rightarrow> string option" where
  "hostname u =
     (let h = fst (hostinfo u) in
      if h = [] then None else case cut_at (CHR ''%'') h of (a, z) \<Rightarrow> Some (py_lower a @ (case z of None \<Rightarrow> [] | Some r \<Rightarrow> CHR ''%'' # r)))"

definition url_port :: "url \<Rightarrow> int option res" where
  "url_port u =
     (let p = snd (hostinfo u) in
      if p = [] then Inr None
      else case digits p of
        None \<Rightarrow> Inl (ValueErr ''Port could not be cast to integer value'')
      | Some n \<Rightarrow> if n \<le> 65535 then Inr (Some n) else Inl (ValueErr ''Port out of range 0-65535''))"

text \<open>Whether a user name or a password that is not empty is part of the address.\<close>

definition has_credentials :: "url \<Rightarrow> bool" where
  "has_credentials u =
     (case fst (cut_last (CHR ''@'') (ur_netloc u)) of
        None \<Rightarrow> False
      | Some i \<Rightarrow> fst (cut_at (CHR '':'') i) \<noteq> [] \<or> after_cut (cut_at (CHR '':'') i) \<noteq> [])"

section \<open>Timestamps\<close>

text \<open>Hours, minutes, seconds and microseconds, with colons throughout or none; two digits each, any number of digits of a second.\<close>

definition fraction_of :: "string \<Rightarrow> int option" where
  "fraction_of t =
     (case t of
        [] \<Rightarrow> Some 0
      | c # ds \<Rightarrow> if c \<in> {CHR ''.'', CHR '',''} \<and> list_all is_digit ds
          then map_option (\<lambda>n. n * 10 ^ (6 - length (take 6 ds))) (digits (take 6 ds)) else None)"

fun clock_parts :: "nat \<Rightarrow> bool option \<Rightarrow> string \<Rightarrow> (int list \<times> string) option" where
  "clock_parts n sep t =
     (case digits (take 2 t) of
        None \<Rightarrow> None
      | Some v \<Rightarrow>
          if length t < 2 then None
          else let r = drop 2 t; colon = (case sep of None \<Rightarrow> starts_with '':'' r | Some b \<Rightarrow> b) in
            if r = [] \<or> n = 0 then Some ([v], r)
            else if colon \<and> \<not> starts_with '':'' r then None
            else (case n of 0 \<Rightarrow> None | Suc m \<Rightarrow> map_option (\<lambda>(vs, q). (v # vs, q)) (clock_parts m (Some colon) (if colon then tl r else r))))"

declare clock_parts.simps [simp del]

definition clock_fields :: "string \<Rightarrow> (int \<times> int \<times> int \<times> int) option" where
  "clock_fields t =
     (case clock_parts 2 None t of
        None \<Rightarrow> None
      | Some (vs, r) \<Rightarrow>
          (let v = (\<lambda>i. if i < length vs then vs ! i else 0) in map_option (\<lambda>f. (v 0, v 1, v 2, f)) (fraction_of r)))"

definition clock_usec :: "string \<Rightarrow> int option" where
  "clock_usec t =
     (case clock_fields t of
        None \<Rightarrow> None
      | Some (h, m, sec, f) \<Rightarrow> if h \<le> 23 \<and> m \<le> 59 \<and> sec \<le> 59 then Some (((h * 60 + m) * 60 + sec) * usec_per_sec + f) else None)"

text \<open>An offset is less than a day.\<close>

definition zone_usec :: "string \<Rightarrow> int option" where
  "zone_usec t =
     (case clock_fields t of
        None \<Rightarrow> None
      | Some (h, m, sec, f) \<Rightarrow>
          (let z = ((h * 60 + m) * 60 + sec) * usec_per_sec + f in if z < 86400 * usec_per_sec then Some z else None))"

text \<open>The time of day and the offset of its zone; a text without a zone is taken as UTC by the caller.\<close>

definition first_of :: "char \<Rightarrow> string \<Rightarrow> nat option" where
  "first_of c t = (if c \<in> set t then Some (length (takeWhile (\<lambda>d. d \<noteq> c) t)) else None)"

definition zone_pos :: "string \<Rightarrow> nat option" where
  "zone_pos t = (case first_of (CHR ''-'') t of Some i \<Rightarrow> Some i
     | None \<Rightarrow> (case first_of (CHR ''+'') t of Some i \<Rightarrow> Some i | None \<Rightarrow> first_of (CHR ''Z'') t))"

definition time_utc :: "string \<Rightarrow> int option" where
  "time_utc t =
     (case zone_pos t of
        None \<Rightarrow> clock_usec t
      | Some i \<Rightarrow>
          (case clock_usec (take i t) of
             None \<Rightarrow> None
           | Some c \<Rightarrow>
               if t ! i = CHR ''Z'' then (if length t = i + 1 then Some c else None)
               else map_option (\<lambda>z. if t ! i = CHR ''-'' then c + z else c - z) (zone_usec (drop (i + 1) t))))"

text \<open>Where the date ends.\<close>

definition date_end :: "string \<Rightarrow> nat" where
  "date_end t =
     (if length t = 7 then 7
      else if substr t 4 1 = ''-'' then
        (if substr t 5 1 = ''W'' then
           (if substr t 8 1 = ''-'' then (if list_ex is_digit (substr t 10 1) then 8 else 10) else 8)
         else 10)
      else if substr t 4 1 = ''W'' then
        (let k = 7 + length (takeWhile is_digit (drop 7 t)) in if k < 9 then k else if k mod 2 = 0 then 7 else 8)
      else 8)"

text \<open>The instant in microseconds since 1970, \<open>None\<close> where the library raises.\<close>

definition datetime_fromisoformat :: "string \<Rightarrow> int option" where
  "datetime_fromisoformat t =
     (if length t < 7 then None
      else case date_fromisoformat (take (date_end t) t) of
        None \<Rightarrow> None
      | Some day \<Rightarrow>
          let r = drop (date_end t + 1) t; start = (day - epoch_day) * 86400 * usec_per_sec in
          if length t \<le> date_end t then Some start else map_option (\<lambda>c. start + c) (time_utc r))"

end
