(* ===== verification/Federation.thy ===== *)
theory Federation
  imports Account_Admin Url
begin

text \<open>
  Sign-in through the identity provider of an organization: OpenID Connect (services/sso.py, storage/sso.py, api/sso.py) and SAML
  (services/saml.py, storage/saml.py, api/saml.py), with the address the flows are built on (services/base_url.py). The answers of the provider over
  the network, the JWT package, the XML parser and the check of an XML signature are the functions of the record \<open>idp\<close>; the parsed tree is read through the
  attributes, texts and child paths that lxml shares with the element tree of the standard library. Random values are arguments.
  The query of the redirect that starts a flow and the metadata document are left out. An \<open>SsoError\<close> or \<open>SamlError\<close> is a
  \<open>DomainErr\<close>; the statements commit one by one, so a refused request keeps what it wrote.
\<close>

datatype xml = Element (xe_ns: string) (xe_name: string) (xe_attrs: "(string \<times> string) list") (xe_text: "string option") (xe_children: "xml list")

record idp =
  id_get :: "string \<Rightarrow> json res"
  id_post :: "string \<Rightarrow> (string \<times> string) list \<Rightarrow> json res"
  id_header :: "json \<Rightarrow> json option"
  id_jwk :: "json \<Rightarrow> string res"
  id_decode :: "json \<Rightarrow> string \<Rightarrow> string \<Rightarrow> string \<Rightarrow> json option"
  id_real_text :: "rat \<Rightarrow> string"
  id_xml :: "string \<Rightarrow> xml option"
  id_verify :: "xml \<Rightarrow> string \<Rightarrow> xml option"

section \<open>services/base_url.py\<close>

definition allowed_hosts :: "env \<Rightarrow> string list option res" where
  "allowed_hosts e =
     (let hosts = (case env_getenv e ''NORINTH_ALLOWED_HOSTS'' of None \<Rightarrow> []
            | Some raw \<Rightarrow> filter (\<lambda>h. h \<noteq> []) (map py_strip (split_on (CHR '','') raw)));
          public = env_getenv e ''NORINTH_PUBLIC_BASE_URL'' in
      ebind (if nonempty public then ebind (urlsplit (the public)) (\<lambda>u. Inr (hostname u)) else Inr None) (\<lambda>host.
        let all = (case host of None \<Rightarrow> hosts | Some h \<Rightarrow> if h \<in> set hosts then hosts else hosts @ [h]) in
        Inr (if all = [] then None else Some all)))"

record web_request =
  wr_host :: "string option"
  wr_base_url :: string

definition external_base_url :: "env \<Rightarrow> web_request \<Rightarrow> string res" where
  "external_base_url e q =
     (let public = env_getenv e ''NORINTH_PUBLIC_BASE_URL''; no_slash = rstrip_by (\<lambda>c. c = CHR ''/'') in
      if nonempty public then Inr (no_slash (the public))
      else ebind (allowed_hosts e) (\<lambda>allowed.
        case allowed of
          None \<Rightarrow> Inr (no_slash (wr_base_url q))
        | Some hs \<Rightarrow>
            let host = py_strip (fst (cut_at (CHR '','') (or_str (wr_host q) [])));
                name = (case cut_last (CHR '':'') host of (Some a, _) \<Rightarrow> a | (None, _) \<Rightarrow> host) in
            if host \<notin> set hs \<and> name \<notin> set hs then Inl (DomainErr ''Request Host is not in NORINTH_ALLOWED_HOSTS'')
            else Inr (no_slash (wr_base_url q))))"

section \<open>storage/sso.py\<close>

definition STATE_TTL_MINUTES :: int where "STATE_TTL_MINUTES = 10"

definition decrypted :: "auth_platform \<Rightarrow> sso_config option \<Rightarrow> string \<Rightarrow> sso_config option res" where
  "decrypted p row tenant =
     (case row of
        None \<Rightarrow> Inr None
      | Some r \<Rightarrow> ebind (decrypt (ap_crypto p) (ap_secrets p) (sg_client_secret r) tenant) (\<lambda>secret. Inr (Some (r\<lparr>sg_client_secret := secret\<rparr>))))"

definition load_sso_configuration :: "auth_platform \<Rightarrow> db \<Rightarrow> string \<Rightarrow> sso_config option res" where
  "load_sso_configuration p s tenant = decrypted p (by_key sg_tenant_id tenant (sso_configurations s)) tenant"

text \<open>The row is the caller's, with the secret in the clear and the times not yet set.\<close>

definition upsert_sso_configuration :: "auth_platform \<Rightarrow> env \<Rightarrow> string \<Rightarrow> sso_config \<Rightarrow> db \<Rightarrow> db res" where
  "upsert_sso_configuration p e nonce c s =
     ebind (encrypt (ap_crypto p) (ap_secrets p) nonce (sg_client_secret c) (sg_tenant_id c)) (\<lambda>secret.
       let row = c\<lparr>sg_client_secret := secret, sg_enabled := True, sg_created_at := db_now e, sg_updated_at := db_now e\<rparr>;
           s1 = s\<lparr>sso_configurations := upsert sg_tenant_id
             (\<lambda>r. row\<lparr>sg_created_by := sg_created_by r, sg_created_at := sg_created_at r\<rparr>) row (sso_configurations s)\<rparr> in
       ebind (load_sso_configuration p s1 (sg_tenant_id c)) (\<lambda>_. Inr s1))"

definition disable_sso_configuration :: "env \<Rightarrow> string \<Rightarrow> db \<Rightarrow> db" where
  "disable_sso_configuration e tenant s =
     s\<lparr>sso_configurations := update_where (\<lambda>r. sg_tenant_id r = tenant) (\<lambda>r. r\<lparr>sg_enabled := False, sg_updated_at := db_now e\<rparr>) (sso_configurations s)\<rparr>"

record login_tokens =
  lk_state :: string
  lk_nonce :: string
  lk_verifier :: string

definition create_login_state :: "env \<Rightarrow> login_tokens \<Rightarrow> string \<Rightarrow> db \<Rightarrow> db res" where
  "create_login_state e k tenant s =
     (let rows = delete_where (\<lambda>r. sn_expires_at r \<le> env_now e) (sso_login_states s) in
      if lk_state k \<in> set (map sn_state rows) then Inl (RuntimeErr ''IntegrityError'')
      else Inr (s\<lparr>sso_login_states := rows @ [\<lparr>sn_state = lk_state k, sn_tenant_id = tenant, sn_nonce = lk_nonce k,
             sn_code_verifier = lk_verifier k, sn_created_at = env_now e, sn_expires_at = env_now e + minutes STATE_TTL_MINUTES\<rparr>]\<rparr>))"

definition consume_login_state :: "env \<Rightarrow> string \<Rightarrow> db \<Rightarrow> db \<times> sso_state option" where
  "consume_login_state e state s =
     (s\<lparr>sso_login_states := delete_where (\<lambda>r. sn_state r = state) (sso_login_states s)\<rparr>,
      find (\<lambda>r. sn_state r = state \<and> env_now e < sn_expires_at r) (sso_login_states s))"

section \<open>services/sso.py\<close>

definition require_https_endpoint :: "json \<Rightarrow> string \<Rightarrow> string res" where
  "require_https_endpoint u label =
     (case u of
        JStr t0 \<Rightarrow>
          (let t = py_strip t0 in
           if t = [] then Inl (DomainErr (label @ '' is missing''))
           else ebind (urlsplit t) (\<lambda>p.
             if py_lower (ur_scheme p) \<noteq> ''https''
             then Inl (DomainErr (label @ '' must use https, got '' @ sq @ or_str (Some (ur_scheme p)) ''no scheme'' @ sq))
             else if hostname p = None then Inl (DomainErr (label @ '' must include a hostname''))
             else if has_credentials p then Inl (DomainErr (label @ '' must not include credentials''))
             else Inr t))
      | _ \<Rightarrow> Inl (DomainErr (label @ '' is missing'')))"

definition normalize_issuer :: "string \<Rightarrow> string res" where
  "normalize_issuer issuer =
     ebind (urlsplit (py_strip issuer)) (\<lambda>p.
       if py_lower (ur_scheme p) \<noteq> ''https'' then Inl (DomainErr ''Issuer URL must use https'')
       else case hostname p of
         None \<Rightarrow> Inl (DomainErr ''Issuer URL must include a hostname'')
       | Some h \<Rightarrow>
           if has_credentials p then Inl (DomainErr ''Issuer URL must not include credentials'')
           else if ur_query p \<noteq> [] \<or> ur_fragment p \<noteq> [] then Inl (DomainErr ''Issuer URL must not include query or fragment'')
           else ebind (url_port p) (\<lambda>port.
             Inr (''https://'' @ h @ (case port of None \<Rightarrow> [] | Some n \<Rightarrow> CHR '':'' # str_int n) @ rstrip_by (\<lambda>c. c = CHR ''/'') (ur_path p))))"

definition doc_endpoint :: "json \<Rightarrow> string \<Rightarrow> string res" where
  "doc_endpoint doc key =
     (case doc of
        JObj d \<Rightarrow> (case map_of d key of
            None \<Rightarrow> Inl (DomainErr (''OpenID configuration is missing '' @ sq @ key @ sq))
          | Some v \<Rightarrow> require_https_endpoint v key)
      | _ \<Rightarrow> Inl TypeErr)"

record endpoints =
  ep_issuer :: json
  ep_authorization :: string
  ep_token :: string
  ep_jwks :: string

definition discover :: "idp \<Rightarrow> string \<Rightarrow> endpoints res" where
  "discover d issuer =
     ebind (normalize_issuer issuer) (\<lambda>want. ebind (id_get d (want @ ''/.well-known/openid-configuration'')) (\<lambda>doc.
       case doc of
         JObj fs \<Rightarrow>
           (case map_of fs ''issuer'' of
              None \<Rightarrow> Inl (DomainErr (''OpenID configuration is missing '' @ sq @ ''issuer'' @ sq))
            | Some iss \<Rightarrow>
                ebind (doc_endpoint doc ''authorization_endpoint'') (\<lambda>a. ebind (doc_endpoint doc ''token_endpoint'') (\<lambda>t.
                ebind (doc_endpoint doc ''jwks_uri'') (\<lambda>j. ebind (normalize_issuer (py_str (id_real_text d) iss)) (\<lambda>got.
                  if got \<noteq> want then Inl (DomainErr ''OpenID configuration issuer does not match the configured issuer'')
                  else Inr \<lparr>ep_issuer = iss, ep_authorization = a, ep_token = t, ep_jwks = j\<rparr>)))))
       | _ \<Rightarrow> Inl TypeErr))"

definition start_login :: "auth_platform \<Rightarrow> env \<Rightarrow> login_tokens \<Rightarrow> string \<Rightarrow> db \<Rightarrow> db \<times> string res" where
  "start_login p e k tenant s =
     (case load_sso_configuration p s tenant of
        Inl x \<Rightarrow> (s, Inl x)
      | Inr None \<Rightarrow> (s, Inl (DomainErr ''SSO is not configured for this organization''))
      | Inr (Some c) \<Rightarrow>
          if \<not> sg_enabled c then (s, Inl (DomainErr ''SSO is not configured for this organization''))
          else case create_login_state e k tenant s of
            Inl x \<Rightarrow> (s, Inl x)
          | Inr s1 \<Rightarrow> (s1, ebind (require_https_endpoint (JStr (sg_authorization_endpoint c)) ''authorization_endpoint'') (\<lambda>_. Inr (lk_state k))))"

text \<open>The key of the provider that the token names; a token that names none is checked against the only one.\<close>

fun signing_key :: "idp \<Rightarrow> json \<Rightarrow> bool \<Rightarrow> json list \<Rightarrow> string option res" where
  "signing_key d kid only [] = Inr None"
| "signing_key d kid only (c # cs) =
     ebind (jget c ''kid'' JNull) (\<lambda>k. if py_eq k kid \<or> kid = JNull \<and> only then ebind (id_jwk d c) (\<lambda>key. Inr (Some key)) else signing_key d kid only cs)"

definition verify_id_token :: "idp \<Rightarrow> json \<Rightarrow> sso_config \<Rightarrow> string \<Rightarrow> json res" where
  "verify_id_token d tok c nonce =
     ebind (require_https_endpoint (JStr (sg_jwks_uri c)) ''jwks_uri'') (\<lambda>uri. ebind (id_get d uri) (\<lambda>jwks.
     case id_header d tok of
       None \<Rightarrow> Inl (DomainErr ''id_token is not a valid JWT'')
     | Some header \<Rightarrow>
         ebind (jget jwks ''keys'' (JArr [])) (\<lambda>ks. ebind (jiter ks) (\<lambda>keys. ebind (jget header ''kid'' JNull) (\<lambda>kid.
         ebind (signing_key d kid (length keys = 1) keys) (\<lambda>found.
           case found of
             None \<Rightarrow> Inl (DomainErr (''no matching signing key in the provider'' @ sq @ ''s JWKS''))
           | Some key \<Rightarrow>
               (case id_decode d tok key (sg_client_id c) (sg_issuer c) of
                  None \<Rightarrow> Inl (DomainErr ''id_token verification failed'')
                | Some claims \<Rightarrow> ebind (jget claims ''nonce'' JNull) (\<lambda>n.
                    if \<not> py_eq n (JStr nonce) then Inl (DomainErr ''id_token nonce mismatch'') else Inr claims))))))))"

definition email_verified :: "(rat \<Rightarrow> string) \<Rightarrow> json \<Rightarrow> bool option" where
  "email_verified rt raw =
     (case raw of JNull \<Rightarrow> None | JBool b \<Rightarrow> Some b | _ \<Rightarrow> Some (py_lower (py_strip (py_str rt raw)) = ''true''))"

definition federated_role :: "string option \<Rightarrow> string" where
  "federated_role role = (let r = or_str role ''governance_viewer'' in if r \<in> set ADMINISTRATION_ROLES then ''governance_viewer'' else r)"

definition provision_user :: "(rat \<Rightarrow> string) \<Rightarrow> env \<Rightarrow> string \<Rightarrow> string \<Rightarrow> json \<Rightarrow> string option \<Rightarrow> bool option \<Rightarrow> db \<Rightarrow> db \<times> platform_user res" where
  "provision_user rt e tenant email claims role verified s =
     (case get_user_by_email s email of
        Some u \<Rightarrow>
          (s, if pu_tenant_id u \<noteq> Some tenant then Inl (DomainErr ''this account belongs to a different organization'')
              else if pu_status u \<noteq> ''active'' then Inl (DomainErr ''account is not active'')
              else if verified \<noteq> Some True then Inl (DomainErr (''the identity provider did not assert this email as verified; '' @
                ''it cannot be used to sign in to an existing account''))
              else Inr u)
      | None \<Rightarrow>
          if verified = Some False then (s, Inl (DomainErr ''the identity provider reported this email address as unverified''))
          else (case ebind (jget claims ''name'' JNull) (\<lambda>n. ebind (jget claims ''preferred_username'' JNull) (\<lambda>u.
                       sql_required rt (py_or n (py_or u (JStr email))))) of
                  Inl x \<Rightarrow> (s, Inl x)
                | Inr name \<Rightarrow>
                    let s1 = create_platform_user e \<lparr>nu_user_ref = email, nu_display_name = name, nu_email = email, nu_password_hash = [],
                          nu_status = ''active'', nu_platform_role = None, nu_tenant_id = Some tenant, nu_must_change_password = False\<rparr> s in
                    (upsert_role_assignment e (Some tenant) None None email (federated_role role) ''active'' s1,
                     case load_platform_user s1 email of None \<Rightarrow> Inl TypeErr | Some u \<Rightarrow> Inr u)))"

definition permitted_domain :: "string option \<Rightarrow> string \<Rightarrow> bool" where
  "permitted_domain domain email = (nonempty domain \<longrightarrow> ends_with (CHR ''@'' # py_lower (the domain)) email)"

definition claimed_email :: "json \<Rightarrow> string res" where
  "claimed_email v = (if \<not> truthy v then Inr [] else case v of JStr t \<Rightarrow> Inr (normalize_email t) | _ \<Rightarrow> Inl AttributeErr)"

text \<open>What the provider says of the person behind a code: the claims of a verified token with an address the organization permits.\<close>

definition oidc_identity :: "idp \<Rightarrow> sso_config \<Rightarrow> sso_state \<Rightarrow> string \<Rightarrow> string \<Rightarrow> (string \<times> json) res" where
  "oidc_identity d c st code redirect_uri =
     ebind (require_https_endpoint (JStr (sg_token_endpoint c)) ''token_endpoint'') (\<lambda>uri.
     ebind (id_post d uri [(''grant_type'', ''authorization_code''), (''code'', code), (''redirect_uri'', redirect_uri), (''client_id'', sg_client_id c),
              (''client_secret'', sg_client_secret c), (''code_verifier'', sn_code_verifier st)]) (\<lambda>tokens.
     ebind (jget tokens ''id_token'' JNull) (\<lambda>tok.
     if \<not> truthy tok then Inl (DomainErr ''token response did not include an id_token'')
     else ebind (verify_id_token d tok c (sn_nonce st)) (\<lambda>claims. ebind (jget claims ''email'' JNull) (\<lambda>raw. ebind (claimed_email raw) (\<lambda>email.
       if email = [] then Inl (DomainErr ''identity provider did not supply an email claim'')
       else if \<not> permitted_domain (sg_allowed_email_domain c) email then Inl (DomainErr ''email domain is not permitted for this organization'')
       else Inr (email, claims)))))))"

definition complete_login :: "idp \<Rightarrow> auth_platform \<Rightarrow> env \<Rightarrow> string \<Rightarrow> string \<Rightarrow> string \<Rightarrow> db \<Rightarrow> db \<times> platform_user res" where
  "complete_login d p e code state redirect_uri s =
     (case consume_login_state e state s of
        (s1, None) \<Rightarrow> (s1, Inl (DomainErr ''login state is unknown or expired''))
      | (s1, Some st) \<Rightarrow>
          (case load_sso_configuration p s1 (sn_tenant_id st) of
             Inl x \<Rightarrow> (s1, Inl x)
           | Inr None \<Rightarrow> (s1, Inl (DomainErr ''SSO is not configured for this organization''))
           | Inr (Some c) \<Rightarrow>
               if \<not> sg_enabled c then (s1, Inl (DomainErr ''SSO is not configured for this organization''))
               else case oidc_identity d c st code redirect_uri of
                 Inl x \<Rightarrow> (s1, Inl x)
               | Inr (email, claims) \<Rightarrow>
                   (case jget claims ''email_verified'' JNull of
                      Inl x \<Rightarrow> (s1, Inl x)
                    | Inr raw \<Rightarrow> provision_user (id_real_text d) e (sn_tenant_id st) email claims (Some (sg_default_role c))
                        (email_verified (id_real_text d) raw) s1)))"

section \<open>api/sso.py\<close>

definition tenant_admin :: "db \<Rightarrow> actor_context \<Rightarrow> string res" where
  "tenant_admin s a =
     (if is_super_admin a \<or> \<not> nonempty (ac_tenant_id a) then Inl (AuthErr ''Organization administrator required'')
      else ebind (require_permission s a ''user.manage'' (tenant_target (ac_tenant_id a)) False) (\<lambda>_. Inr (the (ac_tenant_id a))))"

record sso_request =
  sq_issuer :: string
  sq_client_id :: string
  sq_client_secret :: string
  sq_default_role :: string
  sq_allowed_email_domain :: "string option"

definition discovery_failed :: "string \<Rightarrow> err" where
  "discovery_failed issuer = DomainErr (''OpenID discovery failed: could not fetch '' @ rstrip_by (\<lambda>c. c = CHR ''/'') issuer @
     ''/.well-known/openid-configuration. Check that the issuer URL is correct and reachable from the platform.'')"

definition configure_sso :: "idp \<Rightarrow> auth_platform \<Rightarrow> env \<Rightarrow> string \<Rightarrow> sso_request \<Rightarrow> actor_context \<Rightarrow> db \<Rightarrow> (db \<times> audit_req) res" where
  "configure_sso d p e nonce q a s =
     ebind (tenant_admin s a) (\<lambda>tenant.
     ebind (case discover d (sq_issuer q) of Inl (DomainErr m) \<Rightarrow> Inl (DomainErr m) | Inl _ \<Rightarrow> Inl (discovery_failed (sq_issuer q)) | Inr x \<Rightarrow> Inr x) (\<lambda>ep.
     ebind (sql_required (id_real_text d) (ep_issuer ep)) (\<lambda>issuer.
     ebind (upsert_sso_configuration p e nonce
         \<lparr>sg_tenant_id = tenant, sg_issuer = issuer, sg_client_id = sq_client_id q, sg_client_secret = sq_client_secret q,
          sg_authorization_endpoint = ep_authorization ep, sg_token_endpoint = ep_token ep, sg_jwks_uri = ep_jwks ep,
          sg_default_role = sq_default_role q, sg_allowed_email_domain = sq_allowed_email_domain q, sg_enabled = True,
          sg_created_by = Some (ac_user_ref a), sg_created_at = db_now e, sg_updated_at = db_now e\<rparr> s) (\<lambda>s1.
       Inr (s1, audit_entry (ac_user_ref a) ''sso.configure'' (Some tenant) ''sso'' tenant
              (Some (JObj [(''issuer'', ep_issuer ep), (''default_role'', JStr (sq_default_role q))])))))))"

definition remove_sso :: "env \<Rightarrow> actor_context \<Rightarrow> db \<Rightarrow> (db \<times> audit_req) res" where
  "remove_sso e a s =
     ebind (tenant_admin s a) (\<lambda>tenant.
       Inr (disable_sso_configuration e tenant s, audit_entry (ac_user_ref a) ''sso.disable'' (Some tenant) ''sso'' tenant None))"

text \<open>An error of the flow as the route reports it.\<close>

definition flow_error :: "(string \<Rightarrow> err) \<Rightarrow> 'a res \<Rightarrow> 'a res" where
  "flow_error f r = (case r of Inl (DomainErr m) \<Rightarrow> Inl (f m) | _ \<Rightarrow> r)"

definition sso_start :: "auth_platform \<Rightarrow> env \<Rightarrow> login_tokens \<Rightarrow> web_request \<Rightarrow> string \<Rightarrow> db \<Rightarrow> db \<times> string res" where
  "sso_start p e k q tenant s =
     (case external_base_url e q of
        Inl x \<Rightarrow> (s, Inl x)
      | Inr _ \<Rightarrow> (case start_login p e k tenant s of (s1, r) \<Rightarrow> (s1, flow_error NotFound r)))"

text \<open>A person the provider vouched for gets a session.\<close>

definition federated_session :: "auth_platform \<Rightarrow> env \<Rightarrow> string \<Rightarrow> string \<Rightarrow> platform_user \<Rightarrow> db \<Rightarrow> string reply" where
  "federated_session p e session_token action u s =
     (case create_session e (ap_auth p) session_token (pu_user_ref u) s of
        Inl x \<Rightarrow> (purge_expired_sessions e s, [], Inl x)
      | Inr (s1, cookie) \<Rightarrow> (s1, [entry (pu_user_ref u) action (pu_tenant_id u) None], Inr cookie))"

record callback =
  cb_code :: "string option"
  cb_state :: "string option"
  cb_cookie :: "string option"
  cb_from :: web_request

definition sso_callback :: "idp \<Rightarrow> auth_platform \<Rightarrow> env \<Rightarrow> string \<Rightarrow> callback \<Rightarrow> db \<Rightarrow> string reply" where
  "sso_callback d p e session_token q s =
     (if \<not> nonempty (cb_code q) \<or> \<not> nonempty (cb_state q) then (s, [], Inl (DomainErr ''missing code or state''))
      else if \<not> nonempty (cb_cookie q) \<or> cb_cookie q \<noteq> cb_state q then (s, [], Inl (AuthErr ''SSO state does not match this browser session''))
      else case external_base_url e (cb_from q) of
        Inl x \<Rightarrow> (s, [], Inl x)
      | Inr base \<Rightarrow>
          (case complete_login d p e (the (cb_code q)) (the (cb_state q)) (base @ ''/api/auth/sso/callback'') s of
             (s1, Inl x) \<Rightarrow> (s1, [], flow_error AuthErr (Inl x))
           | (s1, Inr u) \<Rightarrow> federated_session p e session_token ''auth.sso_login'' u s1))"

section \<open>storage/saml.py\<close>

definition REQUEST_TTL_MINUTES :: int where "REQUEST_TTL_MINUTES = 10"

definition upsert_saml_configuration :: "env \<Rightarrow> saml_config \<Rightarrow> db \<Rightarrow> db" where
  "upsert_saml_configuration e c s =
     (let row = c\<lparr>sm_enabled := True, sm_created_at := db_now e, sm_updated_at := db_now e\<rparr> in
      s\<lparr>saml_configurations := upsert sm_tenant_id
          (\<lambda>r. row\<lparr>sm_created_by := sm_created_by r, sm_created_at := sm_created_at r\<rparr>) row (saml_configurations s)\<rparr>)"

definition load_saml_configuration :: "db \<Rightarrow> string \<Rightarrow> saml_config option" where
  "load_saml_configuration s tenant = by_key sm_tenant_id tenant (saml_configurations s)"

definition disable_saml_configuration :: "env \<Rightarrow> string \<Rightarrow> db \<Rightarrow> db" where
  "disable_saml_configuration e tenant s =
     s\<lparr>saml_configurations := update_where (\<lambda>r. sm_tenant_id r = tenant) (\<lambda>r. r\<lparr>sm_enabled := False, sm_updated_at := db_now e\<rparr>) (saml_configurations s)\<rparr>"

definition create_saml_request :: "env \<Rightarrow> string \<Rightarrow> string \<Rightarrow> db \<Rightarrow> (db \<times> string) res" where
  "create_saml_request e random tenant s =
     (let rows = delete_where (\<lambda>r. sr_expires_at r \<le> env_now e) (saml_requests s); rid = CHR ''_'' # random in
      if rid \<in> set (map sr_request_id rows) then Inl (RuntimeErr ''IntegrityError'')
      else Inr (s\<lparr>saml_requests := rows @ [\<lparr>sr_request_id = rid, sr_tenant_id = tenant, sr_created_at = env_now e,
             sr_expires_at = env_now e + minutes REQUEST_TTL_MINUTES\<rparr>]\<rparr>, rid))"

definition consume_saml_request :: "env \<Rightarrow> string \<Rightarrow> db \<Rightarrow> db \<times> saml_request option" where
  "consume_saml_request e rid s =
     (s\<lparr>saml_requests := delete_where (\<lambda>r. sr_request_id r = rid) (saml_requests s)\<rparr>,
      find (\<lambda>r. sr_request_id r = rid \<and> env_now e < sr_expires_at r) (saml_requests s))"

section \<open>services/saml.py\<close>

definition sp_entity_id :: "string \<Rightarrow> string" where
  "sp_entity_id base = rstrip_by (\<lambda>c. c = CHR ''/'') base @ ''/api/auth/saml/metadata''"

definition acs_url :: "string \<Rightarrow> string" where
  "acs_url base = rstrip_by (\<lambda>c. c = CHR ''/'') base @ ''/api/auth/saml/acs''"

definition SAML_SUCCESS :: string where "SAML_SUCCESS = ''urn:oasis:names:tc:SAML:2.0:status:Success''"

definition SAML_BEARER :: string where "SAML_BEARER = ''urn:oasis:names:tc:SAML:2.0:cm:bearer''"

definition CLOCK_SKEW :: int where "CLOCK_SKEW = minutes 3"

abbreviation samlp :: "string \<Rightarrow> string \<times> string" where "samlp n \<equiv> (''urn:oasis:names:tc:SAML:2.0:protocol'', n)"

abbreviation saml :: "string \<Rightarrow> string \<times> string" where "saml n \<equiv> (''urn:oasis:names:tc:SAML:2.0:assertion'', n)"

text \<open>\<open>findall\<close>, \<open>find\<close> and \<open>findtext\<close> along a path of child elements.\<close>

fun xfindall :: "(string \<times> string) list \<Rightarrow> xml \<Rightarrow> xml list" where
  "xfindall [] x = [x]"
| "xfindall (n # ns) x = concat (map (xfindall ns) (filter (\<lambda>c. (xe_ns c, xe_name c) = n) (xe_children x)))"

definition xfind :: "(string \<times> string) list \<Rightarrow> xml \<Rightarrow> xml option" where
  "xfind ns x = (case xfindall ns x of [] \<Rightarrow> None | c # _ \<Rightarrow> Some c)"

definition xfindtext :: "(string \<times> string) list \<Rightarrow> xml \<Rightarrow> string" where
  "xfindtext ns x = or_str (Option.bind (xfind ns x) xe_text) []"

definition attr_of :: "xml \<Rightarrow> string \<Rightarrow> string option" where
  "attr_of x n = map_of (xe_attrs x) n"

definition build_authn_redirect :: "env \<Rightarrow> string \<Rightarrow> string \<Rightarrow> db \<Rightarrow> (db \<times> string) res" where
  "build_authn_redirect e random tenant s =
     (case load_saml_configuration s tenant of
        None \<Rightarrow> Inl (DomainErr ''SAML SSO is not configured for this organization'')
      | Some c \<Rightarrow> if \<not> sm_enabled c then Inl (DomainErr ''SAML SSO is not configured for this organization'') else create_saml_request e random tenant s)"

definition replace_Z :: "string \<Rightarrow> string" where
  "replace_Z t = concat (map (\<lambda>c. if c = CHR ''Z'' then ''+00:00'' else [c]) t)"

definition parse_time :: "string option \<Rightarrow> int option res" where
  "parse_time v =
     (if \<not> nonempty v then Inr None
      else case datetime_fromisoformat (replace_Z (the v)) of None \<Rightarrow> Inl (ValueErr ''Invalid isoformat string'') | Some t \<Rightarrow> Inr (Some t))"

text \<open>The assertion inside what was signed.\<close>

definition signed_assertion :: "idp \<Rightarrow> saml_config \<Rightarrow> xml \<Rightarrow> xml res" where
  "signed_assertion d c doc =
     (case id_verify d doc (sm_idp_certificate c) of
        None \<Rightarrow> Inl (DomainErr ''SAML signature verification failed'')
      | Some signed \<Rightarrow>
          if xe_name signed = ''Response''
          then (case xfind [saml ''Assertion''] signed of None \<Rightarrow> Inl (DomainErr ''no Assertion inside the signed Response'') | Some x \<Rightarrow> Inr x)
          else if xe_name signed = ''Assertion'' then Inr signed
          else Inl (DomainErr ''signed element is neither a Response nor an Assertion''))"

definition check_conditions :: "env \<Rightarrow> string \<Rightarrow> xml \<Rightarrow> unit res" where
  "check_conditions e base assertion =
     (case xfind [saml ''Conditions''] assertion of
        None \<Rightarrow> Inl (DomainErr ''assertion lacks Conditions'')
      | Some cs \<Rightarrow>
          ebind (parse_time (attr_of cs ''NotBefore'')) (\<lambda>nb. ebind (parse_time (attr_of cs ''NotOnOrAfter'')) (\<lambda>na.
          case na of
            None \<Rightarrow> Inl (DomainErr ''assertion Conditions lack NotOnOrAfter'')
          | Some na1 \<Rightarrow>
              if (case nb of None \<Rightarrow> False | Some nb1 \<Rightarrow> env_now e + CLOCK_SKEW < nb1) then Inl (DomainErr ''assertion is not yet valid'')
              else if na1 \<le> env_now e - CLOCK_SKEW then Inl (DomainErr ''assertion has expired'')
              else let auds = map py_strip (filter (\<lambda>t. t \<noteq> []) (List.map_filter xe_text (xfindall [saml ''AudienceRestriction'', saml ''Audience''] cs))) in
                if auds = [] then Inl (DomainErr ''assertion lacks an AudienceRestriction'')
                else if sp_entity_id base \<notin> set auds then Inl (DomainErr ''assertion audience does not include this service provider'')
                else Inr ())))"

definition check_confirmation :: "env \<Rightarrow> string \<Rightarrow> string \<Rightarrow> xml \<Rightarrow> unit res" where
  "check_confirmation e base in_response_to assertion =
     (case xfind [saml ''Subject'', saml ''SubjectConfirmation''] assertion of
        None \<Rightarrow> Inl (DomainErr ''assertion lacks a bearer SubjectConfirmation'')
      | Some conf \<Rightarrow>
          if attr_of conf ''Method'' \<noteq> Some SAML_BEARER then Inl (DomainErr ''assertion lacks a bearer SubjectConfirmation'')
          else case xfind [saml ''SubjectConfirmationData''] conf of
            None \<Rightarrow> Inl (DomainErr ''assertion lacks SubjectConfirmationData'')
          | Some dt \<Rightarrow>
              if attr_of dt ''InResponseTo'' \<noteq> Some in_response_to then Inl (DomainErr ''SubjectConfirmationData InResponseTo does not match the login request'')
              else if attr_of dt ''Recipient'' \<noteq> Some (acs_url base) then Inl (DomainErr ''SubjectConfirmationData Recipient is not this ACS URL'')
              else ebind (parse_time (attr_of dt ''NotOnOrAfter'')) (\<lambda>na. case na of
                None \<Rightarrow> Inl (DomainErr ''SubjectConfirmationData lacks NotOnOrAfter'')
              | Some na1 \<Rightarrow> if na1 \<le> env_now e - CLOCK_SKEW then Inl (DomainErr ''subject confirmation has expired'') else Inr ()))"

definition saml_attributes :: "xml \<Rightarrow> (string \<times> string) list" where
  "saml_attributes assertion =
     foldl (\<lambda>d x. case filter (\<lambda>t. t \<noteq> []) (List.map_filter xe_text (xfindall [saml ''AttributeValue''] x)) of
         [] \<Rightarrow> d
       | v # _ \<Rightarrow> dict_set (or_str (attr_of x ''Name'') []) (py_strip v) d) [] (xfindall [saml ''AttributeStatement'', saml ''Attribute''] assertion)"

text \<open>The first of the named attributes that is there and not empty.\<close>

definition first_attr :: "(string \<times> string) list \<Rightarrow> string list \<Rightarrow> string \<Rightarrow> string" where
  "first_attr d names dflt = (case filter (\<lambda>v. v \<noteq> []) (List.map_filter (map_of d) names) of [] \<Rightarrow> dflt | v # _ \<Rightarrow> v)"

definition EMAIL_CLAIM :: string where "EMAIL_CLAIM = ''http://schemas.xmlsoap.org/ws/2005/05/identity/claims/emailaddress''"

definition NAME_CLAIM :: string where "NAME_CLAIM = ''http://schemas.xmlsoap.org/ws/2005/05/identity/claims/name''"

definition saml_email :: "xml \<Rightarrow> string" where
  "saml_email assertion =
     (let name_id = py_strip (xfindtext [saml ''Subject'', saml ''NameID''] assertion) in
      normalize_email (first_attr (saml_attributes assertion) [''email'', ''mail'', EMAIL_CLAIM] (if CHR ''@'' \<in> set name_id then name_id else [])))"

definition saml_name :: "xml \<Rightarrow> json" where
  "saml_name assertion = (let n = first_attr (saml_attributes assertion) [''displayName'', NAME_CLAIM, ''name''] [] in if n = [] then JNull else JStr n)"

text \<open>Everything that is checked of a response once its pending request is known.\<close>

definition saml_identity :: "idp \<Rightarrow> env \<Rightarrow> string \<Rightarrow> saml_config \<Rightarrow> string \<Rightarrow> xml \<Rightarrow> (string \<times> json) res" where
  "saml_identity d e base c in_response_to doc =
     (case xfind [samlp ''Status'', samlp ''StatusCode''] doc of
        None \<Rightarrow> Inl (DomainErr ''identity provider returned a non-success status'')
      | Some st \<Rightarrow>
          if attr_of st ''Value'' \<noteq> Some SAML_SUCCESS then Inl (DomainErr ''identity provider returned a non-success status'')
          else ebind (signed_assertion d c doc) (\<lambda>assertion.
            if py_strip (xfindtext [saml ''Issuer''] assertion) \<noteq> sm_idp_entity_id c
            then Inl (DomainErr ''assertion Issuer does not match the configured identity provider'')
            else ebind (check_conditions e base assertion) (\<lambda>_. ebind (check_confirmation e base in_response_to assertion) (\<lambda>_.
              let email = saml_email assertion in
              if email = [] then Inl (DomainErr ''identity provider did not supply an email (NameID or email attribute)'')
              else if \<not> permitted_domain (sm_allowed_email_domain c) email then Inl (DomainErr ''email domain is not permitted for this organization'')
              else Inr (email, JObj [(''email'', JStr email), (''name'', saml_name assertion)])))))"

definition process_response :: "idp \<Rightarrow> env \<Rightarrow> string \<Rightarrow> string \<Rightarrow> string \<Rightarrow> db \<Rightarrow> db \<times> platform_user res" where
  "process_response d e response_b64 base expected s =
     (case id_xml d response_b64 of
        None \<Rightarrow> (s, Inl (DomainErr ''SAMLResponse is not valid base64 XML''))
      | Some doc \<Rightarrow>
          let rid = attr_of doc ''InResponseTo'' in
          if \<not> nonempty rid then (s, Inl (DomainErr ''SAML Response lacks InResponseTo; unsolicited responses are not accepted''))
          else if rid \<noteq> Some expected then (s, Inl (DomainErr ''SAML Response does not match the login request from this browser''))
          else case consume_saml_request e expected s of
            (s1, None) \<Rightarrow> (s1, Inl (DomainErr ''SAML Response does not match a pending login request (unknown, expired, or replayed)''))
          | (s1, Some r) \<Rightarrow>
              (case load_saml_configuration s1 (sr_tenant_id r) of
                 None \<Rightarrow> (s1, Inl (DomainErr ''SAML SSO is not configured for this organization''))
               | Some c \<Rightarrow>
                   if \<not> sm_enabled c then (s1, Inl (DomainErr ''SAML SSO is not configured for this organization''))
                   else case saml_identity d e base c expected doc of
                     Inl x \<Rightarrow> (s1, Inl x)
                   | Inr (email, claims) \<Rightarrow>
                       provision_user (id_real_text d) e (sr_tenant_id r) email claims (Some (sm_default_role c)) (Some True) s1))"

section \<open>api/saml.py\<close>

record saml_config_request =
  mq_idp_entity_id :: string
  mq_idp_sso_url :: string
  mq_idp_certificate :: string
  mq_default_role :: string
  mq_allowed_email_domain :: "string option"

fun has_infix :: "string \<Rightarrow> string \<Rightarrow> bool" where
  "has_infix t [] = (t = [])"
| "has_infix t (c # cs) = (starts_with t (c # cs) \<or> has_infix t cs)"

definition configure_saml :: "env \<Rightarrow> saml_config_request \<Rightarrow> actor_context \<Rightarrow> db \<Rightarrow> (db \<times> audit_req) res" where
  "configure_saml e q a s =
     ebind (tenant_admin s a) (\<lambda>tenant.
       let cert = py_strip (mq_idp_certificate q) in
       if \<not> has_infix ''BEGIN CERTIFICATE'' cert then Inl (DomainErr ''idp_certificate must be a PEM-encoded X.509 certificate'')
       else Inr (upsert_saml_configuration e
           \<lparr>sm_tenant_id = tenant, sm_idp_entity_id = py_strip (mq_idp_entity_id q), sm_idp_sso_url = py_strip (mq_idp_sso_url q), sm_idp_certificate = cert,
            sm_default_role = mq_default_role q, sm_allowed_email_domain = mq_allowed_email_domain q, sm_enabled = True,
            sm_created_by = Some (ac_user_ref a), sm_created_at = db_now e, sm_updated_at = db_now e\<rparr> s,
         audit_entry (ac_user_ref a) ''saml.configure'' (Some tenant) ''saml'' tenant (Some (JObj [(''idp_entity_id'', JStr (mq_idp_entity_id q))]))))"

definition remove_saml :: "env \<Rightarrow> actor_context \<Rightarrow> db \<Rightarrow> (db \<times> audit_req) res" where
  "remove_saml e a s =
     ebind (tenant_admin s a) (\<lambda>tenant.
       Inr (disable_saml_configuration e tenant s, audit_entry (ac_user_ref a) ''saml.disable'' (Some tenant) ''saml'' tenant None))"

definition saml_start :: "env \<Rightarrow> string \<Rightarrow> web_request \<Rightarrow> string \<Rightarrow> db \<Rightarrow> (db \<times> string) res" where
  "saml_start e random q tenant s =
     ebind (external_base_url e q) (\<lambda>_. flow_error NotFound (build_authn_redirect e random tenant s))"

definition saml_acs :: "idp \<Rightarrow> auth_platform \<Rightarrow> env \<Rightarrow> string \<Rightarrow> string \<Rightarrow> string option \<Rightarrow> web_request \<Rightarrow> db \<Rightarrow> string reply" where
  "saml_acs d p e session_token response_b64 cookie q s =
     (if \<not> nonempty cookie then (s, [], Inl (AuthErr ''SAML login was not started from this browser''))
      else case external_base_url e q of
        Inl x \<Rightarrow> (s, [], Inl x)
      | Inr base \<Rightarrow>
          (case process_response d e response_b64 base (the cookie) s of
             (s1, Inl x) \<Rightarrow> (s1, [], flow_error AuthErr (Inl x))
           | (s1, Inr u) \<Rightarrow> federated_session p e session_token ''auth.saml_login'' u s1))"

end
