(* ===== verification/Provisioning.thy ===== *)
theory Provisioning
  imports Federation
begin

text \<open>
  Provisioning of users by the directory of an organization (SCIM 2.0: storage/scim.py, api/scim.py). A token is bound to one organization and only its
  hash is stored. A route runs in one transaction: an exception undoes it, an error answer does not. The description of the service
  is left out.
\<close>

section \<open>storage/scim.py\<close>

definition SCIM_TOKEN_PREFIX :: string where "SCIM_TOKEN_PREFIX = ''nrs_''"

definition create_scim_token :: "env \<Rightarrow> string \<Rightarrow> string \<Rightarrow> string \<Rightarrow> string option \<Rightarrow> db \<Rightarrow> (db \<times> string \<times> string) res" where
  "create_scim_token e random tenant name created_by s =
     (let token = SCIM_TOKEN_PREFIX @ random; tid = take (length SCIM_TOKEN_PREFIX + 8) token; h = env_sha256 e token in
      if tid \<in> set (map stk_token_id (scim_tokens s)) \<or> h \<in> set (map stk_token_hash (scim_tokens s)) then Inl (RuntimeErr ''IntegrityError'')
      else Inr (s\<lparr>scim_tokens := scim_tokens s @ [\<lparr>stk_token_id = tid, stk_token_hash = h, stk_tenant_id = tenant, stk_name = name, stk_status = ''active'',
             stk_created_by = created_by, stk_created_at = db_now e, stk_last_used_at = None\<rparr>]\<rparr>, token, tid))"

definition resolve_scim_token :: "env \<Rightarrow> string \<Rightarrow> db \<Rightarrow> db \<times> scim_token option" where
  "resolve_scim_token e token s =
     (if token = [] then (s, None)
      else case find (\<lambda>r. stk_token_hash r = env_sha256 e token \<and> stk_status r = ''active'') (scim_tokens s) of
        None \<Rightarrow> (s, None)
      | Some r \<Rightarrow>
          (case load_organization s (stk_tenant_id r) of
             None \<Rightarrow> (s, None)
           | Some o1 \<Rightarrow>
               if og_status o1 \<noteq> ''active'' then (s, None)
               else (s\<lparr>scim_tokens := update_where (\<lambda>x. stk_token_id x = stk_token_id r) (\<lambda>x. x\<lparr>stk_last_used_at := Some (db_now e)\<rparr>) (scim_tokens s)\<rparr>,
                     Some r)))"

definition list_scim_tokens :: "string \<Rightarrow> db \<Rightarrow> scim_token list" where
  "list_scim_tokens tenant s = sort_key (\<lambda>r. - stk_created_at r) (filter (\<lambda>r. stk_tenant_id r = tenant) (scim_tokens s))"

definition revoke_scim_token :: "string \<Rightarrow> string \<Rightarrow> db \<Rightarrow> db res" where
  "revoke_scim_token tid tenant s =
     (if \<not> exists_row (\<lambda>r. stk_token_id r = tid \<and> stk_tenant_id r = tenant) (scim_tokens s)
      then Inl (DomainErr ''SCIM token not found in this organization'')
      else Inr (s\<lparr>scim_tokens := update_where (\<lambda>r. stk_token_id r = tid) (\<lambda>r. r\<lparr>stk_status := ''revoked''\<rparr>) (scim_tokens s)\<rparr>))"

definition set_user_external_id :: "env \<Rightarrow> string \<Rightarrow> string option \<Rightarrow> db \<Rightarrow> db" where
  "set_user_external_id e user_ref external_id =
     update_user user_ref (\<lambda>u. u\<lparr>pu_external_id := external_id, pu_updated_at := db_now e\<rparr>)"

section \<open>Requests\<close>

definition scim_tenant :: "env \<Rightarrow> string option \<Rightarrow> db \<Rightarrow> db \<times> string res" where
  "scim_tenant e authorization s =
     (let c = cut_at (CHR '' '') (or_str authorization []);
          (s1, r) = (if py_lower (fst c) = ''bearer'' then resolve_scim_token e (py_strip (after_cut c)) s else (s, None))
      in (s1, case r of None \<Rightarrow> Inl (AuthErr ''Invalid or missing SCIM token'') | Some t \<Rightarrow> Inr (stk_tenant_id t)))"

text \<open>The answer of a route: a status with a message, or the user as the directory sees it.\<close>

datatype scim_reply = ScimError int string | ScimUser json | ScimNoContent

definition to_scim_user :: "platform_user \<Rightarrow> json" where
  "to_scim_user u =
     (let address = or_str (pu_email u) (pu_user_ref u) in
      JObj [(''schemas'', JArr [JStr ''urn:ietf:params:scim:schemas:core:2.0:User'']), (''id'', JStr (pu_user_ref u)),
        (''externalId'', opt_json (pu_external_id u)), (''userName'', JStr address), (''displayName'', JStr (pu_display_name u)),
        (''name'', JObj [(''formatted'', JStr (pu_display_name u))]),
        (''emails'', JArr [JObj [(''value'', JStr address), (''primary'', JBool True)]]), (''active'', JBool (pu_status u = ''active'')),
        (''meta'', JObj [(''resourceType'', JStr ''User''), (''created'', JStr (db_text (pu_created_at u))),
           (''lastModified'', JStr (db_text (pu_updated_at u))), (''location'', JStr (''/scim/v2/Users/'' @ pu_user_ref u))])])"

definition load_tenant_user :: "db \<Rightarrow> string \<Rightarrow> string \<Rightarrow> platform_user option" where
  "load_tenant_user s user_ref tenant =
     (case load_platform_user s user_ref of None \<Rightarrow> None | Some u \<Rightarrow> if pu_tenant_id u \<noteq> Some tenant then None else Some u)"

definition default_role :: "auth_platform \<Rightarrow> db \<Rightarrow> string \<Rightarrow> string res" where
  "default_role p s tenant = ebind (load_sso_configuration p s tenant) (\<lambda>c. Inr (federated_role (map_option sg_default_role c)))"

text \<open>\<open>text.split(" ", 2)\<close>\<close>

definition split_three :: "string \<Rightarrow> string list" where
  "split_three t =
     (case cut_at (CHR '' '') t of
        (a, None) \<Rightarrow> [a]
      | (a, Some r) \<Rightarrow> (case cut_at (CHR '' '') r of (b, None) \<Rightarrow> [a, b] | (b, Some c) \<Rightarrow> [a, b, c]))"

definition unsupported_filter :: err where
  "unsupported_filter = DomainErr (''unsupported filter; only '' @ sq @ ''userName eq '' @ [CHR 0x22] @ ''value'' @ [CHR 0x22] @ sq @ '' is supported'')"

definition parse_filter :: "string option \<Rightarrow> string option res" where
  "parse_filter f =
     (if \<not> nonempty f then Inr None
      else case split_three (py_strip (the f)) of
        [a, op1, v] \<Rightarrow>
          if py_lower a \<in> {''username'', ''emails.value''} \<and> py_lower op1 = ''eq''
          then (let q = (\<lambda>c. c = CHR 0x22) in Inr (Some (py_lower (rstrip_by q (lstrip_by q (py_strip v))))))
          else Inl unsupported_filter
      | _ \<Rightarrow> Inl unsupported_filter)"

definition scim_page :: "db \<Rightarrow> string \<Rightarrow> string option \<Rightarrow> int \<Rightarrow> int \<Rightarrow> (int \<times> int \<times> platform_user list) res" where
  "scim_page s tenant f start_index page_size =
     ebind (parse_filter f) (\<lambda>wanted.
       let all = filter (\<lambda>u. \<not> nonempty (pu_platform_role u)) (list_platform_users (Some tenant) s);
           users = (if nonempty wanted then filter (\<lambda>u. py_lower (or_str (pu_email u) (pu_user_ref u)) = the wanted) all else all);
           start = max start_index 1 in
       Inr (int (length users), start, take (nat (max 1 (min page_size 200))) (drop (nat (start - 1)) users)))"

definition scim_get_user :: "db \<Rightarrow> string \<Rightarrow> string \<Rightarrow> scim_reply" where
  "scim_get_user s user_ref tenant =
     (case load_tenant_user s user_ref tenant of None \<Rightarrow> ScimError 404 ''User not found'' | Some u \<Rightarrow> ScimUser (to_scim_user u))"

record scim_user_in =
  si_user_name :: string
  si_display_name :: "string option"
  si_external_id :: "string option"
  si_active :: bool
  si_name :: "dict option"

definition name_part :: "scim_user_in \<Rightarrow> string \<Rightarrow> json" where
  "name_part q k = (case si_name q of None \<Rightarrow> JNull | Some d \<Rightarrow> dget d k JNull)"

text \<open>\<open>" ".join\<close> takes texts only.\<close>

definition scim_display_name :: "scim_user_in \<Rightarrow> json res" where
  "scim_display_name q =
     (if nonempty (si_display_name q) then Inr (JStr (the (si_display_name q)))
      else if truthy (name_part q ''formatted'') then Inr (name_part q ''formatted'')
      else let parts = filter truthy [name_part q ''givenName'', name_part q ''familyName''] in
        if parts = [] then Inr (JStr (si_user_name q))
        else if list_all is_str parts then Inr (JStr (join_with '' '' (map str_of parts))) else Inl TypeErr)"

definition scim_create_user :: "auth_platform \<Rightarrow> env \<Rightarrow> (rat \<Rightarrow> string) \<Rightarrow> string \<Rightarrow> scim_user_in \<Rightarrow> db \<Rightarrow> (db \<times> audit_req list \<times> scim_reply) res" where
  "scim_create_user p e rt tenant q s =
     (let email = normalize_email (si_user_name q) in
      case get_user_by_email s email of
        Some u \<Rightarrow>
          Inr (s, [], ScimError 409 (if pu_tenant_id u \<noteq> Some tenant then ''userName belongs to another organization'' else ''User already exists''))
      | None \<Rightarrow>
          ebind (scim_display_name q) (\<lambda>dn. ebind (sql_required rt dn) (\<lambda>name.
          let s1 = create_platform_user e \<lparr>nu_user_ref = email, nu_display_name = name, nu_email = email, nu_password_hash = [],
                nu_status = (if si_active q then ''active'' else ''suspended''), nu_platform_role = None, nu_tenant_id = Some tenant,
                nu_must_change_password = False\<rparr> s;
              s2 = (if nonempty (si_external_id q) then set_user_external_id e email (si_external_id q) s1 else s1) in
          ebind (default_role p s2 tenant) (\<lambda>role.
          case load_platform_user s1 email of
            None \<Rightarrow> Inl TypeErr
          | Some u \<Rightarrow>
              Inr (upsert_role_assignment e (Some tenant) None None email role ''active'' s2,
                   [audit_entry ''scim'' ''scim.user.create'' (Some tenant) ''user'' email None],
                   ScimUser (to_scim_user (if nonempty (si_external_id q) then u\<lparr>pu_external_id := si_external_id q\<rparr> else u)))))))"

definition apply_active :: "env \<Rightarrow> string \<Rightarrow> string \<Rightarrow> bool \<Rightarrow> db \<Rightarrow> (db \<times> audit_req) res" where
  "apply_active e user_ref tenant active s =
     ebind (set_user_status e user_ref (if active then ''active'' else ''suspended'') s) (\<lambda>(s1, _).
       Inr (if active then s1 else end_all_sessions user_ref s1,
            audit_entry ''scim'' (if active then ''scim.user.activate'' else ''scim.user.deactivate'') (Some tenant) ''user'' user_ref None))"

definition shown_user :: "db \<Rightarrow> string \<Rightarrow> platform_user \<Rightarrow> scim_reply" where
  "shown_user s user_ref u = ScimUser (to_scim_user (case load_platform_user s user_ref of None \<Rightarrow> u | Some v \<Rightarrow> v))"

definition scim_replace_user :: "env \<Rightarrow> (rat \<Rightarrow> string) \<Rightarrow> string \<Rightarrow> string \<Rightarrow> scim_user_in \<Rightarrow> db \<Rightarrow> (db \<times> audit_req list \<times> scim_reply) res" where
  "scim_replace_user e rt tenant user_ref q s =
     (case load_tenant_user s user_ref tenant of
        None \<Rightarrow> Inr (s, [], ScimError 404 ''User not found'')
      | Some u \<Rightarrow>
          ebind (scim_display_name q) (\<lambda>dn. ebind (sql_required rt dn) (\<lambda>name.
          let s1 = upsert_platform_user e user_ref name (pu_status u) s;
              s2 = (if si_external_id q \<noteq> None then set_user_external_id e user_ref (si_external_id q) s1 else s1) in
          ebind (if si_active q \<noteq> (pu_status u = ''active'') then ebind (apply_active e user_ref tenant (si_active q) s2) (\<lambda>(s3, a). Inr (s3, [a]))
                 else Inr (s2, [])) (\<lambda>(s3, es).
            Inr (s3, es @ [audit_entry ''scim'' ''scim.user.replace'' (Some tenant) ''user'' user_ref None], shown_user s3 user_ref u)))))"

section \<open>Patches\<close>

text \<open>The attributes an operation sets, in the order of the dictionary.\<close>

definition patch_updates :: "(rat \<Rightarrow> string) \<Rightarrow> dict \<Rightarrow> (string \<times> json) list" where
  "patch_updates fr op1 =
     (let path = py_lower (py_str fr (py_or (dget op1 ''path'' (JStr [])) (JStr []))); v = dget op1 ''value'' JNull in
      if path \<noteq> [] then [(path, v)]
      else case v of JObj d \<Rightarrow> fold (\<lambda>(k, x). dict_set (py_lower k) x) d [] | _ \<Rightarrow> [])"

definition patch_attribute :: "env \<Rightarrow> (rat \<Rightarrow> string) \<Rightarrow> string \<Rightarrow> string \<Rightarrow> platform_user \<Rightarrow> string \<times> json \<Rightarrow> db \<times> audit_req list \<Rightarrow> (db \<times> audit_req list) res" where
  "patch_attribute e fr tenant user_ref u = (\<lambda>(k, v) (s, es).
     if k = ''active'' then
       ebind (apply_active e user_ref tenant (case v of JBool b \<Rightarrow> b | _ \<Rightarrow> py_lower (py_str fr v) = ''true'') s) (\<lambda>(s1, a). Inr (s1, es @ [a]))
     else if k = ''displayname'' then
       Inr (upsert_platform_user e user_ref (py_str fr v) (pu_status (case load_platform_user s user_ref of None \<Rightarrow> u | Some w \<Rightarrow> w)) s, es)
     else if k = ''externalid'' then Inr (set_user_external_id e user_ref (if v = JNull then None else Some (py_str fr v)) s, es)
     else Inr (s, es))"

text \<open>An operation that is not supported ends the loop with an error answer; what the operations before it did stays.\<close>

fun patch_operations ::
  "env \<Rightarrow> (rat \<Rightarrow> string) \<Rightarrow> string \<Rightarrow> string \<Rightarrow> platform_user \<Rightarrow> dict list \<Rightarrow> db \<times> audit_req list \<Rightarrow> (db \<times> audit_req list \<times> scim_reply) res" where
  "patch_operations e fr tenant user_ref u [] st = Inr (fst st, snd st, shown_user (fst st) user_ref u)"
| "patch_operations e fr tenant user_ref u (op1 # rest) st =
     (let name = py_lower (py_str fr (dget op1 ''op'' (JStr []))) in
      if name \<notin> {''replace'', ''add''} then Inr (fst st, snd st, ScimError 400 (''unsupported op: '' @ name))
      else ebind (efold (patch_attribute e fr tenant user_ref u) (patch_updates fr op1) st) (patch_operations e fr tenant user_ref u rest))"

definition scim_patch_user :: "env \<Rightarrow> (rat \<Rightarrow> string) \<Rightarrow> string \<Rightarrow> string \<Rightarrow> dict list \<Rightarrow> db \<Rightarrow> (db \<times> audit_req list \<times> scim_reply) res" where
  "scim_patch_user e fr tenant user_ref ops s =
     (case load_tenant_user s user_ref tenant of
        None \<Rightarrow> Inr (s, [], ScimError 404 ''User not found'')
      | Some u \<Rightarrow> patch_operations e fr tenant user_ref u ops (s, []))"

definition scim_delete_user :: "env \<Rightarrow> string \<Rightarrow> string \<Rightarrow> db \<Rightarrow> (db \<times> audit_req list \<times> scim_reply) res" where
  "scim_delete_user e tenant user_ref s =
     (case load_tenant_user s user_ref tenant of
        None \<Rightarrow> Inr (s, [], ScimError 404 ''User not found'')
      | Some _ \<Rightarrow> ebind (apply_active e user_ref tenant False s) (\<lambda>(s1, a). Inr (s1, [a], ScimNoContent)))"

section \<open>Tokens of an organization\<close>

definition create_org_scim_token :: "env \<Rightarrow> string \<Rightarrow> string \<Rightarrow> actor_context \<Rightarrow> db \<Rightarrow> (db \<times> audit_req \<times> string) res" where
  "create_org_scim_token e random name a s =
     ebind (tenant_admin s a) (\<lambda>tenant. ebind (create_scim_token e random tenant name (Some (ac_user_ref a)) s) (\<lambda>(s1, token, tid).
       Inr (s1, audit_entry (ac_user_ref a) ''scim_token.create'' (Some tenant) ''scim_token'' tid None, token)))"

definition revoke_org_scim_token :: "env \<Rightarrow> string \<Rightarrow> actor_context \<Rightarrow> db \<Rightarrow> (db \<times> audit_req) res" where
  "revoke_org_scim_token e tid a s =
     ebind (tenant_admin s a) (\<lambda>tenant. ebind (flow_error NotFound (revoke_scim_token tid tenant s)) (\<lambda>s1.
       Inr (s1, audit_entry (ac_user_ref a) ''scim_token.revoke'' (Some tenant) ''scim_token'' tid None)))"

end
