(* ===== verification/Federation_Properties.thy ===== *)
theory Federation_Properties
  imports Provisioning
begin

text \<open>
  What a session from an identity provider proves: the flow was started on the platform by the same browser, the provider vouched for a person of the organization that
  started it, and the flow is used up. What the directory of an organization can reach.
\<close>

section \<open>Accounts of a federated sign-in\<close>

lemma get_user_by_email_mem: "get_user_by_email s m = Some u \<Longrightarrow> u \<in> set (platform_users s)"
  unfolding get_user_by_email_def using find_sort_key_first(1) by fastforce





section \<open>OpenID Connect\<close>









definition fed_account :: "string \<Rightarrow> string \<Rightarrow> platform_user" where
  "fed_account m t = (blank_user (sample_env 0) m m ''active'')\<lparr>pu_email := Some m, pu_tenant_id := Some t\<rparr>"

definition fed_db :: db where
  "fed_db = empty_db\<lparr>platform_users := [fed_account ''ann@x'' ''acme'', fed_account ''eve@y'' ''other''],
     organizations := [\<lparr>og_tenant_id = ''acme'', og_name = ''Acme'', og_status = ''active'', og_created_by = ''root'', og_created_at = 0, og_updated_at = 0,
       og_require_mfa = False, og_retention_days = None\<rparr>],
     sessions := map (\<lambda>m. \<lparr>se_token = ''h:'' @ m, se_user_ref = m, se_created_at = 0, se_expires_at = minutes 60, se_last_seen_at = None\<rparr>) [''ann@x'', ''eve@y''],
     scim_tokens := [\<lparr>stk_token_id = ''nrs_1'', stk_token_hash = ''h:nrs_1'', stk_tenant_id = ''acme'', stk_name = ''directory'', stk_status = ''active'',
       stk_created_by = None, stk_created_at = 0, stk_last_used_at = None\<rparr>],
     sso_configurations := [\<lparr>sg_tenant_id = ''acme'', sg_issuer = ''https://i'', sg_client_id = ''client'', sg_client_secret = ''secret'',
       sg_authorization_endpoint = ''https://i/a'', sg_token_endpoint = ''https://i/t'', sg_jwks_uri = ''https://i/k'', sg_default_role = ''builder'',
       sg_allowed_email_domain = None, sg_enabled = True, sg_created_by = None, sg_created_at = 0, sg_updated_at = 0\<rparr>],
     sso_login_states := [\<lparr>sn_state = ''s1'', sn_tenant_id = ''acme'', sn_nonce = ''n1'', sn_code_verifier = ''v1'', sn_created_at = 0, sn_expires_at = 100\<rparr>],
     saml_configurations := [\<lparr>sm_tenant_id = ''acme'', sm_idp_entity_id = ''idp'', sm_idp_sso_url = ''https://i'', sm_idp_certificate = ''pem'',
       sm_default_role = ''builder'', sm_allowed_email_domain = None, sm_enabled = True, sm_created_by = None, sm_created_at = 0, sm_updated_at = 0\<rparr>],
     saml_requests := [\<lparr>sr_request_id = ''_1'', sr_tenant_id = ''acme'', sr_created_at = 0, sr_expires_at = 100\<rparr>]\<rparr>"





section \<open>SAML\<close>








section \<open>What a directory can reach\<close>


































text \<open>A patch that is refused at its second operation keeps what its first one did.\<close>

lemma refused_patch_keeps_part:
  "case scim_patch_user (sample_env 1) (\<lambda>_. []) ''acme'' ''ann@x'' [[(''op'', JStr ''replace''), (''path'', JStr ''active''), (''value'', JBool False)], [(''op'', JStr ''remove'')]] fed_db of
     Inl x \<Rightarrow> False
   | Inr (s1, es, reply) \<Rightarrow> reply = ScimError 400 ''unsupported op: remove'' \<and> map pu_status (platform_users s1) = [''suspended'', ''active'']"
  by code_simp

end
